(* ===== verification/Go_Prelude.thy ===== *)
theory Go_Prelude
  imports Main "HOL-Library.Word"
begin

text \<open>
  The vocabulary shared by every component theory: the machine integers of the Go code,
  Go's error values, the three ways a Go call can end (a value, an error, a panic), the
  decimal conversions of \<open>math/big\<close> and \<open>strings.ToLower\<close>, and the generic
  list and word lemmas the component proofs rest on.

  Conventions used throughout.
  \<^item> \<open>uint64\<close> is \<open>64 word\<close>: arithmetic wraps. \<open>int64\<close> is \<open>int\<close>, and every place where the
    code converts into it goes through \<open>int64_of\<close>, which wraps.
  \<^item> A slice is a list; \<open>nil\<close> and the empty slice are both \<open>[]\<close> (the code never tells them
    apart). Allocation is taken to succeed.
  \<^item> An \<open>error\<close> is a \<open>go_error\<close>: the format string of the source with its arguments.
  \<^item> Logging has no effect on the state and is left out.
\<close>

named_theorems go_simps \<open>unfolding rules of the Go run-time vocabulary\<close>
named_theorems go_splits_simps \<open>facts that resolve outcomes and lookups\<close>

subsection \<open>Machine integers and bytes\<close>

type_synonym u64 = "64 word"
type_synonym byte = "8 word"
type_synonym bytes = "byte list"

text \<open>Conversion of an unbounded integer into Go's \<open>int64\<close> (two's complement).\<close>

definition int64_of :: "int \<Rightarrow> int" where
  "int64_of n = signed_take_bit 63 n"

lemma int64_of_id [simp]: "- (2 ^ 63) \<le> n \<Longrightarrow> n < 2 ^ 63 \<Longrightarrow> int64_of n = n"
  unfolding int64_of_def by (simp add: signed_take_bit_int_eq_self)

lemma int64_of_range: "- (2 ^ 63) \<le> int64_of n \<and> int64_of n < 2 ^ 63"
  unfolding int64_of_def
  using signed_take_bit_int_greater_eq_minus_exp [of 63 n] signed_take_bit_int_less_exp [of 63 n]
  by simp

lemma int64_of_idem [simp]: "int64_of (int64_of n) = int64_of n"
  using int64_of_range [of n] by simp

lemma unat_u64_less: "unat (x::u64) < 2 ^ 64"
  using unsigned_less [of x, where ?'a = nat] by simp

lemma unat_inc_u64: "(j::u64) < m \<Longrightarrow> unat (j + 1) = Suc (unat j)"
proof -
  assume "j < m"
  then have "Suc (unat j) < 2 ^ 64"
    using unat_u64_less [of m] by (simp add: word_less_nat_alt)
  then show ?thesis by (simp add: unat_word_ariths)
qed

lemma unat_add_no_wrap:
  "unat (a::u64) + unat b < 2 ^ 64 \<Longrightarrow> unat (a + b) = unat a + unat b"
  by (simp add: unat_word_ariths)

subsection \<open>Errors and outcomes\<close>

text \<open>
  \<open>fmt.Errorf format args\<close> and \<open>errors.New msg\<close> give \<open>Errorf\<close>; an error that wraps another
  (\<open>%v\<close> or \<open>err.Error()\<close> among the arguments) gives \<open>Wrapf\<close>. An error that comes out of a
  library or a service is an \<open>Errorf\<close> with its message.
\<close>

datatype go_error =
    Errorf string "string list"
  | Wrapf string "string list" go_error

text \<open>How a Go call ends: with a value, with a non-nil error, or by panicking.\<close>

datatype 'a outcome = Ok 'a | Err go_error | Panic string

fun outcome_bind :: "'a outcome \<Rightarrow> ('a \<Rightarrow> 'b outcome) \<Rightarrow> 'b outcome" where
  "outcome_bind (Ok x) f = f x"
| "outcome_bind (Err e) f = Err e"
| "outcome_bind (Panic p) f = Panic p"

fun is_Ok :: "'a outcome \<Rightarrow> bool" where
  "is_Ok (Ok _) = True"
| "is_Ok _ = False"

lemma is_Ok_iff: "is_Ok r \<longleftrightarrow> (\<exists>x. r = Ok x)"
  by (cases r) auto

lemma outcome_bind_Ok_iff [simp]:
  "outcome_bind r f = Ok y \<longleftrightarrow> (\<exists>x. r = Ok x \<and> f x = Ok y)"
  by (cases r) auto

lemma outcome_bind_Err_iff:
  "outcome_bind r f = Err e \<longleftrightarrow> r = Err e \<or> (\<exists>x. r = Ok x \<and> f x = Err e)"
  by (cases r) auto

lemma outcome_bind_Panic_iff:
  "outcome_bind r f = Panic p \<longleftrightarrow> r = Panic p \<or> (\<exists>x. r = Ok x \<and> f x = Panic p)"
  by (cases r) auto

lemma outcome_bind_assoc:
  "outcome_bind (outcome_bind r f) g = outcome_bind r (\<lambda>x. outcome_bind (f x) g)"
  by (cases r) auto

text \<open>
  A Go loop that appends one result per element and returns at the first error
  (\<open>for _, x := range xs { y, err := f(x); if err != nil { return err }; ys = append(ys, y) }\<close>).
\<close>

fun outcome_map :: "('a \<Rightarrow> 'b outcome) \<Rightarrow> 'a list \<Rightarrow> 'b list outcome" where
  "outcome_map f [] = Ok []"
| "outcome_map f (x # xs) =
     outcome_bind (f x) (\<lambda>y. outcome_bind (outcome_map f xs) (\<lambda>ys. Ok (y # ys)))"

lemma outcome_map_Ok [simp]: "outcome_map (\<lambda>x. Ok (f x)) xs = Ok (map f xs)"
  by (induction xs) auto

lemma outcome_map_Ok_iff:
  "outcome_map f xs = Ok ys \<longleftrightarrow> list_all2 (\<lambda>x y. f x = Ok y) xs ys"
  by (induction xs arbitrary: ys) (auto simp: list_all2_Cons1)

lemma outcome_map_length: "outcome_map f xs = Ok ys \<Longrightarrow> length ys = length xs"
  by (simp add: outcome_map_Ok_iff list_all2_lengthD)

lemma outcome_map_cong_Ok:
  "(\<And>x. x \<in> set xs \<Longrightarrow> f x = Ok (g x)) \<Longrightarrow> outcome_map f xs = Ok (map g xs)"
  by (induction xs) auto

lemma outcome_map_Err_cases:
  "outcome_map f xs = Err e \<Longrightarrow> \<exists>x\<in>set xs. f x = Err e"
  by (induction xs) (auto simp: outcome_bind_Err_iff)

text \<open>Indexing a slice: out of range panics.\<close>

definition slice_get :: "'a list \<Rightarrow> nat \<Rightarrow> 'a outcome" where
  "slice_get xs i =
     (if i < length xs then Ok (xs ! i) else Panic ''runtime error: index out of range'')"

lemma slice_get_Ok [simp]: "i < length xs \<Longrightarrow> slice_get xs i = Ok (xs ! i)"
  by (simp add: slice_get_def)

lemma slice_get_Ok_iff: "slice_get xs i = Ok x \<longleftrightarrow> i < length xs \<and> xs ! i = x"
  by (simp add: slice_get_def)

lemma slice_get_not_Err [simp]: "slice_get xs i \<noteq> Err e"
  by (simp add: slice_get_def)

subsection \<open>Range loops\<close>

text \<open>
  \<open>for i, x := range xs { body }\<close> over a local state \<open>s\<close>, where the body may leave the enclosing
  function with an error or panic.
\<close>

fun for_range :: "(nat \<Rightarrow> 'a \<Rightarrow> 's \<Rightarrow> 's outcome) \<Rightarrow> nat \<Rightarrow> 'a list \<Rightarrow> 's \<Rightarrow> 's outcome" where
  "for_range body i [] s = Ok s"
| "for_range body i (x # xs) s = outcome_bind (body i x s) (for_range body (i + 1) xs)"

lemma for_range_append:
  "for_range f i (xs @ ys) s
   = outcome_bind (for_range f i xs s) (for_range f (i + length xs) ys)"
proof (induction xs arbitrary: i s)
  case (Cons x xs)
  then show ?case by (cases "f i x s") simp_all
qed simp

text \<open>A loop whose every turn succeeds and appends what \<open>g\<close> gives to a view of the state.\<close>

lemma for_range_fold:
  assumes "\<And>j x s. j < length xs \<Longrightarrow> x = xs ! j \<Longrightarrow> f (i + j) x s = Ok (g (i + j) x s)"
  shows "for_range f i xs s
    = Ok (fold (\<lambda>(j, x). g j x) (zip [i ..< i + length xs] xs) s)"
  using assms
proof (induction xs arbitrary: i s)
  case (Cons x xs)
  have "f i x s = Ok (g i x s)" using Cons.prems [of 0 x s] by simp
  moreover have "for_range f (Suc i) xs (g i x s)
      = Ok (fold (\<lambda>(j, x). g j x) (zip [Suc i ..< Suc i + length xs] xs) (g i x s))"
    using Cons.prems [of "Suc j" for j] by (intro Cons.IH) simp
  ultimately show ?case by (simp add: upt_conv_Cons del: upt_Suc)
qed simp

text \<open>Invariant rule: what every successful turn keeps holds after a successful loop.\<close>

lemma for_range_inv:
  assumes "for_range f i xs s = Ok s'" "P s"
    and "\<And>j x a b. x \<in> set xs \<Longrightarrow> P a \<Longrightarrow> f j x a = Ok b \<Longrightarrow> P b"
  shows "P s'"
  using assms
proof (induction xs arbitrary: i s)
  case (Cons x xs)
  then obtain a where "f i x s = Ok a" "for_range f (i + 1) xs a = Ok s'" by auto
  then show ?case using Cons.IH [of "i + 1" a] Cons.prems(2,3) by (metis list.set_intros)
qed simp

text \<open>A loop over \<open>xs\<close> that reads the entry of the same index in a companion slice \<open>ms\<close>.\<close>

lemma for_range_zip:
  assumes "length ms = length xs"
    and "\<And>j s. j < length xs \<Longrightarrow> f (i + j) (xs ! j) s = Ok (g (xs ! j) (ms ! j) s)"
  shows "for_range f i xs s = Ok (fold (\<lambda>(x, m). g x m) (zip xs ms) s)"
  using assms
proof (induction ms xs arbitrary: i s rule: list_induct2)
  case (Cons m ms x xs)
  have "f i x s = Ok (g x m s)" using Cons.prems [of 0 s] by simp
  moreover have "for_range f (Suc i) xs (g x m s) = Ok (fold (\<lambda>(x, m). g x m) (zip xs ms) (g x m s))"
    using Cons.prems [of "Suc j" for j] by (intro Cons.IH) simp
  ultimately show ?case by simp
qed simp

lemma fold_append_concat: "fold (\<lambda>x acc. acc @ f x) xs acc = acc @ concat (map f xs)"
  by (induction xs arbitrary: acc) simp_all

lemma fold_append_concat2:
  "fold (\<lambda>x (a, b). (a @ f x, b @ g x)) xs (a, b) = (a @ concat (map f xs), b @ concat (map g xs))"
  by (induction xs arbitrary: a b) simp_all

end
