(* ===== verification/Go_Strings.thy ===== *)
theory Go_Strings
  imports Go_Prelude
begin

text \<open>
  The string conversions of Go's standard library that the program relies on: the decimal
  text of \<open>math/big\<close> (\<open>String\<close>, \<open>SetString\<close> with base 10, also \<open>strconv.Itoa\<close>), the
  hexadecimal text of \<open>encoding/hex\<close> and of \<open>fmt\<close>'s \<open>%x\<close> verb, and \<open>strings.ToLower\<close>. Strings
  are byte strings; \<open>ToLower\<close> is given on ASCII, the alphabet of every name the program
  accepts. Each printer comes with the round trip or injectivity law its clients use.
\<close>

subsection \<open>Decimal text\<close>

definition dec_digit :: "nat \<Rightarrow> char" where
  "dec_digit n = char_of (48 + n)"

definition digit_val :: "char \<Rightarrow> nat option" where
  "digit_val c = (let n = of_char c in if 48 \<le> n \<and> n \<le> (57::nat) then Some (n - 48) else None)"

lemma digit_val_dec_digit [simp]: "n < 10 \<Longrightarrow> digit_val (dec_digit n) = Some n"
  by (simp add: digit_val_def dec_digit_def of_char_of Let_def)

fun dec_nat :: "nat \<Rightarrow> string" where
  "dec_nat n = (if n < 10 then [dec_digit n] else dec_nat (n div 10) @ [dec_digit (n mod 10)])"

declare dec_nat.simps [simp del]

fun dec_parse :: "nat \<Rightarrow> string \<Rightarrow> nat option" where
  "dec_parse acc [] = Some acc"
| "dec_parse acc (c # cs) =
     (case digit_val c of None \<Rightarrow> None | Some d \<Rightarrow> dec_parse (10 * acc + d) cs)"

text \<open>\<open>(*big.Int).String\<close>\<close>

definition big_String :: "int \<Rightarrow> string" where
  "big_String n = (if n < 0 then ''-'' @ dec_nat (nat (- n)) else dec_nat (nat n))"

text \<open>\<open>(*big.Int).SetString(s, 10)\<close>: an optional sign, then at least one digit, and nothing else.\<close>

definition dec_digits :: "string \<Rightarrow> nat option" where
  "dec_digits s = (if s = [] then None else dec_parse 0 s)"

definition big_SetString :: "string \<Rightarrow> int option" where
  "big_SetString s =
     (case s of
        [] \<Rightarrow> None
      | c # cs \<Rightarrow>
          if c = CHR ''-'' then map_option (\<lambda>n. - int n) (dec_digits cs)
          else if c = CHR ''+'' then map_option int (dec_digits cs)
          else map_option int (dec_digits s))"

lemma dec_parse_append:
  "dec_parse acc (xs @ ys) = (case dec_parse acc xs of None \<Rightarrow> None | Some a \<Rightarrow> dec_parse a ys)"
  by (induction xs arbitrary: acc) (auto split: option.splits)

lemma dec_nat_ne_Nil [simp]: "dec_nat n \<noteq> []"
  by (subst dec_nat.simps) simp

lemma dec_parse_dec_nat: "dec_parse 0 (dec_nat n) = Some n"
proof (induction n rule: dec_nat.induct)
  case (1 n)
  show ?case
  proof (cases "n < 10")
    case True
    then show ?thesis by (subst dec_nat.simps) simp
  next
    case False
    with "1.IH" have "dec_parse 0 (dec_nat (n div 10)) = Some (n div 10)" by simp
    with False show ?thesis by (subst dec_nat.simps) (simp add: dec_parse_append)
  qed
qed

lemma dec_digits_dec_nat [simp]: "dec_digits (dec_nat n) = Some n"
  by (simp add: dec_digits_def dec_parse_dec_nat)

lemma hd_dec_nat: "digit_val (hd (dec_nat n)) \<noteq> None"
proof (induction n rule: dec_nat.induct)
  case (1 n)
  then show ?case
    by (subst dec_nat.simps) (cases "n < 10"; simp)
qed

lemma big_SetString_empty [simp]: "big_SetString '''' = None"
  by (simp add: big_SetString_def)

text \<open>Printing an integer and reading it back gives the integer.\<close>

lemma big_SetString_String [simp]: "big_SetString (big_String n) = Some n"
proof (cases "n < 0")
  case True
  then show ?thesis by (simp add: big_SetString_def big_String_def)
next
  case False
  obtain c cs where c: "dec_nat (nat n) = c # cs"
    by (cases "dec_nat (nat n)") auto
  with hd_dec_nat [of "nat n"] have "digit_val c \<noteq> None" by simp
  then have "c \<noteq> CHR ''-''" and "c \<noteq> CHR ''+''"
    by (auto simp: digit_val_def)
  with False c dec_digits_dec_nat [of "nat n"] show ?thesis
    by (simp add: big_SetString_def big_String_def)
qed

lemma big_String_inj: "big_String m = big_String n \<longleftrightarrow> m = n"
  by (metis big_SetString_String option.inject)

lemma big_String_ne_Nil [simp]: "big_String n \<noteq> []"
  by (simp add: big_String_def)

subsection \<open>Hexadecimal text\<close>

definition hex_digit :: "nat \<Rightarrow> char" where
  "hex_digit n = (if n < 10 then char_of (48 + n) else char_of (87 + n))"

text \<open>\<open>hex.EncodeToString\<close>, which is also go-ethereum's \<open>common.Bytes2Hex\<close>: two digits per byte.\<close>

fun hex_EncodeToString :: "bytes \<Rightarrow> string" where
  "hex_EncodeToString [] = []"
| "hex_EncodeToString (b # bs) =
     hex_digit (unat b div 16) # hex_digit (unat b mod 16) # hex_EncodeToString bs"

lemma of_char_hex_digit:
  "k < 16 \<Longrightarrow> of_char (hex_digit k) = (if k < 10 then 48 + k else 87 + k)"
  by (simp add: hex_digit_def of_char_of)

lemma hex_digit_inj:
  assumes "m < 16" "n < 16"
  shows "hex_digit m = hex_digit n \<longleftrightarrow> m = n"
proof
  assume "hex_digit m = hex_digit n"
  then have "of_char (hex_digit m) = (of_char (hex_digit n) :: nat)" by simp
  then have "(if m < 10 then 48 + m else 87 + m) = (if n < 10 then 48 + n else 87 + n)"
    by (simp only: of_char_hex_digit [OF assms(1)] of_char_hex_digit [OF assms(2)])
  with assms show "m = n" by (cases "m < 10"; cases "n < 10"; simp)
qed simp

lemma unat_byte_less: "unat (b::byte) < 256"
  using unsigned_less [of b, where ?'a = nat] by simp

lemma hex_EncodeToString_inj: "hex_EncodeToString a = hex_EncodeToString b \<longleftrightarrow> a = b"
proof (induction a arbitrary: b)
  case Nil
  then show ?case by (cases b) auto
next
  case (Cons x xs)
  show ?case
  proof (cases b)
    case Nil
    then show ?thesis by simp
  next
    case (Cons y ys)
    have "unat x div 16 < 16" and "unat y div 16 < 16"
      using unat_byte_less [of x] unat_byte_less [of y] by auto
    then have "hex_digit (unat x div 16) = hex_digit (unat y div 16)
        \<and> hex_digit (unat x mod 16) = hex_digit (unat y mod 16) \<longleftrightarrow> x = y"
      by (auto simp: hex_digit_inj) (metis div_mult_mod_eq word_unat_eq_iff)
    with Cons Cons.IH show ?thesis by auto
  qed
qed

subsection \<open>Lower case\<close>

definition lower_char :: "char \<Rightarrow> char" where
  "lower_char c =
     (let n = of_char c in if 65 \<le> n \<and> n \<le> (90::nat) then char_of (n + 32) else c)"

definition strings_ToLower :: "string \<Rightarrow> string" where
  "strings_ToLower s = map lower_char s"

lemma strings_ToLower_idem [simp]: "strings_ToLower (strings_ToLower s) = strings_ToLower s"
  by (simp add: strings_ToLower_def lower_char_def Let_def of_char_of)

end
