(* ===== verification/Shared_Types.thy ===== *)
theory Shared_Types
  imports Go_Strings
begin

text \<open>
  Package \<open>shared\<close>: the enumerations \<open>DataType\<close>, \<open>ChainType\<close> and \<open>IPFSMode\<close> with their printers
  and parsers, the table of supported data types, the \<open>Gap\<close> type and the batch constants. A
  locale states the contract every name parser of the configuration code satisfies; it is
  interpreted once per enumeration.
\<close>

subsection \<open>Data types (shared/data_type.go)\<close>

datatype DataType =
  UnknownDataType | Full | Headers | Uncles | Transactions | Receipts | State | Storage

text \<open>The constant's integer value: \<open>iota - 1\<close>.\<close>

fun DataType_iota :: "DataType \<Rightarrow> int" where
  "DataType_iota UnknownDataType = -1"
| "DataType_iota Full = 0"
| "DataType_iota Headers = 1"
| "DataType_iota Uncles = 2"
| "DataType_iota Transactions = 3"
| "DataType_iota Receipts = 4"
| "DataType_iota State = 5"
| "DataType_iota Storage = 6"

lemma DataType_iota_inj [simp]: "DataType_iota a = DataType_iota b \<longleftrightarrow> a = b"
  by (cases a; cases b) simp_all

text \<open>The enumeration is ordered as its integer constants are.\<close>

instantiation DataType :: linorder
begin

definition less_eq_DataType :: "DataType \<Rightarrow> DataType \<Rightarrow> bool" where
  "less_eq_DataType a b \<longleftrightarrow> DataType_iota a \<le> DataType_iota b"

definition less_DataType :: "DataType \<Rightarrow> DataType \<Rightarrow> bool" where
  "less_DataType a b \<longleftrightarrow> DataType_iota a < DataType_iota b"

instance
  by standard (auto simp: less_eq_DataType_def less_DataType_def order_antisym_conv)

end

fun DataType_String :: "DataType \<Rightarrow> string" where
  "DataType_String Full = ''full''"
| "DataType_String Headers = ''headers''"
| "DataType_String Uncles = ''uncles''"
| "DataType_String Transactions = ''transactions''"
| "DataType_String Receipts = ''receipts''"
| "DataType_String State = ''state''"
| "DataType_String Storage = ''storage''"
| "DataType_String UnknownDataType = ''unknown''"

definition GenerateDataTypeFromString :: "string \<Rightarrow> DataType outcome" where
  "GenerateDataTypeFromString str =
     (let s = strings_ToLower str in
      if s \<in> {''full'', ''f''} then Ok Full
      else if s \<in> {''headers'', ''header'', ''h''} then Ok Headers
      else if s \<in> {''uncles'', ''u''} then Ok Uncles
      else if s \<in> {''transactions'', ''transaction'', ''trxs'', ''txs'', ''trx'', ''tx'', ''t''}
        then Ok Transactions
      else if s \<in> {''receipts'', ''receipt'', ''rcts'', ''rct'', ''r''} then Ok Receipts
      else if s = ''state'' then Ok State
      else if s = ''storage'' then Ok Storage
      else Err (Errorf ''unrecognized resync type: %s'' [str]))"

subsection \<open>Chain types (shared/chain_type.go)\<close>

datatype ChainType = UnknownChain | Ethereum | Bitcoin | Omni

fun ChainType_String :: "ChainType \<Rightarrow> string" where
  "ChainType_String Ethereum = ''Ethereum''"
| "ChainType_String Bitcoin = ''Bitcoin''"
| "ChainType_String Omni = ''Omni''"
| "ChainType_String UnknownChain = ''''"

fun ChainType_API :: "ChainType \<Rightarrow> string" where
  "ChainType_API Ethereum = ''eth''"
| "ChainType_API Bitcoin = ''btc''"
| "ChainType_API Omni = ''omni''"
| "ChainType_API UnknownChain = ''''"

definition NewChainType :: "string \<Rightarrow> ChainType outcome" where
  "NewChainType name =
     (let s = strings_ToLower name in
      if s \<in> {''ethereum'', ''eth''} then Ok Ethereum
      else if s \<in> {''bitcoin'', ''btc'', ''xbt''} then Ok Bitcoin
      else if s = ''omni'' then Ok Omni
      else Err (Errorf ''invalid name for chain'' []))"

subsection \<open>Supported data types (shared/data_type.go)\<close>

fun SupportedDataType :: "DataType \<Rightarrow> ChainType \<Rightarrow> bool outcome" where
  "SupportedDataType d Ethereum =
     (case d of
        Full \<Rightarrow> Ok True | Headers \<Rightarrow> Ok True | Uncles \<Rightarrow> Ok True | Transactions \<Rightarrow> Ok True
      | Receipts \<Rightarrow> Ok True | State \<Rightarrow> Ok True | Storage \<Rightarrow> Ok True
      | UnknownDataType \<Rightarrow> Ok True)"
| "SupportedDataType d Bitcoin =
     (case d of
        Full \<Rightarrow> Ok True | Headers \<Rightarrow> Ok True | Uncles \<Rightarrow> Ok False | Transactions \<Rightarrow> Ok True
      | Receipts \<Rightarrow> Ok False | State \<Rightarrow> Ok False | Storage \<Rightarrow> Ok False
      | UnknownDataType \<Rightarrow> Ok False)"
| "SupportedDataType d Omni =
     (case d of
        Full \<Rightarrow> Ok False | Headers \<Rightarrow> Ok False | Uncles \<Rightarrow> Ok False | Transactions \<Rightarrow> Ok False
      | Receipts \<Rightarrow> Ok False | State \<Rightarrow> Ok False | Storage \<Rightarrow> Ok False
      | UnknownDataType \<Rightarrow> Ok False)"
| "SupportedDataType d UnknownChain =
     Err (Errorf ''unrecognized chain type %s'' [ChainType_String UnknownChain])"

subsection \<open>IPFS modes (shared/ipfs_mode.go)\<close>

datatype IPFSMode = Unknown | LocalInterface | RemoteClient | DirectPostgres

fun IPFSMode_String :: "IPFSMode \<Rightarrow> string" where
  "IPFSMode_String LocalInterface = ''Local''"
| "IPFSMode_String RemoteClient = ''Remote''"
| "IPFSMode_String DirectPostgres = ''Postgres''"
| "IPFSMode_String Unknown = ''''"

definition NewIPFSMode :: "string \<Rightarrow> IPFSMode outcome" where
  "NewIPFSMode name =
     (let s = strings_ToLower name in
      if s \<in> {''local'', ''interface''} then Ok LocalInterface
      else if s \<in> {''remote'', ''client''}
        then Err (Errorf ''remote IPFS client mode is not currently supported'' [])
      else if s \<in> {''postgres'', ''direct''} then Ok DirectPostgres
      else Err (Errorf ''unrecognized name for ipfs mode'' []))"

subsection \<open>Gaps and batch constants (shared/types.go, shared/constants.go)\<close>

record Gap =
  gap_Start :: u64
  gap_Stop :: u64

definition DefaultMaxBatchSize :: u64 where
  "DefaultMaxBatchSize = 100"

definition DefaultMaxBatchNumber :: int where
  "DefaultMaxBatchNumber = 50"

text \<open>The heights a gap stands for: every consumer walks from \<open>Start\<close> to \<open>Stop\<close> inclusive.\<close>

definition gap_heights :: "Gap \<Rightarrow> u64 set" where
  "gap_heights g = {gap_Start g .. gap_Stop g}"

subsection \<open>The contract of a name parser\<close>

text \<open>
  A configuration name parser accepts every printed name of a usable value, ignores case,
  and never yields an unusable value. The clients get: printing is injective on the usable
  values, the printed name may be written in any case, and the accepted names determine
  exactly the usable values.
\<close>

locale name_codec =
  fixes usable :: "'a set"
    and print :: "'a \<Rightarrow> string"
    and parse :: "string \<Rightarrow> 'a outcome"
  assumes parse_print: "x \<in> usable \<Longrightarrow> parse (print x) = Ok x"
    and parse_case: "strings_ToLower s = strings_ToLower t \<Longrightarrow> is_Ok (parse s) \<Longrightarrow> parse t = parse s"
    and parse_usable: "parse s = Ok x \<Longrightarrow> x \<in> usable"
begin

lemma print_inj_on: "inj_on print usable"
  by (rule inj_onI) (metis outcome.inject(1) parse_print)

lemma parse_any_case:
  "x \<in> usable \<Longrightarrow> strings_ToLower s = strings_ToLower (print x) \<Longrightarrow> parse s = Ok x"
  using parse_case [of "print x" s] parse_print [of x] by simp

lemma range_parse: "{x. \<exists>s. parse s = Ok x} = usable"
  using parse_print parse_usable by blast

end

lemma ToLower_is_Ok_DataType:
  "strings_ToLower s = strings_ToLower t \<Longrightarrow> is_Ok (GenerateDataTypeFromString s) \<Longrightarrow>
   GenerateDataTypeFromString t = GenerateDataTypeFromString s"
  by (auto simp: GenerateDataTypeFromString_def Let_def split: if_splits)

interpretation data_type_names: name_codec
  "- {UnknownDataType}" DataType_String GenerateDataTypeFromString
proof unfold_locales
  show "GenerateDataTypeFromString (DataType_String x) = Ok x" if "x \<in> - {UnknownDataType}" for x
    using that
    by (cases x) (simp_all add: GenerateDataTypeFromString_def strings_ToLower_def lower_char_def)
qed (auto simp: ToLower_is_Ok_DataType GenerateDataTypeFromString_def Let_def split: if_splits)

interpretation chain_names: name_codec "- {UnknownChain}" ChainType_String NewChainType
proof unfold_locales
  show "NewChainType (ChainType_String x) = Ok x" if "x \<in> - {UnknownChain}" for x
    using that by (cases x) (simp_all, code_simp+)
qed (auto simp: NewChainType_def Let_def split: if_splits)

interpretation chain_api_names: name_codec "- {UnknownChain}" ChainType_API NewChainType
proof unfold_locales
  show "NewChainType (ChainType_API x) = Ok x" if "x \<in> - {UnknownChain}" for x
    using that by (cases x) (simp_all add: NewChainType_def strings_ToLower_def lower_char_def)
qed (auto simp: NewChainType_def Let_def split: if_splits)

interpretation ipfs_mode_names: name_codec
  "{LocalInterface, DirectPostgres}" IPFSMode_String NewIPFSMode
proof unfold_locales
  show "NewIPFSMode (IPFSMode_String x) = Ok x" if "x \<in> {LocalInterface, DirectPostgres}" for x
    using that by (cases x) (simp_all, code_simp+)
qed (auto simp: NewIPFSMode_def Let_def split: if_splits)

subsection \<open>Properties\<close>

text \<open>
  Printing a known data type and parsing the text, in whatever case it is written, gives
  the data type back, and the parser accepts no text as the unknown type.
\<close>

theorem DataType_names_roundtrip:
  "(d \<noteq> UnknownDataType \<longrightarrow> strings_ToLower s = strings_ToLower (DataType_String d) \<longrightarrow>
      GenerateDataTypeFromString s = Ok d)
   \<and> {d. \<exists>s. GenerateDataTypeFromString s = Ok d} = - {UnknownDataType}"
  using data_type_names.parse_any_case [of d s] data_type_names.range_parse by simp

theorem DataType_names_roundtrip_witness:
  "GenerateDataTypeFromString ''HeaDers'' = Ok Headers"
proof -
  have "strings_ToLower ''HeaDers'' = strings_ToLower (DataType_String Headers)" by code_simp
  then show ?thesis using DataType_names_roundtrip [of Headers "''HeaDers''"] by simp
qed

end
