(* ===== verification/Go_Io.thy ===== *)
theory Go_Io
  imports Go_Prelude
begin

text \<open>
  Programs that act on a world outside the database (an IPFS node, the maintenance connection):
  a result that may be an error or a panic, and the world afterwards.
\<close>

type_synonym ('w, 'a) io = "'w \<Rightarrow> 'a outcome \<times> 'w"

definition io_return :: "'a \<Rightarrow> ('w, 'a) io" where
  "io_return x w = (Ok x, w)"

definition io_lift :: "'a outcome \<Rightarrow> ('w, 'a) io" where
  "io_lift r w = (r, w)"

definition io_bind :: "('w, 'a) io \<Rightarrow> ('a \<Rightarrow> ('w, 'b) io) \<Rightarrow> ('w, 'b) io" where
  "io_bind m f w =
     (case m w of (Ok x, w') \<Rightarrow> f x w' | (Err e, w') \<Rightarrow> (Err e, w') | (Panic p, w') \<Rightarrow> (Panic p, w'))"

text \<open>\<open>for i, x := range xs\<close> over a local state.\<close>

fun io_for :: "(nat \<Rightarrow> 'x \<Rightarrow> 's \<Rightarrow> ('w, 's) io) \<Rightarrow> nat \<Rightarrow> 'x list \<Rightarrow> 's \<Rightarrow> ('w, 's) io" where
  "io_for f i [] s = io_return s"
| "io_for f i (x # xs) s = io_bind (f i x s) (\<lambda>s'. io_for f (i + 1) xs s')"

lemma io_bind_Ok:
  assumes "io_bind m f w = (Ok y, w')"
  obtains x w1 where "m w = (Ok x, w1)" "f x w1 = (Ok y, w')"
  using assms by (auto simp: io_bind_def split: outcome.splits prod.splits)

end
