(* ===== verification/Config.thy ===== *)
theory Config
  imports Shared_Types Go_Io "HOL-Library.Sublist"
begin

text \<open>
  The configuration of the three services: \<open>config/database.go\<close>, \<open>shared/env.go\<close>, \<open>postgres/postgres.go\<close>
  and the \<open>config.go\<close> of the packages \<open>watch\<close>, \<open>historical\<close> and \<open>resync\<close>, with the flags that the
  commands of \<open>cmd/\<close> bind. The state is what these functions change: the bindings of
  viper's keys and the \<open>nodes\<close> table of the database. What viper makes of a key with the flag and the
  environment variable bound to it is a parameter, as are dialling a node, connecting to the database and
  the home directory. \<open>logrus.Fatal\<close> ends the process: a panic with \<open>fatal_exit\<close>.
\<close>

subsection \<open>The state and the libraries\<close>

text \<open>\<open>node.Node\<close> and \<open>config.Database\<close>\<close>

record Node =
  n_GenesisBlock :: string
  n_NetworkID :: string
  n_ID :: string
  n_ClientName :: string

record Database =
  d_Hostname :: string
  d_Name :: string
  d_User :: string
  d_Password :: string
  d_Port :: int
  d_MaxIdle :: int
  d_MaxOpen :: int
  d_MaxLifetime :: int

text \<open>A flag is named by its command and its name.\<close>

type_synonym pflag = "string \<times> string"

record config_state =
  cs_pflags :: "string \<rightharpoonup> pflag"
  cs_env :: "string \<rightharpoonup> string"
  cs_nodes :: "(int \<times> Node) list"
  cs_node_seq :: int

type_synonym 'a cfg = "(config_state, 'a) io"

text \<open>
  The first argument of a lookup is the flag bound to the key, with its text if it was given on
  the command line; the second is the environment variable bound to the key.
\<close>

type_synonym 'a lookup = "(pflag \<times> string option) option \<Rightarrow> string option \<Rightarrow> string \<Rightarrow> 'a"

record config_lib =
  vp_String :: "string lookup"
  vp_Bool :: "bool lookup"
  vp_Int :: "int lookup"
  vp_Int64 :: "int lookup"
  cl_given :: "pflag \<Rightarrow> string option"
  rpc_Dial :: "string \<Rightarrow> unit outcome"
  os_UserHomeDir :: "string outcome"
  sqlx_Connect :: "string \<Rightarrow> unit outcome"
  nodes_insert :: "Node \<Rightarrow> unit outcome"

definition BindEnvs :: "(string \<times> string) list \<Rightarrow> unit cfg" where
  "BindEnvs ks st = (Ok (), st\<lparr>cs_env := cs_env st ++ map_of (rev ks)\<rparr>)"

definition viper_Get :: "config_lib \<Rightarrow> (config_lib \<Rightarrow> 'a lookup) \<Rightarrow> string \<Rightarrow> 'a cfg" where
  "viper_Get lib f key st =
     (Ok (f lib (map_option (\<lambda>p. (p, cl_given lib p)) (cs_pflags st key)) (cs_env st key) key), st)"

subsection \<open>Paths\<close>

text \<open>\<open>filepath.Join\<close> of two elements, with \<open>filepath.Clean\<close>.\<close>

fun path_split :: "string \<Rightarrow> string list" where
  "path_split [] = [[]]"
| "path_split (c # cs) = (if c = CHR ''/'' then [] # path_split cs
     else (case path_split cs of [] \<Rightarrow> [[c]] | w # ws \<Rightarrow> (c # w) # ws))"

definition clean_step :: "bool \<Rightarrow> string list \<Rightarrow> string \<Rightarrow> string list" where
  "clean_step rooted out w =
     (if w = [] \<or> w = ''.'' then out
      else if w = ''..'' then
        (case out of
           [] \<Rightarrow> if rooted then [] else [w]
         | v # vs \<Rightarrow> if v = ''..'' then w # out else vs)
      else w # out)"

fun path_unsplit :: "string list \<Rightarrow> string" where
  "path_unsplit [] = []"
| "path_unsplit [w] = w"
| "path_unsplit (w # ws) = w @ ''/'' @ path_unsplit ws"

definition filepath_Clean :: "string \<Rightarrow> string" where
  "filepath_Clean path =
     (let rooted = (case path of [] \<Rightarrow> False | c # _ \<Rightarrow> c = CHR ''/'');
          out = path_unsplit (rev (foldl (clean_step rooted) [] (path_split path)))
      in if rooted then ''/'' @ out else if out = [] then ''.'' else out)"

definition filepath_Join :: "string \<Rightarrow> string \<Rightarrow> string" where
  "filepath_Join a b =
     (if a = [] \<and> b = [] then [] else if a = [] then filepath_Clean b else if b = [] then filepath_Clean a
      else filepath_Clean (a @ ''/'' @ b))"

subsection \<open>The database (config/database.go, postgres/postgres.go, utils/utils.go)\<close>

definition Database_Init :: "config_lib \<Rightarrow> Database cfg" where
  "Database_Init lib =
     io_bind (BindEnvs [(''database.name'', ''DATABASE_NAME''), (''database.hostname'', ''DATABASE_HOSTNAME''),
       (''database.port'', ''DATABASE_PORT''), (''database.user'', ''DATABASE_USER''), (''database.password'', ''DATABASE_PASSWORD''),
       (''database.maxIdle'', ''DATABASE_MAX_IDLE_CONNECTIONS''), (''database.maxOpen'', ''DATABASE_MAX_OPEN_CONNECTIONS''),
       (''database.maxLifetime'', ''DATABASE_MAX_CONN_LIFETIME'')]) (\<lambda>_.
     io_bind (viper_Get lib vp_String ''database.name'') (\<lambda>name.
     io_bind (viper_Get lib vp_String ''database.hostname'') (\<lambda>hostname.
     io_bind (viper_Get lib vp_Int ''database.port'') (\<lambda>port.
     io_bind (viper_Get lib vp_String ''database.user'') (\<lambda>user.
     io_bind (viper_Get lib vp_String ''database.password'') (\<lambda>password.
     io_bind (viper_Get lib vp_Int ''database.maxIdle'') (\<lambda>maxIdle.
     io_bind (viper_Get lib vp_Int ''database.maxOpen'') (\<lambda>maxOpen.
     io_bind (viper_Get lib vp_Int ''database.maxLifetime'') (\<lambda>maxLifetime.
     io_return \<lparr>d_Hostname = hostname, d_Name = name, d_User = user, d_Password = password, d_Port = port,
       d_MaxIdle = maxIdle, d_MaxOpen = maxOpen, d_MaxLifetime = maxLifetime\<rparr>)))))))))"

definition DbConnectionString :: "Database \<Rightarrow> string" where
  "DbConnectionString c =
     (let place = d_Hostname c @ '':'' @ big_String (d_Port c) @ ''/'' @ d_Name c @ ''?sslmode=disable'' in
      if length (d_User c) > 0 \<and> length (d_Password c) > 0
        then ''postgresql://'' @ d_User c @ '':'' @ d_Password c @ ''@'' @ place
      else if length (d_User c) > 0 \<and> length (d_Password c) = 0
        then ''postgresql://'' @ d_User c @ ''@'' @ place
      else ''postgresql://'' @ place)"

text \<open>\<open>postgres.DB\<close>; the settings of the pool are \<open>None\<close> where the default is kept.\<close>

record DB =
  db_connection :: string
  db_MaxOpenConns :: "int option"
  db_MaxIdleConns :: "int option"
  db_ConnMaxLifetime :: "int option"
  db_Node :: Node
  db_NodeID :: int

definition fatal_exit :: string where
  "fatal_exit = ''exit status 1''"

definition time_Second :: int where
  "time_Second = 1000000000"

definition same_node :: "Node \<Rightarrow> Node \<Rightarrow> bool" where
  "same_node a b \<longleftrightarrow> n_GenesisBlock a = n_GenesisBlock b \<and> n_NetworkID a = n_NetworkID b \<and> n_ID a = n_ID b"

definition upsert_node :: "Node \<Rightarrow> config_state \<Rightarrow> int \<times> config_state" where
  "upsert_node node st =
     (case find (\<lambda>(i, n). same_node n node) (cs_nodes st) of
        Some (i, _) \<Rightarrow> (i, st\<lparr>cs_nodes := map (\<lambda>(j, n). if same_node n node then (j, node) else (j, n)) (cs_nodes st),
          cs_node_seq := cs_node_seq st + 1\<rparr>)
      | None \<Rightarrow> (cs_node_seq st, st\<lparr>cs_nodes := cs_nodes st @ [(cs_node_seq st, node)], cs_node_seq := cs_node_seq st + 1\<rparr>))"

definition ErrUnableToSetNode :: "go_error \<Rightarrow> go_error" where
  "ErrUnableToSetNode e = Wrapf ''unable to set db node: %s'' [] e"

definition CreateNode :: "config_lib \<Rightarrow> Node \<Rightarrow> int cfg" where
  "CreateNode lib node st =
     (case nodes_insert lib node of
        Ok _ \<Rightarrow> (case upsert_node node st of (i, st') \<Rightarrow> (Ok i, st'))
      | Err e \<Rightarrow> (Err (ErrUnableToSetNode e), st)
      | Panic p \<Rightarrow> (Panic p, st))"

definition NewDB :: "config_lib \<Rightarrow> Database \<Rightarrow> Node \<Rightarrow> DB cfg" where
  "NewDB lib c node =
     io_bind (io_lift (case sqlx_Connect lib (DbConnectionString c) of
         Err e \<Rightarrow> Err (Wrapf ''db connection failed: %s'' [] e) | r \<Rightarrow> r)) (\<lambda>_ st.
     case CreateNode lib node st of
       (Ok i, st') \<Rightarrow> (Ok \<lparr>db_connection = DbConnectionString c,
          db_MaxOpenConns = (if d_MaxOpen c > 0 then Some (d_MaxOpen c) else None),
          db_MaxIdleConns = (if d_MaxIdle c > 0 then Some (d_MaxIdle c) else None),
          db_ConnMaxLifetime = (if d_MaxLifetime c > 0 then Some (int64_of (d_MaxLifetime c * time_Second)) else None),
          db_Node = node, db_NodeID = i\<rparr>, st')
     | (Err e, st') \<Rightarrow> (Err (ErrUnableToSetNode e), st')
     | (Panic p, st') \<Rightarrow> (Panic p, st'))"

definition LoadPostgres :: "config_lib \<Rightarrow> Database \<Rightarrow> Node \<Rightarrow> DB cfg" where
  "LoadPostgres lib c node st =
     (case NewDB lib c node st of (Err e, st') \<Rightarrow> (Panic fatal_exit, st') | r \<Rightarrow> r)"

subsection \<open>Nodes and IPFS (shared/env.go)\<close>

text \<open>A client or connection setting, as an \<open>interface{}\<close>: \<open>*rpc.Client\<close>, \<open>*rpcclient.ConnConfig\<close> or nil.\<close>

record ConnConfig =
  cc_Host :: string
  cc_HTTPPostMode :: bool
  cc_DisableTLS :: bool
  cc_Pass :: string
  cc_User :: string

datatype client = NilClient | EthClient string | BtcConn ConnConfig

definition GetEthNodeAndClient :: "config_lib \<Rightarrow> string \<Rightarrow> (Node \<times> client) cfg" where
  "GetEthNodeAndClient lib path =
     io_bind (BindEnvs [(''ethereum.nodeID'', ''ETH_NODE_ID''), (''ethereum.clientName'', ''ETH_CLIENT_NAME''),
       (''ethereum.genesisBlock'', ''ETH_GENESIS_BLOCK''), (''ethereum.networkID'', ''ETH_NETWORK_ID'')]) (\<lambda>_.
     io_bind (io_lift (rpc_Dial lib path)) (\<lambda>_.
     io_bind (viper_Get lib vp_String ''ethereum.nodeID'') (\<lambda>nodeID.
     io_bind (viper_Get lib vp_String ''ethereum.clientName'') (\<lambda>clientName.
     io_bind (viper_Get lib vp_String ''ethereum.genesisBlock'') (\<lambda>genesisBlock.
     io_bind (viper_Get lib vp_String ''ethereum.networkID'') (\<lambda>networkID.
     io_return (\<lparr>n_GenesisBlock = genesisBlock, n_NetworkID = networkID, n_ID = nodeID, n_ClientName = clientName\<rparr>, EthClient path)))))))"

definition GetBtcNodeAndClient :: "config_lib \<Rightarrow> string \<Rightarrow> (Node \<times> client) cfg" where
  "GetBtcNodeAndClient lib path =
     io_bind (BindEnvs [(''bitcoin.nodeID'', ''BTC_NODE_ID''), (''bitcoin.clientName'', ''BTC_CLIENT_NAME''),
       (''bitcoin.genesisBlock'', ''BTC_GENESIS_BLOCK''), (''bitcoin.networkID'', ''BTC_NETWORK_ID''),
       (''bitcoin.pass'', ''BTC_NODE_PASSWORD''), (''bitcoin.user'', ''BTC_NODE_USER'')]) (\<lambda>_.
     io_bind (viper_Get lib vp_String ''bitcoin.nodeID'') (\<lambda>nodeID.
     io_bind (viper_Get lib vp_String ''bitcoin.clientName'') (\<lambda>clientName.
     io_bind (viper_Get lib vp_String ''bitcoin.genesisBlock'') (\<lambda>genesisBlock.
     io_bind (viper_Get lib vp_String ''bitcoin.networkID'') (\<lambda>networkID.
     io_bind (viper_Get lib vp_String ''bitcoin.pass'') (\<lambda>pass.
     io_bind (viper_Get lib vp_String ''bitcoin.user'') (\<lambda>user.
     io_return (\<lparr>n_GenesisBlock = genesisBlock, n_NetworkID = networkID, n_ID = nodeID, n_ClientName = clientName\<rparr>,
       BtcConn \<lparr>cc_Host = path, cc_HTTPPostMode = True, cc_DisableTLS = True, cc_Pass = pass, cc_User = user\<rparr>))))))))"

definition GetIPFSPath :: "config_lib \<Rightarrow> string cfg" where
  "GetIPFSPath lib =
     io_bind (BindEnvs [(''ipfs.path'', ''IPFS_PATH'')]) (\<lambda>_.
     io_bind (viper_Get lib vp_String ''ipfs.path'') (\<lambda>ipfsPath.
     if ipfsPath = [] then io_bind (io_lift (os_UserHomeDir lib)) (\<lambda>home. io_return (filepath_Join home ''.ipfs''))
     else io_return ipfsPath))"

definition GetIPFSMode :: "config_lib \<Rightarrow> IPFSMode cfg" where
  "GetIPFSMode lib =
     io_bind (BindEnvs [(''ipfs.mode'', ''IPFS_MODE'')]) (\<lambda>_.
     io_bind (viper_Get lib vp_String ''ipfs.mode'') (\<lambda>ipfsMode.
     if ipfsMode = [] then io_return DirectPostgres else io_lift (NewIPFSMode ipfsMode)))"

end
