(* ===== verification/Service_Config.thy ===== *)
theory Service_Config
  imports Config
begin

text \<open>
  The settings of the watcher, of the back-fill and of the resync service, as their \<open>NewConfig\<close>
  functions read them (\<open>watch/config.go\<close>, \<open>historical/config.go\<close>, \<open>resync/config.go\<close>), and the flags
  that the commands bind to viper's keys when the program starts (\<open>cmd/\<close>). Shown: what a configuration that was
  read satisfies, and which flags have no effect.
\<close>

subsection \<open>Shared parts\<close>

text \<open>The mode and, for the modes that need one, the path of the IPFS repository.\<close>

definition ipfs_settings :: "config_lib \<Rightarrow> (IPFSMode \<times> string) cfg" where
  "ipfs_settings lib =
     io_bind (GetIPFSMode lib) (\<lambda>mode.
     if mode = LocalInterface \<or> mode = RemoteClient
     then io_bind (GetIPFSPath lib) (\<lambda>path. io_return (mode, path))
     else io_return (mode, []))"

text \<open>The node a service reads from; for other chains the settings keep their zero values.\<close>

definition zero_Node :: Node where
  "zero_Node = \<lparr>n_GenesisBlock = [], n_NetworkID = [], n_ID = [], n_ClientName = []\<rparr>"

definition node_client :: "config_lib \<Rightarrow> string \<Rightarrow> string \<Rightarrow> string \<Rightarrow> ChainType \<Rightarrow> (Node \<times> client) cfg" where
  "node_client lib scheme ethKey btcKey chain =
     (case chain of
        Ethereum \<Rightarrow> io_bind (viper_Get lib vp_String ethKey) (\<lambda>path. GetEthNodeAndClient lib (scheme @ path))
      | Bitcoin \<Rightarrow> io_bind (viper_Get lib vp_String btcKey) (\<lambda>path. GetBtcNodeAndClient lib path)
      | _ \<Rightarrow> io_return (zero_Node, NilClient))"

definition override_conns :: "config_lib \<Rightarrow> string \<times> string \<times> string \<Rightarrow> Database \<Rightarrow> Database cfg" where
  "override_conns lib keys con =
     (case keys of (idle, open_, life) \<Rightarrow>
     io_bind (viper_Get lib vp_Int idle) (\<lambda>maxIdle.
     io_bind (viper_Get lib vp_Int open_) (\<lambda>maxOpen.
     io_bind (viper_Get lib vp_Int life) (\<lambda>maxLifetime.
     io_return (con\<lparr>d_MaxIdle := maxIdle, d_MaxOpen := maxOpen, d_MaxLifetime := maxLifetime\<rparr>)))))"

subsection \<open>The watcher (watch/config.go)\<close>

record watch_config =
  wc_Chain :: ChainType
  wc_IPFSPath :: string
  wc_IPFSMode :: IPFSMode
  wc_DBConfig :: Database
  wc_Serve :: bool
  wc_ServeDBConn :: "DB option"
  wc_WSEndpoint :: string
  wc_HTTPEndpoint :: string
  wc_IPCEndpoint :: string
  wc_Sync :: bool
  wc_SyncDBConn :: "DB option"
  wc_Workers :: int
  wc_WSClient :: client
  wc_NodeInfo :: Node
  wc_Historical :: bool

datatype conn_mode = SyncMode | ServeMode

fun watch_overrideDBConnConfig :: "config_lib \<Rightarrow> Database \<Rightarrow> conn_mode \<Rightarrow> Database cfg" where
  "watch_overrideDBConnConfig lib con SyncMode =
     io_bind (BindEnvs [(''database.sync.maxIdle'', ''SYNC_MAX_IDLE_CONNECTIONS''), (''database.sync.maxOpen'', ''SYNC_MAX_OPEN_CONNECTIONS''),
       (''database.sync.maxLifetime'', ''SYNC_MAX_CONN_LIFETIME'')]) (\<lambda>_.
     override_conns lib (''database.sync.maxIdle'', ''database.sync.maxOpen'', ''database.sync.maxLifetime'') con)"
| "watch_overrideDBConnConfig lib con ServeMode =
     io_bind (BindEnvs [(''database.server.maxIdle'', ''SERVER_MAX_IDLE_CONNECTIONS''), (''database.server.maxOpen'', ''SERVER_MAX_OPEN_CONNECTIONS''),
       (''database.server.maxLifetime'', ''SERVER_MAX_CONN_LIFETIME'')]) (\<lambda>_.
     override_conns lib (''database.server.maxIdle'', ''database.server.maxOpen'', ''database.server.maxLifetime'') con)"

definition sync_settings :: "config_lib \<Rightarrow> watch_config \<Rightarrow> watch_config cfg" where
  "sync_settings lib c =
     io_bind (viper_Get lib vp_Int ''superNode.workers'') (\<lambda>workers.
     io_bind (node_client lib ''ws://'' ''ethereum.wsPath'' ''bitcoin.wsPath'' (wc_Chain c)) (\<lambda>(nodeInfo, wsClient).
     io_bind (watch_overrideDBConnConfig lib (wc_DBConfig c) SyncMode) (\<lambda>syncDBConn.
     io_bind (LoadPostgres lib syncDBConn nodeInfo) (\<lambda>syncDB.
     io_return (c\<lparr>wc_Workers := (if workers < 1 then 1 else workers), wc_NodeInfo := nodeInfo, wc_WSClient := wsClient,
       wc_SyncDBConn := Some syncDB\<rparr>)))))"

definition serve_settings :: "config_lib \<Rightarrow> watch_config \<Rightarrow> watch_config cfg" where
  "serve_settings lib c =
     io_bind (viper_Get lib vp_String ''superNode.wsPath'') (\<lambda>wsPath.
     io_bind (viper_Get lib vp_String ''superNode.ipcPath'') (\<lambda>ipcPath.
     io_bind (if ipcPath = [] then io_bind (io_lift (os_UserHomeDir lib)) (\<lambda>home. io_return (filepath_Join home ''.vulcanize/vulcanize.ipc''))
              else io_return ipcPath) (\<lambda>ipcPath.
     io_bind (viper_Get lib vp_String ''superNode.httpPath'') (\<lambda>httpPath.
     io_bind (watch_overrideDBConnConfig lib (wc_DBConfig c) ServeMode) (\<lambda>serveDBConn.
     io_bind (LoadPostgres lib serveDBConn (wc_NodeInfo c)) (\<lambda>serveDB.
     io_return (c\<lparr>wc_WSEndpoint := (if wsPath = [] then ''127.0.0.1:8080'' else wsPath), wc_IPCEndpoint := ipcPath,
       wc_HTTPEndpoint := (if httpPath = [] then ''127.0.0.1:8081'' else httpPath), wc_ServeDBConn := Some serveDB\<rparr>)))))))"

definition watch_NewConfig :: "config_lib \<Rightarrow> watch_config cfg" where
  "watch_NewConfig lib =
     io_bind (BindEnvs [(''superNode.chain'', ''SUPERNODE_CHAIN''), (''superNode.sync'', ''SUPERNODE_SYNC''),
       (''superNode.workers'', ''SUPERNODE_WORKERS''), (''ethereum.wsPath'', ''ETH_WS_PATH''), (''bitcoin.wsPath'', ''BTC_WS_PATH''),
       (''superNode.server'', ''SUPERNODE_SERVER''), (''superNode.wsPath'', ''SUPERNODE_WS_PATH''), (''superNode.ipcPath'', ''SUPERNODE_IPC_PATH''),
       (''superNode.httpPath'', ''SUPERNODE_HTTP_PATH''), (''superNode.backFill'', ''SUPERNODE_BACKFILL'')]) (\<lambda>_.
     io_bind (viper_Get lib vp_Bool ''superNode.backFill'') (\<lambda>historical.
     io_bind (viper_Get lib vp_String ''superNode.chain'') (\<lambda>name.
     io_bind (io_lift (NewChainType name)) (\<lambda>chain.
     io_bind (ipfs_settings lib) (\<lambda>(mode, path).
     io_bind (Database_Init lib) (\<lambda>dbConfig.
     io_bind (viper_Get lib vp_Bool ''superNode.sync'') (\<lambda>sync.
     io_bind ((if sync then sync_settings lib else io_return)
        \<lparr>wc_Chain = chain, wc_IPFSPath = path, wc_IPFSMode = mode, wc_DBConfig = dbConfig, wc_Serve = False, wc_ServeDBConn = None,
         wc_WSEndpoint = [], wc_HTTPEndpoint = [], wc_IPCEndpoint = [], wc_Sync = sync, wc_SyncDBConn = None, wc_Workers = 0,
         wc_WSClient = NilClient, wc_NodeInfo = zero_Node, wc_Historical = historical\<rparr>) (\<lambda>c.
     io_bind (viper_Get lib vp_Bool ''superNode.server'') (\<lambda>serve.
     (if serve then serve_settings lib else io_return) (c\<lparr>wc_Serve := serve\<rparr>))))))))))"

subsection \<open>Back-fill (historical/config.go)\<close>

record historical_config =
  hc_Chain :: ChainType
  hc_IPFSPath :: string
  hc_IPFSMode :: IPFSMode
  hc_DBConfig :: Database
  hc_DB :: "DB option"
  hc_HTTPClient :: client
  hc_Frequency :: int
  hc_BatchSize :: u64
  hc_BatchNumber :: u64
  hc_ValidationLevel :: int
  hc_Timeout :: int
  hc_NodeInfo :: Node

definition historical_overrideDBConnConfig :: "config_lib \<Rightarrow> Database \<Rightarrow> Database cfg" where
  "historical_overrideDBConnConfig lib con =
     io_bind (BindEnvs [(''database.backFill.maxIdle'', ''BACKFILL_MAX_IDLE_CONNECTIONS''),
       (''database.backFill.maxOpen'', ''BACKFILL_MAX_OPEN_CONNECTIONS''), (''database.backFill.maxLifetime'', ''BACKFILL_MAX_CONN_LIFETIME'')]) (\<lambda>_.
     override_conns lib (''database.backFill.maxIdle'', ''database.backFill.maxOpen'', ''database.backFill.maxLifetime'') con)"

definition seconds :: "int \<Rightarrow> int" where
  "seconds n = int64_of (time_Second * n)"

definition historical_init :: "config_lib \<Rightarrow> historical_config \<Rightarrow> historical_config cfg" where
  "historical_init lib c =
     io_bind (BindEnvs [(''ethereum.httpPath'', ''ETH_HTTP_PATH''), (''bitcoin.httpPath'', ''BTC_HTTP_PATH''),
       (''superNode.frequency'', ''SUPERNODE_FREQUENCY''), (''superNode.batchSize'', ''SUPERNODE_BATCH_SIZE''),
       (''superNode.batchNumber'', ''SUPERNODE_BATCH_NUMBER''), (''superNode.validationLevel'', ''SUPERNODE_VALIDATION_LEVEL''),
       (''superNode.timeout'', ''HTTP_TIMEOUT'')]) (\<lambda>_.
     io_bind (viper_Get lib vp_Int ''superNode.timeout'') (\<lambda>timeout.
     io_bind (node_client lib ''http://'' ''ethereum.httpPath'' ''bitcoin.httpPath'' (hc_Chain c)) (\<lambda>(nodeInfo, httpClient).
     io_bind (viper_Get lib vp_Int ''superNode.frequency'') (\<lambda>freq.
     io_bind (viper_Get lib vp_Int64 ''superNode.batchSize'') (\<lambda>batchSize.
     io_bind (viper_Get lib vp_Int64 ''superNode.batchNumber'') (\<lambda>batchNumber.
     io_bind (viper_Get lib vp_Int ''superNode.validationLevel'') (\<lambda>validationLevel.
     io_bind (historical_overrideDBConnConfig lib (hc_DBConfig c)) (\<lambda>dbConn.
     io_bind (LoadPostgres lib dbConn nodeInfo) (\<lambda>db.
     io_return (c\<lparr>hc_Timeout := seconds (if timeout < 15 then 15 else timeout), hc_NodeInfo := nodeInfo, hc_HTTPClient := httpClient,
       hc_Frequency := (if freq \<le> 0 then seconds 30 else seconds freq), hc_BatchSize := of_int batchSize, hc_BatchNumber := of_int batchNumber,
       hc_ValidationLevel := validationLevel, hc_DB := Some db\<rparr>))))))))))"

definition historical_NewConfig :: "config_lib \<Rightarrow> historical_config cfg" where
  "historical_NewConfig lib =
     io_bind (BindEnvs [(''superNode.chain'', ''SUPERNODE_CHAIN'')]) (\<lambda>_.
     io_bind (viper_Get lib vp_String ''superNode.chain'') (\<lambda>name.
     io_bind (io_lift (NewChainType name)) (\<lambda>chain.
     io_bind (ipfs_settings lib) (\<lambda>(mode, path).
     io_bind (Database_Init lib) (\<lambda>dbConfig.
     historical_init lib \<lparr>hc_Chain = chain, hc_IPFSPath = path, hc_IPFSMode = mode, hc_DBConfig = dbConfig, hc_DB = None,
       hc_HTTPClient = NilClient, hc_Frequency = 0, hc_BatchSize = 0, hc_BatchNumber = 0, hc_ValidationLevel = 0, hc_Timeout = 0,
       hc_NodeInfo = zero_Node\<rparr>)))))"

subsection \<open>Resync (resync/config.go)\<close>

record resync_settings =
  rs_Chain :: ChainType
  rs_ResyncType :: DataType
  rs_ClearOldCache :: bool
  rs_ResetValidation :: bool
  rs_DB :: "DB option"
  rs_DBConfig :: Database
  rs_IPFSPath :: string
  rs_IPFSMode :: IPFSMode
  rs_HTTPClient :: client
  rs_NodeInfo :: Node
  rs_Ranges :: "(u64 \<times> u64) list"
  rs_BatchSize :: u64
  rs_Timeout :: int
  rs_BatchNumber :: u64

definition supported_or_error :: "DataType \<Rightarrow> ChainType \<Rightarrow> unit outcome" where
  "supported_or_error d chain =
     (case SupportedDataType d chain of
        Ok True \<Rightarrow> Ok ()
      | Ok False \<Rightarrow> Err (Errorf ''chain type %s does not support data type %s'' [ChainType_String chain, DataType_String d])
      | Err e \<Rightarrow> Err e
      | Panic p \<Rightarrow> Panic p)"

definition resync_NewConfig :: "config_lib \<Rightarrow> resync_settings cfg" where
  "resync_NewConfig lib =
     io_bind (BindEnvs [(''resync.start'', ''RESYNC_START''), (''resync.stop'', ''RESYNC_STOP''), (''resync.clearOldCache'', ''RESYNC_CLEAR_OLD_CACHE''),
       (''resync.type'', ''RESYNC_TYPE''), (''resync.chain'', ''RESYNC_CHAIN''), (''ethereum.httpPath'', ''ETH_HTTP_PATH''),
       (''bitcoin.httpPath'', ''BTC_HTTP_PATH''), (''resync.batchSize'', ''RESYNC_BATCH_SIZE''), (''resync.batchNumber'', ''RESYNC_BATCH_NUMBER''),
       (''resync.resetValidation'', ''RESYNC_RESET_VALIDATION''), (''resync.timeout'', ''HTTP_TIMEOUT'')]) (\<lambda>_.
     io_bind (viper_Get lib vp_Int ''resync.timeout'') (\<lambda>timeout.
     io_bind (viper_Get lib vp_Int64 ''resync.start'') (\<lambda>start.
     io_bind (viper_Get lib vp_Int64 ''resync.stop'') (\<lambda>stop.
     io_bind (viper_Get lib vp_Bool ''resync.clearOldCache'') (\<lambda>clearOldCache.
     io_bind (viper_Get lib vp_Bool ''resync.resetValidation'') (\<lambda>resetValidation.
     io_bind (ipfs_settings lib) (\<lambda>(mode, path).
     io_bind (viper_Get lib vp_String ''resync.type'') (\<lambda>typeName.
     io_bind (io_lift (GenerateDataTypeFromString typeName)) (\<lambda>resyncType.
     io_bind (viper_Get lib vp_String ''resync.chain'') (\<lambda>name.
     io_bind (io_lift (NewChainType name)) (\<lambda>chain.
     io_bind (io_lift (supported_or_error resyncType chain)) (\<lambda>_.
     io_bind (node_client lib ''http://'' ''ethereum.httpPath'' ''bitcoin.httpPath'' chain) (\<lambda>(nodeInfo, httpClient).
     io_bind (Database_Init lib) (\<lambda>dbConfig.
     io_bind (LoadPostgres lib dbConfig nodeInfo) (\<lambda>db.
     io_bind (viper_Get lib vp_Int64 ''resync.batchSize'') (\<lambda>batchSize.
     io_bind (viper_Get lib vp_Int64 ''resync.batchNumber'') (\<lambda>batchNumber.
     io_return \<lparr>rs_Chain = chain, rs_ResyncType = resyncType, rs_ClearOldCache = clearOldCache, rs_ResetValidation = resetValidation,
       rs_DB = Some db, rs_DBConfig = dbConfig, rs_IPFSPath = path, rs_IPFSMode = mode, rs_HTTPClient = httpClient, rs_NodeInfo = nodeInfo,
       rs_Ranges = [(of_int start, of_int stop)], rs_BatchSize = of_int batchSize,
       rs_Timeout = seconds (if timeout < 5 then 5 else timeout), rs_BatchNumber = of_int batchNumber\<rparr>)))))))))))))))))"

subsection \<open>The flags of the commands (cmd/root.go, cmd/watch.go, cmd/resync.go)\<close>

text \<open>The keys and the flags that the \<open>init\<close> functions bind.\<close>

definition resync_flags :: "(string \<times> string) list" where
  "resync_flags = [
    (''ipfs.path'', ''ipfs-path''), (''resync.chain'', ''resync-chain''), (''resync.type'', ''resync-type''), (''resync.start'', ''resync-start''),
    (''resync.stop'', ''resync-stop''), (''resync.batchSize'', ''resync-batch-size''), (''resync.batchNumber'', ''resync-batch-number''),
    (''resync.clearOldCache'', ''resync-clear-old-cache''), (''resync.resetValidation'', ''resync-reset-validation''),
    (''resync.timeout'', ''resync-timeout''), (''bitcoin.httpPath'', ''btc-http-path''), (''bitcoin.pass'', ''btc-password''),
    (''bitcoin.user'', ''btc-username''), (''bitcoin.nodeID'', ''btc-node-id''), (''bitcoin.clientName'', ''btc-client-name''),
    (''bitcoin.genesisBlock'', ''btc-genesis-block''), (''bitcoin.networkID'', ''btc-network-id''), (''ethereum.httpPath'', ''eth-http-path''),
    (''ethereum.nodeID'', ''eth-node-id''), (''ethereum.clientName'', ''eth-client-name''), (''ethereum.genesisBlock'', ''eth-genesis-block''),
    (''ethereum.networkID'', ''eth-network-id'')]"

definition root_flags :: "(string \<times> string) list" where
  "root_flags = [
    (''logfile'', ''logfile''), (''database.name'', ''database-name''), (''database.port'', ''database-port''),
    (''database.hostname'', ''database-hostname''), (''database.user'', ''database-user''), (''database.password'', ''database-password''),
    (''log.level'', ''log-level'')]"

definition watch_flags :: "(string \<times> string) list" where
  "watch_flags = [
    (''ipfs.path'', ''ipfs-path''), (''ipfs.mode'', ''ipfs-mode''), (''watcher.chain'', ''watcher-chain''), (''watcher.server'', ''watcher-server''),
    (''watcher.wsPath'', ''watcher-ws-path''), (''watcher.httpPath'', ''watcher-http-path''), (''watcher.ipcPath'', ''watcher-ipc-path''),
    (''watcher.sync'', ''watcher-sync''), (''watcher.workers'', ''watcher-workers''), (''watcher.backFill'', ''watcher-back-fill''),
    (''watcher.frequency'', ''watcher-frequency''), (''watcher.batchSize'', ''watcher-batch-size''),
    (''watcher.batchNumber'', ''watcher-batch-number''), (''watcher.validationLevel'', ''watcher-validation-level''),
    (''watcher.timeout'', ''watcher-timeout''), (''bitcoin.wsPath'', ''btc-ws-path''), (''bitcoin.httpPath'', ''btc-http-path''),
    (''bitcoin.pass'', ''btc-password''), (''bitcoin.user'', ''btc-username''), (''bitcoin.nodeID'', ''btc-node-id''),
    (''bitcoin.clientName'', ''btc-client-name''), (''bitcoin.genesisBlock'', ''btc-genesis-block''), (''bitcoin.networkID'', ''btc-network-id''),
    (''ethereum.wsPath'', ''eth-ws-path''), (''ethereum.httpPath'', ''eth-http-path''), (''ethereum.nodeID'', ''eth-node-id''),
    (''ethereum.clientName'', ''eth-client-name''), (''ethereum.genesisBlock'', ''eth-genesis-block''), (''ethereum.networkID'', ''eth-network-id'')]"

definition bind_flags :: "string \<Rightarrow> (string \<times> string) list \<Rightarrow> (string \<rightharpoonup> pflag) \<Rightarrow> (string \<rightharpoonup> pflag)" where
  "bind_flags cmd flags m = foldl (\<lambda>m (key, name). m(key \<mapsto> (cmd, name))) m flags"

text \<open>The files of the package are initialised in the order of their names, whichever command is run.\<close>

definition init_pflags :: "string \<rightharpoonup> pflag" where
  "init_pflags = bind_flags ''watch'' watch_flags (bind_flags ''root'' root_flags (bind_flags ''resync'' resync_flags Map.empty))"

subsection \<open>Which flags a configuration depends on\<close>

text \<open>A configuration function that two command lines do not tell apart, and that keeps the bindings of flags.\<close>

definition same_under ::
    "(pflag \<Rightarrow> string option) \<Rightarrow> (pflag \<Rightarrow> string option) \<Rightarrow> (string \<rightharpoonup> pflag) \<Rightarrow> config_lib \<Rightarrow> (config_lib \<Rightarrow> 'a cfg) \<Rightarrow> bool" where
  "same_under g g' pf lib m \<longleftrightarrow> (\<forall>st. cs_pflags st = pf \<longrightarrow>
     m (lib\<lparr>cl_given := g\<rparr>) st = m (lib\<lparr>cl_given := g'\<rparr>) st \<and> cs_pflags (snd (m (lib\<lparr>cl_given := g\<rparr>) st)) = pf)"

named_theorems same_rules \<open>compositional rules for \<open>same_under\<close>\<close>

lemma same_bind [same_rules]:
  assumes "same_under g g' pf lib m" and "\<And>x. same_under g g' pf lib (\<lambda>l. f l x)"
  shows "same_under g g' pf lib (\<lambda>l. io_bind (m l) (f l))"
  unfolding same_under_def
proof (intro allI impI)
  fix st :: config_state assume st: "cs_pflags st = pf"
  obtain r st' where run: "m (lib\<lparr>cl_given := g\<rparr>) st = (r, st')" by fastforce
  then have run': "m (lib\<lparr>cl_given := g'\<rparr>) st = (r, st')" "cs_pflags st' = pf"
    using assms(1) st by (auto simp: same_under_def)
  have next_: "f (lib\<lparr>cl_given := g\<rparr>) x st' = f (lib\<lparr>cl_given := g'\<rparr>) x st'" "cs_pflags (snd (f (lib\<lparr>cl_given := g\<rparr>) x st')) = pf" for x
    using assms(2) [of x] run'(2) unfolding same_under_def by blast+
  show "io_bind (m (lib\<lparr>cl_given := g\<rparr>)) (f (lib\<lparr>cl_given := g\<rparr>)) st = io_bind (m (lib\<lparr>cl_given := g'\<rparr>)) (f (lib\<lparr>cl_given := g'\<rparr>)) st
      \<and> cs_pflags (snd (io_bind (m (lib\<lparr>cl_given := g\<rparr>)) (f (lib\<lparr>cl_given := g\<rparr>)) st)) = pf"
    using run run' next_(2) by (cases r) (simp_all add: io_bind_def next_(1))
qed

lemma same_return [same_rules]: "same_under g g' pf lib (\<lambda>l. io_return x)"
  by (simp add: same_under_def io_return_def)

lemma same_lift [same_rules]: "same_under g g' pf lib (\<lambda>l. io_lift r)"
  by (simp add: same_under_def io_lift_def)

lemma same_home [same_rules]: "same_under g g' pf lib (\<lambda>l. io_lift (os_UserHomeDir l))"
  by (simp add: same_under_def io_lift_def)

lemma same_dial [same_rules]: "same_under g g' pf lib (\<lambda>l. io_lift (rpc_Dial l path))"
  by (simp add: same_under_def io_lift_def)

lemma same_if [same_rules]:
  "same_under g g' pf lib m \<Longrightarrow> same_under g g' pf lib n \<Longrightarrow> same_under g g' pf lib (\<lambda>l. if b then m l else n l)"
  by (cases b) simp_all

lemma same_pair [same_rules]:
  "(\<And>a b. same_under g g' pf lib (\<lambda>l. f l a b)) \<Longrightarrow> same_under g g' pf lib (\<lambda>l. case x of (a, b) \<Rightarrow> f l a b)"
  by (cases x) simp

lemma same_BindEnvs [same_rules]: "same_under g g' pf lib (\<lambda>l. BindEnvs ks)"
  by (simp add: same_under_def BindEnvs_def)

text \<open>A key is read the same way if the flag bound to it has the same text.\<close>

definition key_same :: "(pflag \<Rightarrow> string option) \<Rightarrow> (pflag \<Rightarrow> string option) \<Rightarrow> (string \<rightharpoonup> pflag) \<Rightarrow> string \<Rightarrow> bool" where
  "key_same g g' pf key \<longleftrightarrow> (\<forall>p. pf key = Some p \<longrightarrow> g p = g' p)"

lemma same_Get:
  assumes "key_same g g' pf key" "\<And>h. f (lib\<lparr>cl_given := h\<rparr>) = f lib"
  shows "same_under g g' pf lib (\<lambda>l. viper_Get l f key)"
  using assms by (cases "pf key") (auto simp: same_under_def viper_Get_def key_same_def)

lemma same_Gets [same_rules]:
  assumes "key_same g g' pf key"
  shows "same_under g g' pf lib (\<lambda>l. viper_Get l vp_String key)" "same_under g g' pf lib (\<lambda>l. viper_Get l vp_Bool key)"
    "same_under g g' pf lib (\<lambda>l. viper_Get l vp_Int key)" "same_under g g' pf lib (\<lambda>l. viper_Get l vp_Int64 key)"
  by (rule same_Get [OF assms]; simp)+

lemma LoadPostgres_given: "LoadPostgres (lib\<lparr>cl_given := g\<rparr>) c n = LoadPostgres lib c n"
  unfolding LoadPostgres_def NewDB_def CreateNode_def by simp

lemma upsert_node_pflags: "cs_pflags (snd (upsert_node n st)) = cs_pflags st"
  by (auto simp: upsert_node_def split: option.splits)

lemma CreateNode_pflags: "cs_pflags (snd (CreateNode lib n st)) = cs_pflags st"
  by (cases "nodes_insert lib n") (simp_all add: CreateNode_def case_prod_beta upsert_node_pflags)

lemma LoadPostgres_pflags: "cs_pflags (snd (LoadPostgres lib c n st)) = cs_pflags st"
proof -
  obtain r st' where "CreateNode lib n st = (r, st')" by fastforce
  then show ?thesis
    using CreateNode_pflags [of lib n st]
    by (cases "sqlx_Connect lib (DbConnectionString c)"; cases r) (simp_all add: LoadPostgres_def NewDB_def io_bind_def io_lift_def)
qed

lemma same_LoadPostgres [same_rules]: "same_under g g' pf lib (\<lambda>l. LoadPostgres l c n)"
  by (simp add: same_under_def LoadPostgres_given LoadPostgres_pflags)

lemma same_node_client:
  assumes "\<And>key. key \<in> {ethKey, btcKey} \<union> {''ethereum.nodeID'', ''ethereum.clientName'', ''ethereum.genesisBlock'', ''ethereum.networkID''}
      \<union> {''bitcoin.nodeID'', ''bitcoin.clientName'', ''bitcoin.genesisBlock'', ''bitcoin.networkID'', ''bitcoin.pass'', ''bitcoin.user''}
      \<Longrightarrow> key_same g g' pf key"
  shows "same_under g g' pf lib (\<lambda>l. node_client l scheme ethKey btcKey chain)"
  unfolding node_client_def GetEthNodeAndClient_def GetBtcNodeAndClient_def
  by (cases chain; simp only: ChainType.case; intro same_rules assms) simp_all

text \<open>The keys that the configurations read.\<close>

definition node_keys :: "string list" where
  "node_keys = [''ethereum.nodeID'', ''ethereum.clientName'', ''ethereum.genesisBlock'', ''ethereum.networkID'', ''bitcoin.nodeID'',
     ''bitcoin.clientName'', ''bitcoin.genesisBlock'', ''bitcoin.networkID'', ''bitcoin.pass'', ''bitcoin.user'']"

definition base_keys :: "string list" where
  "base_keys = [''ipfs.mode'', ''ipfs.path'', ''database.name'', ''database.hostname'', ''database.port'', ''database.user'', ''database.password'',
     ''database.maxIdle'', ''database.maxOpen'', ''database.maxLifetime''] @ node_keys"

definition watch_keys :: "string list" where
  "watch_keys = base_keys @ [''superNode.backFill'', ''superNode.chain'', ''superNode.sync'', ''superNode.workers'', ''superNode.server'',
     ''superNode.wsPath'', ''superNode.ipcPath'', ''superNode.httpPath'', ''ethereum.wsPath'', ''bitcoin.wsPath'', ''database.sync.maxIdle'',
     ''database.sync.maxOpen'', ''database.sync.maxLifetime'', ''database.server.maxIdle'', ''database.server.maxOpen'', ''database.server.maxLifetime'']"

definition historical_keys :: "string list" where
  "historical_keys = base_keys @ [''superNode.chain'', ''superNode.timeout'', ''ethereum.httpPath'', ''bitcoin.httpPath'', ''superNode.frequency'',
     ''superNode.batchSize'', ''superNode.batchNumber'', ''superNode.validationLevel'', ''database.backFill.maxIdle'', ''database.backFill.maxOpen'',
     ''database.backFill.maxLifetime'']"

definition resync_keys :: "string list" where
  "resync_keys = base_keys @ [''resync.timeout'', ''resync.start'', ''resync.stop'', ''resync.clearOldCache'', ''resync.resetValidation'', ''resync.type'',
     ''resync.chain'', ''ethereum.httpPath'', ''bitcoin.httpPath'', ''resync.batchSize'', ''resync.batchNumber'']"

lemma same_ipfs:
  assumes "\<forall>key\<in>set base_keys. key_same g g' pf key"
  shows "same_under g g' pf lib ipfs_settings"
  unfolding ipfs_settings_def GetIPFSMode_def GetIPFSPath_def
  by (intro same_rules) (use assms in \<open>simp_all add: base_keys_def\<close>)

lemma same_database:
  assumes "\<forall>key\<in>set base_keys. key_same g g' pf key"
  shows "same_under g g' pf lib Database_Init"
  unfolding Database_Init_def by (intro same_rules) (use assms in \<open>simp_all add: base_keys_def\<close>)

lemma same_override:
  assumes "key_same g g' pf a" "key_same g g' pf b" "key_same g g' pf c"
  shows "same_under g g' pf lib (\<lambda>l. override_conns l (a, b, c) con)"
  unfolding override_conns_def prod.case by (intro same_rules assms)

lemma same_node:
  assumes "\<forall>key\<in>set base_keys. key_same g g' pf key" "key_same g g' pf ethKey" "key_same g g' pf btcKey"
  shows "same_under g g' pf lib (\<lambda>l. node_client l scheme ethKey btcKey chain)"
  by (rule same_node_client) (use assms in \<open>auto simp: base_keys_def node_keys_def\<close>)

lemma same_watch:
  assumes keys: "\<forall>key\<in>set watch_keys. key_same g g' pf key"
  shows "same_under g g' pf lib watch_NewConfig"
proof -
  have base: "\<forall>key\<in>set base_keys. key_same g g' pf key" using keys by (simp add: watch_keys_def)
  have override: "same_under g g' pf lib (\<lambda>l. watch_overrideDBConnConfig l c m)" for c m
    by (cases m; simp only: watch_overrideDBConnConfig.simps; intro same_rules same_override) (use keys in \<open>simp_all add: watch_keys_def\<close>)
  have "same_under g g' pf lib (\<lambda>l. (if b then sync_settings l else io_return) c)" for b c
    unfolding sync_settings_def
    by (cases b; simp only: if_True if_False; intro same_rules override same_node base) (use keys in \<open>simp_all add: watch_keys_def\<close>)
  moreover have "same_under g g' pf lib (\<lambda>l. (if b then serve_settings l else io_return) c)" for b c
    unfolding serve_settings_def
    by (cases b; simp only: if_True if_False; intro same_rules override) (use keys in \<open>simp_all add: watch_keys_def\<close>)
  ultimately show ?thesis
    unfolding watch_NewConfig_def
    by (intro same_rules same_ipfs same_database base) (use keys in \<open>simp_all add: watch_keys_def\<close>)
qed

lemma same_historical:
  assumes keys: "\<forall>key\<in>set historical_keys. key_same g g' pf key"
  shows "same_under g g' pf lib historical_NewConfig"
proof -
  have base: "\<forall>key\<in>set base_keys. key_same g g' pf key" using keys by (simp add: historical_keys_def)
  have "same_under g g' pf lib (\<lambda>l. historical_init l c)" for c
    unfolding historical_init_def historical_overrideDBConnConfig_def
    by (intro same_rules same_override same_node base) (use keys in \<open>simp_all add: historical_keys_def\<close>)
  then show ?thesis
    unfolding historical_NewConfig_def
    by (intro same_rules same_ipfs same_database base) (use keys in \<open>simp_all add: historical_keys_def\<close>)
qed

lemma same_resync:
  assumes keys: "\<forall>key\<in>set resync_keys. key_same g g' pf key"
  shows "same_under g g' pf lib resync_NewConfig"
proof -
  have base: "\<forall>key\<in>set base_keys. key_same g g' pf key" using keys by (simp add: resync_keys_def)
  show ?thesis
    unfolding resync_NewConfig_def
    by (intro same_rules same_ipfs same_database same_node base) (use keys in \<open>simp_all add: resync_keys_def\<close>)
qed

lemma watch_keys_flags:
  "list_all (\<lambda>k. case init_pflags k of None \<Rightarrow> True | Some (c, n) \<Rightarrow> \<not> prefix ''watcher-'' n) (watch_keys @ historical_keys)"
  by code_simp

lemma resync_keys_flags:
  "list_all (\<lambda>k. case init_pflags k of None \<Rightarrow> True | Some (c, n) \<Rightarrow> c = ''resync'' \<longrightarrow> prefix ''resync-'' n) resync_keys"
  by code_simp

lemma keys_same_of_flags:
  assumes "list_all (\<lambda>k. case pf k of None \<Rightarrow> True | Some p \<Rightarrow> P p) ks" "\<And>p. P p \<Longrightarrow> g p = g' p" "key \<in> set ks"
  shows "key_same g g' pf key"
  using assms by (auto simp: key_same_def list_all_iff split: option.splits)

text \<open>
  C38. With the bindings of the program, the flags \<open>--watcher-...\<close> have no effect at all: the configurations of the
  watcher and of the back-fill read keys that start with \<open>superNode\<close>, and the flags are bound to keys that
  start with \<open>watcher\<close>. For the command \<open>resync\<close> the flags other than \<open>--resync-...\<close> have none, because the keys
  they are bound to are bound again to the flags of the command \<open>watch\<close>.
\<close>

theorem flags_without_effect:
  assumes "cs_pflags st = init_pflags"
  shows "((\<forall>c n. \<not> prefix ''watcher-'' n \<longrightarrow> g (c, n) = g' (c, n)) \<longrightarrow>
      watch_NewConfig (lib\<lparr>cl_given := g\<rparr>) st = watch_NewConfig (lib\<lparr>cl_given := g'\<rparr>) st
      \<and> historical_NewConfig (lib\<lparr>cl_given := g\<rparr>) st = historical_NewConfig (lib\<lparr>cl_given := g'\<rparr>) st)
    \<and> ((\<forall>c n. (c = ''resync'' \<longrightarrow> prefix ''resync-'' n) \<longrightarrow> g (c, n) = g' (c, n)) \<longrightarrow>
      resync_NewConfig (lib\<lparr>cl_given := g\<rparr>) st = resync_NewConfig (lib\<lparr>cl_given := g'\<rparr>) st)"
proof (intro conjI impI)
  assume "\<forall>c n. \<not> prefix ''watcher-'' n \<longrightarrow> g (c, n) = g' (c, n)"
  then have "key_same g g' init_pflags key" if "key \<in> set (watch_keys @ historical_keys)" for key
    by (intro keys_same_of_flags [OF watch_keys_flags _ that]) auto
  then have "same_under g g' init_pflags lib watch_NewConfig" "same_under g g' init_pflags lib historical_NewConfig"
    by (intro same_watch same_historical ballI; simp)+
  then show "watch_NewConfig (lib\<lparr>cl_given := g\<rparr>) st = watch_NewConfig (lib\<lparr>cl_given := g'\<rparr>) st"
    "historical_NewConfig (lib\<lparr>cl_given := g\<rparr>) st = historical_NewConfig (lib\<lparr>cl_given := g'\<rparr>) st"
    using assms unfolding same_under_def by blast+
next
  assume "\<forall>c n. (c = ''resync'' \<longrightarrow> prefix ''resync-'' n) \<longrightarrow> g (c, n) = g' (c, n)"
  then have "key_same g g' init_pflags key" if "key \<in> set resync_keys" for key
    by (intro keys_same_of_flags [OF resync_keys_flags _ that]) auto
  then have "same_under g g' init_pflags lib resync_NewConfig" by (intro same_resync ballI)
  then show "resync_NewConfig (lib\<lparr>cl_given := g\<rparr>) st = resync_NewConfig (lib\<lparr>cl_given := g'\<rparr>) st"
    using assms unfolding same_under_def by blast
qed

text \<open>A viper that prefers a flag that was given, then the configuration file.\<close>

definition sample_config_lib :: "(string \<rightharpoonup> string) \<Rightarrow> config_lib" where
  "sample_config_lib file = \<lparr>
     vp_String = (\<lambda>f e k. case f of Some (_, Some t) \<Rightarrow> t | _ \<Rightarrow> (case file k of Some t \<Rightarrow> t | None \<Rightarrow> [])),
     vp_Bool = (\<lambda>f e k. case f of Some (_, Some t) \<Rightarrow> t = ''true'' | _ \<Rightarrow> file k = Some ''true''),
     vp_Int = (\<lambda>f e k. 0), vp_Int64 = (\<lambda>f e k. 0), cl_given = (\<lambda>_. None), rpc_Dial = (\<lambda>_. Ok ()), os_UserHomeDir = Ok ''/root'',
     sqlx_Connect = (\<lambda>_. Ok ()), nodes_insert = (\<lambda>_. Ok ())\<rparr>"

definition start_state :: config_state where
  "start_state = \<lparr>cs_pflags = init_pflags, cs_env = Map.empty, cs_nodes = [], cs_node_seq = 1\<rparr>"

theorem flags_without_effect_witness:
  "watch_NewConfig (sample_config_lib [''superNode.chain'' \<mapsto> ''bitcoin'']\<lparr>cl_given := [(''watch'', ''watcher-chain'') \<mapsto> ''ethereum'']\<rparr>) start_state
    = watch_NewConfig (sample_config_lib [''superNode.chain'' \<mapsto> ''bitcoin'']\<lparr>cl_given := Map.empty\<rparr>) start_state"
proof -
  have "\<forall>c n. \<not> prefix ''watcher-'' n \<longrightarrow> [(''watch'', ''watcher-chain'') \<mapsto> ''ethereum''] (c, n) = Map.empty (c, n)" by auto
  then show ?thesis
    using flags_without_effect [of start_state "[(''watch'', ''watcher-chain'') \<mapsto> ''ethereum'']" Map.empty
      "sample_config_lib [''superNode.chain'' \<mapsto> ''bitcoin'']"] by (simp add: start_state_def)
qed

subsection \<open>What a configuration satisfies\<close>

lemma cfg_bind_Ok: "io_bind m f st = (Ok y, st') \<longleftrightarrow> (\<exists>x st1. m st = (Ok x, st1) \<and> f x st1 = (Ok y, st'))"
  by (auto simp: io_bind_def split: outcome.splits prod.splits)

lemma cfg_Get_Ok: "viper_Get lib f key st = (Ok x, st') \<longleftrightarrow>
    st' = st \<and> x = f lib (map_option (\<lambda>p. (p, cl_given lib p)) (cs_pflags st key)) (cs_env st key) key"
  by (auto simp: viper_Get_def)

lemma cfg_return_Ok: "io_return x st = (Ok y, st') \<longleftrightarrow> y = x \<and> st' = st"
  by (auto simp: io_return_def)

lemma cfg_lift_Ok: "io_lift r st = (Ok y, st') \<longleftrightarrow> r = Ok y \<and> st' = st"
  by (auto simp: io_lift_def)

lemmas cfg_Ok = cfg_bind_Ok cfg_Get_Ok cfg_return_Ok cfg_lift_Ok

definition client_chain :: "client \<Rightarrow> ChainType \<Rightarrow> bool" where
  "client_chain cl chain \<longleftrightarrow> (case chain of Ethereum \<Rightarrow> \<exists>p. cl = EthClient p | Bitcoin \<Rightarrow> \<exists>c. cl = BtcConn c | _ \<Rightarrow> cl = NilClient)"

lemma NewChainType_known: "NewChainType s = Ok c \<Longrightarrow> c \<noteq> UnknownChain"
  using chain_names.parse_usable by blast

lemma ipfs_settings_Ok:
  "ipfs_settings lib st = (Ok (mode, path), st') \<Longrightarrow> mode \<in> {LocalInterface, DirectPostgres} \<and> (mode = DirectPostgres \<longrightarrow> path = [])"
  unfolding ipfs_settings_def GetIPFSMode_def
  by (auto simp: cfg_Ok dest: ipfs_mode_names.parse_usable split: if_splits)

lemma node_client_Ok: "node_client lib scheme ek bk chain st = (Ok (n, cl), st') \<Longrightarrow> client_chain cl chain"
  unfolding node_client_def GetEthNodeAndClient_def GetBtcNodeAndClient_def client_chain_def
  by (cases chain) (auto simp: cfg_Ok)

text \<open>The rows of the table \<open>nodes\<close>: an insert keeps the id of the row of the same node.\<close>

definition node_row :: "config_state \<Rightarrow> int \<Rightarrow> Node \<Rightarrow> bool" where
  "node_row st i n \<longleftrightarrow> (\<exists>m. find (\<lambda>(j, m). same_node m n) (cs_nodes st) = Some (i, m))"

lemma same_node_refl [simp]: "same_node n n" by (simp add: same_node_def)

lemma find_map_same:
  "find (\<lambda>(j, m). same_node m n) (map (\<lambda>(j, m). if same_node m n then (j, n) else (j, m)) rows)
    = map_option (\<lambda>(j, m). (j, n)) (find (\<lambda>(j, m). same_node m n) rows)"
  by (induction rows) auto

lemma find_append_None: "find P xs = None \<Longrightarrow> find P (xs @ ys) = find P ys"
  by (induction xs) (auto split: if_splits)

lemma upsert_node_row: "upsert_node n st = (i, st') \<Longrightarrow> node_row st' i n"
  by (auto simp: upsert_node_def node_row_def find_map_same find_append_None split: option.splits)

lemma upsert_node_again: "node_row st i n \<Longrightarrow> fst (upsert_node n st) = i"
  by (auto simp: upsert_node_def node_row_def)

lemma LoadPostgres_Ok:
  assumes "LoadPostgres lib c n st = (Ok db, st')"
  shows "upsert_node n st = (db_NodeID db, st') \<and> db_Node db = n"
proof -
  obtain r st1 where cn: "CreateNode lib n st = (r, st1)" by fastforce
  with assms have "r = Ok (db_NodeID db) \<and> st1 = st' \<and> db_Node db = n"
    by (cases "sqlx_Connect lib (DbConnectionString c)"; cases r) (auto simp: LoadPostgres_def NewDB_def io_bind_def io_lift_def)
  with cn show ?thesis
    by (cases "nodes_insert lib n"; cases "upsert_node n st") (auto simp: CreateNode_def)
qed

text \<open>Reading a setting leaves the table of nodes as it is.\<close>

lemma cfg_frame: "BindEnvs ks st = (Ok x, st') \<Longrightarrow> cs_nodes st' = cs_nodes st"
  by (auto simp: BindEnvs_def)

lemma override_nodes: "watch_overrideDBConnConfig lib con m st = (Ok x, st') \<Longrightarrow> cs_nodes st' = cs_nodes st"
  by (cases m) (auto simp: cfg_Ok override_conns_def dest: cfg_frame)

lemma node_row_nodes: "cs_nodes st' = cs_nodes st \<Longrightarrow> node_row st' i n \<longleftrightarrow> node_row st i n"
  by (simp add: node_row_def)

definition sync_ok :: "watch_config \<Rightarrow> bool" where
  "sync_ok c \<longleftrightarrow> (if wc_Sync c
     then 1 \<le> wc_Workers c \<and> client_chain (wc_WSClient c) (wc_Chain c) \<and> (\<exists>db. wc_SyncDBConn c = Some db \<and> db_Node db = wc_NodeInfo c)
     else wc_SyncDBConn c = None \<and> wc_WSClient c = NilClient \<and> wc_NodeInfo c = zero_Node)"

definition serve_ok :: "watch_config \<Rightarrow> bool" where
  "serve_ok c \<longleftrightarrow> (if wc_Serve c
     then wc_WSEndpoint c \<noteq> [] \<and> wc_HTTPEndpoint c \<noteq> [] \<and> (\<exists>db. wc_ServeDBConn c = Some db \<and> db_Node db = wc_NodeInfo c)
     else wc_ServeDBConn c = None)"

definition wf_watch_config :: "watch_config \<Rightarrow> bool" where
  "wf_watch_config c \<longleftrightarrow> wc_Chain c \<noteq> UnknownChain \<and> wc_IPFSMode c \<in> {LocalInterface, DirectPostgres}
     \<and> (wc_IPFSMode c = DirectPostgres \<longrightarrow> wc_IPFSPath c = []) \<and> sync_ok c \<and> serve_ok c
     \<and> (\<forall>a b. wc_SyncDBConn c = Some a \<and> wc_ServeDBConn c = Some b \<longrightarrow> db_NodeID a = db_NodeID b)"

lemma sync_settings_Ok:
  assumes "sync_settings lib c st = (Ok c', st')"
  shows "\<exists>w n cl db. c' = c\<lparr>wc_Workers := w, wc_NodeInfo := n, wc_WSClient := cl, wc_SyncDBConn := Some db\<rparr> \<and> 1 \<le> w
    \<and> client_chain cl (wc_Chain c) \<and> db_Node db = n \<and> node_row st' (db_NodeID db) n"
proof -
  obtain w n cl con db st1 st2 st3 where
    nc: "node_client lib ''ws://'' ''ethereum.wsPath'' ''bitcoin.wsPath'' (wc_Chain c) st1 = (Ok (n, cl), st2)"
    and db: "LoadPostgres lib con n st3 = (Ok db, st')"
    and c': "c' = c\<lparr>wc_Workers := (if w < 1 then 1 else w), wc_NodeInfo := n, wc_WSClient := cl, wc_SyncDBConn := Some db\<rparr>"
    using assms by (auto simp: sync_settings_def cfg_Ok)
  then show ?thesis
    using node_client_Ok [OF nc] LoadPostgres_Ok [OF db] upsert_node_row [of n st3 "db_NodeID db" st']
    by (intro exI [of _ "if w < 1 then 1 else w"] exI [of _ n] exI [of _ cl] exI [of _ db]) auto
qed

lemma ipc_path_state:
  "(if p = [] then io_bind (io_lift r) (\<lambda>home. io_return (f home)) else io_return p) st = (Ok x, st') \<Longrightarrow> st' = st"
  by (auto simp: cfg_Ok split: if_splits)

lemma serve_settings_Ok:
  assumes "serve_settings lib c st = (Ok c', st')"
  shows "\<exists>ws ipc http db. c' = c\<lparr>wc_WSEndpoint := ws, wc_IPCEndpoint := ipc, wc_HTTPEndpoint := http, wc_ServeDBConn := Some db\<rparr>
    \<and> ws \<noteq> [] \<and> http \<noteq> [] \<and> db_Node db = wc_NodeInfo c \<and> (\<forall>i. node_row st i (wc_NodeInfo c) \<longrightarrow> db_NodeID db = i)"
proof -
  obtain ws ipc http con db st1 where
    ov: "watch_overrideDBConnConfig lib (wc_DBConfig c) ServeMode st = (Ok con, st1)"
    and db: "LoadPostgres lib con (wc_NodeInfo c) st1 = (Ok db, st')"
    and c': "c' = c\<lparr>wc_WSEndpoint := (if ws = [] then ''127.0.0.1:8080'' else ws), wc_IPCEndpoint := ipc,
       wc_HTTPEndpoint := (if http = [] then ''127.0.0.1:8081'' else http), wc_ServeDBConn := Some db\<rparr>"
    using assms unfolding serve_settings_def
    by (elim io_bind_Ok) (drule ipc_path_state, simp only: cfg_Get_Ok cfg_return_Ok)
  have "db_NodeID db = i" if "node_row st i (wc_NodeInfo c)" for i
    using upsert_node_again [of st1 i "wc_NodeInfo c"] that LoadPostgres_Ok [OF db]
    by (simp add: node_row_nodes [OF override_nodes [OF ov]])
  with c' LoadPostgres_Ok [OF db] show ?thesis
    by (intro exI [of _ "if ws = [] then ''127.0.0.1:8080'' else ws"] exI [of _ ipc]
      exI [of _ "if http = [] then ''127.0.0.1:8081'' else http"] exI [of _ db]) simp
qed

lemma watch_NewConfig_well:
  assumes "watch_NewConfig lib st = (Ok c, st')"
  shows "wf_watch_config c"
proof -
  obtain chain name mp dbc historical sync c1 serve st0 st1 st2 st3 st4 st5 where
    lift: "io_lift (NewChainType name) st0 = (Ok chain, st1)" and ipfs: "ipfs_settings lib st1 = (Ok mp, st2)"
    and c1: "(if sync then sync_settings lib else io_return)
        \<lparr>wc_Chain = chain, wc_IPFSPath = snd mp, wc_IPFSMode = fst mp, wc_DBConfig = dbc, wc_Serve = False, wc_ServeDBConn = None,
         wc_WSEndpoint = [], wc_HTTPEndpoint = [], wc_IPCEndpoint = [], wc_Sync = sync, wc_SyncDBConn = None, wc_Workers = 0,
         wc_WSClient = NilClient, wc_NodeInfo = zero_Node, wc_Historical = historical\<rparr> st3 = (Ok c1, st4)"
    and srv: "viper_Get lib vp_Bool ''superNode.server'' st4 = (Ok serve, st5)"
    and last: "(if serve then serve_settings lib else io_return) (c1\<lparr>wc_Serve := serve\<rparr>) st5 = (Ok c, st')"
    using assms unfolding watch_NewConfig_def case_prod_beta
    by (elim io_bind_Ok) (erule that, assumption+)
  have chain: "NewChainType name = Ok chain" using lift by (simp add: cfg_lift_Ok)
  have c: "(if serve then serve_settings lib else io_return) (c1\<lparr>wc_Serve := serve\<rparr>) st4 = (Ok c, st')"
    using srv last by (simp add: cfg_Get_Ok)
  have mode: "fst mp \<in> {LocalInterface, DirectPostgres}" "fst mp = DirectPostgres \<longrightarrow> snd mp = []"
    using ipfs_settings_Ok [of lib st1 "fst mp" "snd mp" st2] ipfs by simp_all
  have base: "wc_Chain c1 = chain \<and> wc_IPFSMode c1 = fst mp \<and> wc_IPFSPath c1 = snd mp \<and> wc_Sync c1 = sync \<and> wc_ServeDBConn c1 = None \<and> sync_ok c1"
    using c1 by (cases sync) (auto simp: sync_ok_def cfg_Ok dest!: sync_settings_Ok)
  have row: "node_row st4 (db_NodeID a) (wc_NodeInfo c1)" if "wc_SyncDBConn c1 = Some a" for a
    using c1 that by (cases sync) (auto simp: cfg_Ok dest!: sync_settings_Ok)
  show ?thesis
  proof (cases serve)
    case True
    obtain ws ipc http db where s: "c = (c1\<lparr>wc_Serve := True\<rparr>)\<lparr>wc_WSEndpoint := ws, wc_IPCEndpoint := ipc, wc_HTTPEndpoint := http, wc_ServeDBConn := Some db\<rparr>"
      "ws \<noteq> []" "http \<noteq> []" "db_Node db = wc_NodeInfo c1" "\<forall>i. node_row st4 i (wc_NodeInfo c1) \<longrightarrow> db_NodeID db = i"
      using serve_settings_Ok [of lib "c1\<lparr>wc_Serve := True\<rparr>" st4 c st'] c True by auto
    with base row NewChainType_known [OF chain] mode show ?thesis
      by (auto simp: wf_watch_config_def serve_ok_def sync_ok_def)
  next
    case False
    with c base NewChainType_known [OF chain] mode show ?thesis
      by (auto simp: wf_watch_config_def serve_ok_def sync_ok_def cfg_Ok)
  qed
qed

text \<open>
  A configuration that \<open>NewConfig\<close> of the watcher returns is well-formed: the chain is a known one and the mode one that is
  supported; with syncing on there is at least one worker, a client of the kind the chain needs and a connection
  for the node that is watched; with serving on there are addresses and a connection, and when both are on the two connections
  write under the same node id.
\<close>

theorem watch_NewConfig_wf:
  assumes "watch_NewConfig lib st = (Ok c, st')"
  shows "wf_watch_config c"
  by (rule watch_NewConfig_well [OF assms])

definition sample_file :: "string \<rightharpoonup> string" where
  "sample_file = [''superNode.chain'' \<mapsto> ''bitcoin'', ''superNode.sync'' \<mapsto> ''true'', ''superNode.server'' \<mapsto> ''true'', ''bitcoin.nodeID'' \<mapsto> ''n'']"

lemma sample_config_run:
  "case fst (watch_NewConfig (sample_config_lib sample_file) start_state) of Ok c \<Rightarrow> wc_Chain c = Bitcoin \<and> wc_Sync c \<and> wc_Serve c | _ \<Rightarrow> False"
  by code_simp

theorem watch_NewConfig_wf_witness:
  "\<exists>c. fst (watch_NewConfig (sample_config_lib sample_file) start_state) = Ok c \<and> wf_watch_config c \<and> wc_Chain c = Bitcoin \<and> wc_Sync c \<and> wc_Serve c"
proof -
  obtain c st' where run: "watch_NewConfig (sample_config_lib sample_file) start_state = (Ok c, st')"
    using sample_config_run by (cases "watch_NewConfig (sample_config_lib sample_file) start_state") (auto split: outcome.splits)
  with watch_NewConfig_wf [OF run] sample_config_run show ?thesis by simp
qed

text \<open>The settings of the back-fill and of the resync: the clients fit the chain, and the resync type is one that the chain has.\<close>

lemma historical_init_Ok:
  assumes "historical_init lib c st = (Ok c', st')"
  shows "hc_Chain c' = hc_Chain c \<and> hc_IPFSMode c' = hc_IPFSMode c \<and> client_chain (hc_HTTPClient c') (hc_Chain c)
    \<and> (\<exists>db. hc_DB c' = Some db \<and> db_Node db = hc_NodeInfo c')"
proof -
  obtain ncl con db st4 st5 st6 t f a b v st7 where
    nc: "node_client lib ''http://'' ''ethereum.httpPath'' ''bitcoin.httpPath'' (hc_Chain c) st4 = (Ok ncl, st5)"
    and db: "LoadPostgres lib con (fst ncl) st6 = (Ok db, st7)"
    and c': "io_return (c\<lparr>hc_Timeout := seconds (if t < 15 then 15 else t), hc_NodeInfo := fst ncl, hc_HTTPClient := snd ncl,
       hc_Frequency := (if f \<le> 0 then seconds 30 else seconds f), hc_BatchSize := of_int a, hc_BatchNumber := of_int b,
       hc_ValidationLevel := v, hc_DB := Some db\<rparr>) st7 = (Ok c', st')"
    using assms unfolding historical_init_def case_prod_beta
    by (elim io_bind_Ok) (erule that, assumption+)
  have "client_chain (snd ncl) (hc_Chain c)"
    using nc node_client_Ok [of lib _ _ _ "hc_Chain c" st4 "fst ncl" "snd ncl" st5] by simp
  with c' LoadPostgres_Ok [OF db] show ?thesis by (auto simp: cfg_return_Ok)
qed

lemma historical_NewConfig_ok:
  assumes "historical_NewConfig lib st = (Ok c, st')"
  shows "hc_Chain c \<noteq> UnknownChain \<and> hc_IPFSMode c \<in> {LocalInterface, DirectPostgres} \<and> client_chain (hc_HTTPClient c) (hc_Chain c)
    \<and> (\<exists>db. hc_DB c = Some db \<and> db_Node db = hc_NodeInfo c)"
proof -
  obtain chain name mp dbc st0 st1 st2 st3 where
    lift: "io_lift (NewChainType name) st0 = (Ok chain, st1)" and ipfs: "ipfs_settings lib st1 = (Ok mp, st2)"
    and init: "historical_init lib \<lparr>hc_Chain = chain, hc_IPFSPath = snd mp, hc_IPFSMode = fst mp, hc_DBConfig = dbc, hc_DB = None,
       hc_HTTPClient = NilClient, hc_Frequency = 0, hc_BatchSize = 0, hc_BatchNumber = 0, hc_ValidationLevel = 0, hc_Timeout = 0,
       hc_NodeInfo = zero_Node\<rparr> st3 = (Ok c, st')"
    using assms unfolding historical_NewConfig_def case_prod_beta
    by (elim io_bind_Ok) (erule that, assumption+)
  have "NewChainType name = Ok chain" using lift by (simp add: cfg_lift_Ok)
  then have "chain \<noteq> UnknownChain" by (rule NewChainType_known)
  moreover have "fst mp \<in> {LocalInterface, DirectPostgres}" using ipfs_settings_Ok [of lib st1 "fst mp" "snd mp" st2] ipfs by simp
  ultimately show ?thesis using historical_init_Ok [OF init] by simp
qed

lemma resync_NewConfig_ok:
  assumes "resync_NewConfig lib st = (Ok c, st')"
  shows "rs_Chain c \<in> {Ethereum, Bitcoin} \<and> rs_IPFSMode c \<in> {LocalInterface, DirectPostgres} \<and> client_chain (rs_HTTPClient c) (rs_Chain c)
    \<and> SupportedDataType (rs_ResyncType c) (rs_Chain c) = Ok True \<and> length (rs_Ranges c) = 1 \<and> (\<exists>db. rs_DB c = Some db \<and> db_Node db = rs_NodeInfo c)"
proof -
  obtain mp dt chain ncl dbc db start stop clear reset t bs bn u st0 st1 st2 st3 st4 st5 st6 st7 where
    ipfs: "ipfs_settings lib st0 = (Ok mp, st1)" and sup: "io_lift (supported_or_error dt chain) st2 = (Ok u, st3)"
    and nc: "node_client lib ''http://'' ''ethereum.httpPath'' ''bitcoin.httpPath'' chain st3 = (Ok ncl, st4)"
    and db: "LoadPostgres lib dbc (fst ncl) st5 = (Ok db, st6)"
    and c: "io_return \<lparr>rs_Chain = chain, rs_ResyncType = dt, rs_ClearOldCache = clear, rs_ResetValidation = reset,
       rs_DB = Some db, rs_DBConfig = dbc, rs_IPFSPath = snd mp, rs_IPFSMode = fst mp, rs_HTTPClient = snd ncl, rs_NodeInfo = fst ncl,
       rs_Ranges = [(of_int start, of_int stop)], rs_BatchSize = of_int bs,
       rs_Timeout = seconds (if t < 5 then 5 else t), rs_BatchNumber = of_int bn\<rparr> st7 = (Ok c, st')"
    using assms unfolding resync_NewConfig_def case_prod_beta
    by (elim io_bind_Ok) (erule that, assumption+)
  have "SupportedDataType dt chain = Ok True"
    using sup by (auto simp: cfg_lift_Ok supported_or_error_def split: outcome.splits bool.splits)
  moreover from this have "chain \<in> {Ethereum, Bitcoin}" by (cases chain; cases dt) simp_all
  moreover have "fst mp \<in> {LocalInterface, DirectPostgres}" using ipfs_settings_Ok [of lib st0 "fst mp" "snd mp" st1] ipfs by simp
  moreover have "client_chain (snd ncl) chain" using nc node_client_Ok [of lib _ _ _ chain st3 "fst ncl" "snd ncl" st4] by simp
  ultimately show ?thesis using c LoadPostgres_Ok [OF db] by (simp add: cfg_return_Ok)
qed

end
