(* ===== verification/Utils_Bins.thy ===== *)
theory Utils_Bins
  imports Shared_Types
begin

text \<open>
  Package \<open>utils\<close>: splitting a block range into bins of block heights and turning a list of
  missing heights into gaps. Heights are \<open>uint64\<close> and every addition of the code wraps.
\<close>

subsection \<open>GetBlockHeightBins\<close>

text \<open>The inner loop: \<open>for j := startingBlock; j < nextBinStart && j <= endingBlock; j++\<close>.\<close>

function collectBin :: "u64 \<Rightarrow> u64 \<Rightarrow> u64 \<Rightarrow> u64 list" where
  "collectBin j nextBinStart endingBlock =
     (if j < nextBinStart \<and> j \<le> endingBlock
      then j # collectBin (j + 1) nextBinStart endingBlock else [])"
  by pat_completeness auto
termination
  by (relation "measure (\<lambda>(j, n, e). unat n - unat j)")
     (auto simp: unat_inc_u64 word_less_nat_alt)

declare collectBin.simps [simp del]

text \<open>The outer loop, run \<open>numberOfBins\<close> times; each turn starts where the last one stopped.\<close>

fun fillBins :: "nat \<Rightarrow> u64 \<Rightarrow> u64 \<Rightarrow> u64 \<Rightarrow> u64 list list" where
  "fillBins 0 startingBlock endingBlock batchSize = []"
| "fillBins (Suc n) startingBlock endingBlock batchSize =
     (let nextBinStart = startingBlock + batchSize in
      collectBin startingBlock nextBinStart endingBlock
        # fillBins n nextBinStart endingBlock batchSize)"

definition numberOfBins :: "u64 \<Rightarrow> u64 \<Rightarrow> u64 \<Rightarrow> u64" where
  "numberOfBins startingBlock endingBlock batchSize =
     (let length = endingBlock - startingBlock + 1 in
      if length mod batchSize \<noteq> 0 then length div batchSize + 1 else length div batchSize)"

definition GetBlockHeightBins :: "u64 \<Rightarrow> u64 \<Rightarrow> u64 \<Rightarrow> u64 list list outcome" where
  "GetBlockHeightBins startingBlock endingBlock batchSize =
     (if endingBlock < startingBlock
      then Err (Errorf
        ''backfill: ending block number needs to be greater than starting block number'' [])
      else if batchSize = 0
      then Err (Errorf ''backfill: batchsize needs to be greater than zero'' [])
      else Ok (fillBins (unat (numberOfBins startingBlock endingBlock batchSize))
                 startingBlock endingBlock batchSize))"

subsection \<open>MissingHeightsToGaps\<close>

text \<open>
  The loop over \<open>heights[1:]\<close>; \<open>i\<close> is the loop index, \<open>n\<close> is \<open>len(heights)\<close>.
\<close>

fun gapsLoop :: "nat \<Rightarrow> nat \<Rightarrow> u64 \<Rightarrow> u64 \<Rightarrow> u64 list \<Rightarrow> Gap list" where
  "gapsLoop n i start lastHeight [] = []"
| "gapsLoop n i start lastHeight (height # rest) =
     (let cut = (height \<noteq> lastHeight + 1);
          closed = (if cut then [\<lparr>gap_Start = start, gap_Stop = lastHeight\<rparr>] else []);
          start' = (if cut then height else start);
          final = (if i + 2 = n then [\<lparr>gap_Start = start', gap_Stop = height\<rparr>] else [])
      in closed @ final @ gapsLoop n (i + 1) start' height rest)"

fun MissingHeightsToGaps :: "u64 list \<Rightarrow> Gap list" where
  "MissingHeightsToGaps [] = []"
| "MissingHeightsToGaps (h # hs) = gapsLoop (length (h # hs)) 0 h h hs"

subsection \<open>Lemmas: one bin\<close>

lemma collectBin_nat:
  "map unat (collectBin j n e) = [unat j ..< min (unat n) (Suc (unat e))]"
proof (induction j n e rule: collectBin.induct)
  case (1 j n e)
  show ?case
  proof (cases "j < n \<and> j \<le> e")
    case True
    then have "unat j < min (unat n) (Suc (unat e))"
      by (auto simp: word_less_nat_alt word_le_nat_alt)
    moreover have "unat (j + 1) = Suc (unat j)" using True unat_inc_u64 [of j n] by simp
    ultimately show ?thesis
      using True "1.IH" by (subst collectBin.simps) (simp add: upt_conv_Cons)
  next
    case False
    then have "min (unat n) (Suc (unat e)) \<le> unat j"
      by (auto simp: word_less_nat_alt word_le_nat_alt)
    then show ?thesis using False by (subst collectBin.simps) auto
  qed
qed

lemma upt_append_min:
  assumes "a \<le> b"
  shows "[a ..< min b c] @ [b ..< c] = [a ..< (c::nat)]"
proof (cases "b \<le> c")
  case True
  then show ?thesis using assms upt_add_eq_append [of a b "c - b"] by simp
next
  case False
  then show ?thesis by simp
qed

subsection \<open>Lemmas: all bins\<close>

text \<open>
  The bins of the loop, read as natural numbers: as long as the running start does not wrap,
  bin \<open>k\<close> holds the heights from \<open>s + k * b\<close> up to the smaller of \<open>s + (k + 1) * b\<close> and \<open>e\<close>.
\<close>

definition nat_bins :: "nat \<Rightarrow> nat \<Rightarrow> nat \<Rightarrow> nat \<Rightarrow> nat list list" where
  "nat_bins n s e b = map (\<lambda>k. [s + k * b ..< min (s + Suc k * b) (Suc e)]) [0 ..< n]"

lemma nat_bins_Suc: "nat_bins (Suc n) s e b = [s ..< min (s + b) (Suc e)] # nat_bins n (s + b) e b"
proof -
  have "[0 ..< Suc n] = 0 # map Suc [0 ..< n]" by (simp add: upt_conv_Cons map_Suc_upt)
  then show ?thesis by (simp add: nat_bins_def comp_def ac_simps)
qed

lemma fillBins_nat:
  assumes "unat s + n * unat b < 2 ^ 64"
  shows "map (map unat) (fillBins n s e b) = nat_bins n (unat s) (unat e) (unat b)"
  using assms
proof (induction n arbitrary: s)
  case 0
  then show ?case by (simp add: nat_bins_def)
next
  case (Suc n)
  have "unat (s + b) = unat s + unat b"
    using Suc.prems by (intro unat_add_no_wrap) simp
  then show ?case
    using Suc.IH [of "s + b"] Suc.prems
    by (simp add: Let_def nat_bins_Suc collectBin_nat ac_simps)
qed

lemma concat_nat_bins:
  assumes "s \<le> Suc e" "Suc e \<le> s + n * b"
  shows "concat (nat_bins n s e b) = [s ..< Suc e]"
  using assms
proof (induction n arbitrary: s)
  case 0
  then show ?case by (simp add: nat_bins_def)
next
  case (Suc n)
  show ?case
  proof (cases "s + b \<le> Suc e")
    case True
    then have "concat (nat_bins n (s + b) e b) = [s + b ..< Suc e]"
      using Suc.prems by (intro Suc.IH) auto
    then show ?thesis using upt_append_min [of s "s + b" "Suc e"] by (simp add: nat_bins_Suc)
  next
    case False
    then have "concat (nat_bins n (s + b) e b) = []"
      by (auto simp: nat_bins_def)
    then show ?thesis using False by (simp add: nat_bins_Suc)
  qed
qed

text \<open>The number of bins is the range length divided by the batch size, rounded up.\<close>

definition bin_count :: "nat \<Rightarrow> nat \<Rightarrow> nat \<Rightarrow> nat" where
  "bin_count s e b = (Suc e - s + b - 1) div b"

lemma div_ceiling:
  assumes "0 < (b::nat)"
  shows "(l + b - 1) div b = (if l mod b = 0 then l div b else l div b + 1)"
proof -
  have "l + b - 1 = (l mod b + b - 1) + l div b * b"
    using assms by (simp add: add.commute mult.commute)
  moreover have "(l mod b + b - 1) div b = (if l mod b = 0 then 0 else 1)"
  proof (cases "l mod b = 0")
    case False
    have "l mod b + b - 1 = (l mod b - 1) + b" using False by simp
    moreover have "l mod b - 1 < b" using assms by (simp add: less_imp_diff_less)
    ultimately show ?thesis using assms False by (simp only: div_add_self2) simp
  qed (use assms in simp)
  ultimately show ?thesis using assms div_mult_self1 [of b "l mod b + b - 1" "l div b"] by simp
qed

lemma unat_numberOfBins:
  assumes "s \<le> e" "0 < b" "unat e + unat b < 2 ^ 64"
  shows "unat (numberOfBins s e b) = bin_count (unat s) (unat e) (unat b)"
proof -
  let ?l = "Suc (unat e) - unat s"
  have se: "unat s \<le> unat e" using assms(1) by (simp add: word_le_nat_alt)
  have b: "0 < unat b" using assms(2) by (simp add: word_less_nat_alt)
  have "unat (e - s) = unat e - unat s" using assms(1) by (simp add: unat_sub)
  moreover have "unat (e - s) + unat (1::u64) < 2 ^ 64" using calculation assms(3) b by simp
  ultimately have len: "unat (e - s + 1) = ?l"
    using unat_add_no_wrap [of "e - s" 1] se by simp
  have "unat ((e - s + 1) div b + 1) = ?l div unat b + 1" if "?l mod unat b \<noteq> 0"
  proof -
    have "1 < unat b" using that b by (cases "unat b = 1") auto
    then have "?l div unat b < ?l" using se by (intro div_less_dividend) auto
    then have "?l div unat b + 1 < 2 ^ 64" using assms(3) \<open>1 < unat b\<close> by linarith
    then show ?thesis
      by (subst unat_add_no_wrap) (simp_all add: unat_div_distrib len)
  qed
  moreover have "(e - s + 1) mod b = 0 \<longleftrightarrow> ?l mod unat b = 0"
    by (simp add: word_unat_eq_iff unat_mod_distrib len)
  ultimately show ?thesis
    using div_ceiling [OF b, of ?l]
    by (simp add: numberOfBins_def Let_def bin_count_def unat_div_distrib len)
qed

lemma bin_count_bounds:
  assumes "s \<le> e" "0 < b"
  shows "Suc e \<le> s + bin_count s e b * b" and "bin_count s e b * b < Suc e - s + b"
    and "0 < bin_count s e b"
proof -
  let ?x = "Suc e - s + b - 1"
  obtain r where r: "?x = bin_count s e b * b + r" "r < b"
    using assms by (metis bin_count_def div_mult_mod_eq mod_less_divisor)
  then show "Suc e \<le> s + bin_count s e b * b" "bin_count s e b * b < Suc e - s + b"
    using assms by linarith+
  show "0 < bin_count s e b"
    using assms by (simp add: bin_count_def div_greater_zero_iff)
qed

lemma GetBlockHeightBins_nat:
  assumes "s \<le> e" "0 < b" "unat e + unat b < 2 ^ 64"
  obtains bins where "GetBlockHeightBins s e b = Ok bins"
    and "map (map unat) bins = nat_bins (bin_count (unat s) (unat e) (unat b)) (unat s) (unat e) (unat b)"
proof -
  let ?n = "bin_count (unat s) (unat e) (unat b)"
  have "unat s \<le> unat e" and "0 < unat b"
    using assms by (simp_all add: word_le_nat_alt word_less_nat_alt)
  then have "unat s + ?n * unat b < 2 ^ 64"
    using bin_count_bounds(2) [of "unat s" "unat e" "unat b"] assms(3) by linarith
  moreover have "GetBlockHeightBins s e b = Ok (fillBins ?n s e b)"
    using assms by (auto simp: GetBlockHeightBins_def unat_numberOfBins)
  ultimately show ?thesis using that fillBins_nat by blast
qed

lemma nat_bins_sizes:
  assumes "s \<le> e" "0 < b" "bin \<in> set (nat_bins (bin_count s e b) s e b)"
  shows "bin \<noteq> []" and "length bin \<le> b"
proof -
  obtain k where k: "k < bin_count s e b" "bin = [s + k * b ..< min (s + Suc k * b) (Suc e)]"
    using assms(3) by (auto simp: nat_bins_def)
  have "Suc k * b \<le> bin_count s e b * b" using k(1) by (intro mult_le_mono1) simp
  then have "s + k * b < Suc e" using bin_count_bounds(2) [OF assms(1,2)] assms(1) by simp
  then show "bin \<noteq> []" using k(2) assms(2) by simp
  show "length bin \<le> b" using k(2) by simp
qed

text \<open>
  The contract the back-fill and resync services rely on, whatever splits the range: inside the
  range of heights that cannot wrap, the bins list exactly the range, in order, and no bin is
  empty or longer than the batch size.
\<close>

locale height_bins =
  fixes bins_of :: "u64 \<Rightarrow> u64 \<Rightarrow> u64 \<Rightarrow> u64 list list outcome"
  assumes bins_ok: "s \<le> e \<Longrightarrow> 0 < b \<Longrightarrow> unat e + unat b < 2 ^ 64 \<Longrightarrow> is_Ok (bins_of s e b)"
    and bins_concat: "bins_of s e b = Ok bins \<Longrightarrow> unat e + unat b < 2 ^ 64 \<Longrightarrow>
      map unat (concat bins) = [unat s ..< Suc (unat e)]"
    and bins_sizes: "bins_of s e b = Ok bins \<Longrightarrow> unat e + unat b < 2 ^ 64 \<Longrightarrow> bin \<in> set bins \<Longrightarrow>
      bin \<noteq> [] \<and> length bin \<le> unat b"
begin

lemma bins_heights:
  assumes "bins_of s e b = Ok bins" "unat e + unat b < 2 ^ 64"
  shows "set (concat bins) = {s .. e}"
proof -
  have "unat ` set (concat bins) = {unat s ..< Suc (unat e)}"
    using arg_cong [OF bins_concat [OF assms], of set]
    by (simp only: set_map set_upt)
  also have "\<dots> = unat ` {s .. e}"
  proof (intro equalityI subsetI)
    fix n assume "n \<in> {unat s ..< Suc (unat e)}"
    then have "unat (word_of_nat n :: u64) = n"
      using unat_u64_less [of e] by (simp add: unat_of_nat)
    with \<open>n \<in> _\<close> show "n \<in> unat ` {s .. e}"
      by (intro image_eqI [of _ _ "word_of_nat n"]) (auto simp: word_le_nat_alt)
  qed (auto simp: word_le_nat_alt)
  finally show ?thesis by (simp add: inj_image_eq_iff inj_on_def word_unat_eq_iff)
qed

lemma bins_distinct:
  assumes "bins_of s e b = Ok bins" "unat e + unat b < 2 ^ 64"
  shows "distinct (concat bins)"
  using bins_concat [OF assms] by (metis distinct_map distinct_upt)

end

lemma GetBlockHeightBins_Ok_iff:
  "is_Ok (GetBlockHeightBins s e b) \<longleftrightarrow> s \<le> e \<and> 0 < b"
  by (auto simp: GetBlockHeightBins_def word_greater_zero_iff)

interpretation bins: height_bins GetBlockHeightBins
proof
  fix s e b :: u64 and bins bin
  assume ok: "GetBlockHeightBins s e b = Ok bins" and nw: "unat e + unat b < 2 ^ 64"
  then have se: "s \<le> e" "0 < b" using GetBlockHeightBins_Ok_iff [of s e b] by auto
  let ?bins = "nat_bins (bin_count (unat s) (unat e) (unat b)) (unat s) (unat e) (unat b)"
  have m: "map (map unat) bins = ?bins"
    using GetBlockHeightBins_nat [OF se nw] ok by auto
  have ne: "unat s \<le> unat e" "0 < unat b"
    using se by (simp_all add: word_le_nat_alt word_less_nat_alt)
  then have "concat ?bins = [unat s ..< Suc (unat e)]"
    using bin_count_bounds(1) by (intro concat_nat_bins) auto
  then show "map unat (concat bins) = [unat s ..< Suc (unat e)]"
    using m by (simp add: map_concat)
  assume "bin \<in> set bins"
  then have "map unat bin \<in> set ?bins" by (simp flip: m)
  from nat_bins_sizes [OF ne this] show "bin \<noteq> [] \<and> length bin \<le> unat b" by simp
qed (simp add: GetBlockHeightBins_Ok_iff)

subsection \<open>Lemmas: gaps\<close>

lemma inc_range:
  assumes "(l::u64) < l + 1" "s \<le> l"
  shows "{s .. l + 1} = insert (l + 1) {s .. l}"
proof -
  have "unat (l + 1) = Suc (unat l)" using assms(1) by (rule unat_inc_u64)
  then show ?thesis using assms(2)
    by (auto simp: word_le_nat_alt word_unat_eq_iff)
qed

definition gaps_union :: "Gap list \<Rightarrow> u64 set" where
  "gaps_union gs = (\<Union>g\<in>set gs. gap_heights g)"

lemma gaps_union_simps [simp]:
  "gaps_union [] = {}"
  "gaps_union (g # gs) = gap_heights g \<union> gaps_union gs"
  "gaps_union (as @ bs) = gaps_union as \<union> gaps_union bs"
  by (auto simp: gaps_union_def)

text \<open>The open gap and the heights still to come are what the loop covers.\<close>

lemma gapsLoop_union:
  assumes "n = i + 1 + length (h # hs)" "start \<le> prev" "sorted (prev # h # hs)"
  shows "gaps_union (gapsLoop n i start prev (h # hs)) = {start .. prev} \<union> set (h # hs)"
  using assms
proof (induction hs arbitrary: i start prev h)
  case Nil
  then show ?case
    by (auto simp: Let_def gap_heights_def inc_range less_le)
next
  case (Cons h' hs)
  let ?s = "if h \<noteq> prev + 1 then h else start"
  have "?s \<le> h" using Cons.prems by auto
  then have IH: "gaps_union (gapsLoop n (i + 1) ?s h (h' # hs)) = {?s .. h} \<union> set (h' # hs)"
    using Cons.prems by (intro Cons.IH) auto
  have "{start .. prev} \<union> {?s .. h} = {start .. prev} \<union> {h}" if "h \<noteq> prev + 1"
    using that by auto
  moreover have "{start .. h} = {start .. prev} \<union> {h}" if "h = prev + 1"
    using that Cons.prems inc_range [of prev start] by (auto simp: less_le)
  ultimately show ?case
    using IH Cons.prems(1) by (simp add: Let_def gap_heights_def split: if_splits) blast+
qed

text \<open>
  The gaps come out in order, each non-empty, and with at least one height that is not missing
  between any two of them.
\<close>

definition gap_before :: "Gap \<Rightarrow> Gap \<Rightarrow> bool" where
  "gap_before g g' \<longleftrightarrow> unat (gap_Stop g) + 1 < unat (gap_Start g')"

lemma gapsLoop_separated:
  assumes "start \<le> prev" "sorted_wrt (<) (prev # hs)" "n = i + 1 + length hs"
  shows "sorted_wrt gap_before (gapsLoop n i start prev hs)
    \<and> (\<forall>g\<in>set (gapsLoop n i start prev hs). start \<le> gap_Start g \<and> gap_Start g \<le> gap_Stop g)"
  using assms
proof (induction hs arbitrary: i start prev)
  case Nil
  then show ?case by simp
next
  case (Cons h hs)
  let ?s = "if h \<noteq> prev + 1 then h else start"
  have ph: "prev < h" and "?s \<le> h" using Cons.prems by auto
  let ?rest = "gapsLoop n (i + 1) ?s h hs"
  have IH: "sorted_wrt gap_before ?rest" "\<forall>g\<in>set ?rest. ?s \<le> gap_Start g \<and> gap_Start g \<le> gap_Stop g"
    using Cons.IH [of ?s h "i + 1"] Cons.prems \<open>?s \<le> h\<close> by auto
  have last: "?rest = []" if "i + 2 = n" using that Cons.prems(3) by simp
  have far: "unat prev + 1 < unat h" if "h \<noteq> prev + 1"
    using that ph unat_inc_u64 [OF ph] by (auto simp: word_less_nat_alt word_unat_eq_iff)
  have "start \<le> ?s" using ph Cons.prems(1) by auto
  have cut: "gap_before \<lparr>gap_Start = start, gap_Stop = prev\<rparr> g"
    if "h \<noteq> prev + 1" "h \<le> gap_Start g" for g
    using that far by (auto simp: gap_before_def word_le_nat_alt)
  show ?case
    using IH last cut Cons.prems(1) ph \<open>start \<le> ?s\<close>
    by (cases "i + 2 = n"; cases "h = prev + 1") (fastforce simp: Let_def)+
qed

lemma MissingHeightsToGaps_union:
  assumes "sorted heights" "length heights \<noteq> 1"
  shows "gaps_union (MissingHeightsToGaps heights) = set heights"
  using assms
proof (cases heights rule: MissingHeightsToGaps.cases)
  case (2 h hs)
  then obtain h' hs' where hs: "hs = h' # hs'" using assms(2) by (cases hs) auto
  with 2 assms(1) have "gaps_union (gapsLoop (length heights) 0 h h (h' # hs')) = {h .. h} \<union> set (h' # hs')"
    by (intro gapsLoop_union) auto
  with 2 hs show ?thesis by (auto simp del: gapsLoop.simps)
qed simp

lemma MissingHeightsToGaps_single: "length heights = 1 \<Longrightarrow> MissingHeightsToGaps heights = []"
  by (cases heights) auto

subsection \<open>Properties\<close>

text \<open>
  C23. For a non-empty range whose end plus one batch fits into 64 bits, \<open>GetBlockHeightBins\<close>
  returns bins that list exactly the heights of the range in increasing order, each height once;
  their number is the range length over the batch size rounded up, no bin is empty and none is
  longer than the batch size.
\<close>

theorem GetBlockHeightBins_partition:
  assumes "startingBlock \<le> endingBlock" "0 < batchSize" "unat endingBlock + unat batchSize < 2 ^ 64"
  shows "\<exists>bins. GetBlockHeightBins startingBlock endingBlock batchSize = Ok bins
    \<and> map unat (concat bins) = [unat startingBlock ..< unat endingBlock + 1]
    \<and> length bins = (unat endingBlock + 1 - unat startingBlock + unat batchSize - 1) div unat batchSize
    \<and> list_all (\<lambda>bin. 0 < length bin \<and> length bin \<le> unat batchSize) bins"
proof -
  obtain bins where bins: "GetBlockHeightBins startingBlock endingBlock batchSize = Ok bins"
    and m: "map (map unat) bins = nat_bins
      (bin_count (unat startingBlock) (unat endingBlock) (unat batchSize))
      (unat startingBlock) (unat endingBlock) (unat batchSize)"
    using GetBlockHeightBins_nat [OF assms] by blast
  have "length bins = bin_count (unat startingBlock) (unat endingBlock) (unat batchSize)"
    using arg_cong [OF m, of length] by (simp add: nat_bins_def)
  with bins bins.bins_concat [OF bins assms(3)] bins.bins_sizes [OF bins assms(3)] show ?thesis
    by (auto simp: list_all_iff bin_count_def)
qed

theorem GetBlockHeightBins_partition_witness:
  "\<exists>bins. GetBlockHeightBins 3 9 3 = Ok bins \<and> map unat (concat bins) = [3 ..< 10] \<and> length bins = 3"
  using GetBlockHeightBins_partition [of 3 9 3] by auto

text \<open>
  At the top of the 64-bit range the bins are not a partition: with the whole range
  requested the computed length wraps to zero and no bin is returned, and with an end closer to
  the limit than one batch the start of the next bin wraps, so the bin comes out empty.
\<close>

theorem GetBlockHeightBins_wraps:
  "GetBlockHeightBins 0 (- 1) b = (if b = 0
      then Err (Errorf ''backfill: batchsize needs to be greater than zero'' []) else Ok [])
   \<and> GetBlockHeightBins (- 3) (- 2) 5 = Ok [[]]"
proof
  show "GetBlockHeightBins 0 (- 1) b = (if b = 0
      then Err (Errorf ''backfill: batchsize needs to be greater than zero'' []) else Ok [])"
    by (simp add: GetBlockHeightBins_def numberOfBins_def Let_def)
  have "numberOfBins (- 3) (- 2) 5 = 1" by code_simp
  moreover have "collectBin (- 3) (- 3 + 5) (- 2) = []" by (subst collectBin.simps) code_simp
  ultimately show "GetBlockHeightBins (- 3) (- 2) 5 = Ok [[]]"
    by (simp add: GetBlockHeightBins_def Let_def)
qed

text \<open>
  Of a strictly increasing list of at least two missing heights, \<open>MissingHeightsToGaps\<close>
  returns gaps that cover exactly those heights, in order, none empty, any two of them separated
  by a height that is not missing; of a list with one height it returns no gap at all, so a
  single missing height is lost.
\<close>

theorem MissingHeightsToGaps_cover:
  assumes "sorted_wrt (<) heights"
  shows "if 2 \<le> length heights
    then (\<Union>g\<in>set (MissingHeightsToGaps heights). {gap_Start g .. gap_Stop g}) = set heights
      \<and> sorted_wrt (\<lambda>g g'. unat (gap_Stop g) + 1 < unat (gap_Start g')) (MissingHeightsToGaps heights)
      \<and> list_all (\<lambda>g. gap_Start g \<le> gap_Stop g) (MissingHeightsToGaps heights)
    else MissingHeightsToGaps heights = []"
proof (cases heights)
  case (Cons h hs)
  show ?thesis
  proof (cases hs)
    case (Cons h' hs')
    have "sorted heights" using assms by (rule sorted_wrt_mono_rel [rotated]) auto
    with Cons \<open>heights = h # hs\<close> have "gaps_union (MissingHeightsToGaps heights) = set heights"
      by (intro MissingHeightsToGaps_union) auto
    with Cons \<open>heights = h # hs\<close> assms gapsLoop_separated [of h h hs "length heights" 0]
    show ?thesis
      by (auto simp: gaps_union_def gap_heights_def gap_before_def [abs_def] list_all_iff
          simp del: gapsLoop.simps)
  qed (use Cons in simp)
qed simp

theorem MissingHeightsToGaps_cover_witness:
  "(\<Union>g\<in>set (MissingHeightsToGaps [4, 5, 9]). {gap_Start g .. gap_Stop g}) = {4, 5, 9 :: u64}"
  using MissingHeightsToGaps_cover [of "[4, 5, 9]"] by simp

end
