(* ===== verification/Ipld_Cid.thy ===== *)
theory Ipld_Cid
  imports Go_Strings
begin

text \<open>
  Content identifiers as package \<open>ipld\<close> and \<open>shared/functions.go\<close> build them: the IPLD codecs,
  \<open>RawdataToCid\<close> and the hash-to-cid helpers, and the blockstore key of a cid. The multihash, cid
  and datastore-key libraries are the fields of a parameter record; a cid is the pair of codec and
  multihash that a version 1 cid consists of.
\<close>

datatype Cid = Cid (cid_Codec: u64) (cid_Hash: bytes)

text \<open>
  \<open>mh_Sum code data\<close> is \<open>multihash.Sum\<close> with the default length, \<open>mh_Encode\<close> wraps a digest,
  \<open>MultihashToDsKey\<close> is the text of the datastore key.
\<close>

record ipfs_lib =
  mh_Sum :: "u64 \<Rightarrow> bytes \<Rightarrow> bytes outcome"
  mh_Encode :: "bytes \<Rightarrow> u64 \<Rightarrow> bytes outcome"
  Cid_String :: "Cid \<Rightarrow> string"
  cid_Decode :: "string \<Rightarrow> Cid outcome"
  MultihashToDsKey :: "bytes \<Rightarrow> string"
  BlockPrefix :: string

text \<open>An IPLD node, as far as storing it goes (\<open>node.Node\<close>): its cid and its raw data.\<close>

record ipld_node =
  node_Cid :: Cid
  node_RawData :: bytes

text \<open>\<open>ipfs.BlockModel\<close>\<close>

record BlockModel =
  bm_CID :: string
  bm_Data :: bytes

definition empty_BlockModel :: BlockModel where
  "empty_BlockModel = \<lparr>bm_CID = '''', bm_Data = []\<rparr>"

subsection \<open>Codecs and multihash codes\<close>

definition MEthHeader :: u64 where "MEthHeader = 0x90"
definition MEthTxTrie :: u64 where "MEthTxTrie = 0x92"
definition MEthTx :: u64 where "MEthTx = 0x93"
definition MEthTxReceiptTrie :: u64 where "MEthTxReceiptTrie = 0x94"
definition MEthTxReceipt :: u64 where "MEthTxReceipt = 0x95"
definition MEthStateTrie :: u64 where "MEthStateTrie = 0x96"
definition MEthAccountSnapshot :: u64 where "MEthAccountSnapshot = 0x97"
definition MEthHeaderList :: u64 where "MEthHeaderList = 0x91"
definition RawBinary :: u64 where "RawBinary = 0x55"
definition MEthStorageTrie :: u64 where "MEthStorageTrie = 0x98"
definition MBitcoinHeader :: u64 where "MBitcoinHeader = 0xb0"
definition MBitcoinTx :: u64 where "MBitcoinTx = 0xb1"

definition KECCAK_256 :: u64 where "KECCAK_256 = 0x1b"
definition DBL_SHA2_256 :: u64 where "DBL_SHA2_256 = 0x56"

subsection \<open>Building cids\<close>

definition RawdataToCid :: "ipfs_lib \<Rightarrow> u64 \<Rightarrow> bytes \<Rightarrow> u64 \<Rightarrow> Cid outcome" where
  "RawdataToCid lib codec rawdata multiHash =
     outcome_bind (mh_Sum lib multiHash rawdata) (\<lambda>h. Ok (Cid codec h))"

text \<open>The helpers that wrap a given digest panic when the multihash library refuses it.\<close>

definition digestToCid :: "ipfs_lib \<Rightarrow> u64 \<Rightarrow> u64 \<Rightarrow> bytes \<Rightarrow> Cid outcome" where
  "digestToCid lib mhcode codec h =
     (case mh_Encode lib h mhcode of
        Ok buf \<Rightarrow> Ok (Cid codec buf)
      | Err e \<Rightarrow> Panic ''multihash encode''
      | Panic p \<Rightarrow> Panic p)"

definition keccak256ToCid :: "ipfs_lib \<Rightarrow> u64 \<Rightarrow> bytes \<Rightarrow> Cid outcome" where
  "keccak256ToCid lib codec h = digestToCid lib KECCAK_256 codec h"

definition commonHashToCid :: "ipfs_lib \<Rightarrow> u64 \<Rightarrow> bytes \<Rightarrow> Cid outcome" where
  "commonHashToCid lib codec h = digestToCid lib KECCAK_256 codec h"

definition sha256ToCid :: "ipfs_lib \<Rightarrow> u64 \<Rightarrow> bytes \<Rightarrow> Cid outcome" where
  "sha256ToCid lib codec h = digestToCid lib DBL_SHA2_256 codec h"

subsection \<open>Blockstore keys\<close>

definition MultihashKeyFromCID :: "ipfs_lib \<Rightarrow> Cid \<Rightarrow> string" where
  "MultihashKeyFromCID lib c = BlockPrefix lib @ MultihashToDsKey lib (cid_Hash c)"

definition MultihashKeyFromCIDString :: "ipfs_lib \<Rightarrow> string \<Rightarrow> string outcome" where
  "MultihashKeyFromCIDString lib c =
     outcome_bind (cid_Decode lib c) (\<lambda>dc. Ok (BlockPrefix lib @ MultihashToDsKey lib (cid_Hash dc)))"

lemma RawdataToCid_Ok_iff:
  "RawdataToCid lib codec raw mh = Ok c \<longleftrightarrow> cid_Codec c = codec \<and> mh_Sum lib mh raw = Ok (cid_Hash c)"
  by (cases c) (auto simp: RawdataToCid_def)

text \<open>Where decoding inverts printing, both ways to the blockstore key agree.\<close>

lemma MultihashKey_agree:
  "cid_Decode lib (Cid_String lib c) = Ok c \<Longrightarrow>
   MultihashKeyFromCIDString lib (Cid_String lib c) = Ok (MultihashKeyFromCID lib c)"
  by (simp add: MultihashKeyFromCIDString_def MultihashKeyFromCID_def)

end
