(* ===== verification/Eth_Types.thy ===== *)
theory Eth_Types
  imports Ipld_Cid Shared_Types "HOL-Library.AList"
begin

text \<open>
  Package \<open>eth\<close>, data: the go-ethereum objects the code reads (headers, transactions, receipts,
  blocks, the state diff) with the fields it reads, the database models of \<open>models.go\<close>, the
  payload and response types of \<open>types.go\<close>, the subscription settings, and the node type
  conversions of \<open>helpers.go\<close>. go-ethereum itself is a parameter record.

  A map that the code ranges over is an association list: its order stands for the order in
  which the Go run time happens to visit the keys.
\<close>

subsection \<open>go-ethereum objects\<close>

type_synonym Hash = bytes
type_synonym Address = bytes

record EthHeader =
  h_ParentHash :: Hash
  h_UncleHash :: Hash
  h_Coinbase :: Address
  h_Root :: Hash
  h_TxHash :: Hash
  h_ReceiptHash :: Hash
  h_Bloom :: bytes
  h_Difficulty :: int
  h_Number :: int
  h_GasLimit :: u64
  h_GasUsed :: u64
  h_Time :: u64
  h_Extra :: bytes
  h_MixDigest :: Hash
  h_Nonce :: bytes

text \<open>A transaction: recipient, gas price, and the remaining signed fields as one byte string.\<close>

record Transaction =
  t_To :: "Address option"
  t_GasPrice :: int
  t_Rest :: bytes

record Log =
  l_Address :: Address
  l_Topics :: "Hash list"
  l_Data :: bytes

record Receipt =
  r_TxHash :: Hash
  r_ContractAddress :: Address
  r_GasUsed :: u64
  r_Logs :: "Log list"
  r_Status :: u64

record Block =
  b_Header :: EthHeader
  b_Uncles :: "EthHeader list"
  b_Transactions :: "Transaction list"

text \<open>\<open>statediff.NodeType\<close>, and the decoded state diff object.\<close>

datatype NodeType = NodeUnknown | NodeLeaf | NodeExtension | NodeBranch | NodeRemoved

record DiffStorageNode =
  ds_Type :: NodeType
  ds_Path :: bytes
  ds_LeafKey :: bytes
  ds_Value :: bytes

record DiffStateNode =
  dn_Type :: NodeType
  dn_Path :: bytes
  dn_LeafKey :: bytes
  dn_Value :: bytes
  dn_StorageNodes :: "DiffStorageNode list"

text \<open>\<open>statediff.Payload\<close>\<close>

record StateDiffPayload =
  sd_BlockRlp :: bytes
  sd_TotalDifficulty :: "int option"
  sd_ReceiptsRlp :: bytes
  sd_StateObjectRlp :: bytes

text \<open>\<open>state.Account\<close>\<close>

record Account =
  ac_Nonce :: u64
  ac_Balance :: int
  ac_Root :: Hash
  ac_CodeHash :: bytes

text \<open>
  The go-ethereum functions the code calls. \<open>Sender\<close> takes the number of the block that
  selects the signer; \<open>DeriveFields\<close> fills in the receipts' derived fields; \<open>DecodeLeaf\<close> splits
  a trie leaf into its two elements.
\<close>

record geth_lib =
  rlp_EncodeHeader :: "EthHeader \<Rightarrow> bytes outcome"
  Header_Hash :: "EthHeader \<Rightarrow> Hash"
  Tx_EncodeRLP :: "Transaction \<Rightarrow> bytes outcome"
  Tx_Hash :: "Transaction \<Rightarrow> Hash"
  Receipt_EncodeRLP :: "Receipt \<Rightarrow> bytes outcome"
  Keccak256 :: "bytes \<Rightarrow> Hash"
  HexToAddress :: "string \<Rightarrow> Address"
  HexToHash :: "string \<Rightarrow> Hash"
  BytesToHash :: "bytes \<Rightarrow> Hash"
  Address_Hex :: "Address \<Rightarrow> string"
  types_Sender :: "int \<Rightarrow> Transaction \<Rightarrow> Address outcome"
  rlp_DecodeBlock :: "bytes \<Rightarrow> Block outcome"
  rlp_DecodeReceipts :: "bytes \<Rightarrow> Receipt list outcome"
  DeriveFields :: "Receipt list \<Rightarrow> Block \<Rightarrow> Receipt list outcome"
  rlp_DecodeStateObject :: "bytes \<Rightarrow> DiffStateNode list outcome"
  rlp_DecodeList :: "bytes \<Rightarrow> bytes list outcome"
  rlp_DecodeAccount :: "bytes \<Rightarrow> Account outcome"

text \<open>\<open>Hash.Hex\<close> and \<open>Hash.String\<close>: the prefixed hexadecimal digits.\<close>

definition Hash_Hex :: "Hash \<Rightarrow> string" where
  "Hash_Hex h = ''0x'' @ hex_EncodeToString h"

text \<open>\<open>(*big.Int).String\<close> and \<open>Int64\<close> on a pointer that may be nil.\<close>

definition bigptr_String :: "int option \<Rightarrow> string" where
  "bigptr_String n = (case n of None \<Rightarrow> ''<nil>'' | Some i \<Rightarrow> big_String i)"

definition bigptr_Int64 :: "int option \<Rightarrow> int outcome" where
  "bigptr_Int64 n =
     (case n of
        None \<Rightarrow> Panic ''runtime error: invalid memory address or nil pointer dereference''
      | Some i \<Rightarrow> Ok (int64_of i))"

lemma bigptr_Int64_Some [simp]: "bigptr_Int64 (Some i) = Ok (int64_of i)"
  by (simp add: bigptr_Int64_def)

lemma bigptr_String_Some [simp]: "bigptr_String (Some i) = big_String i"
  by (simp add: bigptr_String_def)

subsection \<open>Address helpers (shared/functions.go)\<close>

definition zeroAddrHex :: string where
  "zeroAddrHex = ''0x0000000000000000000000000000000000000000''"

definition HandleZeroAddrPointer :: "geth_lib \<Rightarrow> Address option \<Rightarrow> string" where
  "HandleZeroAddrPointer geth to = (case to of None \<Rightarrow> '''' | Some a \<Rightarrow> Address_Hex geth a)"

definition HandleZeroAddr :: "geth_lib \<Rightarrow> Address \<Rightarrow> string" where
  "HandleZeroAddr geth to = (if Address_Hex geth to = zeroAddrHex then '''' else Address_Hex geth to)"

subsection \<open>Node types (eth/helpers.go)\<close>

fun ResolveFromNodeType :: "NodeType \<Rightarrow> int" where
  "ResolveFromNodeType NodeBranch = 0"
| "ResolveFromNodeType NodeExtension = 1"
| "ResolveFromNodeType NodeLeaf = 2"
| "ResolveFromNodeType NodeRemoved = 3"
| "ResolveFromNodeType NodeUnknown = -1"

definition ResolveToNodeType :: "int \<Rightarrow> NodeType" where
  "ResolveToNodeType n =
     (if n = 0 then NodeBranch else if n = 1 then NodeExtension
      else if n = 2 then NodeLeaf else if n = 3 then NodeRemoved else NodeUnknown)"

lemma ResolveToFrom [simp]: "ResolveToNodeType (ResolveFromNodeType t) = t"
  by (cases t) (simp_all add: ResolveToNodeType_def)

subsection \<open>Database models (eth/models.go)\<close>

record HeaderModel =
  hm_ID :: int
  hm_BlockNumber :: string
  hm_BlockHash :: string
  hm_ParentHash :: string
  hm_CID :: string
  hm_MhKey :: string
  hm_TotalDifficulty :: string
  hm_NodeID :: int
  hm_Reward :: string
  hm_StateRoot :: string
  hm_UncleRoot :: string
  hm_TxRoot :: string
  hm_RctRoot :: string
  hm_Bloom :: bytes
  hm_Timestamp :: u64
  hm_TimesValidated :: int

record UncleModel =
  um_ID :: int
  um_HeaderID :: int
  um_BlockHash :: string
  um_ParentHash :: string
  um_CID :: string
  um_MhKey :: string
  um_Reward :: string

record TxModel =
  tm_ID :: int
  tm_HeaderID :: int
  tm_Index :: int
  tm_TxHash :: string
  tm_CID :: string
  tm_MhKey :: string
  tm_Dst :: string
  tm_Src :: string

record ReceiptModel =
  rm_ID :: int
  rm_TxID :: int
  rm_CID :: string
  rm_MhKey :: string
  rm_Contract :: string
  rm_ContractHash :: string
  rm_LogContracts :: "string list"
  rm_Topic0s :: "string list"
  rm_Topic1s :: "string list"
  rm_Topic2s :: "string list"
  rm_Topic3s :: "string list"

record StateNodeModel =
  sm_ID :: int
  sm_HeaderID :: int
  sm_Path :: bytes
  sm_StateKey :: string
  sm_NodeType :: int
  sm_CID :: string
  sm_MhKey :: string
  sm_Diff :: bool

record StorageNodeModel =
  om_ID :: int
  om_StateID :: int
  om_Path :: bytes
  om_StorageKey :: string
  om_NodeType :: int
  om_CID :: string
  om_MhKey :: string
  om_Diff :: bool

record StorageNodeWithStateKeyModel =
  ok_ID :: int
  ok_StateID :: int
  ok_Path :: bytes
  ok_StateKey :: string
  ok_StorageKey :: string
  ok_NodeType :: int
  ok_CID :: string
  ok_MhKey :: string
  ok_Diff :: bool

record StateAccountModel =
  am_ID :: int
  am_StateID :: int
  am_Balance :: string
  am_Nonce :: u64
  am_CodeHash :: bytes
  am_StorageRoot :: string

text \<open>The zero value of each model, from which Go's keyed struct literals start.\<close>

definition zero_HeaderModel :: HeaderModel where
  "zero_HeaderModel = \<lparr>hm_ID = 0, hm_BlockNumber = '''', hm_BlockHash = '''', hm_ParentHash = '''',
     hm_CID = '''', hm_MhKey = '''', hm_TotalDifficulty = '''', hm_NodeID = 0, hm_Reward = '''',
     hm_StateRoot = '''', hm_UncleRoot = '''', hm_TxRoot = '''', hm_RctRoot = '''', hm_Bloom = [],
     hm_Timestamp = 0, hm_TimesValidated = 0\<rparr>"

definition zero_TxModel :: TxModel where
  "zero_TxModel = \<lparr>tm_ID = 0, tm_HeaderID = 0, tm_Index = 0, tm_TxHash = '''', tm_CID = '''',
     tm_MhKey = '''', tm_Dst = '''', tm_Src = ''''\<rparr>"

definition zero_ReceiptModel :: ReceiptModel where
  "zero_ReceiptModel = \<lparr>rm_ID = 0, rm_TxID = 0, rm_CID = '''', rm_MhKey = '''', rm_Contract = '''',
     rm_ContractHash = '''', rm_LogContracts = [], rm_Topic0s = [], rm_Topic1s = [],
     rm_Topic2s = [], rm_Topic3s = []\<rparr>"

subsection \<open>Payloads and responses (eth/types.go)\<close>

record TrieNode =
  tn_Path :: bytes
  tn_LeafKey :: Hash
  tn_Value :: bytes
  tn_Type :: NodeType

record ConvertedPayload =
  cp_TotalDifficulty :: "int option"
  cp_Block :: Block
  cp_TxMetaData :: "TxModel list"
  cp_Receipts :: "Receipt list"
  cp_ReceiptMetaData :: "ReceiptModel list"
  cp_StateNodes :: "TrieNode list"
  cp_StorageNodes :: "(string \<times> TrieNode list) list"

definition ConvertedPayload_Height :: "ConvertedPayload \<Rightarrow> int" where
  "ConvertedPayload_Height i = int64_of (h_Number (b_Header (cp_Block i)))"

record CIDPayload =
  cd_HeaderCID :: HeaderModel
  cd_UncleCIDs :: "UncleModel list"
  cd_TransactionCIDs :: "TxModel list"
  cd_ReceiptCIDs :: "(Hash \<times> ReceiptModel) list"
  cd_StateNodeCIDs :: "StateNodeModel list"
  cd_StateAccounts :: "(string \<times> StateAccountModel) list"
  cd_StorageNodeCIDs :: "(string \<times> StorageNodeModel list) list"

record CIDWrapper =
  cw_BlockNumber :: "int option"
  cw_Header :: HeaderModel
  cw_Uncles :: "UncleModel list"
  cw_Transactions :: "TxModel list"
  cw_Receipts :: "ReceiptModel list"
  cw_StateNodes :: "StateNodeModel list"
  cw_StorageNodes :: "StorageNodeWithStateKeyModel list"

record StateNode =
  st_Type :: NodeType
  st_StateLeafKey :: Hash
  st_Path :: bytes
  st_IPLD :: BlockModel

record StorageNode =
  so_Type :: NodeType
  so_StateLeafKey :: Hash
  so_StorageLeafKey :: Hash
  so_Path :: bytes
  so_IPLD :: BlockModel

record IPLDs =
  ip_BlockNumber :: "int option"
  ip_TotalDifficulty :: "int option"
  ip_Header :: BlockModel
  ip_Uncles :: "BlockModel list"
  ip_Transactions :: "BlockModel list"
  ip_Receipts :: "BlockModel list"
  ip_StateNodes :: "StateNode list"
  ip_StorageNodes :: "StorageNode list"

definition zero_IPLDs :: IPLDs where
  "zero_IPLDs = \<lparr>ip_BlockNumber = None, ip_TotalDifficulty = None, ip_Header = empty_BlockModel,
     ip_Uncles = [], ip_Transactions = [], ip_Receipts = [], ip_StateNodes = [], ip_StorageNodes = []\<rparr>"

text \<open>\<open>Height\<close> dereferences the block number, which is nil in the zero value.\<close>

definition IPLDs_Height :: "IPLDs \<Rightarrow> int outcome" where
  "IPLDs_Height i = bigptr_Int64 (ip_BlockNumber i)"

subsection \<open>Subscription settings (eth/subscription_config.go)\<close>

record HeaderFilter =
  hf_Off :: bool
  hf_Uncles :: bool

record TxFilter =
  tf_Off :: bool
  tf_Src :: "string list"
  tf_Dst :: "string list"

record ReceiptFilter =
  rf_Off :: bool
  rf_MatchTxs :: bool
  rf_LogAddresses :: "string list"
  rf_Topics :: "string list list"

record StateFilter =
  sf_Off :: bool
  sf_Addresses :: "string list"
  sf_IntermediateNodes :: bool

record StorageFilter =
  of_Off :: bool
  of_Addresses :: "string list"
  of_StorageKeys :: "string list"
  of_IntermediateNodes :: bool

record SubscriptionSettings =
  ss_BackFill :: bool
  ss_BackFillOnly :: bool
  ss_Start :: "int option"
  ss_End :: "int option"
  ss_HeaderFilter :: HeaderFilter
  ss_TxFilter :: TxFilter
  ss_ReceiptFilter :: ReceiptFilter
  ss_StateFilter :: StateFilter
  ss_StorageFilter :: StorageFilter

text \<open>
  \<open>NewEthSubscriptionConfig\<close> reads the settings from the configuration store, whose typed
  getters (\<open>GetBool\<close>, \<open>GetInt64\<close>, \<open>GetStringSlice\<close>) are the parameters.
\<close>

record viper_store =
  GetBool :: "string \<Rightarrow> bool"
  GetInt64 :: "string \<Rightarrow> int"
  GetStringSlice :: "string \<Rightarrow> string list"

definition NewEthSubscriptionConfig :: "viper_store \<Rightarrow> SubscriptionSettings outcome" where
  "NewEthSubscriptionConfig v = Ok \<lparr>
     ss_BackFill = GetBool v ''watcher.ethSubscription.historicalData'',
     ss_BackFillOnly = GetBool v ''watcher.ethSubscription.historicalDataOnly'',
     ss_Start = Some (GetInt64 v ''watcher.ethSubscription.startingBlock''),
     ss_End = Some (GetInt64 v ''watcher.ethSubscription.endingBlock''),
     ss_HeaderFilter = \<lparr>
       hf_Off = GetBool v ''watcher.ethSubscription.headerFilter.off'',
       hf_Uncles = GetBool v ''watcher.ethSubscription.headerFilter.uncles''\<rparr>,
     ss_TxFilter = \<lparr>
       tf_Off = GetBool v ''watcher.ethSubscription.txFilter.off'',
       tf_Src = GetStringSlice v ''watcher.ethSubscription.txFilter.src'',
       tf_Dst = GetStringSlice v ''watcher.ethSubscription.txFilter.dst''\<rparr>,
     ss_ReceiptFilter = \<lparr>
       rf_Off = GetBool v ''watcher.ethSubscription.receiptFilter.off'',
       rf_MatchTxs = GetBool v ''watcher.ethSubscription.receiptFilter.matchTxs'',
       rf_LogAddresses = GetStringSlice v ''watcher.ethSubscription.receiptFilter.contracts'',
       rf_Topics = [GetStringSlice v ''watcher.ethSubscription.receiptFilter.topic0s'',
                    GetStringSlice v ''watcher.ethSubscription.receiptFilter.topic1s'',
                    GetStringSlice v ''watcher.ethSubscription.receiptFilter.topic2s'',
                    GetStringSlice v ''watcher.ethSubscription.receiptFilter.topic3s'']\<rparr>,
     ss_StateFilter = \<lparr>
       sf_Off = GetBool v ''watcher.ethSubscription.stateFilter.off'',
       sf_Addresses = GetStringSlice v ''watcher.ethSubscription.stateFilter.addresses'',
       sf_IntermediateNodes = GetBool v ''watcher.ethSubscription.stateFilter.intermediateNodes''\<rparr>,
     ss_StorageFilter = \<lparr>
       of_Off = GetBool v ''watcher.ethSubscription.storageFilter.off'',
       of_Addresses = GetStringSlice v ''watcher.ethSubscription.storageFilter.addresses'',
       of_StorageKeys = GetStringSlice v ''watcher.ethSubscription.storageFilter.storageKeys'',
       of_IntermediateNodes = GetBool v ''watcher.ethSubscription.storageFilter.intermediateNodes''\<rparr>\<rparr>"

end
