(* ===== verification/Btc_Types.thy ===== *)
theory Btc_Types
  imports Eth_Types
begin

text \<open>
  Package \<open>btc\<close>, data: the btcd objects the code reads, the database models of \<open>models.go\<close>, the
  payload and response types of \<open>types.go\<close> and the subscription settings. The btcd library is a
  parameter record. The types whose names package \<open>eth\<close> uses too carry the prefix \<open>Btc\<close>.
\<close>

subsection \<open>btcd objects\<close>

record BtcBlockHeader =
  bh_Version :: int
  bh_PrevBlock :: Hash
  bh_MerkleRoot :: Hash
  bh_Timestamp :: int
  bh_Bits :: "32 word"
  bh_Nonce :: "32 word"

record BtcTxIn =
  in_PrevHash :: Hash
  in_PrevIndex :: "32 word"
  in_SignatureScript :: bytes
  in_Witness :: "bytes list"
  in_Sequence :: "32 word"

record BtcTxOut =
  out_Value :: int
  out_PkScript :: bytes

record BtcMsgTx =
  mt_Version :: int
  mt_TxIn :: "BtcTxIn list"
  mt_TxOut :: "BtcTxOut list"
  mt_LockTime :: "32 word"

text \<open>
  The btcd functions the code calls. \<open>ExtractPkScriptAddrs\<close> gives the script class, the encoded
  addresses and the number of required signatures, and beside them an error, if any.
\<close>

record btcd_lib =
  Header_Serialize :: "BtcBlockHeader \<Rightarrow> bytes outcome"
  MsgTx_Serialize :: "BtcMsgTx \<Rightarrow> bytes outcome"
  Btc_BlockHash :: "BtcBlockHeader \<Rightarrow> Hash"
  Btc_TxHash :: "BtcMsgTx \<Rightarrow> Hash"
  Btc_HasWitness :: "BtcMsgTx \<Rightarrow> bool"
  Btc_WitnessHash :: "BtcMsgTx \<Rightarrow> Hash"
  Chainhash_String :: "Hash \<Rightarrow> string"
  ExtractPkScriptAddrs :: "bytes \<Rightarrow> (byte \<times> string list \<times> int) \<times> go_error option"
  NonStandardTy :: byte

subsection \<open>Database models (btc/models.go)\<close>

record BtcHeaderModel =
  bhm_ID :: int
  bhm_BlockNumber :: string
  bhm_BlockHash :: string
  bhm_ParentHash :: string
  bhm_CID :: string
  bhm_MhKey :: string
  bhm_Timestamp :: int
  bhm_Bits :: "32 word"
  bhm_NodeID :: int
  bhm_TimesValidated :: int

record BtcTxModel =
  btm_ID :: int
  btm_HeaderID :: int
  btm_Index :: int
  btm_TxHash :: string
  btm_CID :: string
  btm_MhKey :: string
  btm_SegWit :: bool
  btm_WitnessHash :: string

record TxInput =
  ti_ID :: int
  ti_TxID :: int
  ti_Index :: int
  ti_TxWitness :: "string list"
  ti_SignatureScript :: bytes
  ti_PreviousOutPointIndex :: "32 word"
  ti_PreviousOutPointHash :: string

record TxOutput =
  to_ID :: int
  to_TxID :: int
  to_Index :: int
  to_Value :: int
  to_PkScript :: bytes
  to_ScriptClass :: byte
  to_RequiredSigs :: int
  to_Addresses :: "string list"

record TxModelWithInsAndOuts = BtcTxModel +
  btm_TxInputs :: "TxInput list"
  btm_TxOutputs :: "TxOutput list"

subsection \<open>Payloads and responses (btc/types.go)\<close>

record BlockPayload =
  bp_BlockHeight :: int
  bp_Header :: BtcBlockHeader
  bp_Txs :: "BtcMsgTx list"

record BtcConvertedPayload = BlockPayload +
  bp_TxMetaData :: "TxModelWithInsAndOuts list"

text \<open>The height field is an \<open>int64\<close>; reading it through \<open>int64_of\<close> keeps that range.\<close>

definition BtcConvertedPayload_Height :: "BtcConvertedPayload \<Rightarrow> int" where
  "BtcConvertedPayload_Height cp = int64_of (bp_BlockHeight cp)"

record BtcCIDPayload =
  bcd_HeaderCID :: BtcHeaderModel
  bcd_TransactionCIDs :: "TxModelWithInsAndOuts list"

record BtcCIDWrapper =
  bcw_BlockNumber :: "int option"
  bcw_Header :: BtcHeaderModel
  bcw_Transactions :: "BtcTxModel list"

record BtcIPLDs =
  bip_BlockNumber :: "int option"
  bip_Header :: BlockModel
  bip_Transactions :: "BlockModel list"

definition zero_BtcIPLDs :: BtcIPLDs where
  "zero_BtcIPLDs =
     \<lparr>bip_BlockNumber = None, bip_Header = empty_BlockModel, bip_Transactions = []\<rparr>"

definition BtcIPLDs_Height :: "BtcIPLDs \<Rightarrow> int outcome" where
  "BtcIPLDs_Height i = bigptr_Int64 (bip_BlockNumber i)"

subsection \<open>Subscription settings (btc/subscription_config.go)\<close>

record BtcHeaderFilter =
  bhf_Off :: bool

record BtcTxFilter =
  btf_Off :: bool
  btf_Segwit :: bool
  btf_WitnessHashes :: "string list"
  btf_Indexes :: "int list"
  btf_PkScriptClasses :: "byte list"
  btf_MultiSig :: bool
  btf_Addresses :: "string list"

record BtcSubscriptionSettings =
  bss_BackFill :: bool
  bss_BackFillOnly :: bool
  bss_Start :: "int option"
  bss_End :: "int option"
  bss_HeaderFilter :: BtcHeaderFilter
  bss_TxFilter :: BtcTxFilter

text \<open>
  The two untyped settings come out of \<open>viper.Get\<close> and are type-asserted: \<open>None\<close> stands for a
  value of another type (which includes a key that is not set).
\<close>

definition NewBtcSubscriptionConfig ::
    "viper_store \<Rightarrow> (string \<Rightarrow> byte list option) \<Rightarrow> (string \<Rightarrow> int list option)
     \<Rightarrow> BtcSubscriptionSettings outcome" where
  "NewBtcSubscriptionConfig v getBytes getInts =
     (case getBytes ''watcher.btcSubscription.txFilter.pkScriptClass'' of
        None \<Rightarrow> Err (Errorf
          ''watcher.btcSubscription.txFilter.pkScriptClass needs to be an array of uint8s'' [])
      | Some pkScriptClasses \<Rightarrow>
     (case getInts ''watcher.btcSubscription.txFilter.indexes'' of
        None \<Rightarrow> Err (Errorf
          ''watcher.btcSubscription.txFilter.indexes needs to be an array of int64s'' [])
      | Some indexes \<Rightarrow> Ok \<lparr>
     bss_BackFill = GetBool v ''watcher.btcSubscription.historicalData'',
     bss_BackFillOnly = GetBool v ''watcher.btcSubscription.historicalDataOnly'',
     bss_Start = Some (GetInt64 v ''watcher.btcSubscription.startingBlock''),
     bss_End = Some (GetInt64 v ''watcher.btcSubscription.endingBlock''),
     bss_HeaderFilter = \<lparr>bhf_Off = GetBool v ''watcher.btcSubscription.headerFilter.off''\<rparr>,
     bss_TxFilter = \<lparr>
       btf_Off = GetBool v ''watcher.btcSubscription.txFilter.off'',
       btf_Segwit = GetBool v ''watcher.btcSubscription.txFilter.segwit'',
       btf_WitnessHashes = GetStringSlice v ''watcher.btcSubscription.txFilter.witnessHashes'',
       btf_Indexes = indexes,
       btf_PkScriptClasses = pkScriptClasses,
       btf_MultiSig = GetBool v ''watcher.btcSubscription.txFilter.multiSig'',
       btf_Addresses = GetStringSlice v ''watcher.btcSubscription.txFilter.addresses''\<rparr>\<rparr>))"

end
