(* ===== verification/Chain_Data.thy ===== *)
theory Chain_Data
  imports Btc_Types
begin

text \<open>
  The values behind the interfaces of \<open>shared/intefaces.go\<close> and \<open>shared/types.go\<close>: a subscription
  setting, a converted payload, a raw payload and a response are each either an Ethereum or a
  Bitcoin value, or nil; a type assertion is a case distinction. The accessor methods of the
  \<open>SubscriptionSettings\<close> interface dispatch on the concrete type.
\<close>

datatype Settings = EthSettings SubscriptionSettings | BtcSettings BtcSubscriptionSettings

datatype Converted = EthConverted ConvertedPayload | BtcConverted BtcConvertedPayload | NilConverted

datatype RawData = EthRaw StateDiffPayload | BtcRaw BlockPayload

datatype Response = EthResponse IPLDs | BtcResponse BtcIPLDs

text \<open>The type names that the \<open>%T\<close> verb prints.\<close>

fun Settings_T :: "Settings \<Rightarrow> string" where
  "Settings_T (EthSettings _) = ''*eth.SubscriptionSettings''"
| "Settings_T (BtcSettings _) = ''*btc.SubscriptionSettings''"

fun Converted_T :: "Converted \<Rightarrow> string" where
  "Converted_T (EthConverted _) = ''eth.ConvertedPayload''"
| "Converted_T (BtcConverted _) = ''btc.ConvertedPayload''"
| "Converted_T NilConverted = ''<nil>''"

fun RawData_T :: "RawData \<Rightarrow> string" where
  "RawData_T (EthRaw _) = ''statediff.Payload''"
| "RawData_T (BtcRaw _) = ''btc.BlockPayload''"

subsection \<open>The SubscriptionSettings interface\<close>

fun StartingBlock :: "Settings \<Rightarrow> int option" where
  "StartingBlock (EthSettings sc) = ss_Start sc"
| "StartingBlock (BtcSettings sc) = bss_Start sc"

fun EndingBlock :: "Settings \<Rightarrow> int option" where
  "EndingBlock (EthSettings sc) = ss_End sc"
| "EndingBlock (BtcSettings sc) = bss_End sc"

fun HistoricalData :: "Settings \<Rightarrow> bool" where
  "HistoricalData (EthSettings sc) = ss_BackFill sc"
| "HistoricalData (BtcSettings sc) = bss_BackFill sc"

fun HistoricalDataOnly :: "Settings \<Rightarrow> bool" where
  "HistoricalDataOnly (EthSettings sc) = ss_BackFillOnly sc"
| "HistoricalDataOnly (BtcSettings sc) = bss_BackFillOnly sc"

fun Settings_ChainType :: "Settings \<Rightarrow> ChainType" where
  "Settings_ChainType (EthSettings sc) = Ethereum"
| "Settings_ChainType (BtcSettings sc) = Bitcoin"

text \<open>\<open>Height\<close> of a response.\<close>

fun Response_Height :: "Response \<Rightarrow> int outcome" where
  "Response_Height (EthResponse i) = IPLDs_Height i"
| "Response_Height (BtcResponse i) = BtcIPLDs_Height i"

fun Converted_Height :: "Converted \<Rightarrow> int outcome" where
  "Converted_Height (EthConverted p) = Ok (ConvertedPayload_Height p)"
| "Converted_Height (BtcConverted p) = Ok (BtcConvertedPayload_Height p)"
| "Converted_Height NilConverted =
     Panic ''runtime error: invalid memory address or nil pointer dereference''"

subsection \<open>The contract of a response filterer\<close>

text \<open>
  The height of the payload lies in the subscriber's range: at or above the start and, unless
  the end is zero or negative, at or below the end.
\<close>

definition wanted_height :: "int \<Rightarrow> int \<Rightarrow> int \<Rightarrow> bool" where
  "wanted_height start stop h \<longleftrightarrow> start \<le> h \<and> (0 < stop \<longrightarrow> h \<le> stop)"

definition in_range :: "Settings \<Rightarrow> int \<Rightarrow> bool" where
  "in_range s h \<longleftrightarrow>
     (\<exists>a b. StartingBlock s = Some a \<and> EndingBlock s = Some b \<and> wanted_height (int64_of a) (int64_of b) h)"

definition nil_deref :: string where
  "nil_deref = ''runtime error: invalid memory address or nil pointer dereference''"

text \<open>
  What a response filterer of any chain promises about the packet it returns: its height is the
  payload's where the payload is wanted, and is undefined, a nil dereference, where it is not.
\<close>

locale response_filterer =
  fixes Filter :: "Settings \<Rightarrow> Converted \<Rightarrow> Response outcome"
  assumes wanted: "Filter s p = Ok r \<Longrightarrow> Converted_Height p = Ok h \<Longrightarrow> in_range s h \<Longrightarrow>
      Response_Height r = Ok h"
    and unwanted: "Filter s p = Ok r \<Longrightarrow> Converted_Height p = Ok h \<Longrightarrow> \<not> in_range s h \<Longrightarrow>
      Response_Height r = Panic nil_deref"
    and needs_payload: "Filter s p = Ok r \<Longrightarrow> \<exists>h. Converted_Height p = Ok h"
begin

lemma height_defined_iff:
  assumes "Filter s p = Ok r" "Converted_Height p = Ok h"
  shows "(\<exists>k. Response_Height r = Ok k) \<longleftrightarrow> in_range s h"
  using wanted [OF assms] unwanted [OF assms] by (cases "in_range s h") auto

lemma nil_payload_refused: "Filter s NilConverted \<noteq> Ok r"
  using needs_payload [of s NilConverted r] by auto

end

end
