(* ===== verification/Watch_Types.thy ===== *)
theory Watch_Types
  imports Chain_Data
begin

text \<open>
  Package \<open>watch\<close>, data and helpers: the payloads and subscriptions of \<open>subscription.go\<close>, the
  non-blocking sends of \<open>helpers.go\<close> and the state of the \<open>Service\<close> struct. A channel is a buffer
  with a capacity, the way \<open>Stream\<close> creates the channels of a subscriber; a non-blocking send
  appends when there is room and does nothing otherwise. Channels live in a store, so that several
  subscriptions can share one.
\<close>

subsection \<open>Payloads and subscriptions (watch/subscription.go)\<close>

datatype Flag = EmptyFlag | BackFillCompleteFlag

record SubscriptionPayload =
  sp_Data :: bytes
  sp_Height :: int
  sp_Err :: string
  sp_Flag :: Flag

definition SubscriptionPayload_Error :: "SubscriptionPayload \<Rightarrow> go_error option" where
  "SubscriptionPayload_Error sp = (if sp_Err sp = '''' then None else Some (Errorf (sp_Err sp) []))"

definition BackFillComplete :: "SubscriptionPayload \<Rightarrow> bool" where
  "BackFillComplete sp = (if sp_Flag sp = BackFillCompleteFlag then True else False)"

type_synonym rpcID = string

record Subscription =
  sub_ID :: rpcID
  sub_PayloadChan :: nat
  sub_QuitChan :: nat

subsection \<open>Channels\<close>

record 'a chan =
  ch_cap :: nat
  ch_buf :: "'a list"

definition chan_offer :: "'a \<Rightarrow> 'a chan \<Rightarrow> 'a chan" where
  "chan_offer x c = (if length (ch_buf c) < ch_cap c then c\<lparr>ch_buf := ch_buf c @ [x]\<rparr> else c)"

definition chan_wf :: "'a chan \<Rightarrow> bool" where
  "chan_wf c \<longleftrightarrow> length (ch_buf c) \<le> ch_cap c"

lemma chan_offer_wf [simp]: "chan_wf c \<Longrightarrow> chan_wf (chan_offer x c)"
  by (simp add: chan_offer_def chan_wf_def)

lemma chan_offer_cap [simp]: "ch_cap (chan_offer x c) = ch_cap c"
  by (simp add: chan_offer_def)

lemma chan_offer_prefix: "\<exists>ys. ch_buf (chan_offer x c) = ch_buf c @ ys"
  by (simp add: chan_offer_def)

subsection \<open>The service (watch/service.go)\<close>

text \<open>
  The interfaces the service calls. \<open>None\<close> is a nil interface value, on which every call panics.
  \<open>EncodeSettings\<close> and \<open>EncodeResponse\<close> are \<open>rlp.EncodeToBytes\<close>, \<open>errText\<close> is \<open>err.Error()\<close>.
\<close>

record ('cids) services =
  sv_Filterer :: "(Settings \<Rightarrow> Converted \<Rightarrow> Response outcome) option"
  sv_FirstBlock :: "int outcome option"
  sv_LastBlock :: "int outcome option"
  sv_Retrieve :: "(Settings \<Rightarrow> int \<Rightarrow> ('cids list \<times> bool) outcome) option"
  sv_Fetch :: "('cids \<Rightarrow> Response outcome) option"
  sv_EncodeSettings :: "Settings \<Rightarrow> bytes outcome"
  sv_EncodeResponse :: "Response \<Rightarrow> bytes outcome"
  sv_Keccak256Hash :: "bytes \<Rightarrow> Hash"
  sv_errText :: "go_error \<Rightarrow> string"
  sv_chain :: ChainType

definition iface :: "'a option \<Rightarrow> 'a outcome" where
  "iface x = (case x of None \<Rightarrow> Panic nil_deref | Some f \<Rightarrow> Ok f)"

lemma iface_Some [simp]: "iface (Some f) = Ok f"
  by (simp add: iface_def)

text \<open>
  A historical data feed started for a subscriber: the goroutine of \<open>sendHistoricalData\<close> with its
  loop variable and its last block.
\<close>

record feed =
  fd_sub :: Subscription
  fd_params :: Settings
  fd_next :: int
  fd_end :: int

text \<open>
  The mutable state: the two maps guarded by the mutex, the quit flag, the running feeds, and
  the subscribers' channels.
\<close>

record watch_state =
  w_Subscriptions :: "(Hash \<times> (rpcID \<times> Subscription) list) list"
  w_SubscriptionTypes :: "(Hash \<times> Settings) list"
  w_QuitClosed :: bool
  w_feeds :: "feed list"
  w_payloads :: "nat \<Rightarrow> SubscriptionPayload chan"
  w_quits :: "nat \<Rightarrow> bool chan"

subsection \<open>Non-blocking sends (watch/helpers.go)\<close>

definition send_payload :: "Subscription \<Rightarrow> SubscriptionPayload \<Rightarrow> watch_state \<Rightarrow> watch_state" where
  "send_payload sub p st =
     (let c = sub_PayloadChan sub in st\<lparr>w_payloads := (w_payloads st)(c := chan_offer p (w_payloads st c))\<rparr>)"

definition sendNonBlockingErr ::
    "'cids services \<Rightarrow> Subscription \<Rightarrow> go_error \<Rightarrow> watch_state \<Rightarrow> watch_state" where
  "sendNonBlockingErr sv sub err st =
     send_payload sub \<lparr>sp_Data = [], sp_Height = 0, sp_Err = sv_errText sv err, sp_Flag = EmptyFlag\<rparr> st"

definition sendNonBlockingQuit :: "Subscription \<Rightarrow> watch_state \<Rightarrow> watch_state" where
  "sendNonBlockingQuit sub st =
     (let c = sub_QuitChan sub in st\<lparr>w_quits := (w_quits st)(c := chan_offer True (w_quits st c))\<rparr>)"

lemma sends_keep [simp]:
  "w_Subscriptions (send_payload sub p st) = w_Subscriptions st"
  "w_SubscriptionTypes (send_payload sub p st) = w_SubscriptionTypes st"
  "w_QuitClosed (send_payload sub p st) = w_QuitClosed st"
  "w_feeds (send_payload sub p st) = w_feeds st"
  "w_quits (send_payload sub p st) = w_quits st"
  "w_Subscriptions (sendNonBlockingErr sv sub e st) = w_Subscriptions st"
  "w_SubscriptionTypes (sendNonBlockingErr sv sub e st) = w_SubscriptionTypes st"
  "w_QuitClosed (sendNonBlockingErr sv sub e st) = w_QuitClosed st"
  "w_feeds (sendNonBlockingErr sv sub e st) = w_feeds st"
  "w_quits (sendNonBlockingErr sv sub e st) = w_quits st"
  "w_Subscriptions (sendNonBlockingQuit sub st) = w_Subscriptions st"
  "w_SubscriptionTypes (sendNonBlockingQuit sub st) = w_SubscriptionTypes st"
  "w_QuitClosed (sendNonBlockingQuit sub st) = w_QuitClosed st"
  "w_feeds (sendNonBlockingQuit sub st) = w_feeds st"
  "w_payloads (sendNonBlockingQuit sub st) = w_payloads st"
  by (simp_all add: send_payload_def sendNonBlockingErr_def sendNonBlockingQuit_def Let_def)

lemma fold_keeps:
  assumes "\<And>x s. f (g x s) = f s"
  shows "f (fold g xs s) = f s"
  using assms by (induction xs arbitrary: s) simp_all

end
