(* ===== verification/Worker_Pool.thy ===== *)
theory Worker_Pool
  imports Utils_Bins Watch_Types "HOL-Library.Multiset"
begin

text \<open>
  The worker pool that the back-fill and the resync services share: a dispatcher hands bins of
  heights over an unbuffered channel to idle workers; a worker fetches the payloads of its bin,
  handles them one by one and becomes idle again; when every bin is handed out, the dispatcher
  sends one quit signal per worker, which only an idle worker receives. The pool is a transition
  system over all interleavings. \<open>fetch\<close> and \<open>item\<close> are the service's own fetch and per-payload
  handling; a panic has no successor state.
\<close>

datatype worker = Idle | Busy "u64 list" "RawData list" | Gone

record 's pool =
  pl_pending :: "u64 list list"
  pl_workers :: "worker list"
  pl_done :: "u64 list list"
  pl_state :: 's

text \<open>
  The log line of a worker indexes the first height of its bin, so an empty bin panics: there is
  no \<open>dispatch\<close> for it.
\<close>

inductive pool_step ::
    "(u64 list \<Rightarrow> RawData list) \<Rightarrow> (RawData \<Rightarrow> 's \<Rightarrow> 's outcome) \<Rightarrow> 's pool \<Rightarrow> 's pool \<Rightarrow> bool" for fetch item where
  dispatch: "pl_pending p = hs # rest \<Longrightarrow> hs \<noteq> [] \<Longrightarrow> w < length (pl_workers p) \<Longrightarrow> pl_workers p ! w = Idle \<Longrightarrow>
    pool_step fetch item p (p\<lparr>pl_pending := rest, pl_workers := (pl_workers p)[w := Busy hs (fetch hs)]\<rparr>)"
| handle: "w < length (pl_workers p) \<Longrightarrow> pl_workers p ! w = Busy hs (x # xs) \<Longrightarrow> item x (pl_state p) = Ok s \<Longrightarrow>
    pool_step fetch item p (p\<lparr>pl_workers := (pl_workers p)[w := Busy hs xs], pl_state := s\<rparr>)"
| finish: "w < length (pl_workers p) \<Longrightarrow> pl_workers p ! w = Busy hs [] \<Longrightarrow>
    pool_step fetch item p (p\<lparr>pl_workers := (pl_workers p)[w := Idle], pl_done := pl_done p @ [hs]\<rparr>)"
| quit: "pl_pending p = [] \<Longrightarrow> w < length (pl_workers p) \<Longrightarrow> pl_workers p ! w = Idle \<Longrightarrow>
    pool_step fetch item p (p\<lparr>pl_workers := (pl_workers p)[w := Gone]\<rparr>)"

definition pool_start :: "u64 list list \<Rightarrow> nat \<Rightarrow> 's \<Rightarrow> 's pool" where
  "pool_start bins n s = \<lparr>pl_pending = bins, pl_workers = replicate n Idle, pl_done = [], pl_state = s\<rparr>"

text \<open>The pass is over when the last worker has received its quit signal.\<close>

definition pool_over :: "'s pool \<Rightarrow> bool" where
  "pool_over p \<longleftrightarrow> pl_pending p = [] \<and> list_all (\<lambda>w. w = Gone) (pl_workers p)"

abbreviation pool_runs where
  "pool_runs fetch item \<equiv> (pool_step fetch item)\<^sup>*\<^sup>*"

subsection \<open>No bin is lost or done twice\<close>

fun worker_bins :: "worker \<Rightarrow> u64 list multiset" where
  "worker_bins (Busy hs xs) = {#hs#}"
| "worker_bins _ = {#}"

definition busy_bins :: "worker list \<Rightarrow> u64 list multiset" where
  "busy_bins ws = sum_list (map worker_bins ws)"

definition pool_bins :: "'s pool \<Rightarrow> u64 list multiset" where
  "pool_bins p = mset (pl_pending p) + busy_bins (pl_workers p) + mset (pl_done p)"

lemma busy_bins_update:
  assumes "w < length ws"
  shows "busy_bins (ws[w := x]) + worker_bins (ws ! w) = busy_bins ws + worker_bins x"
  using assms
proof (induction ws arbitrary: w)
  case (Cons a ws)
  show ?case
  proof (cases w)
    case (Suc v)
    then have "busy_bins (ws[v := x]) + worker_bins (ws ! v) = busy_bins ws + worker_bins x"
      using Cons by simp
    then show ?thesis by (simp add: Suc busy_bins_def add.assoc)
  qed (simp add: busy_bins_def ac_simps)
qed simp

lemma pool_bins_step: "pool_step fetch item p q \<Longrightarrow> pool_bins q = pool_bins p"
proof (induction rule: pool_step.induct)
  case (dispatch p hs rest w)
  then show ?case using busy_bins_update [of w "pl_workers p" "Busy hs (fetch hs)"]
    by (simp add: pool_bins_def)
next
  case (handle w p hs x xs s)
  then show ?case using busy_bins_update [of w "pl_workers p" "Busy hs xs"]
    by (simp add: pool_bins_def)
next
  case (finish w p hs)
  then show ?case using busy_bins_update [of w "pl_workers p" Idle]
    by (simp add: pool_bins_def)
next
  case (quit p w)
  then show ?case using busy_bins_update [of w "pl_workers p" Gone]
    by (simp add: pool_bins_def)
qed

lemma pool_bins_runs: "pool_runs fetch item p q \<Longrightarrow> pool_bins q = pool_bins p"
  by (induction rule: rtranclp_induct) (simp_all add: pool_bins_step)

lemma busy_bins_Gone: "list_all (\<lambda>w. w = Gone) ws \<Longrightarrow> busy_bins ws = {#}"
  by (induction ws) (auto simp: busy_bins_def)

lemma pool_over_done:
  assumes "pool_runs fetch item (pool_start bins n s) q" "pool_over q"
  shows "mset (pl_done q) = mset bins"
proof -
  have "busy_bins (replicate n Idle) = {#}" by (induction n) (simp_all add: busy_bins_def)
  then have "pool_bins (pool_start bins n s) = mset bins" by (simp add: pool_bins_def pool_start_def)
  with pool_bins_runs [OF assms(1)] busy_bins_Gone [of "pl_workers q"] assms(2)
  show ?thesis by (simp add: pool_bins_def pool_over_def)
qed

subsection \<open>The pool makes progress and ends\<close>

text \<open>Every worker of a running pool is still there while bins are pending.\<close>

definition pool_live :: "nat \<Rightarrow> 's pool \<Rightarrow> bool" where
  "pool_live n p \<longleftrightarrow> length (pl_workers p) = n
     \<and> (pl_pending p \<noteq> [] \<longrightarrow> list_all (\<lambda>w. w \<noteq> Gone) (pl_workers p))
     \<and> list_all (\<lambda>hs. hs \<noteq> []) (pl_pending p)"

lemma pool_live_step: "pool_step fetch item p q \<Longrightarrow> pool_live n p \<Longrightarrow> pool_live n q"
  by (induction rule: pool_step.induct)
     (auto simp: pool_live_def list_all_length nth_list_update)

lemma pool_live_runs: "pool_runs fetch item p q \<Longrightarrow> pool_live n p \<Longrightarrow> pool_live n q"
  by (induction rule: rtranclp_induct) (auto intro: pool_live_step)

lemma pool_live_start: "list_all (\<lambda>hs. hs \<noteq> []) bins \<Longrightarrow> pool_live n (pool_start bins n s)"
  by (simp add: pool_live_def pool_start_def list_all_length)

lemma pool_progress:
  assumes "pool_live n p" "0 < n" "\<not> pool_over p" "\<And>x s. is_Ok (item x s)"
  shows "\<exists>q. pool_step fetch item p q"
proof (cases "\<exists>w<length (pl_workers p). \<exists>hs xs. pl_workers p ! w = Busy hs xs")
  case True
  then obtain w hs xs where w: "w < length (pl_workers p)" "pl_workers p ! w = Busy hs xs" by blast
  show ?thesis
  proof (cases xs)
    case Nil
    with w show ?thesis by (blast intro: pool_step.finish)
  next
    case (Cons x ys)
    obtain s where "item x (pl_state p) = Ok s" using assms(4) by (auto simp: is_Ok_iff)
    with w Cons show ?thesis by (blast intro: pool_step.handle)
  qed
next
  case False
  then have cases: "pl_workers p ! w = Idle \<or> pl_workers p ! w = Gone" if "w < n" for w
    using that assms(1) by (metis pool_live_def worker.exhaust)
  show ?thesis
  proof (cases "pl_pending p")
    case Nil
    with assms(3) obtain w where "w < length (pl_workers p)" "pl_workers p ! w \<noteq> Gone"
      by (auto simp: pool_over_def list_all_length)
    with cases assms(1) Nil show ?thesis by (auto simp: pool_live_def intro: pool_step.quit)
  next
    case (Cons hs rest)
    with assms(1,2) cases [of 0] have "pl_workers p ! 0 = Idle" "0 < length (pl_workers p)" "hs \<noteq> []"
      by (auto simp: pool_live_def list_all_length)
    with Cons show ?thesis by (blast intro: pool_step.dispatch)
  qed
qed

text \<open>
  A measure that every step decreases: three units per pending bin and one per payload it will
  bring, and the rest of each worker's task.
\<close>

fun worker_weight :: "worker \<Rightarrow> nat" where
  "worker_weight Idle = 1"
| "worker_weight (Busy hs xs) = length xs + 2"
| "worker_weight Gone = 0"

definition pool_weight :: "(u64 list \<Rightarrow> RawData list) \<Rightarrow> 's pool \<Rightarrow> nat" where
  "pool_weight fetch p = sum_list (map (\<lambda>hs. length (fetch hs) + 2) (pl_pending p))
     + sum_list (map worker_weight (pl_workers p))"

lemma weight_update:
  "w < length ws \<Longrightarrow>
   sum_list (map worker_weight (ws[w := x])) + worker_weight (ws ! w)
     = sum_list (map worker_weight ws) + worker_weight x"
proof (induction ws arbitrary: w)
  case (Cons a ws)
  then show ?case by (cases w) auto
qed simp

lemma pool_weight_step: "pool_step fetch item p q \<Longrightarrow> pool_weight fetch q < pool_weight fetch p"
proof (induction rule: pool_step.induct)
  case (dispatch p hs rest w)
  then show ?case using weight_update [of w "pl_workers p" "Busy hs (fetch hs)"]
    by (simp add: pool_weight_def)
next
  case (handle w p hs x xs s)
  then show ?case using weight_update [of w "pl_workers p" "Busy hs xs"] by (simp add: pool_weight_def)
next
  case (finish w p hs)
  then show ?case using weight_update [of w "pl_workers p" Idle] by (simp add: pool_weight_def)
next
  case (quit p w)
  then show ?case using weight_update [of w "pl_workers p" Gone] by (simp add: pool_weight_def)
qed

lemma pool_reaches_over:
  assumes "pool_live n p" "0 < n" "\<And>x s. is_Ok (item x s)"
  shows "\<exists>q. pool_runs fetch item p q \<and> pool_over q"
  using assms(1)
proof (induction "pool_weight fetch p" arbitrary: p rule: less_induct)
  case less
  show ?case
  proof (cases "pool_over p")
    case False
    then obtain q where q: "pool_step fetch item p q" using pool_progress less.prems assms(2,3) by blast
    with less.hyps [of q] pool_weight_step [OF q] pool_live_step [OF q less.prems] show ?thesis
      by (meson converse_rtranclp_into_rtranclp)
  qed blast
qed

end
