(* ===== verification/Watch_Service.thy ===== *)
theory Watch_Service
  imports Watch_Types
begin

text \<open>
  \<open>watch/service.go\<close>: subscribing, unsubscribing, serving payloads to subscribers, feeding
  historical data and closing. Each operation runs under the service's mutex and is one atomic
  step; the historical feeds and the relays of \<open>watch/api.go\<close> run beside them, one loop turn per
  step. The maps are association lists whose order is the order in which Go visits them.
\<close>

subsection \<open>Closing subscriptions\<close>

definition lookup_subs :: "watch_state \<Rightarrow> Hash \<Rightarrow> (rpcID \<times> Subscription) list" where
  "lookup_subs st ty = (case map_of (w_Subscriptions st) ty of None \<Rightarrow> [] | Some subs \<Rightarrow> subs)"

definition delete_type :: "Hash \<Rightarrow> watch_state \<Rightarrow> watch_state" where
  "delete_type ty st = st\<lparr>w_Subscriptions := AList.delete ty (w_Subscriptions st),
     w_SubscriptionTypes := AList.delete ty (w_SubscriptionTypes st)\<rparr>"

definition closeType :: "Hash \<Rightarrow> watch_state \<Rightarrow> watch_state" where
  "closeType subType st =
     delete_type subType (fold (\<lambda>(uid, sub). sendNonBlockingQuit sub) (lookup_subs st subType) st)"

definition close_all :: "watch_state \<Rightarrow> watch_state" where
  "close_all st =
     fold (\<lambda>(subType, subs) st. delete_type subType (fold (\<lambda>(uid, sub). sendNonBlockingQuit sub) subs st))
       (w_Subscriptions st) st"

text \<open>Closing a closed channel panics.\<close>

definition Stop :: "watch_state \<Rightarrow> watch_state outcome" where
  "Stop st =
     (if w_QuitClosed st then Panic ''close of closed channel''
      else Ok (close_all (st\<lparr>w_QuitClosed := True\<rparr>)))"

subsection \<open>Unsubscribing\<close>

definition unsubscribe_type :: "rpcID \<Rightarrow> Hash \<Rightarrow> watch_state \<Rightarrow> watch_state" where
  "unsubscribe_type uid ty st =
     (let subs = AList.delete uid (lookup_subs st ty);
          st' = st\<lparr>w_Subscriptions := AList.update ty subs (w_Subscriptions st)\<rparr>
      in if length subs = 0 then delete_type ty st' else st')"

definition Unsubscribe :: "rpcID \<Rightarrow> watch_state \<Rightarrow> watch_state" where
  "Unsubscribe uid st = fold (unsubscribe_type uid) (map fst (w_Subscriptions st)) st"

subsection \<open>Historical data\<close>

definition historicalRange :: "'cids services \<Rightarrow> Settings \<Rightarrow> (int \<times> int) outcome" where
  "historicalRange sv params =
     outcome_bind (iface (sv_FirstBlock sv)) (\<lambda>first.
     outcome_bind first (\<lambda>startingBlock.
     outcome_bind (bigptr_Int64 (StartingBlock params)) (\<lambda>pstart.
     let startingBlock = (if startingBlock < pstart then pstart else startingBlock) in
     outcome_bind (iface (sv_LastBlock sv)) (\<lambda>lst.
     outcome_bind lst (\<lambda>endingBlock.
     outcome_bind (bigptr_Int64 (EndingBlock params)) (\<lambda>pend.
       Ok (startingBlock,
           if endingBlock > pend \<and> pend > 0 \<and> pend > startingBlock then pend else endingBlock)))))))"

definition sendHistoricalData ::
    "'cids services \<Rightarrow> Subscription \<Rightarrow> Settings \<Rightarrow> watch_state \<Rightarrow> watch_state outcome" where
  "sendHistoricalData sv sub params st =
     outcome_bind (historicalRange sv params) (\<lambda>(startingBlock, endingBlock).
       Ok (st\<lparr>w_feeds := w_feeds st @
         [\<lparr>fd_sub = sub, fd_params = params, fd_next = startingBlock, fd_end = endingBlock\<rparr>]\<rparr>))"

text \<open>The packets that one retrieved cid wrapper gives rise to.\<close>

definition historicalPacket ::
    "'cids services \<Rightarrow> int \<Rightarrow> Subscription \<Rightarrow> nat \<Rightarrow> 'cids \<Rightarrow> watch_state \<Rightarrow> watch_state outcome" where
  "historicalPacket sv i sub j cids st =
     outcome_bind (iface (sv_Fetch sv)) (\<lambda>Fetch.
       case Fetch cids of
         Panic p \<Rightarrow> Panic p
       | Err err \<Rightarrow> Ok (sendNonBlockingErr sv sub
           (Wrapf ''%s watcher IPLD Fetching error at block %d%s''
             [ChainType_String (sv_chain sv), big_String i] err) st)
       | Ok response \<Rightarrow>
           (case sv_EncodeResponse sv response of
              Panic p \<Rightarrow> Panic p
            | Err err \<Rightarrow> Ok st
            | Ok responseRLP \<Rightarrow>
                outcome_bind (Response_Height response) (\<lambda>h.
                  Ok (send_payload sub \<lparr>sp_Data = responseRLP, sp_Height = h, sp_Err = '''',
                        sp_Flag = EmptyFlag\<rparr> st))))"

definition historicalBlock ::
    "'cids services \<Rightarrow> Subscription \<Rightarrow> Settings \<Rightarrow> int \<Rightarrow> watch_state \<Rightarrow> watch_state outcome" where
  "historicalBlock sv sub params i st =
     outcome_bind (iface (sv_Retrieve sv)) (\<lambda>Retrieve.
       case Retrieve params i of
         Panic p \<Rightarrow> Panic p
       | Err err \<Rightarrow> Ok (sendNonBlockingErr sv sub
           (Wrapf '' %s watcher CID Retrieval error at block %d%s''
             [ChainType_String (sv_chain sv), big_String i] err) st)
       | Ok (cidWrappers, isEmpty) \<Rightarrow>
           if isEmpty then Ok st
           else for_range (historicalPacket sv i sub) 0 cidWrappers st)"

text \<open>
  One turn of a feed: it ends silently when the service has quit, handles the next block while
  there is one, and otherwise offers the completion notice and ends.
\<close>

definition feedTurn :: "'cids services \<Rightarrow> feed \<Rightarrow> watch_state \<Rightarrow> (feed option \<times> watch_state) outcome" where
  "feedTurn sv fd st =
     (if fd_next fd \<le> fd_end fd
      then if w_QuitClosed st then Ok (None, st)
           else outcome_bind (historicalBlock sv (fd_sub fd) (fd_params fd) (fd_next fd) st) (\<lambda>st.
             Ok (Some (fd\<lparr>fd_next := fd_next fd + 1\<rparr>), st))
      else Ok (None, send_payload (fd_sub fd)
        \<lparr>sp_Data = [], sp_Height = 0, sp_Err = '''', sp_Flag = BackFillCompleteFlag\<rparr> st))"

subsection \<open>Subscribing\<close>

definition register ::
    "Hash \<Rightarrow> rpcID \<Rightarrow> Subscription \<Rightarrow> Settings \<Rightarrow> watch_state \<Rightarrow> watch_state" where
  "register ty uid subscription params st = st\<lparr>
     w_Subscriptions := AList.update ty (AList.update uid subscription (lookup_subs st ty)) (w_Subscriptions st),
     w_SubscriptionTypes := AList.update ty params (w_SubscriptionTypes st)\<rparr>"

definition Subscribe ::
    "'cids services \<Rightarrow> rpcID \<Rightarrow> nat \<Rightarrow> nat \<Rightarrow> Settings \<Rightarrow> watch_state \<Rightarrow> watch_state outcome" where
  "Subscribe sv uid sub quitChan params st =
     (let subscription = \<lparr>sub_ID = uid, sub_PayloadChan = sub, sub_QuitChan = quitChan\<rparr> in
      if Settings_ChainType params \<noteq> sv_chain sv
      then Ok (sendNonBlockingQuit subscription (sendNonBlockingErr sv subscription
             (Errorf ''subscription %s is for chain %s, service supports chain %s''
               [uid, ChainType_String (Settings_ChainType params), ChainType_String (sv_chain sv)]) st))
      else case sv_EncodeSettings sv params of
        Panic p \<Rightarrow> Panic p
      | Err err \<Rightarrow> Ok (sendNonBlockingQuit subscription (sendNonBlockingErr sv subscription err st))
      | Ok by \<Rightarrow>
          (let subscriptionType = sv_Keccak256Hash sv by;
               st1 = (if \<not> HistoricalDataOnly params
                      then register subscriptionType uid subscription params st else st)
           in if HistoricalData params \<or> HistoricalDataOnly params
              then (case sendHistoricalData sv subscription params st1 of
                      Ok st2 \<Rightarrow> Ok st2
                    | Panic p \<Rightarrow> Panic p
                    | Err err \<Rightarrow> Ok (sendNonBlockingQuit subscription
                        (sendNonBlockingErr sv subscription
                          (Wrapf ''%s watcher subscriber backfill error: %v''
                            [ChainType_String (sv_chain sv)] err) st1)))
              else Ok st1))"

subsection \<open>Serving\<close>

text \<open>The send expression of the select evaluates \<open>response.Height()\<close> for every subscriber.\<close>

definition deliver ::
    "bytes \<Rightarrow> Response \<Rightarrow> nat \<Rightarrow> rpcID \<times> Subscription \<Rightarrow> watch_state \<Rightarrow> watch_state outcome" where
  "deliver responseRLP response i idsub st =
     outcome_bind (Response_Height response) (\<lambda>h.
       Ok (send_payload (snd idsub)
         \<lparr>sp_Data = responseRLP, sp_Height = h, sp_Err = '''', sp_Flag = EmptyFlag\<rparr> st))"

definition serveType ::
    "'cids services \<Rightarrow> Converted \<Rightarrow> nat \<Rightarrow> Hash \<times> (rpcID \<times> Subscription) list \<Rightarrow> watch_state
     \<Rightarrow> watch_state outcome" where
  "serveType sv payload i tysubs st =
     (case tysubs of (ty, subs) \<Rightarrow>
      case map_of (w_SubscriptionTypes st) ty of
        None \<Rightarrow> Ok (closeType ty st)
      | Some subConfig \<Rightarrow>
          outcome_bind (bigptr_Int64 (EndingBlock subConfig)) (\<lambda>end.
          outcome_bind (if end > 0 then outcome_bind (Converted_Height payload) (\<lambda>h. Ok (end < h)) else Ok False)
            (\<lambda>past.
          if past then Ok (closeType ty st)
          else outcome_bind (iface (sv_Filterer sv)) (\<lambda>Filter.
            case Filter subConfig payload of
              Panic p \<Rightarrow> Panic p
            | Err err \<Rightarrow> Ok (closeType ty st)
            | Ok response \<Rightarrow>
                (case sv_EncodeResponse sv response of
                   Panic p \<Rightarrow> Panic p
                 | Err err \<Rightarrow> Ok st
                 | Ok responseRLP \<Rightarrow> for_range (deliver responseRLP response) 0 subs st)))))"

definition filterAndServe :: "'cids services \<Rightarrow> Converted \<Rightarrow> watch_state \<Rightarrow> watch_state outcome" where
  "filterAndServe sv payload st = for_range (serveType sv payload) 0 (w_Subscriptions st) st"

subsection \<open>The service as a transition system\<close>

text \<open>
  What can happen to a running service, in any order: the operations above; the receiving end of
  a subscriber's channels (the relay loop of \<open>Stream\<close>) taking a packet or a quit token; a turn of
  a historical feed. A panic ends the process and has no successor.
\<close>

inductive watch_step :: "'cids services \<Rightarrow> watch_state \<Rightarrow> watch_state \<Rightarrow> bool" for sv where
  subscribe: "Subscribe sv uid p q params st = Ok st' \<Longrightarrow> watch_step sv st st'"
| unsubscribe: "watch_step sv st (Unsubscribe uid st)"
| serve: "filterAndServe sv payload st = Ok st' \<Longrightarrow> watch_step sv st st'"
| stop: "Stop st = Ok st' \<Longrightarrow> watch_step sv st st'"
| relay: "ch_buf (w_payloads st c) = p # rest \<Longrightarrow>
    watch_step sv st (st\<lparr>w_payloads := (w_payloads st)(c := (w_payloads st c)\<lparr>ch_buf := rest\<rparr>)\<rparr>)"
| quit: "ch_buf (w_quits st c) = b # rest \<Longrightarrow>
    watch_step sv st (st\<lparr>w_quits := (w_quits st)(c := (w_quits st c)\<lparr>ch_buf := rest\<rparr>)\<rparr>)"
| feed: "w_feeds st = as @ fd # bs \<Longrightarrow> feedTurn sv fd st = Ok (r, st1) \<Longrightarrow>
    watch_step sv st (st1\<lparr>w_feeds := as @ (case r of None \<Rightarrow> [] | Some f \<Rightarrow> [f]) @ bs\<rparr>)"

text \<open>A fresh service (\<open>NewWatcher\<close>): empty maps, no feed, every channel empty.\<close>

definition fresh_service :: "watch_state \<Rightarrow> bool" where
  "fresh_service st \<longleftrightarrow> w_Subscriptions st = [] \<and> w_SubscriptionTypes st = [] \<and> \<not> w_QuitClosed st
     \<and> w_feeds st = [] \<and> (\<forall>c. ch_buf (w_payloads st c) = []) \<and> (\<forall>c. ch_buf (w_quits st c) = [])"

inductive watch_reachable :: "'cids services \<Rightarrow> watch_state \<Rightarrow> bool" for sv where
  init: "fresh_service st \<Longrightarrow> watch_reachable sv st"
| step: "watch_reachable sv st \<Longrightarrow> watch_step sv st st' \<Longrightarrow> watch_reachable sv st'"

subsection \<open>Lemmas: the maps stay consistent\<close>

text \<open>The registered subscribers of one type, and the parameters a type stands for.\<close>

definition good_subs :: "(rpcID \<times> Subscription) list \<Rightarrow> bool" where
  "good_subs subs \<longleftrightarrow> subs \<noteq> [] \<and> distinct (map fst subs)
     \<and> (\<forall>uid sub. map_of subs uid = Some sub \<longrightarrow> sub_ID sub = uid)"

definition good_params :: "'cids services \<Rightarrow> Hash \<Rightarrow> Settings \<Rightarrow> bool" where
  "good_params sv ty params \<longleftrightarrow> Settings_ChainType params = sv_chain sv \<and> \<not> HistoricalDataOnly params
     \<and> (\<exists>by. sv_EncodeSettings sv params = Ok by \<and> sv_Keccak256Hash sv by = ty)"

definition subs_inv :: "'cids services \<Rightarrow> watch_state \<Rightarrow> bool" where
  "subs_inv sv st \<longleftrightarrow>
     distinct (map fst (w_Subscriptions st)) \<and> distinct (map fst (w_SubscriptionTypes st))
     \<and> dom (map_of (w_Subscriptions st)) = dom (map_of (w_SubscriptionTypes st))
     \<and> (\<forall>ty subs. map_of (w_Subscriptions st) ty = Some subs \<longrightarrow> good_subs subs)
     \<and> (\<forall>ty params. map_of (w_SubscriptionTypes st) ty = Some params \<longrightarrow> good_params sv ty params)"

definition same_maps :: "watch_state \<Rightarrow> watch_state \<Rightarrow> bool" where
  "same_maps a b \<longleftrightarrow> w_Subscriptions a = w_Subscriptions b \<and> w_SubscriptionTypes a = w_SubscriptionTypes b"

lemma same_maps_refl [simp]: "same_maps a a"
  by (simp add: same_maps_def)

lemma subs_inv_cong: "same_maps a b \<Longrightarrow> subs_inv sv b \<Longrightarrow> subs_inv sv a"
  by (simp add: subs_inv_def same_maps_def)

lemma delete_type_maps:
  "map_of (w_Subscriptions (delete_type ty st)) = (map_of (w_Subscriptions st))(ty := None)"
  "map_of (w_SubscriptionTypes (delete_type ty st)) = (map_of (w_SubscriptionTypes st))(ty := None)"
  by (simp_all add: delete_type_def delete_conv')

lemma subs_inv_delete: "subs_inv sv st \<Longrightarrow> subs_inv sv (delete_type ty st)"
  unfolding subs_inv_def delete_type_maps
  by (simp add: delete_type_def distinct_delete)

lemma fold_quit_keeps [simp]:
  "w_Subscriptions (fold (\<lambda>(uid, sub). sendNonBlockingQuit sub) subs st) = w_Subscriptions st"
  "w_SubscriptionTypes (fold (\<lambda>(uid, sub). sendNonBlockingQuit sub) subs st) = w_SubscriptionTypes st"
  "w_payloads (fold (\<lambda>(uid, sub). sendNonBlockingQuit sub) subs st) = w_payloads st"
  "w_feeds (fold (\<lambda>(uid, sub). sendNonBlockingQuit sub) subs st) = w_feeds st"
  "w_QuitClosed (fold (\<lambda>(uid, sub). sendNonBlockingQuit sub) subs st) = w_QuitClosed st"
  by (rule fold_keeps; simp split: prod.split)+

lemma closeType_maps:
  "w_Subscriptions (closeType ty st) = AList.delete ty (w_Subscriptions st)"
  "w_SubscriptionTypes (closeType ty st) = AList.delete ty (w_SubscriptionTypes st)"
  "w_payloads (closeType ty st) = w_payloads st"
  by (simp_all add: closeType_def delete_type_def)

lemma subs_inv_closeType: "subs_inv sv st \<Longrightarrow> subs_inv sv (closeType ty st)"
  unfolding closeType_def
  by (intro subs_inv_delete, erule subs_inv_cong [rotated]) (simp add: same_maps_def)

lemma subs_inv_close_all:
  assumes "subs_inv sv st"
  shows "subs_inv sv (close_all st)"
proof -
  have "subs_inv sv (fold (\<lambda>(subType, subs) st. delete_type subType
      (fold (\<lambda>(uid, sub). sendNonBlockingQuit sub) subs st)) xs st)" if "subs_inv sv st" for xs st
    using that
  proof (induction xs arbitrary: st)
    case (Cons x xs)
    obtain ty subs where x: "x = (ty, subs)" by (cases x)
    have "subs_inv sv (fold (\<lambda>(uid, sub). sendNonBlockingQuit sub) subs st)"
      by (rule subs_inv_cong [OF _ Cons.prems]) (simp add: same_maps_def)
    then show ?case by (simp add: x subs_inv_delete Cons.IH)
  qed simp
  then show ?thesis using assms by (simp add: close_all_def)
qed

lemma good_subs_update:
  assumes "distinct (map fst subs)" "\<forall>uid sub. map_of subs uid = Some sub \<longrightarrow> sub_ID sub = uid" "sub_ID sub = uid"
  shows "good_subs (AList.update uid sub subs)"
  using assms unfolding good_subs_def update_conv' by (simp add: distinct_update)

lemma good_subs_delete:
  assumes "good_subs subs" "AList.delete uid subs \<noteq> []"
  shows "good_subs (AList.delete uid subs)"
  using assms unfolding good_subs_def delete_conv' by (simp add: distinct_delete)

lemma register_maps:
  "map_of (w_Subscriptions (register ty uid sub params st))
     = (map_of (w_Subscriptions st))(ty \<mapsto> AList.update uid sub (lookup_subs st ty))"
  "map_of (w_SubscriptionTypes (register ty uid sub params st)) = (map_of (w_SubscriptionTypes st))(ty \<mapsto> params)"
  by (simp_all add: register_def update_conv')

lemma subs_inv_register:
  assumes "subs_inv sv st" "good_params sv ty params" "sub_ID sub = uid"
  shows "subs_inv sv (register ty uid sub params st)"
proof -
  have "good_subs (AList.update uid sub (lookup_subs st ty))"
    using assms(1,3)
    by (intro good_subs_update) (auto simp: lookup_subs_def subs_inv_def good_subs_def split: option.splits)
  moreover have "distinct (map fst (w_Subscriptions (register ty uid sub params st)))"
    "distinct (map fst (w_SubscriptionTypes (register ty uid sub params st)))"
    using assms(1) by (simp_all add: register_def distinct_update subs_inv_def)
  ultimately show ?thesis
    using assms(1,2) unfolding subs_inv_def register_maps by simp
qed

lemma unsubscribe_type_maps:
  "map_of (w_Subscriptions (unsubscribe_type uid ty st))
     = (map_of (w_Subscriptions st))(ty := (let subs = AList.delete uid (lookup_subs st ty) in
          if subs = [] then None else Some subs))"
  "map_of (w_SubscriptionTypes (unsubscribe_type uid ty st))
     = (if AList.delete uid (lookup_subs st ty) = [] then (map_of (w_SubscriptionTypes st))(ty := None)
        else map_of (w_SubscriptionTypes st))"
  by (auto simp: unsubscribe_type_def Let_def delete_type_def delete_conv' update_conv')

lemma subs_inv_unsubscribe_type:
  assumes "subs_inv sv st" "ty \<in> dom (map_of (w_Subscriptions st))"
  shows "subs_inv sv (unsubscribe_type uid ty st)"
proof -
  obtain subs where subs: "map_of (w_Subscriptions st) ty = Some subs" using assms(2) by auto
  have "distinct (map fst (w_Subscriptions (unsubscribe_type uid ty st)))"
    "distinct (map fst (w_SubscriptionTypes (unsubscribe_type uid ty st)))"
    using assms(1)
    by (simp_all add: unsubscribe_type_def Let_def delete_type_def distinct_update distinct_delete subs_inv_def)
  moreover have "good_subs (AList.delete uid subs)" if "AList.delete uid subs \<noteq> []"
    using that subs assms(1) by (intro good_subs_delete) (auto simp: subs_inv_def)
  moreover have "lookup_subs st ty = subs" by (simp add: lookup_subs_def subs)
  ultimately show ?thesis
    using assms subs unfolding subs_inv_def unsubscribe_type_maps by (auto simp: Let_def)
qed

text \<open>Unsubscribing removes the subscriber from every type and drops the types it leaves empty.\<close>

lemma unsubscribe_fold:
  assumes "distinct tys"
  shows "map_of (w_Subscriptions (fold (unsubscribe_type uid) tys st)) ty
    = (if ty \<in> set tys then (let subs = AList.delete uid (lookup_subs st ty) in
         if subs = [] then None else Some subs) else map_of (w_Subscriptions st) ty)"
  using assms
proof (induction tys arbitrary: st)
  case (Cons t tys)
  have "lookup_subs (unsubscribe_type uid t st) ty = lookup_subs st ty" if "ty \<noteq> t"
    using that by (simp add: lookup_subs_def unsubscribe_type_maps)
  with Cons show ?case by (cases "ty = t") (auto simp: unsubscribe_type_maps)
qed simp

lemma subs_inv_unsubscribe_fold:
  assumes "subs_inv sv st" "distinct tys" "set tys \<subseteq> dom (map_of (w_Subscriptions st))"
  shows "subs_inv sv (fold (unsubscribe_type uid) tys st)"
  using assms
proof (induction tys arbitrary: st)
  case (Cons t tys)
  have "set tys \<subseteq> dom (map_of (w_Subscriptions (unsubscribe_type uid t st)))"
    using Cons.prems by (auto simp: unsubscribe_type_maps)
  then show ?case
    using Cons.prems subs_inv_unsubscribe_type [of sv st t uid] by (auto intro!: Cons.IH)
qed simp

lemma subs_inv_Unsubscribe: "subs_inv sv st \<Longrightarrow> subs_inv sv (Unsubscribe uid st)"
  unfolding Unsubscribe_def
  by (rule subs_inv_unsubscribe_fold) (auto simp: subs_inv_def dom_map_of_conv_image_fst)

subsection \<open>Lemmas: serving\<close>

abbreviation data_packet :: "bytes \<Rightarrow> int \<Rightarrow> SubscriptionPayload" where
  "data_packet rlp h \<equiv> \<lparr>sp_Data = rlp, sp_Height = h, sp_Err = '''', sp_Flag = EmptyFlag\<rparr>"

lemma deliver_loop:
  assumes "for_range (deliver rlp resp) i subs st = Ok st'" "subs \<noteq> []"
  obtains h where "Response_Height resp = Ok h"
    "st' = fold (\<lambda>x. send_payload (snd x) (data_packet rlp h)) subs st"
proof -
  from assms obtain h where h: "Response_Height resp = Ok h"
    by (cases subs) (auto simp: deliver_def)
  have "for_range (deliver rlp resp) i subs st
      = Ok (fold (\<lambda>x. send_payload (snd x) (data_packet rlp h)) subs st)" for i subs st
    by (induction subs arbitrary: i st) (simp_all add: deliver_def h)
  with assms h that show ?thesis by simp
qed

lemma deliver_loop_maps:
  assumes "for_range (deliver rlp resp) i subs st = Ok st'"
  shows "w_Subscriptions st' = w_Subscriptions st" "w_SubscriptionTypes st' = w_SubscriptionTypes st"
    "w_feeds st' = w_feeds st" "w_quits st' = w_quits st" "w_QuitClosed st' = w_QuitClosed st"
proof -
  have "(w_Subscriptions st', w_SubscriptionTypes st', w_feeds st', w_quits st', w_QuitClosed st')
     = (w_Subscriptions st, w_SubscriptionTypes st, w_feeds st, w_quits st, w_QuitClosed st)"
    by (rule for_range_inv [OF assms]) (auto simp: deliver_def)
  then show "w_Subscriptions st' = w_Subscriptions st" "w_SubscriptionTypes st' = w_SubscriptionTypes st"
    "w_feeds st' = w_feeds st" "w_quits st' = w_quits st" "w_QuitClosed st' = w_QuitClosed st"
    by simp_all
qed

text \<open>
  A payload closes a subscription type when its height lies beyond the type's end or when the
  filterer refuses it.
\<close>

definition type_past :: "Converted \<Rightarrow> Settings \<Rightarrow> bool" where
  "type_past payload params \<longleftrightarrow> (\<exists>e h. EndingBlock params = Some e \<and> Converted_Height payload = Ok h
     \<and> 0 < int64_of e \<and> int64_of e < h)"

definition type_closes :: "'cids services \<Rightarrow> Converted \<Rightarrow> Settings \<Rightarrow> bool" where
  "type_closes sv payload params \<longleftrightarrow> type_past payload params
     \<or> (\<exists>F err. sv_Filterer sv = Some F \<and> F params payload = Err err)"

lemma serveType_cases:
  assumes "serveType sv payload i (ty, subs) st = Ok st'" "map_of (w_SubscriptionTypes st) ty = Some params"
  shows "(type_closes sv payload params \<and> st' = closeType ty st)
    \<or> (\<not> type_closes sv payload params \<and> (\<exists>F resp. sv_Filterer sv = Some F \<and> F params payload = Ok resp
        \<and> ((\<exists>err. sv_EncodeResponse sv resp = Err err) \<and> st' = st
           \<or> (\<exists>rlp. sv_EncodeResponse sv resp = Ok rlp \<and> for_range (deliver rlp resp) 0 subs st = Ok st'))))"
proof -
  obtain e where e: "EndingBlock params = Some e"
    using assms by (cases "EndingBlock params") (auto simp: serveType_def bigptr_Int64_def)
  show ?thesis
  proof (cases "type_past payload params")
    case True
    then have "st' = closeType ty st"
      using assms e by (auto simp: serveType_def type_past_def)
    with True show ?thesis by (simp add: type_closes_def)
  next
    case False
    then obtain F where F: "sv_Filterer sv = Some F"
      using assms e by (cases "sv_Filterer sv")
        (auto simp: serveType_def type_past_def iface_def split: if_splits)
    show ?thesis
      using False assms e F
      by (auto simp: serveType_def type_past_def type_closes_def split: if_splits outcome.splits)
  qed
qed

lemma serveType_maps:
  assumes "serveType sv payload i (ty, subs) st = Ok st'" "map_of (w_SubscriptionTypes st) ty = Some params"
  shows "w_Subscriptions st' = (if type_closes sv payload params then AList.delete ty (w_Subscriptions st) else w_Subscriptions st)"
    "w_SubscriptionTypes st' = (if type_closes sv payload params then AList.delete ty (w_SubscriptionTypes st) else w_SubscriptionTypes st)"
  using serveType_cases [OF assms] by (auto simp: closeType_maps deliver_loop_maps)

lemma subs_inv_serveType:
  assumes "subs_inv sv st" "serveType sv payload i x st = Ok st'"
  shows "subs_inv sv st'"
proof (cases "map_of (w_SubscriptionTypes st) (fst x)")
  case None
  then have "st' = closeType (fst x) st" using assms(2) by (auto simp: serveType_def split: prod.splits)
  with assms(1) show ?thesis by (simp add: subs_inv_closeType)
next
  case (Some params)
  from assms(2) have ok: "serveType sv payload i (fst x, snd x) st = Ok st'" by simp
  have "same_maps st' (if type_closes sv payload params then closeType (fst x) st else st)"
    using serveType_maps [OF ok Some] by (simp add: same_maps_def closeType_maps)
  then show ?thesis
    using assms(1) subs_inv_closeType [of sv st "fst x"] by (auto intro: subs_inv_cong split: if_splits)
qed

lemma subs_inv_filterAndServe:
  "subs_inv sv st \<Longrightarrow> filterAndServe sv payload st = Ok st' \<Longrightarrow> subs_inv sv st'"
  unfolding filterAndServe_def by (erule for_range_inv) (auto intro: subs_inv_serveType)

subsection \<open>Lemmas: subscribing and feeds\<close>

lemma subs_inv_Subscribe:
  assumes "subs_inv sv st" "Subscribe sv uid p q params st = Ok st'"
  shows "subs_inv sv st'"
proof -
  let ?sub = "\<lparr>sub_ID = uid, sub_PayloadChan = p, sub_QuitChan = q\<rparr>"
  have reg: "subs_inv sv (register (sv_Keccak256Hash sv by) uid ?sub params st)"
    if "Settings_ChainType params = sv_chain sv" "sv_EncodeSettings sv params = Ok by"
      "\<not> HistoricalDataOnly params" for "by"
    using that assms(1) by (intro subs_inv_register) (auto simp: good_params_def)
  have "same_maps st' st \<or> (\<exists>by. Settings_ChainType params = sv_chain sv \<and> sv_EncodeSettings sv params = Ok by
      \<and> \<not> HistoricalDataOnly params \<and> same_maps st' (register (sv_Keccak256Hash sv by) uid ?sub params st))"
    using assms(2)
    by (auto simp: Subscribe_def Let_def same_maps_def sendHistoricalData_def
        split: if_splits outcome.splits)
  then show ?thesis using assms(1) reg subs_inv_cong by blast
qed

lemma historicalBlock_same_maps:
  assumes "historicalBlock sv sub params i st = Ok st'"
  shows "same_maps st' st \<and> w_feeds st' = w_feeds st \<and> w_quits st' = w_quits st
    \<and> w_QuitClosed st' = w_QuitClosed st"
proof -
  have step: "same_maps b a \<and> w_feeds b = w_feeds a \<and> w_quits b = w_quits a \<and> w_QuitClosed b = w_QuitClosed a"
    if "historicalPacket sv i sub j c a = Ok b" for j c a b
    using that by (cases "sv_Fetch sv")
      (auto simp: historicalPacket_def same_maps_def iface_def split: outcome.split_asm)
  have "same_maps b st \<and> w_feeds b = w_feeds st \<and> w_quits b = w_quits st \<and> w_QuitClosed b = w_QuitClosed st"
    if "for_range (historicalPacket sv i sub) 0 ws st = Ok b" for ws b
    by (rule for_range_inv [OF that]) (auto dest!: step simp: same_maps_def)
  then show ?thesis
    using assms by (cases "sv_Retrieve sv")
      (auto simp: historicalBlock_def same_maps_def iface_def split: outcome.split_asm if_split_asm)
qed

lemma feedTurn_same_maps: "feedTurn sv fd st = Ok (r, st') \<Longrightarrow> same_maps st' st"
  by (auto simp: feedTurn_def same_maps_def dest!: historicalBlock_same_maps split: if_splits)

lemma subs_inv_Stop: "subs_inv sv st \<Longrightarrow> Stop st = Ok st' \<Longrightarrow> subs_inv sv st'"
  unfolding Stop_def
  by (auto split: if_splits intro!: subs_inv_close_all intro: subs_inv_cong simp: same_maps_def)

lemma subs_inv_step:
  assumes "watch_step sv st st'" "subs_inv sv st"
  shows "subs_inv sv st'"
  using assms(1)
proof (cases rule: watch_step.cases)
  case (feed as fd bs r st1)
  then have "same_maps st' st" using feedTurn_same_maps [OF feed(3)] by (simp add: same_maps_def)
  then show ?thesis using assms(2) by (rule subs_inv_cong)
qed (use assms(2) in \<open>auto intro: subs_inv_Subscribe subs_inv_Unsubscribe subs_inv_filterAndServe
      subs_inv_Stop subs_inv_cong simp: same_maps_def\<close>)

lemma subs_inv_reachable: "watch_reachable sv st \<Longrightarrow> subs_inv sv st"
proof (induction rule: watch_reachable.induct)
  case (init st)
  then show ?case by (simp add: fresh_service_def subs_inv_def)
next
  case (step st st')
  then show ?case by (blast intro: subs_inv_step)
qed

end
