(* ===== verification/Sample_Libs.thy ===== *)
theory Sample_Libs
  imports Chain_Data
begin

text \<open>
  Concrete stand-ins for the library parameters and small concrete blocks, on which the
  hypotheses of the properties are shown to be satisfiable. Nothing of the model depends on
  them.
\<close>

definition sample_ipfs :: ipfs_lib where
  "sample_ipfs = \<lparr>mh_Sum = (\<lambda>code raw. Ok (word_of_nat (unat code) # raw)),
     mh_Encode = (\<lambda>h code. Ok (word_of_nat (unat code) # h)),
     Cid_String = (\<lambda>c. hex_EncodeToString (word_of_nat (unat (cid_Codec c)) # cid_Hash c)),
     cid_Decode = (\<lambda>s. Err (Errorf ''no cid'' [])),
     MultihashToDsKey = (\<lambda>h. hex_EncodeToString h),
     BlockPrefix = ''/blocks/''\<rparr>"

definition sample_header :: "int \<Rightarrow> EthHeader" where
  "sample_header n = \<lparr>h_ParentHash = [], h_UncleHash = [], h_Coinbase = [], h_Root = [], h_TxHash = [],
     h_ReceiptHash = [], h_Bloom = [], h_Difficulty = 1, h_Number = n, h_GasLimit = 0, h_GasUsed = 0,
     h_Time = 0, h_Extra = [1], h_MixDigest = [], h_Nonce = []\<rparr>"

definition sample_tx :: Transaction where
  "sample_tx = \<lparr>t_To = Some [9], t_GasPrice = 2, t_Rest = [3]\<rparr>"

definition sample_rct :: Receipt where
  "sample_rct = \<lparr>r_TxHash = [3], r_ContractAddress = [], r_GasUsed = 21000, r_Logs = [], r_Status = 1\<rparr>"

definition sample_block :: "int \<Rightarrow> Block" where
  "sample_block n = \<lparr>b_Header = sample_header n, b_Uncles = [], b_Transactions = [sample_tx]\<rparr>"

definition sample_geth :: geth_lib where
  "sample_geth = \<lparr>
     rlp_EncodeHeader = (\<lambda>h. Ok (h_Extra h)),
     Header_Hash = (\<lambda>h. h_Extra h),
     Tx_EncodeRLP = (\<lambda>t. Ok (t_Rest t)),
     Tx_Hash = (\<lambda>t. t_Rest t),
     Receipt_EncodeRLP = (\<lambda>r. Ok (r_TxHash r)),
     Keccak256 = (\<lambda>b. b),
     HexToAddress = (\<lambda>s. map (\<lambda>c. of_char c) s),
     HexToHash = (\<lambda>s. map (\<lambda>c. of_char c) s),
     BytesToHash = (\<lambda>b. b),
     Address_Hex = (\<lambda>a. hex_EncodeToString a),
     types_Sender = (\<lambda>n t. Ok [7]),
     rlp_DecodeBlock = (\<lambda>b. Ok (sample_block (int (length b)))),
     rlp_DecodeReceipts = (\<lambda>b. Ok [sample_rct]),
     DeriveFields = (\<lambda>rs b. Ok rs),
     rlp_DecodeStateObject = (\<lambda>b. Ok []),
     rlp_DecodeList = (\<lambda>b. Ok [b, b]),
     rlp_DecodeAccount = (\<lambda>b. Ok \<lparr>ac_Nonce = 0, ac_Balance = 0, ac_Root = [], ac_CodeHash = []\<rparr>)\<rparr>"

definition sample_txmeta :: TxModel where
  "sample_txmeta = zero_TxModel\<lparr>tm_TxHash := ''0x03'', tm_Src := ''a'', tm_Dst := ''b''\<rparr>"

definition sample_payload :: "int \<Rightarrow> ConvertedPayload" where
  "sample_payload n = \<lparr>cp_TotalDifficulty = Some 10, cp_Block = sample_block n,
     cp_TxMetaData = [sample_txmeta], cp_Receipts = [sample_rct],
     cp_ReceiptMetaData = [zero_ReceiptModel], cp_StateNodes = [], cp_StorageNodes = []\<rparr>"

text \<open>Settings that ask for everything between two heights.\<close>

definition sample_settings :: "int \<Rightarrow> int \<Rightarrow> SubscriptionSettings" where
  "sample_settings a b = \<lparr>ss_BackFill = False, ss_BackFillOnly = False, ss_Start = Some a, ss_End = Some b,
     ss_HeaderFilter = \<lparr>hf_Off = False, hf_Uncles = False\<rparr>,
     ss_TxFilter = \<lparr>tf_Off = False, tf_Src = [], tf_Dst = []\<rparr>,
     ss_ReceiptFilter = \<lparr>rf_Off = False, rf_MatchTxs = False, rf_LogAddresses = [], rf_Topics = []\<rparr>,
     ss_StateFilter = \<lparr>sf_Off = False, sf_Addresses = [], sf_IntermediateNodes = False\<rparr>,
     ss_StorageFilter = \<lparr>of_Off = False, of_Addresses = [], of_StorageKeys = [], of_IntermediateNodes = False\<rparr>\<rparr>"

lemmas sample_defs = sample_ipfs_def sample_geth_def sample_header_def sample_tx_def sample_rct_def
  sample_block_def sample_txmeta_def sample_payload_def sample_settings_def

lemma sample_settings_simps [simp]:
  "ss_Start (sample_settings a b) = Some a" "ss_End (sample_settings a b) = Some b"
  "ss_BackFill (sample_settings a b) = False" "ss_BackFillOnly (sample_settings a b) = False"
  by (simp_all add: sample_settings_def)

lemma sample_payload_height [simp]: "ConvertedPayload_Height (sample_payload n) = int64_of n"
  by (simp add: sample_defs ConvertedPayload_Height_def)

end
