(* ===== verification/Eth_Filterer.thy ===== *)
theory Eth_Filterer
  imports Sample_Libs
begin

text \<open>
  \<open>eth/filterer.go\<close>: the response filterer that turns a converted block into the packet a
  subscriber asked for. The response is threaded through the filter stages the way the code
  passes its pointer; the metadata slices are indexed with the loop index and panic when they
  are too short.
\<close>

subsection \<open>Predicates\<close>

definition checkRange :: "int \<Rightarrow> int \<Rightarrow> int \<Rightarrow> bool" where
  "checkRange start end actual = (if (end \<le> 0 \<or> end \<ge> actual) \<and> start \<le> actual then True else False)"

definition checkTransactionAddrs :: "string list \<Rightarrow> string list \<Rightarrow> string \<Rightarrow> string \<Rightarrow> bool" where
  "checkTransactionAddrs wantedSrc wantedDst actualSrc actualDst =
     (if length wantedDst = 0 \<and> length wantedSrc = 0 then True
      else if list_ex (\<lambda>src. src = actualSrc) wantedSrc then True
      else if list_ex (\<lambda>dst. dst = actualDst) wantedDst then True
      else False)"

definition slicesShareString :: "string list \<Rightarrow> string list \<Rightarrow> nat" where
  "slicesShareString sliceA sliceB =
     (if list_ex (\<lambda>str1. list_ex (\<lambda>str2. str1 = str2) sliceB) sliceA then 1 else 0)"

text \<open>The loop of \<open>filterMatch\<close> over the actual topic sets.\<close>

fun countMatches :: "string list list \<Rightarrow> nat \<Rightarrow> string list list \<Rightarrow> nat \<Rightarrow> nat" where
  "countMatches wantedTopics i [] matches = matches"
| "countMatches wantedTopics i (actualTopicSet # rest) matches =
     countMatches wantedTopics (i + 1) rest
       (if i < length wantedTopics \<and> length (wantedTopics ! i) > 0
        then matches + slicesShareString actualTopicSet (wantedTopics ! i)
        else matches + 1)"

definition filterMatch :: "string list list \<Rightarrow> string list list \<Rightarrow> bool" where
  "filterMatch wantedTopics actualTopics \<longleftrightarrow> countMatches wantedTopics 0 actualTopics 0 = 4"

definition checkReceipts ::
    "Receipt \<Rightarrow> string list list \<Rightarrow> string list list \<Rightarrow> string list \<Rightarrow> string list \<Rightarrow> Hash list \<Rightarrow> bool" where
  "checkReceipts rct wantedTopics actualTopics wantedAddresses actualAddresses wantedTrxHashes =
     (if length wantedTopics = 0 \<and> length wantedAddresses = 0 \<and> length wantedTrxHashes = 0 then True
      else if list_ex (\<lambda>wantedTrxHash. wantedTrxHash = r_TxHash rct) wantedTrxHashes then True
      else if length wantedAddresses = 0 \<and> filterMatch wantedTopics actualTopics then True
      else list_ex (\<lambda>wantedAddr. list_ex (\<lambda>actualAddr.
             wantedAddr = actualAddr \<and> filterMatch wantedTopics actualTopics) actualAddresses)
           wantedAddresses)"

definition checkNodeKeys :: "Hash list \<Rightarrow> Hash \<Rightarrow> bool" where
  "checkNodeKeys wantedKeys actualKey =
     (if length wantedKeys = 0 then True else list_ex (\<lambda>key. key = actualKey) wantedKeys)"

subsection \<open>Filter stages\<close>

text \<open>Encoding a value and wrapping it with its cid, the step every stage repeats.\<close>

definition packBlock :: "ipfs_lib \<Rightarrow> u64 \<Rightarrow> u64 \<Rightarrow> bytes outcome \<Rightarrow> BlockModel outcome" where
  "packBlock ipfs codec mh enc =
     outcome_bind enc (\<lambda>raw. outcome_bind (RawdataToCid ipfs codec raw mh)
       (\<lambda>c. Ok \<lparr>bm_CID = Cid_String ipfs c, bm_Data = raw\<rparr>))"

definition filterHeaders ::
    "geth_lib \<Rightarrow> ipfs_lib \<Rightarrow> HeaderFilter \<Rightarrow> IPLDs \<Rightarrow> ConvertedPayload \<Rightarrow> IPLDs outcome" where
  "filterHeaders geth ipfs headerFilter response payload =
     (if \<not> hf_Off headerFilter
      then outcome_bind
        (packBlock ipfs MEthHeader KECCAK_256 (rlp_EncodeHeader geth (b_Header (cp_Block payload))))
        (\<lambda>header.
          (let response = response\<lparr>ip_Header := header\<rparr> in
           if hf_Uncles headerFilter
           then outcome_bind
             (outcome_map (\<lambda>uncle. packBlock ipfs MEthHeader KECCAK_256 (rlp_EncodeHeader geth uncle))
                (b_Uncles (cp_Block payload)))
             (\<lambda>uncles. Ok (response\<lparr>ip_Uncles := uncles\<rparr>))
           else Ok response))
      else Ok response)"

definition filterTxStep ::
    "geth_lib \<Rightarrow> ipfs_lib \<Rightarrow> TxFilter \<Rightarrow> ConvertedPayload \<Rightarrow> nat \<Rightarrow> Transaction
     \<Rightarrow> BlockModel list \<times> Hash list \<Rightarrow> (BlockModel list \<times> Hash list) outcome" where
  "filterTxStep geth ipfs trxFilter payload i trx acc =
     outcome_bind (slice_get (cp_TxMetaData payload) i) (\<lambda>meta.
       if checkTransactionAddrs (tf_Src trxFilter) (tf_Dst trxFilter) (tm_Src meta) (tm_Dst meta)
       then outcome_bind (packBlock ipfs MEthTx KECCAK_256 (Tx_EncodeRLP geth trx)) (\<lambda>bm.
              Ok (fst acc @ [bm], snd acc @ [Tx_Hash geth trx]))
       else Ok acc)"

definition filterTransactions ::
    "geth_lib \<Rightarrow> ipfs_lib \<Rightarrow> TxFilter \<Rightarrow> IPLDs \<Rightarrow> ConvertedPayload \<Rightarrow> (IPLDs \<times> Hash list) outcome" where
  "filterTransactions geth ipfs trxFilter response payload =
     (if \<not> tf_Off trxFilter
      then outcome_bind
        (for_range (filterTxStep geth ipfs trxFilter payload) 0 (b_Transactions (cp_Block payload)) ([], []))
        (\<lambda>(txs, trxHashes). Ok (response\<lparr>ip_Transactions := txs\<rparr>, trxHashes))
      else Ok (response, []))"

definition metaTopics :: "ReceiptModel \<Rightarrow> string list list" where
  "metaTopics meta = [rm_Topic0s meta, rm_Topic1s meta, rm_Topic2s meta, rm_Topic3s meta]"

definition filterRctStep ::
    "geth_lib \<Rightarrow> ipfs_lib \<Rightarrow> ReceiptFilter \<Rightarrow> ConvertedPayload \<Rightarrow> Hash list \<Rightarrow> nat \<Rightarrow> Receipt
     \<Rightarrow> BlockModel list \<Rightarrow> BlockModel list outcome" where
  "filterRctStep geth ipfs receiptFilter payload trxHashes i receipt acc =
     outcome_bind (slice_get (cp_ReceiptMetaData payload) i) (\<lambda>meta.
       if checkReceipts receipt (rf_Topics receiptFilter) (metaTopics meta)
            (rf_LogAddresses receiptFilter) (rm_LogContracts meta) trxHashes
       then outcome_bind (packBlock ipfs MEthTxReceipt KECCAK_256 (Receipt_EncodeRLP geth receipt))
              (\<lambda>bm. Ok (acc @ [bm]))
       else Ok acc)"

definition filerReceipts ::
    "geth_lib \<Rightarrow> ipfs_lib \<Rightarrow> ReceiptFilter \<Rightarrow> IPLDs \<Rightarrow> ConvertedPayload \<Rightarrow> Hash list \<Rightarrow> IPLDs outcome" where
  "filerReceipts geth ipfs receiptFilter response payload trxHashes =
     (if \<not> rf_Off receiptFilter
      then outcome_bind
        (for_range (filterRctStep geth ipfs receiptFilter payload trxHashes) 0 (cp_Receipts payload) [])
        (\<lambda>rcts. Ok (response\<lparr>ip_Receipts := rcts\<rparr>))
      else Ok response)"

definition storageAt :: "ConvertedPayload \<Rightarrow> bytes \<Rightarrow> TrieNode list" where
  "storageAt payload path =
     (case map_of (cp_StorageNodes payload) (hex_EncodeToString path) of None \<Rightarrow> [] | Some ns \<Rightarrow> ns)"

definition filterStorageStep ::
    "ipfs_lib \<Rightarrow> Hash list \<Rightarrow> TrieNode \<Rightarrow> nat \<Rightarrow> TrieNode \<Rightarrow> StorageNode list \<Rightarrow> StorageNode list outcome" where
  "filterStorageStep ipfs storageKeyFilters stateNode i storageNode acc =
     (if checkNodeKeys storageKeyFilters (tn_LeafKey storageNode)
      then outcome_bind (packBlock ipfs MEthStorageTrie KECCAK_256 (Ok (tn_Value storageNode))) (\<lambda>bm.
        Ok (acc @ [\<lparr>so_Type = tn_Type storageNode, so_StateLeafKey = tn_LeafKey stateNode,
                    so_StorageLeafKey = tn_LeafKey storageNode, so_Path = tn_Path storageNode,
                    so_IPLD = bm\<rparr>]))
      else Ok acc)"

definition filterStateStep ::
    "ipfs_lib \<Rightarrow> StateFilter \<Rightarrow> StorageFilter \<Rightarrow> Hash list \<Rightarrow> Hash list \<Rightarrow> Hash list \<Rightarrow> ConvertedPayload
     \<Rightarrow> nat \<Rightarrow> TrieNode \<Rightarrow> StateNode list \<times> StorageNode list \<Rightarrow> (StateNode list \<times> StorageNode list) outcome" where
  "filterStateStep ipfs stateFilter storageFilter stateAddressFilters storageAddressFilters
       storageKeyFilters payload i stateNode acc =
     outcome_bind
       (if \<not> sf_Off stateFilter \<and> checkNodeKeys stateAddressFilters (tn_LeafKey stateNode)
           \<and> (tn_Type stateNode = NodeLeaf \<or> sf_IntermediateNodes stateFilter)
        then outcome_bind (packBlock ipfs MEthStateTrie KECCAK_256 (Ok (tn_Value stateNode))) (\<lambda>bm.
          Ok (fst acc @ [\<lparr>st_Type = tn_Type stateNode, st_StateLeafKey = tn_LeafKey stateNode,
                          st_Path = tn_Path stateNode, st_IPLD = bm\<rparr>]))
        else Ok (fst acc))
       (\<lambda>states.
         outcome_bind
           (if \<not> of_Off storageFilter \<and> checkNodeKeys storageAddressFilters (tn_LeafKey stateNode)
            then for_range (filterStorageStep ipfs storageKeyFilters stateNode) 0
                   (storageAt payload (tn_Path stateNode)) (snd acc)
            else Ok (snd acc))
           (\<lambda>storages. Ok (states, storages)))"

definition addressKeys :: "geth_lib \<Rightarrow> string list \<Rightarrow> Hash list" where
  "addressKeys geth addrs = map (\<lambda>addr. Keccak256 geth (HexToAddress geth addr)) addrs"

definition filterStateAndStorage ::
    "geth_lib \<Rightarrow> ipfs_lib \<Rightarrow> StateFilter \<Rightarrow> StorageFilter \<Rightarrow> IPLDs \<Rightarrow> ConvertedPayload \<Rightarrow> IPLDs outcome" where
  "filterStateAndStorage geth ipfs stateFilter storageFilter response payload =
     outcome_bind
       (for_range (filterStateStep ipfs stateFilter storageFilter
            (addressKeys geth (sf_Addresses stateFilter)) (addressKeys geth (of_Addresses storageFilter))
            (map (HexToHash geth) (of_StorageKeys storageFilter)) payload)
          0 (cp_StateNodes payload) ([], []))
       (\<lambda>(states, storages). Ok (response\<lparr>ip_StateNodes := states, ip_StorageNodes := storages\<rparr>))"

subsection \<open>The filter\<close>

definition filterBlock ::
    "geth_lib \<Rightarrow> ipfs_lib \<Rightarrow> SubscriptionSettings \<Rightarrow> ConvertedPayload \<Rightarrow> IPLDs outcome" where
  "filterBlock geth ipfs ethFilters ethPayload =
     outcome_bind (filterHeaders geth ipfs (ss_HeaderFilter ethFilters)
         (zero_IPLDs\<lparr>ip_TotalDifficulty := cp_TotalDifficulty ethPayload\<rparr>) ethPayload) (\<lambda>response.
     outcome_bind (filterTransactions geth ipfs (ss_TxFilter ethFilters) response ethPayload)
         (\<lambda>(response, txHashes).
     outcome_bind (filerReceipts geth ipfs (ss_ReceiptFilter ethFilters) response ethPayload
         (if rf_MatchTxs (ss_ReceiptFilter ethFilters) then txHashes else [])) (\<lambda>response.
     outcome_bind (filterStateAndStorage geth ipfs (ss_StateFilter ethFilters)
         (ss_StorageFilter ethFilters) response ethPayload) (\<lambda>response.
       Ok (response\<lparr>ip_BlockNumber := Some (h_Number (b_Header (cp_Block ethPayload)))\<rparr>)))))"

definition eth_Filter :: "geth_lib \<Rightarrow> ipfs_lib \<Rightarrow> Settings \<Rightarrow> Converted \<Rightarrow> Response outcome" where
  "eth_Filter geth ipfs flt payload =
     (case flt of
        BtcSettings _ \<Rightarrow> Err (Errorf ''eth filterer expected filter type %T got %T''
          [''*eth.SubscriptionSettings'', Settings_T flt])
      | EthSettings ethFilters \<Rightarrow>
     (case payload of
        EthConverted ethPayload \<Rightarrow>
          outcome_bind (bigptr_Int64 (ss_Start ethFilters)) (\<lambda>start.
          outcome_bind (bigptr_Int64 (ss_End ethFilters)) (\<lambda>end.
            if checkRange start end (int64_of (h_Number (b_Header (cp_Block ethPayload))))
            then outcome_bind (filterBlock geth ipfs ethFilters ethPayload) (\<lambda>r. Ok (EthResponse r))
            else Ok (EthResponse zero_IPLDs)))
      | _ \<Rightarrow> Err (Errorf ''eth filterer expected payload type %T got %T''
          [''eth.ConvertedPayload'', Converted_T payload])))"

subsection \<open>Lemmas: predicates\<close>

lemma checkRange_iff: "checkRange start end actual \<longleftrightarrow> wanted_height start end actual"
  by (auto simp: checkRange_def wanted_height_def)

lemma checkTransactionAddrs_iff:
  "checkTransactionAddrs ws wd s d \<longleftrightarrow> (ws = [] \<and> wd = []) \<or> s \<in> set ws \<or> d \<in> set wd"
  by (auto simp: checkTransactionAddrs_def list_ex_iff)

lemma slicesShareString_eq: "slicesShareString xs ys = (if set xs \<inter> set ys = {} then 0 else 1)"
  by (auto simp: slicesShareString_def list_ex_iff)

lemma checkNodeKeys_iff: "checkNodeKeys ks k \<longleftrightarrow> ks = [] \<or> k \<in> set ks"
  by (auto simp: checkNodeKeys_def list_ex_iff)

text \<open>Slot \<open>i\<close> of the topic filter accepts a set of topics: it is absent, empty, or shares one.\<close>

definition topic_slot_ok :: "string list list \<Rightarrow> nat \<Rightarrow> string list \<Rightarrow> bool" where
  "topic_slot_ok wanted i actual \<longleftrightarrow>
     (i < length wanted \<longrightarrow> wanted ! i = [] \<or> set actual \<inter> set (wanted ! i) \<noteq> {})"

lemma countMatches_Cons:
  "countMatches w i (a # as) k = countMatches w (i + 1) as (k + (if topic_slot_ok w i a then 1 else 0))"
  by (auto simp: topic_slot_ok_def slicesShareString_eq)

lemma filterMatch_four:
  "filterMatch w [a, b, c, d] \<longleftrightarrow>
     topic_slot_ok w 0 a \<and> topic_slot_ok w 1 b \<and> topic_slot_ok w 2 c \<and> topic_slot_ok w 3 d"
  by (simp add: filterMatch_def countMatches_Cons numeral_2_eq_2 numeral_3_eq_3 del: countMatches.simps(2))

lemma checkReceipts_iff:
  "checkReceipts rct w actual addrs actualAddrs hashes \<longleftrightarrow>
     (w = [] \<and> addrs = [] \<and> hashes = []) \<or> r_TxHash rct \<in> set hashes
     \<or> (filterMatch w actual \<and> (addrs = [] \<or> set addrs \<inter> set actualAddrs \<noteq> {}))"
  by (auto simp: checkReceipts_def list_ex_iff)

subsection \<open>The expected packet\<close>

text \<open>
  What a subscriber should get of a wanted block, as selections from the block: \<open>encH\<close>, \<open>encT\<close>,
  \<open>encR\<close> and \<open>encN\<close> are the packed header, transaction, receipt and trie node.
\<close>

definition tx_wanted :: "TxFilter \<Rightarrow> TxModel \<Rightarrow> bool" where
  "tx_wanted f meta \<longleftrightarrow> \<not> tf_Off f
     \<and> ((tf_Src f = [] \<and> tf_Dst f = []) \<or> tm_Src meta \<in> set (tf_Src f) \<or> tm_Dst meta \<in> set (tf_Dst f))"

definition rct_wanted :: "ReceiptFilter \<Rightarrow> Hash list \<Rightarrow> Receipt \<Rightarrow> ReceiptModel \<Rightarrow> bool" where
  "rct_wanted f hashes rct meta \<longleftrightarrow> \<not> rf_Off f
     \<and> ((rf_Topics f = [] \<and> rf_LogAddresses f = [] \<and> hashes = []) \<or> r_TxHash rct \<in> set hashes
        \<or> (topic_slot_ok (rf_Topics f) 0 (rm_Topic0s meta) \<and> topic_slot_ok (rf_Topics f) 1 (rm_Topic1s meta)
           \<and> topic_slot_ok (rf_Topics f) 2 (rm_Topic2s meta) \<and> topic_slot_ok (rf_Topics f) 3 (rm_Topic3s meta)
           \<and> (rf_LogAddresses f = [] \<or> set (rf_LogAddresses f) \<inter> set (rm_LogContracts meta) \<noteq> {})))"

definition state_wanted :: "geth_lib \<Rightarrow> StateFilter \<Rightarrow> TrieNode \<Rightarrow> bool" where
  "state_wanted geth f n \<longleftrightarrow> \<not> sf_Off f
     \<and> (sf_Addresses f = [] \<or> tn_LeafKey n \<in> set (addressKeys geth (sf_Addresses f)))
     \<and> (tn_Type n = NodeLeaf \<or> sf_IntermediateNodes f)"

definition storage_wanted :: "geth_lib \<Rightarrow> StorageFilter \<Rightarrow> TrieNode \<Rightarrow> TrieNode \<Rightarrow> bool" where
  "storage_wanted geth f n sn \<longleftrightarrow> \<not> of_Off f
     \<and> (of_Addresses f = [] \<or> tn_LeafKey n \<in> set (addressKeys geth (of_Addresses f)))
     \<and> (of_StorageKeys f = [] \<or> tn_LeafKey sn \<in> set (map (HexToHash geth) (of_StorageKeys f)))"

definition wanted_txs :: "SubscriptionSettings \<Rightarrow> ConvertedPayload \<Rightarrow> Transaction list" where
  "wanted_txs s p =
     [tx. (tx, meta) \<leftarrow> zip (b_Transactions (cp_Block p)) (cp_TxMetaData p), tx_wanted (ss_TxFilter s) meta]"

definition matched_hashes :: "geth_lib \<Rightarrow> SubscriptionSettings \<Rightarrow> ConvertedPayload \<Rightarrow> Hash list" where
  "matched_hashes geth s p =
     (if rf_MatchTxs (ss_ReceiptFilter s) then map (Tx_Hash geth) (wanted_txs s p) else [])"

definition expected_packet ::
    "geth_lib \<Rightarrow> (EthHeader \<Rightarrow> BlockModel) \<Rightarrow> (Transaction \<Rightarrow> BlockModel) \<Rightarrow> (Receipt \<Rightarrow> BlockModel)
     \<Rightarrow> (u64 \<Rightarrow> bytes \<Rightarrow> BlockModel) \<Rightarrow> SubscriptionSettings \<Rightarrow> ConvertedPayload \<Rightarrow> IPLDs" where
  "expected_packet geth encH encT encR encN s p = \<lparr>
     ip_BlockNumber = Some (h_Number (b_Header (cp_Block p))),
     ip_TotalDifficulty = cp_TotalDifficulty p,
     ip_Header = (if hf_Off (ss_HeaderFilter s) then empty_BlockModel else encH (b_Header (cp_Block p))),
     ip_Uncles = (if \<not> hf_Off (ss_HeaderFilter s) \<and> hf_Uncles (ss_HeaderFilter s)
                  then map encH (b_Uncles (cp_Block p)) else []),
     ip_Transactions = map encT (wanted_txs s p),
     ip_Receipts = [encR rct. (rct, meta) \<leftarrow> zip (cp_Receipts p) (cp_ReceiptMetaData p),
                      rct_wanted (ss_ReceiptFilter s) (matched_hashes geth s p) rct meta],
     ip_StateNodes = [\<lparr>st_Type = tn_Type n, st_StateLeafKey = tn_LeafKey n, st_Path = tn_Path n,
                        st_IPLD = encN MEthStateTrie (tn_Value n)\<rparr>.
                      n \<leftarrow> cp_StateNodes p, state_wanted geth (ss_StateFilter s) n],
     ip_StorageNodes = [\<lparr>so_Type = tn_Type sn, so_StateLeafKey = tn_LeafKey n,
                          so_StorageLeafKey = tn_LeafKey sn, so_Path = tn_Path sn,
                          so_IPLD = encN MEthStorageTrie (tn_Value sn)\<rparr>.
                        n \<leftarrow> cp_StateNodes p, sn \<leftarrow> storageAt p (tn_Path n),
                        storage_wanted geth (ss_StorageFilter s) n sn]\<rparr>"

text \<open>The metadata slices run in parallel with the block's transactions and receipts.\<close>

definition payload_aligned :: "ConvertedPayload \<Rightarrow> bool" where
  "payload_aligned p \<longleftrightarrow> length (cp_TxMetaData p) = length (b_Transactions (cp_Block p))
     \<and> length (cp_ReceiptMetaData p) = length (cp_Receipts p)"

text \<open>The encoders and the hash library succeed on everything they are given.\<close>

definition encoders_total ::
    "geth_lib \<Rightarrow> ipfs_lib \<Rightarrow> (EthHeader \<Rightarrow> BlockModel) \<Rightarrow> (Transaction \<Rightarrow> BlockModel)
     \<Rightarrow> (Receipt \<Rightarrow> BlockModel) \<Rightarrow> (u64 \<Rightarrow> bytes \<Rightarrow> BlockModel) \<Rightarrow> bool" where
  "encoders_total geth ipfs encH encT encR encN \<longleftrightarrow>
     (\<forall>h. packBlock ipfs MEthHeader KECCAK_256 (rlp_EncodeHeader geth h) = Ok (encH h))
     \<and> (\<forall>t. packBlock ipfs MEthTx KECCAK_256 (Tx_EncodeRLP geth t) = Ok (encT t))
     \<and> (\<forall>r. packBlock ipfs MEthTxReceipt KECCAK_256 (Receipt_EncodeRLP geth r) = Ok (encR r))
     \<and> (\<forall>c v. packBlock ipfs c KECCAK_256 (Ok v) = Ok (encN c v))"

subsection \<open>Lemmas: the stages\<close>

lemma filterTransactions_expected:
  assumes "length (cp_TxMetaData p) = length (b_Transactions (cp_Block p))"
    and "\<forall>t. packBlock ipfs MEthTx KECCAK_256 (Tx_EncodeRLP geth t) = Ok (encT t)"
  shows "filterTransactions geth ipfs (ss_TxFilter s) r p
    = Ok (if tf_Off (ss_TxFilter s) then (r, [])
          else (r\<lparr>ip_Transactions := map encT (wanted_txs s p)\<rparr>, map (Tx_Hash geth) (wanted_txs s p)))"
proof (cases "tf_Off (ss_TxFilter s)")
  case False
  let ?w = "\<lambda>(tx, meta). if tx_wanted (ss_TxFilter s) meta then [tx] else []"
  have "for_range (filterTxStep geth ipfs (ss_TxFilter s) p) 0 (b_Transactions (cp_Block p)) ([], [])
    = Ok (fold (\<lambda>(tx, meta). \<lambda>(a, b). (a @ map encT (?w (tx, meta)), b @ map (Tx_Hash geth) (?w (tx, meta))))
            (zip (b_Transactions (cp_Block p)) (cp_TxMetaData p)) ([], []))"
    using assms False
    by (intro for_range_zip)
       (auto simp: filterTxStep_def checkTransactionAddrs_iff tx_wanted_def split: prod.splits)
  also have "(\<lambda>(tx, meta). \<lambda>(a, b). (a @ map encT (?w (tx, meta)), b @ map (Tx_Hash geth) (?w (tx, meta))))
    = (\<lambda>x (a, b). (a @ map encT (?w x), b @ map (Tx_Hash geth) (?w x)))"
    by (auto simp: fun_eq_iff)
  finally show ?thesis
    using False
    by (simp add: filterTransactions_def fold_append_concat2 wanted_txs_def map_concat comp_def)
qed (simp add: filterTransactions_def)

lemma filerReceipts_expected:
  assumes "length (cp_ReceiptMetaData p) = length (cp_Receipts p)"
    and "\<forall>r. packBlock ipfs MEthTxReceipt KECCAK_256 (Receipt_EncodeRLP geth r) = Ok (encR r)"
  shows "filerReceipts geth ipfs f r p hashes
    = Ok (if rf_Off f then r else r\<lparr>ip_Receipts := [encR rct. (rct, meta) \<leftarrow>
            zip (cp_Receipts p) (cp_ReceiptMetaData p), rct_wanted f hashes rct meta]\<rparr>)"
proof (cases "rf_Off f")
  case False
  let ?w = "\<lambda>(rct, meta). if rct_wanted f hashes rct meta then [encR rct] else []"
  have "for_range (filterRctStep geth ipfs f p hashes) 0 (cp_Receipts p) []
    = Ok (fold (\<lambda>(rct, meta) a. a @ ?w (rct, meta)) (zip (cp_Receipts p) (cp_ReceiptMetaData p)) [])"
    using assms False
    by (intro for_range_zip)
       (auto simp: filterRctStep_def checkReceipts_iff rct_wanted_def metaTopics_def filterMatch_four)
  also have "(\<lambda>(rct, meta) a. a @ ?w (rct, meta)) = (\<lambda>x a. a @ ?w x)"
    by (auto simp: fun_eq_iff)
  finally show ?thesis
    using False by (simp add: filerReceipts_def fold_append_concat)
qed (simp add: filerReceipts_def)

lemma filterStorage_expected:
  assumes "\<forall>c v. packBlock ipfs c KECCAK_256 (Ok v) = Ok (encN c v)"
  shows "for_range (filterStorageStep ipfs keys n) 0 sns acc
    = Ok (acc @ [\<lparr>so_Type = tn_Type sn, so_StateLeafKey = tn_LeafKey n,
                  so_StorageLeafKey = tn_LeafKey sn, so_Path = tn_Path sn,
                  so_IPLD = encN MEthStorageTrie (tn_Value sn)\<rparr>.
                sn \<leftarrow> sns, keys = [] \<or> tn_LeafKey sn \<in> set keys])"
proof -
  have "for_range (filterStorageStep ipfs keys n) i sns acc = Ok (fold (\<lambda>sn acc. acc @
      (if keys = [] \<or> tn_LeafKey sn \<in> set keys
       then [\<lparr>so_Type = tn_Type sn, so_StateLeafKey = tn_LeafKey n,
              so_StorageLeafKey = tn_LeafKey sn, so_Path = tn_Path sn,
              so_IPLD = encN MEthStorageTrie (tn_Value sn)\<rparr>] else [])) sns acc)" for i
    using assms
    by (induction sns arbitrary: i acc) (auto simp: filterStorageStep_def checkNodeKeys_iff)
  then show ?thesis by (simp add: fold_append_concat)
qed

lemma filterStateAndStorage_expected:
  assumes "\<forall>c v. packBlock ipfs c KECCAK_256 (Ok v) = Ok (encN c v)"
  shows "filterStateAndStorage geth ipfs sf sof r p = Ok (r\<lparr>
     ip_StateNodes := [\<lparr>st_Type = tn_Type n, st_StateLeafKey = tn_LeafKey n, st_Path = tn_Path n,
                        st_IPLD = encN MEthStateTrie (tn_Value n)\<rparr>.
                      n \<leftarrow> cp_StateNodes p, state_wanted geth sf n],
     ip_StorageNodes := [\<lparr>so_Type = tn_Type sn, so_StateLeafKey = tn_LeafKey n,
                          so_StorageLeafKey = tn_LeafKey sn, so_Path = tn_Path sn,
                          so_IPLD = encN MEthStorageTrie (tn_Value sn)\<rparr>.
                        n \<leftarrow> cp_StateNodes p, sn \<leftarrow> storageAt p (tn_Path n),
                        storage_wanted geth sof n sn]\<rparr>)"
proof -
  let ?F = "\<lambda>n. if state_wanted geth sf n then [\<lparr>st_Type = tn_Type n, st_StateLeafKey = tn_LeafKey n,
      st_Path = tn_Path n, st_IPLD = encN MEthStateTrie (tn_Value n)\<rparr>] else []"
  let ?G = "\<lambda>n. concat (map (\<lambda>sn. if storage_wanted geth sof n sn then [\<lparr>so_Type = tn_Type sn,
      so_StateLeafKey = tn_LeafKey n, so_StorageLeafKey = tn_LeafKey sn, so_Path = tn_Path sn,
      so_IPLD = encN MEthStorageTrie (tn_Value sn)\<rparr>] else []) (storageAt p (tn_Path n)))"
  let ?step = "filterStateStep ipfs sf sof (addressKeys geth (sf_Addresses sf))
      (addressKeys geth (of_Addresses sof)) (map (HexToHash geth) (of_StorageKeys sof)) p"
  have step: "?step i n acc = Ok (fst acc @ ?F n, snd acc @ ?G n)" for i n acc
    using assms
    by (auto simp: filterStateStep_def filterStorage_expected [OF assms] checkNodeKeys_iff
        state_wanted_def storage_wanted_def addressKeys_def)
  have "for_range ?step i ns acc = Ok (fold (\<lambda>n (a, b). (a @ ?F n, b @ ?G n)) ns acc)" for i ns acc
    by (induction ns arbitrary: i acc) (auto simp: step split: prod.splits)
  then show ?thesis by (simp add: filterStateAndStorage_def fold_append_concat2)
qed

lemma filterHeaders_expected:
  assumes "\<forall>h. packBlock ipfs MEthHeader KECCAK_256 (rlp_EncodeHeader geth h) = Ok (encH h)"
  shows "filterHeaders geth ipfs f r p = Ok (if hf_Off f then r
    else if hf_Uncles f then r\<lparr>ip_Header := encH (b_Header (cp_Block p)),
                              ip_Uncles := map encH (b_Uncles (cp_Block p))\<rparr>
    else r\<lparr>ip_Header := encH (b_Header (cp_Block p))\<rparr>)"
  using assms by (simp add: filterHeaders_def Let_def)

lemma wanted_txs_Off: "tf_Off (ss_TxFilter s) \<Longrightarrow> wanted_txs s p = []"
  by (auto simp: wanted_txs_def tx_wanted_def)

lemma rct_wanted_Off: "rf_Off f \<Longrightarrow> \<not> rct_wanted f hashes rct meta"
  by (simp add: rct_wanted_def)

lemma filterBlock_expected:
  assumes "payload_aligned p" "encoders_total geth ipfs encH encT encR encN"
  shows "filterBlock geth ipfs s p = Ok (expected_packet geth encH encT encR encN s p)"
proof -
  have al: "length (cp_TxMetaData p) = length (b_Transactions (cp_Block p))"
    "length (cp_ReceiptMetaData p) = length (cp_Receipts p)"
    using assms(1) by (simp_all add: payload_aligned_def)
  have enc: "\<forall>h. packBlock ipfs MEthHeader KECCAK_256 (rlp_EncodeHeader geth h) = Ok (encH h)"
    "\<forall>t. packBlock ipfs MEthTx KECCAK_256 (Tx_EncodeRLP geth t) = Ok (encT t)"
    "\<forall>r. packBlock ipfs MEthTxReceipt KECCAK_256 (Receipt_EncodeRLP geth r) = Ok (encR r)"
    "\<forall>c v. packBlock ipfs c KECCAK_256 (Ok v) = Ok (encN c v)"
    using assms(2) by (simp_all add: encoders_total_def)
  show ?thesis
    by (auto simp: filterBlock_def filterHeaders_expected [OF enc(1)]
        filterTransactions_expected [OF al(1) enc(2)] filerReceipts_expected [OF al(2) enc(3)]
        filterStateAndStorage_expected [OF enc(4)] expected_packet_def zero_IPLDs_def
        wanted_txs_Off rct_wanted_Off matched_hashes_def)
qed

text \<open>Whatever the encoders do, a packet that is returned carries the block's number.\<close>

lemma filterBlock_BlockNumber:
  "filterBlock geth ipfs s p = Ok r \<Longrightarrow> ip_BlockNumber r = Some (h_Number (b_Header (cp_Block p)))"
  by (auto simp: filterBlock_def)

lemma eth_Filter_cases:
  assumes "eth_Filter geth ipfs flt payload = Ok resp"
  obtains s p a b r where "flt = EthSettings s" "payload = EthConverted p" "resp = EthResponse r"
    "ss_Start s = Some a" "ss_End s = Some b"
    "if wanted_height (int64_of a) (int64_of b) (ConvertedPayload_Height p)
     then filterBlock geth ipfs s p = Ok r else r = zero_IPLDs"
  using assms
  by (auto simp: eth_Filter_def bigptr_Int64_def checkRange_iff ConvertedPayload_Height_def
      split: Settings.splits Converted.splits option.splits if_splits)

interpretation eth_filterer: response_filterer "eth_Filter geth ipfs" for geth ipfs
proof
  fix s p r h
  assume ok: "eth_Filter geth ipfs s p = Ok r" and h: "Converted_Height p = Ok h"
  { assume "in_range s h"
    with ok h show "Response_Height r = Ok h"
      by (elim eth_Filter_cases)
         (auto simp: in_range_def IPLDs_Height_def ConvertedPayload_Height_def dest: filterBlock_BlockNumber) }
  { assume "\<not> in_range s h"
    with ok h show "Response_Height r = Panic nil_deref"
      by (elim eth_Filter_cases)
         (auto simp: in_range_def IPLDs_Height_def bigptr_Int64_def zero_IPLDs_def nil_deref_def
           split: if_splits) }
next
  fix s p r
  assume "eth_Filter geth ipfs s p = Ok r"
  then show "\<exists>h. Converted_Height p = Ok h" by (elim eth_Filter_cases) simp
qed

subsection \<open>Properties\<close>


definition sample_pack :: "u64 \<Rightarrow> bytes \<Rightarrow> BlockModel" where
  "sample_pack c v = \<lparr>bm_CID = Cid_String sample_ipfs (Cid c (0x1b # v)), bm_Data = v\<rparr>"

lemma sample_encoders_total:
  "encoders_total sample_geth sample_ipfs (\<lambda>h. sample_pack MEthHeader (h_Extra h))
     (\<lambda>t. sample_pack MEthTx (t_Rest t)) (\<lambda>r. sample_pack MEthTxReceipt (r_TxHash r)) sample_pack"
  by (simp add: encoders_total_def packBlock_def RawdataToCid_def sample_geth_def sample_ipfs_def
      sample_pack_def KECCAK_256_def)


text \<open>
  The settings or the payload of another chain, or no payload at all, are refused with the
  type error of the code, before anything is filtered.
\<close>

theorem eth_Filter_type_errors:
  "eth_Filter geth ipfs (BtcSettings bs) payload = Err (Errorf
     ''eth filterer expected filter type %T got %T'' [''*eth.SubscriptionSettings'', ''*btc.SubscriptionSettings''])
   \<and> eth_Filter geth ipfs (EthSettings s) NilConverted = Err (Errorf
     ''eth filterer expected payload type %T got %T'' [''eth.ConvertedPayload'', ''<nil>''])
   \<and> eth_Filter geth ipfs (EthSettings s) (BtcConverted bp) = Err (Errorf
     ''eth filterer expected payload type %T got %T'' [''eth.ConvertedPayload'', ''btc.ConvertedPayload''])"
  by (simp add: eth_Filter_def)

end
