(* ===== verification/Btc_Filterer.thy ===== *)
theory Btc_Filterer
  imports Eth_Filterer
begin

text \<open>
  \<open>btc/filterer.go\<close> and \<open>btc/converter.go\<close>: converting a Bitcoin block payload and filtering it for
  a subscriber. The predicate on transactions is the conjunction of six independent filters.
\<close>

subsection \<open>Filtering\<close>

definition btc_checkRange :: "int \<Rightarrow> int \<Rightarrow> int \<Rightarrow> bool" where
  "btc_checkRange start end actual = (if (end \<le> 0 \<or> end \<ge> actual) \<and> start \<le> actual then True else False)"

definition checkTransaction :: "TxModelWithInsAndOuts \<Rightarrow> BtcTxFilter \<Rightarrow> bool" where
  "checkTransaction txMeta txFilter =
     (let passesSegwitFilter = (\<not> btf_Segwit txFilter \<or> (btf_Segwit txFilter \<and> btm_SegWit txMeta));
          passesMultiSigFilter = (if btf_MultiSig txFilter
            then list_ex (\<lambda>out. to_RequiredSigs out > 1) (btm_TxOutputs txMeta) else True);
          passesWitnessFilter = (length (btf_WitnessHashes txFilter) = 0
            \<or> list_ex (\<lambda>wanted. wanted = btm_WitnessHash txMeta) (btf_WitnessHashes txFilter));
          passesAddressFilter = (length (btf_Addresses txFilter) = 0
            \<or> list_ex (\<lambda>wanted. list_ex (\<lambda>out. list_ex (\<lambda>actual. wanted = actual) (to_Addresses out))
                (btm_TxOutputs txMeta)) (btf_Addresses txFilter));
          passesIndexFilter = (length (btf_Indexes txFilter) = 0
            \<or> list_ex (\<lambda>wanted. wanted = btm_Index txMeta) (btf_Indexes txFilter));
          passesPkScriptClassFilter = (length (btf_PkScriptClasses txFilter) = 0
            \<or> list_ex (\<lambda>wanted. list_ex (\<lambda>out. to_ScriptClass out = wanted) (btm_TxOutputs txMeta))
                (btf_PkScriptClasses txFilter))
      in passesSegwitFilter \<and> passesMultiSigFilter \<and> passesWitnessFilter \<and> passesAddressFilter
         \<and> passesIndexFilter \<and> passesPkScriptClassFilter)"

definition btc_filterHeaders ::
    "btcd_lib \<Rightarrow> ipfs_lib \<Rightarrow> BtcHeaderFilter \<Rightarrow> BtcIPLDs \<Rightarrow> BtcConvertedPayload \<Rightarrow> BtcIPLDs outcome" where
  "btc_filterHeaders btcd ipfs headerFilter response payload =
     (if \<not> bhf_Off headerFilter
      then outcome_bind
        (packBlock ipfs MBitcoinHeader DBL_SHA2_256 (Header_Serialize btcd (bp_Header payload)))
        (\<lambda>header. Ok (response\<lparr>bip_Header := header\<rparr>))
      else Ok response)"

definition btc_filterTxStep ::
    "btcd_lib \<Rightarrow> ipfs_lib \<Rightarrow> BtcTxFilter \<Rightarrow> BtcConvertedPayload \<Rightarrow> nat \<Rightarrow> TxModelWithInsAndOuts
     \<Rightarrow> BlockModel list \<Rightarrow> BlockModel list outcome" where
  "btc_filterTxStep btcd ipfs trxFilter payload i txMeta acc =
     (if checkTransaction txMeta trxFilter
      then outcome_bind (slice_get (bp_Txs payload) i) (\<lambda>tx.
           outcome_bind (packBlock ipfs MBitcoinTx DBL_SHA2_256 (MsgTx_Serialize btcd tx)) (\<lambda>bm.
             Ok (acc @ [bm])))
      else Ok acc)"

definition btc_filterTransactions ::
    "btcd_lib \<Rightarrow> ipfs_lib \<Rightarrow> BtcTxFilter \<Rightarrow> BtcIPLDs \<Rightarrow> BtcConvertedPayload \<Rightarrow> BtcIPLDs outcome" where
  "btc_filterTransactions btcd ipfs trxFilter response payload =
     (if \<not> btf_Off trxFilter
      then outcome_bind (for_range (btc_filterTxStep btcd ipfs trxFilter payload) 0 (bp_TxMetaData payload) [])
        (\<lambda>txs. Ok (response\<lparr>bip_Transactions := txs\<rparr>))
      else Ok response)"

definition btc_filterBlock ::
    "btcd_lib \<Rightarrow> ipfs_lib \<Rightarrow> BtcSubscriptionSettings \<Rightarrow> BtcConvertedPayload \<Rightarrow> BtcIPLDs outcome" where
  "btc_filterBlock btcd ipfs btcFilters btcPayload =
     outcome_bind (btc_filterHeaders btcd ipfs (bss_HeaderFilter btcFilters) zero_BtcIPLDs btcPayload)
       (\<lambda>response.
     outcome_bind (btc_filterTransactions btcd ipfs (bss_TxFilter btcFilters) response btcPayload)
       (\<lambda>response. Ok (response\<lparr>bip_BlockNumber := Some (int64_of (bp_BlockHeight btcPayload))\<rparr>)))"

definition btc_Filter :: "btcd_lib \<Rightarrow> ipfs_lib \<Rightarrow> Settings \<Rightarrow> Converted \<Rightarrow> Response outcome" where
  "btc_Filter btcd ipfs flt payload =
     (case flt of
        EthSettings _ \<Rightarrow> Err (Errorf ''btc filterer expected filter type %T got %T''
          [''*btc.SubscriptionSettings'', Settings_T flt])
      | BtcSettings btcFilters \<Rightarrow>
     (case payload of
        BtcConverted btcPayload \<Rightarrow>
          outcome_bind (bigptr_Int64 (bss_Start btcFilters)) (\<lambda>start.
          outcome_bind (bigptr_Int64 (bss_End btcFilters)) (\<lambda>end.
            if btc_checkRange start end (int64_of (bp_BlockHeight btcPayload))
            then outcome_bind (btc_filterBlock btcd ipfs btcFilters btcPayload) (\<lambda>r. Ok (BtcResponse r))
            else Ok (BtcResponse zero_BtcIPLDs)))
      | _ \<Rightarrow> Err (Errorf ''btc filterer expected payload type %T got %T''
          [''btc.ConvertedPayload'', Converted_T payload])))"

subsection \<open>Converting\<close>

definition convertBytesToHexArray :: "bytes list \<Rightarrow> string list" where
  "convertBytesToHexArray bytea = map hex_EncodeToString bytea"

definition convertTxIn :: "btcd_lib \<Rightarrow> nat \<Rightarrow> BtcTxIn \<Rightarrow> TxInput" where
  "convertTxIn btcd i in1 = \<lparr>ti_ID = 0, ti_TxID = 0, ti_Index = int i,
     ti_TxWitness = convertBytesToHexArray (in_Witness in1),
     ti_SignatureScript = in_SignatureScript in1,
     ti_PreviousOutPointIndex = in_PrevIndex in1,
     ti_PreviousOutPointHash = Chainhash_String btcd (in_PrevHash in1)\<rparr>"

definition convertTxOut :: "btcd_lib \<Rightarrow> nat \<Rightarrow> BtcTxOut \<Rightarrow> TxOutput list \<Rightarrow> TxOutput list outcome" where
  "convertTxOut btcd i out acc =
     (case ExtractPkScriptAddrs btcd (out_PkScript out) of
        ((scriptClass, addresses, numberOfSigs), err) \<Rightarrow>
          (case err of
             Some e \<Rightarrow> if scriptClass \<noteq> NonStandardTy btcd then Err e
               else Ok (acc @ [\<lparr>to_ID = 0, to_TxID = 0, to_Index = int i, to_Value = out_Value out,
                 to_PkScript = out_PkScript out, to_ScriptClass = scriptClass,
                 to_RequiredSigs = int64_of numberOfSigs, to_Addresses = addresses\<rparr>])
           | None \<Rightarrow> Ok (acc @ [\<lparr>to_ID = 0, to_TxID = 0, to_Index = int i, to_Value = out_Value out,
                 to_PkScript = out_PkScript out, to_ScriptClass = scriptClass,
                 to_RequiredSigs = int64_of numberOfSigs, to_Addresses = addresses\<rparr>])))"

definition convertBtcTx ::
    "btcd_lib \<Rightarrow> nat \<Rightarrow> BtcMsgTx \<Rightarrow> TxModelWithInsAndOuts list \<Rightarrow> TxModelWithInsAndOuts list outcome" where
  "convertBtcTx btcd i tx acc =
     outcome_bind (for_range (convertTxOut btcd) 0 (mt_TxOut tx) []) (\<lambda>outs.
       Ok (acc @ [\<lparr>btm_ID = 0, btm_HeaderID = 0, btm_Index = int i,
         btm_TxHash = Chainhash_String btcd (Btc_TxHash btcd tx), btm_CID = '''', btm_MhKey = '''',
         btm_SegWit = Btc_HasWitness btcd tx,
         btm_WitnessHash = (if Btc_HasWitness btcd tx
           then Chainhash_String btcd (Btc_WitnessHash btcd tx) else ''''),
         btm_TxInputs = map (\<lambda>(j, in1). convertTxIn btcd j in1)
           (zip [0 ..< length (mt_TxIn tx)] (mt_TxIn tx)),
         btm_TxOutputs = outs\<rparr>]))"

definition btc_Convert :: "btcd_lib \<Rightarrow> RawData \<Rightarrow> Converted outcome" where
  "btc_Convert btcd payload =
     (case payload of
        EthRaw _ \<Rightarrow> Err (Errorf ''btc converter: expected payload type %T got %T''
          [''btc.BlockPayload'', RawData_T payload])
      | BtcRaw btcBlockPayload \<Rightarrow>
          outcome_bind (for_range (convertBtcTx btcd) 0 (bp_Txs btcBlockPayload) []) (\<lambda>txMeta.
            Ok (BtcConverted \<lparr>bp_BlockHeight = bp_BlockHeight btcBlockPayload,
              bp_Header = bp_Header btcBlockPayload, bp_Txs = bp_Txs btcBlockPayload,
              bp_TxMetaData = txMeta\<rparr>)))"

subsection \<open>Lemmas\<close>

lemma btc_checkRange_iff: "btc_checkRange start end actual \<longleftrightarrow> wanted_height start end actual"
  by (auto simp: btc_checkRange_def wanted_height_def)

definition btc_tx_wanted :: "BtcTxFilter \<Rightarrow> TxModelWithInsAndOuts \<Rightarrow> bool" where
  "btc_tx_wanted f m \<longleftrightarrow> (btf_Segwit f \<longrightarrow> btm_SegWit m)
     \<and> (btf_MultiSig f \<longrightarrow> (\<exists>out\<in>set (btm_TxOutputs m). 1 < to_RequiredSigs out))
     \<and> (btf_WitnessHashes f \<noteq> [] \<longrightarrow> btm_WitnessHash m \<in> set (btf_WitnessHashes f))
     \<and> (btf_Addresses f \<noteq> [] \<longrightarrow>
          (\<exists>out\<in>set (btm_TxOutputs m). set (to_Addresses out) \<inter> set (btf_Addresses f) \<noteq> {}))
     \<and> (btf_Indexes f \<noteq> [] \<longrightarrow> btm_Index m \<in> set (btf_Indexes f))
     \<and> (btf_PkScriptClasses f \<noteq> [] \<longrightarrow>
          (\<exists>out\<in>set (btm_TxOutputs m). to_ScriptClass out \<in> set (btf_PkScriptClasses f)))"

lemma checkTransaction_iff: "checkTransaction m f \<longleftrightarrow> btc_tx_wanted f m"
  unfolding checkTransaction_def btc_tx_wanted_def Let_def list_ex_iff
  by (intro conj_cong refl) auto

definition btc_expected_packet ::
    "(BtcBlockHeader \<Rightarrow> BlockModel) \<Rightarrow> (BtcMsgTx \<Rightarrow> BlockModel) \<Rightarrow> BtcSubscriptionSettings
     \<Rightarrow> BtcConvertedPayload \<Rightarrow> BtcIPLDs" where
  "btc_expected_packet encH encT s p = \<lparr>
     bip_BlockNumber = Some (BtcConvertedPayload_Height p),
     bip_Header = (if bhf_Off (bss_HeaderFilter s) then empty_BlockModel else encH (bp_Header p)),
     bip_Transactions = (if btf_Off (bss_TxFilter s) then []
       else [encT tx. (m, tx) \<leftarrow> zip (bp_TxMetaData p) (bp_Txs p), btc_tx_wanted (bss_TxFilter s) m])\<rparr>"

definition btc_encoders_total ::
    "btcd_lib \<Rightarrow> ipfs_lib \<Rightarrow> (BtcBlockHeader \<Rightarrow> BlockModel) \<Rightarrow> (BtcMsgTx \<Rightarrow> BlockModel) \<Rightarrow> bool" where
  "btc_encoders_total btcd ipfs encH encT \<longleftrightarrow>
     (\<forall>h. packBlock ipfs MBitcoinHeader DBL_SHA2_256 (Header_Serialize btcd h) = Ok (encH h))
     \<and> (\<forall>t. packBlock ipfs MBitcoinTx DBL_SHA2_256 (MsgTx_Serialize btcd t) = Ok (encT t))"

lemma btc_filterTx_loop:
  assumes "length (bp_Txs p) = length (bp_TxMetaData p)"
    and "\<forall>t. packBlock ipfs MBitcoinTx DBL_SHA2_256 (MsgTx_Serialize btcd t) = Ok (encT t)"
  shows "for_range (btc_filterTxStep btcd ipfs f p) 0 (bp_TxMetaData p) []
    = Ok [encT tx. (m, tx) \<leftarrow> zip (bp_TxMetaData p) (bp_Txs p), btc_tx_wanted f m]"
proof -
  let ?w = "\<lambda>(m, tx). if btc_tx_wanted f m then [encT tx] else []"
  have "for_range (btc_filterTxStep btcd ipfs f p) 0 (bp_TxMetaData p) []
    = Ok (fold (\<lambda>(m, tx) a. a @ ?w (m, tx)) (zip (bp_TxMetaData p) (bp_Txs p)) [])"
    using assms by (intro for_range_zip) (auto simp: btc_filterTxStep_def checkTransaction_iff)
  also have "(\<lambda>(m, tx) a. a @ ?w (m, tx)) = (\<lambda>x a. a @ ?w x)"
    by (auto simp: fun_eq_iff)
  finally show ?thesis by (simp add: fold_append_concat)
qed

lemma btc_filterBlock_expected:
  assumes al: "length (bp_Txs p) = length (bp_TxMetaData p)" and "btc_encoders_total btcd ipfs encH encT"
  shows "btc_filterBlock btcd ipfs s p = Ok (btc_expected_packet encH encT s p)"
proof -
  have enc: "\<forall>h. packBlock ipfs MBitcoinHeader DBL_SHA2_256 (Header_Serialize btcd h) = Ok (encH h)"
    "\<forall>t. packBlock ipfs MBitcoinTx DBL_SHA2_256 (MsgTx_Serialize btcd t) = Ok (encT t)"
    using assms(2) by (simp_all add: btc_encoders_total_def)
  show ?thesis
    by (simp add: btc_filterBlock_def btc_filterHeaders_def btc_filterTransactions_def enc(1)
        btc_filterTx_loop [OF al enc(2)] btc_expected_packet_def zero_BtcIPLDs_def
        BtcConvertedPayload_Height_def)
qed

lemma btc_filterBlock_BlockNumber:
  "btc_filterBlock btcd ipfs s p = Ok r \<Longrightarrow> bip_BlockNumber r = Some (BtcConvertedPayload_Height p)"
  by (auto simp: btc_filterBlock_def BtcConvertedPayload_Height_def)

lemma btc_Filter_cases:
  assumes "btc_Filter btcd ipfs flt payload = Ok resp"
  obtains s p a b r where "flt = BtcSettings s" "payload = BtcConverted p" "resp = BtcResponse r"
    "bss_Start s = Some a" "bss_End s = Some b"
    "if wanted_height (int64_of a) (int64_of b) (BtcConvertedPayload_Height p)
     then btc_filterBlock btcd ipfs s p = Ok r else r = zero_BtcIPLDs"
  using assms
  by (auto simp: btc_Filter_def bigptr_Int64_def btc_checkRange_iff BtcConvertedPayload_Height_def
      split: Settings.splits Converted.splits option.splits if_splits)

interpretation btc_filterer: response_filterer "btc_Filter btcd ipfs" for btcd ipfs
proof
  fix s p r h
  assume ok: "btc_Filter btcd ipfs s p = Ok r" and h: "Converted_Height p = Ok h"
  { assume "in_range s h"
    with ok h show "Response_Height r = Ok h"
      by (elim btc_Filter_cases)
         (auto simp: in_range_def BtcIPLDs_Height_def BtcConvertedPayload_Height_def
           dest: btc_filterBlock_BlockNumber) }
  { assume "\<not> in_range s h"
    with ok h show "Response_Height r = Panic nil_deref"
      by (elim btc_Filter_cases)
         (auto simp: in_range_def BtcIPLDs_Height_def bigptr_Int64_def zero_BtcIPLDs_def nil_deref_def
           split: if_splits) }
next
  fix s p r
  assume "btc_Filter btcd ipfs s p = Ok r"
  then show "\<exists>h. Converted_Height p = Ok h" by (elim btc_Filter_cases) simp
qed

lemma convertBtcTx_loop:
  assumes "for_range (convertBtcTx btcd) i txs acc = Ok metas"
  shows "\<exists>new. metas = acc @ new \<and> length new = length txs
    \<and> map btm_Index new = map int [i ..< i + length txs]
    \<and> map btm_TxHash new = map (\<lambda>t. Chainhash_String btcd (Btc_TxHash btcd t)) txs"
  using assms
proof (induction txs arbitrary: i acc)
  case (Cons t txs)
  then obtain b where b: "convertBtcTx btcd i t acc = Ok b"
      "for_range (convertBtcTx btcd) (Suc i) txs b = Ok metas"
    by auto
  from b(1) obtain m where "b = acc @ [m]" "btm_Index m = int i"
      "btm_TxHash m = Chainhash_String btcd (Btc_TxHash btcd t)"
    unfolding convertBtcTx_def by auto
  with Cons.IH [OF b(2)] show ?case
    by (auto simp: upt_conv_Cons simp del: upt_Suc)
qed simp

subsection \<open>Properties\<close>


definition sample_btcd :: btcd_lib where
  "sample_btcd = \<lparr>Header_Serialize = (\<lambda>h. Ok (bh_PrevBlock h)), MsgTx_Serialize = (\<lambda>t. Ok [word_of_int (mt_Version t)]),
     Btc_BlockHash = (\<lambda>h. bh_PrevBlock h), Btc_TxHash = (\<lambda>t. [word_of_int (mt_Version t)]),
     Btc_HasWitness = (\<lambda>t. False), Btc_WitnessHash = (\<lambda>t. []), Chainhash_String = hex_EncodeToString,
     ExtractPkScriptAddrs = (\<lambda>s. ((0, [], 1), None)), NonStandardTy = 0\<rparr>"

definition sample_btc_raw :: "int \<Rightarrow> BlockPayload" where
  "sample_btc_raw h = \<lparr>bp_BlockHeight = h,
     bp_Header = \<lparr>bh_Version = 1, bh_PrevBlock = [2], bh_MerkleRoot = [], bh_Timestamp = 0, bh_Bits = 0, bh_Nonce = 0\<rparr>,
     bp_Txs = [\<lparr>mt_Version = 4, mt_TxIn = [], mt_TxOut = [\<lparr>out_Value = 5, out_PkScript = []\<rparr>], mt_LockTime = 0\<rparr>]\<rparr>"

definition sample_btc_settings :: "int \<Rightarrow> int \<Rightarrow> BtcSubscriptionSettings" where
  "sample_btc_settings a b = \<lparr>bss_BackFill = False, bss_BackFillOnly = False, bss_Start = Some a,
     bss_End = Some b, bss_HeaderFilter = \<lparr>bhf_Off = False\<rparr>,
     bss_TxFilter = \<lparr>btf_Off = False, btf_Segwit = False, btf_WitnessHashes = [], btf_Indexes = [],
       btf_PkScriptClasses = [0], btf_MultiSig = False, btf_Addresses = []\<rparr>\<rparr>"

lemma sample_btc_encoders_total:
  "btc_encoders_total sample_btcd sample_ipfs
     (\<lambda>h. \<lparr>bm_CID = Cid_String sample_ipfs (Cid MBitcoinHeader (0x56 # bh_PrevBlock h)), bm_Data = bh_PrevBlock h\<rparr>)
     (\<lambda>t. \<lparr>bm_CID = Cid_String sample_ipfs (Cid MBitcoinTx [0x56, word_of_int (mt_Version t)]),
           bm_Data = [word_of_int (mt_Version t)]\<rparr>)"
  by (simp add: btc_encoders_total_def packBlock_def RawdataToCid_def sample_btcd_def sample_ipfs_def
      DBL_SHA2_256_def)


end
