(* ===== verification/Watch_Serve.thy ===== *)
theory Watch_Serve
  imports Watch_Service Eth_Filterer Btc_Filterer
begin

text \<open>
  The correctness of the pub-sub side of the watcher: consistency of the two subscription maps in
  every reachable state, what one payload does to the subscription types and to a subscriber's
  channel, unsubscribing, the historical feed, and the two defects of the serving path. The facts
  about the filterer enter through the response filterer contract, interpreted on both chains.
\<close>

subsection \<open>The serving loop\<close>

lemma serve_loop_maps:
  assumes "for_range (serveType sv payload) i xs st = Ok st'" "distinct (map fst xs)"
    and "fst ` set xs \<subseteq> dom (map_of (w_SubscriptionTypes st))"
  shows "map_of (w_Subscriptions st') ty
      = (if ty \<in> fst ` set xs \<and> type_closes sv payload (the (map_of (w_SubscriptionTypes st) ty)) then None
         else map_of (w_Subscriptions st) ty)"
    and "map_of (w_SubscriptionTypes st') ty
      = (if ty \<in> fst ` set xs \<and> type_closes sv payload (the (map_of (w_SubscriptionTypes st) ty)) then None
         else map_of (w_SubscriptionTypes st) ty)"
proof -
  have "map_of (w_Subscriptions st') ty
      = (if ty \<in> fst ` set xs \<and> type_closes sv payload (the (map_of (w_SubscriptionTypes st) ty)) then None
         else map_of (w_Subscriptions st) ty)
    \<and> map_of (w_SubscriptionTypes st') ty
      = (if ty \<in> fst ` set xs \<and> type_closes sv payload (the (map_of (w_SubscriptionTypes st) ty)) then None
         else map_of (w_SubscriptionTypes st) ty)"
    using assms
  proof (induction xs arbitrary: i st)
    case (Cons x xs)
    obtain t subs where x: "x = (t, subs)" by (cases x)
    with Cons.prems obtain a params where
      a: "serveType sv payload i (t, subs) st = Ok a" "for_range (serveType sv payload) (i + 1) xs a = Ok st'"
      and params: "map_of (w_SubscriptionTypes st) t = Some params"
      by auto
    note maps = serveType_maps [OF a(1) params]
    have others: "map_of (w_Subscriptions a) s = map_of (w_Subscriptions st) s"
      "map_of (w_SubscriptionTypes a) s = map_of (w_SubscriptionTypes st) s" if "s \<noteq> t" for s
      using that by (simp_all add: maps)
    have "fst ` set xs \<subseteq> dom (map_of (w_SubscriptionTypes a))"
    proof
      fix s assume s: "s \<in> fst ` set xs"
      then have "s \<noteq> t" "s \<in> dom (map_of (w_SubscriptionTypes st))" using Cons.prems(2,3) x by auto
      then show "s \<in> dom (map_of (w_SubscriptionTypes a))" using others(2) [of s] by (simp add: domIff)
    qed
    from Cons.IH [OF a(2) _ this] Cons.prems(2) show ?case
      using x params others maps by (cases "ty = t") (auto simp: delete_conv' image_iff)
  qed simp
  then show "map_of (w_Subscriptions st') ty
      = (if ty \<in> fst ` set xs \<and> type_closes sv payload (the (map_of (w_SubscriptionTypes st) ty)) then None
         else map_of (w_Subscriptions st) ty)"
    and "map_of (w_SubscriptionTypes st') ty
      = (if ty \<in> fst ` set xs \<and> type_closes sv payload (the (map_of (w_SubscriptionTypes st) ty)) then None
         else map_of (w_SubscriptionTypes st) ty)"
    by simp_all
qed

text \<open>The turn of one type: the loop reaches it with the type's parameters unchanged.\<close>

lemma serve_loop_turn:
  assumes "for_range (serveType sv payload) i (as @ (ty, subs) # bs) st = Ok st'"
    and "distinct (map fst (as @ (ty, subs) # bs))"
    and "fst ` set (as @ (ty, subs) # bs) \<subseteq> dom (map_of (w_SubscriptionTypes st))"
  obtains a b j where "for_range (serveType sv payload) i as st = Ok a"
    "serveType sv payload j (ty, subs) a = Ok b" "for_range (serveType sv payload) (j + 1) bs b = Ok st'"
    "map_of (w_SubscriptionTypes a) ty = map_of (w_SubscriptionTypes st) ty"
proof -
  from assms(1) obtain a b where ab: "for_range (serveType sv payload) i as st = Ok a"
    "serveType sv payload (i + length as) (ty, subs) a = Ok b"
    "for_range (serveType sv payload) (i + length as + 1) bs b = Ok st'"
    by (auto simp: for_range_append)
  have "ty \<notin> fst ` set as" using assms(2) by auto
  with serve_loop_maps(2) [OF ab(1), of ty] assms(2,3)
  have "map_of (w_SubscriptionTypes a) ty = map_of (w_SubscriptionTypes st) ty" by auto
  with ab that show ?thesis by blast
qed

lemma fold_send_other:
  assumes "\<forall>x\<in>set subs. sub_PayloadChan (snd x) \<noteq> c"
  shows "w_payloads (fold (\<lambda>x. send_payload (snd x) p) subs st) c = w_payloads st c"
  using assms by (induction subs arbitrary: st) (auto simp: send_payload_def Let_def)

lemma fold_send_once:
  assumes "distinct (map fst subs)" "(uid, sub) \<in> set subs"
    and "\<forall>x\<in>set subs. sub_PayloadChan (snd x) = sub_PayloadChan sub \<longrightarrow> fst x = uid"
  shows "w_payloads (fold (\<lambda>x. send_payload (snd x) p) subs st) (sub_PayloadChan sub)
    = chan_offer p (w_payloads st (sub_PayloadChan sub))"
proof -
  from assms(2) obtain as bs where subs: "subs = as @ (uid, sub) # bs" by (auto dest: split_list)
  have "\<forall>x\<in>set as. sub_PayloadChan (snd x) \<noteq> sub_PayloadChan sub"
    "\<forall>x\<in>set bs. sub_PayloadChan (snd x) \<noteq> sub_PayloadChan sub"
    using assms(1,3) by (auto simp: subs)
  then show ?thesis
    by (simp add: subs fold_send_other) (simp add: send_payload_def Let_def fold_send_other)
qed

lemma serveType_other_chan:
  assumes "serveType sv payload i (ty, subs) st = Ok st'" "\<forall>x\<in>set subs. sub_PayloadChan (snd x) \<noteq> c"
  shows "w_payloads st' c = w_payloads st c"
proof (cases "map_of (w_SubscriptionTypes st) ty")
  case None
  then show ?thesis using assms(1) by (auto simp: serveType_def closeType_maps)
next
  case (Some params)
  from serveType_cases [OF assms(1) Some] show ?thesis
  proof (elim disjE conjE exE)
    fix F resp rlp assume loop: "for_range (deliver rlp resp) 0 subs st = Ok st'"
    show ?thesis
    proof (cases "subs = []")
      case False
      then show ?thesis using deliver_loop [OF loop] assms(2) fold_send_other by metis
    qed (use loop in simp)
  qed (simp_all add: closeType_maps)
qed

lemma serve_loop_other_chan:
  assumes "for_range (serveType sv payload) i xs st = Ok st'"
    and "\<forall>(ty, subs)\<in>set xs. \<forall>x\<in>set subs. sub_PayloadChan (snd x) \<noteq> c"
  shows "w_payloads st' c = w_payloads st c"
proof (rule for_range_inv [OF assms(1)])
  fix j x a b
  assume "x \<in> set xs" "w_payloads a c = w_payloads st c" "serveType sv payload j x a = Ok b"
  then show "w_payloads b c = w_payloads st c"
    using assms(2) serveType_other_chan [of sv payload j "fst x" "snd x" a b c] by auto
qed simp

lemma serveType_never_Err: "serveType sv payload i x st \<noteq> Err e"
proof -
  have deliv: "for_range (deliver rlp resp) j subs s \<noteq> Err e" for rlp resp j subs s
  proof (induction subs arbitrary: j s)
    case (Cons y subs)
    have "Response_Height resp \<noteq> Err e"
      by (cases resp) (auto simp: IPLDs_Height_def BtcIPLDs_Height_def bigptr_Int64_def split: option.splits)
    with Cons show ?case by (cases "Response_Height resp") (auto simp: deliver_def outcome_bind_Err_iff)
  qed simp
  have "Converted_Height payload \<noteq> Err e" by (cases payload) auto
  then show ?thesis
    using deliv
    by (auto simp: serveType_def bigptr_Int64_def outcome_bind_Err_iff iface_def
        split: prod.split option.split outcome.split if_splits)
qed

lemma filterAndServe_never_Err: "filterAndServe sv payload st \<noteq> Err e"
proof -
  have "for_range (serveType sv payload) i xs s \<noteq> Err e" for i xs s
    by (induction xs arbitrary: i s) (auto simp: outcome_bind_Err_iff serveType_never_Err)
  then show ?thesis by (simp add: filterAndServe_def)
qed

lemma subs_inv_dom:
  assumes "subs_inv sv st"
  shows "distinct (map fst (w_Subscriptions st))"
    "fst ` set (w_Subscriptions st) \<subseteq> dom (map_of (w_SubscriptionTypes st))"
  using assms by (auto simp: subs_inv_def dom_map_of_conv_image_fst)

subsection \<open>What the filterer contract gives the server\<close>

text \<open>
  In a service that runs a filterer satisfying the contract, delivering the packet of a payload
  that the type does not want dereferences nil.
\<close>

context response_filterer
begin

lemma unwanted_turn_fails:
  assumes "sv_Filterer sv = Some Filter" "map_of (w_SubscriptionTypes st) ty = Some params" "subs \<noteq> []"
    and "Converted_Height payload = Ok h" "\<not> in_range params h" "\<not> type_closes sv payload params"
    and "\<forall>r. is_Ok (sv_EncodeResponse sv r)"
  shows "serveType sv payload i (ty, subs) st \<noteq> Ok st'"
proof
  assume ok: "serveType sv payload i (ty, subs) st = Ok st'"
  from serveType_cases [OF ok assms(2)] assms(1,6) obtain resp where
    resp: "Filter params payload = Ok resp"
    and "(\<exists>err. sv_EncodeResponse sv resp = Err err)
      \<or> (\<exists>rlp. for_range (deliver rlp resp) 0 subs st = Ok st')"
    by auto
  with assms(7) obtain rlp where "for_range (deliver rlp resp) 0 subs st = Ok st'"
    by (metis is_Ok.simps(2))
  then obtain k where "Response_Height resp = Ok k" using assms(3) by (rule deliver_loop)
  with unwanted [OF resp assms(4,5)] show False by simp
qed

lemma unwanted_payload_fails:
  assumes inv: "subs_inv sv st" and F: "sv_Filterer sv = Some Filter"
    and ty: "map_of (w_SubscriptionTypes st) ty = Some params"
    and h: "Converted_Height payload = Ok h" "\<not> in_range params h" "\<not> type_closes sv payload params"
    and enc: "\<forall>r. is_Ok (sv_EncodeResponse sv r)"
  shows "\<exists>p. filterAndServe sv payload st = Panic p"
proof (cases "filterAndServe sv payload st")
  case (Ok st')
  have "ty \<in> dom (map_of (w_Subscriptions st))" using inv ty by (simp add: subs_inv_def domI)
  then obtain subs where subs: "map_of (w_Subscriptions st) ty = Some subs" unfolding dom_def by blast
  then have "subs \<noteq> []" using inv by (auto simp: subs_inv_def good_subs_def)
  from subs obtain as bs where xs: "w_Subscriptions st = as @ (ty, subs) # bs"
    by (meson map_of_SomeD split_list)
  from Ok have loop: "for_range (serveType sv payload) 0 (as @ (ty, subs) # bs) st = Ok st'"
    by (simp add: filterAndServe_def xs)
  obtain a b j where turn: "serveType sv payload j (ty, subs) a = Ok b"
    "map_of (w_SubscriptionTypes a) ty = Some params"
    using serve_loop_turn [OF loop] subs_inv_dom [OF inv] ty unfolding xs by metis
  with unwanted_turn_fails [OF F turn(2) \<open>subs \<noteq> []\<close> h enc] show ?thesis by blast
qed (simp_all add: filterAndServe_never_Err)

text \<open>A turn whose type wants the payload, or is closed by it, ends normally.\<close>

lemma deliver_loop_total:
  "Response_Height resp = Ok k \<Longrightarrow> is_Ok (for_range (deliver rlp resp) i subs st)"
  by (induction subs arbitrary: i st) (simp_all add: deliver_def)

lemma wanted_turn_ok:
  assumes "sv_Filterer sv = Some Filter" "map_of (w_SubscriptionTypes st) ty = Some params"
    and "Converted_Height payload = Ok h" "EndingBlock params = Some e"
    and "in_range params h \<or> type_closes sv payload params"
    and "\<forall>p. Filter params payload \<noteq> Panic p" "\<forall>r p. sv_EncodeResponse sv r \<noteq> Panic p"
  shows "is_Ok (serveType sv payload i (ty, subs) st)"
proof (cases "type_closes sv payload params")
  case True
  then show ?thesis
    using assms by (auto simp: serveType_def type_closes_def type_past_def)
next
  case False
  then have "in_range params h" using assms(5) by simp
  from False assms(1,6) obtain resp where resp: "Filter params payload = Ok resp"
    by (cases "Filter params payload") (auto simp: type_closes_def)
  have height: "Response_Height resp = Ok h" by (rule wanted [OF resp assms(3) \<open>in_range params h\<close>])
  have past: "\<not> (0 < int64_of e \<and> int64_of e < h)"
    using False assms(3,4) by (auto simp: type_closes_def type_past_def)
  show ?thesis
    using assms resp past deliver_loop_total [OF height]
    by (cases "sv_EncodeResponse sv resp") (auto simp: serveType_def)
qed

lemma wanted_loop_ok:
  assumes "sv_Filterer sv = Some Filter" "Converted_Height payload = Ok h"
    and "distinct (map fst xs)"
    and "\<forall>r p. sv_EncodeResponse sv r \<noteq> Panic p"
    and "\<forall>ty\<in>fst ` set xs. \<exists>params e. map_of (w_SubscriptionTypes st) ty = Some params
      \<and> EndingBlock params = Some e \<and> (in_range params h \<or> type_closes sv payload params)
      \<and> (\<forall>p. Filter params payload \<noteq> Panic p)"
  shows "is_Ok (for_range (serveType sv payload) i xs st)"
  using assms(3,5)
proof (induction xs arbitrary: i st)
  case (Cons x xs)
  obtain t subs where x: "x = (t, subs)" by (cases x)
  obtain params e where t: "map_of (w_SubscriptionTypes st) t = Some params" "EndingBlock params = Some e"
    "in_range params h \<or> type_closes sv payload params" "\<forall>p. Filter params payload \<noteq> Panic p"
    using Cons.prems(2) x by auto
  obtain a where a: "serveType sv payload i (t, subs) st = Ok a"
    using wanted_turn_ok [OF assms(1) t(1) assms(2) t(2) t(3) t(4) assms(4)] by (auto simp: is_Ok_iff)
  have "map_of (w_SubscriptionTypes a) s = map_of (w_SubscriptionTypes st) s" if "s \<in> fst ` set xs" for s
  proof -
    have "s \<noteq> t" using that Cons.prems(1) x by auto
    then show ?thesis by (simp add: serveType_maps(2) [OF a t(1)])
  qed
  then have "is_Ok (for_range (serveType sv payload) (i + 1) xs a)"
    using Cons.prems by (intro Cons.IH) auto
  then show ?case by (simp add: x a)
qed simp

end

subsection \<open>Running a historical feed\<close>

text \<open>A feed run to its end while the service keeps running.\<close>

function runFeed :: "'cids services \<Rightarrow> feed \<Rightarrow> watch_state \<Rightarrow> watch_state outcome" where
  "runFeed sv fd st =
     (if fd_next fd \<le> fd_end fd
      then (case feedTurn sv fd st of
              Ok (Some fd', st') \<Rightarrow> runFeed sv (fd\<lparr>fd_next := fd_next fd + 1\<rparr>) st'
            | Ok (None, st') \<Rightarrow> Ok st'
            | Err e \<Rightarrow> Err e
            | Panic p \<Rightarrow> Panic p)
      else outcome_bind (feedTurn sv fd st) (\<lambda>(r, st'). Ok st'))"
  by pat_completeness auto
termination
  by (relation "measure (\<lambda>(sv, fd, st). nat (fd_end fd - fd_next fd + 1))") auto

declare runFeed.simps [simp del]

abbreviation complete_packet :: SubscriptionPayload where
  "complete_packet \<equiv> \<lparr>sp_Data = [], sp_Height = 0, sp_Err = '''', sp_Flag = BackFillCompleteFlag\<rparr>"

lemma runFeed_eq:
  assumes "\<not> w_QuitClosed st"
  shows "runFeed sv fd st
    = outcome_bind (for_range (\<lambda>j h. historicalBlock sv (fd_sub fd) (fd_params fd) h) 0
        [fd_next fd .. fd_end fd] st) (\<lambda>st'. Ok (send_payload (fd_sub fd) complete_packet st'))"
proof -
  have idx: "for_range (\<lambda>j h. f h) i xs s = for_range (\<lambda>j h. f h) 0 xs s" for f :: "int \<Rightarrow> watch_state \<Rightarrow> watch_state outcome" and i xs s
    by (induction xs arbitrary: i s) (simp_all, metis outcome_bind.simps outcome.exhaust)
  show ?thesis
    using assms
  proof (induction sv fd st rule: runFeed.induct)
    case (1 sv fd st)
    let ?hb = "\<lambda>h. historicalBlock sv (fd_sub fd) (fd_params fd) h"
    show ?case
    proof (cases "fd_next fd \<le> fd_end fd")
      case False
      then show ?thesis by (subst runFeed.simps) (simp add: feedTurn_def)
    next
      case True
      then have range: "[fd_next fd .. fd_end fd] = fd_next fd # [fd_next fd + 1 .. fd_end fd]"
        by (simp add: upto_rec1)
      show ?thesis
      proof (cases "?hb (fd_next fd) st")
        case (Ok st')
        then have "\<not> w_QuitClosed st'" using historicalBlock_same_maps [OF Ok] "1.prems" by simp
        with "1.IH" [OF True, of "(Some (fd\<lparr>fd_next := fd_next fd + 1\<rparr>), st')"] Ok True "1.prems"
        have "runFeed sv (fd\<lparr>fd_next := fd_next fd + 1\<rparr>) st'
          = outcome_bind (for_range (\<lambda>j h. ?hb h) 0 [fd_next fd + 1 .. fd_end fd] st')
              (\<lambda>st'. Ok (send_payload (fd_sub fd) complete_packet st'))"
          by (simp add: feedTurn_def)
        then show ?thesis
          using Ok True "1.prems" idx [of ?hb 1]
          by (subst runFeed.simps) (simp add: feedTurn_def range)
      qed (use True "1.prems" range in \<open>subst runFeed.simps, simp add: feedTurn_def\<close>)+
    qed
  qed
qed

subsection \<open>A sample service\<close>

text \<open>An Ethereum service over the sample libraries, and the state after one subscription.\<close>

definition sample_service :: "unit services" where
  "sample_service = \<lparr>sv_Filterer = Some (eth_Filter sample_geth sample_ipfs),
     sv_FirstBlock = Some (Ok 2), sv_LastBlock = Some (Ok 4),
     sv_Retrieve = Some (\<lambda>params h. Ok ([], True)), sv_Fetch = Some (\<lambda>c. Ok (EthResponse zero_IPLDs)),
     sv_EncodeSettings = (\<lambda>s. Ok [1]), sv_EncodeResponse = (\<lambda>r. Ok [2]),
     sv_Keccak256Hash = (\<lambda>b. b), sv_errText = (\<lambda>e. ''error''), sv_chain = Ethereum\<rparr>"

definition sample_st0 :: watch_state where
  "sample_st0 = \<lparr>w_Subscriptions = [], w_SubscriptionTypes = [], w_QuitClosed = False, w_feeds = [],
     w_payloads = (\<lambda>c. \<lparr>ch_cap = 2000, ch_buf = []\<rparr>), w_quits = (\<lambda>c. \<lparr>ch_cap = 1, ch_buf = []\<rparr>)\<rparr>"

definition sample_sub :: Subscription where
  "sample_sub = \<lparr>sub_ID = ''a'', sub_PayloadChan = 0, sub_QuitChan = 0\<rparr>"

definition sample_st1 :: watch_state where
  "sample_st1 = sample_st0\<lparr>w_Subscriptions := [([1], [(''a'', sample_sub)])],
     w_SubscriptionTypes := [([1], EthSettings (sample_settings 3 8))]\<rparr>"

lemma sample_subscribe:
  "Subscribe sample_service ''a'' 0 0 (EthSettings (sample_settings 3 8)) sample_st0 = Ok sample_st1"
  by (simp add: Subscribe_def Let_def sample_service_def register_def lookup_subs_def
      sample_st0_def sample_st1_def sample_sub_def)

lemma sample_reachable: "watch_reachable sample_service sample_st1"
proof -
  have "watch_reachable sample_service sample_st0"
    by (rule watch_reachable.init) (simp add: fresh_service_def sample_st0_def)
  then show ?thesis
    by (rule watch_reachable.step) (rule watch_step.subscribe [OF sample_subscribe])
qed

lemma sample_filter:
  "\<exists>r. eth_Filter sample_geth sample_ipfs (EthSettings (sample_settings 3 8)) (EthConverted (sample_payload n))
     = Ok (EthResponse r)"
proof -
  have "payload_aligned (sample_payload n)" by (simp add: payload_aligned_def sample_defs)
  then have "filterBlock sample_geth sample_ipfs (sample_settings 3 8) (sample_payload n)
      = Ok (expected_packet sample_geth (\<lambda>h. sample_pack MEthHeader (h_Extra h))
     (\<lambda>t. sample_pack MEthTx (t_Rest t)) (\<lambda>r. sample_pack MEthTxReceipt (r_TxHash r)) sample_pack
     (sample_settings 3 8) (sample_payload n))"
    by (rule filterBlock_expected [OF _ sample_encoders_total])
  then show ?thesis by (simp add: eth_Filter_def)
qed

subsection \<open>Properties\<close>

text \<open>
  C2. In every state the running service can reach, by any interleaving of subscriptions,
  unsubscriptions, payloads, feed turns, relays and stops, the two subscription maps have the
  same types; every type has at least one subscriber, filed under its own id; and the settings
  stored for a type are for the service's chain and hash to that type.
\<close>

theorem subscription_maps_consistent:
  assumes "watch_reachable sv st"
  shows "dom (map_of (w_Subscriptions st)) = dom (map_of (w_SubscriptionTypes st))
    \<and> (\<forall>ty subs. map_of (w_Subscriptions st) ty = Some subs \<longrightarrow>
         subs \<noteq> [] \<and> (\<forall>uid sub. map_of subs uid = Some sub \<longrightarrow> sub_ID sub = uid))
    \<and> (\<forall>ty params. map_of (w_SubscriptionTypes st) ty = Some params \<longrightarrow>
         Settings_ChainType params = sv_chain sv
         \<and> (\<exists>by. sv_EncodeSettings sv params = Ok by \<and> sv_Keccak256Hash sv by = ty))"
  using subs_inv_reachable [OF assms] by (simp add: subs_inv_def good_subs_def good_params_def)

theorem subscription_maps_consistent_witness:
  "dom (map_of (w_Subscriptions sample_st1)) = dom (map_of (w_SubscriptionTypes sample_st1))
   \<and> map_of (w_Subscriptions sample_st1) [1] = Some [(''a'', sample_sub)]"
  using subscription_maps_consistent [OF sample_reachable] by (simp add: sample_st1_def)

text \<open>
  C8. Serving a payload in a reachable state, when it ends normally, closes exactly the types
  whose end lies below the payload's height or whose filter fails, in both maps, and leaves every
  other type with its subscribers and settings as they were.
\<close>

theorem filterAndServe_closes:
  assumes "watch_reachable sv st" "filterAndServe sv payload st = Ok st'"
  shows "map_of (w_Subscriptions st') ty
      = (case map_of (w_SubscriptionTypes st) ty of None \<Rightarrow> None
         | Some params \<Rightarrow> if type_closes sv payload params then None else map_of (w_Subscriptions st) ty)
    \<and> map_of (w_SubscriptionTypes st') ty
      = (case map_of (w_SubscriptionTypes st) ty of None \<Rightarrow> None
         | Some params \<Rightarrow> if type_closes sv payload params then None else Some params)"
proof -
  have inv: "subs_inv sv st" by (rule subs_inv_reachable [OF assms(1)])
  note loop = serve_loop_maps [OF assms(2) [unfolded filterAndServe_def] subs_inv_dom [OF inv], of ty]
  have "dom (map_of (w_Subscriptions st)) = dom (map_of (w_SubscriptionTypes st))"
    using inv by (simp add: subs_inv_def)
  then have "ty \<in> fst ` set (w_Subscriptions st) \<longleftrightarrow> map_of (w_SubscriptionTypes st) ty \<noteq> None"
    "map_of (w_Subscriptions st) ty = None \<longleftrightarrow> map_of (w_SubscriptionTypes st) ty = None"
    by (auto simp: dom_map_of_conv_image_fst [symmetric] domIff)
  with loop show ?thesis by (auto split: option.splits)
qed

theorem filterAndServe_closes_witness:
  "\<exists>st'. filterAndServe sample_service (EthConverted (sample_payload 9)) sample_st1 = Ok st'
     \<and> map_of (w_Subscriptions st') [1] = None"
proof -
  have past: "type_past (EthConverted (sample_payload 9)) (EthSettings (sample_settings 3 8))"
    by (simp add: type_past_def)
  have "\<exists>st'. filterAndServe sample_service (EthConverted (sample_payload 9)) sample_st1 = Ok st'"
    by (simp add: filterAndServe_def serveType_def sample_st1_def)
  then obtain st' where st': "filterAndServe sample_service (EthConverted (sample_payload 9)) sample_st1 = Ok st'"
    by blast
  from filterAndServe_closes [OF sample_reachable st', of "[1]"] past st' show ?thesis
    by (auto simp: sample_st1_def type_closes_def)
qed

text \<open>
  C9. A subscriber who is the only one on a payload channel gets, of a payload that its type
  wants, exactly one packet offered on that channel: the encoded filter response with the
  response's height. (A full channel drops the packet; nothing else is written to it.)
\<close>

theorem filterAndServe_delivers:
  assumes "watch_reachable sv st" "filterAndServe sv payload st = Ok st'"
    and sub: "map_of (w_Subscriptions st) ty = Some subs" "map_of subs uid = Some sub"
    and params: "map_of (w_SubscriptionTypes st) ty = Some params" "\<not> type_closes sv payload params"
    and resp: "sv_Filterer sv = Some F" "F params payload = Ok resp" "sv_EncodeResponse sv resp = Ok rlp"
    and sole: "\<And>ty' subs' uid' sub'. map_of (w_Subscriptions st) ty' = Some subs' \<Longrightarrow>
      map_of subs' uid' = Some sub' \<Longrightarrow> sub_PayloadChan sub' = sub_PayloadChan sub \<Longrightarrow> ty' = ty \<and> uid' = uid"
  shows "\<exists>h. Response_Height resp = Ok h \<and> w_payloads st' (sub_PayloadChan sub)
    = chan_offer (data_packet rlp h) (w_payloads st (sub_PayloadChan sub))"
proof -
  let ?c = "sub_PayloadChan sub"
  have inv: "subs_inv sv st" by (rule subs_inv_reachable [OF assms(1)])
  from sub(1) obtain as bs where xs: "w_Subscriptions st = as @ (ty, subs) # bs"
    by (meson map_of_SomeD split_list)
  have dist: "distinct (map fst (as @ (ty, subs) # bs))" using subs_inv_dom(1) [OF inv] by (simp add: xs)
  have inner: "map_of (w_Subscriptions st) t = Some s \<and> distinct (map fst s)"
    if "(t, s) \<in> set (w_Subscriptions st)" for t s
    using that inv subs_inv_dom(1) [OF inv] by (auto simp: subs_inv_def good_subs_def)
  have other: "\<forall>(t, s)\<in>set as \<union> set bs. \<forall>x\<in>set s. sub_PayloadChan (snd x) \<noteq> ?c"
  proof (intro ballI, clarify)
    fix t s u v assume *: "(t, s) \<in> set as \<union> set bs" "(u, v) \<in> set s"
      "sub_PayloadChan (snd (u, v)) = ?c"
    then have "map_of (w_Subscriptions st) t = Some s" "map_of s u = Some v"
      using inner [of t s] by (auto simp: xs)
    with sole * have "t = ty" by simp
    with * dist show False by (force simp: image_iff)
  qed
  from assms(2) have loop: "for_range (serveType sv payload) 0 (as @ (ty, subs) # bs) st = Ok st'"
    by (simp add: filterAndServe_def xs)
  obtain a b j where turn: "for_range (serveType sv payload) 0 as st = Ok a"
    "serveType sv payload j (ty, subs) a = Ok b" "for_range (serveType sv payload) (j + 1) bs b = Ok st'"
    "map_of (w_SubscriptionTypes a) ty = Some params"
    using serve_loop_turn [OF loop] dist subs_inv_dom(2) [OF inv] params(1) unfolding xs by metis
  have before: "w_payloads a ?c = w_payloads st ?c" and after: "w_payloads st' ?c = w_payloads b ?c"
    using serve_loop_other_chan [OF turn(1), of ?c] serve_loop_other_chan [OF turn(3), of ?c] other by auto
  from serveType_cases [OF turn(2,4)] params(2) resp
  have dl: "for_range (deliver rlp resp) 0 subs a = Ok b" by auto
  have mem: "(uid, sub) \<in> set subs" using sub(2) by (rule map_of_SomeD)
  then have "subs \<noteq> []" by auto
  then obtain h where h: "Response_Height resp = Ok h"
    "b = fold (\<lambda>x. send_payload (snd x) (data_packet rlp h)) subs a"
    using deliver_loop [OF dl] by blast
  have "distinct (map fst subs)" using inner [of ty subs] by (simp add: xs)
  moreover have "\<forall>x\<in>set subs. sub_PayloadChan (snd x) = ?c \<longrightarrow> fst x = uid"
    using sole [OF sub(1)] \<open>distinct (map fst subs)\<close> by (auto simp: map_of_eq_Some_iff)
  ultimately have "w_payloads b ?c = chan_offer (data_packet rlp h) (w_payloads a ?c)"
    using fold_send_once [OF _ mem] h(2) by blast
  with h(1) before after show ?thesis by simp
qed

theorem filterAndServe_delivers_witness:
  "\<exists>st' h. filterAndServe sample_service (EthConverted (sample_payload 5)) sample_st1 = Ok st'
     \<and> w_payloads st' 0 = chan_offer (data_packet [2] h) (w_payloads sample_st1 0)"
proof -
  let ?s = "EthSettings (sample_settings 3 8)" and ?p = "EthConverted (sample_payload 5)"
  from sample_filter [of 5] obtain r where
    r: "eth_Filter sample_geth sample_ipfs ?s ?p = Ok (EthResponse r)" by blast
  have range: "in_range ?s 5" "Converted_Height ?p = Ok 5"
    by (simp_all add: in_range_def wanted_height_def)
  have F: "sv_Filterer sample_service = Some (eth_Filter sample_geth sample_ipfs)"
    by (simp add: sample_service_def)
  have closes: "\<not> type_closes sample_service ?p ?s"
    using r by (simp add: type_closes_def F type_past_def range)
  have "is_Ok (for_range (serveType sample_service ?p) 0 (w_Subscriptions sample_st1) sample_st1)"
    using range(1) r
    by (intro eth_filterer.wanted_loop_ok [OF F range(2)])
       (simp_all add: sample_st1_def sample_service_def)
  then obtain st' where st': "filterAndServe sample_service ?p sample_st1 = Ok st'"
    by (auto simp: is_Ok_iff filterAndServe_def)
  have "\<exists>h. Response_Height (EthResponse r) = Ok h \<and> w_payloads st' (sub_PayloadChan sample_sub)
    = chan_offer (data_packet [2] h) (w_payloads sample_st1 (sub_PayloadChan sample_sub))"
    by (rule filterAndServe_delivers [OF sample_reachable st', of "[1]" "[(''a'', sample_sub)]" "''a''"
          sample_sub ?s "eth_Filter sample_geth sample_ipfs"])
       (use r closes F in \<open>auto simp: sample_st1_def sample_service_def split: if_splits\<close>)
  with st' show ?thesis by (auto simp: sample_sub_def)
qed



text \<open>
  A payload below the starting block of any registered subscription crashes the watcher:
  the filterer answers it with the zero packet and no error, and reading the height of that packet
  for the subscriber dereferences nil.
\<close>

theorem filterAndServe_crashes_below_start:
  assumes "watch_reachable sv st" "sv_Filterer sv = Some (eth_Filter geth ipfs)"
    and "map_of (w_SubscriptionTypes st) ty = Some params"
    and "StartingBlock params = Some a" "Converted_Height payload = Ok h" "h < int64_of a"
    and "\<not> type_closes sv payload params" "\<And>r. is_Ok (sv_EncodeResponse sv r)"
  shows "\<exists>p. filterAndServe sv payload st = Panic p"
proof (rule eth_filterer.unwanted_payload_fails [OF subs_inv_reachable [OF assms(1)] assms(2,3,5)])
  show "\<not> in_range params h" using assms(4,6) by (auto simp: in_range_def wanted_height_def)
  show "\<not> type_closes sv payload params" by (rule assms(7))
  show "\<forall>r. is_Ok (sv_EncodeResponse sv r)" using assms(8) by blast
qed

theorem filterAndServe_crashes_below_start_witness:
  "\<exists>p. filterAndServe sample_service (EthConverted (sample_payload 2)) sample_st1 = Panic p"
proof (rule filterAndServe_crashes_below_start [OF sample_reachable])
  show "sv_Filterer sample_service = Some (eth_Filter sample_geth sample_ipfs)"
    "map_of (w_SubscriptionTypes sample_st1) [1] = Some (EthSettings (sample_settings 3 8))"
    "StartingBlock (EthSettings (sample_settings 3 8)) = Some 3"
    "Converted_Height (EthConverted (sample_payload 2)) = Ok 2" "2 < int64_of 3"
    "is_Ok (sv_EncodeResponse sample_service r)" for r
    by (simp_all add: sample_service_def sample_st1_def)
  show "\<not> type_closes sample_service (EthConverted (sample_payload 2)) (EthSettings (sample_settings 3 8))"
    using sample_filter [of 2] by (auto simp: type_closes_def type_past_def sample_service_def)
qed

text \<open>
  Unsubscribing removes the id from every subscription type, keeps all other subscribers,
  and drops exactly the types that had no other subscriber.
\<close>

theorem Unsubscribe_removes:
  assumes "watch_reachable sv st"
  shows "map_of (w_Subscriptions (Unsubscribe uid st)) ty
    = (case map_of (w_Subscriptions st) ty of None \<Rightarrow> None
       | Some subs \<Rightarrow> if dom (map_of subs) = {uid} then None else Some (AList.delete uid subs))"
proof -
  have inv: "subs_inv sv st" by (rule subs_inv_reachable [OF assms])
  note fold = unsubscribe_fold [OF subs_inv_dom(1) [OF inv], of uid st ty]
  show ?thesis
  proof (cases "map_of (w_Subscriptions st) ty")
    case None
    then have "ty \<notin> fst ` set (w_Subscriptions st)" by (simp add: map_of_eq_None_iff)
    with None fold show ?thesis by (simp add: Unsubscribe_def)
  next
    case (Some subs)
    then have "ty \<in> fst ` set (w_Subscriptions st)" by (force dest: map_of_SomeD)
    moreover have "good_subs subs" using inv Some by (simp add: subs_inv_def)
    then have "AList.delete uid subs = [] \<longleftrightarrow> dom (map_of subs) = {uid}"
      by (cases subs) (auto simp: good_subs_def AList.delete_eq filter_empty_conv dom_map_of_conv_image_fst)
    ultimately show ?thesis using Some fold by (simp add: Unsubscribe_def lookup_subs_def Let_def)
  qed
qed

theorem Unsubscribe_removes_witness:
  "map_of (w_Subscriptions (Unsubscribe ''a'' sample_st1)) [1] = None"
  using Unsubscribe_removes [OF sample_reachable, of "''a''" "[1]"] by (simp add: sample_st1_def)

text \<open>
  When the historical data of a new subscriber cannot be looked up, \<open>Subscribe\<close> sends the
  error and the quit token but leaves the subscriber registered under its type: the quit signal
  is not preceded by an unsubscription.
\<close>

theorem Subscribe_failure_keeps_registration:
  assumes "Settings_ChainType params = sv_chain sv" "sv_EncodeSettings sv params = Ok by"
    and "HistoricalData params" "\<not> HistoricalDataOnly params" "historicalRange sv params = Err e"
  shows "\<exists>st' subs. Subscribe sv uid p q params st = Ok st'
    \<and> w_quits st' q = chan_offer True (w_quits st q)
    \<and> map_of (w_Subscriptions st') (sv_Keccak256Hash sv by) = Some subs
    \<and> map_of subs uid = Some \<lparr>sub_ID = uid, sub_PayloadChan = p, sub_QuitChan = q\<rparr>"
  using assms
  by (simp add: Subscribe_def Let_def sendHistoricalData_def register_maps update_conv'
      sendNonBlockingQuit_def) (simp add: register_def)

definition sample_empty_service :: "unit services" where
  "sample_empty_service = sample_service\<lparr>sv_FirstBlock := Some (Err (Errorf ''sql: no rows in result set'' []))\<rparr>"

theorem Subscribe_failure_keeps_registration_witness:
  "\<exists>st' subs. Subscribe sample_empty_service ''b'' 1 1 (EthSettings ((sample_settings 3 8)\<lparr>ss_BackFill := True\<rparr>)) sample_st0 = Ok st'
    \<and> ch_buf (w_quits st' 1) = [True] \<and> map_of (w_Subscriptions st') [1] = Some subs
    \<and> map_of subs ''b'' = Some \<lparr>sub_ID = ''b'', sub_PayloadChan = 1, sub_QuitChan = 1\<rparr>"
proof -
  let ?ps = "EthSettings ((sample_settings 3 8)\<lparr>ss_BackFill := True\<rparr>)"
  have h: "historicalRange sample_empty_service ?ps = Err (Errorf ''sql: no rows in result set'' [])"
    by (simp add: historicalRange_def sample_empty_service_def sample_service_def)
  have s: "Settings_ChainType ?ps = sv_chain sample_empty_service"
    "sv_EncodeSettings sample_empty_service ?ps = Ok [1]" "HistoricalData ?ps" "\<not> HistoricalDataOnly ?ps"
    by (simp_all add: sample_empty_service_def sample_service_def)
  from Subscribe_failure_keeps_registration [OF s h, of "''b''" 1 1 sample_st0] show ?thesis
    by (auto simp: sample_empty_service_def sample_service_def sample_st0_def chan_offer_def)
qed

text \<open>
  The historical range starts at the later of the first indexed block and the requested
  start. It ends at the requested end only when that end is positive, below the last indexed
  block and strictly above the start; otherwise it runs to the last indexed block, so a request
  for a single indexed block (end equal to start) is answered with everything up to the head.
\<close>

theorem historicalRange_spec:
  assumes "sv_FirstBlock sv = Some (Ok first)" "sv_LastBlock sv = Some (Ok lst)"
    and "StartingBlock params = Some s" "EndingBlock params = Some e"
  shows "historicalRange sv params = Ok (max first (int64_of s),
    if 0 < int64_of e \<and> int64_of e < lst \<and> max first (int64_of s) < int64_of e then int64_of e else lst)"
  using assms by (auto simp: historicalRange_def Let_def)

theorem historicalRange_spec_witness:
  "historicalRange sample_service (EthSettings (sample_settings 3 3)) = Ok (3, 4)"
proof -
  have "sv_FirstBlock sample_service = Some (Ok 2)" "sv_LastBlock sample_service = Some (Ok 4)"
    by (simp_all add: sample_service_def)
  from historicalRange_spec [OF this, of "EthSettings (sample_settings 3 3)" 3 3] show ?thesis by simp
qed

text \<open>
  A historical feed that is left to run handles every height from its start to its end, in
  increasing order and each once, then offers the completion notice on the subscriber's channel
  and ends.
\<close>

theorem runFeed_in_order:
  assumes "\<not> w_QuitClosed st"
  shows "runFeed sv fd st
    = outcome_bind (for_range (\<lambda>j h. historicalBlock sv (fd_sub fd) (fd_params fd) h) 0
        [fd_next fd .. fd_end fd] st) (\<lambda>st'. Ok (send_payload (fd_sub fd)
          \<lparr>sp_Data = [], sp_Height = 0, sp_Err = '''', sp_Flag = BackFillCompleteFlag\<rparr> st'))"
  by (rule runFeed_eq [OF assms])

theorem runFeed_in_order_witness:
  "\<exists>st'. runFeed sample_service \<lparr>fd_sub = sample_sub, fd_params = EthSettings (sample_settings 3 8), fd_next = 2, fd_end = 4\<rparr>
     sample_st1 = Ok st' \<and> map sp_Flag (ch_buf (w_payloads st' 0)) = [BackFillCompleteFlag]"
proof -
  let ?fd = "\<lparr>fd_sub = sample_sub, fd_params = EthSettings (sample_settings 3 8), fd_next = 2, fd_end = 4\<rparr>"
  have q: "\<not> w_QuitClosed sample_st1" by (simp add: sample_st1_def sample_st0_def)
  have r: "[2 .. 4] = [2, 3, 4::int]" by (simp add: upto_rec1)
  from runFeed_in_order [OF q, of sample_service ?fd] show ?thesis
    by (simp add: r historicalBlock_def sample_service_def send_payload_def sample_sub_def
        sample_st1_def sample_st0_def chan_offer_def)
qed

end
