(* ===== verification/Backfill.thy ===== *)
theory Backfill
  imports Worker_Pool Watch_Serve
begin

text \<open>
  \<open>historical/service.go\<close> and \<open>resync/service.go\<close>: one back-fill pass (find the gaps, split them into
  bins, let the worker pool fetch, convert, serve, publish and index every payload) and the resync
  run (reset validation, clean, then the same pool over the configured ranges). The database is a
  type parameter; the retriever, fetcher, converter, publisher, indexer and cleaner are the
  interface values of the service structs.
\<close>

record ('cids, 'db) pipeline =
  pp_Gaps :: "int \<Rightarrow> 'db \<Rightarrow> Gap list outcome"
  pp_FetchAt :: "u64 list \<Rightarrow> RawData list \<times> go_error option"
  pp_Convert :: "RawData \<Rightarrow> Converted outcome"
  pp_Publish :: "Converted \<Rightarrow> 'db \<Rightarrow> 'cids outcome \<times> 'db"
  pp_Index :: "'cids option \<Rightarrow> 'db \<Rightarrow> unit outcome \<times> 'db"
  pp_Clean :: "(u64 \<times> u64) list \<Rightarrow> DataType \<Rightarrow> 'db \<Rightarrow> unit outcome \<times> 'db"
  pp_ResetValidation :: "(u64 \<times> u64) list \<Rightarrow> 'db \<Rightarrow> unit outcome \<times> 'db"

subsection \<open>Service settings\<close>

text \<open>The defaults that both constructors apply to the configured batch size and number.\<close>

definition effectiveBatchSize :: "u64 \<Rightarrow> u64" where
  "effectiveBatchSize batchSize = (if batchSize = 0 then DefaultMaxBatchSize else batchSize)"

definition effectiveBatchNumber :: "u64 \<Rightarrow> int" where
  "effectiveBatchNumber batchNumber =
     (let n = int64_of (uint batchNumber) in if n = 0 then DefaultMaxBatchNumber else n)"

subsection \<open>Back-fill\<close>

text \<open>The bins of one search pass; a gap whose bins cannot be computed is logged and skipped.\<close>

definition requestBins :: "u64 \<Rightarrow> Gap list \<Rightarrow> u64 list list" where
  "requestBins batchSize gaps =
     concat (map (\<lambda>gap. case GetBlockHeightBins (gap_Start gap) (gap_Stop gap) batchSize of
                          Ok bins \<Rightarrow> bins | _ \<Rightarrow> []) gaps)"

text \<open>
  What a worker does with one payload. A conversion error is logged, but the nil payload is still
  forwarded to the server and to the publisher.
\<close>

definition backFillItem ::
    "('cids, 'db) pipeline \<Rightarrow> RawData \<Rightarrow> 'db \<times> Converted chan \<Rightarrow> ('db \<times> Converted chan) outcome" where
  "backFillItem pp payload s =
     (case pp_Convert pp payload of
        Panic p \<Rightarrow> Panic p
      | r \<Rightarrow>
          let ipldPayload = (case r of Ok c \<Rightarrow> c | _ \<Rightarrow> NilConverted);
              screen = chan_offer ipldPayload (snd s)
          in case pp_Publish pp ipldPayload (fst s) of
               (Panic p, db) \<Rightarrow> Panic p
             | (Err err, db) \<Rightarrow> Ok (db, screen)
             | (Ok cids, db) \<Rightarrow>
                 (case pp_Index pp (Some cids) db of
                    (Panic p, db') \<Rightarrow> Panic p
                  | (_, db') \<Rightarrow> Ok (db', screen)))"

text \<open>
  A tick of the back-fill loop: nothing on a retriever error, otherwise a complete run of the
  worker pool over the bins of the gaps.
\<close>

definition backFillTick ::
    "('cids, 'db) pipeline \<Rightarrow> u64 \<Rightarrow> int \<Rightarrow> int \<Rightarrow> 'db \<times> Converted chan \<Rightarrow> 'db \<times> Converted chan \<Rightarrow> bool" where
  "backFillTick pp batchSize batchNumber validationLevel s s' \<longleftrightarrow>
     (case pp_Gaps pp validationLevel (fst s) of
        Panic p \<Rightarrow> False
      | Err err \<Rightarrow> s' = s
      | Ok gaps \<Rightarrow>
          \<exists>q. pool_runs (\<lambda>hs. fst (pp_FetchAt pp hs)) (backFillItem pp)
                (pool_start (requestBins batchSize gaps) (nat batchNumber) s) q
              \<and> pool_over q \<and> s' = pl_state q)"

subsection \<open>Resync\<close>

record resync_config =
  rc_BatchSize :: u64
  rc_BatchNumber :: int
  rc_chain :: ChainType
  rc_data :: DataType
  rc_ranges :: "(u64 \<times> u64) list"
  rc_clearOldCache :: bool
  rc_resetValidation :: bool

text \<open>
  The ranges loop: the bins handed out, and the error that ends it, if any. An inverted range is
  logged and skipped.
\<close>

fun resyncBins :: "u64 \<Rightarrow> (u64 \<times> u64) list \<Rightarrow> u64 list list \<times> go_error option" where
  "resyncBins batchSize [] = ([], None)"
| "resyncBins batchSize (rng # rngs) =
     (if snd rng < fst rng then resyncBins batchSize rngs
      else case GetBlockHeightBins (fst rng) (snd rng) batchSize of
             Ok bins \<Rightarrow> (let (rest, err) = resyncBins batchSize rngs in (bins @ rest, err))
           | Err e \<Rightarrow> ([], Some e)
           | Panic p \<Rightarrow> ([], None))"

text \<open>Resetting and cleaning come first, and an error of either ends the run.\<close>

definition resyncPrepare :: "('cids, 'db) pipeline \<Rightarrow> resync_config \<Rightarrow> 'db \<Rightarrow> unit outcome \<times> 'db" where
  "resyncPrepare pp rs db =
     (let (r1, db1) = (if rc_resetValidation rs then pp_ResetValidation pp (rc_ranges rs) db else (Ok (), db)) in
      case r1 of
        Err e \<Rightarrow> (Err (Wrapf ''validation reset failed: %v'' [] e), db1)
      | Panic p \<Rightarrow> (Panic p, db1)
      | Ok _ \<Rightarrow>
          (let (r2, db2) = (if rc_clearOldCache rs then pp_Clean pp (rc_ranges rs) (rc_data rs) db1 else (Ok (), db1)) in
           case r2 of
             Err e \<Rightarrow> (Err (Wrapf ''%s %s data resync cleaning error: %v''
               [ChainType_String (rc_chain rs), DataType_String (rc_data rs)] e), db2)
           | _ \<Rightarrow> (r2, db2)))"

text \<open>
  A resync worker's handling of one payload: neither a conversion nor a publishing error stops
  it from calling the next stage with nil.
\<close>

definition resyncItem :: "('cids, 'db) pipeline \<Rightarrow> RawData \<Rightarrow> 'db \<Rightarrow> 'db outcome" where
  "resyncItem pp payload db =
     (case pp_Convert pp payload of
        Panic p \<Rightarrow> Panic p
      | r \<Rightarrow>
          let ipldPayload = (case r of Ok c \<Rightarrow> c | _ \<Rightarrow> NilConverted) in
          case pp_Publish pp ipldPayload db of
            (Panic p, db1) \<Rightarrow> Panic p
          | (r1, db1) \<Rightarrow>
              (case pp_Index pp (case r1 of Ok cids \<Rightarrow> Some cids | _ \<Rightarrow> None) db1 of
                 (Panic p, db2) \<Rightarrow> Panic p
               | (_, db2) \<Rightarrow> Ok db2))"

definition Resync ::
    "('cids, 'db) pipeline \<Rightarrow> resync_config \<Rightarrow> 'db \<Rightarrow> unit outcome \<Rightarrow> 'db \<Rightarrow> bool" where
  "Resync pp rs db res db' \<longleftrightarrow>
     (case resyncPrepare pp rs db of
        (Ok _, db1) \<Rightarrow>
          (case resyncBins (rc_BatchSize rs) (rc_ranges rs) of
             (bins, None) \<Rightarrow>
               \<exists>q. pool_runs (\<lambda>hs. fst (pp_FetchAt pp hs)) (resyncItem pp)
                     (pool_start bins (nat (rc_BatchNumber rs)) db1) q
                   \<and> pool_over q \<and> res = Ok () \<and> db' = pl_state q
           | (bins, Some e) \<Rightarrow>
               \<exists>q. pool_runs (\<lambda>hs. fst (pp_FetchAt pp hs)) (resyncItem pp)
                     (pool_start bins (nat (rc_BatchNumber rs)) db1) q
                   \<and> pl_pending q = [] \<and> res = Err e \<and> db' = pl_state q)
      | (r, db1) \<Rightarrow> res = r \<and> db' = db1)"

subsection \<open>Lemmas: what is requested\<close>

text \<open>No gap reaches so close to the 64-bit limit that a bin start could wrap.\<close>

definition gaps_fit :: "u64 \<Rightarrow> Gap list \<Rightarrow> bool" where
  "gaps_fit b gaps \<longleftrightarrow> list_all (\<lambda>g. unat (gap_Stop g) + unat b < 2 ^ 64) gaps"

lemma requestBins_Cons:
  "requestBins b (g # gs) = (case GetBlockHeightBins (gap_Start g) (gap_Stop g) b of
     Ok bins \<Rightarrow> bins | _ \<Rightarrow> []) @ requestBins b gs"
  by (simp add: requestBins_def)

lemma gap_bins_heights:
  assumes "0 < b" "unat (gap_Stop g) + unat b < 2 ^ 64"
  shows "set (concat (case GetBlockHeightBins (gap_Start g) (gap_Stop g) b of Ok bins \<Rightarrow> bins | _ \<Rightarrow> []))
      = gap_heights g"
    and "distinct (concat (case GetBlockHeightBins (gap_Start g) (gap_Stop g) b of Ok bins \<Rightarrow> bins | _ \<Rightarrow> []))"
    and "list_all (\<lambda>hs. hs \<noteq> []) (case GetBlockHeightBins (gap_Start g) (gap_Stop g) b of Ok bins \<Rightarrow> bins | _ \<Rightarrow> [])"
proof -
  have "GetBlockHeightBins (gap_Start g) (gap_Stop g) b = Ok bins \<Longrightarrow>
      set (concat bins) = gap_heights g \<and> distinct (concat bins) \<and> list_all (\<lambda>hs. hs \<noteq> []) bins" for bins
    using assms bins.bins_heights bins.bins_distinct bins.bins_sizes
    by (auto simp: gap_heights_def list_all_iff)
  moreover have "\<not> is_Ok (GetBlockHeightBins (gap_Start g) (gap_Stop g) b) \<Longrightarrow> gap_heights g = {}"
    using assms(1) by (simp add: GetBlockHeightBins_Ok_iff gap_heights_def)
  ultimately show "set (concat (case GetBlockHeightBins (gap_Start g) (gap_Stop g) b of Ok bins \<Rightarrow> bins | _ \<Rightarrow> []))
      = gap_heights g"
    "distinct (concat (case GetBlockHeightBins (gap_Start g) (gap_Stop g) b of Ok bins \<Rightarrow> bins | _ \<Rightarrow> []))"
    "list_all (\<lambda>hs. hs \<noteq> []) (case GetBlockHeightBins (gap_Start g) (gap_Stop g) b of Ok bins \<Rightarrow> bins | _ \<Rightarrow> [])"
    by (cases "GetBlockHeightBins (gap_Start g) (gap_Stop g) b"; simp)+
qed

lemma requestBins_heights:
  assumes "0 < b" "gaps_fit b gaps"
  shows "set (concat (requestBins b gaps)) = gaps_union gaps"
    and "list_all (\<lambda>hs. hs \<noteq> []) (requestBins b gaps)"
  using assms(2)
proof (induction gaps)
  case (Cons g gs)
  { case 1
    then show ?case using Cons.IH(1) gap_bins_heights(1) [OF assms(1), of g]
      by (simp add: requestBins_Cons gaps_fit_def) }
  { case 2
    then show ?case using Cons.IH(2) gap_bins_heights(3) [OF assms(1), of g]
      by (simp add: requestBins_Cons gaps_fit_def) }
qed (simp_all add: requestBins_def)

lemma requestBins_distinct:
  assumes "0 < b" "gaps_fit b gaps" "sorted_wrt (\<lambda>g g'. gap_heights g \<inter> gap_heights g' = {}) gaps"
  shows "distinct (concat (requestBins b gaps))"
  using assms(2,3)
proof (induction gaps)
  case (Cons g gs)
  have fit: "unat (gap_Stop g) + unat b < 2 ^ 64" "gaps_fit b gs" using Cons.prems(1) by (auto simp: gaps_fit_def)
  have "gap_heights g \<inter> gaps_union gs = {}" using Cons.prems(2) by (auto simp: gaps_union_def)
  with Cons.IH Cons.prems(2) fit gap_bins_heights(1,2) [OF assms(1) fit(1)] requestBins_heights(1) [OF assms(1) fit(2)]
  show ?case by (simp add: requestBins_Cons)
qed (simp add: requestBins_def)

lemma mset_concat_eq:
  assumes "mset xs = mset ys"
  shows "mset (concat xs) = mset (concat ys)"
proof -
  have "mset (concat zs) = sum_mset (image_mset mset (mset zs))" for zs :: "'a list list"
    by (induction zs) simp_all
  then show ?thesis using assms by simp
qed

lemma pass_heights:
  assumes "0 < b" "gaps_fit b gaps"
    and "pool_runs fetch item (pool_start (requestBins b gaps) n s) q" "pool_over q"
  shows "mset (concat (pl_done q)) = mset (concat (requestBins b gaps))"
    and "set (concat (pl_done q)) = gaps_union gaps"
proof -
  show m: "mset (concat (pl_done q)) = mset (concat (requestBins b gaps))"
    by (rule mset_concat_eq [OF pool_over_done [OF assms(3,4)]])
  show "set (concat (pl_done q)) = gaps_union gaps"
    using mset_eq_setD [OF m] requestBins_heights(1) [OF assms(1,2)] by simp
qed

subsection \<open>Lemmas: serving a nil payload\<close>

lemma nil_turn:
  assumes "sv_Filterer sv = Some (eth_Filter geth ipfs)"
    and "map_of (w_SubscriptionTypes a) ty = Some params" "EndingBlock params = Some e"
  shows "serveType sv NilConverted i (ty, subs) a
    = (if 0 < int64_of e then Panic nil_deref else Ok (closeType ty a))"
proof -
  have "\<exists>e. eth_Filter geth ipfs params NilConverted = Err e"
    by (cases params) (simp_all add: eth_Filter_def)
  with assms show ?thesis by (auto simp: serveType_def nil_deref_def)
qed

text \<open>Closing one type after the other leaves nothing.\<close>

lemma fold_delete_all:
  fixes al :: "('k \<times> 'v) list"
  shows "fold AList.delete (map fst al) al = []"
proof -
  have "set (fold AList.delete ks al) = {x \<in> set al. fst x \<notin> set ks}" for ks and al :: "('k \<times> 'v) list"
    by (induction ks arbitrary: al) (auto simp: AList.delete_eq)
  then have "set (fold AList.delete (map fst al) al) = {}" by auto
  then show ?thesis by simp
qed

lemma nil_loop_closes:
  assumes F: "sv_Filterer sv = Some (eth_Filter geth ipfs)"
    and "distinct (map fst xs)"
    and "\<forall>ty\<in>fst ` set xs. \<exists>params e. map_of (w_SubscriptionTypes a) ty = Some params
      \<and> EndingBlock params = Some e \<and> int64_of e \<le> 0"
  shows "\<exists>b. for_range (serveType sv NilConverted) i xs a = Ok b
    \<and> w_Subscriptions b = fold AList.delete (map fst xs) (w_Subscriptions a)"
  using assms(2,3)
proof (induction xs arbitrary: i a)
  case (Cons x xs)
  obtain t subs where x: "x = (t, subs)" by (cases x)
  then obtain params e where p: "map_of (w_SubscriptionTypes a) t = Some params"
    "EndingBlock params = Some e" "int64_of e \<le> 0"
    using Cons.prems(2) by auto
  have "serveType sv NilConverted i x a = Ok (closeType t a)"
    using nil_turn [OF F p(1,2), of i subs] p(3) x by simp
  moreover have "map_of (w_SubscriptionTypes (closeType t a)) ty = map_of (w_SubscriptionTypes a) ty"
    if "ty \<in> fst ` set xs" for ty
  proof -
    have "ty \<noteq> t" using that Cons.prems(1) x by auto
    then show ?thesis by (simp add: closeType_maps)
  qed
  ultimately show ?case
    using Cons.IH [of "closeType t a" "i + 1"] Cons.prems x by (simp add: closeType_maps)
qed simp

lemma nil_type_with_end_fails:
  assumes inv: "subs_inv sv st" and F: "sv_Filterer sv = Some (eth_Filter geth ipfs)"
    and ty: "map_of (w_SubscriptionTypes st) ty = Some params" "EndingBlock params = Some e" "0 < int64_of e"
  shows "\<exists>p. filterAndServe sv NilConverted st = Panic p"
proof (cases "filterAndServe sv NilConverted st")
  case (Ok st')
  have "ty \<in> dom (map_of (w_Subscriptions st))" using inv ty by (simp add: subs_inv_def domI)
  then obtain subs where "map_of (w_Subscriptions st) ty = Some subs" unfolding dom_def by blast
  then obtain as bs where xs: "w_Subscriptions st = as @ (ty, subs) # bs" by (meson map_of_SomeD split_list)
  with Ok have loop: "for_range (serveType sv NilConverted) 0 (as @ (ty, subs) # bs) st = Ok st'"
    by (simp add: filterAndServe_def)
  obtain a b j where "serveType sv NilConverted j (ty, subs) a = Ok b"
    "map_of (w_SubscriptionTypes a) ty = Some params"
    using serve_loop_turn [OF loop] subs_inv_dom [OF inv] ty unfolding xs by metis
  with nil_turn [OF F _ ty(2), of a ty j subs] ty(3) show ?thesis by simp
qed (simp_all add: filterAndServe_never_Err)

subsection \<open>Properties\<close>

text \<open>
  C4. When a back-fill pass is over, whatever the interleaving of its workers, the sections the
  workers have finished cover exactly the heights of the gaps, and no height twice when the gaps
  do not overlap; every worker has been told to quit, so the next pass starts with none running.
\<close>

theorem backFill_pass_complete:
  assumes "0 < batchSize" "gaps_fit batchSize gaps"
    and "pool_runs (\<lambda>hs. fst (pp_FetchAt pp hs)) (backFillItem pp)
           (pool_start (requestBins batchSize gaps) n s) q" "pool_over q"
  shows "set (concat (pl_done q)) = (\<Union>g\<in>set gaps. {gap_Start g .. gap_Stop g})
    \<and> (sorted_wrt (\<lambda>g g'. {gap_Start g .. gap_Stop g} \<inter> {gap_Start g' .. gap_Stop g'} = {}) gaps
         \<longrightarrow> distinct (concat (pl_done q)))
    \<and> list_all (\<lambda>w. w = Gone) (pl_workers q)"
proof -
  have "distinct (concat (pl_done q))"
    if "sorted_wrt (\<lambda>g g'. {gap_Start g .. gap_Stop g} \<inter> {gap_Start g' .. gap_Stop g'} = {}) gaps"
    using requestBins_distinct [OF assms(1,2)] that pass_heights(1) [OF assms]
    by (simp add: gap_heights_def [abs_def]) (metis mset_eq_imp_distinct_iff)
  with pass_heights(2) [OF assms] assms(4) show ?thesis
    by (simp add: gaps_union_def gap_heights_def pool_over_def)
qed

definition sample_pipeline :: "(unit, nat) pipeline" where
  "sample_pipeline = \<lparr>pp_Gaps = (\<lambda>v db. Ok [\<lparr>gap_Start = 4, gap_Stop = 5\<rparr>, \<lparr>gap_Start = 9, gap_Stop = 9\<rparr>]),
     pp_FetchAt = (\<lambda>hs. (map (\<lambda>h. BtcRaw \<lparr>bp_BlockHeight = uint h, bp_Header = \<lparr>bh_Version = 1, bh_PrevBlock = [],
        bh_MerkleRoot = [], bh_Timestamp = 0, bh_Bits = 0, bh_Nonce = 0\<rparr>, bp_Txs = []\<rparr>) hs, None)),
     pp_Convert = (\<lambda>r. Err (Errorf ''bad payload'' [])),
     pp_Publish = (\<lambda>c db. (Ok (), Suc db)), pp_Index = (\<lambda>c db. (Ok (), db)),
     pp_Clean = (\<lambda>rs t db. (Ok (), 0)), pp_ResetValidation = (\<lambda>rs db. (Ok (), db))\<rparr>"

definition sample_gaps :: "Gap list" where
  "sample_gaps = [\<lparr>gap_Start = 4, gap_Stop = 5\<rparr>, \<lparr>gap_Start = 9, gap_Stop = 9\<rparr>]"

lemma sample_gaps_fit: "gaps_fit 2 sample_gaps"
  by (simp add: gaps_fit_def sample_gaps_def)

lemma sample_pipeline_ok: "is_Ok (backFillItem sample_pipeline x s)" "is_Ok (resyncItem sample_pipeline x db)"
  by (simp_all add: backFillItem_def resyncItem_def sample_pipeline_def)

theorem backFill_pass_complete_witness:
  "\<exists>q. pool_runs (\<lambda>hs. fst (pp_FetchAt sample_pipeline hs)) (backFillItem sample_pipeline)
       (pool_start (requestBins 2 sample_gaps) 3 (0, \<lparr>ch_cap = 1, ch_buf = []\<rparr>)) q \<and> pool_over q
     \<and> set (concat (pl_done q)) = {4, 5, 9}"
proof -
  let ?start = "pool_start (requestBins 2 sample_gaps) 3 (0, \<lparr>ch_cap = 1, ch_buf = []\<rparr>) :: (nat \<times> Converted chan) pool"
  have "pool_live 3 ?start"
    by (rule pool_live_start [OF requestBins_heights(2) [OF _ sample_gaps_fit]]) simp
  then obtain q where q: "pool_runs (\<lambda>hs. fst (pp_FetchAt sample_pipeline hs)) (backFillItem sample_pipeline) ?start q"
    "pool_over q"
    using pool_reaches_over [where item = "backFillItem sample_pipeline", OF _ _ sample_pipeline_ok(1)] by (metis zero_less_numeral)
  have "{4 .. 5 :: u64} = {4, 5}"
    using inc_range [of 4 4] by auto
  with backFill_pass_complete [OF _ sample_gaps_fit q] q show ?thesis
    by (auto simp: sample_gaps_def)
qed

text \<open>
  C5. A back-fill pass with at least one worker, whose payload handling does not panic, cannot
  run forever and cannot deadlock: there is no infinite run, and a state with no next step is one
  in which all bins are done and all workers have quit.
\<close>

theorem backFill_pass_ends:
  assumes "0 < batchSize" "gaps_fit batchSize gaps" "0 < n" "\<And>x s. is_Ok (backFillItem pp x s)"
  shows "\<not> (\<exists>run. run 0 = pool_start (requestBins batchSize gaps) n s
        \<and> (\<forall>i. pool_step (\<lambda>hs. fst (pp_FetchAt pp hs)) (backFillItem pp) (run i) (run (Suc i))))
    \<and> (\<forall>q. pool_runs (\<lambda>hs. fst (pp_FetchAt pp hs)) (backFillItem pp) (pool_start (requestBins batchSize gaps) n s) q
        \<longrightarrow> pool_over q \<or> (\<exists>r. pool_step (\<lambda>hs. fst (pp_FetchAt pp hs)) (backFillItem pp) q r))"
proof
  let ?fetch = "\<lambda>hs. fst (pp_FetchAt pp hs)"
  show "\<not> (\<exists>run. run 0 = pool_start (requestBins batchSize gaps) n s
        \<and> (\<forall>i. pool_step ?fetch (backFillItem pp) (run i) (run (Suc i))))"
  proof
    assume "\<exists>run. run 0 = pool_start (requestBins batchSize gaps) n s
        \<and> (\<forall>i. pool_step ?fetch (backFillItem pp) (run i) (run (Suc i)))"
    then obtain run where "\<forall>i. pool_step ?fetch (backFillItem pp) (run i) (run (Suc i))" by blast
    then have "\<forall>i. pool_weight ?fetch (run (Suc i)) < pool_weight ?fetch (run i)"
      using pool_weight_step by blast
    then show False
      using wf_iff_no_infinite_down_chain [of "measure (pool_weight ?fetch)"] by auto
  qed
  show "\<forall>q. pool_runs ?fetch (backFillItem pp) (pool_start (requestBins batchSize gaps) n s) q
        \<longrightarrow> pool_over q \<or> (\<exists>r. pool_step ?fetch (backFillItem pp) q r)"
  proof (intro allI impI)
    fix q assume "pool_runs ?fetch (backFillItem pp) (pool_start (requestBins batchSize gaps) n s) q"
    then have "pool_live n q"
      by (rule pool_live_runs) (rule pool_live_start [OF requestBins_heights(2) [OF assms(1,2)]])
    then show "pool_over q \<or> (\<exists>r. pool_step ?fetch (backFillItem pp) q r)"
      using pool_progress [where item = "backFillItem pp", OF _ assms(3) _ assms(4)] by blast
  qed
qed

theorem backFill_pass_ends_witness:
  "\<not> (\<exists>run. run 0 = pool_start (requestBins 2 sample_gaps) 3 (0, \<lparr>ch_cap = 1, ch_buf = []\<rparr>)
      \<and> (\<forall>i. pool_step (\<lambda>hs. fst (pp_FetchAt sample_pipeline hs)) (backFillItem sample_pipeline) (run i) (run (Suc i))))"
  using backFill_pass_ends [OF _ sample_gaps_fit, where n = 3 and pp = sample_pipeline
      and s = "(0, \<lparr>ch_cap = 1, ch_buf = []\<rparr>)", OF _ _ sample_pipeline_ok(1)] by simp

text \<open>
  A payload that the converter refuses during a back-fill is forwarded to the server as a nil
  payload, if the server's channel has room; nothing is indexed unless the publisher accepts nil.
\<close>

theorem backFill_forwards_nil:
  assumes "pp_Convert pp raw = Err e" "pp_Publish pp NilConverted db = (Err e', db)"
  shows "backFillItem pp raw (db, screen) = Ok (db, chan_offer NilConverted screen)"
  using assms by (simp add: backFillItem_def)

theorem backFill_forwards_nil_witness:
  "backFillItem (sample_pipeline\<lparr>pp_Publish := (\<lambda>c db. (Err (Errorf ''no payload'' []), db))\<rparr>)
     (BtcRaw \<lparr>bp_BlockHeight = 1, bp_Header = \<lparr>bh_Version = 1, bh_PrevBlock = [], bh_MerkleRoot = [], bh_Timestamp = 0,
        bh_Bits = 0, bh_Nonce = 0\<rparr>, bp_Txs = []\<rparr>) (0, \<lparr>ch_cap = 1, ch_buf = []\<rparr>)
   = Ok (0, \<lparr>ch_cap = 1, ch_buf = [NilConverted]\<rparr>)"
  using backFill_forwards_nil [of "sample_pipeline\<lparr>pp_Publish := (\<lambda>c db. (Err (Errorf ''no payload'' []), db))\<rparr>"]
  by (simp add: sample_pipeline_def chan_offer_def)

text \<open>
  Serving a nil payload destroys the pub-sub state: if no registered type has a positive
  end, every subscription of the watcher is closed; a type with a positive end crashes it.
\<close>

theorem nil_payload_closes_all:
  assumes "watch_reachable sv st" "sv_Filterer sv = Some (eth_Filter geth ipfs)"
    and "\<And>ty params. map_of (w_SubscriptionTypes st) ty = Some params \<Longrightarrow> \<exists>e. EndingBlock params = Some e"
  shows "if \<exists>ty params e. map_of (w_SubscriptionTypes st) ty = Some params \<and> EndingBlock params = Some e \<and> 0 < int64_of e
    then \<exists>p. filterAndServe sv NilConverted st = Panic p
    else \<exists>st'. filterAndServe sv NilConverted st = Ok st' \<and> w_Subscriptions st' = []"
proof -
  have inv: "subs_inv sv st" by (rule subs_inv_reachable [OF assms(1)])
  let ?ends = "\<exists>ty params e. map_of (w_SubscriptionTypes st) ty = Some params \<and> EndingBlock params = Some e \<and> 0 < int64_of e"
  show ?thesis
  proof (cases ?ends)
    case True
    then show ?thesis using nil_type_with_end_fails [OF inv assms(2)] by (auto simp only: if_True)
  next
    case False
    have "\<exists>params e. map_of (w_SubscriptionTypes st) ty = Some params \<and> EndingBlock params = Some e \<and> int64_of e \<le> 0"
      if "ty \<in> fst ` set (w_Subscriptions st)" for ty
    proof -
      from that obtain params where "map_of (w_SubscriptionTypes st) ty = Some params"
        using subs_inv_dom(2) [OF inv] unfolding dom_def by blast
      with assms(3) False show ?thesis by (metis linorder_not_less)
    qed
    with nil_loop_closes [OF assms(2) subs_inv_dom(1) [OF inv], of st 0] fold_delete_all [of "w_Subscriptions st"] False
    show ?thesis by (subst if_not_P [OF False]) (simp add: filterAndServe_def)
  qed
qed

theorem nil_payload_closes_all_witness:
  "\<exists>p. filterAndServe sample_service NilConverted sample_st1 = Panic p"
proof -
  have F: "sv_Filterer sample_service = Some (eth_Filter sample_geth sample_ipfs)" by (simp add: sample_service_def)
  have e: "\<exists>e. EndingBlock params = Some e" if "map_of (w_SubscriptionTypes sample_st1) ty = Some params" for ty params
    using that by (auto simp: sample_st1_def split: if_splits)
  have "\<exists>ty params e. map_of (w_SubscriptionTypes sample_st1) ty = Some params \<and> EndingBlock params = Some e \<and> 0 < int64_of e"
    by (intro exI [of _ "[1]"] exI [of _ "EthSettings (sample_settings 3 8)"] exI [of _ 8]) (simp add: sample_st1_def)
  then show ?thesis using nil_payload_closes_all [OF sample_reachable F e] by (simp only: if_True)
qed



end
