(* ===== verification/Watch_Sync.thy ===== *)
theory Watch_Sync
  imports Watch_Types
begin

text \<open>
  \<open>watch/service.go\<close>, the sync side: one turn of the \<open>Sync\<close> event loop per streamed payload
  (convert, forward to the server if it can take it, push onto the ring buffer of the
  publish-and-index workers) and one turn of a worker. The drop-oldest push is one step: between
  the failed send and the receive no worker intervenes.
\<close>

definition PayloadChanBufferSize :: nat where
  "PayloadChanBufferSize = 2000"

record sync_state =
  sy_screen :: "Converted chan"
  sy_ring :: "Converted chan"

text \<open>
  \<open>select { case c <- x: default: <-c; c <- x }\<close>
\<close>

definition ring_push :: "'a \<Rightarrow> 'a chan \<Rightarrow> 'a chan" where
  "ring_push x c = (if length (ch_buf c) < ch_cap c then c\<lparr>ch_buf := ch_buf c @ [x]\<rparr>
     else c\<lparr>ch_buf := tl (ch_buf c) @ [x]\<rparr>)"

definition syncPayload :: "(RawData \<Rightarrow> Converted outcome) \<Rightarrow> RawData \<Rightarrow> sync_state \<Rightarrow> sync_state outcome" where
  "syncPayload Convert payload st =
     (case Convert payload of
        Panic p \<Rightarrow> Panic p
      | Err err \<Rightarrow> Ok st
      | Ok ipldPayload \<Rightarrow>
          outcome_bind (Converted_Height ipldPayload) (\<lambda>h.
            Ok (st\<lparr>sy_screen := chan_offer ipldPayload (sy_screen st),
                   sy_ring := ring_push ipldPayload (sy_ring st)\<rparr>)))"

text \<open>
  A worker's turn on the payload at the head of the ring: publish it, then index the cids; an
  error of either is logged and ends the turn.
\<close>

definition publishAndIndex ::
    "(Converted \<Rightarrow> 'db \<Rightarrow> ('cids outcome \<times> 'db)) \<Rightarrow> ('cids \<Rightarrow> 'db \<Rightarrow> (unit outcome \<times> 'db))
     \<Rightarrow> sync_state \<Rightarrow> 'db \<Rightarrow> (sync_state \<times> 'db) outcome" where
  "publishAndIndex Publish Index st db =
     (case ch_buf (sy_ring st) of
        [] \<Rightarrow> Ok (st, db)
      | payload # rest \<Rightarrow>
          let st' = st\<lparr>sy_ring := (sy_ring st)\<lparr>ch_buf := rest\<rparr>\<rparr> in
          outcome_bind (Converted_Height payload) (\<lambda>h.
            case Publish payload db of
              (Panic p, db1) \<Rightarrow> Panic p
            | (Err err, db1) \<Rightarrow> Ok (st', db1)
            | (Ok cids, db1) \<Rightarrow>
                (case Index cids db1 of
                   (Panic p, db2) \<Rightarrow> Panic p
                 | (_, db2) \<Rightarrow> Ok (st', db2))))"

subsection \<open>Lemmas\<close>

definition keep_last :: "nat \<Rightarrow> 'a list \<Rightarrow> 'a list" where
  "keep_last n xs = drop (length xs - n) xs"

lemma keep_last_short: "length xs \<le> n \<Longrightarrow> keep_last n xs = xs"
  by (simp add: keep_last_def)

lemma ring_push_keep_last:
  assumes "ch_buf c = keep_last (ch_cap c) xs" "0 < ch_cap c"
  shows "ch_buf (ring_push x c) = keep_last (ch_cap c) (xs @ [x])" "ch_cap (ring_push x c) = ch_cap c"
proof -
  show "ch_buf (ring_push x c) = keep_last (ch_cap c) (xs @ [x])"
  proof (cases "length xs < ch_cap c")
    case True
    then show ?thesis using assms by (simp add: ring_push_def keep_last_def)
  next
    case False
    then have "length (ch_buf c) = ch_cap c" using assms by (simp add: keep_last_def)
    moreover have "tl (drop (length xs - ch_cap c) xs) = drop (Suc (length xs) - ch_cap c) xs"
      using False by (simp add: tl_drop drop_Suc Suc_diff_le)
    ultimately show ?thesis using False assms by (simp add: ring_push_def keep_last_def)
  qed
qed (simp add: ring_push_def)

text \<open>The payloads a list of streamed payloads converts into, conversion errors left out.\<close>

fun converted :: "(RawData \<Rightarrow> Converted outcome) \<Rightarrow> RawData list \<Rightarrow> Converted list" where
  "converted C [] = []"
| "converted C (r # rs) = (case C r of Ok c \<Rightarrow> c # converted C rs | _ \<Rightarrow> converted C rs)"

subsection \<open>Properties\<close>

text \<open>
  However many payloads are streamed before a worker runs, the Sync loop never blocks on the
  workers, and the ring buffer holds exactly the most recent successfully converted payloads, in
  order, up to its capacity; payloads that fail to convert are skipped.
\<close>

theorem sync_keeps_latest:
  assumes "for_range (\<lambda>j. syncPayload C) 0 raws st = Ok st'"
    and "0 < ch_cap (sy_ring st)" "ch_buf (sy_ring st) = keep_last (ch_cap (sy_ring st)) past"
  shows "ch_buf (sy_ring st') = keep_last (ch_cap (sy_ring st)) (past @ converted C raws)"
proof -
  have "ch_buf (sy_ring st') = keep_last (ch_cap (sy_ring st)) (past @ converted C raws)"
    if "for_range (\<lambda>j. syncPayload C) i raws st = Ok st'" for i
    using that assms(2,3)
  proof (induction raws arbitrary: i st past)
    case (Cons r raws)
    then obtain a where a: "syncPayload C r st = Ok a" "for_range (\<lambda>j. syncPayload C) (Suc i) raws a = Ok st'"
      by auto
    show ?case
    proof (cases "C r")
      case (Ok c)
      then have ring: "sy_ring a = ring_push c (sy_ring st)" using a(1) by (auto simp: syncPayload_def)
      note push = ring_push_keep_last [OF Cons.prems(3,2), of c]
      from Cons.IH [OF a(2), of "past @ [c]"] push Cons.prems(2) Ok show ?thesis by (simp add: ring)
    next
      case (Err e)
      then show ?thesis using Cons a by (simp add: syncPayload_def)
    next
      case (Panic p)
      then show ?thesis using a(1) by (simp add: syncPayload_def)
    qed
  qed simp
  then show ?thesis using assms(1) by blast
qed

definition sample_raw :: "int \<Rightarrow> RawData" where
  "sample_raw h = BtcRaw \<lparr>bp_BlockHeight = h, bp_Header = \<lparr>bh_Version = 1, bh_PrevBlock = [],
     bh_MerkleRoot = [], bh_Timestamp = 0, bh_Bits = 0, bh_Nonce = 0\<rparr>, bp_Txs = []\<rparr>"

definition sample_converted :: "int \<Rightarrow> Converted" where
  "sample_converted h = BtcConverted \<lparr>bp_BlockHeight = h, bp_Header = \<lparr>bh_Version = 1, bh_PrevBlock = [],
     bh_MerkleRoot = [], bh_Timestamp = 0, bh_Bits = 0, bh_Nonce = 0\<rparr>, bp_Txs = [], bp_TxMetaData = []\<rparr>"

text \<open>A converter that refuses the block at height 2.\<close>

definition sample_convert :: "RawData \<Rightarrow> Converted outcome" where
  "sample_convert raw = (case raw of
     BtcRaw b \<Rightarrow> if bp_BlockHeight b = 2 then Err (Errorf ''bad block'' []) else Ok (sample_converted (bp_BlockHeight b))
   | EthRaw _ \<Rightarrow> Err (Errorf ''wrong chain'' []))"

definition sample_sync :: sync_state where
  "sample_sync = \<lparr>sy_screen = \<lparr>ch_cap = 2, ch_buf = []\<rparr>, sy_ring = \<lparr>ch_cap = 2, ch_buf = []\<rparr>\<rparr>"

theorem sync_keeps_latest_witness:
  "\<exists>st'. for_range (\<lambda>j. syncPayload sample_convert) 0 (map sample_raw [1, 2, 3, 4]) sample_sync = Ok st'
     \<and> ch_buf (sy_ring st') = [sample_converted 3, sample_converted 4]"
proof -
  have c: "sample_convert (sample_raw h) = (if h = 2 then Err (Errorf ''bad block'' []) else Ok (sample_converted h))" for h
    by (simp add: sample_convert_def sample_raw_def)
  have h: "Converted_Height (sample_converted h) = Ok (int64_of h)" for h
    by (simp add: sample_converted_def BtcConvertedPayload_Height_def)
  have "\<exists>st'. for_range (\<lambda>j. syncPayload sample_convert) 0 (map sample_raw [1, 2, 3, 4]) sample_sync = Ok st'"
    by (simp add: syncPayload_def c h)
  then obtain st' where st': "for_range (\<lambda>j. syncPayload sample_convert) 0 (map sample_raw [1, 2, 3, 4]) sample_sync = Ok st'"
    by blast
  have "ch_buf (sy_ring st') = [sample_converted 3, sample_converted 4]"
    using sync_keeps_latest [OF st', of "[]"] by (simp add: sample_sync_def keep_last_def c)
  with st' show ?thesis by blast
qed

end
