(* ===== verification/Eth_Converter.thy ===== *)
theory Eth_Converter
  imports Eth_Filterer
begin

text \<open>
  \<open>eth/converter.go\<close>: unpacking a state diff payload into the converted payload that the
  publisher and the filterer work on. Go ranges over the map of log contracts in no fixed order;
  the argument \<open>iter\<close> is the order it happens to take.
\<close>

subsection \<open>Transactions\<close>

definition convertTx ::
    "geth_lib \<Rightarrow> int \<Rightarrow> nat \<Rightarrow> Transaction \<Rightarrow> TxModel list \<Rightarrow> TxModel list outcome" where
  "convertTx geth number i trx acc =
     outcome_bind (types_Sender geth number trx) (\<lambda>from.
       Ok (acc @ [zero_TxModel\<lparr>
         tm_Dst := HandleZeroAddrPointer geth (t_To trx),
         tm_Src := HandleZeroAddr geth from,
         tm_TxHash := Hash_Hex (Tx_Hash geth trx),
         tm_Index := int i\<rparr>]))"

subsection \<open>Receipts\<close>

text \<open>\<open>topicSets[i] = append(topicSets[i], topic.Hex())\<close>: the slice has four slots.\<close>

definition addTopic :: "nat \<Rightarrow> Hash \<Rightarrow> string list list \<Rightarrow> string list list outcome" where
  "addTopic i topic topicSets =
     outcome_bind (slice_get topicSets i) (\<lambda>ts. Ok (topicSets[i := ts @ [Hash_Hex topic]]))"

definition addLog ::
    "geth_lib \<Rightarrow> nat \<Rightarrow> Log \<Rightarrow> string list list \<times> string list \<Rightarrow> (string list list \<times> string list) outcome" where
  "addLog geth i log acc =
     outcome_bind (for_range addTopic 0 (l_Topics log) (fst acc)) (\<lambda>topicSets.
       Ok (topicSets, List.insert (Address_Hex geth (l_Address log)) (snd acc)))"

definition convertReceipt ::
    "geth_lib \<Rightarrow> (string list \<Rightarrow> string list) \<Rightarrow> nat \<Rightarrow> Receipt
     \<Rightarrow> Receipt list \<times> ReceiptModel list \<Rightarrow> (Receipt list \<times> ReceiptModel list) outcome" where
  "convertReceipt geth iter i receipt acc =
     outcome_bind (for_range (addLog geth) 0 (r_Logs receipt) ([[], [], [], []], []))
       (\<lambda>(topicSets, mappedContracts).
         let contract = HandleZeroAddr geth (r_ContractAddress receipt);
             contractHash = (if contract \<noteq> ''''
               then Hash_Hex (Keccak256 geth (HexToAddress geth contract)) else '''')
         in Ok (fst acc @ [receipt], snd acc @ [zero_ReceiptModel\<lparr>
              rm_Topic0s := topicSets ! 0, rm_Topic1s := topicSets ! 1,
              rm_Topic2s := topicSets ! 2, rm_Topic3s := topicSets ! 3,
              rm_Contract := contract, rm_ContractHash := contractHash,
              rm_LogContracts := iter mappedContracts\<rparr>]))"

subsection \<open>State and storage nodes\<close>

definition convertStorageNode :: "geth_lib \<Rightarrow> DiffStorageNode \<Rightarrow> TrieNode" where
  "convertStorageNode geth sn = \<lparr>tn_Path = ds_Path sn, tn_LeafKey = BytesToHash geth (ds_LeafKey sn),
     tn_Value = ds_Value sn, tn_Type = ds_Type sn\<rparr>"

definition convertStateNode :: "geth_lib \<Rightarrow> DiffStateNode \<Rightarrow> TrieNode" where
  "convertStateNode geth n = \<lparr>tn_Path = dn_Path n, tn_LeafKey = BytesToHash geth (dn_LeafKey n),
     tn_Value = dn_Value n, tn_Type = dn_Type n\<rparr>"

text \<open>\<open>m[k] = append(m[k], x)\<close>\<close>

definition map_append :: "'k \<Rightarrow> 'v \<Rightarrow> ('k \<times> 'v list) list \<Rightarrow> ('k \<times> 'v list) list" where
  "map_append k x m = AList.update k ((case map_of m k of None \<Rightarrow> [] | Some l \<Rightarrow> l) @ [x]) m"

definition convertDiffNode ::
    "geth_lib \<Rightarrow> DiffStateNode \<Rightarrow> TrieNode list \<times> (string \<times> TrieNode list) list
     \<Rightarrow> TrieNode list \<times> (string \<times> TrieNode list) list" where
  "convertDiffNode geth n acc =
     (let statePath = hex_EncodeToString (dn_Path n) in
      (fst acc @ [convertStateNode geth n],
       fold (\<lambda>sn m. map_append statePath (convertStorageNode geth sn) m) (dn_StorageNodes n) (snd acc)))"

subsection \<open>Convert\<close>

definition eth_Convert ::
    "geth_lib \<Rightarrow> (string list \<Rightarrow> string list) \<Rightarrow> RawData \<Rightarrow> Converted outcome" where
  "eth_Convert geth iter payload =
     (case payload of
        BtcRaw _ \<Rightarrow> Err (Errorf ''eth converter: expected payload type %T got %T''
          [''statediff.Payload'', RawData_T payload])
      | EthRaw sd \<Rightarrow>
     outcome_bind (rlp_DecodeBlock geth (sd_BlockRlp sd)) (\<lambda>block.
     outcome_bind (for_range (convertTx geth (h_Number (b_Header block))) 0 (b_Transactions block) [])
       (\<lambda>txMeta.
     outcome_bind (rlp_DecodeReceipts geth (sd_ReceiptsRlp sd)) (\<lambda>receipts.
     outcome_bind (DeriveFields geth receipts block) (\<lambda>receipts.
     outcome_bind (for_range (convertReceipt geth iter) 0 receipts ([], [])) (\<lambda>(rcts, rctMeta).
     outcome_bind (rlp_DecodeStateObject geth (sd_StateObjectRlp sd)) (\<lambda>nodes.
       let (stateNodes, storageNodes) = fold (convertDiffNode geth) nodes ([], []) in
       Ok (EthConverted \<lparr>cp_TotalDifficulty = sd_TotalDifficulty sd, cp_Block = block,
         cp_TxMetaData = txMeta, cp_Receipts = rcts, cp_ReceiptMetaData = rctMeta,
         cp_StateNodes = stateNodes, cp_StorageNodes = storageNodes\<rparr>))))))))"

subsection \<open>Lemmas\<close>

lemma convertTx_loop:
  assumes "for_range (convertTx geth n) i txs acc = Ok metas"
  shows "\<exists>new. metas = acc @ new \<and> length new = length txs
    \<and> map tm_TxHash new = map (\<lambda>t. Hash_Hex (Tx_Hash geth t)) txs
    \<and> map tm_Index new = map int [i ..< i + length txs]
    \<and> map tm_Dst new = map (\<lambda>t. HandleZeroAddrPointer geth (t_To t)) txs"
  using assms
proof (induction txs arbitrary: i acc)
  case (Cons t txs)
  then obtain b where b: "convertTx geth n i t acc = Ok b"
      "for_range (convertTx geth n) (Suc i) txs b = Ok metas"
    by auto
  from b(1) obtain snd_addr where m: "b = acc @ [zero_TxModel\<lparr>tm_Dst := HandleZeroAddrPointer geth (t_To t),
      tm_Src := HandleZeroAddr geth snd_addr, tm_TxHash := Hash_Hex (Tx_Hash geth t), tm_Index := int i\<rparr>]"
    by (auto simp: convertTx_def)
  from Cons.IH [OF b(2)] m show ?case
    by (auto simp: upt_conv_Cons simp del: upt_Suc)
qed simp

lemma convertReceipt_loop:
  assumes "for_range (convertReceipt geth iter) i rs acc = Ok acc'"
  shows "fst acc' = fst acc @ rs \<and> length (snd acc') = length (snd acc) + length rs"
  using assms
proof (induction rs arbitrary: i acc)
  case (Cons r rs)
  then obtain b where b: "convertReceipt geth iter i r acc = Ok b"
      "for_range (convertReceipt geth iter) (i + 1) rs b = Ok acc'"
    by auto
  then have "fst b = fst acc @ [r]" "length (snd b) = Suc (length (snd acc))"
    by (auto simp: convertReceipt_def Let_def)
  with Cons.IH [OF b(2)] show ?case by simp
qed simp

definition nodes_at :: "geth_lib \<Rightarrow> bytes \<Rightarrow> DiffStateNode list \<Rightarrow> TrieNode list" where
  "nodes_at geth path nodes =
     [convertStorageNode geth sn. n \<leftarrow> nodes, dn_Path n = path, sn \<leftarrow> dn_StorageNodes n]"

definition lookup_list :: "('k \<times> 'v list) list \<Rightarrow> 'k \<Rightarrow> 'v list" where
  "lookup_list m k = (case map_of m k of None \<Rightarrow> [] | Some l \<Rightarrow> l)"

lemma lookup_map_append:
  "lookup_list (map_append k x m) k' = (if k' = k then lookup_list m k @ [x] else lookup_list m k')"
  by (simp add: lookup_list_def map_append_def update_conv')

lemma lookup_fold_append:
  "lookup_list (fold (\<lambda>sn m. map_append k (f sn) m) sns m) k'
   = (if k' = k then lookup_list m k @ map f sns else lookup_list m k')"
  by (induction sns arbitrary: m) (simp_all add: lookup_map_append)

lemma convertDiff_fold:
  "fst (fold (convertDiffNode geth) nodes acc) = fst acc @ map (convertStateNode geth) nodes
   \<and> lookup_list (snd (fold (convertDiffNode geth) nodes acc)) (hex_EncodeToString path)
     = lookup_list (snd acc) (hex_EncodeToString path) @ nodes_at geth path nodes"
  by (induction nodes arbitrary: acc)
     (auto simp: convertDiffNode_def Let_def lookup_fold_append nodes_at_def hex_EncodeToString_inj)

lemma addTopic_loop_length:
  "for_range addTopic i ts sets = Ok sets' \<Longrightarrow> length sets' = length sets"
  by (erule for_range_inv [where P = "\<lambda>s. length s = length sets"]) (auto simp: addTopic_def)

text \<open>The \<open>i\<close>-th topic set of a receipt collects the \<open>i\<close>-th topics of its logs, in order.\<close>

lemma addTopic_loop:
  assumes "for_range addTopic i ts sets = Ok sets'" "k < length sets"
  shows "sets' ! k = sets ! k @ (if i \<le> k \<and> k < i + length ts then [Hash_Hex (ts ! (k - i))] else [])"
  using assms
proof (induction ts arbitrary: i sets)
  case (Cons t ts)
  then obtain b where b: "addTopic i t sets = Ok b" "for_range addTopic (i + 1) ts b = Ok sets'"
    by auto
  then have "b = sets[i := sets ! i @ [Hash_Hex t]]" "i < length sets"
    by (auto simp: addTopic_def slice_get_Ok_iff)
  with Cons.IH [OF b(2)] Cons.prems(2) show ?case
    by (cases "k = i") (auto simp: nth_Cons' nth_list_update)
qed simp

lemma addLog_loop:
  assumes "for_range (addLog geth) i logs acc = Ok acc'" "k < length (fst acc)"
  shows "fst acc' ! k = fst acc ! k @ [Hash_Hex (l_Topics l ! k). l \<leftarrow> logs, k < length (l_Topics l)]
    \<and> set (snd acc') = set (snd acc) \<union> (\<lambda>l. Address_Hex geth (l_Address l)) ` set logs
    \<and> length (fst acc') = length (fst acc)"
  using assms
proof (induction logs arbitrary: i acc)
  case (Cons l logs)
  then obtain a where a: "addLog geth i l acc = Ok a" "for_range (addLog geth) (i + 1) logs a = Ok acc'"
    by auto
  then obtain sets where b: "for_range addTopic 0 (l_Topics l) (fst acc) = Ok sets"
      "for_range (addLog geth) (i + 1) logs (sets, List.insert (Address_Hex geth (l_Address l)) (snd acc)) = Ok acc'"
    unfolding addLog_def [of geth i l acc] by auto
  from Cons.IH [OF b(2)] addTopic_loop [OF b(1) Cons.prems(2)] addTopic_loop_length [OF b(1)] Cons.prems(2)
  show ?case by auto
qed simp

subsection \<open>Properties\<close>


definition sample_diff :: StateDiffPayload where
  "sample_diff = \<lparr>sd_BlockRlp = [1, 2], sd_TotalDifficulty = Some 3, sd_ReceiptsRlp = [], sd_StateObjectRlp = []\<rparr>"


text \<open>
  The metadata of a receipt that the conversion produces carries, in its \<open>i\<close>-th topic set,
  the \<open>i\<close>-th topic of every log that has one, in log order, and as its log contracts exactly the
  addresses that emitted a log, each once; the contract hash is set iff the receipt created a
  contract at a non-zero address.
\<close>

theorem convertReceipt_meta:
  assumes "convertReceipt geth iter i receipt (rs, ms) = Ok (rs', ms')"
    and "\<And>ks. set (iter ks) = set ks" "\<And>ks. distinct ks \<Longrightarrow> distinct (iter ks)"
  shows "rs' = rs @ [receipt] \<and> (\<exists>m. ms' = ms @ [m]
    \<and> rm_Topic0s m = [Hash_Hex (l_Topics l ! 0). l \<leftarrow> r_Logs receipt, 0 < length (l_Topics l)]
    \<and> rm_Topic1s m = [Hash_Hex (l_Topics l ! 1). l \<leftarrow> r_Logs receipt, 1 < length (l_Topics l)]
    \<and> rm_Topic2s m = [Hash_Hex (l_Topics l ! 2). l \<leftarrow> r_Logs receipt, 2 < length (l_Topics l)]
    \<and> rm_Topic3s m = [Hash_Hex (l_Topics l ! 3). l \<leftarrow> r_Logs receipt, 3 < length (l_Topics l)]
    \<and> set (rm_LogContracts m) = (\<lambda>l. Address_Hex geth (l_Address l)) ` set (r_Logs receipt)
    \<and> distinct (rm_LogContracts m)
    \<and> (rm_ContractHash m \<noteq> '''' \<longleftrightarrow> HandleZeroAddr geth (r_ContractAddress receipt) \<noteq> ''''))"
proof -
  from assms(1) obtain sets cs where
    loop: "for_range (addLog geth) 0 (r_Logs receipt) ([[], [], [], []], []) = Ok (sets, cs)"
    and out: "rs' = rs @ [receipt]"
    "ms' = ms @ [zero_ReceiptModel\<lparr>rm_Topic0s := sets ! 0, rm_Topic1s := sets ! 1,
        rm_Topic2s := sets ! 2, rm_Topic3s := sets ! 3,
        rm_Contract := HandleZeroAddr geth (r_ContractAddress receipt),
        rm_ContractHash := (if HandleZeroAddr geth (r_ContractAddress receipt) \<noteq> ''''
           then Hash_Hex (Keccak256 geth (HexToAddress geth (HandleZeroAddr geth (r_ContractAddress receipt)))) else ''''),
        rm_LogContracts := iter cs\<rparr>]"
    by (auto simp: convertReceipt_def Let_def)
  have "distinct cs"
    using for_range_inv [OF loop, where P = "\<lambda>s. distinct (snd s)"] by (auto simp: addLog_def)
  with addLog_loop [OF loop, of 0] addLog_loop [OF loop, of 1] addLog_loop [OF loop, of 2]
    addLog_loop [OF loop, of 3] out assms(2,3)
  show ?thesis by (auto simp: Hash_Hex_def)
qed

definition sample_log_rct :: Receipt where
  "sample_log_rct = sample_rct\<lparr>r_Logs := [\<lparr>l_Address = [5], l_Topics = [[1], [2]], l_Data = []\<rparr>]\<rparr>"

theorem convertReceipt_meta_witness:
  "\<exists>m. convertReceipt sample_geth (\<lambda>ks. ks) 0 sample_log_rct ([], []) = Ok ([sample_log_rct], [m])
     \<and> rm_Topic1s m = [''0x02''] \<and> set (rm_LogContracts m) = {''05''}"
proof -
  have "\<exists>c. convertReceipt sample_geth (\<lambda>ks. ks) 0 sample_log_rct ([], []) = Ok c"
    by (simp add: convertReceipt_def sample_defs sample_log_rct_def addLog_def addTopic_def Let_def)
  then obtain rs ms where c: "convertReceipt sample_geth (\<lambda>ks. ks) 0 sample_log_rct ([], []) = Ok (rs, ms)"
    by auto
  have "Hash_Hex [2] = ''0x02''" "hex_EncodeToString [5] = ''05''" by code_simp+
  moreover have "r_Logs sample_log_rct = [\<lparr>l_Address = [5], l_Topics = [[1], [2]], l_Data = []\<rparr>]"
    "Address_Hex sample_geth a = hex_EncodeToString a" for a
    by (simp_all add: sample_defs sample_log_rct_def)
  ultimately show ?thesis using convertReceipt_meta [OF c] c by auto
qed

end
