(* ===== verification/Sql_Tx.thy ===== *)
theory Sql_Tx
  imports Go_Strings
begin

text \<open>
  Database transactions as the code uses them (\<open>Beginx\<close>, statements, and the deferred function that
  rolls back or commits). A statement either changes the tables seen by the transaction or fails;
  a failed statement aborts the transaction: Postgres refuses every later statement and turns the
  final \<open>COMMIT\<close> into a rollback. A commit also fails when a deferred constraint does not hold.
  Which statements fail for other reasons (connection, time-out) is given by a script of faults,
  one entry for \<open>BEGIN\<close>, one per statement and one for \<open>COMMIT\<close>. The sequences behind \<open>SERIAL\<close> columns
  are not transactional: a rollback keeps the numbers drawn from them. A failed statement draws
  none in the model; which numbers are skipped is visible nowhere else.

  The deferred function looks at the error variable of the function's own scope. An error that
  was returned out of an inner scope (\<open>if err := ...\<close>) left that variable nil: the deferred function
  then commits. The functions have unnamed results, so an error of \<open>COMMIT\<close>, assigned to that
  variable by the deferred function, never reaches the caller.
\<close>

record ('db, 'sq) sql_tx =
  tx_db :: 'db
  tx_seq :: 'sq
  tx_aborted :: bool
  tx_faults :: "bool list"

type_synonym ('db, 'sq, 'a) stmt = "'sq \<Rightarrow> 'db \<Rightarrow> ('a \<times> 'db \<times> 'sq) outcome"
type_synonym ('db, 'sq, 'a) txm = "('db, 'sq) sql_tx \<Rightarrow> 'a outcome \<times> ('db, 'sq) sql_tx"

definition next_fault :: "bool list \<Rightarrow> bool" where
  "next_fault fs = (case fs of [] \<Rightarrow> False | f # _ \<Rightarrow> f)"

definition sql_exec :: "('db, 'sq, 'a) stmt \<Rightarrow> ('db, 'sq, 'a) txm" where
  "sql_exec stmt tx =
     (if tx_aborted tx then (Err (Errorf ''pq: current transaction is aborted'' []), tx)
      else if next_fault (tx_faults tx)
      then (Err (Errorf ''pq: statement failed'' []), tx\<lparr>tx_aborted := True, tx_faults := tl (tx_faults tx)\<rparr>)
      else (case stmt (tx_seq tx) (tx_db tx) of
              Ok (r, db, sq) \<Rightarrow> (Ok r, tx\<lparr>tx_db := db, tx_seq := sq, tx_faults := tl (tx_faults tx)\<rparr>)
            | Err e \<Rightarrow> (Err e, tx\<lparr>tx_aborted := True, tx_faults := tl (tx_faults tx)\<rparr>)
            | Panic p \<Rightarrow> (Panic p, tx)))"

definition tx_return :: "'a \<Rightarrow> ('db, 'sq, 'a) txm" where
  "tx_return x tx = (Ok x, tx)"

definition tx_lift :: "'a outcome \<Rightarrow> ('db, 'sq, 'a) txm" where
  "tx_lift r tx = (r, tx)"

definition tx_bind :: "('db, 'sq, 'a) txm \<Rightarrow> ('a \<Rightarrow> ('db, 'sq, 'b) txm) \<Rightarrow> ('db, 'sq, 'b) txm" where
  "tx_bind m f tx =
     (case m tx of
        (Ok x, tx') \<Rightarrow> f x tx'
      | (Err e, tx') \<Rightarrow> (Err e, tx')
      | (Panic p, tx') \<Rightarrow> (Panic p, tx'))"

fun tx_for :: "(nat \<Rightarrow> 'x \<Rightarrow> ('db, 'sq, unit) txm) \<Rightarrow> nat \<Rightarrow> 'x list \<Rightarrow> ('db, 'sq, unit) txm" where
  "tx_for f i [] = tx_return ()"
| "tx_for f i (x # xs) = tx_bind (f i x) (\<lambda>_. tx_for f (i + 1) xs)"

subsection \<open>The body of a transactional function\<close>

text \<open>
  A body ends with what it returns and with whether the function-scope error variable is set.
\<close>

type_synonym ('db, 'sq, 'r) body = "('db, 'sq) sql_tx \<Rightarrow> ('r outcome \<times> bool) \<times> ('db, 'sq) sql_tx"

text \<open>\<open>x, err := m; if err != nil { return err }\<close> in the function's own scope.\<close>

definition outer_err :: "('db, 'sq, 'a) txm \<Rightarrow> ('a \<Rightarrow> ('db, 'sq, 'r) body) \<Rightarrow> ('db, 'sq, 'r) body" where
  "outer_err m f tx =
     (case m tx of
        (Ok x, tx') \<Rightarrow> f x tx'
      | (Err e, tx') \<Rightarrow> ((Err e, True), tx')
      | (Panic p, tx') \<Rightarrow> ((Panic p, False), tx'))"

text \<open>\<open>if err := m; err != nil { return err }\<close>: the error variable is a new one.\<close>

definition inner_err :: "('db, 'sq, 'a) txm \<Rightarrow> ('a \<Rightarrow> ('db, 'sq, 'r) body) \<Rightarrow> ('db, 'sq, 'r) body" where
  "inner_err m f tx =
     (case m tx of
        (Ok x, tx') \<Rightarrow> f x tx'
      | (Err e, tx') \<Rightarrow> ((Err e, False), tx')
      | (Panic p, tx') \<Rightarrow> ((Panic p, False), tx'))"

definition body_return :: "'r \<Rightarrow> ('db, 'sq, 'r) body" where
  "body_return r tx = ((Ok r, False), tx)"

text \<open>
  \<open>Beginx\<close>, the body, and the deferred function: roll back and re-panic on a panic, roll back when
  the error variable is set, commit otherwise. \<open>deferred\<close> are the constraints checked at commit.
\<close>

definition begin_tx :: "bool list \<Rightarrow> 'sq \<Rightarrow> 'db \<Rightarrow> ('db, 'sq) sql_tx" where
  "begin_tx faults sq db = \<lparr>tx_db = db, tx_seq = sq, tx_aborted = False, tx_faults = tl faults\<rparr>"

definition commits :: "('db \<Rightarrow> bool) \<Rightarrow> ('db, 'sq) sql_tx \<Rightarrow> bool" where
  "commits deferred tx \<longleftrightarrow> \<not> tx_aborted tx \<and> \<not> next_fault (tx_faults tx) \<and> deferred (tx_db tx)"

definition run_tx ::
    "('db \<Rightarrow> bool) \<Rightarrow> bool list \<Rightarrow> ('db, 'sq, 'r) body \<Rightarrow> 'sq \<Rightarrow> 'db \<Rightarrow> 'r outcome \<times> 'db \<times> 'sq" where
  "run_tx deferred faults body sq db =
     (if next_fault faults then (Err (Errorf ''pq: begin failed'' []), db, sq)
      else case body (begin_tx faults sq db) of
        ((Panic p, _), tx) \<Rightarrow> (Panic p, db, tx_seq tx)
      | ((r, True), tx) \<Rightarrow> (r, db, tx_seq tx)
      | ((r, False), tx) \<Rightarrow> (r, if commits deferred tx then tx_db tx else db, tx_seq tx))"

subsection \<open>Statements that fail abort the transaction\<close>

definition sql_only :: "('db, 'sq, 'a) txm \<Rightarrow> bool" where
  "sql_only m \<longleftrightarrow> (\<forall>tx. case m tx of (Err e, tx') \<Rightarrow> tx_aborted tx' | _ \<Rightarrow> True)"

named_theorems sql_only_intros \<open>computations in which only statements fail\<close>

lemma sql_only_exec [sql_only_intros]: "sql_only (sql_exec stmt)"
  by (auto simp: sql_only_def sql_exec_def split: outcome.splits)

lemma sql_only_return [sql_only_intros]: "sql_only (tx_return x)"
  by (simp add: sql_only_def tx_return_def)

lemma sql_only_lift_Ok [sql_only_intros]: "(\<And>e. r \<noteq> Err e) \<Longrightarrow> sql_only (tx_lift r)"
  by (cases r) (auto simp: sql_only_def tx_lift_def)

lemma sql_only_bind [sql_only_intros]:
  assumes "sql_only m" "\<And>x. sql_only (f x)"
  shows "sql_only (tx_bind m f)"
  unfolding sql_only_def
proof
  fix tx
  show "case tx_bind m f tx of (Err e, tx') \<Rightarrow> tx_aborted tx' | _ \<Rightarrow> True"
    using assms
    by (cases "m tx") (auto simp: tx_bind_def sql_only_def split: outcome.splits prod.splits
      dest!: spec [of _ tx])
qed

lemma sql_only_for [sql_only_intros]: "(\<And>i x. sql_only (f i x)) \<Longrightarrow> sql_only (tx_for f j xs)"
  by (induction xs arbitrary: j) (auto intro: sql_only_intros)

lemma sql_only_option [sql_only_intros]:
  "sql_only a \<Longrightarrow> (\<And>y. sql_only (f y)) \<Longrightarrow> sql_only (case x of None \<Rightarrow> a | Some y \<Rightarrow> f y)"
  by (cases x) simp_all

subsection \<open>The contract of a transactional body\<close>

text \<open>
  A body that leaves with an error has either set the function-scope error variable or aborted
  the transaction. Then the whole function is atomic: an error means that the tables are as they
  were, and so does a panic.
\<close>

definition error_rolls_back :: "('db, 'sq, 'r) body \<Rightarrow> bool" where
  "error_rolls_back body \<longleftrightarrow>
     (\<forall>tx. case body tx of ((Err e, outer), tx') \<Rightarrow> outer \<or> tx_aborted tx' | _ \<Rightarrow> True)"

named_theorems rolls_back_intros \<open>bodies whose error exits roll back\<close>

lemma rolls_back_outer [rolls_back_intros]:
  "(\<And>x. error_rolls_back (f x)) \<Longrightarrow> error_rolls_back (outer_err m f)"
  by (auto simp: error_rolls_back_def outer_err_def split: outcome.splits prod.splits)
     (metis (no_types, lifting) case_prod_conv outcome.simps(11))

lemma rolls_back_inner [rolls_back_intros]:
  assumes "sql_only m" "\<And>x. error_rolls_back (f x)"
  shows "error_rolls_back (inner_err m f)"
  unfolding error_rolls_back_def
proof
  fix tx
  obtain r tx' where m: "m tx = (r, tx')" by (cases "m tx")
  show "case inner_err m f tx of ((Err e, outer), tx') \<Rightarrow> outer \<or> tx_aborted tx' | _ \<Rightarrow> True"
  proof (cases r)
    case (Ok x)
    then show ?thesis using assms(2) [of x] m by (simp add: inner_err_def error_rolls_back_def)
  next
    case (Err e)
    then show ?thesis using assms(1) m unfolding sql_only_def inner_err_def
      by (auto dest!: spec [of _ tx])
  next
    case (Panic p)
    then show ?thesis using m by (simp add: inner_err_def)
  qed
qed

lemma rolls_back_return [rolls_back_intros]: "error_rolls_back (body_return r)"
  by (simp add: error_rolls_back_def body_return_def)

locale transactional =
  fixes body :: "('db, 'sq, 'r) body"
  assumes rolls_back: "error_rolls_back body"
begin

lemma changed_committed:
  assumes "run_tx deferred faults body sq db = (r, db', sq')" "db' \<noteq> db"
  obtains x tx where "r = Ok x" "body (begin_tx faults sq db) = ((Ok x, False), tx)"
    "db' = tx_db tx" "deferred db'"
proof -
  obtain s outer tx where b: "body (begin_tx faults sq db) = ((s, outer), tx)" by (metis surj_pair)
  have "case body (begin_tx faults sq db) of ((Err e, outer), tx') \<Rightarrow> outer \<or> tx_aborted tx' | _ \<Rightarrow> True"
    using rolls_back unfolding error_rolls_back_def by (rule spec)
  with b assms that show ?thesis
    by (cases outer; cases s) (auto simp: run_tx_def commits_def split: if_splits)
qed

lemma error_keeps_db: "run_tx deferred faults body sq db = (Err e, db', sq') \<Longrightarrow> db' = db"
  by (metis changed_committed outcome.distinct(1))

lemma panic_keeps_db: "run_tx deferred faults body sq db = (Panic p, db', sq') \<Longrightarrow> db' = db"
  by (metis changed_committed outcome.distinct(3))

end

subsection \<open>Invariants of tables and sequences\<close>

text \<open>
  A computation keeps an invariant of sequences and tables when, besides, the tables before it
  still fit the sequences after it: that is what a rollback leaves behind.
\<close>

definition tx_keeps :: "('sq \<Rightarrow> 'db \<Rightarrow> bool) \<Rightarrow> ('db, 'sq, 'a) txm \<Rightarrow> bool" where
  "tx_keeps invar m \<longleftrightarrow> (\<forall>tx db0. invar (tx_seq tx) (tx_db tx) \<and> invar (tx_seq tx) db0 \<longrightarrow>
     invar (tx_seq (snd (m tx))) (tx_db (snd (m tx))) \<and> invar (tx_seq (snd (m tx))) db0)"

definition stmt_keeps :: "('sq \<Rightarrow> 'db \<Rightarrow> bool) \<Rightarrow> ('db, 'sq, 'a) stmt \<Rightarrow> bool" where
  "stmt_keeps invar st \<longleftrightarrow> (\<forall>sq db x db' sq' db0. st sq db = Ok (x, db', sq') \<longrightarrow> invar sq db \<longrightarrow> invar sq db0 \<longrightarrow>
     invar sq' db' \<and> invar sq' db0)"

definition body_keeps :: "('sq \<Rightarrow> 'db \<Rightarrow> bool) \<Rightarrow> ('db, 'sq, 'r) body \<Rightarrow> bool" where
  "body_keeps invar b \<longleftrightarrow> (\<forall>tx db0. invar (tx_seq tx) (tx_db tx) \<and> invar (tx_seq tx) db0 \<longrightarrow>
     invar (tx_seq (snd (b tx))) (tx_db (snd (b tx))) \<and> invar (tx_seq (snd (b tx))) db0)"

named_theorems keeps_intros \<open>computations that keep an invariant\<close>

lemma keeps_exec [keeps_intros]: "stmt_keeps invar st \<Longrightarrow> tx_keeps invar (sql_exec st)"
  unfolding tx_keeps_def stmt_keeps_def sql_exec_def
  by (auto split: outcome.split)

lemma keeps_return [keeps_intros]: "tx_keeps invar (tx_return x)"
  by (simp add: tx_keeps_def tx_return_def)

lemma keeps_lift [keeps_intros]: "tx_keeps invar (tx_lift r)"
  by (simp add: tx_keeps_def tx_lift_def)

lemma keeps_bind [keeps_intros]:
  fixes invar :: "'sq \<Rightarrow> 'db \<Rightarrow> bool" and m :: "('db, 'sq, 'a) txm"
  assumes "tx_keeps invar m" "\<And>x. tx_keeps invar (f x)"
  shows "tx_keeps invar (tx_bind m f)"
  unfolding tx_keeps_def
proof (intro allI impI)
  fix tx :: "('db, 'sq) sql_tx" and db0
  assume pre: "invar (tx_seq tx) (tx_db tx) \<and> invar (tx_seq tx) db0"
  obtain r tx' where m: "m tx = (r, tx')" by (cases "m tx")
  with pre assms(1) have mid: "invar (tx_seq tx') (tx_db tx') \<and> invar (tx_seq tx') db0"
    by (metis tx_keeps_def snd_conv)
  show "invar (tx_seq (snd (tx_bind m f tx))) (tx_db (snd (tx_bind m f tx)))
    \<and> invar (tx_seq (snd (tx_bind m f tx))) db0"
  proof (cases r)
    case (Ok x)
    with m have "tx_bind m f tx = f x tx'" by (simp add: tx_bind_def)
    with mid assms(2) [of x] show ?thesis unfolding tx_keeps_def by metis
  qed (use m mid in \<open>simp_all add: tx_bind_def\<close>)
qed

lemma keeps_for [keeps_intros]:
  "(\<And>i x. x \<in> set xs \<Longrightarrow> tx_keeps invar (f i x)) \<Longrightarrow> tx_keeps invar (tx_for f j xs)"
  by (induction xs arbitrary: j) (auto intro: keeps_intros)

lemma keeps_option [keeps_intros]:
  "tx_keeps invar a \<Longrightarrow> (\<And>y. tx_keeps invar (f y)) \<Longrightarrow> tx_keeps invar (case x of None \<Rightarrow> a | Some y \<Rightarrow> f y)"
  by (cases x) simp_all

lemma keeps_if [keeps_intros]:
  "tx_keeps invar a \<Longrightarrow> tx_keeps invar b \<Longrightarrow> tx_keeps invar (if c then a else b)"
  by simp

lemma body_keeps_outer [keeps_intros]:
  fixes invar :: "'sq \<Rightarrow> 'db \<Rightarrow> bool" and m :: "('db, 'sq, 'a) txm"
  assumes "tx_keeps invar m" "\<And>x. body_keeps invar (f x)"
  shows "body_keeps invar (outer_err m f)"
  unfolding body_keeps_def
proof (intro allI impI)
  fix tx :: "('db, 'sq) sql_tx" and db0
  assume pre: "invar (tx_seq tx) (tx_db tx) \<and> invar (tx_seq tx) db0"
  obtain r tx' where m: "m tx = (r, tx')" by (cases "m tx")
  with pre assms(1) have mid: "invar (tx_seq tx') (tx_db tx') \<and> invar (tx_seq tx') db0"
    by (metis tx_keeps_def snd_conv)
  show "invar (tx_seq (snd (outer_err m f tx))) (tx_db (snd (outer_err m f tx)))
    \<and> invar (tx_seq (snd (outer_err m f tx))) db0"
  proof (cases r)
    case (Ok x)
    with m have "outer_err m f tx = f x tx'" by (simp add: outer_err_def)
    with mid assms(2) [of x] show ?thesis unfolding body_keeps_def by metis
  qed (use m mid in \<open>simp_all add: outer_err_def\<close>)
qed

lemma inner_outer_state: "snd (inner_err m f tx) = snd (outer_err m f tx)"
  by (simp add: inner_err_def outer_err_def split: outcome.splits prod.splits)

lemma body_keeps_inner [keeps_intros]:
  assumes "tx_keeps invar m" "\<And>x. body_keeps invar (f x)"
  shows "body_keeps invar (inner_err m f)"
  using body_keeps_outer [OF assms] unfolding body_keeps_def inner_outer_state .

lemma body_keeps_return [keeps_intros]: "body_keeps invar (body_return r)"
  by (simp add: body_keeps_def body_return_def)

text \<open>A part of the tables that a computation does not touch.\<close>

definition view_is :: "('db \<Rightarrow> 'v) \<Rightarrow> 'v \<Rightarrow> 'sq \<Rightarrow> 'db \<Rightarrow> bool" where
  "view_is f v sq db \<longleftrightarrow> f db = v"

lemma tx_keeps_view: "tx_keeps (view_is f (f (tx_db tx))) m \<Longrightarrow> m tx = (r, tx') \<Longrightarrow> f (tx_db tx') = f (tx_db tx)"
  unfolding tx_keeps_def view_is_def by (metis snd_conv)

lemma body_keeps_view: "body_keeps (view_is f (f (tx_db tx))) b \<Longrightarrow> b tx = (r, tx') \<Longrightarrow> f (tx_db tx') = f (tx_db tx)"
  unfolding body_keeps_def view_is_def by (metis snd_conv)

lemma outer_err_Ok:
  assumes "outer_err m f tx = ((Ok x, False), tx')"
  obtains y tx1 where "m tx = (Ok y, tx1)" "f y tx1 = ((Ok x, False), tx')"
  using assms by (auto simp: outer_err_def split: outcome.splits prod.splits)

lemma tx_bind_Ok:
  assumes "tx_bind m f tx = (Ok x, tx')"
  obtains y tx1 where "m tx = (Ok y, tx1)" "f y tx1 = (Ok x, tx')"
  using assms by (auto simp: tx_bind_def split: outcome.splits prod.splits)

lemma sql_exec_Ok:
  assumes "sql_exec st tx = (Ok x, tx')"
  obtains db sq where "st (tx_seq tx) (tx_db tx) = Ok (x, db, sq)" "tx_db tx' = db" "tx_seq tx' = sq"
  using assms by (auto simp: sql_exec_def split: outcome.splits if_splits)

lemma inner_err_Ok:
  assumes "inner_err m f tx = ((Ok x, False), tx')"
  obtains y tx1 where "m tx = (Ok y, tx1)" "f y tx1 = ((Ok x, False), tx')"
  using assms by (auto simp: inner_err_def split: outcome.splits prod.splits)

lemma stmt_keeps_via_view: "(\<And>v. stmt_keeps (view_is f v) st) \<Longrightarrow> stmt_keeps (\<lambda>_ db. P (f db)) st"
  unfolding stmt_keeps_def view_is_def by metis

lemma tx_keeps_plain: "tx_keeps (\<lambda>_. P) m \<Longrightarrow> P (tx_db tx) \<Longrightarrow> m tx = (r, tx') \<Longrightarrow> P (tx_db tx')"
  unfolding tx_keeps_def by (drule spec [of _ tx]) auto

lemma all_less_Suc_split: "(\<forall>j<Suc n. P j) \<longleftrightarrow> P 0 \<and> (\<forall>j<n. P (Suc j))"
  by (auto simp: less_Suc_eq_0_disj)

text \<open>A loop whose every turn establishes something for its element that the later turns keep.\<close>

lemma tx_for_establishes_nth:
  assumes "tx_for f i xs tx = (Ok u, tx')"
    and "\<And>j x tx tx' u. f j x tx = (Ok u, tx') \<Longrightarrow> Q j x (tx_db tx')"
    and "\<And>k x y j. tx_keeps (\<lambda>_. Q k x) (f j y)"
  shows "\<forall>j<length xs. Q (i + j) (xs ! j) (tx_db tx')"
  using assms(1)
proof (induction xs arbitrary: i tx)
  case (Cons x xs)
  obtain v tx1 where step: "f i x tx = (Ok v, tx1)" and rest: "tx_for f (i + 1) xs tx1 = (Ok u, tx')"
    using Cons.prems by (auto elim: tx_bind_Ok)
  have "Q i x (tx_db tx1)" by (rule assms(2) [OF step])
  moreover have "tx_keeps (\<lambda>_. Q i x) (tx_for f (i + 1) xs)" by (rule keeps_for) (rule assms(3))
  ultimately have "Q i x (tx_db tx')" using rest tx_keeps_plain by blast
  with Cons.IH [OF rest] show ?case by (simp add: all_less_Suc_split)
qed simp

lemma tx_for_establishes:
  assumes "tx_for f i xs tx = (Ok u, tx')"
    and "\<And>j x tx tx' u. f j x tx = (Ok u, tx') \<Longrightarrow> Q x (tx_db tx')"
    and "\<And>x y j. tx_keeps (\<lambda>_. Q x) (f j y)"
  shows "\<forall>x\<in>set xs. Q x (tx_db tx')"
  using tx_for_establishes_nth [of f i xs tx u tx' "\<lambda>_. Q"] assms by (auto simp: in_set_conv_nth)

lemma run_tx_keeps:
  assumes "body_keeps invar body" "invar sq db" "run_tx deferred faults body sq db = (r, db', sq')"
  shows "invar sq' db'"
proof -
  obtain s outer tx where b: "body (begin_tx faults sq db) = ((s, outer), tx)" by (metis surj_pair)
  have "invar (tx_seq tx) (tx_db tx) \<and> invar (tx_seq tx) db"
    using assms(1,2) b unfolding body_keeps_def
    by (metis (no_types, lifting) begin_tx_def snd_conv sql_tx.select_convs(1,2))
  with assms(2,3) b show ?thesis
    by (cases outer; cases s) (auto simp: run_tx_def split: if_splits)
qed

end
