(* ===== verification/Sql_Table.thy ===== *)
theory Sql_Table
  imports Sql_Tx "HOL-Library.AList"
begin

text \<open>
  Tables with a \<open>SERIAL\<close> primary key and one \<open>UNIQUE\<close> key, and the statement forms the program uses
  on them: \<open>INSERT ... ON CONFLICT (key) DO UPDATE ... RETURNING id\<close>, \<open>ON CONFLICT DO NOTHING\<close> on the
  block store, and \<open>DELETE\<close>; with the checks of the column types (\<open>VARCHAR(66)\<close>, \<open>INTEGER\<close>, \<open>BIGINT\<close>,
  \<open>NUMERIC\<close>). Text that goes into a numeric column is read as an integer, the only numbers the code
  prints; a \<open>uint64\<close> argument with its high bit set is refused by \<open>database/sql\<close> on the client's side.
\<close>

subsection \<open>Column types\<close>

definition pg_varchar66 :: "string \<Rightarrow> string outcome" where
  "pg_varchar66 s = (if length s \<le> 66 then Ok s else Err (Errorf ''pq: value too long for type character varying(66)'' []))"

definition pg_int4 :: "int \<Rightarrow> int outcome" where
  "pg_int4 n = (if - 2147483648 \<le> n \<and> n \<le> 2147483647 then Ok n else Err (Errorf ''pq: integer out of range'' []))"

definition pg_numeric :: "string \<Rightarrow> string outcome" where
  "pg_numeric s = (case big_SetString s of
     None \<Rightarrow> Err (Errorf ''pq: invalid input syntax for type numeric'' []) | Some n \<Rightarrow> Ok (big_String n))"

definition pg_bigint :: "string \<Rightarrow> string outcome" where
  "pg_bigint s = (case big_SetString s of
     None \<Rightarrow> Err (Errorf ''pq: invalid input syntax for type bigint'' [])
   | Some n \<Rightarrow> if - (2 ^ 63) \<le> n \<and> n < 2 ^ 63 then Ok (big_String n)
       else Err (Errorf ''pq: value out of range for type bigint'' []))"

definition driver_uint64 :: "u64 \<Rightarrow> int outcome" where
  "driver_uint64 u = (if unat u < 2 ^ 63 then Ok (uint u)
     else Err (Errorf ''sql: converting argument: uint64 values with high bit set are not supported'' []))"

lemma pg_varchar66_Ok [simp]: "pg_varchar66 s = Ok t \<longleftrightarrow> length s \<le> 66 \<and> t = s"
  by (auto simp: pg_varchar66_def)

lemma pg_int4_Ok [simp]: "pg_int4 n = Ok m \<longleftrightarrow> - 2147483648 \<le> n \<and> n \<le> 2147483647 \<and> m = n"
  by (auto simp: pg_int4_def)

lemma pg_bigint_String [simp]: "pg_bigint (big_String n) = Ok s \<longleftrightarrow> - (2 ^ 63) \<le> n \<and> n < 2 ^ 63 \<and> s = big_String n"
  by (auto simp: pg_bigint_def)

lemma pg_numeric_String [simp]: "pg_numeric (big_String n) = Ok (big_String n)"
  by (simp add: pg_numeric_def)

lemma pg_bigint_OkD: "pg_bigint s = Ok t \<Longrightarrow> \<exists>n. big_SetString s = Some n \<and> t = big_String n \<and> - (2 ^ 63) \<le> n \<and> n < 2 ^ 63"
  by (auto simp: pg_bigint_def split: option.splits if_splits)

subsection \<open>Upsert\<close>

text \<open>
  \<open>same\<close> says which row has the key of the new one, \<open>upd\<close> is the \<open>DO UPDATE\<close>, \<open>mk\<close> the new row with its
  id, \<open>n\<close> the sequence. The default \<open>nextval\<close> is drawn before the conflict is found.
\<close>

definition upsert ::
    "('row \<Rightarrow> int) \<Rightarrow> ('row \<Rightarrow> bool) \<Rightarrow> ('row \<Rightarrow> 'row outcome) \<Rightarrow> (int \<Rightarrow> 'row) \<Rightarrow> int \<Rightarrow> 'row list
     \<Rightarrow> (int \<times> 'row list \<times> int) outcome" where
  "upsert rid same upd mk n rows =
     (if 2147483647 < n then Err (Errorf ''pq: nextval: reached maximum value of sequence'' [])
      else case find same rows of
        None \<Rightarrow> Ok (n, rows @ [mk n], n + 1)
      | Some r \<Rightarrow> outcome_bind (upd r) (\<lambda>r'. Ok (rid r, map (\<lambda>x. if same x then r' else x) rows, n + 1)))"

definition table_ok :: "('row \<Rightarrow> int) \<Rightarrow> ('row \<Rightarrow> 'key) \<Rightarrow> int \<Rightarrow> 'row list \<Rightarrow> bool" where
  "table_ok rid key n rows \<longleftrightarrow> distinct (map rid rows) \<and> distinct (map key rows) \<and> (\<forall>r\<in>set rows. rid r < n)"

lemma table_ok_empty [simp]: "table_ok rid key n []"
  by (simp add: table_ok_def)

lemma table_ok_mono: "table_ok rid key n rows \<Longrightarrow> n \<le> m \<Longrightarrow> table_ok rid key m rows"
  by (auto simp: table_ok_def)

lemma table_ok_filter: "table_ok rid key n rows \<Longrightarrow> table_ok rid key n (filter P rows)"
  by (auto simp: table_ok_def distinct_map_filter)

lemma table_ok_map:
  assumes "table_ok rid key n rows" "\<And>r. r \<in> set rows \<Longrightarrow> rid (f r) = rid r \<and> key (f r) = key r"
  shows "table_ok rid key n (map f rows)"
proof -
  have "map rid (map f rows) = map rid rows" "map key (map f rows) = map key rows"
    using assms(2) by simp_all
  moreover have "\<forall>r\<in>set (map f rows). rid r < n"
    using assms by (auto simp: table_ok_def)
  ultimately show ?thesis using assms(1) unfolding table_ok_def by metis
qed

lemma table_ok_key_unique:
  "table_ok rid key n rows \<Longrightarrow> r \<in> set rows \<Longrightarrow> r' \<in> set rows \<Longrightarrow> key r = key r' \<Longrightarrow> r = r'"
  by (metis table_ok_def distinct_map inj_on_eq_iff)

lemma table_ok_id_unique:
  "table_ok rid key n rows \<Longrightarrow> r \<in> set rows \<Longrightarrow> r' \<in> set rows \<Longrightarrow> rid r = rid r' \<Longrightarrow> r = r'"
  by (metis table_ok_def distinct_map inj_on_eq_iff)

text \<open>
  The contract of an upsert: \<open>same\<close> compares with the key \<open>k\<close>, the new row has that key and its
  number, and the update changes neither key nor number.
\<close>

locale upsert_row =
  fixes rid :: "'row \<Rightarrow> int" and key :: "'row \<Rightarrow> 'key" and same :: "'row \<Rightarrow> bool"
    and upd :: "'row \<Rightarrow> 'row outcome" and mk :: "int \<Rightarrow> 'row" and k :: 'key
  assumes same_iff: "same r \<longleftrightarrow> key r = k"
    and upd_keeps: "upd r = Ok r' \<Longrightarrow> rid r' = rid r \<and> key r' = key r"
    and mk_row: "rid (mk n) = n" "key (mk n) = k"
begin

lemma upsert_fresh:
  assumes "k \<notin> key ` set rows" "n \<le> 2147483647"
  shows "upsert rid same upd mk n rows = Ok (n, rows @ [mk n], n + 1)"
proof -
  have "find same rows = None" using assms(1) by (auto simp: find_None_iff same_iff)
  with assms(2) show ?thesis by (simp add: upsert_def)
qed

lemma upsert_cases:
  assumes "upsert rid same upd mk n rows = Ok (i, rows', n')"
  obtains (new) "k \<notin> key ` set rows" "i = n" "rows' = rows @ [mk n]" "n' = n + 1"
    | (old) r r' where "r \<in> set rows" "key r = k" "upd r = Ok r'" "i = rid r"
        "rows' = map (\<lambda>x. if key x = k then r' else x) rows" "n' = n + 1"
proof (cases "find same rows")
  case None
  then have "k \<notin> key ` set rows" by (auto simp: find_None_iff same_iff)
  with None assms new show ?thesis by (auto simp: upsert_def split: if_splits)
next
  case (Some r)
  then have "r \<in> set rows" "key r = k" by (auto simp: find_Some_iff same_iff)
  with Some assms old show ?thesis by (auto simp: upsert_def same_iff split: if_splits)
qed

lemma upsert_appends:
  assumes "upsert rid same upd mk n rows = Ok (i, rows', n')" "k \<notin> key ` set rows"
  shows "i = n \<and> rows' = rows @ [mk n] \<and> n' = n + 1 \<and> n \<le> 2147483647"
  using assms(1)
proof (cases rule: upsert_cases)
  case new
  with assms(1) show ?thesis by (auto simp: upsert_def split: if_splits)
next
  case (old r r')
  with assms(2) show ?thesis by (metis image_eqI)
qed

lemma upsert_ok:
  assumes "upsert rid same upd mk n rows = Ok (i, rows', n')" "table_ok rid key n rows"
  shows "table_ok rid key n' rows'"
  using assms(1)
proof (cases rule: upsert_cases)
  case new
  with assms(2) mk_row show ?thesis by (auto simp: table_ok_def)
next
  case (old r r')
  have "rid (if key x = k then r' else x) = rid x \<and> key (if key x = k then r' else x) = key x"
    if "x \<in> set rows" for x
    using table_ok_key_unique [OF assms(2) that old(1)] old(2) upd_keeps [OF old(3)] by auto
  then show ?thesis
    using table_ok_map [OF assms(2), of "\<lambda>x. if key x = k then r' else x"] table_ok_mono old(5,6) by fastforce
qed

lemma upsert_next: "upsert rid same upd mk n rows = Ok (i, rows', n') \<Longrightarrow> n' = n + 1"
  by (erule upsert_cases) simp_all

lemma upsert_keeps:
  assumes "upsert rid same upd mk n rows = Ok (i, rows', n')" "table_ok rid key n rows"
  shows "table_ok rid key n' rows' \<and> (table_ok rid key n rows0 \<longrightarrow> table_ok rid key n' rows0)"
  using upsert_ok [OF assms] upsert_next [OF assms(1)] by (auto intro: table_ok_mono)

text \<open>Afterwards there is one row with the key, under the returned id: the new row or the updated one.\<close>

lemma upsert_row:
  assumes "upsert rid same upd mk n rows = Ok (i, rows', n')"
  obtains r where "r \<in> set rows'" "rid r = i" "key r = k" "r = mk n \<and> k \<notin> key ` set rows
    \<or> (\<exists>r0\<in>set rows. key r0 = k \<and> upd r0 = Ok r)"
  using assms
proof (cases rule: upsert_cases)
  case new
  with that [of "mk n"] mk_row show ?thesis by simp
next
  case (old r r')
  with that [of r'] upd_keeps [OF old(3)] show ?thesis by auto
qed

text \<open>Rows with another key stay, and no others appear.\<close>

lemma upsert_frame:
  assumes "upsert rid same upd mk n rows = Ok (i, rows', n')"
  shows "filter (\<lambda>r. key r \<noteq> k) rows' = filter (\<lambda>r. key r \<noteq> k) rows"
  using assms
proof (cases rule: upsert_cases)
  case new
  with mk_row show ?thesis by simp
next
  case (old r r')
  have "key r' = k" using old(2,3) upd_keeps by metis
  then have "filter (\<lambda>r. key r \<noteq> k) (map (\<lambda>x. if key x = k then r' else x) xs) = filter (\<lambda>r. key r \<noteq> k) xs" for xs
    by (induction xs) simp_all
  with old(5) show ?thesis by simp
qed

lemma upsert_ids:
  assumes "upsert rid same upd mk n rows = Ok (i, rows', n')" "table_ok rid key n rows"
  shows "rid ` set rows' = insert i (rid ` set rows)"
  using assms(1)
proof (cases rule: upsert_cases)
  case new
  with mk_row show ?thesis by auto
next
  case (old r r')
  have "rid (if key x = k then r' else x) = rid x" if "x \<in> set rows" for x
    using table_ok_key_unique [OF assms(2) that old(1)] old(2) upd_keeps [OF old(3)] by auto
  then have "rid ` set rows' = rid ` set rows"
    unfolding old(5) set_map image_image by (rule image_cong [OF refl])
  with old(1,4) show ?thesis by auto
qed

end

subsection \<open>The block store\<close>

text \<open>\<open>INSERT INTO public.blocks ... ON CONFLICT (key) DO NOTHING\<close>\<close>

definition insert_block :: "string \<Rightarrow> bytes \<Rightarrow> (string \<times> bytes) list \<Rightarrow> (string \<times> bytes) list" where
  "insert_block key data blocks = (if map_of blocks key = None then blocks @ [(key, data)] else blocks)"

lemma insert_block_dom [simp]: "fst ` set (insert_block key data blocks) = insert key (fst ` set blocks)"
  by (auto simp: insert_block_def map_of_eq_None_iff)

lemma insert_block_kept: "map_of blocks k = Some d \<Longrightarrow> map_of (insert_block key data blocks) k = Some d"
  by (simp add: insert_block_def map_add_def)

lemma insert_block_new: "map_of blocks key = None \<Longrightarrow> map_of (insert_block key data blocks) key = Some data"
  by (simp add: insert_block_def map_add_def)

lemma insert_block_distinct: "distinct (map fst blocks) \<Longrightarrow> distinct (map fst (insert_block key data blocks))"
  by (simp add: insert_block_def map_of_eq_None_iff)

end
