(* ===== verification/Pg_DB.thy ===== *)
theory Pg_DB
  imports Sql_Table Sample_Libs
begin

text \<open>
  The database of the watcher: the tables the migrations under \<open>db/migrations\<close> create, their sequences,
  their invariant (unique ids and keys), the foreign keys that are checked at commit, the cascades
  of \<open>ON DELETE CASCADE\<close>, and the statements on \<open>public.blocks\<close> of \<open>shared/functions.go\<close>. A row is the
  model record of the code with the columns filled in.

  Foreign keys into \<open>public.blocks\<close>, the header and the transaction tables are deferred; those of
  \<open>node_id\<close> and of \<open>eth.state_accounts\<close> are checked by the statement. Postgres checks the rows a
  transaction has touched; on a database that satisfied the constraints before, that is the same as
  checking all rows, which the model does.
\<close>

record pg_db =
  db_blocks :: "(string \<times> bytes) list"
  db_nodes :: "int list"
  eth_headers :: "HeaderModel list"
  eth_uncles :: "UncleModel list"
  eth_txs :: "TxModel list"
  eth_rcts :: "ReceiptModel list"
  eth_states :: "StateNodeModel list"
  eth_storages :: "StorageNodeModel list"
  eth_accounts :: "StateAccountModel list"
  btc_headers :: "BtcHeaderModel list"
  btc_txs :: "BtcTxModel list"
  btc_inputs :: "TxInput list"
  btc_outputs :: "TxOutput list"

record pg_seq =
  sq_eth_headers :: int
  sq_eth_uncles :: int
  sq_eth_txs :: int
  sq_eth_rcts :: int
  sq_eth_states :: int
  sq_eth_storages :: int
  sq_eth_accounts :: int
  sq_btc_headers :: int
  sq_btc_txs :: int
  sq_btc_inputs :: int
  sq_btc_outputs :: int

type_synonym 'a pg_txm = "(pg_db, pg_seq, 'a) txm"
type_synonym 'a pg_stmt = "(pg_db, pg_seq, 'a) stmt"
type_synonym 'a pg_body = "(pg_db, pg_seq, 'a) body"

definition empty_db :: pg_db where
  "empty_db = \<lparr>db_blocks = [], db_nodes = [1], eth_headers = [], eth_uncles = [], eth_txs = [], eth_rcts = [],
     eth_states = [], eth_storages = [], eth_accounts = [], btc_headers = [], btc_txs = [],
     btc_inputs = [], btc_outputs = []\<rparr>"

definition empty_seq :: pg_seq where
  "empty_seq = \<lparr>sq_eth_headers = 1, sq_eth_uncles = 1, sq_eth_txs = 1, sq_eth_rcts = 1, sq_eth_states = 1,
     sq_eth_storages = 1, sq_eth_accounts = 1, sq_btc_headers = 1, sq_btc_txs = 1, sq_btc_inputs = 1,
     sq_btc_outputs = 1\<rparr>"

text \<open>What a publisher hands to an indexer (\<open>shared.CIDsForIndexing\<close>).\<close>

datatype CIDsForIndexing = EthCIDs CIDPayload | BtcCIDs BtcCIDPayload | NilCIDs

fun CIDs_T :: "CIDsForIndexing \<Rightarrow> string" where
  "CIDs_T (EthCIDs _) = ''*eth.CIDPayload''"
| "CIDs_T (BtcCIDs _) = ''*btc.CIDPayload''"
| "CIDs_T NilCIDs = ''<nil>''"

subsection \<open>Unique keys\<close>

definition header_key :: "HeaderModel \<Rightarrow> string \<times> string" where
  "header_key r = (hm_BlockNumber r, hm_BlockHash r)"

definition uncle_key :: "UncleModel \<Rightarrow> int \<times> string" where
  "uncle_key r = (um_HeaderID r, um_BlockHash r)"

definition tx_key :: "TxModel \<Rightarrow> int \<times> string" where
  "tx_key r = (tm_HeaderID r, tm_TxHash r)"

definition state_key :: "StateNodeModel \<Rightarrow> int \<times> bytes \<times> bool" where
  "state_key r = (sm_HeaderID r, sm_Path r, sm_Diff r)"

definition storage_key :: "StorageNodeModel \<Rightarrow> int \<times> bytes \<times> bool" where
  "storage_key r = (om_StateID r, om_Path r, om_Diff r)"

definition btc_header_key :: "BtcHeaderModel \<Rightarrow> string \<times> string" where
  "btc_header_key r = (bhm_BlockNumber r, bhm_BlockHash r)"

definition input_key :: "TxInput \<Rightarrow> int \<times> int" where
  "input_key r = (ti_TxID r, ti_Index r)"

definition output_key :: "TxOutput \<Rightarrow> int \<times> int" where
  "output_key r = (to_TxID r, to_Index r)"

definition eth_ok :: "pg_seq \<Rightarrow> pg_db \<Rightarrow> bool" where
  "eth_ok sq db \<longleftrightarrow>
     table_ok hm_ID header_key (sq_eth_headers sq) (eth_headers db)
   \<and> table_ok um_ID uncle_key (sq_eth_uncles sq) (eth_uncles db)
   \<and> table_ok tm_ID tx_key (sq_eth_txs sq) (eth_txs db)
   \<and> table_ok rm_ID rm_TxID (sq_eth_rcts sq) (eth_rcts db)
   \<and> table_ok sm_ID state_key (sq_eth_states sq) (eth_states db)
   \<and> table_ok om_ID storage_key (sq_eth_storages sq) (eth_storages db)
   \<and> table_ok am_ID am_StateID (sq_eth_accounts sq) (eth_accounts db)"

definition btc_ok :: "pg_seq \<Rightarrow> pg_db \<Rightarrow> bool" where
  "btc_ok sq db \<longleftrightarrow>
     table_ok bhm_ID btc_header_key (sq_btc_headers sq) (btc_headers db)
   \<and> table_ok btm_ID btm_TxHash (sq_btc_txs sq) (btc_txs db)
   \<and> table_ok ti_ID input_key (sq_btc_inputs sq) (btc_inputs db)
   \<and> table_ok to_ID output_key (sq_btc_outputs sq) (btc_outputs db)"

definition db_ok :: "pg_seq \<Rightarrow> pg_db \<Rightarrow> bool" where
  "db_ok sq db \<longleftrightarrow> distinct (map fst (db_blocks db)) \<and> eth_ok sq db \<and> btc_ok sq db"

lemmas db_ok_defs = db_ok_def eth_ok_def btc_ok_def

subsection \<open>Foreign keys checked at commit\<close>

definition stored :: "pg_db \<Rightarrow> string \<Rightarrow> bool" where
  "stored db k \<longleftrightarrow> map_of (db_blocks db) k \<noteq> None"

definition blocks_fk :: "pg_db \<Rightarrow> bool" where
  "blocks_fk db \<longleftrightarrow>
     list_all (stored db) (map hm_MhKey (eth_headers db)) \<and> list_all (stored db) (map um_MhKey (eth_uncles db))
   \<and> list_all (stored db) (map tm_MhKey (eth_txs db)) \<and> list_all (stored db) (map rm_MhKey (eth_rcts db))
   \<and> list_all (stored db) (map sm_MhKey (eth_states db)) \<and> list_all (stored db) (map om_MhKey (eth_storages db))
   \<and> list_all (stored db) (map bhm_MhKey (btc_headers db)) \<and> list_all (stored db) (map btm_MhKey (btc_txs db))"

definition rows_fk :: "pg_db \<Rightarrow> bool" where
  "rows_fk db \<longleftrightarrow>
     list_all (\<lambda>i. i \<in> set (map hm_ID (eth_headers db))) (map um_HeaderID (eth_uncles db))
   \<and> list_all (\<lambda>i. i \<in> set (map hm_ID (eth_headers db))) (map tm_HeaderID (eth_txs db))
   \<and> list_all (\<lambda>i. i \<in> set (map tm_ID (eth_txs db))) (map rm_TxID (eth_rcts db))
   \<and> list_all (\<lambda>i. i \<in> set (map hm_ID (eth_headers db))) (map sm_HeaderID (eth_states db))
   \<and> list_all (\<lambda>i. i \<in> set (map sm_ID (eth_states db))) (map om_StateID (eth_storages db))
   \<and> list_all (\<lambda>i. i \<in> set (map bhm_ID (btc_headers db))) (map btm_HeaderID (btc_txs db))
   \<and> list_all (\<lambda>i. i \<in> set (map btm_ID (btc_txs db))) (map ti_TxID (btc_inputs db))
   \<and> list_all (\<lambda>i. i \<in> set (map btm_ID (btc_txs db))) (map to_TxID (btc_outputs db))"

definition deferred_fk :: "pg_db \<Rightarrow> bool" where
  "deferred_fk db \<longleftrightarrow> blocks_fk db \<and> rows_fk db"

subsection \<open>Cascades\<close>

text \<open>
  What \<open>ON DELETE CASCADE\<close> removes, given the store and the header rows that are left: the rows
  whose block or parent row is gone, from the headers down.
\<close>

definition cascade :: "pg_db \<Rightarrow> pg_db" where
  "cascade db =
     (let hs = filter (\<lambda>r. stored db (hm_MhKey r)) (eth_headers db);
          hids = map hm_ID hs;
          us = filter (\<lambda>r. stored db (um_MhKey r) \<and> um_HeaderID r \<in> set hids) (eth_uncles db);
          ts = filter (\<lambda>r. stored db (tm_MhKey r) \<and> tm_HeaderID r \<in> set hids) (eth_txs db);
          rs = filter (\<lambda>r. stored db (rm_MhKey r) \<and> rm_TxID r \<in> set (map tm_ID ts)) (eth_rcts db);
          ss = filter (\<lambda>r. stored db (sm_MhKey r) \<and> sm_HeaderID r \<in> set hids) (eth_states db);
          os = filter (\<lambda>r. stored db (om_MhKey r) \<and> om_StateID r \<in> set (map sm_ID ss)) (eth_storages db);
          as = filter (\<lambda>r. am_StateID r \<in> set (map sm_ID ss)) (eth_accounts db);
          bhs = filter (\<lambda>r. stored db (bhm_MhKey r)) (btc_headers db);
          bts = filter (\<lambda>r. stored db (btm_MhKey r) \<and> btm_HeaderID r \<in> set (map bhm_ID bhs)) (btc_txs db);
          is = filter (\<lambda>r. ti_TxID r \<in> set (map btm_ID bts)) (btc_inputs db);
          ots = filter (\<lambda>r. to_TxID r \<in> set (map btm_ID bts)) (btc_outputs db)
      in db\<lparr>eth_headers := hs, eth_uncles := us, eth_txs := ts, eth_rcts := rs, eth_states := ss,
            eth_storages := os, eth_accounts := as, btc_headers := bhs, btc_txs := bts,
            btc_inputs := is, btc_outputs := ots\<rparr>)"

lemma cascade_blocks [simp]: "db_blocks (cascade db) = db_blocks db"
  by (simp add: cascade_def Let_def)

lemma cascade_stored [simp]: "stored (cascade db) k = stored db k"
  by (simp add: stored_def)

lemma cascade_tables:
  "eth_headers (cascade db) = filter (\<lambda>r. stored db (hm_MhKey r)) (eth_headers db)"
  "eth_uncles (cascade db)
    = filter (\<lambda>r. stored db (um_MhKey r) \<and> um_HeaderID r \<in> set (map hm_ID (eth_headers (cascade db)))) (eth_uncles db)"
  "eth_txs (cascade db)
    = filter (\<lambda>r. stored db (tm_MhKey r) \<and> tm_HeaderID r \<in> set (map hm_ID (eth_headers (cascade db)))) (eth_txs db)"
  "eth_rcts (cascade db)
    = filter (\<lambda>r. stored db (rm_MhKey r) \<and> rm_TxID r \<in> set (map tm_ID (eth_txs (cascade db)))) (eth_rcts db)"
  "eth_states (cascade db)
    = filter (\<lambda>r. stored db (sm_MhKey r) \<and> sm_HeaderID r \<in> set (map hm_ID (eth_headers (cascade db)))) (eth_states db)"
  "eth_storages (cascade db)
    = filter (\<lambda>r. stored db (om_MhKey r) \<and> om_StateID r \<in> set (map sm_ID (eth_states (cascade db)))) (eth_storages db)"
  "eth_accounts (cascade db)
    = filter (\<lambda>r. am_StateID r \<in> set (map sm_ID (eth_states (cascade db)))) (eth_accounts db)"
  "btc_headers (cascade db) = filter (\<lambda>r. stored db (bhm_MhKey r)) (btc_headers db)"
  "btc_txs (cascade db)
    = filter (\<lambda>r. stored db (btm_MhKey r) \<and> btm_HeaderID r \<in> set (map bhm_ID (btc_headers (cascade db)))) (btc_txs db)"
  "btc_inputs (cascade db) = filter (\<lambda>r. ti_TxID r \<in> set (map btm_ID (btc_txs (cascade db)))) (btc_inputs db)"
  "btc_outputs (cascade db) = filter (\<lambda>r. to_TxID r \<in> set (map btm_ID (btc_txs (cascade db)))) (btc_outputs db)"
  by (simp_all add: cascade_def Let_def)

lemma filter_eq_list_all: "xs = filter P ys \<Longrightarrow> (\<And>r. P r \<Longrightarrow> Q (f r)) \<Longrightarrow> list_all Q (map f xs)"
  by (simp add: list_all_iff)

lemma cascade_blocks_fk: "blocks_fk (cascade db)"
  unfolding blocks_fk_def
  by (intro conjI; rule filter_eq_list_all, rule cascade_tables, simp only: cascade_stored)

lemma cascade_rows_fk: "rows_fk (cascade db)"
  unfolding rows_fk_def
  by (intro conjI; rule filter_eq_list_all, rule cascade_tables, blast)

lemma cascade_fk: "deferred_fk (cascade db)"
  by (simp add: deferred_fk_def cascade_blocks_fk cascade_rows_fk)

lemma cascade_ok: "db_ok sq db \<Longrightarrow> db_ok sq (cascade db)"
  unfolding db_ok_defs cascade_blocks
  by (elim conjE, intro conjI) (assumption | subst cascade_tables, erule table_ok_filter)+

subsection \<open>IPLD blocks (shared/functions.go)\<close>

definition put_block :: "string \<Rightarrow> bytes \<Rightarrow> unit pg_stmt" where
  "put_block key data sq db = Ok ((), db\<lparr>db_blocks := insert_block key data (db_blocks db)\<rparr>, sq)"

definition PublishIPLD :: "ipfs_lib \<Rightarrow> ipld_node \<Rightarrow> unit pg_txm" where
  "PublishIPLD ipfs i =
     (let dbKey = MultihashToDsKey ipfs (cid_Hash (node_Cid i));
          prefixedKey = BlockPrefix ipfs @ dbKey
      in sql_exec (put_block prefixedKey (node_RawData i)))"

text \<open>
  \<open>PublishRaw\<close> returns the text of the cid. Its first error is that of the multihash library, on the
  client's side.
\<close>

definition PublishRaw :: "ipfs_lib \<Rightarrow> u64 \<Rightarrow> u64 \<Rightarrow> bytes \<Rightarrow> string pg_txm" where
  "PublishRaw ipfs codec mh raw =
     tx_bind (tx_lift (RawdataToCid ipfs codec raw mh)) (\<lambda>c.
       let dbKey = MultihashToDsKey ipfs (cid_Hash c);
           prefixedKey = BlockPrefix ipfs @ dbKey
       in tx_bind (sql_exec (put_block prefixedKey raw)) (\<lambda>_. tx_return (Cid_String ipfs c)))"

text \<open>\<open>tx.Get\<close> of one column: no row is \<open>sql.ErrNoRows\<close>, which does not abort the transaction.\<close>

definition get_block :: "string \<Rightarrow> bytes option pg_stmt" where
  "get_block key sq db = Ok (map_of (db_blocks db) key, db, sq)"

definition ErrNoRows :: go_error where
  "ErrNoRows = Errorf ''sql: no rows in result set'' []"

definition FetchIPLDByMhKey :: "string \<Rightarrow> bytes pg_txm" where
  "FetchIPLDByMhKey mhKey =
     tx_bind (sql_exec (get_block mhKey)) (\<lambda>r.
       tx_lift (case r of None \<Rightarrow> Err ErrNoRows | Some d \<Rightarrow> Ok d))"

definition FetchIPLD :: "ipfs_lib \<Rightarrow> string \<Rightarrow> bytes pg_txm" where
  "FetchIPLD ipfs c = tx_bind (tx_lift (MultihashKeyFromCIDString ipfs c)) FetchIPLDByMhKey"

lemma put_block_keeps [keeps_intros]: "stmt_keeps db_ok (put_block key data)"
  by (auto simp: stmt_keeps_def put_block_def db_ok_defs insert_block_distinct)

lemma PublishIPLD_keeps [keeps_intros]: "tx_keeps db_ok (PublishIPLD ipfs i)"
  unfolding PublishIPLD_def Let_def by (intro keeps_intros)

lemma PublishRaw_keeps [keeps_intros]: "tx_keeps db_ok (PublishRaw ipfs codec mh raw)"
  unfolding PublishRaw_def Let_def by (intro keeps_intros)

lemma PublishIPLD_sql_only [sql_only_intros]: "sql_only (PublishIPLD ipfs i)"
  unfolding PublishIPLD_def Let_def by (intro sql_only_intros)

text \<open>
  Content addressing: every stored block lies under the key of its hash, for one of the two hash
  functions in use.
\<close>

definition content_addressed :: "ipfs_lib \<Rightarrow> (string \<times> bytes) list \<Rightarrow> bool" where
  "content_addressed ipfs blocks \<longleftrightarrow>
     (\<forall>(k, d)\<in>set blocks. \<exists>mh h. (mh = KECCAK_256 \<or> mh = DBL_SHA2_256) \<and> mh_Sum ipfs mh d = Ok h
        \<and> k = BlockPrefix ipfs @ MultihashToDsKey ipfs h)"

lemma content_addressed_insert:
  "content_addressed ipfs blocks \<Longrightarrow> mh = KECCAK_256 \<or> mh = DBL_SHA2_256 \<Longrightarrow> mh_Sum ipfs mh d = Ok h \<Longrightarrow>
   content_addressed ipfs (insert_block (BlockPrefix ipfs @ MultihashToDsKey ipfs h) d blocks)"
  by (auto simp: content_addressed_def insert_block_def)

text \<open>A key stays stored under every statement but a deletion.\<close>

definition key_stored :: "string \<Rightarrow> pg_seq \<Rightarrow> pg_db \<Rightarrow> bool" where
  "key_stored k sq db \<longleftrightarrow> stored db k"

lemma key_stored_view: "(\<And>v. stmt_keeps (view_is db_blocks v) st) \<Longrightarrow> stmt_keeps (key_stored k) st"
  using stmt_keeps_via_view [of db_blocks st "\<lambda>bs. map_of bs k \<noteq> None"]
  by (simp add: key_stored_def [abs_def] stored_def)

lemma stored_iff: "stored db k \<longleftrightarrow> k \<in> fst ` set (db_blocks db)"
  by (auto simp: stored_def map_of_eq_None_iff)

lemma put_block_key_stored [keeps_intros]: "stmt_keeps (key_stored k) (put_block key data)"
  by (auto simp: stmt_keeps_def put_block_def key_stored_def stored_iff)

lemma PublishIPLD_stores:
  assumes "PublishIPLD ipfs i tx = (Ok u, tx')"
  shows "stored (tx_db tx') (MultihashKeyFromCID ipfs (node_Cid i))"
  using assms unfolding PublishIPLD_def Let_def
  by (elim sql_exec_Ok) (auto simp: put_block_def stored_iff MultihashKeyFromCID_def)

lemma PublishRaw_stores:
  assumes "PublishRaw ipfs codec mh raw tx = (Ok c, tx')"
  shows "\<exists>cid. RawdataToCid ipfs codec raw mh = Ok cid \<and> c = Cid_String ipfs cid
    \<and> stored (tx_db tx') (MultihashKeyFromCID ipfs cid)"
  using assms unfolding PublishRaw_def Let_def
  by (elim tx_bind_Ok sql_exec_Ok)
     (auto simp: tx_lift_def tx_return_def put_block_def stored_iff MultihashKeyFromCID_def)

definition addressed :: "ipfs_lib \<Rightarrow> pg_seq \<Rightarrow> pg_db \<Rightarrow> bool" where
  "addressed ipfs sq db \<longleftrightarrow> content_addressed ipfs (db_blocks db)"

lemma addressed_view: "(\<And>v. stmt_keeps (view_is db_blocks v) st) \<Longrightarrow> stmt_keeps (addressed ipfs) st"
  using stmt_keeps_via_view [of db_blocks st "content_addressed ipfs"]
  by (simp add: addressed_def [abs_def])

lemma put_block_addressed:
  "mh = KECCAK_256 \<or> mh = DBL_SHA2_256 \<Longrightarrow> mh_Sum ipfs mh d = Ok h \<Longrightarrow>
   stmt_keeps (addressed ipfs) (put_block (BlockPrefix ipfs @ MultihashToDsKey ipfs h) d)"
  by (auto simp: stmt_keeps_def put_block_def addressed_def intro: content_addressed_insert)

lemma PublishIPLD_addressed:
  assumes "RawdataToCid ipfs codec (node_RawData i) mh = Ok (node_Cid i)" "mh = KECCAK_256 \<or> mh = DBL_SHA2_256"
  shows "tx_keeps (addressed ipfs) (PublishIPLD ipfs i)"
  unfolding PublishIPLD_def Let_def
  using assms by (intro keeps_intros put_block_addressed) (auto simp: RawdataToCid_Ok_iff)

lemma tx_keeps_bind_lift:
  "(\<And>x. r = Ok x \<Longrightarrow> tx_keeps I (f x)) \<Longrightarrow> tx_keeps I (tx_bind (tx_lift r) f)"
  unfolding tx_keeps_def by (cases r) (auto simp: tx_bind_def tx_lift_def)

lemma PublishRaw_addressed [keeps_intros]: "tx_keeps (addressed ipfs) (PublishRaw ipfs codec KECCAK_256 raw)"
  unfolding PublishRaw_def Let_def
  by (rule tx_keeps_bind_lift) (auto intro!: keeps_intros put_block_addressed simp: RawdataToCid_Ok_iff)

lemma PublishIPLD_key_stored [keeps_intros]: "tx_keeps (key_stored k) (PublishIPLD ipfs i)"
  unfolding PublishIPLD_def Let_def by (intro keeps_intros)

lemma PublishRaw_key_stored [keeps_intros]: "tx_keeps (key_stored k) (PublishRaw ipfs codec mh raw)"
  unfolding PublishRaw_def Let_def by (intro keeps_intros)

lemma key_stored_forward:
  "tx_keeps (key_stored k) m \<Longrightarrow> m tx = (r, tx') \<Longrightarrow> stored (tx_db tx) k \<Longrightarrow> stored (tx_db tx') k"
  using tx_keeps_plain [of "\<lambda>db. stored db k" m tx r tx'] by (simp add: key_stored_def [abs_def])

text \<open>Stored blocks are never overwritten.\<close>

definition blocks_extend :: "(string \<times> bytes) list \<Rightarrow> pg_seq \<Rightarrow> pg_db \<Rightarrow> bool" where
  "blocks_extend bs sq db \<longleftrightarrow> map_of bs \<subseteq>\<^sub>m map_of (db_blocks db)"

lemma blocks_extend_view: "(\<And>v. stmt_keeps (view_is db_blocks v) st) \<Longrightarrow> stmt_keeps (blocks_extend bs) st"
  using stmt_keeps_via_view [of db_blocks st "\<lambda>b. map_of bs \<subseteq>\<^sub>m map_of b"]
  by (simp add: blocks_extend_def [abs_def])

lemma put_block_extends [keeps_intros]: "stmt_keeps (blocks_extend bs) (put_block key data)"
  by (auto simp: stmt_keeps_def put_block_def blocks_extend_def map_le_def dom_def insert_block_kept)

lemma PublishIPLD_extends [keeps_intros]: "tx_keeps (blocks_extend bs) (PublishIPLD ipfs i)"
  unfolding PublishIPLD_def Let_def by (intro keeps_intros)

lemma PublishRaw_extends [keeps_intros]: "tx_keeps (blocks_extend bs) (PublishRaw ipfs codec mh raw)"
  unfolding PublishRaw_def Let_def by (intro keeps_intros)

end
