(* ===== verification/Eth_Indexer.thy ===== *)
theory Eth_Indexer
  imports Pg_DB
begin

text \<open>
  \<open>eth/indexer.go\<close>: the statements that write a block's metadata, one upsert per row, and \<open>Index\<close>,
  which writes all of a block in one transaction. Each statement is a check of the column types
  followed by the upsert; each upsert is shown to meet the contract of \<open>Sql_Table\<close>.
\<close>

subsection \<open>Rows\<close>

text \<open>The checked new row; its id is set when it is inserted.\<close>

definition header_row :: "int \<Rightarrow> HeaderModel \<Rightarrow> HeaderModel outcome" where
  "header_row nodeID header =
     outcome_bind (pg_bigint (hm_BlockNumber header)) (\<lambda>blockNumber.
     outcome_bind (pg_varchar66 (hm_BlockHash header)) (\<lambda>_.
     outcome_bind (pg_varchar66 (hm_ParentHash header)) (\<lambda>_.
     outcome_bind (pg_numeric (hm_TotalDifficulty header)) (\<lambda>td.
     outcome_bind (pg_int4 nodeID) (\<lambda>_.
     outcome_bind (pg_numeric (hm_Reward header)) (\<lambda>reward.
     outcome_bind (outcome_map pg_varchar66
       [hm_StateRoot header, hm_TxRoot header, hm_RctRoot header, hm_UncleRoot header]) (\<lambda>_.
       Ok (header\<lparr>hm_BlockNumber := blockNumber, hm_TotalDifficulty := td, hm_NodeID := nodeID,
                  hm_Reward := reward, hm_TimesValidated := 1\<rparr>))))))))"

definition update_header :: "HeaderModel \<Rightarrow> HeaderModel \<Rightarrow> HeaderModel outcome" where
  "update_header new old =
     outcome_bind (pg_int4 (hm_TimesValidated old + 1)) (\<lambda>times.
       Ok (old\<lparr>hm_ParentHash := hm_ParentHash new, hm_CID := hm_CID new, hm_TotalDifficulty := hm_TotalDifficulty new,
               hm_NodeID := hm_NodeID new, hm_Reward := hm_Reward new, hm_StateRoot := hm_StateRoot new,
               hm_TxRoot := hm_TxRoot new, hm_RctRoot := hm_RctRoot new, hm_UncleRoot := hm_UncleRoot new,
               hm_Bloom := hm_Bloom new, hm_Timestamp := hm_Timestamp new, hm_MhKey := hm_MhKey new,
               hm_TimesValidated := times\<rparr>))"

definition insert_header :: "int \<Rightarrow> HeaderModel \<Rightarrow> int pg_stmt" where
  "insert_header nodeID header sq db =
     outcome_bind (header_row nodeID header) (\<lambda>row.
       if nodeID \<notin> set (db_nodes db) then Err (Errorf ''pq: insert violates foreign key constraint on node_id'' [])
       else outcome_bind (upsert hm_ID (\<lambda>r. header_key r = header_key row) (update_header row)
              (\<lambda>n. row\<lparr>hm_ID := n\<rparr>) (sq_eth_headers sq) (eth_headers db)) (\<lambda>(i, rows, n).
            Ok (i, db\<lparr>eth_headers := rows\<rparr>, sq\<lparr>sq_eth_headers := n\<rparr>)))"

definition indexHeaderCID :: "int \<Rightarrow> HeaderModel \<Rightarrow> int pg_txm" where
  "indexHeaderCID nodeID header =
     tx_bind (tx_lift (driver_uint64 (hm_Timestamp header))) (\<lambda>_. sql_exec (insert_header nodeID header))"

definition insert_uncle :: "UncleModel \<Rightarrow> int \<Rightarrow> unit pg_stmt" where
  "insert_uncle uncle headerID sq db =
     outcome_bind (pg_varchar66 (um_BlockHash uncle)) (\<lambda>_.
     outcome_bind (pg_int4 headerID) (\<lambda>_.
     outcome_bind (pg_varchar66 (um_ParentHash uncle)) (\<lambda>_.
     outcome_bind (pg_numeric (um_Reward uncle)) (\<lambda>reward.
     outcome_bind (upsert um_ID (\<lambda>r. uncle_key r = (headerID, um_BlockHash uncle))
       (\<lambda>old. Ok (old\<lparr>um_ParentHash := um_ParentHash uncle, um_CID := um_CID uncle, um_Reward := reward,
                      um_MhKey := um_MhKey uncle\<rparr>))
       (\<lambda>n. uncle\<lparr>um_ID := n, um_HeaderID := headerID, um_Reward := reward\<rparr>)
       (sq_eth_uncles sq) (eth_uncles db)) (\<lambda>(_, rows, n).
       Ok ((), db\<lparr>eth_uncles := rows\<rparr>, sq\<lparr>sq_eth_uncles := n\<rparr>))))))"

definition indexUncleCID :: "UncleModel \<Rightarrow> int \<Rightarrow> unit pg_txm" where
  "indexUncleCID uncle headerID = sql_exec (insert_uncle uncle headerID)"

definition insert_tx :: "TxModel \<Rightarrow> int \<Rightarrow> int pg_stmt" where
  "insert_tx trx headerID sq db =
     outcome_bind (pg_int4 headerID) (\<lambda>_.
     outcome_bind (outcome_map pg_varchar66 [tm_TxHash trx, tm_Dst trx, tm_Src trx]) (\<lambda>_.
     outcome_bind (pg_int4 (tm_Index trx)) (\<lambda>_.
     outcome_bind (upsert tm_ID (\<lambda>r. tx_key r = (headerID, tm_TxHash trx))
       (\<lambda>old. Ok (old\<lparr>tm_CID := tm_CID trx, tm_Dst := tm_Dst trx, tm_Src := tm_Src trx, tm_Index := tm_Index trx,
                      tm_MhKey := tm_MhKey trx\<rparr>))
       (\<lambda>n. trx\<lparr>tm_ID := n, tm_HeaderID := headerID\<rparr>) (sq_eth_txs sq) (eth_txs db)) (\<lambda>(i, rows, n).
       Ok (i, db\<lparr>eth_txs := rows\<rparr>, sq\<lparr>sq_eth_txs := n\<rparr>)))))"

definition indexTransactionCID :: "TxModel \<Rightarrow> int \<Rightarrow> int pg_txm" where
  "indexTransactionCID trx headerID = sql_exec (insert_tx trx headerID)"

definition insert_rct :: "ReceiptModel \<Rightarrow> int \<Rightarrow> unit pg_stmt" where
  "insert_rct rct txID sq db =
     outcome_bind (pg_int4 txID) (\<lambda>_.
     outcome_bind (outcome_map pg_varchar66 ([rm_Contract rct, rm_ContractHash rct] @ rm_Topic0s rct @ rm_Topic1s rct
       @ rm_Topic2s rct @ rm_Topic3s rct @ rm_LogContracts rct)) (\<lambda>_.
     outcome_bind (upsert rm_ID (\<lambda>r. rm_TxID r = txID)
       (\<lambda>old. Ok (rct\<lparr>rm_ID := rm_ID old, rm_TxID := rm_TxID old\<rparr>))
       (\<lambda>n. rct\<lparr>rm_ID := n, rm_TxID := txID\<rparr>) (sq_eth_rcts sq) (eth_rcts db)) (\<lambda>(_, rows, n).
       Ok ((), db\<lparr>eth_rcts := rows\<rparr>, sq\<lparr>sq_eth_rcts := n\<rparr>))))"

definition indexReceiptCID :: "ReceiptModel \<Rightarrow> int \<Rightarrow> unit pg_txm" where
  "indexReceiptCID rct txID = sql_exec (insert_rct rct txID)"

definition nullHash :: Hash where
  "nullHash = replicate 32 0"

definition insert_state :: "StateNodeModel \<Rightarrow> string \<Rightarrow> int \<Rightarrow> int pg_stmt" where
  "insert_state stateNode stateKey headerID sq db =
     outcome_bind (pg_int4 headerID) (\<lambda>_.
     outcome_bind (pg_varchar66 stateKey) (\<lambda>_.
     outcome_bind (pg_int4 (sm_NodeType stateNode)) (\<lambda>_.
     outcome_bind (upsert sm_ID (\<lambda>r. state_key r = (headerID, sm_Path stateNode, True))
       (\<lambda>old. Ok (old\<lparr>sm_StateKey := stateKey, sm_CID := sm_CID stateNode, sm_NodeType := sm_NodeType stateNode,
                      sm_MhKey := sm_MhKey stateNode\<rparr>))
       (\<lambda>n. stateNode\<lparr>sm_ID := n, sm_HeaderID := headerID, sm_StateKey := stateKey, sm_Diff := True\<rparr>)
       (sq_eth_states sq) (eth_states db)) (\<lambda>(i, rows, n).
       Ok (i, db\<lparr>eth_states := rows\<rparr>, sq\<lparr>sq_eth_states := n\<rparr>)))))"

definition indexStateCID :: "StateNodeModel \<Rightarrow> int \<Rightarrow> int pg_txm" where
  "indexStateCID stateNode headerID =
     (let stateKey = (if sm_StateKey stateNode \<noteq> Hash_Hex nullHash then sm_StateKey stateNode else '''')
      in sql_exec (insert_state stateNode stateKey headerID))"

text \<open>The reference to the state row is checked by the statement.\<close>

definition insert_account :: "StateAccountModel \<Rightarrow> int \<Rightarrow> unit pg_stmt" where
  "insert_account stateAccount stateID sq db =
     outcome_bind (pg_int4 stateID) (\<lambda>_.
     outcome_bind (pg_numeric (am_Balance stateAccount)) (\<lambda>balance.
     outcome_bind (pg_int4 (uint (am_Nonce stateAccount))) (\<lambda>_.
     outcome_bind (pg_varchar66 (am_StorageRoot stateAccount)) (\<lambda>_.
       if stateID \<notin> set (map sm_ID (eth_states db))
       then Err (Errorf ''pq: insert violates foreign key constraint on state_id'' [])
       else outcome_bind (upsert am_ID (\<lambda>r. am_StateID r = stateID)
         (\<lambda>old. Ok (old\<lparr>am_Balance := balance, am_Nonce := am_Nonce stateAccount,
                        am_CodeHash := am_CodeHash stateAccount, am_StorageRoot := am_StorageRoot stateAccount\<rparr>))
         (\<lambda>n. stateAccount\<lparr>am_ID := n, am_StateID := stateID, am_Balance := balance\<rparr>)
         (sq_eth_accounts sq) (eth_accounts db)) (\<lambda>(_, rows, n).
         Ok ((), db\<lparr>eth_accounts := rows\<rparr>, sq\<lparr>sq_eth_accounts := n\<rparr>))))))"

definition indexStateAccount :: "StateAccountModel \<Rightarrow> int \<Rightarrow> unit pg_txm" where
  "indexStateAccount stateAccount stateID =
     tx_bind (tx_lift (driver_uint64 (am_Nonce stateAccount))) (\<lambda>_. sql_exec (insert_account stateAccount stateID))"

definition insert_storage :: "StorageNodeModel \<Rightarrow> string \<Rightarrow> int \<Rightarrow> unit pg_stmt" where
  "insert_storage storageCID storageKey stateID sq db =
     outcome_bind (pg_int4 stateID) (\<lambda>_.
     outcome_bind (pg_varchar66 storageKey) (\<lambda>_.
     outcome_bind (pg_int4 (om_NodeType storageCID)) (\<lambda>_.
     outcome_bind (upsert om_ID (\<lambda>r. storage_key r = (stateID, om_Path storageCID, True))
       (\<lambda>old. Ok (old\<lparr>om_StorageKey := storageKey, om_CID := om_CID storageCID,
                      om_NodeType := om_NodeType storageCID, om_MhKey := om_MhKey storageCID\<rparr>))
       (\<lambda>n. storageCID\<lparr>om_ID := n, om_StateID := stateID, om_StorageKey := storageKey, om_Diff := True\<rparr>)
       (sq_eth_storages sq) (eth_storages db)) (\<lambda>(_, rows, n).
       Ok ((), db\<lparr>eth_storages := rows\<rparr>, sq\<lparr>sq_eth_storages := n\<rparr>)))))"

definition indexStorageCID :: "StorageNodeModel \<Rightarrow> int \<Rightarrow> unit pg_txm" where
  "indexStorageCID storageCID stateID =
     (let storageKey = (if om_StorageKey storageCID \<noteq> Hash_Hex nullHash then om_StorageKey storageCID else '''')
      in sql_exec (insert_storage storageCID storageKey stateID))"

subsection \<open>A block\<close>

text \<open>
  The two loops write transaction and state rows with statements of their own that are, text and
  arguments, those of \<open>indexTransactionCID\<close> and \<open>indexStateCID\<close>.
\<close>

definition indexTransactionAndReceiptCIDs :: "geth_lib \<Rightarrow> CIDPayload \<Rightarrow> int \<Rightarrow> unit pg_txm" where
  "indexTransactionAndReceiptCIDs geth payload headerID =
     tx_for (\<lambda>_ trxCidMeta.
       tx_bind (sql_exec (insert_tx trxCidMeta headerID)) (\<lambda>txID.
       case map_of (cd_ReceiptCIDs payload) (HexToHash geth (tm_TxHash trxCidMeta)) of
         Some receiptCidMeta \<Rightarrow> indexReceiptCID receiptCidMeta txID
       | None \<Rightarrow> tx_return ()))
     0 (cd_TransactionCIDs payload)"

definition indexStateAndStorageCIDs :: "CIDPayload \<Rightarrow> int \<Rightarrow> unit pg_txm" where
  "indexStateAndStorageCIDs payload headerID =
     tx_for (\<lambda>_ stateCID.
       let stateKey = (if sm_StateKey stateCID \<noteq> Hash_Hex nullHash then sm_StateKey stateCID else '''') in
       tx_bind (sql_exec (insert_state stateCID stateKey headerID)) (\<lambda>stateID.
       if sm_NodeType stateCID = 2 then
         (let statePath = hex_EncodeToString (sm_Path stateCID) in
          tx_bind (tx_for (\<lambda>_ storageCID. indexStorageCID storageCID stateID) 0
            (case map_of (cd_StorageNodeCIDs payload) statePath of None \<Rightarrow> [] | Some l \<Rightarrow> l)) (\<lambda>_.
          case map_of (cd_StateAccounts payload) statePath of
            Some stateAccount \<Rightarrow> indexStateAccount stateAccount stateID
          | None \<Rightarrow> tx_return ()))
       else tx_return ()))
     0 (cd_StateNodeCIDs payload)"

definition index_body :: "geth_lib \<Rightarrow> int \<Rightarrow> CIDPayload \<Rightarrow> unit pg_body" where
  "index_body geth nodeID cidPayload =
     outer_err (indexHeaderCID nodeID (cd_HeaderCID cidPayload)) (\<lambda>headerID.
     inner_err (tx_for (\<lambda>_ uncle. indexUncleCID uncle headerID) 0 (cd_UncleCIDs cidPayload)) (\<lambda>_.
     inner_err (indexTransactionAndReceiptCIDs geth cidPayload headerID) (\<lambda>_.
     outer_err (indexStateAndStorageCIDs cidPayload headerID) (\<lambda>_. body_return ()))))"

definition CIDIndexer_Index ::
    "geth_lib \<Rightarrow> int \<Rightarrow> bool list \<Rightarrow> CIDsForIndexing \<Rightarrow> pg_seq \<Rightarrow> pg_db \<Rightarrow> unit outcome \<times> pg_db \<times> pg_seq" where
  "CIDIndexer_Index geth nodeID faults cids sq db =
     (case cids of
        EthCIDs cidPayload \<Rightarrow> run_tx deferred_fk faults (index_body geth nodeID cidPayload) sq db
      | _ \<Rightarrow> (Err (Errorf ''eth indexer expected cids type %T got %T'' [''*eth.CIDPayload'', CIDs_T cids]), db, sq))"

subsection \<open>The upserts meet the contract\<close>

lemma update_header_keeps:
  "update_header new old = Ok r \<Longrightarrow> hm_ID r = hm_ID old \<and> header_key r = header_key old"
  by (auto simp: update_header_def header_key_def)

interpretation header_up: upsert_row hm_ID header_key "\<lambda>r. header_key r = header_key row" "update_header row"
    "\<lambda>n. row\<lparr>hm_ID := n\<rparr>" "header_key row" for row :: HeaderModel
  by unfold_locales (auto simp: header_key_def dest: update_header_keeps)

interpretation uncle_up: upsert_row um_ID uncle_key "\<lambda>r. uncle_key r = (headerID, um_BlockHash uncle)"
    "\<lambda>old. Ok (old\<lparr>um_ParentHash := um_ParentHash uncle, um_CID := um_CID uncle, um_Reward := reward,
                    um_MhKey := um_MhKey uncle\<rparr>)"
    "\<lambda>n. uncle\<lparr>um_ID := n, um_HeaderID := headerID, um_Reward := reward\<rparr>" "(headerID, um_BlockHash uncle)"
    for uncle :: UncleModel and headerID reward
  by unfold_locales (auto simp: uncle_key_def)

interpretation tx_up: upsert_row tm_ID tx_key "\<lambda>r. tx_key r = (headerID, tm_TxHash trx)"
    "\<lambda>old. Ok (old\<lparr>tm_CID := tm_CID trx, tm_Dst := tm_Dst trx, tm_Src := tm_Src trx, tm_Index := tm_Index trx,
                    tm_MhKey := tm_MhKey trx\<rparr>)"
    "\<lambda>n. trx\<lparr>tm_ID := n, tm_HeaderID := headerID\<rparr>" "(headerID, tm_TxHash trx)" for trx :: TxModel and headerID
  by unfold_locales (auto simp: tx_key_def)

interpretation rct_up: upsert_row rm_ID rm_TxID "\<lambda>r. rm_TxID r = txID"
    "\<lambda>old. Ok (rct\<lparr>rm_ID := rm_ID old, rm_TxID := rm_TxID old\<rparr>)" "\<lambda>n. rct\<lparr>rm_ID := n, rm_TxID := txID\<rparr>" txID
    for rct :: ReceiptModel and txID
  by unfold_locales auto

interpretation state_up: upsert_row sm_ID state_key "\<lambda>r. state_key r = (headerID, sm_Path st, True)"
    "\<lambda>old. Ok (old\<lparr>sm_StateKey := stateKey, sm_CID := sm_CID st, sm_NodeType := sm_NodeType st, sm_MhKey := sm_MhKey st\<rparr>)"
    "\<lambda>n. st\<lparr>sm_ID := n, sm_HeaderID := headerID, sm_StateKey := stateKey, sm_Diff := True\<rparr>" "(headerID, sm_Path st, True)"
    for st :: StateNodeModel and headerID stateKey
  by unfold_locales (auto simp: state_key_def)

interpretation account_up: upsert_row am_ID am_StateID "\<lambda>r. am_StateID r = stateID"
    "\<lambda>old. Ok (old\<lparr>am_Balance := balance, am_Nonce := am_Nonce acc, am_CodeHash := am_CodeHash acc,
                    am_StorageRoot := am_StorageRoot acc\<rparr>)"
    "\<lambda>n. acc\<lparr>am_ID := n, am_StateID := stateID, am_Balance := balance\<rparr>" stateID
    for acc :: StateAccountModel and stateID balance
  by unfold_locales auto

interpretation storage_up: upsert_row om_ID storage_key "\<lambda>r. storage_key r = (stateID, om_Path so, True)"
    "\<lambda>old. Ok (old\<lparr>om_StorageKey := storageKey, om_CID := om_CID so, om_NodeType := om_NodeType so, om_MhKey := om_MhKey so\<rparr>)"
    "\<lambda>n. so\<lparr>om_ID := n, om_StateID := stateID, om_StorageKey := storageKey, om_Diff := True\<rparr>" "(stateID, om_Path so, True)"
    for so :: StorageNodeModel and stateID storageKey
  by unfold_locales (auto simp: storage_key_def)

subsection \<open>Invariants\<close>

text \<open>Every statement keeps the unique ids and keys.\<close>

lemma insert_header_keeps [keeps_intros]: "stmt_keeps db_ok (insert_header nodeID header)"
  by (auto simp: stmt_keeps_def insert_header_def db_ok_defs split: if_splits dest: header_up.upsert_keeps)

lemma insert_uncle_keeps [keeps_intros]: "stmt_keeps db_ok (insert_uncle uncle headerID)"
  by (auto simp: stmt_keeps_def insert_uncle_def db_ok_defs dest: uncle_up.upsert_keeps)

lemma insert_tx_keeps [keeps_intros]: "stmt_keeps db_ok (insert_tx trx headerID)"
  by (auto simp: stmt_keeps_def insert_tx_def db_ok_defs dest: tx_up.upsert_keeps)

lemma insert_rct_keeps [keeps_intros]: "stmt_keeps db_ok (insert_rct rct txID)"
  by (auto simp: stmt_keeps_def insert_rct_def db_ok_defs dest: rct_up.upsert_keeps)

lemma insert_state_keeps [keeps_intros]: "stmt_keeps db_ok (insert_state st stateKey headerID)"
  by (auto simp: stmt_keeps_def insert_state_def db_ok_defs dest: state_up.upsert_keeps)

lemma insert_account_keeps [keeps_intros]: "stmt_keeps db_ok (insert_account acc stateID)"
  by (auto simp: stmt_keeps_def insert_account_def db_ok_defs split: if_splits dest: account_up.upsert_keeps)

lemma insert_storage_keeps [keeps_intros]: "stmt_keeps db_ok (insert_storage so storageKey stateID)"
  by (auto simp: stmt_keeps_def insert_storage_def db_ok_defs dest: storage_up.upsert_keeps)

lemmas index_op_defs = indexHeaderCID_def indexUncleCID_def indexTransactionCID_def indexReceiptCID_def
  indexStateCID_def indexStateAccount_def indexStorageCID_def Let_def

lemma index_ops_keep [keeps_intros]:
  "tx_keeps db_ok (indexHeaderCID nodeID header)" "tx_keeps db_ok (indexUncleCID uncle headerID)"
  "tx_keeps db_ok (indexTransactionCID trx headerID)" "tx_keeps db_ok (indexReceiptCID rct txID)"
  "tx_keeps db_ok (indexStateCID st headerID)" "tx_keeps db_ok (indexStateAccount acc stateID)"
  "tx_keeps db_ok (indexStorageCID so stateID)"
  unfolding index_op_defs by (intro keeps_intros)+

lemma index_body_keeps: "body_keeps db_ok (index_body geth nodeID payload)"
  unfolding index_body_def indexTransactionAndReceiptCIDs_def indexStateAndStorageCIDs_def Let_def
  by (intro keeps_intros)

lemma index_body_rolls_back: "error_rolls_back (index_body geth nodeID payload)"
  unfolding index_body_def indexTransactionAndReceiptCIDs_def indexUncleCID_def indexReceiptCID_def
  by (intro rolls_back_intros sql_only_intros)

interpretation index_tx: transactional "index_body geth nodeID payload" for geth nodeID payload
  by unfold_locales (rule index_body_rolls_back)

text \<open>Only the header statement touches the header table, and no statement here the block store.\<close>

lemma headers_kept_stmts [keeps_intros]:
  "stmt_keeps (view_is eth_headers hs) (put_block key data)"
  "stmt_keeps (view_is eth_headers hs) (insert_uncle uncle headerID)"
  "stmt_keeps (view_is eth_headers hs) (insert_tx trx headerID)"
  "stmt_keeps (view_is eth_headers hs) (insert_rct rct txID)"
  "stmt_keeps (view_is eth_headers hs) (insert_state st stateKey headerID)"
  "stmt_keeps (view_is eth_headers hs) (insert_account acc stateID)"
  "stmt_keeps (view_is eth_headers hs) (insert_storage so storageKey stateID)"
  by (auto simp: stmt_keeps_def view_is_def put_block_def insert_uncle_def insert_tx_def insert_rct_def
      insert_state_def insert_account_def insert_storage_def split: if_splits)

lemma blocks_kept_stmts [keeps_intros]:
  "stmt_keeps (view_is db_blocks bs) (insert_header nodeID header)"
  "stmt_keeps (view_is db_blocks bs) (insert_uncle uncle headerID)"
  "stmt_keeps (view_is db_blocks bs) (insert_tx trx headerID)"
  "stmt_keeps (view_is db_blocks bs) (insert_rct rct txID)"
  "stmt_keeps (view_is db_blocks bs) (insert_state st stateKey headerID)"
  "stmt_keeps (view_is db_blocks bs) (insert_account acc stateID)"
  "stmt_keeps (view_is db_blocks bs) (insert_storage so storageKey stateID)"
  by (auto simp: stmt_keeps_def view_is_def insert_header_def insert_uncle_def insert_tx_def insert_rct_def
      insert_state_def insert_account_def insert_storage_def split: if_splits)

lemma headers_kept_ops [keeps_intros]:
  "tx_keeps (view_is eth_headers hs) (indexUncleCID uncle headerID)"
  "tx_keeps (view_is eth_headers hs) (indexTransactionCID trx headerID)"
  "tx_keeps (view_is eth_headers hs) (indexReceiptCID rct txID)"
  "tx_keeps (view_is eth_headers hs) (indexStateCID st headerID)"
  "tx_keeps (view_is eth_headers hs) (indexStateAccount acc stateID)"
  "tx_keeps (view_is eth_headers hs) (indexStorageCID so stateID)"
  "tx_keeps (view_is eth_headers hs) (PublishIPLD ipfs i)"
  "tx_keeps (view_is eth_headers hs) (PublishRaw ipfs codec mh raw)"
  unfolding index_op_defs PublishIPLD_def PublishRaw_def by (intro keeps_intros)+

lemma blocks_kept_ops [keeps_intros]:
  "tx_keeps (view_is db_blocks bs) (indexHeaderCID nodeID header)"
  "tx_keeps (view_is db_blocks bs) (indexUncleCID uncle headerID)"
  "tx_keeps (view_is db_blocks bs) (indexTransactionCID trx headerID)"
  "tx_keeps (view_is db_blocks bs) (indexReceiptCID rct txID)"
  "tx_keeps (view_is db_blocks bs) (indexStateCID st headerID)"
  "tx_keeps (view_is db_blocks bs) (indexStateAccount acc stateID)"
  "tx_keeps (view_is db_blocks bs) (indexStorageCID so stateID)"
  unfolding index_op_defs by (intro keeps_intros)+

lemma index_body_blocks: "body_keeps (view_is db_blocks bs) (index_body geth nodeID payload)"
  unfolding index_body_def indexTransactionAndReceiptCIDs_def indexStateAndStorageCIDs_def Let_def
  by (intro keeps_intros)

lemma update_header_fields:
  assumes "update_header new old = Ok r" "find P rows = Some old"
  shows "hm_CID r = hm_CID new \<and> hm_MhKey r = hm_MhKey new \<and> hm_TimesValidated r
    = (case find P rows of None \<Rightarrow> 1 | Some old \<Rightarrow> hm_TimesValidated old + 1)"
  using assms by (auto simp: update_header_def)

text \<open>What a successful header statement does.\<close>

definition header_upserted :: "int \<Rightarrow> HeaderModel \<Rightarrow> HeaderModel list \<Rightarrow> HeaderModel list \<Rightarrow> bool" where
  "header_upserted nodeID header rows rows' \<longleftrightarrow>
     (\<exists>row new. header_row nodeID header = Ok row \<and> new \<in> set rows' \<and> header_key new = header_key row
        \<and> hm_CID new = hm_CID header \<and> hm_MhKey new = hm_MhKey header
        \<and> hm_TimesValidated new
          = (case find (\<lambda>r. header_key r = header_key row) rows of None \<Rightarrow> 1 | Some old \<Rightarrow> hm_TimesValidated old + 1)
        \<and> filter (\<lambda>r. header_key r \<noteq> header_key row) rows' = filter (\<lambda>r. header_key r \<noteq> header_key row) rows)"

lemma header_row_fields:
  "header_row nodeID header = Ok row \<Longrightarrow>
   hm_CID row = hm_CID header \<and> hm_MhKey row = hm_MhKey header \<and> hm_TimesValidated row = 1"
  by (auto simp: header_row_def)

lemma find_key_unique:
  assumes "table_ok rid key n rows" "r \<in> set rows"
  shows "find (\<lambda>x. key x = key r) rows = Some r"
proof -
  obtain x where x: "find (\<lambda>x. key x = key r) rows = Some x"
    using assms(2) by (cases "find (\<lambda>x. key x = key r) rows") (auto simp: find_None_iff)
  then have "x \<in> set rows" "key x = key r" by (auto simp: find_Some_iff)
  with x table_ok_key_unique [OF assms(1)] assms(2) show ?thesis by metis
qed

lemma insert_header_upserted:
  assumes "insert_header nodeID header sq db = Ok (i, db', sq')"
    and ok: "table_ok hm_ID header_key (sq_eth_headers sq) (eth_headers db)"
  shows "header_upserted nodeID header (eth_headers db) (eth_headers db')"
proof -
  obtain row rows n where row: "header_row nodeID header = Ok row"
    and up: "upsert hm_ID (\<lambda>r. header_key r = header_key row) (update_header row)
      (\<lambda>n. row\<lparr>hm_ID := n\<rparr>) (sq_eth_headers sq) (eth_headers db) = Ok (i, rows, n)"
    and rows: "eth_headers db' = rows"
    using assms(1) by (auto simp: insert_header_def split: if_splits)
  note f = header_row_fields [OF row]
  obtain r where r: "r \<in> set rows" "header_key r = header_key row"
    and how: "r = row\<lparr>hm_ID := sq_eth_headers sq\<rparr> \<and> header_key row \<notin> header_key ` set (eth_headers db)
      \<or> (\<exists>r0\<in>set (eth_headers db). header_key r0 = header_key row \<and> update_header row r0 = Ok r)"
    using header_up.upsert_row [OF up] by metis
  have "hm_CID r = hm_CID header \<and> hm_MhKey r = hm_MhKey header \<and> hm_TimesValidated r
    = (case find (\<lambda>x. header_key x = header_key row) (eth_headers db) of None \<Rightarrow> 1 | Some old \<Rightarrow> hm_TimesValidated old + 1)"
    using how
  proof
    assume new: "r = row\<lparr>hm_ID := sq_eth_headers sq\<rparr> \<and> header_key row \<notin> header_key ` set (eth_headers db)"
    then have "find (\<lambda>x. header_key x = header_key row) (eth_headers db) = None"
      by (metis (mono_tags, lifting) find_None_iff image_eqI)
    with new f show ?thesis by simp
  next
    assume "\<exists>r0\<in>set (eth_headers db). header_key r0 = header_key row \<and> update_header row r0 = Ok r"
    then obtain r0 where r0: "r0 \<in> set (eth_headers db)" "header_key r0 = header_key row" "update_header row r0 = Ok r"
      by blast
    have "find (\<lambda>x. header_key x = header_key row) (eth_headers db) = Some r0"
      using find_key_unique [OF ok r0(1)] r0(2) by simp
    from update_header_fields [OF r0(3) this] f show ?thesis by simp
  qed
  with r row rows header_up.upsert_frame [OF up] show ?thesis unfolding header_upserted_def by blast
qed

lemma deferred_header_stored: "deferred_fk db \<Longrightarrow> r \<in> set (eth_headers db) \<Longrightarrow> stored db (hm_MhKey r)"
  by (simp add: deferred_fk_def blocks_fk_def list_all_iff)

lemma index_header_upserted:
  assumes "indexHeaderCID nodeID header tx = (Ok i, tx')"
    and "table_ok hm_ID header_key (sq_eth_headers (tx_seq tx)) (eth_headers (tx_db tx))"
  shows "header_upserted nodeID header (eth_headers (tx_db tx)) (eth_headers (tx_db tx'))"
proof -
  obtain tx1 where "sql_exec (insert_header nodeID header) tx1 = (Ok i, tx')" "tx1 = tx"
    using assms(1) unfolding indexHeaderCID_def
    by (elim tx_bind_Ok) (auto simp: tx_lift_def)
  with assms(2) show ?thesis by (elim sql_exec_Ok) (auto dest: insert_header_upserted)
qed

lemma index_body_header:
  assumes "index_body geth nodeID payload tx = ((Ok (), False), tx')" "db_ok (tx_seq tx) (tx_db tx)"
  shows "header_upserted nodeID (cd_HeaderCID payload) (eth_headers (tx_db tx)) (eth_headers (tx_db tx'))"
proof -
  from assms(1) obtain i tx1 rest where hdr: "indexHeaderCID nodeID (cd_HeaderCID payload) tx = (Ok i, tx1)"
    and rest: "rest tx1 = ((Ok (), False), tx')"
    and rest_def: "rest = inner_err (tx_for (\<lambda>_ uncle. indexUncleCID uncle i) 0 (cd_UncleCIDs payload)) (\<lambda>_.
     inner_err (indexTransactionAndReceiptCIDs geth payload i) (\<lambda>_.
     outer_err (indexStateAndStorageCIDs payload i) (\<lambda>_. body_return ())))"
    unfolding index_body_def by (blast elim: outer_err_Ok)
  have "body_keeps (view_is eth_headers (eth_headers (tx_db tx1))) rest"
    unfolding rest_def indexTransactionAndReceiptCIDs_def indexStateAndStorageCIDs_def Let_def
    by (intro keeps_intros)
  from body_keeps_view [OF this rest] index_header_upserted [OF hdr] assms(2) show ?thesis
    by (simp add: db_ok_defs)
qed

subsection \<open>A sample block\<close>

definition sample_hm :: HeaderModel where
  "sample_hm = zero_HeaderModel\<lparr>hm_BlockNumber := big_String 7, hm_BlockHash := ''0xaa'', hm_CID := ''c'',
     hm_MhKey := ''k'', hm_TotalDifficulty := big_String 10, hm_Reward := big_String 2\<rparr>"

definition sample_cids :: CIDPayload where
  "sample_cids = \<lparr>cd_HeaderCID = sample_hm, cd_UncleCIDs = [], cd_TransactionCIDs = [], cd_ReceiptCIDs = [],
     cd_StateNodeCIDs = [], cd_StateAccounts = [], cd_StorageNodeCIDs = []\<rparr>"

definition sample_db :: pg_db where
  "sample_db = empty_db\<lparr>db_blocks := [(''k'', [1])]\<rparr>"

lemma sample_db_ok: "db_ok empty_seq sample_db" "db_ok empty_seq empty_db"
  by (simp_all add: db_ok_defs sample_db_def empty_db_def empty_seq_def)

lemma sample_simps [simp]:
  "cd_HeaderCID sample_cids = sample_hm" "eth_headers sample_db = []"
  "sample_db\<lparr>eth_headers := r # rs\<rparr> \<noteq> sample_db"
  by (simp_all add: sample_cids_def sample_db_def empty_db_def)

lemmas index_run_defs = CIDIndexer_Index_def run_tx_def begin_tx_def index_body_def outer_err_def inner_err_def
  body_return_def commits_def next_fault_def indexTransactionAndReceiptCIDs_def indexStateAndStorageCIDs_def
  indexHeaderCID_def tx_bind_def tx_lift_def tx_return_def sql_exec_def insert_header_def header_row_def
  sample_cids_def sample_db_def empty_db_def empty_seq_def upsert_def driver_uint64_def sample_hm_def
  zero_HeaderModel_def pg_varchar66_def pg_int4_def pg_bigint_def

lemma sample_index: "CIDIndexer_Index sample_geth 1 [] (EthCIDs sample_cids) empty_seq sample_db
  = (Ok (), sample_db\<lparr>eth_headers := [sample_hm\<lparr>hm_ID := 1, hm_NodeID := 1, hm_TimesValidated := 1\<rparr>]\<rparr>,
     empty_seq\<lparr>sq_eth_headers := 2\<rparr>)"
  by (simp add: index_run_defs deferred_fk_def blocks_fk_def rows_fk_def stored_def)

subsection \<open>Properties\<close>



text \<open>
  An error of the commit is lost. When every statement succeeds but the header's IPLD is not in
  the block store, the deferred foreign key makes the commit fail: \<open>Index\<close> writes nothing and still
  returns no error.
\<close>

theorem Index_commit_error_lost:
  assumes "db_ok sq db" "\<not> stored db (hm_MhKey (cd_HeaderCID p))" "\<not> next_fault faults"
    and "fst (index_body geth nodeID p (begin_tx faults sq db)) = (Ok (), False)"
  shows "\<exists>sq'. CIDIndexer_Index geth nodeID faults (EthCIDs p) sq db = (Ok (), db, sq')"
proof -
  obtain tx where tx: "index_body geth nodeID p (begin_tx faults sq db) = ((Ok (), False), tx)"
    using assms(4) by (cases "index_body geth nodeID p (begin_tx faults sq db)") simp
  obtain new where "new \<in> set (eth_headers (tx_db tx))" "hm_MhKey new = hm_MhKey (cd_HeaderCID p)"
    using index_body_header [OF tx] assms(1) by (auto simp: begin_tx_def header_upserted_def)
  moreover have "db_blocks (tx_db tx) = db_blocks db"
    using body_keeps_view [OF index_body_blocks tx] by (simp add: begin_tx_def)
  ultimately have "\<not> deferred_fk (tx_db tx)"
    using assms(2) deferred_header_stored [of "tx_db tx" new] by (auto simp: stored_def)
  with tx assms(3) show ?thesis by (simp add: CIDIndexer_Index_def run_tx_def commits_def)
qed

theorem Index_commit_error_lost_witness:
  "\<exists>sq'. CIDIndexer_Index sample_geth 1 [] (EthCIDs sample_cids) empty_seq empty_db = (Ok (), empty_db, sq')"
  by (rule Index_commit_error_lost [OF sample_db_ok(2)]) (simp_all add: index_run_defs stored_def)

end
