(* ===== verification/Ipld_Eth.thy ===== *)
theory Ipld_Eth
  imports Sample_Libs
begin

text \<open>
  Package \<open>ipld\<close>, Ethereum input side: wrapping headers, transactions and receipts as IPLD nodes
  and \<open>FromBlockAndReceipts\<close> (\<open>eth_parser.go\<close>), with the in-memory trie helper of \<open>shared.go\<close>: its key
  list and its key-value store are modelled, the root hash of the go-ethereum trie is a parameter.
\<close>

record trie_lib =
  rlp_EncodeUint :: "nat \<Rightarrow> bytes outcome"
  trie_Root :: "(bytes \<times> bytes) list \<Rightarrow> bytes"

subsection \<open>Nodes\<close>

record EthHeaderNode =
  hn_Header :: EthHeader
  hn_cid :: Cid
  hn_rawdata :: bytes

record EthTxNode =
  xn_Transaction :: Transaction
  xn_cid :: Cid
  xn_rawdata :: bytes

record EthReceiptNode =
  rn_Receipt :: Receipt
  rn_cid :: Cid
  rn_rawdata :: bytes

definition NewEthHeader :: "geth_lib \<Rightarrow> ipfs_lib \<Rightarrow> EthHeader \<Rightarrow> EthHeaderNode outcome" where
  "NewEthHeader geth ipfs header =
     outcome_bind (rlp_EncodeHeader geth header) (\<lambda>headerRLP.
     outcome_bind (RawdataToCid ipfs MEthHeader headerRLP KECCAK_256) (\<lambda>c.
       Ok \<lparr>hn_Header = header, hn_cid = c, hn_rawdata = headerRLP\<rparr>))"

definition NewEthTx :: "geth_lib \<Rightarrow> ipfs_lib \<Rightarrow> Transaction \<Rightarrow> EthTxNode outcome" where
  "NewEthTx geth ipfs tx =
     outcome_bind (Tx_EncodeRLP geth tx) (\<lambda>txRLP.
     outcome_bind (RawdataToCid ipfs MEthTx txRLP KECCAK_256) (\<lambda>c.
       Ok \<lparr>xn_Transaction = tx, xn_cid = c, xn_rawdata = txRLP\<rparr>))"

definition NewReceipt :: "geth_lib \<Rightarrow> ipfs_lib \<Rightarrow> Receipt \<Rightarrow> EthReceiptNode outcome" where
  "NewReceipt geth ipfs receipt =
     outcome_bind (Receipt_EncodeRLP geth receipt) (\<lambda>receiptRLP.
     outcome_bind (RawdataToCid ipfs MEthTxReceipt receiptRLP KECCAK_256) (\<lambda>c.
       Ok \<lparr>rn_Receipt = receipt, rn_cid = c, rn_rawdata = receiptRLP\<rparr>))"

subsection \<open>The local trie\<close>

record localTrie =
  lt_keys :: "bytes list"
  lt_db :: "(bytes \<times> bytes) list"

definition newLocalTrie :: localTrie where
  "newLocalTrie = \<lparr>lt_keys = [], lt_db = []\<rparr>"

definition lt_add :: "trie_lib \<Rightarrow> nat \<Rightarrow> bytes \<Rightarrow> localTrie \<Rightarrow> localTrie outcome" where
  "lt_add tlib idx rawdata lt =
     (case rlp_EncodeUint tlib idx of
        Ok key \<Rightarrow> Ok \<lparr>lt_keys = lt_keys lt @ [key], lt_db = AList.update key rawdata (lt_db lt)\<rparr>
      | Err e \<Rightarrow> Panic ''rlp encode''
      | Panic p \<Rightarrow> Panic p)"

definition rootHash :: "trie_lib \<Rightarrow> localTrie \<Rightarrow> bytes" where
  "rootHash tlib lt = trie_Root tlib (lt_db lt)"

text \<open>
  \<open>getNodes\<close>: for every key in the order of insertion, the stored value with its cid under the
  trie codec; a cid error ends the collection with nil, a missing key panics.
\<close>

fun collectNodes :: "ipfs_lib \<Rightarrow> u64 \<Rightarrow> (bytes \<times> bytes) list \<Rightarrow> bytes list \<Rightarrow> ipld_node list \<Rightarrow> ipld_node list outcome" where
  "collectNodes ipfs codec db [] out = Ok out"
| "collectNodes ipfs codec db (k # ks) out =
     (case map_of db k of
        None \<Rightarrow> Panic ''not found''
      | Some rawdata \<Rightarrow>
          (case RawdataToCid ipfs codec rawdata KECCAK_256 of
             Ok c \<Rightarrow> collectNodes ipfs codec db ks (out @ [\<lparr>node_Cid = c, node_RawData = rawdata\<rparr>])
           | Err e \<Rightarrow> Ok []
           | Panic p \<Rightarrow> Panic p))"

definition getNodes :: "ipfs_lib \<Rightarrow> u64 \<Rightarrow> localTrie \<Rightarrow> ipld_node list outcome" where
  "getNodes ipfs codec lt = collectNodes ipfs codec (lt_db lt) (lt_keys lt) []"

subsection \<open>Blocks\<close>

definition processTransactions ::
    "geth_lib \<Rightarrow> ipfs_lib \<Rightarrow> trie_lib \<Rightarrow> Transaction list \<Rightarrow> bytes \<Rightarrow> (EthTxNode list \<times> ipld_node list) outcome" where
  "processTransactions geth ipfs tlib txs expectedTxRoot =
     outcome_bind (for_range (\<lambda>idx tx (nodes, trie).
         outcome_bind (NewEthTx geth ipfs tx) (\<lambda>ethTx.
         outcome_bind (lt_add tlib idx (xn_rawdata ethTx) trie) (\<lambda>trie. Ok (nodes @ [ethTx], trie))))
       0 txs ([], newLocalTrie))
     (\<lambda>(ethTxNodes, transactionTrie).
       if rootHash tlib transactionTrie \<noteq> expectedTxRoot
       then Err (Errorf ''wrong transaction hash computed'' [])
       else outcome_bind (getNodes ipfs MEthTxTrie transactionTrie) (\<lambda>trieNodes. Ok (ethTxNodes, trieNodes)))"

definition processReceipts ::
    "geth_lib \<Rightarrow> ipfs_lib \<Rightarrow> trie_lib \<Rightarrow> Receipt list \<Rightarrow> bytes \<Rightarrow> (EthReceiptNode list \<times> ipld_node list) outcome" where
  "processReceipts geth ipfs tlib rcts expectedRctRoot =
     outcome_bind (for_range (\<lambda>idx rct (nodes, trie).
         outcome_bind (NewReceipt geth ipfs rct) (\<lambda>ethRct.
         outcome_bind (lt_add tlib idx (rn_rawdata ethRct) trie) (\<lambda>trie. Ok (nodes @ [ethRct], trie))))
       0 rcts ([], newLocalTrie))
     (\<lambda>(ethRctNodes, receiptTrie).
       if rootHash tlib receiptTrie \<noteq> expectedRctRoot
       then Err (Errorf ''wrong receipt hash computed'' [])
       else outcome_bind (getNodes ipfs MEthTxReceiptTrie receiptTrie) (\<lambda>trieNodes. Ok (ethRctNodes, trieNodes)))"

record block_nodes =
  bn_header :: EthHeaderNode
  bn_uncles :: "EthHeaderNode list"
  bn_txs :: "EthTxNode list"
  bn_txTrie :: "ipld_node list"
  bn_rcts :: "EthReceiptNode list"
  bn_rctTrie :: "ipld_node list"

definition FromBlockAndReceipts ::
    "geth_lib \<Rightarrow> ipfs_lib \<Rightarrow> trie_lib \<Rightarrow> Block \<Rightarrow> Receipt list \<Rightarrow> block_nodes outcome" where
  "FromBlockAndReceipts geth ipfs tlib block receipts =
     outcome_bind (NewEthHeader geth ipfs (b_Header block)) (\<lambda>headerNode.
     outcome_bind (outcome_map (NewEthHeader geth ipfs) (b_Uncles block)) (\<lambda>uncleNodes.
     outcome_bind (processTransactions geth ipfs tlib (b_Transactions block) (h_TxHash (b_Header block)))
       (\<lambda>(ethTxNodes, ethTxTrieNodes).
     outcome_bind (processReceipts geth ipfs tlib receipts (h_ReceiptHash (b_Header block)))
       (\<lambda>(ethRctNodes, ethRctTrieNodes).
       Ok \<lparr>bn_header = headerNode, bn_uncles = uncleNodes, bn_txs = ethTxNodes,
           bn_txTrie = ethTxTrieNodes, bn_rcts = ethRctNodes, bn_rctTrie = ethRctTrieNodes\<rparr>))))"

subsection \<open>Lemmas\<close>

text \<open>What the trie holds after the nodes \<open>ns\<close> were added at the indices \<open>0, 1, ...\<close>.\<close>

definition trie_holds :: "trie_lib \<Rightarrow> bytes list \<Rightarrow> localTrie \<Rightarrow> bool" where
  "trie_holds tlib raws lt \<longleftrightarrow> length (lt_keys lt) = length raws
     \<and> (\<forall>j<length raws. rlp_EncodeUint tlib j = Ok (lt_keys lt ! j)
          \<and> map_of (lt_db lt) (lt_keys lt ! j) = Some (raws ! j))"

definition EncodeUint_inj :: "trie_lib \<Rightarrow> bool" where
  "EncodeUint_inj tlib \<longleftrightarrow>
     (\<forall>i j k. rlp_EncodeUint tlib i = Ok k \<longrightarrow> rlp_EncodeUint tlib j = Ok k \<longrightarrow> i = j)"

lemma trie_holds_add:
  assumes "EncodeUint_inj tlib" "trie_holds tlib raws lt" "lt_add tlib (length raws) raw lt = Ok lt'"
  shows "trie_holds tlib (raws @ [raw]) lt'"
proof -
  obtain key where key: "rlp_EncodeUint tlib (length raws) = Ok key"
    and lt': "lt' = \<lparr>lt_keys = lt_keys lt @ [key], lt_db = AList.update key raw (lt_db lt)\<rparr>"
    using assms(3) by (auto simp: lt_add_def split: outcome.splits)
  have "lt_keys lt ! j \<noteq> key" if "j < length raws" for j
    using that assms(1,2) key by (metis EncodeUint_inj_def less_irrefl trie_holds_def)
  with assms(2) key show ?thesis
    by (auto simp: trie_holds_def lt' nth_append update_conv' less_Suc_eq)
qed

definition add_node ::
    "('x \<Rightarrow> 'n outcome) \<Rightarrow> ('n \<Rightarrow> bytes) \<Rightarrow> trie_lib \<Rightarrow> nat \<Rightarrow> 'x \<Rightarrow> 'n list \<times> localTrie \<Rightarrow> ('n list \<times> localTrie) outcome" where
  "add_node mk raw tlib idx x s = (case s of (nodes, trie) \<Rightarrow>
     outcome_bind (mk x) (\<lambda>n. outcome_bind (lt_add tlib idx (raw n) trie) (\<lambda>trie. Ok (nodes @ [n], trie))))"

lemma add_node_loop:
  assumes "EncodeUint_inj tlib" "for_range (add_node mk raw tlib) (length ns) xs (ns, lt) = Ok (ns', lt')"
    and "trie_holds tlib (map raw ns) lt"
  shows "trie_holds tlib (map raw ns') lt' \<and> (\<exists>new. ns' = ns @ new \<and> list_all2 (\<lambda>x n. mk x = Ok n) xs new)"
  using assms(2,3)
proof (induction xs arbitrary: ns lt)
  case (Cons x xs)
  then obtain s where s: "add_node mk raw tlib (length ns) x (ns, lt) = Ok s"
    "for_range (add_node mk raw tlib) (length ns + 1) xs s = Ok (ns', lt')"
    by auto
  from s(1) obtain n trie where n: "mk x = Ok n" "lt_add tlib (length ns) (raw n) lt = Ok trie"
    and "s = (ns @ [n], trie)"
    by (auto simp: add_node_def)
  with s(2) have rest: "for_range (add_node mk raw tlib) (length (ns @ [n])) xs (ns @ [n], trie) = Ok (ns', lt')"
    by simp
  have "trie_holds tlib (map raw (ns @ [n])) trie"
    using trie_holds_add [OF assms(1) Cons.prems(2)] n(2) by simp
  from Cons.IH [OF rest this] n(1) show ?case by auto
qed simp

lemma collectNodes_all:
  assumes "\<And>k. k \<in> set ks \<Longrightarrow> map_of db k \<noteq> None" "\<And>raw. is_Ok (RawdataToCid ipfs codec raw KECCAK_256)"
  shows "\<exists>new. collectNodes ipfs codec db ks out = Ok (out @ new)
    \<and> map node_RawData new = map (\<lambda>k. the (map_of db k)) ks
    \<and> list_all (\<lambda>n. RawdataToCid ipfs codec (node_RawData n) KECCAK_256 = Ok (node_Cid n)) new"
  using assms(1)
proof (induction ks arbitrary: out)
  case (Cons k ks)
  obtain raw c where raw: "map_of db k = Some raw" "RawdataToCid ipfs codec raw KECCAK_256 = Ok c"
    using Cons.prems assms(2) by (metis is_Ok_iff list.set_intros(1) option.exhaust)
  obtain new where "collectNodes ipfs codec db ks (out @ [\<lparr>node_Cid = c, node_RawData = raw\<rparr>])
      = Ok ((out @ [\<lparr>node_Cid = c, node_RawData = raw\<rparr>]) @ new)"
    "map node_RawData new = map (\<lambda>k. the (map_of db k)) ks"
    "list_all (\<lambda>n. RawdataToCid ipfs codec (node_RawData n) KECCAK_256 = Ok (node_Cid n)) new"
    using Cons.IH [of "out @ [\<lparr>node_Cid = c, node_RawData = raw\<rparr>]"] Cons.prems by auto
  with raw show ?case by (intro exI [of _ "\<lparr>node_Cid = c, node_RawData = raw\<rparr> # new"]) simp
qed simp

lemma getNodes_holds:
  assumes "trie_holds tlib raws lt" "\<And>raw. is_Ok (RawdataToCid ipfs codec raw KECCAK_256)"
  obtains nodes where "getNodes ipfs codec lt = Ok nodes" "map node_RawData nodes = raws"
    "list_all (\<lambda>n. RawdataToCid ipfs codec (node_RawData n) KECCAK_256 = Ok (node_Cid n)) nodes"
proof -
  have "map_of (lt_db lt) k \<noteq> None" if "k \<in> set (lt_keys lt)" for k
    using that assms(1) by (auto simp: trie_holds_def in_set_conv_nth)
  moreover have "map (\<lambda>k. the (map_of (lt_db lt) k)) (lt_keys lt) = raws"
    using assms(1) by (intro nth_equalityI) (auto simp: trie_holds_def)
  ultimately show ?thesis
    using that collectNodes_all [of "lt_keys lt" "lt_db lt" ipfs codec "[]"] assms(2)
    by (auto simp: getNodes_def)
qed

text \<open>Both processing functions are the same loop, check and collection.\<close>

lemma process_nodes:
  assumes "EncodeUint_inj tlib" "\<And>codec raw. is_Ok (RawdataToCid ipfs codec raw KECCAK_256)"
    and "outcome_bind (for_range (add_node mk raw tlib) 0 xs ([], newLocalTrie))
       (\<lambda>(ns, trie). if rootHash tlib trie \<noteq> root then Err e
          else outcome_bind (getNodes ipfs codec trie) (\<lambda>tns. Ok (ns, tns))) = Ok (ns, tns)"
  shows "list_all2 (\<lambda>x n. mk x = Ok n) xs ns \<and> map node_RawData tns = map raw ns
    \<and> list_all (\<lambda>n. RawdataToCid ipfs codec (node_RawData n) KECCAK_256 = Ok (node_Cid n)) tns"
proof -
  from assms(3) obtain trie where loop: "for_range (add_node mk raw tlib) 0 xs ([], newLocalTrie) = Ok (ns, trie)"
    and get: "getNodes ipfs codec trie = Ok tns"
    by (auto split: if_splits)
  have "trie_holds tlib (map raw []) newLocalTrie" by (simp add: trie_holds_def newLocalTrie_def)
  with add_node_loop [OF assms(1), of mk raw "[]" xs newLocalTrie ns trie] loop
  have holds: "trie_holds tlib (map raw ns) trie" and "list_all2 (\<lambda>x n. mk x = Ok n) xs ns" by auto
  obtain nodes where "getNodes ipfs codec trie = Ok nodes" "map node_RawData nodes = map raw ns"
    "list_all (\<lambda>n. RawdataToCid ipfs codec (node_RawData n) KECCAK_256 = Ok (node_Cid n)) nodes"
    by (rule getNodes_holds [OF holds assms(2)])
  with get \<open>list_all2 _ xs ns\<close> show ?thesis by simp
qed

lemma processTransactions_add_node:
  "processTransactions geth ipfs tlib txs root =
     outcome_bind (for_range (add_node (NewEthTx geth ipfs) xn_rawdata tlib) 0 txs ([], newLocalTrie))
       (\<lambda>(ns, trie). if rootHash tlib trie \<noteq> root then Err (Errorf ''wrong transaction hash computed'' [])
          else outcome_bind (getNodes ipfs MEthTxTrie trie) (\<lambda>tns. Ok (ns, tns)))"
  unfolding processTransactions_def add_node_def by (simp add: case_prod_beta)

lemma processReceipts_add_node:
  "processReceipts geth ipfs tlib rcts root =
     outcome_bind (for_range (add_node (NewReceipt geth ipfs) rn_rawdata tlib) 0 rcts ([], newLocalTrie))
       (\<lambda>(ns, trie). if rootHash tlib trie \<noteq> root then Err (Errorf ''wrong receipt hash computed'' [])
          else outcome_bind (getNodes ipfs MEthTxReceiptTrie trie) (\<lambda>tns. Ok (ns, tns)))"
  unfolding processReceipts_def add_node_def by (simp add: case_prod_beta)

lemma NewEthTx_Transaction: "NewEthTx geth ipfs tx = Ok n \<Longrightarrow> xn_Transaction n = tx"
  by (auto simp: NewEthTx_def)

lemma NewReceipt_Receipt: "NewReceipt geth ipfs r = Ok n \<Longrightarrow> rn_Receipt n = r"
  by (auto simp: NewReceipt_def)

lemma NewEthHeader_Header: "NewEthHeader geth ipfs h = Ok n \<Longrightarrow> hn_Header n = h"
  by (auto simp: NewEthHeader_def)

lemma list_all2_map_eq: "list_all2 (\<lambda>x n. mk x = Ok n) xs ns \<Longrightarrow> (\<And>x n. mk x = Ok n \<Longrightarrow> g n = x) \<Longrightarrow> map g ns = xs"
  by (induction rule: list_all2_induct) simp_all

lemma FromBlockAndReceipts_lengths:
  assumes "FromBlockAndReceipts geth ipfs tlib block receipts = Ok n" "EncodeUint_inj tlib"
    "\<And>codec raw. is_Ok (RawdataToCid ipfs codec raw KECCAK_256)"
  shows "map xn_Transaction (bn_txs n) = b_Transactions block" "map rn_Receipt (bn_rcts n) = receipts"
    "map hn_Header (bn_uncles n) = b_Uncles block" "hn_Header (bn_header n) = b_Header block"
    "map node_RawData (bn_txTrie n) = map xn_rawdata (bn_txs n)"
    "map node_RawData (bn_rctTrie n) = map rn_rawdata (bn_rcts n)"
    "list_all (\<lambda>t. RawdataToCid ipfs MEthTxTrie (node_RawData t) KECCAK_256 = Ok (node_Cid t)) (bn_txTrie n)"
proof -
  from assms(1) have hdr: "NewEthHeader geth ipfs (b_Header block) = Ok (bn_header n)"
    and unc: "outcome_map (NewEthHeader geth ipfs) (b_Uncles block) = Ok (bn_uncles n)"
    and tx: "processTransactions geth ipfs tlib (b_Transactions block) (h_TxHash (b_Header block)) = Ok (bn_txs n, bn_txTrie n)"
    and rct: "processReceipts geth ipfs tlib receipts (h_ReceiptHash (b_Header block)) = Ok (bn_rcts n, bn_rctTrie n)"
    by (auto simp: FromBlockAndReceipts_def)
  note t = process_nodes [OF assms(2,3) tx [unfolded processTransactions_add_node]]
  note r = process_nodes [OF assms(2,3) rct [unfolded processReceipts_add_node]]
  show "map xn_Transaction (bn_txs n) = b_Transactions block"
    using t list_all2_map_eq [of "NewEthTx geth ipfs"] NewEthTx_Transaction by blast
  show "map rn_Receipt (bn_rcts n) = receipts"
    using r list_all2_map_eq [of "NewReceipt geth ipfs"] NewReceipt_Receipt by blast
  show "map hn_Header (bn_uncles n) = b_Uncles block"
    using unc list_all2_map_eq [of "NewEthHeader geth ipfs"] NewEthHeader_Header
    unfolding outcome_map_Ok_iff by blast
  show "hn_Header (bn_header n) = b_Header block" using hdr by (rule NewEthHeader_Header)
  show "map node_RawData (bn_txTrie n) = map xn_rawdata (bn_txs n)"
    "list_all (\<lambda>t. RawdataToCid ipfs MEthTxTrie (node_RawData t) KECCAK_256 = Ok (node_Cid t)) (bn_txTrie n)"
    using t by blast+
  show "map node_RawData (bn_rctTrie n) = map rn_rawdata (bn_rcts n)" using r by blast
qed

subsection \<open>A sample block\<close>

definition sample_trie :: trie_lib where
  "sample_trie = \<lparr>rlp_EncodeUint = (\<lambda>n. Ok (replicate (n + 1) 1)), trie_Root = (\<lambda>_. [])\<rparr>"

lemma sample_trie_inj: "EncodeUint_inj sample_trie"
  by (auto simp: EncodeUint_inj_def sample_trie_def replicate_eq_replicate)

definition sample_nodes :: block_nodes where
  "sample_nodes = \<lparr>bn_header = \<lparr>hn_Header = sample_header 7, hn_cid = Cid MEthHeader [0x1b, 1], hn_rawdata = [1]\<rparr>, bn_uncles = [],
     bn_txs = [\<lparr>xn_Transaction = sample_tx, xn_cid = Cid MEthTx [0x1b, 3], xn_rawdata = [3]\<rparr>],
     bn_txTrie = [\<lparr>node_Cid = Cid MEthTxTrie [0x1b, 3], node_RawData = [3]\<rparr>],
     bn_rcts = [\<lparr>rn_Receipt = sample_rct, rn_cid = Cid MEthTxReceipt [0x1b, 3], rn_rawdata = [3]\<rparr>],
     bn_rctTrie = [\<lparr>node_Cid = Cid MEthTxReceiptTrie [0x1b, 3], node_RawData = [3]\<rparr>]\<rparr>"

lemma sample_FromBlock:
  "FromBlockAndReceipts sample_geth sample_ipfs sample_trie (sample_block 7) [sample_rct] = Ok sample_nodes"
  by (simp add: FromBlockAndReceipts_def sample_nodes_def NewEthHeader_def NewEthTx_def NewReceipt_def RawdataToCid_def
    processTransactions_def processReceipts_def sample_ipfs_def sample_geth_def sample_trie_def lt_add_def newLocalTrie_def
    rootHash_def getNodes_def sample_block_def sample_header_def sample_rct_def sample_tx_def KECCAK_256_def)

lemma sample_ipfs_hashes: "is_Ok (RawdataToCid sample_ipfs codec raw KECCAK_256)"
  by (simp add: RawdataToCid_def sample_ipfs_def)

subsection \<open>Properties\<close>

text \<open>
  The nodes of a block are its objects in order: the header, one node per uncle, transaction
  and receipt. What is returned as the nodes of the transaction and the receipt trie are the
  encoded transactions and receipts themselves, one per leaf, under the codec of the trie; no
  branch or extension node is among them.
\<close>

theorem FromBlockAndReceipts_nodes:
  assumes "FromBlockAndReceipts geth ipfs tlib block receipts = Ok n" "EncodeUint_inj tlib"
    and "\<And>codec raw. is_Ok (RawdataToCid ipfs codec raw KECCAK_256)"
  shows "hn_Header (bn_header n) = b_Header block \<and> map hn_Header (bn_uncles n) = b_Uncles block
    \<and> map xn_Transaction (bn_txs n) = b_Transactions block \<and> map rn_Receipt (bn_rcts n) = receipts
    \<and> map node_RawData (bn_txTrie n) = map xn_rawdata (bn_txs n)
    \<and> map node_RawData (bn_rctTrie n) = map rn_rawdata (bn_rcts n)"
  using FromBlockAndReceipts_lengths [OF assms] by simp

theorem FromBlockAndReceipts_nodes_witness:
  "map xn_Transaction (bn_txs sample_nodes) = [sample_tx] \<and> map node_RawData (bn_txTrie sample_nodes) = [[3]]"
  using FromBlockAndReceipts_nodes [OF sample_FromBlock sample_trie_inj sample_ipfs_hashes]
  by (simp add: sample_nodes_def)

end
