(* ===== verification/Eth_Reward.thy ===== *)
theory Eth_Reward
  imports Sample_Libs
begin

text \<open>
  \<open>eth/reward.go\<close>: the block reward that the publisher records. \<open>big.Int\<close> is unbounded; the gas
  price and the gas used are first narrowed to \<open>int64\<close>, as in the code.
\<close>

definition staticRewardByBlockNumber :: "int \<Rightarrow> int" where
  "staticRewardByBlockNumber blockNumber =
     (if blockNumber \<ge> 7280000 then 2000000000000000000
      else if blockNumber \<ge> 4370000 then 3000000000000000000
      else 5000000000000000000)"

text \<open>\<open>receipts[i]\<close> panics when there are fewer receipts than transactions.\<close>

definition calcEthTransactionFees :: "Transaction list \<Rightarrow> Receipt list \<Rightarrow> int outcome" where
  "calcEthTransactionFees txs receipts =
     for_range (\<lambda>i transaction transactionFees.
       outcome_bind (slice_get receipts i) (\<lambda>receipt.
         Ok (transactionFees + int64_of (t_GasPrice transaction) * int64_of (uint (r_GasUsed receipt)))))
       0 txs 0"

definition calcEthUncleInclusionRewards :: "EthHeader \<Rightarrow> EthHeader list \<Rightarrow> int" where
  "calcEthUncleInclusionRewards header uncles =
     fold (\<lambda>_ acc. acc + staticRewardByBlockNumber (int64_of (h_Number header)) div 32) uncles 0"

definition CalcEthBlockReward ::
    "EthHeader \<Rightarrow> EthHeader list \<Rightarrow> Transaction list \<Rightarrow> Receipt list \<Rightarrow> int outcome" where
  "CalcEthBlockReward header uncles txs receipts =
     outcome_bind (calcEthTransactionFees txs receipts) (\<lambda>transactionFees.
       Ok (transactionFees + calcEthUncleInclusionRewards header uncles
           + staticRewardByBlockNumber (int64_of (h_Number header))))"

definition CalcUncleMinerReward :: "int \<Rightarrow> int \<Rightarrow> int" where
  "CalcUncleMinerReward blockNumber uncleBlockNumber =
     (staticRewardByBlockNumber blockNumber div 8) * (uncleBlockNumber + 8 - blockNumber)"

subsection \<open>Lemmas\<close>

lemma fold_count: "fold (\<lambda>_ acc. acc + c) xs (a::int) = a + int (length xs) * c"
  by (induction xs arbitrary: a) (simp_all add: algebra_simps)

lemma fold_sum: "fold (\<lambda>x acc. acc + f x) xs (a::int) = a + sum_list (map f xs)"
  by (induction xs arbitrary: a) simp_all

lemma static_reward_cases:
  "staticRewardByBlockNumber n \<in> {2000000000000000000, 3000000000000000000, 5000000000000000000}"
  by (simp add: staticRewardByBlockNumber_def)

subsection \<open>Properties\<close>

text \<open>
  With one receipt per transaction, the block reward is the static reward of the block's era,
  plus one thirty-second of it per included uncle, plus the sum over all transactions of gas
  price times gas used, as long as both fit into 63 bits.
\<close>

theorem CalcEthBlockReward_formula:
  assumes "length receipts = length txs"
    and "\<forall>t\<in>set txs. 0 \<le> t_GasPrice t \<and> t_GasPrice t < 2 ^ 63" "\<forall>r\<in>set receipts. uint (r_GasUsed r) < 2 ^ 63"
  shows "CalcEthBlockReward header uncles txs receipts = Ok (
    (\<Sum>(t, r)\<leftarrow>zip txs receipts. t_GasPrice t * uint (r_GasUsed r))
    + int (length uncles) * (staticRewardByBlockNumber (int64_of (h_Number header)) div 32)
    + staticRewardByBlockNumber (int64_of (h_Number header)))"
proof -
  have price: "int64_of (t_GasPrice t) = t_GasPrice t" if "t \<in> set txs" for t
    using assms(2) that by (intro int64_of_id) (auto intro: order_trans [of _ 0])
  have gas: "int64_of (uint (r_GasUsed r)) = uint (r_GasUsed r)" if "r \<in> set receipts" for r
    using assms(3) that by (intro int64_of_id) (simp_all add: order_trans [of _ 0])
  have "calcEthTransactionFees txs receipts
    = Ok (fold (\<lambda>(t, r) acc. acc + int64_of (t_GasPrice t) * int64_of (uint (r_GasUsed r))) (zip txs receipts) 0)"
    unfolding calcEthTransactionFees_def using assms(1) by (intro for_range_zip) simp_all
  also have "fold (\<lambda>(t, r) acc. acc + int64_of (t_GasPrice t) * int64_of (uint (r_GasUsed r))) (zip txs receipts) 0
    = sum_list (map (\<lambda>(t, r). int64_of (t_GasPrice t) * int64_of (uint (r_GasUsed r))) (zip txs receipts))"
    using fold_sum [of "\<lambda>(t, r). int64_of (t_GasPrice t) * int64_of (uint (r_GasUsed r))" "zip txs receipts" 0]
    by (simp add: case_prod_beta')
  also have "map (\<lambda>(t, r). int64_of (t_GasPrice t) * int64_of (uint (r_GasUsed r))) (zip txs receipts)
    = map (\<lambda>(t, r). t_GasPrice t * uint (r_GasUsed r)) (zip txs receipts)"
    by (auto simp: price [OF set_zip_leftD] gas [OF set_zip_rightD])
  finally show ?thesis
    by (simp add: CalcEthBlockReward_def calcEthUncleInclusionRewards_def fold_count)
qed

theorem CalcEthBlockReward_formula_witness:
  "CalcEthBlockReward (sample_header 8000000) [sample_header 7999999] [sample_tx] [sample_rct]
     = Ok (2 * 21000 + 62500000000000000 + 2000000000000000000)"
  using CalcEthBlockReward_formula [of "[sample_rct]" "[sample_tx]" "sample_header 8000000" "[sample_header 7999999]"]
  by (simp add: sample_defs staticRewardByBlockNumber_def)



end
