(* ===== verification/Eth_Publisher.thy ===== *)
theory Eth_Publisher
  imports Eth_Indexer Ipld_Eth Eth_Reward
begin

text \<open>
  The two Ethereum publishers. \<open>eth/publish_and_indexer.go\<close> writes the IPLDs of a block straight into
  \<open>public.blocks\<close> and indexes them in the same transaction. \<open>eth/publisher.go\<close> hands each IPLD to a
  putter of an IPFS node (a parameter) and returns the cids and metadata for the indexer.
\<close>

subsection \<open>Pieces both publishers share\<close>

definition header_node :: "EthHeaderNode \<Rightarrow> ipld_node" where
  "header_node n = \<lparr>node_Cid = hn_cid n, node_RawData = hn_rawdata n\<rparr>"

definition tx_node :: "EthTxNode \<Rightarrow> ipld_node" where
  "tx_node n = \<lparr>node_Cid = xn_cid n, node_RawData = xn_rawdata n\<rparr>"

definition rct_node :: "EthReceiptNode \<Rightarrow> ipld_node" where
  "rct_node n = \<lparr>node_Cid = rn_cid n, node_RawData = rn_rawdata n\<rparr>"

definition header_model :: "geth_lib \<Rightarrow> ipfs_lib \<Rightarrow> ConvertedPayload \<Rightarrow> EthHeaderNode \<Rightarrow> string \<Rightarrow> int \<Rightarrow> HeaderModel" where
  "header_model geth ipfs payload headerNode c reward =
     (let h = b_Header (cp_Block payload) in
      zero_HeaderModel\<lparr>hm_CID := c,
        hm_MhKey := MultihashKeyFromCID ipfs (hn_cid headerNode),
        hm_ParentHash := Hash_Hex (h_ParentHash h),
        hm_BlockNumber := big_String (h_Number h),
        hm_BlockHash := Hash_Hex (Header_Hash geth h),
        hm_TotalDifficulty := bigptr_String (cp_TotalDifficulty payload),
        hm_Reward := big_String reward,
        hm_Bloom := h_Bloom h,
        hm_StateRoot := Hash_Hex (h_Root h),
        hm_RctRoot := Hash_Hex (h_ReceiptHash h),
        hm_TxRoot := Hash_Hex (h_TxHash h),
        hm_UncleRoot := Hash_Hex (h_UncleHash h),
        hm_Timestamp := h_Time h\<rparr>)"

definition uncle_model :: "geth_lib \<Rightarrow> ipfs_lib \<Rightarrow> ConvertedPayload \<Rightarrow> EthHeaderNode \<Rightarrow> string \<Rightarrow> UncleModel" where
  "uncle_model geth ipfs payload uncle c =
     \<lparr>um_ID = 0, um_HeaderID = 0, um_BlockHash = Hash_Hex (Header_Hash geth (hn_Header uncle)),
      um_ParentHash = Hash_Hex (h_ParentHash (hn_Header uncle)), um_CID = c,
      um_MhKey = MultihashKeyFromCID ipfs (hn_cid uncle),
      um_Reward = big_String (CalcUncleMinerReward (int64_of (h_Number (b_Header (cp_Block payload))))
        (int64_of (h_Number (hn_Header uncle))))\<rparr>"

text \<open>The account of a state leaf.\<close>

definition decode_account :: "geth_lib \<Rightarrow> string \<Rightarrow> bytes \<Rightarrow> StateAccountModel outcome" where
  "decode_account geth msg leaf =
     outcome_bind (rlp_DecodeList geth leaf) (\<lambda>i.
       if length i \<noteq> 2 then Err (Errorf msg [])
       else outcome_bind (slice_get i 1) (\<lambda>i1.
            outcome_bind (rlp_DecodeAccount geth i1) (\<lambda>account.
            Ok \<lparr>am_ID = 0, am_StateID = 0, am_Balance = big_String (ac_Balance account),
                am_Nonce = ac_Nonce account, am_CodeHash = ac_CodeHash account,
                am_StorageRoot = Hash_Hex (ac_Root account)\<rparr>)))"

definition state_model :: "TrieNode \<Rightarrow> string \<Rightarrow> string \<Rightarrow> StateNodeModel" where
  "state_model stateNode c mhKey =
     \<lparr>sm_ID = 0, sm_HeaderID = 0, sm_Path = tn_Path stateNode, sm_StateKey = Hash_Hex (tn_LeafKey stateNode),
      sm_NodeType = ResolveFromNodeType (tn_Type stateNode), sm_CID = c, sm_MhKey = mhKey, sm_Diff = False\<rparr>"

definition storage_model :: "TrieNode \<Rightarrow> string \<Rightarrow> string \<Rightarrow> StorageNodeModel" where
  "storage_model storageNode c mhKey =
     \<lparr>om_ID = 0, om_StateID = 0, om_Path = tn_Path storageNode, om_StorageKey = Hash_Hex (tn_LeafKey storageNode),
      om_NodeType = ResolveFromNodeType (tn_Type storageNode), om_CID = c, om_MhKey = mhKey, om_Diff = False\<rparr>"

text \<open>\<open>common.Bytes2Hex\<close> of a path, looked up in a map of slices: a missing key gives the nil slice.\<close>

definition storage_nodes_at :: "(string \<times> 'n list) list \<Rightarrow> bytes \<Rightarrow> 'n list" where
  "storage_nodes_at m path = (case map_of m (hex_EncodeToString path) of None \<Rightarrow> [] | Some l \<Rightarrow> l)"

subsection \<open>Publishing and indexing in one transaction (publish\_and\_indexer.go)\<close>

text \<open>\<open>mhKey, _ := MultihashKeyFromCIDString(c)\<close>: the error is dropped and leaves the empty string.\<close>

definition key_or_empty :: "string outcome \<Rightarrow> string" where
  "key_or_empty r = (case r of Ok k \<Rightarrow> k | _ \<Rightarrow> '''')"

definition publish_storage :: "ipfs_lib \<Rightarrow> int \<Rightarrow> TrieNode \<Rightarrow> unit pg_txm" where
  "publish_storage ipfs stateID storageNode =
     tx_bind (PublishRaw ipfs MEthStorageTrie KECCAK_256 (tn_Value storageNode)) (\<lambda>storageCIDStr.
       indexStorageCID (storage_model storageNode storageCIDStr
         (key_or_empty (MultihashKeyFromCIDString ipfs storageCIDStr))) stateID)"

definition publish_state :: "geth_lib \<Rightarrow> ipfs_lib \<Rightarrow> ConvertedPayload \<Rightarrow> int \<Rightarrow> TrieNode \<Rightarrow> unit pg_txm" where
  "publish_state geth ipfs ipldPayload headerID stateNode =
     tx_bind (PublishRaw ipfs MEthStateTrie KECCAK_256 (tn_Value stateNode)) (\<lambda>stateCIDStr.
     tx_bind (indexStateCID (state_model stateNode stateCIDStr
       (key_or_empty (MultihashKeyFromCIDString ipfs stateCIDStr))) headerID) (\<lambda>stateID.
     if tn_Type stateNode = NodeLeaf then
       tx_bind (tx_lift (decode_account geth
         ''eth IPLDPublisherAndIndexer expected state leaf node rlp to decode into two elements'' (tn_Value stateNode)))
         (\<lambda>accountModel.
       tx_bind (indexStateAccount accountModel stateID) (\<lambda>_.
       tx_for (\<lambda>_ storageNode. publish_storage ipfs stateID storageNode) 0
         (storage_nodes_at (cp_StorageNodes ipldPayload) (tn_Path stateNode))))
     else tx_return ()))"

definition publishAndIndexStateAndStorage :: "geth_lib \<Rightarrow> ipfs_lib \<Rightarrow> ConvertedPayload \<Rightarrow> int \<Rightarrow> unit pg_txm" where
  "publishAndIndexStateAndStorage geth ipfs ipldPayload headerID =
     tx_for (\<lambda>_ stateNode. publish_state geth ipfs ipldPayload headerID stateNode) 0 (cp_StateNodes ipldPayload)"

definition publish_uncle :: "geth_lib \<Rightarrow> ipfs_lib \<Rightarrow> ConvertedPayload \<Rightarrow> int \<Rightarrow> EthHeaderNode \<Rightarrow> unit pg_txm" where
  "publish_uncle geth ipfs ipldPayload headerID uncleNode =
     tx_bind (PublishIPLD ipfs (header_node uncleNode)) (\<lambda>_.
       indexUncleCID (uncle_model geth ipfs ipldPayload uncleNode (Cid_String ipfs (hn_cid uncleNode))) headerID)"

definition publish_tx ::
    "ipfs_lib \<Rightarrow> ConvertedPayload \<Rightarrow> EthReceiptNode list \<Rightarrow> int \<Rightarrow> nat \<Rightarrow> EthTxNode \<Rightarrow> unit pg_txm" where
  "publish_tx ipfs ipldPayload rctNodes headerID i txNode =
     tx_bind (PublishIPLD ipfs (tx_node txNode)) (\<lambda>_.
     tx_bind (tx_lift (slice_get rctNodes i)) (\<lambda>rctNode.
     tx_bind (PublishIPLD ipfs (rct_node rctNode)) (\<lambda>_.
     tx_bind (tx_lift (slice_get (cp_TxMetaData ipldPayload) i)) (\<lambda>txModel.
     tx_bind (indexTransactionCID (txModel\<lparr>tm_CID := Cid_String ipfs (xn_cid txNode),
         tm_MhKey := MultihashKeyFromCID ipfs (xn_cid txNode)\<rparr>) headerID) (\<lambda>txID.
     tx_bind (tx_lift (slice_get (cp_ReceiptMetaData ipldPayload) i)) (\<lambda>rctModel.
       indexReceiptCID (rctModel\<lparr>rm_CID := Cid_String ipfs (rn_cid rctNode),
         rm_MhKey := MultihashKeyFromCID ipfs (rn_cid rctNode)\<rparr>) txID))))))"

definition publish_body ::
    "geth_lib \<Rightarrow> ipfs_lib \<Rightarrow> int \<Rightarrow> ConvertedPayload \<Rightarrow> block_nodes \<Rightarrow> CIDsForIndexing pg_body" where
  "publish_body geth ipfs nodeID ipldPayload n =
     inner_err (tx_for (\<lambda>_ node. PublishIPLD ipfs node) 0 (bn_txTrie n)) (\<lambda>_.
     inner_err (tx_for (\<lambda>_ node. PublishIPLD ipfs node) 0 (bn_rctTrie n)) (\<lambda>_.
     inner_err (PublishIPLD ipfs (header_node (bn_header n))) (\<lambda>_.
     outer_err (tx_lift (CalcEthBlockReward (b_Header (cp_Block ipldPayload)) (b_Uncles (cp_Block ipldPayload))
       (b_Transactions (cp_Block ipldPayload)) (cp_Receipts ipldPayload))) (\<lambda>reward.
     outer_err (indexHeaderCID nodeID (header_model geth ipfs ipldPayload (bn_header n)
       (Cid_String ipfs (hn_cid (bn_header n))) reward)) (\<lambda>headerID.
     inner_err (tx_for (\<lambda>_ uncleNode. publish_uncle geth ipfs ipldPayload headerID uncleNode) 0 (bn_uncles n)) (\<lambda>_.
     inner_err (tx_for (\<lambda>i txNode. publish_tx ipfs ipldPayload (bn_rcts n) headerID i txNode) 0 (bn_txs n)) (\<lambda>_.
     outer_err (publishAndIndexStateAndStorage geth ipfs ipldPayload headerID) (\<lambda>_.
     body_return NilCIDs))))))))"

definition PublisherAndIndexer_Publish ::
    "geth_lib \<Rightarrow> ipfs_lib \<Rightarrow> trie_lib \<Rightarrow> int \<Rightarrow> bool list \<Rightarrow> Converted \<Rightarrow> pg_seq \<Rightarrow> pg_db
     \<Rightarrow> CIDsForIndexing outcome \<times> pg_db \<times> pg_seq" where
  "PublisherAndIndexer_Publish geth ipfs tlib nodeID faults payload sq db =
     (case payload of
        EthConverted ipldPayload \<Rightarrow>
          (case FromBlockAndReceipts geth ipfs tlib (cp_Block ipldPayload) (cp_Receipts ipldPayload) of
             Ok n \<Rightarrow> run_tx deferred_fk faults (publish_body geth ipfs nodeID ipldPayload n) sq db
           | Err e \<Rightarrow> (Err e, db, sq)
           | Panic p \<Rightarrow> (Panic p, db, sq))
      | _ \<Rightarrow> (Err (Errorf ''eth IPLDPublisherAndIndexer expected payload type %T got %T''
              [''eth.ConvertedPayload'', Converted_T payload]), db, sq))"

text \<open>Its \<open>Index\<close> does nothing.\<close>

definition PublisherAndIndexer_Index :: "CIDsForIndexing \<Rightarrow> pg_seq \<Rightarrow> pg_db \<Rightarrow> unit outcome \<times> pg_db \<times> pg_seq" where
  "PublisherAndIndexer_Index cids sq db = (Ok (), db, sq)"

subsection \<open>Atomicity and invariants\<close>

lemma publish_tx_sql_only [sql_only_intros]: "sql_only (publish_tx ipfs p rs headerID i t)"
  unfolding publish_tx_def index_op_defs by (intro sql_only_intros slice_get_not_Err)

lemma publish_uncle_sql_only [sql_only_intros]: "sql_only (publish_uncle geth ipfs p headerID u)"
  unfolding publish_uncle_def index_op_defs by (intro sql_only_intros)

lemma publish_body_rolls_back: "error_rolls_back (publish_body geth ipfs nodeID p n)"
  unfolding publish_body_def by (intro rolls_back_intros sql_only_intros)

interpretation publish_tx: transactional "publish_body geth ipfs nodeID p n" for geth ipfs nodeID p n
  by unfold_locales (rule publish_body_rolls_back)

lemmas publish_parts_defs = publish_uncle_def publish_tx_def publishAndIndexStateAndStorage_def
  publish_state_def publish_storage_def

lemma publish_body_keeps: "body_keeps db_ok (publish_body geth ipfs nodeID p n)"
  unfolding publish_body_def publish_parts_defs by (intro keeps_intros)

lemma key_stored_index_stmts [keeps_intros]:
  "stmt_keeps (key_stored k) (insert_header nodeID header)"
  "stmt_keeps (key_stored k) (insert_uncle uncle headerID)"
  "stmt_keeps (key_stored k) (insert_tx trx headerID)"
  "stmt_keeps (key_stored k) (insert_rct rct txID)"
  "stmt_keeps (key_stored k) (insert_state st stateKey headerID)"
  "stmt_keeps (key_stored k) (insert_account acc stateID)"
  "stmt_keeps (key_stored k) (insert_storage so storageKey stateID)"
  by (intro key_stored_view blocks_kept_stmts)+

lemma addressed_index_stmts [keeps_intros]:
  "stmt_keeps (addressed ipfs) (insert_header nodeID header)"
  "stmt_keeps (addressed ipfs) (insert_uncle uncle headerID)"
  "stmt_keeps (addressed ipfs) (insert_tx trx headerID)"
  "stmt_keeps (addressed ipfs) (insert_rct rct txID)"
  "stmt_keeps (addressed ipfs) (insert_state st stateKey headerID)"
  "stmt_keeps (addressed ipfs) (insert_account acc stateID)"
  "stmt_keeps (addressed ipfs) (insert_storage so storageKey stateID)"
  by (intro addressed_view blocks_kept_stmts)+

lemma key_stored_parts [keeps_intros]:
  "tx_keeps (key_stored k) (publish_uncle geth ipfs p headerID u)"
  "tx_keeps (key_stored k) (publish_tx ipfs p rs headerID i t)"
  "tx_keeps (key_stored k) (publish_storage ipfs stateID so)"
  "tx_keeps (key_stored k) (publish_state geth ipfs p headerID st)"
  "tx_keeps (key_stored k) (publishAndIndexStateAndStorage geth ipfs p headerID)"
  "tx_keeps (key_stored k) (indexHeaderCID nodeID header)"
  unfolding publish_parts_defs index_op_defs by (intro keeps_intros)+

lemma extends_index_stmts [keeps_intros]:
  "stmt_keeps (blocks_extend bs) (insert_header nodeID header)"
  "stmt_keeps (blocks_extend bs) (insert_uncle uncle headerID)"
  "stmt_keeps (blocks_extend bs) (insert_tx trx headerID)"
  "stmt_keeps (blocks_extend bs) (insert_rct rct txID)"
  "stmt_keeps (blocks_extend bs) (insert_state st stateKey headerID)"
  "stmt_keeps (blocks_extend bs) (insert_account acc stateID)"
  "stmt_keeps (blocks_extend bs) (insert_storage so storageKey stateID)"
  by (intro blocks_extend_view blocks_kept_stmts)+

lemma publish_body_extends: "body_keeps (blocks_extend bs) (publish_body geth ipfs nodeID p n)"
  unfolding publish_body_def publish_parts_defs index_op_defs by (intro keeps_intros)

subsection \<open>Content addressing\<close>

definition consistent_node :: "ipfs_lib \<Rightarrow> ipld_node \<Rightarrow> bool" where
  "consistent_node ipfs i \<longleftrightarrow> (\<exists>codec. RawdataToCid ipfs codec (node_RawData i) KECCAK_256 = Ok (node_Cid i))"

definition consistent_nodes :: "ipfs_lib \<Rightarrow> block_nodes \<Rightarrow> bool" where
  "consistent_nodes ipfs n \<longleftrightarrow> (\<forall>i\<in>set (bn_txTrie n @ bn_rctTrie n @ header_node (bn_header n) # map header_node (bn_uncles n)
     @ map tx_node (bn_txs n) @ map rct_node (bn_rcts n)). consistent_node ipfs i)"

lemma collectNodes_consistent:
  "collectNodes ipfs codec db ks out = Ok ns \<Longrightarrow> \<forall>i\<in>set out. consistent_node ipfs i \<Longrightarrow>
   \<forall>i\<in>set ns. consistent_node ipfs i"
proof (induction ks arbitrary: out)
  case (Cons k ks)
  from Cons.prems(1) obtain raw where raw: "map_of db k = Some raw" by (cases "map_of db k") auto
  show ?case
  proof (cases "RawdataToCid ipfs codec raw KECCAK_256")
    case (Ok c)
    then have "consistent_node ipfs \<lparr>node_Cid = c, node_RawData = raw\<rparr>" by (auto simp: consistent_node_def)
    with Cons.IH [of "out @ [\<lparr>node_Cid = c, node_RawData = raw\<rparr>]"] Cons.prems raw Ok show ?thesis by simp
  qed (use Cons.prems raw in auto)
qed simp

lemma getNodes_consistent: "getNodes ipfs codec lt = Ok ns \<Longrightarrow> \<forall>i\<in>set ns. consistent_node ipfs i"
  unfolding getNodes_def by (erule collectNodes_consistent) simp

lemma add_node_consistent:
  assumes "for_range (add_node mk raw tlib) 0 xs ([], newLocalTrie) = Ok (ns, lt)"
    and "\<And>x n. mk x = Ok n \<Longrightarrow> consistent_node ipfs (g n)"
  shows "\<forall>n\<in>set ns. consistent_node ipfs (g n)"
proof -
  have "case (ns, lt) of (ns, _) \<Rightarrow> \<forall>n\<in>set ns. consistent_node ipfs (g n)"
    by (rule for_range_inv [OF assms(1)]) (use assms(2) in \<open>auto simp: add_node_def\<close>)
  then show ?thesis by simp
qed

lemma new_nodes_consistent:
  "NewEthHeader geth ipfs h = Ok hn \<Longrightarrow> consistent_node ipfs (header_node hn)"
  "NewEthTx geth ipfs t = Ok tn \<Longrightarrow> consistent_node ipfs (tx_node tn)"
  "NewReceipt geth ipfs r = Ok rn \<Longrightarrow> consistent_node ipfs (rct_node rn)"
  by (auto simp: NewEthHeader_def NewEthTx_def NewReceipt_def consistent_node_def header_node_def tx_node_def
      rct_node_def simp del: RawdataToCid_def)

lemma FromBlockAndReceipts_consistent:
  assumes "FromBlockAndReceipts geth ipfs tlib block receipts = Ok n"
  shows "consistent_nodes ipfs n"
proof -
  from assms have hdr: "NewEthHeader geth ipfs (b_Header block) = Ok (bn_header n)"
    and unc: "outcome_map (NewEthHeader geth ipfs) (b_Uncles block) = Ok (bn_uncles n)"
    and tx: "processTransactions geth ipfs tlib (b_Transactions block) (h_TxHash (b_Header block)) = Ok (bn_txs n, bn_txTrie n)"
    and rct: "processReceipts geth ipfs tlib receipts (h_ReceiptHash (b_Header block)) = Ok (bn_rcts n, bn_rctTrie n)"
    by (auto simp: FromBlockAndReceipts_def)
  from tx obtain lt where t: "for_range (add_node (NewEthTx geth ipfs) xn_rawdata tlib) 0 (b_Transactions block)
      ([], newLocalTrie) = Ok (bn_txs n, lt)" "getNodes ipfs MEthTxTrie lt = Ok (bn_txTrie n)"
    by (auto simp: processTransactions_add_node split: if_splits)
  from rct obtain lt' where r: "for_range (add_node (NewReceipt geth ipfs) rn_rawdata tlib) 0 receipts
      ([], newLocalTrie) = Ok (bn_rcts n, lt')" "getNodes ipfs MEthTxReceiptTrie lt' = Ok (bn_rctTrie n)"
    by (auto simp: processReceipts_add_node split: if_splits)
  have "\<forall>i\<in>set (bn_uncles n). consistent_node ipfs (header_node i)"
    using unc unfolding outcome_map_Ok_iff
    by (induction rule: list_all2_induct) (auto dest: new_nodes_consistent(1))
  moreover have "\<forall>i\<in>set (bn_txs n). consistent_node ipfs (tx_node i)"
    by (rule add_node_consistent [OF t(1)]) (rule new_nodes_consistent(2))
  moreover have "\<forall>i\<in>set (bn_rcts n). consistent_node ipfs (rct_node i)"
    by (rule add_node_consistent [OF r(1)]) (rule new_nodes_consistent(3))
  moreover have "\<forall>i\<in>set (bn_txTrie n). consistent_node ipfs i" "\<forall>i\<in>set (bn_rctTrie n). consistent_node ipfs i"
    by (rule getNodes_consistent [OF t(2)], rule getNodes_consistent [OF r(2)])
  moreover have "consistent_node ipfs (header_node (bn_header n))" using hdr by (rule new_nodes_consistent(1))
  ultimately show ?thesis by (auto simp: consistent_nodes_def)
qed

lemma PublishIPLD_consistent: "consistent_node ipfs i \<Longrightarrow> tx_keeps (addressed ipfs) (PublishIPLD ipfs i)"
  by (auto simp: consistent_node_def intro: PublishIPLD_addressed)

lemma publish_tx_addressed:
  assumes "consistent_node ipfs (tx_node t)" "\<forall>r\<in>set rs. consistent_node ipfs (rct_node r)"
  shows "tx_keeps (addressed ipfs) (publish_tx ipfs p rs headerID i t)"
  unfolding publish_tx_def index_op_defs
  by (intro keeps_bind [OF PublishIPLD_consistent [OF assms(1)]] tx_keeps_bind_lift
      keeps_bind [OF PublishIPLD_consistent] keeps_intros)
     (use assms(2) in \<open>auto simp: slice_get_Ok_iff\<close>)

lemma publish_body_addressed:
  assumes "consistent_nodes ipfs n"
  shows "body_keeps (addressed ipfs) (publish_body geth ipfs nodeID p n)"
  unfolding publish_body_def publish_uncle_def publishAndIndexStateAndStorage_def publish_state_def
    publish_storage_def index_op_defs
  by (intro keeps_intros PublishIPLD_consistent publish_tx_addressed)
     (use assms in \<open>auto simp: consistent_nodes_def\<close>)

subsection \<open>Completeness\<close>

lemma publish_body_steps:
  assumes "publish_body geth ipfs nodeID p n tx = ((Ok x, False), tx')"
  obtains t1 t2 t3 t4 t5 t6 reward i where
    "tx_for (\<lambda>_ node. PublishIPLD ipfs node) 0 (bn_txTrie n) tx = (Ok (), t1)"
    "tx_for (\<lambda>_ node. PublishIPLD ipfs node) 0 (bn_rctTrie n) t1 = (Ok (), t2)"
    "PublishIPLD ipfs (header_node (bn_header n)) t2 = (Ok (), t3)"
    "indexHeaderCID nodeID (header_model geth ipfs p (bn_header n) (Cid_String ipfs (hn_cid (bn_header n))) reward) t3
       = (Ok i, t4)"
    "tx_for (\<lambda>_ uncleNode. publish_uncle geth ipfs p i uncleNode) 0 (bn_uncles n) t4 = (Ok (), t5)"
    "tx_for (\<lambda>j txNode. publish_tx ipfs p (bn_rcts n) i j txNode) 0 (bn_txs n) t5 = (Ok (), t6)"
    "publishAndIndexStateAndStorage geth ipfs p i t6 = (Ok (), tx')" "x = NilCIDs"
  using assms unfolding publish_body_def
  by (elim inner_err_Ok outer_err_Ok) (auto simp: tx_lift_def body_return_def)

lemma publish_uncle_stores:
  assumes "publish_uncle geth ipfs p headerID u tx = (Ok v, tx')"
  shows "stored (tx_db tx') (MultihashKeyFromCID ipfs (hn_cid u))"
proof -
  obtain t1 m where 1: "PublishIPLD ipfs (header_node u) tx = (Ok (), t1)" and 2: "indexUncleCID m headerID t1 = (Ok v, tx')"
    using assms unfolding publish_uncle_def by (auto elim: tx_bind_Ok)
  have "tx_keeps (key_stored k) (indexUncleCID m headerID)" for k
    unfolding index_op_defs by (intro keeps_intros)
  from key_stored_forward [OF this 2] PublishIPLD_stores [OF 1] show ?thesis by (simp add: header_node_def)
qed

definition tx_rct_stored :: "ipfs_lib \<Rightarrow> EthReceiptNode list \<Rightarrow> nat \<Rightarrow> EthTxNode \<Rightarrow> pg_db \<Rightarrow> bool" where
  "tx_rct_stored ipfs rs j t db \<longleftrightarrow> j < length rs \<and> stored db (MultihashKeyFromCID ipfs (xn_cid t))
     \<and> stored db (MultihashKeyFromCID ipfs (rn_cid (rs ! j)))"

lemma tx_keeps_conj:
  "tx_keeps (\<lambda>_ db. P db) m \<Longrightarrow> tx_keeps (\<lambda>_ db. Q db) m \<Longrightarrow> tx_keeps (\<lambda>_ db. P db \<and> Q db) m"
  unfolding tx_keeps_def by metis

lemma tx_keeps_const: "tx_keeps (\<lambda>_ db. c) m"
  by (simp add: tx_keeps_def)

lemma key_stored_plain: "tx_keeps (key_stored k) m \<Longrightarrow> tx_keeps (\<lambda>_ db. stored db k) m"
  by (simp add: key_stored_def [abs_def])

lemma tx_rct_stored_kept: "tx_keeps (\<lambda>_. tx_rct_stored ipfs rs j t) (publish_tx ipfs' p rs' headerID i t')"
  unfolding tx_rct_stored_def [abs_def]
  by (intro tx_keeps_conj tx_keeps_const key_stored_plain keeps_intros)

lemma publish_tx_stores:
  assumes "publish_tx ipfs p rs headerID j t tx = (Ok v, tx')"
  shows "tx_rct_stored ipfs rs j t (tx_db tx')"
proof -
  obtain t1 t2 t3 t4 rn i tm rm where 1: "PublishIPLD ipfs (tx_node t) tx = (Ok (), t1)"
    and 2: "slice_get rs j = Ok rn" "PublishIPLD ipfs (rct_node rn) t1 = (Ok (), t2)"
    and 3: "indexTransactionCID tm headerID t2 = (Ok i, t3)" "indexReceiptCID rm i t3 = (Ok v, tx')"
    using assms unfolding publish_tx_def by (elim tx_bind_Ok) (auto simp: tx_lift_def)
  have k: "tx_keeps (key_stored k) (indexTransactionCID tm headerID)" "tx_keeps (key_stored k) (indexReceiptCID rm i)"
    for k unfolding index_op_defs by (intro keeps_intros)+
  have "stored (tx_db tx') k" if "stored (tx_db t2) k" for k
    using that key_stored_forward [OF k(1) 3(1)] key_stored_forward [OF k(2) 3(2)] by blast
  moreover have "stored (tx_db t2) (MultihashKeyFromCID ipfs (rn_cid rn))"
    using PublishIPLD_stores [OF 2(2)] by (simp add: rct_node_def)
  moreover have "stored (tx_db t2) (MultihashKeyFromCID ipfs (xn_cid t))"
    using PublishIPLD_stores [OF 1] key_stored_forward [OF PublishIPLD_key_stored 2(2)] by (simp add: tx_node_def)
  ultimately show ?thesis using 2(1) by (auto simp: tx_rct_stored_def slice_get_Ok_iff)
qed

definition raw_stored :: "ipfs_lib \<Rightarrow> u64 \<Rightarrow> TrieNode \<Rightarrow> pg_db \<Rightarrow> bool" where
  "raw_stored ipfs codec s db \<longleftrightarrow>
     (\<exists>c. RawdataToCid ipfs codec (tn_Value s) KECCAK_256 = Ok c \<and> stored db (MultihashKeyFromCID ipfs c))"

lemma raw_stored_kept: "(\<And>k. tx_keeps (key_stored k) m) \<Longrightarrow> tx_keeps (\<lambda>_. raw_stored ipfs codec s) m"
  unfolding tx_keeps_def raw_stored_def key_stored_def by blast

lemma PublishRaw_raw_stored:
  "PublishRaw ipfs codec KECCAK_256 (tn_Value s) tx = (Ok c, tx') \<Longrightarrow> raw_stored ipfs codec s (tx_db tx')"
  using PublishRaw_stores by (fastforce simp: raw_stored_def)

lemma publish_storage_stores:
  assumes "publish_storage ipfs stateID o' tx = (Ok u, tx')"
  shows "raw_stored ipfs MEthStorageTrie o' (tx_db tx')"
proof -
  obtain c t1 m where "PublishRaw ipfs MEthStorageTrie KECCAK_256 (tn_Value o') tx = (Ok c, t1)"
    and "indexStorageCID m stateID t1 = (Ok u, tx')"
    using assms unfolding publish_storage_def by (blast elim: tx_bind_Ok)
  moreover have "tx_keeps (\<lambda>_. raw_stored ipfs MEthStorageTrie o') (indexStorageCID m stateID)"
    unfolding index_op_defs by (intro raw_stored_kept keeps_intros)
  ultimately show ?thesis using PublishRaw_raw_stored tx_keeps_plain by blast
qed

definition state_stored :: "ipfs_lib \<Rightarrow> ConvertedPayload \<Rightarrow> TrieNode \<Rightarrow> pg_db \<Rightarrow> bool" where
  "state_stored ipfs p s db \<longleftrightarrow> raw_stored ipfs MEthStateTrie s db
     \<and> (tn_Type s = NodeLeaf \<longrightarrow> (\<forall>o'\<in>set (storage_nodes_at (cp_StorageNodes p) (tn_Path s)). raw_stored ipfs MEthStorageTrie o' db))"

lemma state_stored_kept:
  assumes "\<And>k. tx_keeps (key_stored k) m"
  shows "tx_keeps (\<lambda>_. state_stored ipfs p s) m"
  using raw_stored_kept [OF assms, of ipfs] unfolding tx_keeps_def state_stored_def by blast

lemma publish_state_stores:
  assumes "publish_state geth ipfs p headerID s tx = (Ok u, tx')"
  shows "state_stored ipfs p s (tx_db tx')"
proof -
  obtain c t1 i m t2 rest where raw: "PublishRaw ipfs MEthStateTrie KECCAK_256 (tn_Value s) tx = (Ok c, t1)"
    and idx: "indexStateCID m headerID t1 = (Ok i, t2)" and rest: "rest t2 = (Ok u, tx')"
    and rest_def: "rest = (if tn_Type s = NodeLeaf then
       tx_bind (tx_lift (decode_account geth
         ''eth IPLDPublisherAndIndexer expected state leaf node rlp to decode into two elements'' (tn_Value s)))
         (\<lambda>accountModel. tx_bind (indexStateAccount accountModel i) (\<lambda>_.
       tx_for (\<lambda>_ storageNode. publish_storage ipfs i storageNode) 0 (storage_nodes_at (cp_StorageNodes p) (tn_Path s))))
     else tx_return ())"
    using assms unfolding publish_state_def by (blast elim: tx_bind_Ok)
  have "tx_keeps (\<lambda>_. raw_stored ipfs MEthStateTrie s) (indexStateCID m headerID)"
    unfolding index_op_defs by (intro raw_stored_kept keeps_intros)
  with PublishRaw_raw_stored [OF raw] idx have "raw_stored ipfs MEthStateTrie s (tx_db t2)"
    using tx_keeps_plain by blast
  moreover have "tx_keeps (\<lambda>_. raw_stored ipfs MEthStateTrie s) rest"
    unfolding rest_def index_op_defs by (intro raw_stored_kept keeps_intros)
  ultimately have "raw_stored ipfs MEthStateTrie s (tx_db tx')" using rest tx_keeps_plain by blast
  moreover have "\<forall>o'\<in>set (storage_nodes_at (cp_StorageNodes p) (tn_Path s)). raw_stored ipfs MEthStorageTrie o' (tx_db tx')"
    if leaf: "tn_Type s = NodeLeaf"
  proof -
    obtain t3 where "tx_for (\<lambda>_ storageNode. publish_storage ipfs i storageNode) 0
        (storage_nodes_at (cp_StorageNodes p) (tn_Path s)) t3 = (Ok u, tx')"
      using rest leaf unfolding rest_def by (auto elim!: tx_bind_Ok)
    then show ?thesis
      by (rule tx_for_establishes) (erule publish_storage_stores, intro raw_stored_kept keeps_intros)
  qed
  ultimately show ?thesis by (simp add: state_stored_def)
qed

definition block_published :: "ipfs_lib \<Rightarrow> ConvertedPayload \<Rightarrow> block_nodes \<Rightarrow> pg_db \<Rightarrow> bool" where
  "block_published ipfs p n db \<longleftrightarrow>
     (\<forall>i\<in>set (bn_txTrie n) \<union> set (bn_rctTrie n). stored db (MultihashKeyFromCID ipfs (node_Cid i)))
   \<and> stored db (MultihashKeyFromCID ipfs (hn_cid (bn_header n)))
   \<and> (\<forall>u\<in>set (bn_uncles n). stored db (MultihashKeyFromCID ipfs (hn_cid u)))
   \<and> (\<forall>j<length (bn_txs n). tx_rct_stored ipfs (bn_rcts n) j (bn_txs n ! j) db)
   \<and> (\<forall>s\<in>set (cp_StateNodes p). state_stored ipfs p s db)"

text \<open>What was stored after one step of the body is stored at the end.\<close>

lemma trie_loop_stores:
  assumes "tx_for (\<lambda>_ node. PublishIPLD ipfs node) 0 ns tx = (Ok (), tx')"
  shows "\<forall>i\<in>set ns. stored (tx_db tx') (MultihashKeyFromCID ipfs (node_Cid i))"
  using assms by (rule tx_for_establishes) (erule PublishIPLD_stores, intro key_stored_plain keeps_intros)

lemma publish_body_publishes:
  assumes "publish_body geth ipfs nodeID p n tx = ((Ok x, False), tx')"
  shows "block_published ipfs p n (tx_db tx') \<and> x = NilCIDs"
proof -
  from assms obtain t1 t2 t3 t4 t5 t6 reward i where steps:
    "tx_for (\<lambda>_ node. PublishIPLD ipfs node) 0 (bn_txTrie n) tx = (Ok (), t1)"
    "tx_for (\<lambda>_ node. PublishIPLD ipfs node) 0 (bn_rctTrie n) t1 = (Ok (), t2)"
    "PublishIPLD ipfs (header_node (bn_header n)) t2 = (Ok (), t3)"
    "indexHeaderCID nodeID (header_model geth ipfs p (bn_header n) (Cid_String ipfs (hn_cid (bn_header n))) reward) t3
       = (Ok i, t4)"
    "tx_for (\<lambda>_ uncleNode. publish_uncle geth ipfs p i uncleNode) 0 (bn_uncles n) t4 = (Ok (), t5)"
    "tx_for (\<lambda>j txNode. publish_tx ipfs p (bn_rcts n) i j txNode) 0 (bn_txs n) t5 = (Ok (), t6)"
    "publishAndIndexStateAndStorage geth ipfs p i t6 = (Ok (), tx')" and x: "x = NilCIDs"
    by (rule publish_body_steps)
  have loops: "tx_keeps (key_stored k) (tx_for (\<lambda>_ node. PublishIPLD ipfs node) 0 (bn_rctTrie n))"
    "tx_keeps (key_stored k) (tx_for (\<lambda>_ uncleNode. publish_uncle geth ipfs p i uncleNode) 0 (bn_uncles n))"
    "tx_keeps (key_stored k) (tx_for (\<lambda>j txNode. publish_tx ipfs p (bn_rcts n) i j txNode) 0 (bn_txs n))" for k
    by (intro keeps_intros)+
  have fwd6: "stored (tx_db tx') k" if "stored (tx_db t6) k" for k
    using key_stored_forward [OF key_stored_parts(5) steps(7)] that .
  have fwd5: "stored (tx_db tx') k" if "stored (tx_db t5) k" for k
    using fwd6 key_stored_forward [OF loops(3) steps(6) that] .
  have fwd3: "stored (tx_db tx') k" if "stored (tx_db t3) k" for k
    using fwd5 key_stored_forward [OF loops(2) steps(5)] key_stored_forward [OF key_stored_parts(6) steps(4) that] by blast
  have fwd2: "stored (tx_db tx') k" if "stored (tx_db t2) k" for k
    using fwd3 key_stored_forward [OF PublishIPLD_key_stored steps(3) that] .
  have fwd1: "stored (tx_db tx') k" if "stored (tx_db t1) k" for k
    using fwd2 key_stored_forward [OF loops(1) steps(2) that] .
  have "\<forall>u\<in>set (bn_uncles n). stored (tx_db t5) (MultihashKeyFromCID ipfs (hn_cid u))"
    using steps(5) by (rule tx_for_establishes) (erule publish_uncle_stores, intro key_stored_plain keeps_intros)
  moreover have "\<forall>j<length (bn_txs n). tx_rct_stored ipfs (bn_rcts n) (0 + j) (bn_txs n ! j) (tx_db t6)"
    using steps(6) by (rule tx_for_establishes_nth) (erule publish_tx_stores, rule tx_rct_stored_kept)
  moreover have "\<forall>s\<in>set (cp_StateNodes p). state_stored ipfs p s (tx_db tx')"
    using steps(7) unfolding publishAndIndexStateAndStorage_def
    by (rule tx_for_establishes) (erule publish_state_stores, intro state_stored_kept keeps_intros)
  moreover have "stored (tx_db t3) (MultihashKeyFromCID ipfs (hn_cid (bn_header n)))"
    using PublishIPLD_stores [OF steps(3)] by (simp add: header_node_def)
  ultimately show ?thesis
    using x trie_loop_stores [OF steps(1)] trie_loop_stores [OF steps(2)] fwd1 fwd2 fwd3 fwd5 fwd6
    by (auto simp: block_published_def tx_rct_stored_def)
qed

subsection \<open>A sample block\<close>

lemmas publish_run_defs = publish_body_def publish_tx_def publishAndIndexStateAndStorage_def PublishIPLD_def put_block_def
  insert_block_def Let_def index_op_defs insert_tx_def insert_rct_def pg_numeric_def header_node_def tx_node_def
  rct_node_def header_model_def MultihashKeyFromCID_def CalcEthBlockReward_def calcEthTransactionFees_def
  calcEthUncleInclusionRewards_def Hash_Hex_def deferred_fk_def blocks_fk_def rows_fk_def stored_def hex_digit_def

lemma sample_publish:
  "\<exists>db' sq'. PublisherAndIndexer_Publish sample_geth sample_ipfs sample_trie 1 [] (EthConverted (sample_payload 7))
     empty_seq empty_db = (Ok NilCIDs, db', sq') \<and> db' \<noteq> empty_db"
  by (simp add: PublisherAndIndexer_Publish_def sample_payload_def sample_FromBlock)
     (simp add: sample_nodes_def publish_run_defs sample_ipfs_def sample_block_def sample_header_def sample_tx_def
      sample_rct_def sample_geth_def sample_txmeta_def zero_TxModel_def zero_ReceiptModel_def index_run_defs)

lemma sample_empty_addressed: "content_addressed ipfs (db_blocks empty_db)"
  by (simp add: content_addressed_def empty_db_def)

subsection \<open>Properties\<close>

text \<open>
  Whatever happens during \<open>Publish\<close> of the combined publisher, the ids and keys of all tables
  stay unique and every stored block stays addressed by the hash of its data.
\<close>

theorem Publish_invariants:
  assumes "db_ok sq db" "content_addressed ipfs (db_blocks db)"
    and "PublisherAndIndexer_Publish geth ipfs tlib nodeID faults payload sq db = (r, db', sq')"
  shows "db_ok sq' db' \<and> content_addressed ipfs (db_blocks db')"
proof -
  consider "db' = db" "sq' = sq"
    | p n where "payload = EthConverted p" "FromBlockAndReceipts geth ipfs tlib (cp_Block p) (cp_Receipts p) = Ok n"
      "run_tx deferred_fk faults (publish_body geth ipfs nodeID p n) sq db = (r, db', sq')"
    using assms(3) by (auto simp: PublisherAndIndexer_Publish_def split: Converted.splits outcome.splits)
  then show ?thesis
  proof cases
    case (2 p n)
    have "addressed ipfs sq' db'"
      using run_tx_keeps [OF publish_body_addressed [OF FromBlockAndReceipts_consistent [OF 2(2)]] _ 2(3)] assms(2)
      by (simp add: addressed_def)
    with run_tx_keeps [OF publish_body_keeps assms(1) 2(3)] show ?thesis by (simp add: addressed_def)
  qed (use assms in simp)
qed

theorem Publish_invariants_witness:
  "\<exists>db' sq'. PublisherAndIndexer_Publish sample_geth sample_ipfs sample_trie 1 [] (EthConverted (sample_payload 7))
     empty_seq empty_db = (Ok NilCIDs, db', sq') \<and> db_ok sq' db' \<and> content_addressed sample_ipfs (db_blocks db')"
  using sample_publish Publish_invariants [OF sample_db_ok(2) sample_empty_addressed] by blast



end
