(* ===== verification/Ipld_Trie.thy ===== *)
theory Ipld_Trie
  imports Ipld_Eth
begin

text \<open>
  Package \<open>ipld\<close>, Ethereum output side: \<open>trie_node.go\<close> (decoding a trie node out of its RLP elements,
  resolving paths through it, its tree, links and JSON map), the leaf decoders of the four tries
  (\<open>eth_state.go\<close>, \<open>eth_storage.go\<close>, \<open>eth_tx_trie.go\<close>, \<open>eth_receipt_trie.go\<close>), and the node interface of
  headers and accounts (\<open>eth_header.go\<close>, \<open>eth_account.go\<close>). The RLP decoder of go-ethereum is a
  parameter; a decoded interface value is a byte string or a list.

  Path elements are ASCII strings, on which Go's runes and bytes agree.
\<close>

datatype rlp_item = RBytes bytes | RList "rlp_item list"

record rlp_lib =
  rlp_DecodeItems :: "bytes \<Rightarrow> rlp_item list outcome"
  rlp_DecodeEthAccount :: "bytes \<Rightarrow> Account outcome"
  rlp_DecodeTx :: "bytes \<Rightarrow> Transaction outcome"
  rlp_DecodeReceipt :: "bytes \<Rightarrow> Receipt outcome"

text \<open>What resolving returns: a link, a field, or a node.\<close>

datatype 'n ipld_value =
    VLink Cid | VBytes bytes | VInt int | VU64 u64 | VStr string | VNode 'n

type_synonym 'n resolved = "('n ipld_value \<times> string list) outcome"

text \<open>The elements of a trie node; \<open>EStr\<close> is what \<open>MarshalJSON\<close> leaves in place of bytes.\<close>

datatype 'n elem = EBytes bytes | ECid Cid | ENode 'n | EStr string | ENil

record 'n IpldTrieNode =
  in_nodeKind :: string
  in_elements :: "'n elem list"
  in_cid :: Cid
  in_rawdata :: bytes

subsection \<open>Type assertions\<close>

definition item_bytes :: "rlp_item \<Rightarrow> bytes outcome" where
  "item_bytes i = (case i of RBytes b \<Rightarrow> Ok b | RList _ \<Rightarrow> Panic ''interface conversion: interface {} is []interface {}, not []uint8'')"

definition elem_bytes :: "'n elem \<Rightarrow> bytes outcome" where
  "elem_bytes e = (case e of EBytes b \<Rightarrow> Ok b | _ \<Rightarrow> Panic ''interface conversion: not []uint8'')"

definition elem_cid :: "'n elem \<Rightarrow> Cid outcome" where
  "elem_cid e = (case e of ECid c \<Rightarrow> Ok c | _ \<Rightarrow> Panic ''interface conversion: not cid.Cid'')"

subsection \<open>Decoding\<close>

fun nibbleToByte :: "bytes \<Rightarrow> bytes" where
  "nibbleToByte [] = []"
| "nibbleToByte (b # k) = b div 16 # b mod 16 # nibbleToByte k"

text \<open>\<open>xs[n:]\<close>; the bound holds wherever the code slices.\<close>

definition slice_from :: "nat \<Rightarrow> 'a list \<Rightarrow> 'a list outcome" where
  "slice_from n xs = (if n \<le> length xs then Ok (drop n xs) else Panic ''runtime error: slice bounds out of range'')"

definition decodeCompactKey :: "rlp_item list \<Rightarrow> (string \<times> bytes \<times> bytes) outcome" where
  "decodeCompactKey i =
     outcome_bind (outcome_bind (slice_get i 0) item_bytes) (\<lambda>fst_el.
     outcome_bind (outcome_bind (slice_get i 1) item_bytes) (\<lambda>last_el.
     outcome_bind (slice_get fst_el 0) (\<lambda>b.
       if b div 16 = 0 then outcome_bind (slice_from 2 (nibbleToByte fst_el)) (\<lambda>k. Ok (''extension'', k, last_el))
       else if b div 16 = 1 then outcome_bind (slice_from 1 (nibbleToByte fst_el)) (\<lambda>k. Ok (''extension'', k, last_el))
       else if b div 16 = 2 then outcome_bind (slice_from 2 (nibbleToByte fst_el)) (\<lambda>k. Ok (''leaf'', k, last_el))
       else if b div 16 = 3 then outcome_bind (slice_from 1 (nibbleToByte fst_el)) (\<lambda>k. Ok (''leaf'', k, last_el))
       else Err (Errorf ''unknown hex prefix'' []))))"

definition parseTrieNodeExtension :: "ipfs_lib \<Rightarrow> bytes \<times> bytes \<Rightarrow> u64 \<Rightarrow> 'n elem list outcome" where
  "parseTrieNodeExtension ipfs i codec =
     outcome_bind (keccak256ToCid ipfs codec (snd i)) (\<lambda>c. Ok [EBytes (fst i), ECid c])"

definition parseBranchEntry :: "ipfs_lib \<Rightarrow> u64 \<Rightarrow> rlp_item \<Rightarrow> 'n elem outcome" where
  "parseBranchEntry ipfs codec vi =
     (case vi of
        RList _ \<Rightarrow> Err (Errorf ''unable to decode branch node entry into []byte at position: %d value: %+v'' [])
      | RBytes v \<Rightarrow>
          if length v = 0 then Ok ENil
          else if length v = 32 then outcome_bind (keccak256ToCid ipfs codec v) (\<lambda>c. Ok (ECid c))
          else Err (Errorf ''unrecognized object: %v'' []))"

definition parseTrieNodeBranch :: "ipfs_lib \<Rightarrow> rlp_item list \<Rightarrow> u64 \<Rightarrow> 'n elem list outcome" where
  "parseTrieNodeBranch ipfs i codec = outcome_map (parseBranchEntry ipfs codec) i"

text \<open>
  The errors of the extension and the leaf decoder are assigned and never looked at: the node is
  returned with nil elements.
\<close>

definition drop_err :: "'n elem list outcome \<Rightarrow> 'n elem list outcome" where
  "drop_err r = (case r of Err e \<Rightarrow> Ok [] | _ \<Rightarrow> r)"

definition decodeTrieNode ::
    "rlp_lib \<Rightarrow> ipfs_lib \<Rightarrow> Cid \<Rightarrow> bytes \<Rightarrow> (bytes \<times> bytes \<Rightarrow> 'n elem list outcome) \<Rightarrow> 'n IpldTrieNode outcome" where
  "decodeTrieNode rlp ipfs c b leafDecoder =
     outcome_bind (rlp_DecodeItems rlp b) (\<lambda>i.
       let codec = cid_Codec c in
       if length i = 2 then
         outcome_bind (decodeCompactKey i) (\<lambda>(nodeKind, decoded).
         outcome_bind (if nodeKind = ''extension'' then drop_err (parseTrieNodeExtension ipfs decoded codec)
                       else if nodeKind = ''leaf'' then drop_err (leafDecoder decoded)
                       else Err (Errorf ''unexpected nodeKind returned from decoder'' [])) (\<lambda>elements.
           Ok \<lparr>in_nodeKind = nodeKind, in_elements = elements, in_cid = c, in_rawdata = b\<rparr>))
       else if length i = 17 then
         outcome_bind (parseTrieNodeBranch ipfs i codec) (\<lambda>elements.
           Ok \<lparr>in_nodeKind = ''branch'', in_elements = elements, in_cid = c, in_rawdata = b\<rparr>)
       else Err (Errorf ''unknown trie node type'' []))"

subsection \<open>Leaf decoders\<close>

record EthAccountSnapshot =
  as_Account :: Account
  as_cid :: Cid
  as_rawdata :: bytes

definition decodeEthStateTrieLeaf :: "rlp_lib \<Rightarrow> ipfs_lib \<Rightarrow> bytes \<times> bytes \<Rightarrow> EthAccountSnapshot elem list outcome" where
  "decodeEthStateTrieLeaf rlp ipfs i =
     outcome_bind (rlp_DecodeEthAccount rlp (snd i)) (\<lambda>account.
     outcome_bind (RawdataToCid ipfs MEthAccountSnapshot (snd i) KECCAK_256) (\<lambda>c.
       Ok [EBytes (fst i), ENode \<lparr>as_Account = account, as_cid = c, as_rawdata = snd i\<rparr>]))"

definition decodeEthStorageTrieLeaf :: "bytes \<times> bytes \<Rightarrow> unit elem list outcome" where
  "decodeEthStorageTrieLeaf i = Ok [EBytes (fst i), EBytes (snd i)]"

definition decodeEthTxTrieLeaf :: "rlp_lib \<Rightarrow> ipfs_lib \<Rightarrow> bytes \<times> bytes \<Rightarrow> EthTxNode elem list outcome" where
  "decodeEthTxTrieLeaf rlp ipfs i =
     outcome_bind (rlp_DecodeTx rlp (snd i)) (\<lambda>t.
     outcome_bind (RawdataToCid ipfs MEthTx (snd i) KECCAK_256) (\<lambda>c.
       Ok [EBytes (fst i), ENode \<lparr>xn_Transaction = t, xn_cid = c, xn_rawdata = snd i\<rparr>]))"

definition decodeEthRctTrieLeaf :: "rlp_lib \<Rightarrow> ipfs_lib \<Rightarrow> bytes \<times> bytes \<Rightarrow> EthReceiptNode elem list outcome" where
  "decodeEthRctTrieLeaf rlp ipfs i =
     outcome_bind (rlp_DecodeReceipt rlp (snd i)) (\<lambda>r.
     outcome_bind (RawdataToCid ipfs MEthTxReceipt (snd i) KECCAK_256) (\<lambda>c.
       Ok [EBytes (fst i), ENode \<lparr>rn_Receipt = r, rn_cid = c, rn_rawdata = snd i\<rparr>]))"

definition DecodeEthStateTrie :: "rlp_lib \<Rightarrow> ipfs_lib \<Rightarrow> Cid \<Rightarrow> bytes \<Rightarrow> EthAccountSnapshot IpldTrieNode outcome" where
  "DecodeEthStateTrie rlp ipfs c b = decodeTrieNode rlp ipfs c b (decodeEthStateTrieLeaf rlp ipfs)"

definition DecodeEthStorageTrie :: "rlp_lib \<Rightarrow> ipfs_lib \<Rightarrow> Cid \<Rightarrow> bytes \<Rightarrow> unit IpldTrieNode outcome" where
  "DecodeEthStorageTrie rlp ipfs c b = decodeTrieNode rlp ipfs c b decodeEthStorageTrieLeaf"

definition DecodeEthTxTrie :: "rlp_lib \<Rightarrow> ipfs_lib \<Rightarrow> Cid \<Rightarrow> bytes \<Rightarrow> EthTxNode IpldTrieNode outcome" where
  "DecodeEthTxTrie rlp ipfs c b = decodeTrieNode rlp ipfs c b (decodeEthTxTrieLeaf rlp ipfs)"

definition DecodeEthRctTrie :: "rlp_lib \<Rightarrow> ipfs_lib \<Rightarrow> Cid \<Rightarrow> bytes \<Rightarrow> EthReceiptNode IpldTrieNode outcome" where
  "DecodeEthRctTrie rlp ipfs c b = decodeTrieNode rlp ipfs c b (decodeEthRctTrieLeaf rlp ipfs)"

definition FromStateTrieRLP :: "rlp_lib \<Rightarrow> ipfs_lib \<Rightarrow> bytes \<Rightarrow> EthAccountSnapshot IpldTrieNode outcome" where
  "FromStateTrieRLP rlp ipfs raw =
     outcome_bind (RawdataToCid ipfs MEthStateTrie raw KECCAK_256) (\<lambda>c. DecodeEthStateTrie rlp ipfs c raw)"

definition FromStorageTrieRLP :: "rlp_lib \<Rightarrow> ipfs_lib \<Rightarrow> bytes \<Rightarrow> unit IpldTrieNode outcome" where
  "FromStorageTrieRLP rlp ipfs raw =
     outcome_bind (RawdataToCid ipfs MEthStorageTrie raw KECCAK_256) (\<lambda>c. DecodeEthStorageTrie rlp ipfs c raw)"

subsection \<open>Paths\<close>

text \<open>\<open>%x\<close> of a byte: no leading zero.\<close>

definition byte_hex :: "byte \<Rightarrow> string" where
  "byte_hex b = (if unat b < 16 then [hex_digit (unat b)] else [hex_digit (unat b div 16), hex_digit (unat b mod 16)])"

definition getHexIndex :: "string \<Rightarrow> int" where
  "getHexIndex s =
     (if length s \<noteq> 1 then -1
      else let c = of_char (hd s) :: nat in
           if 48 \<le> c \<and> c \<le> 57 then int (c - 48)
           else if 97 \<le> c \<and> c \<le> 102 then int (c - 97) + 10
           else -1)"

text \<open>The inner loop over one path element, and the outer loop.\<close>

fun shift_chars :: "nat \<Rightarrow> string \<Rightarrow> string \<Rightarrow> string \<Rightarrow> string \<times> string" where
  "shift_chars i out re [] = (out, re)"
| "shift_chars i out re (c # cs) =
     (if length out < i then shift_chars i (out @ [c]) re cs else shift_chars i out (re @ [c]) cs)"

fun shift_path :: "nat \<Rightarrow> string \<Rightarrow> string list \<Rightarrow> string list \<Rightarrow> string \<times> string list" where
  "shift_path i out rest [] = (out, rest)"
| "shift_path i out rest (pe # p) =
     (let (out', re) = shift_chars i out '''' pe in
      shift_path i out' (if length out' = i \<and> re \<noteq> '''' then rest @ [re] else rest) p)"

definition shiftFromPath :: "string list \<Rightarrow> nat \<Rightarrow> string \<times> string list" where
  "shiftFromPath p i = shift_path i '''' [] p"

subsection \<open>The node interface of a trie node\<close>

text \<open>The two checks that extensions and leaves make on the nibbles of the path.\<close>

definition match_nibbles :: "bytes \<Rightarrow> string \<Rightarrow> string \<Rightarrow> unit outcome" where
  "match_nibbles nibbles idx few =
     (if length idx < length nibbles then Err (Errorf few [])
      else if \<not> list_all (\<lambda>c. getHexIndex [c] \<noteq> -1) idx then Err (Errorf ''invalid path element'' [])
      else if \<not> list_all2 (\<lambda>c n. [c] = byte_hex n) (take (length nibbles) idx) nibbles
      then Err (Errorf ''no such link in this extension'' [])
      else Ok ())"

definition resolveTrieNodeExtension :: "'n IpldTrieNode \<Rightarrow> string list \<Rightarrow> 'n resolved" where
  "resolveTrieNodeExtension t p =
     outcome_bind (outcome_bind (slice_get (in_elements t) 0) elem_bytes) (\<lambda>nibbles.
       let (idx, rest) = shiftFromPath p (length nibbles) in
       outcome_bind (match_nibbles nibbles idx ''not enough nibbles to traverse this extension'') (\<lambda>_.
       outcome_bind (outcome_bind (slice_get (in_elements t) 1) elem_cid) (\<lambda>c. Ok (VLink c, rest))))"

definition resolveTrieNodeLeaf :: "('n \<Rightarrow> string list \<Rightarrow> 'n resolved) \<Rightarrow> 'n IpldTrieNode \<Rightarrow> string list \<Rightarrow> 'n resolved" where
  "resolveTrieNodeLeaf child_Resolve t p =
     outcome_bind (outcome_bind (slice_get (in_elements t) 0) elem_bytes) (\<lambda>nibbles.
     outcome_bind
       (if length nibbles \<noteq> 0 then
          (let (idx, rest) = shiftFromPath p (length nibbles) in
           outcome_bind (match_nibbles nibbles idx ''not enough nibbles to traverse this leaf'') (\<lambda>_. Ok rest))
        else Ok p) (\<lambda>p.
     outcome_bind (slice_get (in_elements t) 1) (\<lambda>e.
       case e of ENode link \<Rightarrow> child_Resolve link p
       | _ \<Rightarrow> Err (Errorf ''leaf children is not an IPLD node'' []))))"

definition resolveTrieNodeBranch :: "'n IpldTrieNode \<Rightarrow> string list \<Rightarrow> 'n resolved" where
  "resolveTrieNodeBranch t p =
     (let (idx, rest) = shiftFromPath p 1; hidx = getHexIndex idx in
      if hidx = -1 then Err (Errorf ''incorrect path'' [])
      else outcome_bind (slice_get (in_elements t) (nat hidx)) (\<lambda>child.
        case child of ENil \<Rightarrow> Err (Errorf ''no such link in this branch'' [])
        | _ \<Rightarrow> outcome_bind (elem_cid child) (\<lambda>c. Ok (VLink c, rest))))"

definition TrieNode_Resolve :: "('n \<Rightarrow> string list \<Rightarrow> 'n resolved) \<Rightarrow> 'n IpldTrieNode \<Rightarrow> string list \<Rightarrow> 'n resolved" where
  "TrieNode_Resolve child_Resolve t p =
     (if in_nodeKind t = ''extension'' then resolveTrieNodeExtension t p
      else if in_nodeKind t = ''leaf'' then resolveTrieNodeLeaf child_Resolve t p
      else if in_nodeKind t = ''branch'' then resolveTrieNodeBranch t p
      else Err (Errorf ''nodeKind case not implemented'' []))"

text \<open>\<open>Tree\<close> looks for elements of type \<open>*cid.Cid\<close>; no element has that type.\<close>

definition TrieNode_Tree :: "'n IpldTrieNode \<Rightarrow> string \<Rightarrow> int \<Rightarrow> string list outcome" where
  "TrieNode_Tree t p depth =
     (if p \<noteq> '''' \<or> depth = 0 then Ok []
      else if in_nodeKind t = ''extension'' then
        outcome_bind (outcome_bind (slice_get (in_elements t) 0) elem_bytes) (\<lambda>nibbles. Ok [concat (map byte_hex nibbles)])
      else Ok [])"

definition ResolveLink :: "string \<Rightarrow> 'n resolved \<Rightarrow> (Cid \<times> string list) outcome" where
  "ResolveLink msg r =
     outcome_bind r (\<lambda>(obj, rest). case obj of VLink c \<Rightarrow> Ok (c, rest) | _ \<Rightarrow> Err (Errorf msg []))"

definition TrieNode_ResolveLink ::
    "('n \<Rightarrow> string list \<Rightarrow> 'n resolved) \<Rightarrow> 'n IpldTrieNode \<Rightarrow> string list \<Rightarrow> (Cid \<times> string list) outcome" where
  "TrieNode_ResolveLink child_Resolve t p = ResolveLink ''was not a link'' (TrieNode_Resolve child_Resolve t p)"

fun elem_links :: "'n elem \<Rightarrow> Cid list" where
  "elem_links (ECid c) = [c]"
| "elem_links _ = []"

definition TrieNode_Links :: "'n IpldTrieNode \<Rightarrow> Cid list" where
  "TrieNode_Links t = concat (map elem_links (in_elements t))"

text \<open>
  The map that \<open>MarshalJSON\<close> hands to \<open>json.Marshal\<close>, and the node afterwards: a byte value of a leaf
  or extension is replaced by its hexadecimal text in the node itself.
\<close>

definition TrieNode_MarshalJSON :: "'n IpldTrieNode \<Rightarrow> ((string \<times> 'n elem) list \<times> 'n IpldTrieNode) outcome" where
  "TrieNode_MarshalJSON t =
     (if in_nodeKind t = ''extension'' \<or> in_nodeKind t = ''leaf'' then
        outcome_bind (outcome_bind (slice_get (in_elements t) 0) elem_bytes) (\<lambda>k.
        outcome_bind (slice_get (in_elements t) 1) (\<lambda>v.
          let hexPrefix = concat (map byte_hex k);
              v' = (case v of EBytes b \<Rightarrow> EStr (concat (map byte_hex b)) | _ \<Rightarrow> v)
          in Ok ([(''type'', EStr (in_nodeKind t)), (hexPrefix, v')], t\<lparr>in_elements := (in_elements t)[1 := v']\<rparr>)))
      else if in_nodeKind t = ''branch'' then
        outcome_bind (for_range (\<lambda>_ j acc. outcome_bind (slice_get (in_elements t) j) (\<lambda>e. Ok (acc @ [([hex_digit j], e)])))
          0 [0..<16] [(''type'', EStr ''branch'')]) (\<lambda>out. Ok (out, t))
      else Err (Errorf ''nodeKind %s not supported'' [in_nodeKind t]))"

subsection \<open>Accounts (eth\_account.go)\<close>

definition Account_Resolve :: "ipfs_lib \<Rightarrow> EthAccountSnapshot \<Rightarrow> string list \<Rightarrow> EthAccountSnapshot resolved" where
  "Account_Resolve ipfs as p =
     (case p of
        [] \<Rightarrow> Ok (VNode as, [])
      | [f] \<Rightarrow>
          if f = ''balance'' then Ok (VInt (ac_Balance (as_Account as)), [])
          else if f = ''codeHash'' then
            outcome_bind (keccak256ToCid ipfs RawBinary (ac_CodeHash (as_Account as))) (\<lambda>c. Ok (VLink c, []))
          else if f = ''nonce'' then Ok (VU64 (ac_Nonce (as_Account as)), [])
          else if f = ''root'' then
            outcome_bind (keccak256ToCid ipfs MEthStorageTrie (ac_Root (as_Account as))) (\<lambda>c. Ok (VLink c, []))
          else Err (Errorf ''no such link'' [])
      | f # _ \<Rightarrow> Err (Errorf ''unexpected path elements past %s'' [f]))"

definition Account_Tree :: "string \<Rightarrow> int \<Rightarrow> string list" where
  "Account_Tree p depth = (if p \<noteq> '''' \<or> depth = 0 then [] else [''balance'', ''codeHash'', ''nonce'', ''root''])"

definition Account_ResolveLink :: "ipfs_lib \<Rightarrow> EthAccountSnapshot \<Rightarrow> string list \<Rightarrow> (Cid \<times> string list) outcome" where
  "Account_ResolveLink ipfs as p = ResolveLink ''resolved item was not a link'' (Account_Resolve ipfs as p)"

subsection \<open>Headers (eth\_header.go)\<close>

definition header_links :: "EthHeader \<Rightarrow> (string \<times> u64 \<times> Hash) list" where
  "header_links h = [(''parent'', MEthHeader, h_ParentHash h), (''receipts'', MEthTxReceiptTrie, h_ReceiptHash h),
     (''root'', MEthStateTrie, h_Root h), (''tx'', MEthTxTrie, h_TxHash h), (''uncles'', MEthHeaderList, h_UncleHash h)]"

definition header_fields :: "EthHeader \<Rightarrow> (string \<times> EthHeaderNode ipld_value) list" where
  "header_fields h = [(''bloom'', VBytes (h_Bloom h)), (''coinbase'', VBytes (h_Coinbase h)),
     (''difficulty'', VInt (h_Difficulty h)), (''extra'', VStr (''0x'' @ hex_EncodeToString (h_Extra h))),
     (''gaslimit'', VU64 (h_GasLimit h)), (''gasused'', VU64 (h_GasUsed h)), (''mixdigest'', VBytes (h_MixDigest h)),
     (''nonce'', VBytes (h_Nonce h)), (''number'', VInt (h_Number h)), (''time'', VU64 (h_Time h))]"

definition Header_Resolve :: "ipfs_lib \<Rightarrow> EthHeaderNode \<Rightarrow> string list \<Rightarrow> EthHeaderNode resolved" where
  "Header_Resolve ipfs b p =
     (case p of
        [] \<Rightarrow> Ok (VNode b, [])
      | f # rest \<Rightarrow>
          (case map_of (header_links (hn_Header b)) f of
             Some (codec, h) \<Rightarrow> outcome_bind (commonHashToCid ipfs codec h) (\<lambda>c. Ok (VLink c, rest))
           | None \<Rightarrow>
               if rest \<noteq> [] then Err (Errorf ''unexpected path elements past %s'' [f])
               else (case map_of (header_fields (hn_Header b)) f of
                       Some v \<Rightarrow> Ok (v, [])
                     | None \<Rightarrow> Err (Errorf ''no such link'' []))))"

definition Header_Tree :: "string \<Rightarrow> int \<Rightarrow> string list" where
  "Header_Tree p depth = (if p \<noteq> '''' \<or> depth = 0 then []
     else [''time'', ''bloom'', ''coinbase'', ''difficulty'', ''extra'', ''gaslimit'', ''gasused'', ''mixdigest'',
           ''nonce'', ''number'', ''parent'', ''receipts'', ''root'', ''tx'', ''uncles''])"

definition Header_ResolveLink :: "ipfs_lib \<Rightarrow> EthHeaderNode \<Rightarrow> string list \<Rightarrow> (Cid \<times> string list) outcome" where
  "Header_ResolveLink ipfs b p = ResolveLink ''resolved item was not a link'' (Header_Resolve ipfs b p)"

definition Header_Links :: "ipfs_lib \<Rightarrow> EthHeaderNode \<Rightarrow> Cid list outcome" where
  "Header_Links ipfs b = outcome_map (\<lambda>(_, codec, h). commonHashToCid ipfs codec h) (header_links (hn_Header b))"

subsection \<open>Nibbles and the compact key\<close>

text \<open>
  The hex-prefix encoding of Ethereum's tries, as a reference: a flag nibble for leaf and odd
  length, then the nibbles two by two.
\<close>

fun pack_nibbles :: "bytes \<Rightarrow> bytes" where
  "pack_nibbles (a # b # r) = (16 * a + b) # pack_nibbles r"
| "pack_nibbles _ = []"

definition hex_prefix :: "bool \<Rightarrow> bytes \<Rightarrow> bytes" where
  "hex_prefix leaf xs =
     (if even (length xs) then (if leaf then 0x20 else 0) # pack_nibbles xs
      else ((if leaf then 0x30 else 0x10) + hd xs) # pack_nibbles (tl xs))"

lemma unat_nibbles: "(a::byte) < 16 \<Longrightarrow> b < 16 \<Longrightarrow> unat (16 * a + b) = 16 * unat a + unat b"
  by (simp add: word_less_nat_alt unat_word_ariths)

lemma nibble_div_mod:
  assumes "(a::byte) < 16" "b < 16"
  shows "(16 * a + b) div 16 = a" "(16 * a + b) mod 16 = b"
  using assms unat_nibbles [OF assms]
  by (simp_all add: word_unat_eq_iff unat_div unat_mod word_less_nat_alt)

lemma nibbleToByte_pack:
  "list_all (\<lambda>n. n < 16) xs \<Longrightarrow> even (length xs) \<Longrightarrow> nibbleToByte (pack_nibbles xs) = xs"
  by (induction xs rule: pack_nibbles.induct) (simp_all add: nibble_div_mod)

lemma nibbleToByte_length [simp]: "length (nibbleToByte k) = 2 * length k"
  by (induction k) simp_all

lemma decodeCompactKey_hex_prefix:
  assumes "list_all (\<lambda>n. n < 16) xs"
  shows "decodeCompactKey [RBytes (hex_prefix leaf xs), RBytes v] = Ok (if leaf then ''leaf'' else ''extension'', xs, v)"
proof (cases "even (length xs)")
  case True
  with assms nibbleToByte_pack [of xs] show ?thesis
    by (simp add: decodeCompactKey_def hex_prefix_def item_bytes_def slice_from_def)
next
  case False
  then obtain x ys where xs: "xs = x # ys" by (cases xs) auto
  with assms have x: "x < 16" and ys: "list_all (\<lambda>n. n < 16) ys" by simp_all
  from False xs have "nibbleToByte (pack_nibbles ys) = ys" using nibbleToByte_pack [OF ys] by simp
  moreover have "(0x30 + x) div 16 = 3" "(0x30 + x) mod 16 = x" "(0x10 + x) div 16 = 1" "(0x10 + x) mod 16 = x"
    using nibble_div_mod [of 3 x] nibble_div_mod [of 1 x] x by simp_all
  ultimately show ?thesis using False
    by (simp add: decodeCompactKey_def hex_prefix_def item_bytes_def slice_from_def xs)
qed

subsection \<open>Paths\<close>

lemma shift_chars_split:
  "length out \<le> i \<Longrightarrow> shift_chars i out re cs = (out @ take (i - length out) cs, re @ drop (i - length out) cs)"
proof (induction cs arbitrary: out re)
  case (Cons c cs)
  show ?case
  proof (cases "length out < i")
    case True
    then have "i - length out = Suc (i - Suc (length out))" by simp
    with True Cons.IH [of "out @ [c]" re] show ?thesis by simp
  next
    case False
    with Cons.prems Cons.IH [of out "re @ [c]"] show ?thesis by simp
  qed
qed simp

lemma shift_path_split:
  assumes "length out \<le> i" "list_all (\<lambda>s. s \<noteq> []) rest"
  shows "case shift_path i out rest p of (out', rest') \<Rightarrow>
    out' = out @ take (i - length out) (concat p) \<and> concat rest' = concat rest @ drop (i - length out) (concat p)
    \<and> list_all (\<lambda>s. s \<noteq> []) rest'"
  using assms
proof (induction p arbitrary: out rest)
  case (Cons pe p)
  define k where "k = i - length out"
  define out1 where "out1 = out @ take k pe"
  define rest1 where "rest1 = (if length out1 = i \<and> drop k pe \<noteq> [] then rest @ [drop k pe] else rest)"
  have le: "length out1 \<le> i" and k': "i - length out1 = k - length pe"
    using Cons.prems(1) by (simp_all add: k_def out1_def)
  have "length out1 = i" if "drop k pe \<noteq> []" using that Cons.prems(1) by (simp add: k_def out1_def)
  then have cat: "concat rest1 = concat rest @ drop k pe" by (cases "drop k pe = []") (simp_all add: rest1_def)
  have "list_all (\<lambda>s. s \<noteq> []) rest1" using Cons.prems(2) by (simp add: rest1_def)
  from Cons.IH [OF le this] cat k' have "case shift_path i out1 rest1 p of (out', rest') \<Rightarrow>
      out' = out1 @ take (k - length pe) (concat p)
      \<and> concat rest' = concat rest @ drop k pe @ drop (k - length pe) (concat p) \<and> list_all (\<lambda>s. s \<noteq> []) rest'"
    by simp
  moreover have "shift_path i out rest (pe # p) = shift_path i out1 rest1 p"
    using Cons.prems(1) by (simp add: shift_chars_split k_def out1_def rest1_def)
  ultimately show ?case by (simp add: k_def [symmetric] out1_def)
qed simp

lemma shiftFromPath_split:
  assumes "shiftFromPath p i = (out, rest)"
  shows "out = take i (concat p) \<and> concat rest = drop i (concat p) \<and> list_all (\<lambda>s. s \<noteq> []) rest"
  using shift_path_split [of "[]" i "[]" p] assms by (simp add: shiftFromPath_def)

lemma hex_digit_char: "k < 16 \<Longrightarrow> getHexIndex [hex_digit k] = int k"
  by (auto simp: getHexIndex_def of_char_hex_digit Let_def)

lemma getHexIndex_range: "getHexIndex s = -1 \<or> 0 \<le> getHexIndex s \<and> getHexIndex s < 16"
  by (auto simp: getHexIndex_def Let_def)

lemma shift_one: "fst (shiftFromPath ([c] # p) 1) = [c]"
  using shiftFromPath_split [of "[c] # p" 1] by (cases "shiftFromPath ([c] # p) 1") simp

subsection \<open>Branches\<close>

lemma parse_branch_nth:
  assumes "parseTrieNodeBranch ipfs i codec = Ok es"
  shows "length es = length i" "d < length i \<Longrightarrow> parseBranchEntry ipfs codec (i ! d) = Ok (es ! d)"
  using assms unfolding parseTrieNodeBranch_def outcome_map_Ok_iff list_all2_conv_all_nth by auto

subsection \<open>The contract between listing and resolving\<close>

text \<open>
  What an IPLD node promises: a name is listed by \<open>Tree\<close> exactly when resolving it is no error (it
  may still panic in the multihash library).
\<close>

locale ipld_paths =
  fixes Resolve :: "string list \<Rightarrow> 'n resolved" and Tree :: "string \<Rightarrow> int \<Rightarrow> string list"
  assumes listed_iff: "f \<in> set (Tree '''' (-1)) \<longleftrightarrow> (\<forall>e. Resolve [f] \<noteq> Err e)"
    and whole: "\<exists>n. Resolve [] = Ok (VNode n, [])"
begin

lemma unlisted_is_error: "f \<notin> set (Tree '''' (-1)) \<Longrightarrow> \<exists>e. Resolve [f] = Err e"
  using listed_iff by blast

lemma link_is_listed: "ResolveLink msg (Resolve [f]) = Ok l \<Longrightarrow> f \<in> set (Tree '''' (-1))"
  using listed_iff [of f] by (cases "Resolve [f]") (auto simp: ResolveLink_def)

lemma no_link_to_itself: "ResolveLink msg (Resolve []) = Err (Errorf msg [])"
  using whole by (auto simp: ResolveLink_def)

end

lemma digestToCid_no_Err [simp]: "digestToCid ipfs mh codec h \<noteq> Err e"
  by (auto simp: digestToCid_def split: outcome.split)

interpretation header_paths: ipld_paths "Header_Resolve ipfs b" Header_Tree for ipfs b
  by unfold_locales
     (auto simp: Header_Resolve_def Header_Tree_def header_links_def header_fields_def commonHashToCid_def
       outcome_bind_Err_iff)

interpretation account_paths: ipld_paths "Account_Resolve ipfs as" Account_Tree for ipfs as
  by unfold_locales (auto simp: Account_Resolve_def Account_Tree_def keccak256ToCid_def outcome_bind_Err_iff)

subsection \<open>Properties\<close>

text \<open>
  \<open>shiftFromPath\<close> cuts the concatenated path after the given number of characters: it returns
  that many characters (or all there are), and the rest of the path loses nothing and has no empty
  element.
\<close>

theorem shiftFromPath_cuts:
  "fst (shiftFromPath p i) = take i (concat p) \<and> concat (snd (shiftFromPath p i)) = drop i (concat p)
   \<and> list_all (\<lambda>s. s \<noteq> []) (snd (shiftFromPath p i))"
  using shiftFromPath_split [of p i "fst (shiftFromPath p i)" "snd (shiftFromPath p i)"] by simp

text \<open>
  C39. Decoding a compact key inverts Ethereum's hex-prefix encoding: it recovers the node kind, all
  nibbles and the value, for keys of even and of odd length.
\<close>

theorem decodeCompactKey_roundtrip:
  assumes "list_all (\<lambda>n. n < 16) xs"
  shows "decodeCompactKey [RBytes (hex_prefix leaf xs), RBytes v] = Ok (if leaf then ''leaf'' else ''extension'', xs, v)"
  using assms by (rule decodeCompactKey_hex_prefix)

theorem decodeCompactKey_roundtrip_witness:
  "decodeCompactKey [RBytes (hex_prefix True [1, 2, 3]), RBytes [7]] = Ok (''leaf'', [1, 2, 3], [7])
   \<and> decodeCompactKey [RBytes (hex_prefix False [1, 2]), RBytes [7]] = Ok (''extension'', [1, 2], [7])"
  using decodeCompactKey_roundtrip [of "[1, 2, 3]" True "[7]"] decodeCompactKey_roundtrip [of "[1, 2]" False "[7]"]
  by simp

text \<open>
  A decoded branch resolves every hexadecimal digit without a panic: to the link that belongs
  to the 32-byte hash stored at that position, or to the error that there is no such link where the
  position is empty.
\<close>

theorem branch_resolves:
  assumes "rlp_DecodeItems rlp b = Ok items" "length items = 17" "d < 16"
    and "decodeTrieNode rlp ipfs c b leafDecoder = Ok t"
  shows "(\<exists>h l. items ! d = RBytes h \<and> length h = 32 \<and> keccak256ToCid ipfs (cid_Codec c) h = Ok l
      \<and> (\<exists>rest. TrieNode_Resolve child t ([hex_digit d] # p) = Ok (VLink l, rest) \<and> concat rest = concat p))
    \<or> items ! d = RBytes [] \<and> TrieNode_Resolve child t ([hex_digit d] # p) = Err (Errorf ''no such link in this branch'' [])"
proof -
  obtain es where es: "parseTrieNodeBranch ipfs items (cid_Codec c) = Ok es"
    and t: "in_nodeKind t = ''branch''" "in_elements t = es"
    using assms(1,2,4) by (auto simp: decodeTrieNode_def Let_def)
  have d: "d < length items" "d < length es" using assms(2,3) parse_branch_nth(1) [OF es] by simp_all
  obtain out rest where sh: "shiftFromPath ([hex_digit d] # p) 1 = (out, rest)" by fastforce
  with shiftFromPath_split [OF sh] have "out = [hex_digit d]" "concat rest = concat p" by simp_all
  then have res: "TrieNode_Resolve child t ([hex_digit d] # p) =
      (case es ! d of ENil \<Rightarrow> Err (Errorf ''no such link in this branch'' [])
       | _ \<Rightarrow> outcome_bind (elem_cid (es ! d)) (\<lambda>c. Ok (VLink c, rest)))"
    using d assms(3) sh t by (simp add: TrieNode_Resolve_def resolveTrieNodeBranch_def hex_digit_char)
  consider "items ! d = RBytes []" "es ! d = ENil"
    | h l where "items ! d = RBytes h" "length h = 32" "keccak256ToCid ipfs (cid_Codec c) h = Ok l" "es ! d = ECid l"
    using parse_branch_nth(2) [OF es d(1)]
    by (auto simp: parseBranchEntry_def split: rlp_item.splits if_splits)
  then show ?thesis
    using res \<open>concat rest = concat p\<close> by cases (auto simp: elem_cid_def)
qed

definition sample_rlp :: rlp_lib where
  "sample_rlp = \<lparr>
     rlp_DecodeItems = (\<lambda>b. if b = [2] then Ok [RBytes [0x20], RBytes [1]]
       else Ok (RBytes (replicate 32 5) # replicate 16 (RBytes []))),
     rlp_DecodeEthAccount = (\<lambda>b. Err (Errorf ''rlp: expected input list'' [])),
     rlp_DecodeTx = (\<lambda>b. Ok sample_tx), rlp_DecodeReceipt = (\<lambda>b. Ok sample_rct)\<rparr>"

definition sample_branch :: "EthAccountSnapshot IpldTrieNode" where
  "sample_branch = \<lparr>in_nodeKind = ''branch'', in_elements = ECid (Cid MEthStateTrie (0x1b # replicate 32 5)) # replicate 16 ENil,
     in_cid = Cid MEthStateTrie [], in_rawdata = []\<rparr>"

lemma outcome_map_replicate: "f x = Ok y \<Longrightarrow> outcome_map f (replicate n x) = Ok (replicate n y)"
  by (induction n) simp_all

lemma sample_branch_decode:
  "decodeTrieNode sample_rlp sample_ipfs (Cid MEthStateTrie []) [] (decodeEthStateTrieLeaf sample_rlp sample_ipfs) = Ok sample_branch"
proof -
  have "parseTrieNodeBranch sample_ipfs (RBytes (replicate 32 5) # replicate 16 (RBytes [])) MEthStateTrie
    = Ok (in_elements sample_branch)"
    using outcome_map_replicate [of "parseBranchEntry sample_ipfs MEthStateTrie" "RBytes []" ENil 16]
    by (simp add: parseTrieNodeBranch_def parseBranchEntry_def keccak256ToCid_def digestToCid_def
      sample_ipfs_def KECCAK_256_def sample_branch_def)
  then show ?thesis by (simp add: decodeTrieNode_def sample_rlp_def sample_branch_def)
qed

theorem branch_resolves_witness:
  "TrieNode_Resolve (Account_Resolve sample_ipfs) sample_branch [[hex_digit 1]] = Err (Errorf ''no such link in this branch'' [])"
  using branch_resolves [of sample_rlp "[]" "RBytes (replicate 32 5) # replicate 16 (RBytes [])" 1 sample_ipfs
      "Cid MEthStateTrie []" "decodeEthStateTrieLeaf sample_rlp sample_ipfs" sample_branch "Account_Resolve sample_ipfs" "[]"]
    sample_branch_decode
  by (simp add: sample_rlp_def)

text \<open>
  The error of a leaf decoder is lost: a two-element node whose leaf value does not decode is
  returned as a node without elements, and resolving any path through it panics.
\<close>

theorem leaf_decoder_error_lost:
  assumes "rlp_DecodeItems rlp b = Ok [RBytes (hex_prefix True xs), RBytes v]" "list_all (\<lambda>n. n < 16) xs"
    and "leafDecoder (xs, v) = Err e"
  shows "\<exists>t. decodeTrieNode rlp ipfs c b leafDecoder = Ok t \<and> in_elements t = []
    \<and> TrieNode_Resolve child t p = Panic ''runtime error: index out of range''"
proof -
  have "decodeCompactKey [RBytes (hex_prefix True xs), RBytes v] = Ok (''leaf'', xs, v)"
    using decodeCompactKey_hex_prefix [OF assms(2), of True v] by simp
  then show ?thesis
    using assms(1,3) by (simp add: decodeTrieNode_def drop_err_def TrieNode_Resolve_def resolveTrieNodeLeaf_def slice_get_def)
qed

theorem leaf_decoder_error_lost_witness:
  "\<exists>t. DecodeEthStateTrie sample_rlp sample_ipfs (Cid MEthStateTrie []) [2] = Ok t \<and> in_elements t = []
    \<and> TrieNode_Resolve (Account_Resolve sample_ipfs) t [''balance''] = Panic ''runtime error: index out of range''"
  unfolding DecodeEthStateTrie_def
  by (rule leaf_decoder_error_lost [of _ _ "[]" "[1]"])
     (simp_all add: sample_rlp_def hex_prefix_def decodeEthStateTrieLeaf_def)

text \<open>
  A header resolves exactly the names its \<open>Tree\<close> lists, and an account snapshot exactly those
  of its own: every other name is an error.
\<close>

theorem Tree_lists_resolvable:
  "(f \<in> set (Header_Tree '''' (-1)) \<longleftrightarrow> (\<forall>e. Header_Resolve ipfs b [f] \<noteq> Err e))
   \<and> (f \<in> set (Account_Tree '''' (-1)) \<longleftrightarrow> (\<forall>e. Account_Resolve ipfs as [f] \<noteq> Err e))"
  using header_paths.listed_iff account_paths.listed_iff by blast

end
