(* ===== verification/Dag_Put.thy ===== *)
theory Dag_Put
  imports Ipld_Trie Go_Io
begin

text \<open>
  Package \<open>dag_putters\<close>: one putter per node type. A putter checks the type of the node, hands it to
  the IPFS node (\<open>adder.Add\<close>, a parameter that acts on a world of any type) and returns the text of
  its cid; the error of a duplicate key counts as success. Programs over that world are
  sequenced with \<open>io_bind\<close>.
\<close>

subsection \<open>Errors that count as success\<close>

text \<open>\<open>err.Error()\<close> of an error that a library built with a plain message.\<close>

fun err_text :: "go_error \<Rightarrow> string" where
  "err_text (Errorf m _) = m"
| "err_text (Wrapf m _ e) = m @ err_text e"

fun strings_Contains :: "string \<Rightarrow> string \<Rightarrow> bool" where
  "strings_Contains s sub = (take (length sub) s = sub \<or> (case s of [] \<Rightarrow> False | _ # s' \<Rightarrow> strings_Contains s' sub))"

declare strings_Contains.simps [simp del]

definition duplicateKeyErrorString :: string where
  "duplicateKeyErrorString = ''pq: duplicate key value violates unique constraint''"

subsection \<open>The putters\<close>

datatype node_type = TEthHeader | TEthTx | TEthTxTrie | TEthReceipt | TEthRctTrie | TEthStateTrie | TEthStorageTrie
  | TBtcHeader | TBtcTx | TBtcTxTrie

fun node_T :: "node_type \<Rightarrow> string" where
  "node_T TEthHeader = ''*ipld.EthHeader''"
| "node_T TEthTx = ''*ipld.EthTx''"
| "node_T TEthTxTrie = ''*ipld.EthTxTrie''"
| "node_T TEthReceipt = ''*ipld.EthReceipt''"
| "node_T TEthRctTrie = ''*ipld.EthRctTrie''"
| "node_T TEthStateTrie = ''*ipld.EthStateTrie''"
| "node_T TEthStorageTrie = ''*ipld.EthStorageTrie''"
| "node_T TBtcHeader = ''*ipld.BtcHeader''"
| "node_T TBtcTx = ''*ipld.BtcTx''"
| "node_T TBtcTxTrie = ''*ipld.BtcTxTrie''"

type_synonym dag_node = "node_type \<times> ipld_node"

type_synonym 'w adder = "ipld_node \<Rightarrow> ('w, unit) io"

definition dag_put :: "string \<Rightarrow> node_type \<Rightarrow> ipfs_lib \<Rightarrow> 'w adder \<Rightarrow> dag_node \<Rightarrow> ('w, string) io" where
  "dag_put msg expected ipfs add n w =
     (if fst n \<noteq> expected
      then (Err (Errorf msg [node_T expected, node_T (fst n)]), w)
      else case add (snd n) w of
        (Err e, w') \<Rightarrow> if strings_Contains (err_text e) duplicateKeyErrorString
                      then (Ok (Cid_String ipfs (node_Cid (snd n))), w') else (Err e, w')
      | (Panic p, w') \<Rightarrow> (Panic p, w')
      | (Ok _, w') \<Rightarrow> (Ok (Cid_String ipfs (node_Cid (snd n))), w'))"

definition EthHeaderDagPutter :: "ipfs_lib \<Rightarrow> 'w adder \<Rightarrow> dag_node \<Rightarrow> ('w, string) io" where
  "EthHeaderDagPutter = dag_put ''EthHeaderDagPutter expected input type %T got %T'' TEthHeader"

definition EthTxsDagPutter :: "ipfs_lib \<Rightarrow> 'w adder \<Rightarrow> dag_node \<Rightarrow> ('w, string) io" where
  "EthTxsDagPutter = dag_put ''EthTxsDagPutter expected input type %T got %T'' TEthTx"

definition EthTxTrieDagPutter :: "ipfs_lib \<Rightarrow> 'w adder \<Rightarrow> dag_node \<Rightarrow> ('w, string) io" where
  "EthTxTrieDagPutter = dag_put ''EthTxTrieDagPutter expected input type %T got %T'' TEthTxTrie"

definition EthReceiptDagPutter :: "ipfs_lib \<Rightarrow> 'w adder \<Rightarrow> dag_node \<Rightarrow> ('w, string) io" where
  "EthReceiptDagPutter = dag_put ''EthReceiptDagPutter expected input type %T got type %T'' TEthReceipt"

definition EthRctTrieDagPutter :: "ipfs_lib \<Rightarrow> 'w adder \<Rightarrow> dag_node \<Rightarrow> ('w, string) io" where
  "EthRctTrieDagPutter = dag_put ''EthRctTrieDagPutter expected input type %T got %T'' TEthRctTrie"

definition EthStateDagPutter :: "ipfs_lib \<Rightarrow> 'w adder \<Rightarrow> dag_node \<Rightarrow> ('w, string) io" where
  "EthStateDagPutter = dag_put ''EthStateDagPutter expected input type %T got %T'' TEthStateTrie"

definition EthStorageDagPutter :: "ipfs_lib \<Rightarrow> 'w adder \<Rightarrow> dag_node \<Rightarrow> ('w, string) io" where
  "EthStorageDagPutter = dag_put ''EthStorageDagPutter expected input type %T got %T'' TEthStorageTrie"

definition BtcHeaderDagPutter :: "ipfs_lib \<Rightarrow> 'w adder \<Rightarrow> dag_node \<Rightarrow> ('w, string) io" where
  "BtcHeaderDagPutter = dag_put ''BtcHeaderDagPutter expected input type %T got %T'' TBtcHeader"

definition BtcTxDagPutter :: "ipfs_lib \<Rightarrow> 'w adder \<Rightarrow> dag_node \<Rightarrow> ('w, string) io" where
  "BtcTxDagPutter = dag_put ''BtcTxDagPutter expected input type %T got %T'' TBtcTx"

definition BtcTxTrieDagPutter :: "ipfs_lib \<Rightarrow> 'w adder \<Rightarrow> dag_node \<Rightarrow> ('w, string) io" where
  "BtcTxTrieDagPutter = dag_put ''BtcTxTrieDagPutter expected input type %T got %T'' TBtcTxTrie"

lemmas putter_defs = EthHeaderDagPutter_def EthTxsDagPutter_def EthTxTrieDagPutter_def EthReceiptDagPutter_def
  EthRctTrieDagPutter_def EthStateDagPutter_def EthStorageDagPutter_def BtcHeaderDagPutter_def BtcTxDagPutter_def
  BtcTxTrieDagPutter_def

lemma dag_put_Ok:
  assumes "dag_put msg k ipfs add n w = (Ok c, w')"
  shows "c = Cid_String ipfs (node_Cid (snd n))"
    and "add (snd n) w = (Ok (), w') \<or> (\<exists>e. add (snd n) w = (Err e, w') \<and> strings_Contains (err_text e) duplicateKeyErrorString)"
  using assms by (auto simp: dag_put_def split: if_splits prod.splits outcome.splits)

subsection \<open>What the IPFS node is relied on for\<close>

text \<open>
  A node once added stays in the world, and adding it (also when it is refused as a duplicate)
  leaves it there.
\<close>

definition adder_stores :: "'w adder \<Rightarrow> (ipld_node \<Rightarrow> 'w \<Rightarrow> bool) \<Rightarrow> bool" where
  "adder_stores add has \<longleftrightarrow>
     (\<forall>n w r w'. add n w = (r, w') \<longrightarrow> (\<forall>m. has m w \<longrightarrow> has m w')
        \<and> (r = Ok () \<or> (\<exists>e. r = Err e \<and> strings_Contains (err_text e) duplicateKeyErrorString) \<longrightarrow> has n w'))"

definition io_keeps :: "(ipld_node \<Rightarrow> 'w \<Rightarrow> bool) \<Rightarrow> ('w, 'a) io \<Rightarrow> bool" where
  "io_keeps has m \<longleftrightarrow> (\<forall>w n. has n w \<longrightarrow> has n (snd (m w)))"

named_theorems io_keeps_intros \<open>programs that remove nothing from the world\<close>

lemma io_keeps_return [io_keeps_intros]: "io_keeps has (io_return x)"
  by (simp add: io_keeps_def io_return_def)

lemma io_keeps_lift [io_keeps_intros]: "io_keeps has (io_lift r)"
  by (simp add: io_keeps_def io_lift_def)

lemma io_keeps_bind [io_keeps_intros]:
  assumes "io_keeps has m" "\<And>x. io_keeps has (f x)"
  shows "io_keeps has (io_bind m f)"
  unfolding io_keeps_def
proof (intro allI impI)
  fix w n
  assume "has n w"
  obtain r w1 where m: "m w = (r, w1)" by (cases "m w")
  with assms(1) \<open>has n w\<close> have "has n w1" by (metis io_keeps_def snd_conv)
  with m assms(2) show "has n (snd (io_bind m f w))" by (cases r) (auto simp: io_bind_def io_keeps_def)
qed

lemma io_keeps_for [io_keeps_intros]: "(\<And>i x s. io_keeps has (f i x s)) \<Longrightarrow> io_keeps has (io_for f j xs s)"
  by (induction xs arbitrary: j s) (auto intro: io_keeps_intros)

lemma io_keeps_if [io_keeps_intros]: "io_keeps has a \<Longrightarrow> io_keeps has b \<Longrightarrow> io_keeps has (if c then a else b)"
  by simp

lemma io_keeps_put: "adder_stores add has \<Longrightarrow> io_keeps has (dag_put msg k ipfs add n)"
  unfolding io_keeps_def
proof (intro allI impI)
  fix w m
  assume st: "adder_stores add has" and "has m w"
  obtain r w1 where "add (snd n) w = (r, w1)" by (cases "add (snd n) w")
  moreover from this st \<open>has m w\<close> have "has m w1" unfolding adder_stores_def by metis
  ultimately show "has m (snd (dag_put msg k ipfs add n w))"
    using \<open>has m w\<close> by (cases r) (auto simp: dag_put_def)
qed

lemma dag_put_stores: "adder_stores add has \<Longrightarrow> dag_put msg k ipfs add n w = (Ok c, w') \<Longrightarrow> has (snd n) w'"
  using dag_put_Ok(2) [of msg k ipfs add n w c w'] unfolding adder_stores_def by metis

text \<open>A loop that puts the node of every element keeps them all.\<close>

lemma io_for_stores:
  assumes "io_for f i xs s w = (Ok s', w')"
    and "\<And>j x s w s' w'. f j x s w = (Ok s', w') \<Longrightarrow> has (g x) w'"
    and "\<And>j x s. io_keeps has (f j x s)"
  shows "\<forall>x\<in>set xs. has (g x) w'"
  using assms(1)
proof (induction xs arbitrary: i s w)
  case (Cons x xs)
  then obtain s1 w1 where step: "f i x s w = (Ok s1, w1)" and rest: "io_for f (i + 1) xs s1 w1 = (Ok s', w')"
    by (auto elim: io_bind_Ok)
  have "io_keeps has (io_for f (i + 1) xs s1)" by (rule io_keeps_for) (rule assms(3))
  with assms(2) [OF step] rest have "has (g x) w'" unfolding io_keeps_def by (metis snd_conv)
  with Cons.IH [OF rest] show ?case by simp
qed simp

text \<open>The local state of a successful loop, where a turn computes it from the element alone.\<close>

lemma io_for_fold:
  assumes "io_for f i xs s w = (Ok s', w')"
    and "\<And>j x s w s' w'. j < i + length xs \<Longrightarrow> f j x s w = (Ok s', w') \<Longrightarrow> s' = g j x s"
  shows "s' = fold (\<lambda>(j, x). g j x) (zip [i ..< i + length xs] xs) s"
  using assms
proof (induction xs arbitrary: i s w)
  case (Cons x xs)
  then obtain s1 w1 where step: "f i x s w = (Ok s1, w1)" and rest: "io_for f (i + 1) xs s1 w1 = (Ok s', w')"
    by (auto elim: io_bind_Ok)
  have "s1 = g i x s" using Cons.prems(2) [OF _ step] by simp
  moreover have "s' = fold (\<lambda>(j, x). g j x) (zip [i + 1 ..< i + 1 + length xs] xs) s1"
    using rest by (rule Cons.IH) (rule Cons.prems(2), simp_all)
  ultimately show ?case by (simp add: upt_conv_Cons del: upt_Suc)
qed (simp add: io_return_def)

lemma io_for_inv:
  assumes "io_for f i xs s w = (Ok s', w')" "P 0 s"
    and "\<And>j s w s1 w1. j < length xs \<Longrightarrow> P j s \<Longrightarrow> f (i + j) (xs ! j) s w = (Ok s1, w1) \<Longrightarrow> P (Suc j) s1"
  shows "P (length xs) s'"
  using assms
proof (induction xs arbitrary: i s w P)
  case (Cons x xs)
  then obtain s1 w1 where step: "f i x s w = (Ok s1, w1)" and rest: "io_for f (i + 1) xs s1 w1 = (Ok s', w')"
    by (auto elim: io_bind_Ok)
  have "P (Suc 0) s1" using Cons.prems(3) [of 0 s w s1 w1] Cons.prems(2) step by simp
  then have "P (Suc (length xs)) s'"
    using Cons.IH [OF rest, of "\<lambda>j. P (Suc j)"] Cons.prems(3) [of "Suc j" for j] by fastforce
  then show ?case by simp
qed (simp add: io_return_def)

end
