(* ===== verification/Eth_Dag_Publisher.thy ===== *)
theory Eth_Dag_Publisher
  imports Eth_Publisher Dag_Put
begin

text \<open>
  \<open>eth/publisher.go\<close>: the publisher that goes through an IPFS node. It puts every node of a block
  through the putter of its type and returns the cids with the metadata, for \<open>Index\<close> to write.
\<close>

definition publishHeader :: "ipfs_lib \<Rightarrow> 'w adder \<Rightarrow> EthHeaderNode \<Rightarrow> ('w, string) io" where
  "publishHeader ipfs add header = EthHeaderDagPutter ipfs add (TEthHeader, header_node header)"

definition publish_uncles ::
    "geth_lib \<Rightarrow> ipfs_lib \<Rightarrow> 'w adder \<Rightarrow> ConvertedPayload \<Rightarrow> EthHeaderNode list \<Rightarrow> ('w, UncleModel list) io" where
  "publish_uncles geth ipfs add ipldPayload uncleNodes =
     io_for (\<lambda>_ uncle uncleCids.
       io_bind (publishHeader ipfs add uncle) (\<lambda>uncleCid.
         io_return (uncleCids @ [uncle_model geth ipfs ipldPayload uncle uncleCid]))) 0 uncleNodes []"

definition tx_cid_model :: "ipfs_lib \<Rightarrow> EthTxNode \<Rightarrow> TxModel \<Rightarrow> string \<Rightarrow> TxModel" where
  "tx_cid_model ipfs txn meta c =
     \<lparr>tm_ID = 0, tm_HeaderID = 0, tm_Index = tm_Index meta, tm_TxHash = tm_TxHash meta, tm_CID = c,
      tm_MhKey = MultihashKeyFromCID ipfs (xn_cid txn), tm_Dst = tm_Dst meta, tm_Src = tm_Src meta\<rparr>"

definition publishTransactions ::
    "ipfs_lib \<Rightarrow> 'w adder \<Rightarrow> EthTxNode list \<Rightarrow> ipld_node list \<Rightarrow> TxModel list \<Rightarrow> ('w, TxModel list) io" where
  "publishTransactions ipfs add transactions txTrie trxMeta =
     io_bind (io_for (\<lambda>i txn trxCids.
       io_bind (EthTxsDagPutter ipfs add (TEthTx, tx_node txn)) (\<lambda>c.
       io_bind (io_lift (slice_get trxMeta i)) (\<lambda>meta.
         io_return (trxCids @ [tx_cid_model ipfs txn meta c])))) 0 transactions []) (\<lambda>trxCids.
     io_bind (io_for (\<lambda>_ txNode _.
       io_bind (EthTxTrieDagPutter ipfs add (TEthTxTrie, txNode)) (\<lambda>_. io_return ())) 0 txTrie ()) (\<lambda>_.
     io_return trxCids))"

definition rct_cid_model :: "ipfs_lib \<Rightarrow> EthReceiptNode \<Rightarrow> ReceiptModel \<Rightarrow> string \<Rightarrow> ReceiptModel" where
  "rct_cid_model ipfs rct meta c =
     \<lparr>rm_ID = 0, rm_TxID = 0, rm_CID = c, rm_MhKey = MultihashKeyFromCID ipfs (rn_cid rct),
      rm_Contract = rm_Contract meta, rm_ContractHash = rm_ContractHash meta, rm_LogContracts = rm_LogContracts meta,
      rm_Topic0s = rm_Topic0s meta, rm_Topic1s = rm_Topic1s meta, rm_Topic2s = rm_Topic2s meta,
      rm_Topic3s = rm_Topic3s meta\<rparr>"

definition publishReceipts ::
    "ipfs_lib \<Rightarrow> 'w adder \<Rightarrow> EthReceiptNode list \<Rightarrow> ipld_node list \<Rightarrow> ReceiptModel list
     \<Rightarrow> ('w, (Hash \<times> ReceiptModel) list) io" where
  "publishReceipts ipfs add receipts receiptTrie receiptMeta =
     io_bind (io_for (\<lambda>i rct rctCids.
       io_bind (EthReceiptDagPutter ipfs add (TEthReceipt, rct_node rct)) (\<lambda>c.
       io_bind (io_lift (slice_get receiptMeta i)) (\<lambda>meta.
         io_return (AList.update (r_TxHash (rn_Receipt rct)) (rct_cid_model ipfs rct meta c) rctCids)))) 0 receipts []) (\<lambda>rctCids.
     io_bind (io_for (\<lambda>_ rctNode _.
       io_bind (EthRctTrieDagPutter ipfs add (TEthRctTrie, rctNode)) (\<lambda>_. io_return ())) 0 receiptTrie ()) (\<lambda>_.
     io_return rctCids))"

definition trie_node :: "'n IpldTrieNode \<Rightarrow> ipld_node" where
  "trie_node t = \<lparr>node_Cid = in_cid t, node_RawData = in_rawdata t\<rparr>"

definition publishStateNode ::
    "geth_lib \<Rightarrow> rlp_lib \<Rightarrow> ipfs_lib \<Rightarrow> 'w adder \<Rightarrow> TrieNode \<Rightarrow> StateNodeModel list \<times> (string \<times> StateAccountModel) list
     \<Rightarrow> ('w, StateNodeModel list \<times> (string \<times> StateAccountModel) list) io" where
  "publishStateNode geth rlp ipfs add stateNode s =
     io_bind (io_lift (FromStateTrieRLP rlp ipfs (tn_Value stateNode))) (\<lambda>node.
     io_bind (EthStateDagPutter ipfs add (TEthStateTrie, trie_node node)) (\<lambda>c.
       let stateNodeCids = fst s @ [state_model stateNode c (MultihashKeyFromCID ipfs (in_cid node))] in
       if tn_Type stateNode = NodeLeaf then
         io_bind (io_lift (decode_account geth
           ''IPLDPublisher expected state leaf node rlp to decode into two elements'' (tn_Value stateNode))) (\<lambda>account.
         io_return (stateNodeCids, AList.update (hex_EncodeToString (tn_Path stateNode)) account (snd s)))
       else io_return (stateNodeCids, snd s)))"

definition publishStateNodes ::
    "geth_lib \<Rightarrow> rlp_lib \<Rightarrow> ipfs_lib \<Rightarrow> 'w adder \<Rightarrow> TrieNode list
     \<Rightarrow> ('w, StateNodeModel list \<times> (string \<times> StateAccountModel) list) io" where
  "publishStateNodes geth rlp ipfs add stateNodes =
     io_for (\<lambda>_ stateNode s. publishStateNode geth rlp ipfs add stateNode s) 0 stateNodes ([], [])"

definition publishStorageTrie ::
    "rlp_lib \<Rightarrow> ipfs_lib \<Rightarrow> 'w adder \<Rightarrow> TrieNode list \<Rightarrow> ('w, StorageNodeModel list) io" where
  "publishStorageTrie rlp ipfs add storageTrie =
     io_for (\<lambda>_ storageNode cids.
       io_bind (io_lift (FromStorageTrieRLP rlp ipfs (tn_Value storageNode))) (\<lambda>node.
       io_bind (EthStorageDagPutter ipfs add (TEthStorageTrie, trie_node node)) (\<lambda>c.
         io_return (cids @ [storage_model storageNode c (MultihashKeyFromCID ipfs (in_cid node))])))) 0 storageTrie []"

definition publishStorageNodes ::
    "rlp_lib \<Rightarrow> ipfs_lib \<Rightarrow> 'w adder \<Rightarrow> (string \<times> TrieNode list) list \<Rightarrow> ('w, (string \<times> StorageNodeModel list) list) io" where
  "publishStorageNodes rlp ipfs add storageNodes =
     io_for (\<lambda>_ pt storageLeafCids.
       io_bind (publishStorageTrie rlp ipfs add (snd pt)) (\<lambda>cids.
         io_return (AList.update (fst pt) cids storageLeafCids))) 0 storageNodes []"

definition IPLDPublisher_Publish ::
    "geth_lib \<Rightarrow> ipfs_lib \<Rightarrow> trie_lib \<Rightarrow> rlp_lib \<Rightarrow> 'w adder \<Rightarrow> Converted \<Rightarrow> ('w, CIDsForIndexing) io" where
  "IPLDPublisher_Publish geth ipfs tlib rlp add payload =
     (case payload of
        EthConverted ipldPayload \<Rightarrow>
          io_bind (io_lift (FromBlockAndReceipts geth ipfs tlib (cp_Block ipldPayload) (cp_Receipts ipldPayload))) (\<lambda>n.
          io_bind (publishHeader ipfs add (bn_header n)) (\<lambda>headerCid.
          io_bind (io_lift (CalcEthBlockReward (b_Header (cp_Block ipldPayload)) (b_Uncles (cp_Block ipldPayload))
            (b_Transactions (cp_Block ipldPayload)) (cp_Receipts ipldPayload))) (\<lambda>reward.
          io_bind (publish_uncles geth ipfs add ipldPayload (bn_uncles n)) (\<lambda>uncleCids.
          io_bind (publishTransactions ipfs add (bn_txs n) (bn_txTrie n) (cp_TxMetaData ipldPayload)) (\<lambda>transactionCids.
          io_bind (publishReceipts ipfs add (bn_rcts n) (bn_rctTrie n) (cp_ReceiptMetaData ipldPayload)) (\<lambda>receiptsCids.
          io_bind (publishStateNodes geth rlp ipfs add (cp_StateNodes ipldPayload)) (\<lambda>(stateNodeCids, stateAccounts).
          io_bind (publishStorageNodes rlp ipfs add (cp_StorageNodes ipldPayload)) (\<lambda>storageNodeCids.
          io_return (EthCIDs \<lparr>cd_HeaderCID = header_model geth ipfs ipldPayload (bn_header n) headerCid reward,
            cd_UncleCIDs = uncleCids, cd_TransactionCIDs = transactionCids, cd_ReceiptCIDs = receiptsCids,
            cd_StateNodeCIDs = stateNodeCids, cd_StateAccounts = stateAccounts,
            cd_StorageNodeCIDs = storageNodeCids\<rparr>)))))))))
      | _ \<Rightarrow> io_lift (Err (Errorf ''eth publisher expected payload type %T got %T''
              [''eth.ConvertedPayload'', Converted_T payload])))"

subsection \<open>Nothing is removed\<close>

lemma publisher_keeps:
  assumes "adder_stores add has"
  shows "io_keeps has (publishHeader ipfs add h)" "io_keeps has (publish_uncles geth ipfs add p us)"
    "io_keeps has (publishTransactions ipfs add ts tt tm)" "io_keeps has (publishReceipts ipfs add rs rt rm)"
    "io_keeps has (publishStateNode geth rlp ipfs add sn s)" "io_keeps has (publishStateNodes geth rlp ipfs add sns)"
    "io_keeps has (publishStorageTrie rlp ipfs add st)" "io_keeps has (publishStorageNodes rlp ipfs add so)"
  unfolding publishHeader_def publish_uncles_def publishTransactions_def publishReceipts_def publishStateNode_def
    publishStateNodes_def publishStorageTrie_def publishStorageNodes_def putter_defs Let_def
  by (intro io_keeps_intros io_keeps_put [OF assms])+

subsection \<open>What the pieces return and store\<close>

lemma publishHeader_Ok: "publishHeader ipfs add h w = (Ok c, w') \<Longrightarrow> c = Cid_String ipfs (hn_cid h)"
  unfolding publishHeader_def putter_defs by (drule dag_put_Ok(1)) (simp add: header_node_def)

lemma publishHeader_stores:
  "adder_stores add has \<Longrightarrow> publishHeader ipfs add h w = (Ok c, w') \<Longrightarrow> has (header_node h) w'"
  unfolding publishHeader_def putter_defs by (drule (1) dag_put_stores) simp

lemma publish_uncles_Ok:
  assumes "publish_uncles geth ipfs add p us w = (Ok cids, w')"
  shows "cids = map (\<lambda>u. uncle_model geth ipfs p u (Cid_String ipfs (hn_cid u))) us"
proof -
  have "cids = map (\<lambda>u. uncle_model geth ipfs p u (Cid_String ipfs (hn_cid u))) (take (length us) us)"
    using assms unfolding publish_uncles_def
    by (rule io_for_inv)
       (auto elim!: io_bind_Ok simp: io_return_def take_Suc_conv_app_nth dest: publishHeader_Ok)
  then show ?thesis by simp
qed

lemma publish_uncles_stores:
  assumes "adder_stores add has" "publish_uncles geth ipfs add p us w = (Ok cids, w')"
  shows "\<forall>u\<in>set us. has (header_node u) w'"
  using assms(2) unfolding publish_uncles_def
  by (rule io_for_stores)
     (auto elim!: io_bind_Ok simp: io_return_def intro: publishHeader_stores [OF assms(1)] io_keeps_intros
       publisher_keeps [OF assms(1)])

lemma trie_putter_loop_stores:
  assumes "adder_stores add has"
    and "io_for (\<lambda>_ n _. io_bind (dag_put msg k ipfs add (k', n)) (\<lambda>_. io_return ())) 0 ns () w = (Ok u, w')"
  shows "\<forall>n\<in>set ns. has n w'"
  using assms(2)
  by (rule io_for_stores [where g = "\<lambda>n. n"])
     (auto elim!: io_bind_Ok simp: io_return_def dest: dag_put_stores [OF assms(1)]
      intro: io_keeps_intros io_keeps_put [OF assms(1)])

lemma publishTransactions_Ok:
  assumes "publishTransactions ipfs add ts tt metas w = (Ok cids, w')"
  shows "length ts \<le> length metas
    \<and> cids = map2 (\<lambda>t m. tx_cid_model ipfs t m (Cid_String ipfs (xn_cid t))) ts (take (length ts) metas)"
proof -
  obtain w1 where loop: "io_for (\<lambda>i txn trxCids.
       io_bind (EthTxsDagPutter ipfs add (TEthTx, tx_node txn)) (\<lambda>c.
       io_bind (io_lift (slice_get metas i)) (\<lambda>meta.
         io_return (trxCids @ [tx_cid_model ipfs txn meta c])))) 0 ts [] w = (Ok cids, w1)"
    using assms unfolding publishTransactions_def by (auto elim!: io_bind_Ok simp: io_return_def)
  have "length ts \<le> length metas \<and> cids
    = map2 (\<lambda>t m. tx_cid_model ipfs t m (Cid_String ipfs (xn_cid t))) (take (length ts) ts) (take (length ts) metas)"
    using loop
  proof (rule io_for_inv)
    fix j s w s1 w1
    assume j: "j < length ts" and IH: "j \<le> length metas \<and> s
        = map2 (\<lambda>t m. tx_cid_model ipfs t m (Cid_String ipfs (xn_cid t))) (take j ts) (take j metas)"
      and step: "io_bind (EthTxsDagPutter ipfs add (TEthTx, tx_node (ts ! j))) (\<lambda>c.
       io_bind (io_lift (slice_get metas (0 + j))) (\<lambda>meta.
         io_return (s @ [tx_cid_model ipfs (ts ! j) meta c]))) w = (Ok s1, w1)"
    from step have "j < length metas" "s1 = s @ [tx_cid_model ipfs (ts ! j) (metas ! j) (Cid_String ipfs (xn_cid (ts ! j)))]"
      by (auto elim!: io_bind_Ok simp: io_return_def io_lift_def slice_get_Ok_iff putter_defs tx_node_def
          dest!: dag_put_Ok(1))
    with IH j show "Suc j \<le> length metas \<and> s1
        = map2 (\<lambda>t m. tx_cid_model ipfs t m (Cid_String ipfs (xn_cid t))) (take (Suc j) ts) (take (Suc j) metas)"
      by (simp add: take_Suc_conv_app_nth)
  qed simp
  then show ?thesis by simp
qed

lemma publishTransactions_stores:
  assumes "adder_stores add has" "publishTransactions ipfs add ts tt metas w = (Ok cids, w')"
  shows "(\<forall>t\<in>set ts. has (tx_node t) w') \<and> (\<forall>n\<in>set tt. has n w')"
proof -
  obtain w1 u where 1: "io_for (\<lambda>i txn trxCids.
       io_bind (EthTxsDagPutter ipfs add (TEthTx, tx_node txn)) (\<lambda>c.
       io_bind (io_lift (slice_get metas i)) (\<lambda>meta.
         io_return (trxCids @ [tx_cid_model ipfs txn meta c])))) 0 ts [] w = (Ok cids, w1)"
    and 2: "io_for (\<lambda>_ txNode _. io_bind (EthTxTrieDagPutter ipfs add (TEthTxTrie, txNode)) (\<lambda>_. io_return ())) 0 tt () w1 = (Ok u, w')"
    using assms(2) unfolding publishTransactions_def by (auto elim!: io_bind_Ok simp: io_return_def)
  have "\<forall>t\<in>set ts. has (tx_node t) w1"
    using 1
  proof (rule io_for_stores)
    fix j x s w s' w'
    assume "io_bind (EthTxsDagPutter ipfs add (TEthTx, tx_node x)) (\<lambda>c.
       io_bind (io_lift (slice_get metas j)) (\<lambda>meta. io_return (s @ [tx_cid_model ipfs x meta c]))) w = (Ok s', w')"
    then show "has (tx_node x) w'"
      by (auto elim!: io_bind_Ok simp: io_return_def io_lift_def putter_defs dest: dag_put_stores [OF assms(1)])
  qed (unfold putter_defs, intro io_keeps_intros io_keeps_put [OF assms(1)])
  moreover have "io_keeps has (io_for (\<lambda>_ txNode _. io_bind (EthTxTrieDagPutter ipfs add (TEthTxTrie, txNode))
      (\<lambda>_. io_return ())) 0 tt ())"
    unfolding putter_defs by (intro io_keeps_intros io_keeps_put [OF assms(1)])
  ultimately show ?thesis
    using trie_putter_loop_stores [OF assms(1)] 2 unfolding io_keeps_def putter_defs by (metis snd_conv)
qed

lemma publishReceipts_parts:
  assumes "publishReceipts ipfs add rs rt metas w = (Ok cids, w')"
  obtains w1 u where "io_for (\<lambda>i rct rctCids.
       io_bind (EthReceiptDagPutter ipfs add (TEthReceipt, rct_node rct)) (\<lambda>c.
       io_bind (io_lift (slice_get metas i)) (\<lambda>meta.
         io_return (AList.update (r_TxHash (rn_Receipt rct)) (rct_cid_model ipfs rct meta c) rctCids)))) 0 rs [] w = (Ok cids, w1)"
    "io_for (\<lambda>_ rctNode _. io_bind (EthRctTrieDagPutter ipfs add (TEthRctTrie, rctNode)) (\<lambda>_. io_return ())) 0 rt () w1 = (Ok u, w')"
  using assms unfolding publishReceipts_def by (auto elim!: io_bind_Ok simp: io_return_def)

text \<open>The receipt filed under a hash is the last one of the block with that transaction hash.\<close>

definition rct_filed :: "ipfs_lib \<Rightarrow> EthReceiptNode list \<Rightarrow> ReceiptModel list \<Rightarrow> nat \<Rightarrow> Hash \<Rightarrow> ReceiptModel \<Rightarrow> bool" where
  "rct_filed ipfs rs metas k h m \<longleftrightarrow>
     (\<exists>j<k. j < length metas \<and> r_TxHash (rn_Receipt (rs ! j)) = h
        \<and> m = rct_cid_model ipfs (rs ! j) (metas ! j) (Cid_String ipfs (rn_cid (rs ! j))))"

lemma publishReceipts_Ok:
  assumes "publishReceipts ipfs add rs rt metas w = (Ok cids, w')" "map_of cids h = Some m"
  shows "rct_filed ipfs rs metas (length rs) h m"
proof -
  from assms(1) obtain w1 u where loop: "io_for (\<lambda>i rct rctCids.
       io_bind (EthReceiptDagPutter ipfs add (TEthReceipt, rct_node rct)) (\<lambda>c.
       io_bind (io_lift (slice_get metas i)) (\<lambda>meta.
         io_return (AList.update (r_TxHash (rn_Receipt rct)) (rct_cid_model ipfs rct meta c) rctCids)))) 0 rs [] w = (Ok cids, w1)"
    by (rule publishReceipts_parts)
  have "\<forall>h m. map_of cids h = Some m \<longrightarrow> rct_filed ipfs rs metas (length rs) h m"
    using loop
  proof (rule io_for_inv)
    fix j s w s1 w1
    assume j: "j < length rs" and IH: "\<forall>h m. map_of s h = Some m \<longrightarrow> rct_filed ipfs rs metas j h m"
      and step: "io_bind (EthReceiptDagPutter ipfs add (TEthReceipt, rct_node (rs ! j))) (\<lambda>c.
       io_bind (io_lift (slice_get metas (0 + j))) (\<lambda>meta.
         io_return (AList.update (r_TxHash (rn_Receipt (rs ! j))) (rct_cid_model ipfs (rs ! j) meta c) s))) w = (Ok s1, w1)"
    from step have "j < length metas" "s1 = AList.update (r_TxHash (rn_Receipt (rs ! j)))
        (rct_cid_model ipfs (rs ! j) (metas ! j) (Cid_String ipfs (rn_cid (rs ! j)))) s"
      by (auto elim!: io_bind_Ok simp: io_return_def io_lift_def slice_get_Ok_iff putter_defs rct_node_def
          dest!: dag_put_Ok(1))
    with IH show "\<forall>h m. map_of s1 h = Some m \<longrightarrow> rct_filed ipfs rs metas (Suc j) h m"
      by (auto simp: update_conv' rct_filed_def less_Suc_eq split: if_splits)
  qed simp
  with assms(2) show ?thesis by blast
qed

lemma publishReceipts_stores:
  assumes "adder_stores add has" "publishReceipts ipfs add rs rt metas w = (Ok cids, w')"
  shows "(\<forall>r\<in>set rs. has (rct_node r) w') \<and> (\<forall>n\<in>set rt. has n w')"
proof -
  from assms(2) obtain w1 u where 1: "io_for (\<lambda>i rct rctCids.
       io_bind (EthReceiptDagPutter ipfs add (TEthReceipt, rct_node rct)) (\<lambda>c.
       io_bind (io_lift (slice_get metas i)) (\<lambda>meta.
         io_return (AList.update (r_TxHash (rn_Receipt rct)) (rct_cid_model ipfs rct meta c) rctCids)))) 0 rs [] w = (Ok cids, w1)"
    and 2: "io_for (\<lambda>_ rctNode _. io_bind (EthRctTrieDagPutter ipfs add (TEthRctTrie, rctNode)) (\<lambda>_. io_return ())) 0 rt () w1 = (Ok u, w')"
    by (rule publishReceipts_parts)
  have "\<forall>r\<in>set rs. has (rct_node r) w1"
    using 1
  proof (rule io_for_stores)
    fix j x s w s' w'
    assume "io_bind (EthReceiptDagPutter ipfs add (TEthReceipt, rct_node x)) (\<lambda>c.
       io_bind (io_lift (slice_get metas j)) (\<lambda>meta.
         io_return (AList.update (r_TxHash (rn_Receipt x)) (rct_cid_model ipfs x meta c) s))) w = (Ok s', w')"
    then show "has (rct_node x) w'"
      by (auto elim!: io_bind_Ok simp: io_return_def io_lift_def putter_defs dest: dag_put_stores [OF assms(1)])
  qed (unfold putter_defs, intro io_keeps_intros io_keeps_put [OF assms(1)])
  moreover have "io_keeps has (io_for (\<lambda>_ rctNode _. io_bind (EthRctTrieDagPutter ipfs add (TEthRctTrie, rctNode))
      (\<lambda>_. io_return ())) 0 rt ())"
    unfolding putter_defs by (intro io_keeps_intros io_keeps_put [OF assms(1)])
  ultimately show ?thesis
    using trie_putter_loop_stores [OF assms(1)] 2 unfolding io_keeps_def putter_defs by (metis snd_conv)
qed

definition state_cid_model :: "ipfs_lib \<Rightarrow> TrieNode \<Rightarrow> StateNodeModel \<Rightarrow> bool" where
  "state_cid_model ipfs s m \<longleftrightarrow> (\<exists>c. RawdataToCid ipfs MEthStateTrie (tn_Value s) KECCAK_256 = Ok c
     \<and> m = state_model s (Cid_String ipfs c) (MultihashKeyFromCID ipfs c))"

lemma FromStateTrieRLP_cid:
  "FromStateTrieRLP rlp ipfs raw = Ok t \<Longrightarrow> RawdataToCid ipfs MEthStateTrie raw KECCAK_256 = Ok (in_cid t)"
  by (auto simp: FromStateTrieRLP_def DecodeEthStateTrie_def decodeTrieNode_def Let_def split: if_splits)

lemma publishStateNode_Ok:
  assumes "publishStateNode geth rlp ipfs add sn s w = (Ok s', w')"
  shows "\<exists>m. fst s' = fst s @ [m] \<and> state_cid_model ipfs sn m"
  using assms unfolding publishStateNode_def Let_def putter_defs
  by (auto elim!: io_bind_Ok simp: io_lift_def io_return_def state_cid_model_def trie_node_def
      dest!: dag_put_Ok(1) FromStateTrieRLP_cid split: if_splits)

lemma publishStateNodes_Ok:
  assumes "publishStateNodes geth rlp ipfs add sns w = (Ok s', w')"
  shows "list_all2 (state_cid_model ipfs) sns (fst s')"
proof -
  have "list_all2 (state_cid_model ipfs) (take (length sns) sns) (fst s')"
    using assms unfolding publishStateNodes_def
    by (rule io_for_inv)
       (auto simp: take_Suc_conv_app_nth dest!: publishStateNode_Ok intro!: list_all2_appendI)
  then show ?thesis by simp
qed

lemma IPLDPublisher_Publish_steps:
  assumes "IPLDPublisher_Publish geth ipfs tlib rlp add (EthConverted p) w = (Ok cids, w')"
  obtains n hc w1 reward us w2 ts w3 rs w4 ss w5 os where
    "FromBlockAndReceipts geth ipfs tlib (cp_Block p) (cp_Receipts p) = Ok n"
    "publishHeader ipfs add (bn_header n) w = (Ok hc, w1)"
    "CalcEthBlockReward (b_Header (cp_Block p)) (b_Uncles (cp_Block p)) (b_Transactions (cp_Block p)) (cp_Receipts p) = Ok reward"
    "publish_uncles geth ipfs add p (bn_uncles n) w1 = (Ok us, w2)"
    "publishTransactions ipfs add (bn_txs n) (bn_txTrie n) (cp_TxMetaData p) w2 = (Ok ts, w3)"
    "publishReceipts ipfs add (bn_rcts n) (bn_rctTrie n) (cp_ReceiptMetaData p) w3 = (Ok rs, w4)"
    "publishStateNodes geth rlp ipfs add (cp_StateNodes p) w4 = (Ok ss, w5)"
    "publishStorageNodes rlp ipfs add (cp_StorageNodes p) w5 = (Ok os, w')"
    "cids = EthCIDs \<lparr>cd_HeaderCID = header_model geth ipfs p (bn_header n) hc reward, cd_UncleCIDs = us,
       cd_TransactionCIDs = ts, cd_ReceiptCIDs = rs, cd_StateNodeCIDs = fst ss, cd_StateAccounts = snd ss,
       cd_StorageNodeCIDs = os\<rparr>"
  using assms unfolding IPLDPublisher_Publish_def
  by (auto elim!: io_bind_Ok simp: io_lift_def io_return_def split: prod.splits)

subsection \<open>Both publishers write the same rows\<close>

lemma insert_tx_same: "insert_tx (tx_cid_model ipfs t m c) = insert_tx (m\<lparr>tm_CID := c, tm_MhKey := MultihashKeyFromCID ipfs (xn_cid t)\<rparr>)"
  by (intro ext, cases m) (simp add: insert_tx_def tx_cid_model_def)

lemma insert_rct_same: "insert_rct (rct_cid_model ipfs r m c) = insert_rct (m\<lparr>rm_CID := c, rm_MhKey := MultihashKeyFromCID ipfs (rn_cid r)\<rparr>)"
  by (intro ext, cases m) (simp add: insert_rct_def rct_cid_model_def)

definition same_rows :: "geth_lib \<Rightarrow> ipfs_lib \<Rightarrow> ConvertedPayload \<Rightarrow> block_nodes \<Rightarrow> int \<Rightarrow> CIDPayload \<Rightarrow> bool" where
  "same_rows geth ipfs p n reward c \<longleftrightarrow>
     cd_HeaderCID c = header_model geth ipfs p (bn_header n) (Cid_String ipfs (hn_cid (bn_header n))) reward
   \<and> cd_UncleCIDs c = map (\<lambda>u. uncle_model geth ipfs p u (Cid_String ipfs (hn_cid u))) (bn_uncles n)
   \<and> length (cd_TransactionCIDs c) = length (bn_txs n)
   \<and> (\<forall>j<length (bn_txs n). insert_tx (cd_TransactionCIDs c ! j) = insert_tx ((cp_TxMetaData p ! j)\<lparr>
        tm_CID := Cid_String ipfs (xn_cid (bn_txs n ! j)), tm_MhKey := MultihashKeyFromCID ipfs (xn_cid (bn_txs n ! j))\<rparr>))
   \<and> (\<forall>h m. map_of (cd_ReceiptCIDs c) h = Some m \<longrightarrow> (\<exists>j<length (bn_rcts n). r_TxHash (rn_Receipt (bn_rcts n ! j)) = h
        \<and> insert_rct m = insert_rct ((cp_ReceiptMetaData p ! j)\<lparr>rm_CID := Cid_String ipfs (rn_cid (bn_rcts n ! j)),
            rm_MhKey := MultihashKeyFromCID ipfs (rn_cid (bn_rcts n ! j))\<rparr>)))
   \<and> list_all2 (state_cid_model ipfs) (cp_StateNodes p) (cd_StateNodeCIDs c)"

subsection \<open>Properties\<close>


text \<open>
  When that publisher returns without an error, and the IPFS node keeps what was added to it,
  the node holds the header, every uncle, transaction and receipt and all the trie nodes of the block.
\<close>

theorem IPLDPublisher_stores:
  assumes "adder_stores add has"
    and "IPLDPublisher_Publish geth ipfs tlib rlp add (EthConverted p) w = (Ok cids, w')"
  shows "\<exists>n. FromBlockAndReceipts geth ipfs tlib (cp_Block p) (cp_Receipts p) = Ok n
    \<and> (\<forall>m\<in>set (header_node (bn_header n) # map header_node (bn_uncles n) @ map tx_node (bn_txs n) @ bn_txTrie n
        @ map rct_node (bn_rcts n) @ bn_rctTrie n). has m w')"
proof -
  from assms(2) obtain n hc w1 reward us w2 ts w3 rs w4 ss w5 os where
    steps: "FromBlockAndReceipts geth ipfs tlib (cp_Block p) (cp_Receipts p) = Ok n"
    "publishHeader ipfs add (bn_header n) w = (Ok hc, w1)"
    "publish_uncles geth ipfs add p (bn_uncles n) w1 = (Ok us, w2)"
    "publishTransactions ipfs add (bn_txs n) (bn_txTrie n) (cp_TxMetaData p) w2 = (Ok ts, w3)"
    "publishReceipts ipfs add (bn_rcts n) (bn_rctTrie n) (cp_ReceiptMetaData p) w3 = (Ok rs, w4)"
    "publishStateNodes geth rlp ipfs add (cp_StateNodes p) w4 = (Ok ss, w5)"
    "publishStorageNodes rlp ipfs add (cp_StorageNodes p) w5 = (Ok os, w')"
    by (rule IPLDPublisher_Publish_steps)
  note k = publisher_keeps [OF assms(1)]
  have f4: "has m w'" if "has m w4" for m
    using that k(6) k(8) steps(6,7) unfolding io_keeps_def by (metis snd_conv)
  have f3: "has m w'" if "has m w3" for m
    using f4 that k(4) steps(5) unfolding io_keeps_def by (metis snd_conv)
  have f2: "has m w'" if "has m w2" for m
    using f3 that k(3) steps(4) unfolding io_keeps_def by (metis snd_conv)
  have f1: "has m w'" if "has m w1" for m
    using f2 that k(2) steps(3) unfolding io_keeps_def by (metis snd_conv)
  show ?thesis
    using steps(1) f1 [OF publishHeader_stores [OF assms(1) steps(2)]] f2 publish_uncles_stores [OF assms(1) steps(3)]
      f3 publishTransactions_stores [OF assms(1) steps(4)] f4 publishReceipts_stores [OF assms(1) steps(5)]
    by auto
qed

text \<open>A node that is a list of what was added.\<close>

definition list_adder :: "ipld_node list adder" where
  "list_adder n w = (Ok (), n # w)"

lemma list_adder_stores: "adder_stores list_adder (\<lambda>n w. n \<in> set w)"
  by (simp add: adder_stores_def list_adder_def)

lemma sample_IPLDPublish:
  "\<exists>cids w'. IPLDPublisher_Publish sample_geth sample_ipfs sample_trie sample_rlp list_adder
     (EthConverted (sample_payload 7)) [] = (Ok cids, w')"
  by (simp add: IPLDPublisher_Publish_def sample_payload_def sample_FromBlock)
     (simp add: sample_nodes_def publishHeader_def publish_uncles_def publishTransactions_def publishReceipts_def
      publishStateNodes_def publishStorageNodes_def putter_defs dag_put_def list_adder_def io_bind_def io_lift_def
      io_return_def CalcEthBlockReward_def calcEthTransactionFees_def sample_block_def)


theorem IPLDPublisher_stores_witness:
  "\<exists>cids w'. IPLDPublisher_Publish sample_geth sample_ipfs sample_trie sample_rlp list_adder
     (EthConverted (sample_payload 7)) [] = (Ok cids, w') \<and> header_node (bn_header sample_nodes) \<in> set w'"
proof -
  obtain cids w' where run: "IPLDPublisher_Publish sample_geth sample_ipfs sample_trie sample_rlp list_adder
      (EthConverted (sample_payload 7)) [] = (Ok cids, w')" using sample_IPLDPublish by blast
  from IPLDPublisher_stores [OF list_adder_stores run] have "header_node (bn_header sample_nodes) \<in> set w'"
    by (auto simp: sample_payload_def sample_FromBlock)
  with run show ?thesis by blast
qed

end
