(* ===== verification/Pg_Clean.thy ===== *)
theory Pg_Clean
  imports Pg_DB Go_Io
begin

text \<open>
  What the cleaners of both chains share: transactions without a deferred function (the error of the
  commit is returned), statements over a range of block numbers, deletion with its cascades, and
  \<open>VACUUM ANALYZE\<close>, which changes no contents.

  A cascade runs with the statement that deletes. On a database that satisfies its foreign keys the
  rows it removes are those whose block or parent row the statement removed.
\<close>

subsection \<open>Transactions that return the error of the commit\<close>

text \<open>
  \<open>Beginx\<close>, the statements, \<open>Rollback\<close> on an error and \<open>Commit\<close> at the end. The last component is the
  rest of the script of faults, for what the function does afterwards.
\<close>

definition run_commit ::
    "('db \<Rightarrow> bool) \<Rightarrow> bool list \<Rightarrow> ('db, 'sq, 'a) txm \<Rightarrow> 'sq \<Rightarrow> 'db \<Rightarrow> 'a outcome \<times> 'db \<times> 'sq \<times> bool list" where
  "run_commit deferred faults m sq db =
     (if next_fault faults then (Err (Errorf ''pq: begin failed'' []), db, sq, tl faults)
      else case m (begin_tx faults sq db) of
        (Ok x, tx) \<Rightarrow>
          if commits deferred tx then (Ok x, tx_db tx, tx_seq tx, tl (tx_faults tx))
          else (Err (Errorf ''pq: commit failed'' []), db, tx_seq tx, tl (tx_faults tx))
      | (Err e, tx) \<Rightarrow> (Err e, db, tx_seq tx, tx_faults tx)
      | (Panic p, tx) \<Rightarrow> (Panic p, db, tx_seq tx, tx_faults tx))"

lemma run_commit_cases:
  assumes "run_commit deferred faults m sq db = (r, db', sq', fs)"
  obtains (committed) x tx where "r = Ok x" "m (begin_tx faults sq db) = (Ok x, tx)" "db' = tx_db tx"
      "sq' = tx_seq tx" "deferred db'"
    | (unchanged) "db' = db" "\<And>x. r \<noteq> Ok x"
  using assms by (auto simp: run_commit_def commits_def split: if_splits outcome.splits prod.splits)

lemma run_commit_keeps:
  assumes "tx_keeps invar m" "invar sq db" "run_commit deferred faults m sq db = (r, db', sq', fs)"
  shows "invar sq' db'"
proof -
  obtain x tx where m: "m (begin_tx faults sq db) = (x, tx)" by (cases "m (begin_tx faults sq db)")
  have "invar (tx_seq tx) (tx_db tx) \<and> invar (tx_seq tx) db"
    using assms(1,2) m unfolding tx_keeps_def
    by (metis (no_types, lifting) begin_tx_def snd_conv sql_tx.select_convs(1,2))
  with assms(2,3) m show ?thesis
    by (cases x) (auto simp: run_commit_def split: if_splits)
qed

subsection \<open>Statements over a range of block numbers\<close>

type_synonym range64 = "u64 \<times> u64"

definition between :: "int \<times> int \<Rightarrow> string \<Rightarrow> bool" where
  "between r n = (case big_SetString n of None \<Rightarrow> False | Some i \<Rightarrow> fst r \<le> i \<and> i \<le> snd r)"

definition range_args :: "range64 \<Rightarrow> (int \<times> int) outcome" where
  "range_args rng =
     outcome_bind (driver_uint64 (fst rng)) (\<lambda>lo. outcome_bind (driver_uint64 (snd rng)) (\<lambda>hi. Ok (lo, hi)))"

definition change :: "(pg_db \<Rightarrow> pg_db) \<Rightarrow> unit pg_stmt" where
  "change f sq db = Ok ((), f db, sq)"

definition exec_range :: "(int \<times> int \<Rightarrow> pg_db \<Rightarrow> pg_db) \<Rightarrow> range64 \<Rightarrow> unit pg_txm" where
  "exec_range f rng = tx_bind (tx_lift (range_args rng)) (\<lambda>r. sql_exec (change (f r)))"

lemma exec_range_Ok:
  assumes "exec_range f rng tx = (Ok u, tx')"
  obtains r where "range_args rng = Ok r" "tx_db tx' = f r (tx_db tx)" "tx_seq tx' = tx_seq tx"
  using assms unfolding exec_range_def
  by (elim tx_bind_Ok sql_exec_Ok) (auto simp: tx_lift_def change_def)

text \<open>\<open>m\<close> on a range whose arguments the driver accepts as \<open>r\<close> turns the tables \<open>db\<close> into \<open>db'\<close> when it succeeds.\<close>

definition tx_maps :: "int \<times> int \<Rightarrow> (range64 \<Rightarrow> unit pg_txm) \<Rightarrow> pg_db \<Rightarrow> pg_db \<Rightarrow> bool" where
  "tx_maps r m db db' \<longleftrightarrow> (\<forall>rng tx u tx'. range_args rng = Ok r \<longrightarrow> tx_db tx = db \<longrightarrow> m rng tx = (Ok u, tx') \<longrightarrow>
     tx_db tx' = db')"

lemma tx_mapsD: "tx_maps r m db db' \<Longrightarrow> range_args rng = Ok r \<Longrightarrow> tx_db tx = db \<Longrightarrow> m rng tx = (Ok u, tx') \<Longrightarrow> tx_db tx' = db'"
  unfolding tx_maps_def by blast

lemma maps_exec: "db' = f r db \<Longrightarrow> tx_maps r (exec_range f) db db'"
  unfolding tx_maps_def by (auto elim: exec_range_Ok)

lemma maps_then:
  assumes "tx_maps r m db db1" "tx_maps r m' db1 db2"
  shows "tx_maps r (\<lambda>rng. tx_bind (m rng) (\<lambda>_. m' rng)) db db2"
  unfolding tx_maps_def
proof (intro allI impI)
  fix rng tx u tx'
  assume r: "range_args rng = Ok r" "tx_db tx = db" and run: "tx_bind (m rng) (\<lambda>_. m' rng) tx = (Ok u, tx')"
  obtain v tx1 where m: "m rng tx = (Ok v, tx1)" and m': "m' rng tx1 = (Ok u, tx')" using run by (rule tx_bind_Ok)
  show "tx_db tx' = db2" by (rule tx_mapsD [OF assms(2) r(1) tx_mapsD [OF assms(1) r m] m'])
qed

lemma change_keeps: "(\<And>sq db. invar sq db \<Longrightarrow> invar sq (f db)) \<Longrightarrow> stmt_keeps invar (change f)"
  by (auto simp: stmt_keeps_def change_def)

lemma exec_range_keeps:
  "(\<And>r sq db. invar sq db \<Longrightarrow> invar sq (f r db)) \<Longrightarrow> tx_keeps invar (exec_range f rng)"
  unfolding exec_range_def by (intro keeps_intros change_keeps)

lemma range_args_Ok: "range_args rng = Ok r \<longleftrightarrow>
    unat (fst rng) < 2 ^ 63 \<and> unat (snd rng) < 2 ^ 63 \<and> r = (uint (fst rng), uint (snd rng))"
  by (auto simp: range_args_def driver_uint64_def)

definition range_ints :: "range64 \<Rightarrow> int \<times> int" where
  "range_ints rng = (uint (fst rng), uint (snd rng))"

lemma exec_range_args: "exec_range f rng tx = (Ok u, tx') \<Longrightarrow> range_args rng = Ok (range_ints rng)"
  by (erule exec_range_Ok) (simp add: range_args_Ok range_ints_def)

lemma exec_then_args: "tx_bind (exec_range f rng) m tx = (Ok u, tx') \<Longrightarrow> range_args rng = Ok (range_ints rng)"
  by (erule tx_bind_Ok) (erule exec_range_args)

lemma exec_ranges_fold:
  "tx_for (\<lambda>_ rng. exec_range f rng) i rngs tx = (Ok u, tx') \<Longrightarrow> tx_db tx' = fold f (map range_ints rngs) (tx_db tx)"
proof (induction rngs arbitrary: i tx)
  case (Cons rng rngs)
  obtain v tx1 where one: "exec_range f rng tx = (Ok v, tx1)"
    and rest: "tx_for (\<lambda>_ rng. exec_range f rng) (i + 1) rngs tx1 = (Ok u, tx')"
    using Cons.prems by (auto elim: tx_bind_Ok)
  from one have "tx_db tx1 = f (range_ints rng) (tx_db tx)"
    by (rule exec_range_Ok) (simp add: range_args_Ok range_ints_def)
  with Cons.IH [OF rest] show ?case by simp
qed (simp add: tx_return_def)

text \<open>Without faults a statement succeeds, and so does a transaction made of statements.\<close>

definition calm :: "('db, 'sq) sql_tx \<Rightarrow> bool" where
  "calm tx \<longleftrightarrow> \<not> tx_aborted tx \<and> tx_faults tx = []"

definition succeeds :: "unit pg_txm \<Rightarrow> bool" where
  "succeeds m \<longleftrightarrow> (\<forall>tx. calm tx \<longrightarrow> (\<exists>tx'. m tx = (Ok (), tx') \<and> calm tx' \<and> tx_seq tx' = tx_seq tx))"

named_theorems succeeds_intros \<open>programs that succeed when no statement fails\<close>

lemma succeeds_exec [succeeds_intros]: "range_args rng = Ok r \<Longrightarrow> succeeds (exec_range f rng)"
  by (auto simp: succeeds_def calm_def exec_range_def tx_bind_def tx_lift_def sql_exec_def next_fault_def change_def)

lemma succeeds_bind [succeeds_intros]: "succeeds m \<Longrightarrow> succeeds m' \<Longrightarrow> succeeds (tx_bind m (\<lambda>_. m'))"
  unfolding succeeds_def tx_bind_def by (fastforce split: prod.splits)

lemma succeeds_for [succeeds_intros]: "(\<And>i x. x \<in> set xs \<Longrightarrow> succeeds (f i x)) \<Longrightarrow> succeeds (tx_for f j xs)"
  by (induction xs arbitrary: j) (auto simp: succeeds_def tx_return_def intro: succeeds_bind [unfolded succeeds_def, rule_format])

lemma run_commit_succeeds:
  assumes "succeeds m" "\<And>u tx. m (begin_tx [] sq db) = (Ok u, tx) \<Longrightarrow> deferred (tx_db tx)"
  obtains tx where "m (begin_tx [] sq db) = (Ok (), tx)" "run_commit deferred [] m sq db = (Ok (), tx_db tx, sq, [])"
proof -
  have "calm (begin_tx [] sq db)" by (simp add: calm_def begin_tx_def)
  then obtain tx where "m (begin_tx [] sq db) = (Ok (), tx)" "calm tx" "tx_seq tx = sq"
    using assms(1) unfolding succeeds_def by (metis begin_tx_def sql_tx.select_convs(2))
  with assms(2) that show ?thesis
    by (simp add: run_commit_def calm_def next_fault_def commits_def)
qed

subsection \<open>Deletion with cascades\<close>

definition drop_blocks :: "(string \<Rightarrow> bool) \<Rightarrow> pg_db \<Rightarrow> pg_db" where
  "drop_blocks gone db = db\<lparr>db_blocks := filter (\<lambda>b. \<not> gone (fst b)) (db_blocks db)\<rparr>"

definition del_blocks :: "(string \<Rightarrow> bool) \<Rightarrow> pg_db \<Rightarrow> pg_db" where
  "del_blocks gone db = cascade (drop_blocks gone db)"

lemma stored_drop [simp]: "stored (drop_blocks gone db) k \<longleftrightarrow> \<not> gone k \<and> stored db k"
  by (auto simp: drop_blocks_def stored_iff)

lemma stored_update [simp]:
  "stored (db\<lparr>eth_headers := a\<rparr>) = stored db" "stored (db\<lparr>eth_uncles := b\<rparr>) = stored db"
  "stored (db\<lparr>eth_txs := c\<rparr>) = stored db" "stored (db\<lparr>eth_rcts := d\<rparr>) = stored db"
  "stored (db\<lparr>eth_states := e\<rparr>) = stored db" "stored (db\<lparr>eth_storages := f\<rparr>) = stored db"
  "stored (db\<lparr>btc_headers := g\<rparr>) = stored db" "stored (db\<lparr>btc_txs := h\<rparr>) = stored db"
  by (simp_all add: stored_def fun_eq_iff)

lemma drop_tables [simp]:
  "db_nodes (drop_blocks gone db) = db_nodes db"
  "eth_headers (drop_blocks gone db) = eth_headers db" "eth_uncles (drop_blocks gone db) = eth_uncles db"
  "eth_txs (drop_blocks gone db) = eth_txs db" "eth_rcts (drop_blocks gone db) = eth_rcts db"
  "eth_states (drop_blocks gone db) = eth_states db" "eth_storages (drop_blocks gone db) = eth_storages db"
  "eth_accounts (drop_blocks gone db) = eth_accounts db"
  "btc_headers (drop_blocks gone db) = btc_headers db" "btc_txs (drop_blocks gone db) = btc_txs db"
  "btc_inputs (drop_blocks gone db) = btc_inputs db" "btc_outputs (drop_blocks gone db) = btc_outputs db"
  by (simp_all add: drop_blocks_def)

lemma drop_blocks_blocks [simp]:
  "db_blocks (drop_blocks gone db) = filter (\<lambda>b. \<not> gone (fst b)) (db_blocks db)"
  by (simp add: drop_blocks_def)

lemma cascade_nodes [simp]: "db_nodes (cascade db) = db_nodes db"
  by (simp add: cascade_def Let_def)

lemma drop_drop: "drop_blocks g (drop_blocks h db) = drop_blocks (\<lambda>k. h k \<or> g k) db"
  by (simp add: drop_blocks_def)

text \<open>A deletion after a cascade is a cascade after both deletions.\<close>

lemma absorb_table:
  assumes "t1 = filter p (filter B ts)" "t2 = filter p ts" "\<And>r. A r \<Longrightarrow> B r"
  shows "filter A t1 = filter A t2" "f ` set (filter A t2) \<subseteq> f ` set (filter B ts)"
  using assms by (auto intro!: filter_cong)

locale cascade_pair =
  fixes db db1 db2 :: pg_db
    and ph pu pt pr ps po pa pbh pbt pi pq
  assumes stored_same: "stored db1 k = stored db2 k" and stored_less: "stored db2 k \<Longrightarrow> stored db k"
    and rest: "db_blocks db1 = db_blocks db2" "db_nodes db1 = db_nodes db2"
    and headers: "eth_headers db1 = filter ph (eth_headers (cascade db))" "eth_headers db2 = filter ph (eth_headers db)"
    and uncles: "eth_uncles db1 = filter pu (eth_uncles (cascade db))" "eth_uncles db2 = filter pu (eth_uncles db)"
    and txs: "eth_txs db1 = filter pt (eth_txs (cascade db))" "eth_txs db2 = filter pt (eth_txs db)"
    and rcts: "eth_rcts db1 = filter pr (eth_rcts (cascade db))" "eth_rcts db2 = filter pr (eth_rcts db)"
    and states: "eth_states db1 = filter ps (eth_states (cascade db))" "eth_states db2 = filter ps (eth_states db)"
    and storages: "eth_storages db1 = filter po (eth_storages (cascade db))"
      "eth_storages db2 = filter po (eth_storages db)"
    and accounts: "eth_accounts db1 = filter pa (eth_accounts (cascade db))"
      "eth_accounts db2 = filter pa (eth_accounts db)"
    and bheaders: "btc_headers db1 = filter pbh (btc_headers (cascade db))" "btc_headers db2 = filter pbh (btc_headers db)"
    and btxs: "btc_txs db1 = filter pbt (btc_txs (cascade db))" "btc_txs db2 = filter pbt (btc_txs db)"
    and inputs: "btc_inputs db1 = filter pi (btc_inputs (cascade db))" "btc_inputs db2 = filter pi (btc_inputs db)"
    and outputs: "btc_outputs db1 = filter pq (btc_outputs (cascade db))" "btc_outputs db2 = filter pq (btc_outputs db)"
begin

lemma headers_same:
  shows "eth_headers (cascade db1) = eth_headers (cascade db2)"
    and headers_less: "hm_ID ` set (eth_headers (cascade db2)) \<subseteq> hm_ID ` set (eth_headers (cascade db))"
  unfolding cascade_tables(1) stored_same
  by (rule absorb_table [OF headers [unfolded cascade_tables(1)]], erule stored_less)+

lemma txs_same: "eth_txs (cascade db1) = eth_txs (cascade db2)"
  unfolding cascade_tables(3) stored_same headers_same
  by (rule absorb_table(1) [OF txs [unfolded cascade_tables(3)]]) (use stored_less headers_less in auto)

lemma txs_less: "tm_ID ` set (eth_txs (cascade db2)) \<subseteq> tm_ID ` set (eth_txs (cascade db))"
  unfolding cascade_tables(3)
  by (rule absorb_table(2) [OF txs [unfolded cascade_tables(3)]]) (use stored_less headers_less in auto)

lemma states_same: "eth_states (cascade db1) = eth_states (cascade db2)"
  unfolding cascade_tables(5) stored_same headers_same
  by (rule absorb_table(1) [OF states [unfolded cascade_tables(5)]]) (use stored_less headers_less in auto)

lemma states_less: "sm_ID ` set (eth_states (cascade db2)) \<subseteq> sm_ID ` set (eth_states (cascade db))"
  unfolding cascade_tables(5)
  by (rule absorb_table(2) [OF states [unfolded cascade_tables(5)]]) (use stored_less headers_less in auto)

lemma uncles_same: "eth_uncles (cascade db1) = eth_uncles (cascade db2)"
  unfolding cascade_tables(2) stored_same headers_same
  by (rule absorb_table [OF uncles [unfolded cascade_tables(2)]], use stored_less headers_less in auto)+

lemma rcts_same: "eth_rcts (cascade db1) = eth_rcts (cascade db2)"
  unfolding cascade_tables(4) stored_same txs_same
  by (rule absorb_table [OF rcts [unfolded cascade_tables(4)]], use stored_less txs_less in auto)+

lemma storages_same: "eth_storages (cascade db1) = eth_storages (cascade db2)"
  unfolding cascade_tables(6) stored_same states_same
  by (rule absorb_table [OF storages [unfolded cascade_tables(6)]], use stored_less states_less in auto)+

lemma accounts_same: "eth_accounts (cascade db1) = eth_accounts (cascade db2)"
  unfolding cascade_tables(7) states_same
  by (rule absorb_table [OF accounts [unfolded cascade_tables(7)]], use states_less in auto)+

lemma bheaders_same:
  shows "btc_headers (cascade db1) = btc_headers (cascade db2)"
    and bheaders_less: "bhm_ID ` set (btc_headers (cascade db2)) \<subseteq> bhm_ID ` set (btc_headers (cascade db))"
  unfolding cascade_tables(8) stored_same
  by (rule absorb_table [OF bheaders [unfolded cascade_tables(8)]], erule stored_less)+

lemma btxs_same: "btc_txs (cascade db1) = btc_txs (cascade db2)"
  unfolding cascade_tables(9) stored_same bheaders_same
  by (rule absorb_table(1) [OF btxs [unfolded cascade_tables(9)]]) (use stored_less bheaders_less in auto)

lemma btxs_less: "btm_ID ` set (btc_txs (cascade db2)) \<subseteq> btm_ID ` set (btc_txs (cascade db))"
  unfolding cascade_tables(9)
  by (rule absorb_table(2) [OF btxs [unfolded cascade_tables(9)]]) (use stored_less bheaders_less in auto)

lemma inputs_same: "btc_inputs (cascade db1) = btc_inputs (cascade db2)"
  unfolding cascade_tables(10) btxs_same
  by (rule absorb_table [OF inputs [unfolded cascade_tables(10)]], use btxs_less in auto)+

lemma outputs_same: "btc_outputs (cascade db1) = btc_outputs (cascade db2)"
  unfolding cascade_tables(11) btxs_same
  by (rule absorb_table [OF outputs [unfolded cascade_tables(11)]], use btxs_less in auto)+

theorem cascade_same: "cascade db1 = cascade db2"
  by (rule pg_db.equality)
     (simp_all add: rest headers_same uncles_same txs_same rcts_same states_same storages_same accounts_same
       bheaders_same btxs_same inputs_same outputs_same)

end

interpretation drop_pair: cascade_pair db "drop_blocks g (cascade db)" "drop_blocks g db"
    "\<lambda>_. True" "\<lambda>_. True" "\<lambda>_. True" "\<lambda>_. True" "\<lambda>_. True" "\<lambda>_. True" "\<lambda>_. True" "\<lambda>_. True" "\<lambda>_. True"
    "\<lambda>_. True" "\<lambda>_. True" for g db
  by unfold_locales simp_all

lemma del_del: "del_blocks g (del_blocks h db) = del_blocks (\<lambda>k. h k \<or> g k) db"
  unfolding del_blocks_def drop_pair.cascade_same drop_drop ..


text \<open>What is left of the tables after a deletion of blocks, on a database that satisfies its keys.\<close>

lemma del_ok: "db_ok sq db \<Longrightarrow> db_ok sq (del_blocks g db)"
  unfolding del_blocks_def
  by (rule cascade_ok) (auto simp: db_ok_def eth_ok_def btc_ok_def distinct_map_filter)

lemma del_fk: "deferred_fk (del_blocks g db)"
  by (simp add: del_blocks_def cascade_fk)

lemma drop_none: "drop_blocks (\<lambda>_. False) db = db"
  by (simp add: drop_blocks_def)

lemma cascade_idem: "cascade (cascade db) = cascade db"
  using drop_pair.cascade_same [of "\<lambda>_. False" db] by (simp add: drop_none)

lemma cascade_del: "cascade (del_blocks g db) = del_blocks g db"
  by (simp add: del_blocks_def cascade_idem)

lemma del_blocks_blocks: "db_blocks (del_blocks g db) = filter (\<lambda>b. \<not> g (fst b)) (db_blocks db)"
  by (simp add: del_blocks_def)

lemma del_step:
  assumes "\<And>k. g k \<or> k \<in> K (del_blocks g db) \<longleftrightarrow> g k \<or> k \<in> K db"
  shows "del_blocks (\<lambda>k. k \<in> K (del_blocks g db)) (del_blocks g db) = del_blocks (\<lambda>k. g k \<or> k \<in> K db) db"
  unfolding del_del assms ..

subsection \<open>Cleaning several ranges\<close>

text \<open>
  The contract of the cleaner of a range: on a database whose rows have their blocks and in which
  the kinds of rows share none (\<open>apart\<close>), a successful run does what \<open>spec\<close> says.
\<close>

locale range_cleaner =
  fixes clean :: "range64 \<Rightarrow> unit pg_txm" and spec :: "int \<times> int \<Rightarrow> pg_db \<Rightarrow> pg_db" and apart :: "int \<times> int \<Rightarrow> pg_db \<Rightarrow> bool"
  assumes maps: "blocks_fk db \<Longrightarrow> apart r db \<Longrightarrow> tx_maps r clean db (spec r db)"
    and spec_fk: "deferred_fk (spec r db)"
    and apart_kept: "apart r db \<Longrightarrow> apart r (spec r' db)"
    and args: "clean rng tx = (Ok u, tx') \<Longrightarrow> range_args rng = Ok (range_ints rng)"
begin

lemma for_args: "tx_for (\<lambda>_ rng. clean rng) i rngs tx = (Ok u, tx') \<Longrightarrow> \<forall>rng\<in>set rngs. range_args rng = Ok (range_ints rng)"
  by (induction rngs arbitrary: i tx) (auto elim!: tx_bind_Ok dest: args)

lemma for_spec:
  assumes "tx_for (\<lambda>_ rng. clean rng) i rngs tx = (Ok u, tx')" "blocks_fk (tx_db tx)"
    and "\<forall>rng\<in>set rngs. range_args rng = Ok (range_ints rng) \<and> apart (range_ints rng) (tx_db tx)"
  shows "tx_db tx' = fold spec (map range_ints rngs) (tx_db tx)"
  using assms
proof (induction rngs arbitrary: i tx)
  case (Cons rng rngs)
  obtain v tx1 where one: "clean rng tx = (Ok v, tx1)" and rest: "tx_for (\<lambda>_ rng. clean rng) (i + 1) rngs tx1 = (Ok u, tx')"
    using Cons.prems(1) by (auto elim: tx_bind_Ok)
  have db1: "tx_db tx1 = spec (range_ints rng) (tx_db tx)"
    by (rule tx_mapsD [OF maps [OF Cons.prems(2)] _ refl one]) (use Cons.prems(3) in simp_all)
  have "tx_db tx' = fold spec (map range_ints rngs) (tx_db tx1)"
  proof (rule Cons.IH [OF rest])
    show "blocks_fk (tx_db tx1)" unfolding db1 using spec_fk by (simp add: deferred_fk_def)
    show "\<forall>rng\<in>set rngs. range_args rng = Ok (range_ints rng) \<and> apart (range_ints rng) (tx_db tx1)"
      using Cons.prems(3) unfolding db1 by (auto intro: apart_kept)
  qed
  then show ?case by (simp add: db1)
qed (simp add: tx_return_def)

lemma all_fk: "deferred_fk db \<Longrightarrow> deferred_fk (fold spec (map range_ints rngs) db)"
  by (induction rngs arbitrary: db) (simp_all add: spec_fk)

lemma ranges_cases:
  assumes "run_commit deferred_fk faults (tx_for (\<lambda>_ rng. clean rng) 0 rngs) sq db = (r, db', sq', fs)" "deferred_fk db"
    and "\<forall>rng\<in>set rngs. apart (range_ints rng) db"
  obtains (failed) "r \<noteq> Ok ()" "db' = db" | (cleaned) "r = Ok ()" "db' = fold spec (map range_ints rngs) db"
  using assms(1)
proof (cases rule: run_commit_cases)
  case (committed x tx)
  have b: "tx_db (begin_tx faults sq db) = db" by (simp add: begin_tx_def)
  have "tx_db tx = fold spec (map range_ints rngs) (tx_db (begin_tx faults sq db))"
    by (rule for_spec [OF committed(2)]) (use assms(2,3) for_args [OF committed(2)] in \<open>simp_all add: b deferred_fk_def\<close>)
  with committed b show ?thesis by (intro cleaned) simp_all
next
  case unchanged
  then show ?thesis by (intro failed)
qed

lemma ranges_succeed:
  assumes "deferred_fk db" "\<forall>rng\<in>set rngs. apart (range_ints rng) db" "\<forall>rng\<in>set rngs. range_args rng = Ok (range_ints rng)"
    and "\<forall>rng\<in>set rngs. succeeds (clean rng)"
  shows "run_commit deferred_fk [] (tx_for (\<lambda>_ rng. clean rng) 0 rngs) sq db = (Ok (), fold spec (map range_ints rngs) db, sq, [])"
proof -
  let ?m = "tx_for (\<lambda>_ rng. clean rng) 0 rngs"
  have b: "tx_db (begin_tx [] sq db) = db" by (simp add: begin_tx_def)
  have result: "tx_db tx = fold spec (map range_ints rngs) db" if "?m (begin_tx [] sq db) = (Ok u, tx)" for u tx
    using for_spec [OF that] assms by (simp add: b deferred_fk_def)
  have "succeeds ?m" using assms(4) by (auto intro: succeeds_intros)
  moreover have "deferred_fk (tx_db tx)" if "?m (begin_tx [] sq db) = (Ok u, tx)" for u tx
    using result [OF that] all_fk [OF assms(1)] by simp
  ultimately obtain tx where "?m (begin_tx [] sq db) = (Ok (), tx)" "run_commit deferred_fk [] ?m sq db = (Ok (), tx_db tx, sq, [])"
    by (rule run_commit_succeeds)
  with result show ?thesis by simp
qed

end

text \<open>The specifications of both chains are deletions of the blocks that the rows of the range point to.\<close>

locale block_cleaner = range_cleaner +
  fixes keys :: "int \<times> int \<Rightarrow> pg_db \<Rightarrow> string set"
  assumes spec_keys: "spec r db = del_blocks (\<lambda>k. k \<in> keys r db) db" and keys_less: "keys r (del_blocks g db) \<subseteq> keys r db"
begin

lemma all_ok: "db_ok sq db \<Longrightarrow> db_ok sq (fold spec (map range_ints rngs) db)"
  by (induction rngs arbitrary: db) (simp_all add: spec_keys del_ok)

lemma blocks_less: "set (db_blocks (fold spec (map range_ints rngs) db)) \<subseteq> set (db_blocks db)"
proof (induction rngs arbitrary: db)
  case (Cons rng rngs)
  from Cons [of "spec (range_ints rng) db"] show ?case by (auto simp: spec_keys del_blocks_blocks)
qed simp

lemma blocks_kept:
  "b \<in> set (db_blocks db) \<Longrightarrow> \<forall>rng\<in>set rngs. fst b \<notin> keys (range_ints rng) db \<Longrightarrow>
   b \<in> set (db_blocks (fold spec (map range_ints rngs) db))"
proof (induction rngs arbitrary: db)
  case (Cons rng rngs)
  have "b \<in> set (db_blocks (spec (range_ints rng) db))" using Cons.prems by (simp add: spec_keys del_blocks_blocks)
  moreover have "\<forall>r\<in>set rngs. fst b \<notin> keys (range_ints r) (spec (range_ints rng) db)"
    using Cons.prems(2) keys_less unfolding spec_keys by fastforce
  ultimately have "b \<in> set (db_blocks (fold spec (map range_ints rngs) (spec (range_ints rng) db)))" by (rule Cons.IH)
  then show ?case by simp
qed simp

end

subsection \<open>VACUUM\<close>

text \<open>The world is the rest of the script of faults and the tables vacuumed so far.\<close>

type_synonym 'a vacuum_io = "(bool list \<times> string list, 'a) io"

definition vacuum_table :: "string \<Rightarrow> unit vacuum_io" where
  "vacuum_table name w =
     (if next_fault (fst w) then (Err (Errorf ''pq: vacuum failed'' []), (tl (fst w), snd w))
      else (Ok (), (tl (fst w), snd w @ [name])))"

end
