(* ===== verification/Eth_Cleaner.thy ===== *)
theory Eth_Cleaner
  imports Pg_Clean
begin

text \<open>
  Package \<open>eth\<close>, the cleaner (\<open>cleaner.go\<close>): the rows of a range of block numbers and the IPLD blocks
  they point to are deleted in one transaction, then the tables are vacuumed. The joins of the
  \<open>DELETE ... USING\<close> statements are written as the conditions on the parent rows.
\<close>

subsection \<open>Rows below a header in the range\<close>

definition header_in_range :: "int \<times> int \<Rightarrow> pg_db \<Rightarrow> int \<Rightarrow> bool" where
  "header_in_range r db headerID = list_ex (\<lambda>d. headerID = hm_ID d \<and> between r (hm_BlockNumber d)) (eth_headers db)"

definition state_in_range :: "int \<times> int \<Rightarrow> pg_db \<Rightarrow> int \<Rightarrow> bool" where
  "state_in_range r db stateID = list_ex (\<lambda>c. stateID = sm_ID c \<and> header_in_range r db (sm_HeaderID c)) (eth_states db)"

definition tx_in_range :: "int \<times> int \<Rightarrow> pg_db \<Rightarrow> int \<Rightarrow> bool" where
  "tx_in_range r db txID = list_ex (\<lambda>c. txID = tm_ID c \<and> header_in_range r db (tm_HeaderID c)) (eth_txs db)"

subsection \<open>The statements\<close>

definition storage_keys :: "int \<times> int \<Rightarrow> pg_db \<Rightarrow> string list" where
  "storage_keys r db = map om_MhKey (filter (\<lambda>b. state_in_range r db (om_StateID b)) (eth_storages db))"

definition cleanStorageIPLDs :: "range64 \<Rightarrow> unit pg_txm" where
  "cleanStorageIPLDs = exec_range (\<lambda>r db. del_blocks (\<lambda>k. k \<in> set (storage_keys r db)) db)"

definition cleanStorageMetaData :: "range64 \<Rightarrow> unit pg_txm" where
  "cleanStorageMetaData = exec_range (\<lambda>r db.
     cascade (db\<lparr>eth_storages := filter (\<lambda>a. \<not> state_in_range r db (om_StateID a)) (eth_storages db)\<rparr>))"

definition state_keys :: "int \<times> int \<Rightarrow> pg_db \<Rightarrow> string list" where
  "state_keys r db = map sm_MhKey (filter (\<lambda>b. header_in_range r db (sm_HeaderID b)) (eth_states db))"

definition cleanStateIPLDs :: "range64 \<Rightarrow> unit pg_txm" where
  "cleanStateIPLDs = exec_range (\<lambda>r db. del_blocks (\<lambda>k. k \<in> set (state_keys r db)) db)"

definition cleanStateMetaData :: "range64 \<Rightarrow> unit pg_txm" where
  "cleanStateMetaData = exec_range (\<lambda>r db.
     cascade (db\<lparr>eth_states := filter (\<lambda>a. \<not> header_in_range r db (sm_HeaderID a)) (eth_states db)\<rparr>))"

definition receipt_keys :: "int \<times> int \<Rightarrow> pg_db \<Rightarrow> string list" where
  "receipt_keys r db = map rm_MhKey (filter (\<lambda>b. tx_in_range r db (rm_TxID b)) (eth_rcts db))"

definition cleanReceiptIPLDs :: "range64 \<Rightarrow> unit pg_txm" where
  "cleanReceiptIPLDs = exec_range (\<lambda>r db. del_blocks (\<lambda>k. k \<in> set (receipt_keys r db)) db)"

definition cleanReceiptMetaData :: "range64 \<Rightarrow> unit pg_txm" where
  "cleanReceiptMetaData = exec_range (\<lambda>r db.
     cascade (db\<lparr>eth_rcts := filter (\<lambda>a. \<not> tx_in_range r db (rm_TxID a)) (eth_rcts db)\<rparr>))"

definition tx_keys :: "int \<times> int \<Rightarrow> pg_db \<Rightarrow> string list" where
  "tx_keys r db = map tm_MhKey (filter (\<lambda>b. header_in_range r db (tm_HeaderID b)) (eth_txs db))"

definition cleanTransactionIPLDs :: "range64 \<Rightarrow> unit pg_txm" where
  "cleanTransactionIPLDs = exec_range (\<lambda>r db. del_blocks (\<lambda>k. k \<in> set (tx_keys r db)) db)"

definition cleanTransactionMetaData :: "range64 \<Rightarrow> unit pg_txm" where
  "cleanTransactionMetaData = exec_range (\<lambda>r db.
     cascade (db\<lparr>eth_txs := filter (\<lambda>a. \<not> header_in_range r db (tm_HeaderID a)) (eth_txs db)\<rparr>))"

definition uncle_keys :: "int \<times> int \<Rightarrow> pg_db \<Rightarrow> string list" where
  "uncle_keys r db = map um_MhKey (filter (\<lambda>b. header_in_range r db (um_HeaderID b)) (eth_uncles db))"

definition cleanUncleIPLDs :: "range64 \<Rightarrow> unit pg_txm" where
  "cleanUncleIPLDs = exec_range (\<lambda>r db. del_blocks (\<lambda>k. k \<in> set (uncle_keys r db)) db)"

definition cleanUncleMetaData :: "range64 \<Rightarrow> unit pg_txm" where
  "cleanUncleMetaData = exec_range (\<lambda>r db.
     cascade (db\<lparr>eth_uncles := filter (\<lambda>a. \<not> header_in_range r db (um_HeaderID a)) (eth_uncles db)\<rparr>))"

definition header_keys :: "int \<times> int \<Rightarrow> pg_db \<Rightarrow> string list" where
  "header_keys r db = map hm_MhKey (filter (\<lambda>b. between r (hm_BlockNumber b)) (eth_headers db))"

definition cleanHeaderIPLDs :: "range64 \<Rightarrow> unit pg_txm" where
  "cleanHeaderIPLDs = exec_range (\<lambda>r db. del_blocks (\<lambda>k. k \<in> set (header_keys r db)) db)"

definition cleanHeaderMetaData :: "range64 \<Rightarrow> unit pg_txm" where
  "cleanHeaderMetaData = exec_range (\<lambda>r db.
     cascade (db\<lparr>eth_headers := filter (\<lambda>a. \<not> between r (hm_BlockNumber a)) (eth_headers db)\<rparr>))"

subsection \<open>Cleaning\<close>

definition cleanFull :: "range64 \<Rightarrow> unit pg_txm" where
  "cleanFull rng =
     tx_bind (cleanStorageIPLDs rng) (\<lambda>_.
     tx_bind (cleanStateIPLDs rng) (\<lambda>_.
     tx_bind (cleanReceiptIPLDs rng) (\<lambda>_.
     tx_bind (cleanTransactionIPLDs rng) (\<lambda>_.
     tx_bind (cleanUncleIPLDs rng) (\<lambda>_.
     tx_bind (cleanHeaderIPLDs rng) (\<lambda>_.
     cleanHeaderMetaData rng))))))"

definition clean :: "range64 \<Rightarrow> DataType \<Rightarrow> unit pg_txm" where
  "clean rng t =
     (if t = Full \<or> t = Headers then cleanFull rng
      else if t = Uncles then tx_bind (cleanUncleIPLDs rng) (\<lambda>_. cleanUncleMetaData rng)
      else if t = Transactions then
        tx_bind (cleanReceiptIPLDs rng) (\<lambda>_.
        tx_bind (cleanTransactionIPLDs rng) (\<lambda>_. cleanTransactionMetaData rng))
      else if t = Receipts then tx_bind (cleanReceiptIPLDs rng) (\<lambda>_. cleanReceiptMetaData rng)
      else if t = State then
        tx_bind (cleanStorageIPLDs rng) (\<lambda>_.
        tx_bind (cleanStateIPLDs rng) (\<lambda>_. cleanStateMetaData rng))
      else if t = Storage then tx_bind (cleanStorageIPLDs rng) (\<lambda>_. cleanStorageMetaData rng)
      else tx_lift (Err (Errorf ''eth cleaner unrecognized type: %s'' [DataType_String t])))"

definition vacuumHeaders :: "unit vacuum_io" where "vacuumHeaders = vacuum_table ''eth.header_cids''"
definition vacuumUncles :: "unit vacuum_io" where "vacuumUncles = vacuum_table ''eth.uncle_cids''"
definition vacuumTxs :: "unit vacuum_io" where "vacuumTxs = vacuum_table ''eth.transaction_cids''"
definition vacuumRcts :: "unit vacuum_io" where "vacuumRcts = vacuum_table ''eth.receipt_cids''"
definition vacuumState :: "unit vacuum_io" where "vacuumState = vacuum_table ''eth.state_cids''"
definition vacuumAccounts :: "unit vacuum_io" where "vacuumAccounts = vacuum_table ''eth.state_accounts''"
definition vacuumStorage :: "unit vacuum_io" where "vacuumStorage = vacuum_table ''eth.storage_cids''"
definition vacuumIPLDs :: "unit vacuum_io" where "vacuumIPLDs = vacuum_table ''public.blocks''"

definition vacuumFull :: "unit vacuum_io" where
  "vacuumFull =
     io_bind vacuumHeaders (\<lambda>_. io_bind vacuumUncles (\<lambda>_. io_bind vacuumTxs (\<lambda>_. io_bind vacuumRcts (\<lambda>_.
     io_bind vacuumState (\<lambda>_. io_bind vacuumAccounts (\<lambda>_. vacuumStorage))))))"

definition vacuumAnalyze :: "DataType \<Rightarrow> unit vacuum_io" where
  "vacuumAnalyze t =
     (if t = Full \<or> t = Headers then vacuumFull
      else if t = Uncles then io_bind vacuumUncles (\<lambda>_. vacuumIPLDs)
      else if t = Transactions then io_bind vacuumTxs (\<lambda>_. io_bind vacuumRcts (\<lambda>_. vacuumIPLDs))
      else if t = Receipts then io_bind vacuumRcts (\<lambda>_. vacuumIPLDs)
      else if t = State then
        io_bind vacuumState (\<lambda>_. io_bind vacuumAccounts (\<lambda>_. io_bind vacuumStorage (\<lambda>_. vacuumIPLDs)))
      else if t = Storage then io_bind vacuumStorage (\<lambda>_. vacuumIPLDs)
      else io_lift (Err (Errorf ''eth cleaner unrecognized type: %s'' [DataType_String t])))"

text \<open>The last component of the result lists the tables that were vacuumed.\<close>

definition Clean ::
    "bool list \<Rightarrow> range64 list \<Rightarrow> DataType \<Rightarrow> pg_seq \<Rightarrow> pg_db \<Rightarrow> unit outcome \<times> pg_db \<times> pg_seq \<times> string list" where
  "Clean faults rngs t sq db =
     (case run_commit deferred_fk faults (tx_for (\<lambda>_ rng. clean rng t) 0 rngs) sq db of
        (Ok _, db', sq', fs) \<Rightarrow> (case vacuumAnalyze t (fs, []) of (r, w) \<Rightarrow> (r, db', sq', snd w))
      | (r, db', sq', fs) \<Rightarrow> (r, db', sq', []))"

definition reset_range :: "int \<times> int \<Rightarrow> pg_db \<Rightarrow> pg_db" where
  "reset_range r db = db\<lparr>eth_headers :=
     map (\<lambda>h. if between r (hm_BlockNumber h) then h\<lparr>hm_TimesValidated := 0\<rparr> else h) (eth_headers db)\<rparr>"

definition ResetValidation ::
    "bool list \<Rightarrow> range64 list \<Rightarrow> pg_seq \<Rightarrow> pg_db \<Rightarrow> unit outcome \<times> pg_db \<times> pg_seq" where
  "ResetValidation faults rngs sq db =
     (case run_commit deferred_fk faults (tx_for (\<lambda>_ rng. exec_range reset_range rng) 0 rngs) sq db of
        (r, db', sq', fs) \<Rightarrow> (r, db', sq'))"

subsection \<open>What cleaning a range is meant to do\<close>

text \<open>
  The specification: one deletion of all the blocks that the rows of the kind point to, with its
  cascades.
\<close>

definition range_keys :: "DataType \<Rightarrow> int \<times> int \<Rightarrow> pg_db \<Rightarrow> string set" where
  "range_keys t r db =
     (if t = Full \<or> t = Headers then set (storage_keys r db) \<union> set (state_keys r db) \<union> set (receipt_keys r db)
        \<union> set (tx_keys r db) \<union> set (uncle_keys r db) \<union> set (header_keys r db)
      else if t = Uncles then set (uncle_keys r db)
      else if t = Transactions then set (receipt_keys r db) \<union> set (tx_keys r db)
      else if t = Receipts then set (receipt_keys r db)
      else if t = State then set (storage_keys r db) \<union> set (state_keys r db)
      else set (storage_keys r db))"

definition clean_spec :: "DataType \<Rightarrow> int \<times> int \<Rightarrow> pg_db \<Rightarrow> pg_db" where
  "clean_spec t r db = del_blocks (\<lambda>k. k \<in> range_keys t r db) db"

text \<open>
  No header of the range shares its block with a trie node, a receipt or a transaction of the range,
  and no transaction with a trie node: the encodings differ and the key is their hash.
\<close>

definition kinds_apart :: "int \<times> int \<Rightarrow> pg_db \<Rightarrow> bool" where
  "kinds_apart r db \<longleftrightarrow>
     set (header_keys r db) \<inter> (set (storage_keys r db) \<union> set (state_keys r db) \<union> set (receipt_keys r db) \<union> set (tx_keys r db)) = {}
   \<and> set (tx_keys r db) \<inter> (set (storage_keys r db) \<union> set (state_keys r db)) = {}"

subsection \<open>The keys of the range after a deletion\<close>

lemma del_tables:
  "eth_headers (del_blocks g db) = filter (\<lambda>x. \<not> g (hm_MhKey x) \<and> stored db (hm_MhKey x)) (eth_headers db)"
  "eth_uncles (del_blocks g db) = filter (\<lambda>x. (\<not> g (um_MhKey x) \<and> stored db (um_MhKey x))
     \<and> um_HeaderID x \<in> hm_ID ` set (eth_headers (del_blocks g db))) (eth_uncles db)"
  "eth_txs (del_blocks g db) = filter (\<lambda>x. (\<not> g (tm_MhKey x) \<and> stored db (tm_MhKey x))
     \<and> tm_HeaderID x \<in> hm_ID ` set (eth_headers (del_blocks g db))) (eth_txs db)"
  "eth_rcts (del_blocks g db) = filter (\<lambda>x. (\<not> g (rm_MhKey x) \<and> stored db (rm_MhKey x))
     \<and> rm_TxID x \<in> tm_ID ` set (eth_txs (del_blocks g db))) (eth_rcts db)"
  "eth_states (del_blocks g db) = filter (\<lambda>x. (\<not> g (sm_MhKey x) \<and> stored db (sm_MhKey x))
     \<and> sm_HeaderID x \<in> hm_ID ` set (eth_headers (del_blocks g db))) (eth_states db)"
  "eth_storages (del_blocks g db) = filter (\<lambda>x. (\<not> g (om_MhKey x) \<and> stored db (om_MhKey x))
     \<and> om_StateID x \<in> sm_ID ` set (eth_states (del_blocks g db))) (eth_storages db)"
  unfolding del_blocks_def
  by (subst cascade_tables, simp)+

definition header_key_safe :: "(string \<Rightarrow> bool) \<Rightarrow> int \<times> int \<Rightarrow> pg_db \<Rightarrow> bool" where
  "header_key_safe g r db \<longleftrightarrow> (\<forall>k\<in>set (header_keys r db). \<not> g k)"

definition tx_key_safe :: "(string \<Rightarrow> bool) \<Rightarrow> int \<times> int \<Rightarrow> pg_db \<Rightarrow> bool" where
  "tx_key_safe g r db \<longleftrightarrow> (\<forall>k\<in>set (tx_keys r db). \<not> g k)"

lemma blocks_fk_stored:
  assumes "blocks_fk db"
  shows "x \<in> set (eth_headers db) \<Longrightarrow> stored db (hm_MhKey x)" "u \<in> set (eth_uncles db) \<Longrightarrow> stored db (um_MhKey u)"
    "t \<in> set (eth_txs db) \<Longrightarrow> stored db (tm_MhKey t)" "c \<in> set (eth_rcts db) \<Longrightarrow> stored db (rm_MhKey c)"
    "s \<in> set (eth_states db) \<Longrightarrow> stored db (sm_MhKey s)" "p \<in> set (eth_storages db) \<Longrightarrow> stored db (om_MhKey p)"
  using assms by (auto simp: blocks_fk_def list_all_iff)

lemma header_in_range_less: "header_in_range r (del_blocks g db) i \<Longrightarrow> header_in_range r db i"
  by (auto simp: header_in_range_def list_ex_iff del_tables)

lemma header_in_range_kept:
  assumes "blocks_fk db" "header_key_safe g r db" "header_in_range r db i"
  shows "header_in_range r (del_blocks g db) i" "i \<in> hm_ID ` set (eth_headers (del_blocks g db))"
proof -
  obtain d where d: "d \<in> set (eth_headers db)" "i = hm_ID d" "between r (hm_BlockNumber d)"
    using assms(3) by (auto simp: header_in_range_def list_ex_iff)
  moreover have "\<not> g (hm_MhKey d)" using assms(2) d by (auto simp: header_key_safe_def header_keys_def)
  ultimately have "d \<in> set (eth_headers (del_blocks g db))"
    using blocks_fk_stored(1) [OF assms(1)] by (simp add: del_tables)
  with d show "header_in_range r (del_blocks g db) i" "i \<in> hm_ID ` set (eth_headers (del_blocks g db))"
    by (auto simp: header_in_range_def list_ex_iff)
qed

lemma tx_in_range_less: "tx_in_range r (del_blocks g db) i \<Longrightarrow> tx_in_range r db i"
  by (auto simp: tx_in_range_def list_ex_iff del_tables(3) dest: header_in_range_less)

lemma state_in_range_less: "state_in_range r (del_blocks g db) i \<Longrightarrow> state_in_range r db i"
  by (auto simp: state_in_range_def list_ex_iff del_tables(5) dest: header_in_range_less)

lemma tx_in_range_kept:
  assumes "blocks_fk db" "header_key_safe g r db" "tx_key_safe g r db" "tx_in_range r db i"
  shows "tx_in_range r (del_blocks g db) i" "i \<in> tm_ID ` set (eth_txs (del_blocks g db))"
proof -
  obtain c where c: "c \<in> set (eth_txs db)" "i = tm_ID c" "header_in_range r db (tm_HeaderID c)"
    using assms(4) by (auto simp: tx_in_range_def list_ex_iff)
  moreover have "\<not> g (tm_MhKey c)" using assms(3) c by (auto simp: tx_key_safe_def tx_keys_def)
  ultimately have "c \<in> set (eth_txs (del_blocks g db))"
    using blocks_fk_stored(3) [OF assms(1)] header_in_range_kept(2) [OF assms(1,2) c(3)] by (simp add: del_tables(3))
  with c header_in_range_kept(1) [OF assms(1,2) c(3)]
  show "tx_in_range r (del_blocks g db) i" "i \<in> tm_ID ` set (eth_txs (del_blocks g db))"
    by (auto simp: tx_in_range_def list_ex_iff)
qed

lemma keys_after_del:
  assumes "blocks_fk db"
  shows "g k \<or> k \<in> set (header_keys r (del_blocks g db)) \<longleftrightarrow> g k \<or> k \<in> set (header_keys r db)"
    and "header_key_safe g r db \<Longrightarrow> g k \<or> k \<in> set (uncle_keys r (del_blocks g db)) \<longleftrightarrow> g k \<or> k \<in> set (uncle_keys r db)"
    and "header_key_safe g r db \<Longrightarrow> g k \<or> k \<in> set (tx_keys r (del_blocks g db)) \<longleftrightarrow> g k \<or> k \<in> set (tx_keys r db)"
    and "header_key_safe g r db \<Longrightarrow> g k \<or> k \<in> set (state_keys r (del_blocks g db)) \<longleftrightarrow> g k \<or> k \<in> set (state_keys r db)"
    and "header_key_safe g r db \<Longrightarrow> tx_key_safe g r db \<Longrightarrow>
      g k \<or> k \<in> set (receipt_keys r (del_blocks g db)) \<longleftrightarrow> g k \<or> k \<in> set (receipt_keys r db)"
  using blocks_fk_stored [OF assms] header_in_range_kept [OF assms, of g r] tx_in_range_kept [OF assms, of g r]
  by (auto simp: header_keys_def uncle_keys_def tx_keys_def state_keys_def receipt_keys_def del_tables
    dest: header_in_range_less tx_in_range_less)

subsection \<open>One range\<close>

text \<open>Once the blocks are gone the statement on the rows finds none.\<close>

lemma rows_gone:
  "set (header_keys r db) \<subseteq> Collect g \<Longrightarrow> x \<in> set (eth_headers (del_blocks g db)) \<Longrightarrow> \<not> between r (hm_BlockNumber x)"
  "set (uncle_keys r db) \<subseteq> Collect g \<Longrightarrow> u \<in> set (eth_uncles (del_blocks g db)) \<Longrightarrow>
    \<not> header_in_range r (del_blocks g db) (um_HeaderID u)"
  "set (tx_keys r db) \<subseteq> Collect g \<Longrightarrow> t \<in> set (eth_txs (del_blocks g db)) \<Longrightarrow>
    \<not> header_in_range r (del_blocks g db) (tm_HeaderID t)"
  "set (state_keys r db) \<subseteq> Collect g \<Longrightarrow> s \<in> set (eth_states (del_blocks g db)) \<Longrightarrow>
    \<not> header_in_range r (del_blocks g db) (sm_HeaderID s)"
  "set (receipt_keys r db) \<subseteq> Collect g \<Longrightarrow> c \<in> set (eth_rcts (del_blocks g db)) \<Longrightarrow>
    \<not> tx_in_range r (del_blocks g db) (rm_TxID c)"
  "set (storage_keys r db) \<subseteq> Collect g \<Longrightarrow> p \<in> set (eth_storages (del_blocks g db)) \<Longrightarrow>
    \<not> state_in_range r (del_blocks g db) (om_StateID p)"
  by (auto simp: header_keys_def uncle_keys_def tx_keys_def state_keys_def receipt_keys_def storage_keys_def
      del_tables(1) del_tables(2) [of g] del_tables(3) [of g] del_tables(4) [of g] del_tables(5) [of g] del_tables(6) [of g]
    dest: header_in_range_less tx_in_range_less state_in_range_less)

lemma delete_rows_none:
  "set (header_keys r db) \<subseteq> Collect g \<Longrightarrow> cascade ((del_blocks g db)\<lparr>eth_headers :=
     filter (\<lambda>a. \<not> between r (hm_BlockNumber a)) (eth_headers (del_blocks g db))\<rparr>) = del_blocks g db"
  "set (uncle_keys r db) \<subseteq> Collect g \<Longrightarrow> cascade ((del_blocks g db)\<lparr>eth_uncles :=
     filter (\<lambda>a. \<not> header_in_range r (del_blocks g db) (um_HeaderID a)) (eth_uncles (del_blocks g db))\<rparr>) = del_blocks g db"
  "set (tx_keys r db) \<subseteq> Collect g \<Longrightarrow> cascade ((del_blocks g db)\<lparr>eth_txs :=
     filter (\<lambda>a. \<not> header_in_range r (del_blocks g db) (tm_HeaderID a)) (eth_txs (del_blocks g db))\<rparr>) = del_blocks g db"
  "set (state_keys r db) \<subseteq> Collect g \<Longrightarrow> cascade ((del_blocks g db)\<lparr>eth_states :=
     filter (\<lambda>a. \<not> header_in_range r (del_blocks g db) (sm_HeaderID a)) (eth_states (del_blocks g db))\<rparr>) = del_blocks g db"
  "set (receipt_keys r db) \<subseteq> Collect g \<Longrightarrow> cascade ((del_blocks g db)\<lparr>eth_rcts :=
     filter (\<lambda>a. \<not> tx_in_range r (del_blocks g db) (rm_TxID a)) (eth_rcts (del_blocks g db))\<rparr>) = del_blocks g db"
  "set (storage_keys r db) \<subseteq> Collect g \<Longrightarrow> cascade ((del_blocks g db)\<lparr>eth_storages :=
     filter (\<lambda>a. \<not> state_in_range r (del_blocks g db) (om_StateID a)) (eth_storages (del_blocks g db))\<rparr>) = del_blocks g db"
  by (simp_all add: filter_True rows_gone cascade_del)

text \<open>The cleaning of a range as a program on the tables, statement by statement.\<close>

lemmas clean_statements = cleanStorageIPLDs_def cleanStorageMetaData_def cleanStateIPLDs_def cleanStateMetaData_def
  cleanReceiptIPLDs_def cleanReceiptMetaData_def cleanTransactionIPLDs_def cleanTransactionMetaData_def
  cleanUncleIPLDs_def cleanUncleMetaData_def cleanHeaderIPLDs_def cleanHeaderMetaData_def

lemma apart_safe:
  assumes "kinds_apart r db" "\<And>k. g k \<Longrightarrow> k \<in> set (storage_keys r db) \<union> set (state_keys r db)
    \<union> set (receipt_keys r db) \<union> set (tx_keys r db)"
  shows "header_key_safe g r db"
  using assms unfolding kinds_apart_def header_key_safe_def by blast

lemma apart_tx_safe:
  assumes "kinds_apart r db" "\<And>k. g k \<Longrightarrow> k \<in> set (storage_keys r db) \<union> set (state_keys r db)"
  shows "tx_key_safe g r db"
  using assms unfolding kinds_apart_def tx_key_safe_def by blast

lemma cleanFull_spec:
  assumes "blocks_fk db" "kinds_apart r db"
  shows "tx_maps r cleanFull db (clean_spec Full r db)"
proof -
  let ?sto = "\<lambda>k. k \<in> set (storage_keys r db)"
  let ?sta = "\<lambda>k. ?sto k \<or> k \<in> set (state_keys r db)"
  let ?rct = "\<lambda>k. ?sta k \<or> k \<in> set (receipt_keys r db)"
  let ?txs = "\<lambda>k. ?rct k \<or> k \<in> set (tx_keys r db)"
  let ?unc = "\<lambda>k. ?txs k \<or> k \<in> set (uncle_keys r db)"
  let ?hdr = "\<lambda>k. ?unc k \<or> k \<in> set (header_keys r db)"
  note k = keys_after_del [OF assms(1)] and safe = apart_safe [OF assms(2)] apart_tx_safe [OF assms(2)]
  have sta: "del_blocks (\<lambda>k. k \<in> set (state_keys r (del_blocks ?sto db))) (del_blocks ?sto db) = del_blocks ?sta db"
    by (rule del_step, rule k, rule safe) auto
  have rct: "del_blocks (\<lambda>k. k \<in> set (receipt_keys r (del_blocks ?sta db))) (del_blocks ?sta db) = del_blocks ?rct db"
    by (rule del_step, rule k; rule safe; auto)
  have txs: "del_blocks (\<lambda>k. k \<in> set (tx_keys r (del_blocks ?rct db))) (del_blocks ?rct db) = del_blocks ?txs db"
    by (rule del_step, rule k, rule safe) auto
  have unc: "del_blocks (\<lambda>k. k \<in> set (uncle_keys r (del_blocks ?txs db))) (del_blocks ?txs db) = del_blocks ?unc db"
    by (rule del_step, rule k, rule safe) auto
  have hdr: "del_blocks (\<lambda>k. k \<in> set (header_keys r (del_blocks ?unc db))) (del_blocks ?unc db) = del_blocks ?hdr db"
    by (rule del_step, rule k)
  have meta: "cascade ((del_blocks ?hdr db)\<lparr>eth_headers :=
     filter (\<lambda>a. \<not> between r (hm_BlockNumber a)) (eth_headers (del_blocks ?hdr db))\<rparr>) = del_blocks ?hdr db"
    by (rule delete_rows_none) auto
  have "tx_maps r cleanFull db (del_blocks ?hdr db)"
    unfolding cleanFull_def clean_statements
    by (rule maps_then, rule maps_exec [OF refl])+
       (rule maps_exec, simp only: sta rct txs unc hdr meta)
  then show ?thesis by (simp add: clean_spec_def range_keys_def disj_assoc)
qed

lemma clean_maps:
  assumes "blocks_fk db" "kinds_apart r db"
  shows "tx_maps r (\<lambda>rng. clean rng t) db (clean_spec t r db)"
proof -
  let ?sto = "\<lambda>k. k \<in> set (storage_keys r db)"
  let ?sta = "\<lambda>k. ?sto k \<or> k \<in> set (state_keys r db)"
  let ?rct = "\<lambda>k. k \<in> set (receipt_keys r db)"
  let ?txs = "\<lambda>k. ?rct k \<or> k \<in> set (tx_keys r db)"
  let ?unc = "\<lambda>k. k \<in> set (uncle_keys r db)"
  note k = keys_after_del [OF assms(1)] and safe = apart_safe [OF assms(2)]
  have sta: "del_blocks (\<lambda>k. k \<in> set (state_keys r (del_blocks ?sto db))) (del_blocks ?sto db) = del_blocks ?sta db"
    by (rule del_step, rule k, rule safe) auto
  have txs: "del_blocks (\<lambda>k. k \<in> set (tx_keys r (del_blocks ?rct db))) (del_blocks ?rct db) = del_blocks ?txs db"
    by (rule del_step, rule k, rule safe) auto
  note none = delete_rows_none(2) [of r db ?unc] delete_rows_none(3) [of r db ?txs] delete_rows_none(4) [of r db ?sta]
    delete_rows_none(5) [of r db ?rct] delete_rows_none(6) [of r db ?sto]
  have sets: "set (uncle_keys r db) \<subseteq> Collect ?unc" "set (tx_keys r db) \<subseteq> Collect ?txs"
    "set (state_keys r db) \<subseteq> Collect ?sta" "set (receipt_keys r db) \<subseteq> Collect ?rct"
    "set (storage_keys r db) \<subseteq> Collect ?sto" by auto
  note none = none(1) [OF sets(1)] none(2) [OF sets(2)] none(3) [OF sets(3)] none(4) [OF sets(4)] none(5) [OF sets(5)]
  have unc: "tx_maps r (\<lambda>rng. tx_bind (cleanUncleIPLDs rng) (\<lambda>_. cleanUncleMetaData rng)) db (del_blocks ?unc db)"
    unfolding clean_statements by (rule maps_then, rule maps_exec [OF refl]) (rule maps_exec, simp only: none)
  have tx: "tx_maps r (\<lambda>rng. tx_bind (cleanReceiptIPLDs rng) (\<lambda>_. tx_bind (cleanTransactionIPLDs rng)
      (\<lambda>_. cleanTransactionMetaData rng))) db (del_blocks ?txs db)"
    unfolding clean_statements
    by (rule maps_then, rule maps_exec [OF refl])+ (rule maps_exec, simp only: txs none)
  have rct: "tx_maps r (\<lambda>rng. tx_bind (cleanReceiptIPLDs rng) (\<lambda>_. cleanReceiptMetaData rng)) db (del_blocks ?rct db)"
    unfolding clean_statements by (rule maps_then, rule maps_exec [OF refl]) (rule maps_exec, simp only: none)
  have state: "tx_maps r (\<lambda>rng. tx_bind (cleanStorageIPLDs rng) (\<lambda>_. tx_bind (cleanStateIPLDs rng)
      (\<lambda>_. cleanStateMetaData rng))) db (del_blocks ?sta db)"
    unfolding clean_statements
    by (rule maps_then, rule maps_exec [OF refl])+ (rule maps_exec, simp only: sta none)
  have storage: "tx_maps r (\<lambda>rng. tx_bind (cleanStorageIPLDs rng) (\<lambda>_. cleanStorageMetaData rng)) db (del_blocks ?sto db)"
    unfolding clean_statements by (rule maps_then, rule maps_exec [OF refl]) (rule maps_exec, simp only: none)
  note all = unc tx rct state storage cleanFull_spec [OF assms]
  show ?thesis
  proof (cases t)
    case UnknownDataType
    then show ?thesis by (simp add: tx_maps_def clean_def tx_lift_def)
  qed (use all in \<open>simp_all add: clean_def [abs_def] clean_spec_def range_keys_def\<close>)
qed

subsection \<open>Several ranges\<close>

lemma keys_less:
  "set (header_keys r (del_blocks g db)) \<subseteq> set (header_keys r db)"
  "set (uncle_keys r (del_blocks g db)) \<subseteq> set (uncle_keys r db)"
  "set (tx_keys r (del_blocks g db)) \<subseteq> set (tx_keys r db)"
  "set (state_keys r (del_blocks g db)) \<subseteq> set (state_keys r db)"
  "set (receipt_keys r (del_blocks g db)) \<subseteq> set (receipt_keys r db)"
  "set (storage_keys r (del_blocks g db)) \<subseteq> set (storage_keys r db)"
  by (auto simp: header_keys_def uncle_keys_def tx_keys_def state_keys_def receipt_keys_def storage_keys_def
      del_tables(1) del_tables(2) [of g] del_tables(3) [of g] del_tables(4) [of g] del_tables(5) [of g] del_tables(6) [of g]
    dest: header_in_range_less tx_in_range_less state_in_range_less)

lemma kinds_apart_del: "kinds_apart r db \<Longrightarrow> kinds_apart r (del_blocks g db)"
  using keys_less [of r g db] unfolding kinds_apart_def by blast

lemma range_keys_less: "range_keys t r (del_blocks g db) \<subseteq> range_keys t r db"
  using keys_less [of r g db] unfolding range_keys_def by (auto split: if_splits)

lemma clean_args: "clean rng t tx = (Ok u, tx') \<Longrightarrow> range_args rng = Ok (range_ints rng)"
  by (cases t) (auto simp: clean_def cleanFull_def clean_statements tx_lift_def dest: exec_then_args)

definition clean_all :: "DataType \<Rightarrow> range64 list \<Rightarrow> pg_db \<Rightarrow> pg_db" where
  "clean_all t rngs = fold (clean_spec t) (map range_ints rngs)"

definition ranges_apart :: "range64 list \<Rightarrow> pg_db \<Rightarrow> bool" where
  "ranges_apart rngs db \<longleftrightarrow> (\<forall>rng\<in>set rngs. kinds_apart (range_ints rng) db)"

interpretation eth_cleaner: block_cleaner "\<lambda>rng. clean rng t" "clean_spec t" kinds_apart "range_keys t" for t
proof
  show "deferred_fk (clean_spec t r db)" for r db by (simp add: clean_spec_def del_fk)
  show "kinds_apart r db \<Longrightarrow> kinds_apart r (clean_spec t r' db)" for r r' db unfolding clean_spec_def by (rule kinds_apart_del)
qed (rule clean_maps clean_args clean_spec_def range_keys_less, assumption?, assumption?)+

lemma Clean_cases:
  assumes "Clean faults rngs t sq db = (r, db', sq', vac)" "deferred_fk db" "ranges_apart rngs db"
  obtains (failed) "r \<noteq> Ok ()" "db' = db" "vac = []" | (cleaned) "db' = clean_all t rngs db"
proof -
  obtain r0 db0 sq0 fs where run: "run_commit deferred_fk faults (tx_for (\<lambda>_ rng. clean rng t) 0 rngs) sq db = (r0, db0, sq0, fs)"
    by (metis surj_pair)
  from run assms(2) assms(3) [unfolded ranges_apart_def] show ?thesis
  proof (cases rule: eth_cleaner.ranges_cases)
    case failed
    then show ?thesis using assms(1) run that(1) by (auto simp: Clean_def split: outcome.splits)
  next
    case cleaned
    then show ?thesis using assms(1) run that(2) by (auto simp: Clean_def clean_all_def split: prod.splits)
  qed
qed

text \<open>Effects of the specification, for any number of ranges.\<close>

lemmas clean_all_fk = eth_cleaner.all_fk [folded clean_all_def]
lemmas clean_all_ok = eth_cleaner.all_ok [folded clean_all_def]

lemma clean_all_Cons: "clean_all t (rng # rngs) db = clean_all t rngs (clean_spec t (range_ints rng) db)"
  by (simp add: clean_all_def)

lemma clean_all_Nil: "clean_all t [] db = db"
  by (simp add: clean_all_def)

lemma spec_keys_less: "k \<notin> range_keys t r db \<Longrightarrow> k \<notin> range_keys t r (clean_spec t' r' db)"
  unfolding clean_spec_def using range_keys_less by blast

lemmas clean_all_blocks_less = eth_cleaner.blocks_less [folded clean_all_def]
lemmas clean_all_blocks_kept = eth_cleaner.blocks_kept [folded clean_all_def]

lemma clean_all_headers:
  "set (eth_headers (clean_all t rngs db)) \<subseteq> set (eth_headers db)"
proof (induction rngs arbitrary: db)
  case (Cons rng rngs)
  have "set (eth_headers (clean_spec t (range_ints rng) db)) \<subseteq> set (eth_headers db)"
    by (auto simp: clean_spec_def del_tables)
  with Cons [of "clean_spec t (range_ints rng) db"] show ?case unfolding clean_all_Cons by blast
qed (simp add: clean_all_Nil)

lemma clean_all_no_header:
  assumes "t = Full \<or> t = Headers" "h \<in> set (eth_headers (clean_all t rngs db))" "rng \<in> set rngs"
  shows "\<not> between (range_ints rng) (hm_BlockNumber h)"
  using assms(2,3)
proof (induction rngs arbitrary: db)
  case (Cons rng0 rngs)
  let ?db1 = "clean_spec t (range_ints rng0) db"
  have step: "h \<in> set (eth_headers (clean_all t rngs ?db1))" using Cons.prems(1) unfolding clean_all_Cons .
  then have "h \<in> set (eth_headers ?db1)" using clean_all_headers by blast
  then have "\<not> between (range_ints rng0) (hm_BlockNumber h)"
    unfolding clean_spec_def by (rule rows_gone(1) [rotated]) (use assms(1) in \<open>auto simp: range_keys_def\<close>)
  with Cons.IH [OF step] Cons.prems(2) show ?case by auto
qed simp

lemma clean_all_header_kept:
  "h \<in> set (eth_headers db) \<Longrightarrow> blocks_fk db \<Longrightarrow> \<forall>rng\<in>set rngs. hm_MhKey h \<notin> range_keys t (range_ints rng) db \<Longrightarrow>
   h \<in> set (eth_headers (clean_all t rngs db))"
proof (induction rngs arbitrary: db)
  case (Cons rng rngs)
  let ?db1 = "clean_spec t (range_ints rng) db"
  have "h \<in> set (eth_headers ?db1)"
    using Cons.prems blocks_fk_stored(1) unfolding clean_spec_def by (auto simp: del_tables)
  moreover have "blocks_fk ?db1" unfolding clean_spec_def using del_fk by (simp add: deferred_fk_def)
  moreover have "\<forall>r\<in>set rngs. hm_MhKey h \<notin> range_keys t (range_ints r) ?db1"
    using Cons.prems(3) spec_keys_less by simp
  ultimately show ?case unfolding clean_all_Cons by (rule Cons.IH)
qed (simp add: clean_all_Nil)

text \<open>A small database: block 5 and, on top of it, block 6 with a transaction, its receipt and an uncle.\<close>

definition clean_header :: "int \<Rightarrow> int \<Rightarrow> string \<Rightarrow> HeaderModel" where
  "clean_header i n key = \<lparr>hm_ID = i, hm_BlockNumber = big_String n, hm_BlockHash = key, hm_ParentHash = '''', hm_CID = key,
     hm_MhKey = key, hm_TotalDifficulty = big_String 1, hm_NodeID = 1, hm_Reward = big_String 0, hm_StateRoot = '''',
     hm_UncleRoot = '''', hm_TxRoot = '''', hm_RctRoot = '''', hm_Bloom = [], hm_Timestamp = 0, hm_TimesValidated = 1\<rparr>"

definition clean_db :: "string \<Rightarrow> pg_db" where
  "clean_db ukey = empty_db\<lparr>
     db_blocks := [(''h5'', []), (''h6'', []), (''t'', []), (''r'', []), (''u'', [])],
     eth_headers := [clean_header 1 5 ''h5'', clean_header 2 6 ''h6''],
     eth_uncles := [\<lparr>um_ID = 1, um_HeaderID = 2, um_BlockHash = ukey, um_ParentHash = '''', um_CID = ukey, um_MhKey = ukey,
       um_Reward = big_String 0\<rparr>],
     eth_txs := [\<lparr>tm_ID = 1, tm_HeaderID = 2, tm_Index = 0, tm_TxHash = ''t'', tm_CID = ''t'', tm_MhKey = ''t'',
       tm_Dst = '''', tm_Src = ''''\<rparr>],
     eth_rcts := [\<lparr>rm_ID = 1, rm_TxID = 1, rm_CID = ''r'', rm_MhKey = ''r'', rm_Contract = '''', rm_ContractHash = '''',
       rm_LogContracts = [], rm_Topic0s = [], rm_Topic1s = [], rm_Topic2s = [], rm_Topic3s = []\<rparr>]\<rparr>"

definition clean_seq :: pg_seq where
  "clean_seq = empty_seq\<lparr>sq_eth_headers := 3, sq_eth_uncles := 2, sq_eth_txs := 2, sq_eth_rcts := 2\<rparr>"

lemma clean_db_fk: "deferred_fk (clean_db ''u'')"
  by (simp add: clean_db_def clean_header_def empty_db_def deferred_fk_def blocks_fk_def rows_fk_def stored_def)

lemma clean_db_ok: "db_ok clean_seq (clean_db ''u'')"
  by (simp add: clean_db_def clean_header_def empty_db_def clean_seq_def empty_seq_def db_ok_defs table_ok_def header_key_def)

lemmas clean_key_defs = header_keys_def uncle_keys_def tx_keys_def state_keys_def receipt_keys_def storage_keys_def
  header_in_range_def tx_in_range_def state_in_range_def between_def range_ints_def

lemma clean_db_apart: "ranges_apart [(6, 9)] (clean_db ''u'')"
  by (simp add: clean_db_def clean_header_def empty_db_def ranges_apart_def kinds_apart_def clean_key_defs)

lemma clean_succeeds [succeeds_intros]: "t \<noteq> UnknownDataType \<Longrightarrow> range_args rng = Ok r \<Longrightarrow> succeeds (clean rng t)"
  by (cases t) (auto simp: clean_def cleanFull_def clean_statements intro!: succeeds_intros)

lemmas vacuum_defs = vacuumFull_def vacuumHeaders_def vacuumUncles_def vacuumTxs_def vacuumRcts_def vacuumState_def
  vacuumAccounts_def vacuumStorage_def vacuumIPLDs_def io_bind_def vacuum_table_def next_fault_def

lemma vacuum_succeeds:
  assumes "t \<noteq> UnknownDataType"
  obtains w where "vacuumAnalyze t ([], []) = (Ok (), w)"
  using assms by (cases t) (auto simp: vacuumAnalyze_def vacuum_defs)

lemma Clean_succeeds:
  assumes "deferred_fk db" "ranges_apart rngs db" "t \<noteq> UnknownDataType"
    and args: "\<forall>rng\<in>set rngs. unat (fst rng) < 2 ^ 63 \<and> unat (snd rng) < 2 ^ 63"
  obtains vac where "Clean [] rngs t sq db = (Ok (), clean_all t rngs db, sq, vac)"
proof -
  have ok: "\<forall>rng\<in>set rngs. range_args rng = Ok (range_ints rng)"
    using args by (simp add: range_args_Ok range_ints_def)
  have run: "run_commit deferred_fk [] (tx_for (\<lambda>_ rng. clean rng t) 0 rngs) sq db = (Ok (), clean_all t rngs db, sq, [])"
    unfolding clean_all_def
    by (rule eth_cleaner.ranges_succeed) (use assms ok in \<open>auto simp: ranges_apart_def intro: succeeds_intros\<close>)
  obtain w where "vacuumAnalyze t ([], []) = (Ok (), w)" by (rule vacuum_succeeds [OF assms(3)])
  with run have "Clean [] rngs t sq db = (Ok (), clean_all t rngs db, sq, snd w)" by (simp add: Clean_def)
  then show ?thesis by (rule that)
qed

text \<open>
  C26. The cleaner meets its specification. On a database that satisfies its foreign keys, and in
  which no header of a range shares its block with a trie node, receipt or transaction of it, \<open>Clean\<close>
  either fails and changes nothing, or deletes for each range in turn exactly the blocks that the
  rows of the kind point to, with the rows that depend on them: its two to seven statements amount
  to one deletion. It does the latter, and returns no error, when the type is known, the bounds fit
  into an \<open>int64\<close> and no statement fails.
\<close>

theorem Clean_meets_spec:
  assumes "deferred_fk db" "ranges_apart rngs db"
  shows "(case Clean faults rngs t sq db of (r, db', sq', vac) \<Rightarrow>
      (r \<noteq> Ok () \<and> db' = db \<and> vac = []) \<or> db' = clean_all t rngs db)
    \<and> (t \<noteq> UnknownDataType \<longrightarrow> (\<forall>rng\<in>set rngs. unat (fst rng) < 2 ^ 63 \<and> unat (snd rng) < 2 ^ 63) \<longrightarrow>
      (\<exists>vac. Clean [] rngs t sq db = (Ok (), clean_all t rngs db, sq, vac)))"
proof (intro conjI impI)
  obtain r db' sq' vac where run: "Clean faults rngs t sq db = (r, db', sq', vac)" by (metis surj_pair)
  from run assms show "case Clean faults rngs t sq db of (r, db', sq', vac) \<Rightarrow>
      (r \<noteq> Ok () \<and> db' = db \<and> vac = []) \<or> db' = clean_all t rngs db"
    by (cases rule: Clean_cases) (simp_all add: run)
  assume "t \<noteq> UnknownDataType" "\<forall>rng\<in>set rngs. unat (fst rng) < 2 ^ 63 \<and> unat (snd rng) < 2 ^ 63"
  then show "\<exists>vac. Clean [] rngs t sq db = (Ok (), clean_all t rngs db, sq, vac)"
    by (rule Clean_succeeds [OF assms]) blast
qed

theorem Clean_meets_spec_witness:
  "\<exists>vac. Clean [] [(6, 9)] Full clean_seq (clean_db ''u'') = (Ok (), clean_all Full [(6, 9)] (clean_db ''u''), clean_seq, vac)"
  by (rule Clean_meets_spec [OF clean_db_fk clean_db_apart, THEN conjunct2, rule_format]) auto

text \<open>
  What a full clean leaves: no header of a range, hence (foreign keys hold) no row below one;
  unique ids and keys; of the store nothing but blocks that were there; and every block, and every
  header, that no row of a range points to.
\<close>

theorem Clean_effect:
  assumes "deferred_fk db" "ranges_apart rngs db" "db_ok sq db" "t = Full \<or> t = Headers"
    and "Clean faults rngs t sq db = (Ok (), db', sq', vac)"
  shows "(\<forall>h\<in>set (eth_headers db'). \<forall>rng\<in>set rngs. \<not> between (range_ints rng) (hm_BlockNumber h))
    \<and> (deferred_fk db' \<and> db_ok sq db') \<and> set (db_blocks db') \<subseteq> set (db_blocks db)
    \<and> (\<forall>b\<in>set (db_blocks db). (\<forall>rng\<in>set rngs. fst b \<notin> range_keys t (range_ints rng) db) \<longrightarrow> b \<in> set (db_blocks db'))
    \<and> (\<forall>h\<in>set (eth_headers db). (\<forall>rng\<in>set rngs. hm_MhKey h \<notin> range_keys t (range_ints rng) db) \<longrightarrow>
      h \<in> set (eth_headers db'))"
proof (intro conjI)
  from assms(5,1,2) have db': "db' = clean_all t rngs db" by (cases rule: Clean_cases) simp_all
  show "\<forall>h\<in>set (eth_headers db'). \<forall>rng\<in>set rngs. \<not> between (range_ints rng) (hm_BlockNumber h)"
    using clean_all_no_header [OF assms(4)] unfolding db' by blast
  show "deferred_fk db'" unfolding db' by (rule clean_all_fk [OF assms(1)])
  show "db_ok sq db'" unfolding db' by (rule clean_all_ok [OF assms(3)])
  show "set (db_blocks db') \<subseteq> set (db_blocks db)" unfolding db' by (rule clean_all_blocks_less)
  show "\<forall>b\<in>set (db_blocks db). (\<forall>rng\<in>set rngs. fst b \<notin> range_keys t (range_ints rng) db) \<longrightarrow> b \<in> set (db_blocks db')"
    unfolding db' using clean_all_blocks_kept by blast
  show "\<forall>h\<in>set (eth_headers db). (\<forall>rng\<in>set rngs. hm_MhKey h \<notin> range_keys t (range_ints rng) db) \<longrightarrow>
      h \<in> set (eth_headers db')"
    unfolding db' using clean_all_header_kept assms(1) by (auto simp: deferred_fk_def)
qed

theorem Clean_effect_witness:
  "\<exists>db' vac. Clean [] [(6, 9)] Full clean_seq (clean_db ''u'') = (Ok (), db', clean_seq, vac)
    \<and> clean_header 1 5 ''h5'' \<in> set (eth_headers db') \<and> clean_header 2 6 ''h6'' \<notin> set (eth_headers db')"
proof -
  obtain vac where run: "Clean [] [(6, 9)] Full clean_seq (clean_db ''u'') = (Ok (), clean_all Full [(6, 9)] (clean_db ''u''), clean_seq, vac)"
    by (rule Clean_succeeds [OF clean_db_fk clean_db_apart, of Full clean_seq]) simp_all
  note eff = Clean_effect [OF clean_db_fk clean_db_apart clean_db_ok _ run, simplified]
  note eff1 = eff [THEN conjunct1] and eff5 = eff [THEN conjunct2, THEN conjunct2, THEN conjunct2, THEN conjunct2, THEN conjunct2]
  have "clean_header 1 5 ''h5'' \<in> set (eth_headers (clean_all Full [(6, 9)] (clean_db ''u'')))"
    by (rule eff5 [rule_format]) (simp_all add: clean_db_def clean_header_def empty_db_def range_keys_def clean_key_defs)
  moreover have "clean_header 2 6 ''h6'' \<notin> set (eth_headers (clean_all Full [(6, 9)] (clean_db ''u'')))"
    using eff1 by (auto simp: clean_header_def between_def range_ints_def)
  ultimately show ?thesis using run by blast
qed

text \<open>
  The deletion reaches beyond the range: an uncle of the range that is also stored as a header
  of its own (a fork that was once indexed) takes that header row with it, whatever its block
  number, and with the header everything below it.
\<close>

theorem Clean_takes_shared_header:
  assumes "deferred_fk db" "ranges_apart [rng] db" "t = Uncles \<or> t = Full \<or> t = Headers"
    and "Clean faults [rng] t sq db = (Ok (), db', sq', vac)"
    and "u \<in> set (eth_uncles db)" "header_in_range (range_ints rng) db (um_HeaderID u)" "hm_MhKey h = um_MhKey u"
  shows "h \<notin> set (eth_headers db')"
proof -
  from assms(4,1,2) have db': "db' = clean_spec t (range_ints rng) db"
    by (cases rule: Clean_cases) (simp_all add: clean_all_def)
  have "hm_MhKey h \<in> range_keys t (range_ints rng) db"
    using assms(3,5,6,7) by (auto simp: range_keys_def uncle_keys_def)
  then show ?thesis unfolding db' clean_spec_def by (simp add: del_tables)
qed

theorem Clean_takes_shared_header_witness:
  "\<exists>db' vac. Clean [] [(6, 9)] Uncles clean_seq (clean_db ''h5'') = (Ok (), db', clean_seq, vac)
    \<and> clean_header 1 5 ''h5'' \<in> set (eth_headers (clean_db ''h5'')) \<and> clean_header 1 5 ''h5'' \<notin> set (eth_headers db')"
proof -
  have fk: "deferred_fk (clean_db ''h5'')"
    by (simp add: clean_db_def clean_header_def empty_db_def deferred_fk_def blocks_fk_def rows_fk_def stored_def)
  have ap: "ranges_apart [(6, 9)] (clean_db ''h5'')"
    by (simp add: clean_db_def clean_header_def empty_db_def ranges_apart_def kinds_apart_def clean_key_defs)
  obtain vac where run: "Clean [] [(6, 9)] Uncles clean_seq (clean_db ''h5'')
      = (Ok (), clean_all Uncles [(6, 9)] (clean_db ''h5''), clean_seq, vac)"
    by (rule Clean_succeeds [OF fk ap, of Uncles clean_seq]) simp_all
  have "clean_header 1 5 ''h5'' \<notin> set (eth_headers (clean_all Uncles [(6, 9)] (clean_db ''h5'')))"
    by (rule Clean_takes_shared_header [OF fk ap _ run, where u = "hd (eth_uncles (clean_db ''h5''))"])
       (simp_all add: clean_db_def clean_header_def empty_db_def clean_key_defs)
  with run show ?thesis by (auto simp: clean_db_def)
qed

text \<open>\<open>ResetValidation\<close> sets the counter of exactly the headers of the ranges, or changes nothing.\<close>

lemma ResetValidation_result:
  assumes "ResetValidation faults rngs sq db = (Ok (), db', sq')"
  shows "db' = db\<lparr>eth_headers := map (\<lambda>h. if \<exists>rng\<in>set rngs. between (range_ints rng) (hm_BlockNumber h)
    then h\<lparr>hm_TimesValidated := 0\<rparr> else h) (eth_headers db)\<rparr>"
proof -
  obtain r fs where run: "run_commit deferred_fk faults (tx_for (\<lambda>_ rng. exec_range reset_range rng) 0 rngs) sq db = (Ok (), db', sq', fs)"
    using assms by (auto simp: ResetValidation_def split: prod.splits)
  then have "db' = fold reset_range (map range_ints rngs) db"
    by (cases rule: run_commit_cases) (auto dest: exec_ranges_fold simp: begin_tx_def)
  also have "\<dots> = db\<lparr>eth_headers := map (\<lambda>h. if \<exists>rng\<in>set rngs. between (range_ints rng) (hm_BlockNumber h)
    then h\<lparr>hm_TimesValidated := 0\<rparr> else h) (eth_headers db)\<rparr>"
    by (induction rngs arbitrary: db) (auto simp: reset_range_def)
  finally show ?thesis .
qed

end
