(* ===== verification/Sql_Query.thy ===== *)
theory Sql_Query
  imports Pg_DB Go_Io
begin

text \<open>
  Reading from the database: \<open>SELECT\<close> statements inside a transaction, and queries on the connection
  itself, one entry of the script of faults each. A \<open>SELECT\<close> without \<open>ORDER BY\<close> returns the rows in the
  order of the table's list; Postgres promises no order, and no theorem relies on it. \<open>ORDER BY\<close> is a
  stable sort. An explicit cast to \<open>VARCHAR(66)[]\<close> cuts the elements, a parameter of type \<open>INTEGER\<close> out of
  range is an error, and a value of a \<open>BIGINT\<close> column read into a \<open>uint64\<close> must not be negative.
\<close>

subsection \<open>Statements\<close>

definition select_stmt :: "(pg_db \<Rightarrow> 'a outcome) \<Rightarrow> 'a pg_stmt" where
  "select_stmt f sq db = outcome_bind (f db) (\<lambda>x. Ok (x, db, sq))"

definition tx_select :: "(pg_db \<Rightarrow> 'a outcome) \<Rightarrow> 'a pg_txm" where
  "tx_select f = sql_exec (select_stmt f)"

fun tx_fold :: "(nat \<Rightarrow> 'x \<Rightarrow> 's \<Rightarrow> ('db, 'sq, 's) txm) \<Rightarrow> nat \<Rightarrow> 'x list \<Rightarrow> 's \<Rightarrow> ('db, 'sq, 's) txm" where
  "tx_fold f i [] s = tx_return s"
| "tx_fold f i (x # xs) s = tx_bind (f i x s) (\<lambda>s'. tx_fold f (i + 1) xs s')"

definition varchar66s :: "string list \<Rightarrow> string list" where
  "varchar66s = map (take 66)"

definition int4s :: "int list \<Rightarrow> int list outcome" where
  "int4s ids = outcome_map pg_int4 ids"

definition scan_uint64 :: "int \<Rightarrow> u64 outcome" where
  "scan_uint64 n = (if 0 \<le> n then Ok (of_int n)
     else Err (Errorf ''sql: Scan error: converting driver.Value type int64 to a uint64: invalid syntax'' []))"

text \<open>The number of a header row; the column is a \<open>BIGINT\<close>, its text that of a number.\<close>

definition number_of :: "string \<Rightarrow> int" where
  "number_of s = (case big_SetString s of Some n \<Rightarrow> n | None \<Rightarrow> 0)"

lemma number_of_String [simp]: "number_of (big_String n) = n"
  by (simp add: number_of_def)

text \<open>\<open>a && b\<close> on arrays: they share an element. A \<open>NULL\<close> array (the nil slice) shares none.\<close>

definition overlaps :: "string list \<Rightarrow> string list \<Rightarrow> bool" where
  "overlaps as bs \<longleftrightarrow> list_ex (\<lambda>a. a \<in> set bs) as"

subsection \<open>Queries on the connection\<close>

definition db_query :: "(pg_db \<Rightarrow> 'a outcome) \<Rightarrow> pg_db \<Rightarrow> (bool list, 'a) io" where
  "db_query f db faults =
     (if next_fault faults then (Err (Errorf ''pq: statement failed'' []), tl faults) else (f db, tl faults))"

subsection \<open>Reads change nothing\<close>

definition reads :: "'a pg_txm \<Rightarrow> bool" where
  "reads m \<longleftrightarrow> (\<forall>tx. tx_db (snd (m tx)) = tx_db tx \<and> tx_seq (snd (m tx)) = tx_seq tx)"

named_theorems reads_intros \<open>computations that only read\<close>

lemma reads_select [reads_intros]: "reads (tx_select f)"
  unfolding reads_def
proof
  fix tx
  show "tx_db (snd (tx_select f tx)) = tx_db tx \<and> tx_seq (snd (tx_select f tx)) = tx_seq tx"
    by (cases "f (tx_db tx)") (auto simp: tx_select_def sql_exec_def select_stmt_def)
qed

lemma reads_return [reads_intros]: "reads (tx_return x)" "reads (tx_lift r)"
  by (simp_all add: reads_def tx_return_def tx_lift_def)

lemma reads_bind [reads_intros]: "reads m \<Longrightarrow> (\<And>x. reads (f x)) \<Longrightarrow> reads (tx_bind m f)"
  unfolding reads_def tx_bind_def by (simp split: prod.splits outcome.splits) (metis snd_conv)

lemma reads_if [reads_intros]: "reads a \<Longrightarrow> reads b \<Longrightarrow> reads (if c then a else b)"
  by simp

lemma reads_fold [reads_intros]: "(\<And>i x s. reads (f i x s)) \<Longrightarrow> reads (tx_fold f j xs s)"
  by (induction xs arbitrary: j s) (auto intro: reads_intros)

lemma reads_for [reads_intros]: "(\<And>i x. reads (f i x)) \<Longrightarrow> reads (tx_for f j xs)"
  by (induction xs arbitrary: j) (auto intro: reads_intros)

lemma reads_case [reads_intros]:
  "reads a \<Longrightarrow> (\<And>y. reads (g y)) \<Longrightarrow> reads (case x of None \<Rightarrow> a | Some y \<Rightarrow> g y)"
  by (cases x) simp_all

text \<open>A transaction that only reads, run without faults, returns what its statements return.\<close>

definition read_tx :: "'a pg_txm \<Rightarrow> bool list \<Rightarrow> pg_seq \<Rightarrow> pg_db \<Rightarrow> 'a outcome" where
  "read_tx m faults sq db = fst (run_tx deferred_fk faults (outer_err m body_return) sq db)"

lemma read_tx_keeps:
  assumes "reads m" "run_tx deferred_fk faults (outer_err m body_return) sq db = (r, db', sq')"
  shows "db' = db \<and> sq' = sq"
proof -
  obtain x tx where m: "m (begin_tx faults sq db) = (x, tx)" by (cases "m (begin_tx faults sq db)")
  with assms(1) have "tx_db tx = db" "tx_seq tx = sq"
    unfolding reads_def by (metis begin_tx_def snd_conv sql_tx.select_convs(1,2))+
  with m assms(2) show ?thesis
    by (cases x) (auto simp: run_tx_def outer_err_def body_return_def split: if_splits)
qed

lemma read_tx_Ok:
  assumes "read_tx m faults sq db = Ok x"
  obtains tx where "m (begin_tx faults sq db) = (Ok x, tx)"
  using assms
  by (cases "m (begin_tx faults sq db)")
     (auto simp: read_tx_def run_tx_def outer_err_def body_return_def split: if_splits outcome.splits)

lemma tx_select_Ok:
  assumes "tx_select f tx = (Ok x, tx')"
  obtains "f (tx_db tx) = Ok x" "tx_db tx' = tx_db tx"
proof -
  obtain db sq where "select_stmt f (tx_seq tx) (tx_db tx) = Ok (x, db, sq)" "tx_db tx' = db"
    using assms unfolding tx_select_def by (rule sql_exec_Ok)
  then show ?thesis using that by (cases "f (tx_db tx)") (simp_all add: select_stmt_def)
qed

lemma select_begin: "f db = Ok x \<Longrightarrow> tx_select f (begin_tx [] sq db) = (Ok x, begin_tx [] sq db)"
  by (simp add: tx_select_def sql_exec_def begin_tx_def next_fault_def select_stmt_def)

lemma read_begin: "m (begin_tx [] sq db) = (Ok x, begin_tx [] sq db) \<Longrightarrow> read_tx m [] sq db = Ok x"
  by (simp add: read_tx_def run_tx_def next_fault_def outer_err_def body_return_def)

lemma reads_db: "reads m \<Longrightarrow> m tx = (r, tx') \<Longrightarrow> tx_db tx' = tx_db tx"
  unfolding reads_def by (metis snd_conv)

lemma tx_return_Ok: "tx_return x tx = (Ok y, tx') \<longleftrightarrow> y = x \<and> tx' = tx"
  by (auto simp: tx_return_def)

lemma select_if_Ok:
  assumes "(if c then tx_select f else tx_return []) tx = (Ok xs, tx')"
  shows "if c then f (tx_db tx) = Ok xs else xs = []"
  using assms by (cases c) (auto simp: tx_return_def elim: tx_select_Ok)

text \<open>The loop of a retriever: one wrapper for each header, and whether all of them are empty.\<close>

lemma wrappers_fold_gen:
  assumes "tx_fold (\<lambda>_ h (cws, e). tx_bind (f h e) (\<lambda>(cw, e). tx_return (cws @ [cw], e))) i hs (cws0, e0) tx = (Ok (cws, e1), tx')"
    and "tx_db tx = db"
    and "\<And>h e cw e' tx tx'. h \<in> set hs \<Longrightarrow> tx_db tx = db \<Longrightarrow> f h e tx = (Ok (cw, e'), tx') \<Longrightarrow>
      P h cw \<and> tx_db tx' = db \<and> (e' \<longleftrightarrow> e \<and> Q cw)"
  shows "\<exists>cws1. cws = cws0 @ cws1 \<and> list_all2 P hs cws1 \<and> (e1 \<longleftrightarrow> e0 \<and> (\<forall>cw\<in>set cws1. Q cw))"
  using assms
proof (induction hs arbitrary: i cws0 e0 tx)
  case (Cons h hs)
  obtain cw e' t1 where one: "f h e0 tx = (Ok (cw, e'), t1)"
    and rest: "tx_fold (\<lambda>_ h (cws, e). tx_bind (f h e) (\<lambda>(cw, e). tx_return (cws @ [cw], e))) (i + 1) hs (cws0 @ [cw], e') t1
      = (Ok (cws, e1), tx')"
    using Cons.prems(1) by (auto simp: tx_return_Ok elim!: tx_bind_Ok)
  note o = Cons.prems(3) [OF _ Cons.prems(2) one, simplified]
  have "\<exists>cws1. cws = (cws0 @ [cw]) @ cws1 \<and> list_all2 P hs cws1 \<and> (e1 \<longleftrightarrow> e' \<and> (\<forall>cw\<in>set cws1. Q cw))"
  proof (rule Cons.IH [OF rest])
    show "tx_db t1 = db" using o by blast
  qed (rule Cons.prems(3), simp_all)
  then obtain cws1 where "cws = (cws0 @ [cw]) @ cws1" "list_all2 P hs cws1" "e1 \<longleftrightarrow> e' \<and> (\<forall>cw\<in>set cws1. Q cw)" by blast
  with o show ?case by (intro exI [of _ "cw # cws1"]) auto
qed (simp add: tx_return_def)

lemma wrappers_fold:
  assumes "tx_fold (\<lambda>_ h (cws, e). tx_bind (f h e) (\<lambda>(cw, e). tx_return (cws @ [cw], e))) 0 hs ([], True) tx = (Ok (cws, e1), tx')"
    and "tx_db tx = db"
    and "\<And>h e cw e' tx tx'. h \<in> set hs \<Longrightarrow> tx_db tx = db \<Longrightarrow> f h e tx = (Ok (cw, e'), tx') \<Longrightarrow>
      P h cw \<and> tx_db tx' = db \<and> (e' \<longleftrightarrow> e \<and> Q cw)"
  shows "list_all2 P hs cws \<and> (e1 \<longleftrightarrow> (\<forall>cw\<in>set cws. Q cw))"
proof -
  obtain cws1 where "cws = [] @ cws1" "list_all2 P hs cws1" "e1 \<longleftrightarrow> True \<and> (\<forall>cw\<in>set cws1. Q cw)"
    using wrappers_fold_gen [OF assms(1,2), of P Q] assms(3) by blast
  then show ?thesis by simp
qed

end
