(* ===== verification/Height_Gaps.thy ===== *)
theory Height_Gaps
  imports Sql_Query Utils_Bins
begin

text \<open>
  The gaps in the heights of a table of headers, as \<open>RetrieveGapsInData\<close> of both chains finds them: the
  heights before the first block, the heights between two blocks, and the heights validated too rarely.
\<close>

subsection \<open>The queries\<close>

text \<open>The rows of the self join: the heights without a successor but with a later one, and the heights between.\<close>

definition gap_rows :: "int list \<Rightarrow> (int \<times> int) list" where
  "gap_rows ns = map (\<lambda>n. (n + 1, Min (set (filter (\<lambda>m. n < m) ns)) - 1))
     (filter (\<lambda>n. n + 1 \<notin> set ns \<and> list_ex (\<lambda>m. n < m) ns) (remdups ns))"

definition scan_gap :: "int \<times> int \<Rightarrow> Gap outcome" where
  "scan_gap row = outcome_bind (scan_uint64 (fst row)) (\<lambda>start. outcome_bind (scan_uint64 (snd row)) (\<lambda>stop.
     Ok \<lparr>gap_Start = start, gap_Stop = stop\<rparr>))"

definition initialGap :: "int \<Rightarrow> Gap list" where
  "initialGap startingBlock =
     (if startingBlock \<noteq> 0 then [\<lparr>gap_Start = 0, gap_Stop = of_int (startingBlock - 1)\<rparr>] else [])"

subsection \<open>Heights of the rows\<close>

lemma db_query_Ok: "db_query f db fs = (Ok x, fs') \<longleftrightarrow> \<not> next_fault fs \<and> f db = Ok x \<and> fs' = tl fs"
  by (auto simp: db_query_def)

lemma sort_first:
  assumes "sort ns = (s :: int) # rest"
  shows "s \<in> set ns" "\<forall>n\<in>set ns. s \<le> n"
proof -
  have "set ns = set (s # rest)" "sorted (s # rest)" using assms by (metis set_sort, metis sorted_sort)
  then show "s \<in> set ns" "\<forall>n\<in>set ns. s \<le> n" by auto
qed

lemma Min_above: "x \<in> set ns \<Longrightarrow> n < x \<Longrightarrow> Min (set (filter (\<lambda>m. n < m) ns)) \<le> (x :: int)"
  by (rule Min_le) auto

lemma gap_rows_heights:
  "(\<exists>(a, b)\<in>set (gap_rows ns). a \<le> m \<and> m \<le> b) \<longleftrightarrow> m \<notin> set ns \<and> (\<exists>n\<in>set ns. n < m) \<and> (\<exists>n\<in>set ns. m < n)"
proof
  assume "\<exists>(a, b)\<in>set (gap_rows ns). a \<le> m \<and> m \<le> b"
  then obtain n k where n: "n \<in> set ns" "n < m" and k: "k \<in> set ns" "n < k" and m: "m < Min (set (filter (\<lambda>m. n < m) ns))"
    by (auto simp: gap_rows_def list_ex_iff)
  have less: "m < x" if "x \<in> set ns" "n < x" for x
    using m Min_above [OF that] by linarith
  then show "m \<notin> set ns \<and> (\<exists>n\<in>set ns. n < m) \<and> (\<exists>n\<in>set ns. m < n)" using n k by fastforce
next
  assume m: "m \<notin> set ns \<and> (\<exists>n\<in>set ns. n < m) \<and> (\<exists>n\<in>set ns. m < n)"
  then obtain k where k: "k \<in> set ns" "m < k" by blast
  let ?below = "{x \<in> set ns. x < m}"
  define n where "n = Max ?below"
  have ne: "finite ?below" "?below \<noteq> {}" using m by auto
  have n: "n \<in> set ns" "n < m" using Max_in [OF ne] unfolding n_def by auto
  have above: "m < x" if "x \<in> set ns" "n < x" for x
  proof (rule ccontr)
    assume "\<not> m < x"
    moreover have "x \<noteq> m" using m that(1) by blast
    ultimately have "x \<in> ?below" using that(1) by simp
    then have "x \<le> n" unfolding n_def by (rule Max_ge [OF ne(1)])
    with that(2) show False by simp
  qed
  have gt: "finite (set (filter (\<lambda>m. n < m) ns))" "set (filter (\<lambda>m. n < m) ns) \<noteq> {}" using k n by auto
  have "n + 1 \<notin> set ns" using above [of "n + 1"] n(2) by auto
  moreover have "m < Min (set (filter (\<lambda>m. n < m) ns))" using Min_in [OF gt] above by auto
  moreover have "list_ex (\<lambda>m. n < m) ns" using k n(2) by (auto simp: list_ex_iff intro!: bexI [of _ k])
  ultimately have "(n + 1, Min (set (filter (\<lambda>m. n < m) ns)) - 1) \<in> set (gap_rows ns)"
    unfolding gap_rows_def set_map using n(1) by (intro image_eqI [where x = n]) simp_all
  moreover have "n + 1 \<le> m" "m \<le> Min (set (filter (\<lambda>m. n < m) ns)) - 1"
    using n(2) \<open>m < Min (set (filter (\<lambda>m. n < m) ns))\<close> by linarith+
  ultimately show "\<exists>(a, b)\<in>set (gap_rows ns). a \<le> m \<and> m \<le> b" by blast
qed

lemma gap_rows_bound:
  assumes "\<forall>n\<in>set ns. 0 \<le> n \<and> n < 2 ^ 63" "(a, b) \<in> set (gap_rows ns)"
  shows "0 \<le> a" "a < 2 ^ 64" "b < 2 ^ 64"
proof -
  obtain n k where n: "n \<in> set ns" "a = n + 1" and k: "k \<in> set ns" "n < k" and b: "b = Min (set (filter (\<lambda>m. n < m) ns)) - 1"
    using assms(2) by (auto simp: gap_rows_def list_ex_iff)
  have "b < k" using Min_above [OF k] unfolding b by linarith
  with n k assms(1) show "0 \<le> a" "a < 2 ^ 64" "b < 2 ^ 64" by force+
qed

lemma uint_of_int64: "0 \<le> n \<Longrightarrow> n < 2 ^ 64 \<Longrightarrow> uint (of_int n :: u64) = n"
  by (simp add: uint_word_of_int_eq take_bit_int_eq_self)

lemma scan_gap_heights:
  assumes "scan_gap (a, b) = Ok g" "a < 2 ^ 64" "b < 2 ^ 64"
  shows "n \<in> gap_heights g \<longleftrightarrow> a \<le> uint n \<and> uint n \<le> b"
  using assms by (cases "0 \<le> a"; cases "0 \<le> b")
    (auto simp: scan_gap_def scan_uint64_def gap_heights_def word_le_def uint_of_int64)

lemma scan_gaps_union:
  assumes "outcome_map scan_gap rows = Ok gs" "\<forall>(a, b)\<in>set rows. a < 2 ^ 64 \<and> b < 2 ^ 64"
  shows "n \<in> gaps_union gs \<longleftrightarrow> (\<exists>(a, b)\<in>set rows. a \<le> uint n \<and> uint n \<le> b)"
  using assms
proof (induction rows arbitrary: gs)
  case (Cons row rows)
  obtain a b where row: "row = (a, b)" by (cases row)
  obtain g gs' where g: "scan_gap (a, b) = Ok g" and gs': "outcome_map scan_gap rows = Ok gs'" and gs: "gs = g # gs'"
    using Cons.prems(1) row by (cases "scan_gap (a, b)"; cases "outcome_map scan_gap rows") auto
  have "n \<in> gap_heights g \<longleftrightarrow> a \<le> uint n \<and> uint n \<le> b"
    by (rule scan_gap_heights [OF g]) (use Cons.prems(2) row in auto)
  with Cons.IH [OF gs'] Cons.prems(2) row gs show ?case by auto
qed simp

lemma initialGap_heights:
  assumes "0 \<le> s" "s < 2 ^ 63"
  shows "n \<in> gaps_union (initialGap s) \<longleftrightarrow> uint n < s"
proof (cases "s = 0")
  case False
  then have "uint (of_int (s - 1) :: u64) = s - 1" using assms by (intro uint_of_int64) auto
  with False show ?thesis by (auto simp: initialGap_def gap_heights_def word_le_def)
qed (simp add: initialGap_def)

lemma scan_heights:
  assumes "outcome_map scan_uint64 ms = Ok hs" "\<forall>m\<in>set ms. 0 \<le> m \<and> m < 2 ^ 63" "sorted ms"
  shows "map uint hs = ms \<and> sorted hs"
proof
  show m: "map uint hs = ms"
    using assms(1,2)
  proof (induction ms arbitrary: hs)
    case (Cons k ms)
    have "uint (of_int k :: u64) = k" using Cons.prems(2) by (intro uint_of_int64) auto
    with Cons show ?case
      by (cases "outcome_map scan_uint64 ms") (auto simp: scan_uint64_def)
  qed simp
  have "sorted (map uint hs)" using assms(3) m by simp
  then have "sorted_wrt (\<lambda>x y. uint x \<le> uint y) hs" by (simp add: sorted_wrt_map)
  then show "sorted hs" by (rule sorted_wrt_mono_rel [rotated]) (simp add: word_le_def)
qed

lemma gaps_below:
  assumes "s \<in> S" "\<forall>m\<in>S. s \<le> m"
  shows "k < s \<or> k \<notin> S \<and> (\<exists>m\<in>S. m < k) \<and> (\<exists>m\<in>S. k < m) \<longleftrightarrow> k \<notin> S \<and> (\<exists>m\<in>S. k < (m :: int))"
proof (cases "k < s")
  case True
  with assms show ?thesis by force
next
  case False
  have "\<exists>m\<in>S. m < k" if "k \<notin> S" using that assms(1) False by (intro bexI [of _ s]) (auto simp: less_le)
  with False show ?thesis by blast
qed

subsection \<open>The contract of a gap finder\<close>

text \<open>
  What \<open>RetrieveGapsInData\<close> of either chain computes from the heights of its table (\<open>numbers\<close>) and
  the heights below a validation level (\<open>low\<close>).
\<close>

locale gap_finder =
  fixes numbers :: "pg_db \<Rightarrow> int list" and low :: "int \<Rightarrow> pg_db \<Rightarrow> int list"
    and find_gaps :: "int \<Rightarrow> pg_db \<Rightarrow> (bool list, Gap list) io"
  assumes find_gaps_Ok: "find_gaps level db fs = (Ok gaps, fs') \<Longrightarrow>
      \<exists>s emptyGaps heights. s \<in> set (numbers db) \<and> (\<forall>n\<in>set (numbers db). s \<le> n)
    \<and> outcome_map scan_gap (gap_rows (numbers db)) = Ok emptyGaps \<and> outcome_map scan_uint64 (low level db) = Ok heights
    \<and> gaps = initialGap s @ emptyGaps @ MissingHeightsToGaps heights"
    and low_sorted: "sorted (low level db)" and low_numbers: "set (low level db) \<subseteq> set (numbers db)"
begin

lemma missing_exact:
  assumes "s \<in> set (numbers db)" "\<forall>m\<in>set (numbers db). s \<le> m" "\<forall>m\<in>set (numbers db). 0 \<le> m \<and> m < 2 ^ 63"
    and "outcome_map scan_gap (gap_rows (numbers db)) = Ok emptyGaps"
  shows "n \<in> gaps_union (initialGap s @ emptyGaps) \<longleftrightarrow>
      uint n \<notin> set (numbers db) \<and> (\<exists>m\<in>set (numbers db). uint n < m)"
proof -
  have "n \<in> gaps_union (initialGap s) \<longleftrightarrow> uint n < s" by (rule initialGap_heights) (use assms in auto)
  moreover have "n \<in> gaps_union emptyGaps \<longleftrightarrow> uint n \<notin> set (numbers db)
      \<and> (\<exists>m\<in>set (numbers db). m < uint n) \<and> (\<exists>m\<in>set (numbers db). uint n < m)"
    unfolding gap_rows_heights [symmetric]
    by (rule scan_gaps_union [OF assms(4)]) (use gap_rows_bound [OF assms(3)] in auto)
  ultimately show ?thesis using gaps_below [OF assms(1,2), of "uint n"] by simp
qed

lemma low_exact:
  assumes "outcome_map scan_uint64 (low level db) = Ok heights" "\<forall>m\<in>set (numbers db). 0 \<le> m \<and> m < 2 ^ 63"
  shows "n \<in> gaps_union (MissingHeightsToGaps heights) \<longleftrightarrow> length (low level db) \<noteq> 1 \<and> uint n \<in> set (low level db)"
proof -
  have "\<forall>m\<in>set (low level db). 0 \<le> m \<and> m < 2 ^ 63" using assms(2) low_numbers [of level db] by blast
  then have m: "map uint heights = low level db" and so: "sorted heights"
    using scan_heights [OF assms(1)] low_sorted by simp_all
  have len: "length heights = length (low level db)" using m by (metis length_map)
  have "n \<in> set heights \<longleftrightarrow> uint n \<in> set (low level db)"
    unfolding m [symmetric] set_map by (rule inj_image_mem_iff [symmetric]) (simp add: inj_def word_uint_eq_iff)
  then show ?thesis
    using MissingHeightsToGaps_union [OF so] MissingHeightsToGaps_single [of heights]
    by (cases "length heights = 1") (auto simp: len)
qed

theorem gaps_exact:
  assumes "\<forall>m\<in>set (numbers db). 0 \<le> m \<and> m < 2 ^ 63" "find_gaps level db fs = (Ok gaps, fs')"
  shows "n \<in> gaps_union gaps \<longleftrightarrow> (uint n \<notin> set (numbers db) \<and> (\<exists>m\<in>set (numbers db). uint n < m))
    \<or> (length (low level db) \<noteq> 1 \<and> uint n \<in> set (low level db))"
proof -
  obtain s emptyGaps heights where "s \<in> set (numbers db)" "\<forall>m\<in>set (numbers db). s \<le> m"
    "outcome_map scan_gap (gap_rows (numbers db)) = Ok emptyGaps" "outcome_map scan_uint64 (low level db) = Ok heights"
    and gaps: "gaps = initialGap s @ emptyGaps @ MissingHeightsToGaps heights"
    using find_gaps_Ok [OF assms(2)] by blast
  with missing_exact [of s db emptyGaps n] low_exact [of level db heights n] assms(1) show ?thesis
    unfolding gaps by auto
qed

end

end
