(* ===== verification/Eth_Retriever.thy ===== *)
theory Eth_Retriever
  imports Height_Gaps Chain_Data
begin

text \<open>
  Package \<open>eth\<close>, the retriever (\<open>cid_retriever.go\<close>): which rows a subscription gets for a block, the
  rows of one block, and the gaps in the data. A clause that the code appends to the statement is a
  condition on the row here; the values of the result variables are those after the query, the order
  in which the compiler evaluates \<open>return results, tx.Select(&results, ...)\<close>. The transactions only
  read, so it makes no difference that some errors are shadowed variables.
\<close>

subsection \<open>First and last block\<close>

definition header_number :: "HeaderModel \<Rightarrow> int" where
  "header_number r = number_of (hm_BlockNumber r)"

definition block_numbers :: "pg_db \<Rightarrow> int list" where
  "block_numbers db = map header_number (eth_headers db)"

definition RetrieveFirstBlockNumber :: "pg_db \<Rightarrow> (bool list, int) io" where
  "RetrieveFirstBlockNumber = db_query (\<lambda>db. case sort (block_numbers db) of [] \<Rightarrow> Err ErrNoRows | n # _ \<Rightarrow> Ok n)"

definition RetrieveLastBlockNumber :: "pg_db \<Rightarrow> (bool list, int) io" where
  "RetrieveLastBlockNumber = db_query (\<lambda>db. case rev (sort (block_numbers db)) of [] \<Rightarrow> Err ErrNoRows | n # _ \<Rightarrow> Ok n)"

subsection \<open>The rows of a header\<close>

definition RetrieveHeaderCIDs :: "int \<Rightarrow> HeaderModel list pg_txm" where
  "RetrieveHeaderCIDs blockNumber =
     tx_select (\<lambda>db. Ok (filter (\<lambda>r. header_number r = blockNumber) (eth_headers db)))"

definition RetrieveUncleCIDsByHeaderID :: "int \<Rightarrow> UncleModel list pg_txm" where
  "RetrieveUncleCIDsByHeaderID headerID =
     tx_select (\<lambda>db. outcome_bind (pg_int4 headerID) (\<lambda>i. Ok (filter (\<lambda>r. um_HeaderID r = i) (eth_uncles db))))"

definition has_header :: "pg_db \<Rightarrow> int \<Rightarrow> bool" where
  "has_header db i = list_ex (\<lambda>h. hm_ID h = i) (eth_headers db)"

definition tx_where :: "TxFilter \<Rightarrow> TxModel \<Rightarrow> bool" where
  "tx_where txFilter r \<longleftrightarrow>
     (length (tf_Dst txFilter) > 0 \<longrightarrow> tm_Dst r \<in> set (varchar66s (tf_Dst txFilter)))
   \<and> (length (tf_Src txFilter) > 0 \<longrightarrow> tm_Src r \<in> set (varchar66s (tf_Src txFilter)))"

definition RetrieveTxCIDs :: "TxFilter \<Rightarrow> int \<Rightarrow> TxModel list pg_txm" where
  "RetrieveTxCIDs txFilter headerID =
     tx_select (\<lambda>db. outcome_bind (pg_int4 headerID) (\<lambda>i.
       Ok (sort_key tm_Index (filter (\<lambda>r. tm_HeaderID r = i \<and> has_header db i \<and> tx_where txFilter r) (eth_txs db)))))"

definition hasTopics :: "string list list \<Rightarrow> bool" where
  "hasTopics topics = list_ex (\<lambda>topicSet. length topicSet > 0) topics"

text \<open>The clauses on topics: the non-empty sets among the first four, with their position.\<close>

definition topic_clauses :: "string list list \<Rightarrow> (nat \<times> string list) list" where
  "topic_clauses topics = filter (\<lambda>(i, topicSet). i < 4 \<and> length topicSet > 0) (enumerate 0 topics)"

definition topic_column :: "ReceiptModel \<Rightarrow> nat \<Rightarrow> string list" where
  "topic_column r i = (if i = 0 then rm_Topic0s r else if i = 1 then rm_Topic1s r else if i = 2 then rm_Topic2s r else rm_Topic3s r)"

definition topics_where :: "string list list \<Rightarrow> ReceiptModel \<Rightarrow> bool" where
  "topics_where topics r = list_all (\<lambda>(i, topicSet). overlaps (topic_column r i) (varchar66s topicSet)) (topic_clauses topics)"

definition syntax_error :: go_error where
  "syntax_error = Errorf ''pq: syntax error at or near )'' []"

text \<open>
  The clauses of a receipt query. With topics but none among the first four sets the statement ends
  in \<open>AND ()\<close>, which Postgres refuses.
\<close>

definition rct_where :: "ReceiptFilter \<Rightarrow> int list \<Rightarrow> (ReceiptModel \<Rightarrow> bool) outcome" where
  "rct_where rctFilter trxIds =
     (let addrs = rf_LogAddresses rctFilter;
          topics = rf_Topics rctFilter;
          byTx = (rf_MatchTxs rctFilter \<and> length trxIds > 0)
      in outcome_bind (if byTx then int4s trxIds else Ok []) (\<lambda>ids.
         if length addrs > 0 then
           (if hasTopics topics \<and> topic_clauses topics = [] then Err syntax_error
            else Ok (\<lambda>r. overlaps (rm_LogContracts r) (varchar66s addrs) \<and> (hasTopics topics \<longrightarrow> topics_where topics r)
              \<or> byTx \<and> rm_TxID r \<in> set ids))
         else if hasTopics topics then
           (if topic_clauses topics = [] then Err syntax_error
            else Ok (\<lambda>r. topics_where topics r \<or> byTx \<and> rm_TxID r \<in> set ids))
         else Ok (\<lambda>r. byTx \<longrightarrow> rm_TxID r \<in> set ids)))"

text \<open>The join of receipts with their transactions, in the order of the transactions' indices.\<close>

definition rcts_joined :: "pg_db \<Rightarrow> (ReceiptModel \<times> TxModel) list" where
  "rcts_joined db = sort_key (\<lambda>(r, t). tm_Index t)
     [(r, t). r \<leftarrow> eth_rcts db, t \<leftarrow> filter (\<lambda>t. rm_TxID r = tm_ID t) (eth_txs db)]"

definition RetrieveRctCIDsByHeaderID :: "ReceiptFilter \<Rightarrow> int \<Rightarrow> int list \<Rightarrow> ReceiptModel list pg_txm" where
  "RetrieveRctCIDsByHeaderID rctFilter headerID trxIds =
     tx_select (\<lambda>db. outcome_bind (pg_int4 headerID) (\<lambda>i. outcome_bind (rct_where rctFilter trxIds) (\<lambda>cond.
       Ok (map fst (filter (\<lambda>(r, t). tm_HeaderID t = i \<and> has_header db i \<and> cond r) (rcts_joined db))))))"

definition RetrieveRctCIDs :: "ReceiptFilter \<Rightarrow> int \<Rightarrow> Hash option \<Rightarrow> int list \<Rightarrow> ReceiptModel list pg_txm" where
  "RetrieveRctCIDs rctFilter blockNumber blockHash trxIds =
     tx_select (\<lambda>db. outcome_bind (rct_where rctFilter trxIds) (\<lambda>cond.
       Ok (map fst (filter (\<lambda>(r, t). cond r \<and> list_ex (\<lambda>h. tm_HeaderID t = hm_ID h
             \<and> (blockNumber > 0 \<longrightarrow> header_number h = blockNumber)
             \<and> (case blockHash of None \<Rightarrow> True | Some b \<Rightarrow> hm_BlockHash h = Hash_Hex b)) (eth_headers db)) (rcts_joined db)))))"

definition leaf_keys :: "geth_lib \<Rightarrow> string list \<Rightarrow> string list" where
  "leaf_keys geth addrs = map (\<lambda>addr. Hash_Hex (Keccak256 geth (HexToAddress geth addr))) addrs"

definition state_where :: "geth_lib \<Rightarrow> StateFilter \<Rightarrow> StateNodeModel \<Rightarrow> bool" where
  "state_where geth stateFilter r \<longleftrightarrow>
     (length (sf_Addresses stateFilter) > 0 \<longrightarrow> sm_StateKey r \<in> set (varchar66s (leaf_keys geth (sf_Addresses stateFilter))))
   \<and> (\<not> sf_IntermediateNodes stateFilter \<longrightarrow> sm_NodeType r = 2)"

text \<open>The column \<open>diff\<close> is not selected: the field keeps its zero value.\<close>

definition RetrieveStateCIDs :: "geth_lib \<Rightarrow> StateFilter \<Rightarrow> int \<Rightarrow> StateNodeModel list pg_txm" where
  "RetrieveStateCIDs geth stateFilter headerID =
     tx_select (\<lambda>db. outcome_bind (pg_int4 headerID) (\<lambda>i.
       Ok (map (\<lambda>r. r\<lparr>sm_Diff := False\<rparr>)
         (filter (\<lambda>r. sm_HeaderID r = i \<and> has_header db i \<and> state_where geth stateFilter r) (eth_states db)))))"

definition with_state_key :: "StorageNodeModel \<Rightarrow> StateNodeModel \<Rightarrow> StorageNodeWithStateKeyModel" where
  "with_state_key r s = \<lparr>ok_ID = om_ID r, ok_StateID = om_StateID r, ok_Path = om_Path r, ok_StateKey = sm_StateKey s,
     ok_StorageKey = om_StorageKey r, ok_NodeType = om_NodeType r, ok_CID = om_CID r, ok_MhKey = om_MhKey r, ok_Diff = False\<rparr>"

definition storage_where :: "geth_lib \<Rightarrow> StorageFilter \<Rightarrow> StorageNodeModel \<Rightarrow> StateNodeModel \<Rightarrow> bool" where
  "storage_where geth storageFilter r s \<longleftrightarrow>
     (length (of_Addresses storageFilter) > 0 \<longrightarrow>
        sm_StateKey s \<in> set (varchar66s (leaf_keys geth (of_Addresses storageFilter))))
   \<and> (length (of_StorageKeys storageFilter) > 0 \<longrightarrow> om_StorageKey r \<in> set (varchar66s (of_StorageKeys storageFilter)))
   \<and> (\<not> of_IntermediateNodes storageFilter \<longrightarrow> om_NodeType r = 2)"

definition RetrieveStorageCIDs :: "geth_lib \<Rightarrow> StorageFilter \<Rightarrow> int \<Rightarrow> StorageNodeWithStateKeyModel list pg_txm" where
  "RetrieveStorageCIDs geth storageFilter headerID =
     tx_select (\<lambda>db. outcome_bind (pg_int4 headerID) (\<lambda>i.
       Ok [with_state_key r s. r \<leftarrow> eth_storages db,
             s \<leftarrow> filter (\<lambda>s. om_StateID r = sm_ID s \<and> sm_HeaderID s = i \<and> has_header db i \<and> storage_where geth storageFilter r s)
               (eth_states db)]))"

subsection \<open>Retrieve\<close>

text \<open>The guarded queries of the loop over the headers at the height: a filter that is off gives no rows.\<close>

definition uncles_stage :: "HeaderFilter \<Rightarrow> int \<Rightarrow> UncleModel list pg_txm" where
  "uncles_stage f i = (if \<not> hf_Off f \<and> hf_Uncles f then RetrieveUncleCIDsByHeaderID i else tx_return [])"

definition txs_stage :: "TxFilter \<Rightarrow> int \<Rightarrow> TxModel list pg_txm" where
  "txs_stage f i = (if \<not> tf_Off f then RetrieveTxCIDs f i else tx_return [])"

definition rcts_stage :: "ReceiptFilter \<Rightarrow> int \<Rightarrow> int list \<Rightarrow> ReceiptModel list pg_txm" where
  "rcts_stage f i trxIds = (if \<not> rf_Off f then RetrieveRctCIDsByHeaderID f i trxIds else tx_return [])"

definition states_stage :: "geth_lib \<Rightarrow> StateFilter \<Rightarrow> int \<Rightarrow> StateNodeModel list pg_txm" where
  "states_stage geth f i = (if \<not> sf_Off f then RetrieveStateCIDs geth f i else tx_return [])"

definition storages_stage :: "geth_lib \<Rightarrow> StorageFilter \<Rightarrow> int \<Rightarrow> StorageNodeWithStateKeyModel list pg_txm" where
  "storages_stage geth f i = (if \<not> of_Off f then RetrieveStorageCIDs geth f i else tx_return [])"

text \<open>The body of the loop: the wrapper, and whether nothing has been found yet.\<close>

definition retrieveHeader ::
    "geth_lib \<Rightarrow> SubscriptionSettings \<Rightarrow> int \<Rightarrow> HeaderModel \<Rightarrow> bool \<Rightarrow> (CIDWrapper \<times> bool) pg_txm" where
  "retrieveHeader geth f blockNumber header isEmpty =
     tx_bind (uncles_stage (ss_HeaderFilter f) (hm_ID header)) (\<lambda>uncles.
     tx_bind (txs_stage (ss_TxFilter f) (hm_ID header)) (\<lambda>txs.
     tx_bind (rcts_stage (ss_ReceiptFilter f) (hm_ID header) (map tm_ID txs)) (\<lambda>rcts.
     tx_bind (states_stage geth (ss_StateFilter f) (hm_ID header)) (\<lambda>states.
     tx_bind (storages_stage geth (ss_StorageFilter f) (hm_ID header)) (\<lambda>storages.
     tx_return (\<lparr>cw_BlockNumber = Some blockNumber,
         cw_Header = (if \<not> hf_Off (ss_HeaderFilter f) then header else zero_HeaderModel), cw_Uncles = uncles,
         cw_Transactions = txs, cw_Receipts = rcts, cw_StateNodes = states, cw_StorageNodes = storages\<rparr>,
       isEmpty \<and> hf_Off (ss_HeaderFilter f) \<and> length txs = 0 \<and> length rcts = 0 \<and> length states = 0
         \<and> length storages = 0))))))"

definition retrieve_body ::
    "geth_lib \<Rightarrow> SubscriptionSettings \<Rightarrow> int \<Rightarrow> (CIDWrapper list \<times> bool) pg_txm" where
  "retrieve_body geth streamFilter blockNumber =
     tx_bind (RetrieveHeaderCIDs blockNumber) (\<lambda>headers.
       tx_fold (\<lambda>_ header (cws, isEmpty).
         tx_bind (retrieveHeader geth streamFilter blockNumber header isEmpty) (\<lambda>(cw, isEmpty). tx_return (cws @ [cw], isEmpty)))
         0 headers ([], True))"

definition eth_Retrieve ::
    "geth_lib \<Rightarrow> bool list \<Rightarrow> pg_seq \<Rightarrow> pg_db \<Rightarrow> Settings \<Rightarrow> int \<Rightarrow> (CIDWrapper list \<times> bool) outcome" where
  "eth_Retrieve geth faults sq db settings blockNumber =
     (case settings of
        EthSettings streamFilter \<Rightarrow> read_tx (retrieve_body geth streamFilter blockNumber) faults sq db
      | _ \<Rightarrow> Err (Errorf ''eth retriever expected filter type %T got %T'' [''*eth.SubscriptionSettings'', Settings_T settings]))"

subsection \<open>Gaps\<close>

definition low_heights :: "int \<Rightarrow> pg_db \<Rightarrow> int list" where
  "low_heights level db = sort (map header_number (filter (\<lambda>r. hm_TimesValidated r < level) (eth_headers db)))"

definition RetrieveGapsInData :: "int \<Rightarrow> pg_db \<Rightarrow> (bool list, Gap list) io" where
  "RetrieveGapsInData validationLevel db faults =
     (case RetrieveFirstBlockNumber db faults of
        (Err err, fs) \<Rightarrow> (Err (Wrapf ''eth CIDRetriever RetrieveFirstBlockNumber error: %v'' [] err), fs)
      | (Panic p, fs) \<Rightarrow> (Panic p, fs)
      | (Ok startingBlock, fs) \<Rightarrow>
          io_bind (db_query (\<lambda>db. outcome_map scan_gap (gap_rows (block_numbers db))) db) (\<lambda>emptyGaps.
          io_bind (db_query (\<lambda>db. outcome_bind (pg_int4 validationLevel) (\<lambda>level.
              outcome_map scan_uint64 (low_heights level db))) db) (\<lambda>heights.
          io_return (initialGap startingBlock @ emptyGaps @ MissingHeightsToGaps heights))) fs)"

subsection \<open>The rows of one block\<close>

definition RetrieveHeaderCIDByHash :: "Hash \<Rightarrow> HeaderModel pg_txm" where
  "RetrieveHeaderCIDByHash blockHash =
     tx_bind (tx_select (\<lambda>db. Ok (find (\<lambda>r. hm_BlockHash r = Hash_Hex blockHash) (eth_headers db)))) (\<lambda>r.
       tx_lift (case r of None \<Rightarrow> Err ErrNoRows | Some header \<Rightarrow> Ok header))"

definition RetrieveTxCIDsByHeaderID :: "int \<Rightarrow> TxModel list pg_txm" where
  "RetrieveTxCIDsByHeaderID headerID =
     tx_select (\<lambda>db. outcome_bind (pg_int4 headerID) (\<lambda>i.
       Ok (sort_key tm_Index (filter (\<lambda>r. tm_HeaderID r = i) (eth_txs db)))))"

definition RetrieveReceiptCIDsByTxIDs :: "int list \<Rightarrow> ReceiptModel list pg_txm" where
  "RetrieveReceiptCIDsByTxIDs txIDs =
     tx_select (\<lambda>db. outcome_bind (int4s txIDs) (\<lambda>ids.
       Ok (map fst (filter (\<lambda>(r, t). rm_TxID r \<in> set ids) (rcts_joined db)))))"

definition block_rows :: "HeaderModel \<Rightarrow> (HeaderModel \<times> UncleModel list \<times> TxModel list \<times> ReceiptModel list) pg_txm" where
  "block_rows headerCID =
     tx_bind (RetrieveUncleCIDsByHeaderID (hm_ID headerCID)) (\<lambda>uncleCIDs.
     tx_bind (RetrieveTxCIDsByHeaderID (hm_ID headerCID)) (\<lambda>txCIDs.
     tx_bind (RetrieveReceiptCIDsByTxIDs (map tm_ID txCIDs)) (\<lambda>rctCIDs.
     tx_return (headerCID, uncleCIDs, txCIDs, rctCIDs))))"

definition RetrieveBlockByHash ::
    "bool list \<Rightarrow> pg_seq \<Rightarrow> pg_db \<Rightarrow> Hash \<Rightarrow> (HeaderModel \<times> UncleModel list \<times> TxModel list \<times> ReceiptModel list) outcome" where
  "RetrieveBlockByHash faults sq db blockHash =
     read_tx (tx_bind (RetrieveHeaderCIDByHash blockHash) block_rows) faults sq db"

definition RetrieveBlockByNumber ::
    "bool list \<Rightarrow> pg_seq \<Rightarrow> pg_db \<Rightarrow> int \<Rightarrow> (HeaderModel \<times> UncleModel list \<times> TxModel list \<times> ReceiptModel list) outcome" where
  "RetrieveBlockByNumber faults sq db blockNumber =
     read_tx (tx_bind (RetrieveHeaderCIDs blockNumber) (\<lambda>headerCID.
       case headerCID of
         [] \<Rightarrow> tx_lift (Err (Errorf ''header cid retrieval error, no header CIDs found at block %d'' [big_String blockNumber]))
       | header # _ \<Rightarrow> block_rows header)) faults sq db"

subsection \<open>Lemmas: gaps\<close>

definition numbers_ok :: "pg_db \<Rightarrow> bool" where
  "numbers_ok db \<longleftrightarrow> (\<forall>n\<in>set (block_numbers db). 0 \<le> n \<and> n < 2 ^ 63)"

lemma first_block_Ok:
  assumes "RetrieveFirstBlockNumber db fs = (Ok s, fs')"
  shows "s \<in> set (block_numbers db)" "\<forall>n\<in>set (block_numbers db). s \<le> n"
  using assms sort_first [of "block_numbers db" s]
  by (auto simp: RetrieveFirstBlockNumber_def db_query_Ok split: list.splits)

lemma low_heights_iff:
  "k \<in> set (low_heights level db) \<longleftrightarrow> (\<exists>r\<in>set (eth_headers db). header_number r = k \<and> hm_TimesValidated r < level)"
  by (auto simp: low_heights_def)

lemma RetrieveGapsInData_Ok:
  assumes "RetrieveGapsInData level db fs = (Ok gaps, fs')"
  obtains s emptyGaps heights where "s \<in> set (block_numbers db)" "\<forall>n\<in>set (block_numbers db). s \<le> n"
    "outcome_map scan_gap (gap_rows (block_numbers db)) = Ok emptyGaps"
    "outcome_map scan_uint64 (low_heights level db) = Ok heights"
    "gaps = initialGap s @ emptyGaps @ MissingHeightsToGaps heights"
proof -
  obtain s fs1 where s: "RetrieveFirstBlockNumber db fs = (Ok s, fs1)"
    using assms by (auto simp: RetrieveGapsInData_def split: prod.splits outcome.splits)
  with assms show ?thesis
    using that first_block_Ok [OF s]
    by (auto simp: RetrieveGapsInData_def io_return_def db_query_Ok elim!: io_bind_Ok)
qed

interpretation eth_gaps: gap_finder block_numbers low_heights RetrieveGapsInData
proof
  fix level db fs gaps fs'
  assume "RetrieveGapsInData level db fs = (Ok gaps, fs')"
  then show "\<exists>s emptyGaps heights. s \<in> set (block_numbers db) \<and> (\<forall>n\<in>set (block_numbers db). s \<le> n)
    \<and> outcome_map scan_gap (gap_rows (block_numbers db)) = Ok emptyGaps
    \<and> outcome_map scan_uint64 (low_heights level db) = Ok heights
    \<and> gaps = initialGap s @ emptyGaps @ MissingHeightsToGaps heights"
    by (rule RetrieveGapsInData_Ok) blast
qed (auto simp: low_heights_def block_numbers_def)

text \<open>
  C7. The gaps are complete and exact. When \<open>RetrieveGapsInData\<close> succeeds, the heights of the
  returned gaps are exactly the heights up to the last block for which there is no header, and the
  heights of the headers validated less often than the level; unless there is exactly one such
  header, whose height is then missing from the gaps.
\<close>

theorem RetrieveGapsInData_complete:
  assumes "numbers_ok db" "RetrieveGapsInData level db faults = (Ok gaps, fs)"
  shows "n \<in> gaps_union gaps \<longleftrightarrow>
      (uint n \<notin> set (block_numbers db) \<and> (\<exists>m\<in>set (block_numbers db). uint n < m))
    \<or> (length (low_heights level db) \<noteq> 1
        \<and> (\<exists>r\<in>set (eth_headers db). header_number r = uint n \<and> hm_TimesValidated r < level))"
  unfolding low_heights_iff [symmetric] by (rule eth_gaps.gaps_exact [OF assms(1) [unfolded numbers_ok_def] assms(2)])

definition gaps_db :: pg_db where
  "gaps_db = empty_db\<lparr>eth_headers := [
     zero_HeaderModel\<lparr>hm_ID := 1, hm_BlockNumber := big_String 3, hm_TimesValidated := 1\<rparr>,
     zero_HeaderModel\<lparr>hm_ID := 2, hm_BlockNumber := big_String 7, hm_TimesValidated := 0\<rparr>,
     zero_HeaderModel\<lparr>hm_ID := 3, hm_BlockNumber := big_String 4, hm_TimesValidated := 0\<rparr>]\<rparr>"

definition gaps_db_gaps :: "Gap list" where
  "gaps_db_gaps = [\<lparr>gap_Start = 0, gap_Stop = 2\<rparr>, \<lparr>gap_Start = 5, gap_Stop = 6\<rparr>,
     \<lparr>gap_Start = 4, gap_Stop = 4\<rparr>, \<lparr>gap_Start = 7, gap_Stop = 7\<rparr>]"

lemma gaps_db_run: "RetrieveGapsInData 1 gaps_db [] = (Ok gaps_db_gaps, [])"
proof -
  have "{x. (x = 3 \<or> x = 7 \<or> x = 4) \<and> 4 < x} = {7 :: int}" by auto
  then show ?thesis
    by (simp add: RetrieveGapsInData_def RetrieveFirstBlockNumber_def db_query_def next_fault_def gaps_db_def empty_db_def
      block_numbers_def header_number_def zero_HeaderModel_def io_bind_def io_return_def gap_rows_def scan_gap_def
      scan_uint64_def initialGap_def low_heights_def pg_int4_def gaps_db_gaps_def)
qed

theorem RetrieveGapsInData_complete_witness:
  "RetrieveGapsInData 1 gaps_db [] = (Ok gaps_db_gaps, []) \<and> 5 \<in> gaps_union gaps_db_gaps \<and> 3 \<notin> gaps_union gaps_db_gaps"
proof -
  have "numbers_ok gaps_db"
    by (simp add: numbers_ok_def gaps_db_def block_numbers_def header_number_def zero_HeaderModel_def)
  note eq = RetrieveGapsInData_complete [OF this gaps_db_run]
  show ?thesis
    unfolding eq using gaps_db_run
    by (simp add: gaps_db_def block_numbers_def header_number_def zero_HeaderModel_def)
qed

subsection \<open>Lemmas: the rows a subscription gets\<close>

lemma retrieve_reads [reads_intros]:
  "reads (RetrieveHeaderCIDs n)" "reads (RetrieveUncleCIDsByHeaderID i)" "reads (RetrieveTxCIDs tf i)"
  "reads (RetrieveRctCIDsByHeaderID rf i ids)" "reads (RetrieveStateCIDs geth sf i)" "reads (RetrieveStorageCIDs geth gf i)"
  unfolding RetrieveHeaderCIDs_def RetrieveUncleCIDsByHeaderID_def RetrieveTxCIDs_def RetrieveRctCIDsByHeaderID_def
    RetrieveStateCIDs_def RetrieveStorageCIDs_def by (rule reads_select)+

text \<open>What the wrapper of a header holds, table by table.\<close>

definition txs_for :: "SubscriptionSettings \<Rightarrow> pg_db \<Rightarrow> HeaderModel \<Rightarrow> TxModel set" where
  "txs_for f db h = (if tf_Off (ss_TxFilter f) then {}
     else {t \<in> set (eth_txs db). tm_HeaderID t = hm_ID h \<and> tx_where (ss_TxFilter f) t})"

definition rcts_for :: "SubscriptionSettings \<Rightarrow> pg_db \<Rightarrow> HeaderModel \<Rightarrow> int list \<Rightarrow> ReceiptModel set" where
  "rcts_for f db h ids = (if rf_Off (ss_ReceiptFilter f) then {}
     else {r \<in> set (eth_rcts db). (\<exists>t\<in>set (eth_txs db). rm_TxID r = tm_ID t \<and> tm_HeaderID t = hm_ID h)
       \<and> (\<exists>cond. rct_where (ss_ReceiptFilter f) ids = Ok cond \<and> cond r)})"

definition states_for :: "geth_lib \<Rightarrow> SubscriptionSettings \<Rightarrow> pg_db \<Rightarrow> HeaderModel \<Rightarrow> StateNodeModel set" where
  "states_for geth f db h = (if sf_Off (ss_StateFilter f) then {}
     else (\<lambda>s. s\<lparr>sm_Diff := False\<rparr>) ` {s \<in> set (eth_states db). sm_HeaderID s = hm_ID h \<and> state_where geth (ss_StateFilter f) s})"

definition storages_for :: "geth_lib \<Rightarrow> SubscriptionSettings \<Rightarrow> pg_db \<Rightarrow> HeaderModel \<Rightarrow> StorageNodeWithStateKeyModel set" where
  "storages_for geth f db h = (if of_Off (ss_StorageFilter f) then {}
     else {with_state_key r s | r s. r \<in> set (eth_storages db) \<and> s \<in> set (eth_states db) \<and> om_StateID r = sm_ID s
       \<and> sm_HeaderID s = hm_ID h \<and> storage_where geth (ss_StorageFilter f) r s})"

definition wrapper_for :: "geth_lib \<Rightarrow> SubscriptionSettings \<Rightarrow> int \<Rightarrow> pg_db \<Rightarrow> HeaderModel \<Rightarrow> CIDWrapper \<Rightarrow> bool" where
  "wrapper_for geth f n db h cw \<longleftrightarrow>
     cw_BlockNumber cw = Some n \<and> cw_Header cw = (if hf_Off (ss_HeaderFilter f) then zero_HeaderModel else h)
   \<and> set (cw_Uncles cw) = (if \<not> hf_Off (ss_HeaderFilter f) \<and> hf_Uncles (ss_HeaderFilter f)
       then {u \<in> set (eth_uncles db). um_HeaderID u = hm_ID h} else {})
   \<and> set (cw_Transactions cw) = txs_for f db h \<and> sorted (map tm_Index (cw_Transactions cw))
   \<and> set (cw_Receipts cw) = rcts_for f db h (map tm_ID (cw_Transactions cw))
   \<and> set (cw_StateNodes cw) = states_for geth f db h \<and> set (cw_StorageNodes cw) = storages_for geth f db h"

definition nothing_in :: "CIDWrapper \<Rightarrow> bool" where
  "nothing_in cw \<longleftrightarrow> cw_Transactions cw = [] \<and> cw_Receipts cw = [] \<and> cw_StateNodes cw = [] \<and> cw_StorageNodes cw = []"

lemma rcts_joined_set:
  "(r, t) \<in> set (rcts_joined db) \<longleftrightarrow> r \<in> set (eth_rcts db) \<and> t \<in> set (eth_txs db) \<and> rm_TxID r = tm_ID t"
  by (auto simp: rcts_joined_def)

lemma has_header_in: "h \<in> set (eth_headers db) \<Longrightarrow> has_header db (hm_ID h)"
  by (auto simp: has_header_def list_ex_iff)

lemmas stage_defs = uncles_stage_def txs_stage_def rcts_stage_def states_stage_def storages_stage_def
  RetrieveUncleCIDsByHeaderID_def RetrieveTxCIDs_def RetrieveRctCIDsByHeaderID_def RetrieveStateCIDs_def RetrieveStorageCIDs_def

lemma stages_read [reads_intros]:
  "reads (uncles_stage hf i)" "reads (txs_stage tf i)" "reads (rcts_stage rf i ids)" "reads (states_stage geth sf i)"
  "reads (storages_stage geth gf i)"
  unfolding stage_defs by (intro reads_intros)+

lemma stages_Ok:
  assumes "h \<in> set (eth_headers (tx_db tx))"
  shows "uncles_stage (ss_HeaderFilter f) (hm_ID h) tx = (Ok us, tx') \<Longrightarrow> set us =
      (if \<not> hf_Off (ss_HeaderFilter f) \<and> hf_Uncles (ss_HeaderFilter f)
       then {u \<in> set (eth_uncles (tx_db tx)). um_HeaderID u = hm_ID h} else {})"
    and "txs_stage (ss_TxFilter f) (hm_ID h) tx = (Ok ts, tx') \<Longrightarrow> set ts = txs_for f (tx_db tx) h \<and> sorted (map tm_Index ts)"
    and "rcts_stage (ss_ReceiptFilter f) (hm_ID h) ids tx = (Ok rs, tx') \<Longrightarrow> set rs = rcts_for f (tx_db tx) h ids"
    and "states_stage geth (ss_StateFilter f) (hm_ID h) tx = (Ok ss, tx') \<Longrightarrow> set ss = states_for geth f (tx_db tx) h"
  unfolding stage_defs
  by (drule select_if_Ok, (auto simp: has_header_in [OF assms] txs_for_def rcts_for_def states_for_def storages_for_def
      rcts_joined_set image_iff split: if_splits)[1], blast?)+

lemma storages_stage_Ok:
  assumes "h \<in> set (eth_headers (tx_db tx))" "storages_stage geth (ss_StorageFilter f) (hm_ID h) tx = (Ok os, tx')"
  shows "set os = storages_for geth f (tx_db tx) h"
proof (cases "of_Off (ss_StorageFilter f)")
  case True
  then show ?thesis using assms(2) by (simp add: storages_stage_def tx_return_Ok storages_for_def)
next
  case False
  let ?P = "\<lambda>r s. om_StateID r = sm_ID s \<and> sm_HeaderID s = hm_ID h \<and> storage_where geth (ss_StorageFilter f) r s"
  have "os = concat (map (\<lambda>r. map (with_state_key r) (filter (?P r) (eth_states (tx_db tx)))) (eth_storages (tx_db tx)))"
    using select_if_Ok [OF assms(2) [unfolded stage_defs]] False by (auto simp: has_header_in [OF assms(1)])
  then have "set os = (\<Union>r\<in>set (eth_storages (tx_db tx)). with_state_key r ` {s \<in> set (eth_states (tx_db tx)). ?P r s})" by simp
  also have "\<dots> = storages_for geth f (tx_db tx) h" unfolding storages_for_def using False by auto
  finally show ?thesis .
qed

lemma retrieveHeader_Ok:
  assumes "retrieveHeader geth f n h e tx = (Ok (cw, e'), tx')" "h \<in> set (eth_headers (tx_db tx))"
  shows "wrapper_for geth f n (tx_db tx) h cw" "tx_db tx' = tx_db tx"
    and "e' \<longleftrightarrow> e \<and> hf_Off (ss_HeaderFilter f) \<and> nothing_in cw"
proof -
  from assms(1) obtain us tx1 ts tx2 rs tx3 ss tx4 os where
    steps: "uncles_stage (ss_HeaderFilter f) (hm_ID h) tx = (Ok us, tx1)" "txs_stage (ss_TxFilter f) (hm_ID h) tx1 = (Ok ts, tx2)"
      "rcts_stage (ss_ReceiptFilter f) (hm_ID h) (map tm_ID ts) tx2 = (Ok rs, tx3)"
      "states_stage geth (ss_StateFilter f) (hm_ID h) tx3 = (Ok ss, tx4)"
      "storages_stage geth (ss_StorageFilter f) (hm_ID h) tx4 = (Ok os, tx')"
    and cw: "cw = \<lparr>cw_BlockNumber = Some n, cw_Header = (if \<not> hf_Off (ss_HeaderFilter f) then h else zero_HeaderModel),
       cw_Uncles = us, cw_Transactions = ts, cw_Receipts = rs, cw_StateNodes = ss, cw_StorageNodes = os\<rparr>"
      "e' \<longleftrightarrow> e \<and> hf_Off (ss_HeaderFilter f) \<and> length ts = 0 \<and> length rs = 0 \<and> length ss = 0 \<and> length os = 0"
    unfolding retrieveHeader_def by (elim tx_bind_Ok) (auto simp: tx_return_Ok)
  have d1: "tx_db tx1 = tx_db tx" by (rule reads_db [OF stages_read(1) steps(1)])
  have d2: "tx_db tx2 = tx_db tx" using d1 reads_db [OF stages_read(2) steps(2)] by simp
  have d3: "tx_db tx3 = tx_db tx" using d2 reads_db [OF stages_read(3) steps(3)] by simp
  have d4: "tx_db tx4 = tx_db tx" using d3 reads_db [OF stages_read(4) steps(4)] by simp
  show "tx_db tx' = tx_db tx" using d4 reads_db [OF stages_read(5) steps(5)] by simp
  note h = assms(2)
  show "wrapper_for geth f n (tx_db tx) h cw"
    using stages_Ok(1) [OF h steps(1)] stages_Ok(2) [of h tx1, unfolded d1, OF h steps(2)]
      stages_Ok(3) [of h tx2, unfolded d2, OF h steps(3)] stages_Ok(4) [of h tx3, unfolded d3, OF h steps(4)]
      storages_stage_Ok [of h tx4, unfolded d4, OF h steps(5)] cw(1)
    by (simp add: wrapper_for_def)
  show "e' \<longleftrightarrow> e \<and> hf_Off (ss_HeaderFilter f) \<and> nothing_in cw" using cw by (simp add: nothing_in_def)
qed

lemma retrieve_rows:
  assumes "eth_Retrieve geth faults sq db (EthSettings f) n = Ok (cws, nothing)"
  shows "list_all2 (wrapper_for geth f n db) (filter (\<lambda>r. header_number r = n) (eth_headers db)) cws
    \<and> (nothing \<longleftrightarrow> (\<forall>cw\<in>set cws. hf_Off (ss_HeaderFilter f) \<and> nothing_in cw))"
proof -
  obtain tx where run: "retrieve_body geth f n (begin_tx faults sq db) = (Ok (cws, nothing), tx)"
    using assms by (auto simp: eth_Retrieve_def elim: read_tx_Ok)
  have b: "tx_db (begin_tx faults sq db) = db" by (simp add: begin_tx_def)
  from run obtain hs tx1 where hs: "hs = filter (\<lambda>r. header_number r = n) (eth_headers db)" "tx_db tx1 = db"
    and fold: "tx_fold (\<lambda>_ header (cws, isEmpty). tx_bind (retrieveHeader geth f n header isEmpty)
      (\<lambda>(cw, isEmpty). tx_return (cws @ [cw], isEmpty))) 0 hs ([], True) tx1 = (Ok (cws, nothing), tx)"
    unfolding retrieve_body_def RetrieveHeaderCIDs_def by (auto simp: b elim!: tx_bind_Ok tx_select_Ok)
  have "list_all2 (wrapper_for geth f n db) hs cws \<and> (nothing \<longleftrightarrow> (\<forall>cw\<in>set cws. hf_Off (ss_HeaderFilter f) \<and> nothing_in cw))"
  proof (rule wrappers_fold [OF fold hs(2)])
    fix h e cw e' t t'
    assume "h \<in> set hs" "tx_db t = db" "retrieveHeader geth f n h e t = (Ok (cw, e'), t')"
    with retrieveHeader_Ok [of geth f n h e t cw e' t'] hs(1)
    show "wrapper_for geth f n db h cw \<and> tx_db t' = db \<and> (e' \<longleftrightarrow> e \<and> hf_Off (ss_HeaderFilter f) \<and> nothing_in cw)" by auto
  qed
  with hs show ?thesis by simp
qed

text \<open>
  C17. Retrieval is sound and complete. When \<open>Retrieve\<close> succeeds it returns one wrapper for each header
  at the height, in which every list holds exactly the rows below that header that pass the filter of
  their kind, the transactions in the order of their indices; and it reports that nothing was found
  exactly when no header is wanted and every list is empty.
\<close>

theorem eth_Retrieve_rows:
  assumes "eth_Retrieve geth faults sq db (EthSettings f) n = Ok (cws, nothing)"
  shows "list_all2 (wrapper_for geth f n db) (filter (\<lambda>r. header_number r = n) (eth_headers db)) cws
    \<and> (nothing \<longleftrightarrow> (\<forall>cw\<in>set cws. hf_Off (ss_HeaderFilter f) \<and> nothing_in cw))"
  using assms by (rule retrieve_rows)

theorem eth_Retrieve_rows_witness:
  "\<exists>cws nothing. eth_Retrieve sample_geth [] empty_seq gaps_db (EthSettings (sample_settings 0 0)) 4 = Ok (cws, nothing)
    \<and> list_all2 (wrapper_for sample_geth (sample_settings 0 0) 4 gaps_db) (filter (\<lambda>r. header_number r = 4) (eth_headers gaps_db)) cws"
proof -
  have "eth_Retrieve sample_geth [] empty_seq gaps_db (EthSettings (sample_settings 0 0)) 4
    = Ok ([\<lparr>cw_BlockNumber = Some 4, cw_Header = eth_headers gaps_db ! 2, cw_Uncles = [], cw_Transactions = [],
        cw_Receipts = [], cw_StateNodes = [], cw_StorageNodes = []\<rparr>], False)"
    by (simp add: eth_Retrieve_def read_tx_def run_tx_def next_fault_def begin_tx_def outer_err_def body_return_def
      retrieve_body_def RetrieveHeaderCIDs_def retrieveHeader_def stage_defs tx_bind_def tx_return_def tx_select_def sql_exec_def
      select_stmt_def sample_settings_def gaps_db_def empty_db_def header_number_def zero_HeaderModel_def pg_int4_def
      rcts_joined_def rct_where_def hasTopics_def)
  then show ?thesis using eth_Retrieve_rows by blast
qed

end
