(* ===== verification/Ipld_Fetch.thy ===== *)
theory Ipld_Fetch
  imports Sql_Query Chain_Data "HOL-Library.Multiset"
begin

text \<open>
  What the fetchers of both chains share: rows read from the block store inside a transaction, and blocks
  asked from an IPFS block service, which is a parameter.
\<close>

text \<open>\<open>shared.CIDsForFetching\<close>\<close>

datatype CIDsForFetching = EthWrapper CIDWrapper | BtcWrapper BtcCIDWrapper

fun Wrapper_T :: "CIDsForFetching \<Rightarrow> string" where
  "Wrapper_T (EthWrapper _) = ''*eth.CIDWrapper''"
| "Wrapper_T (BtcWrapper _) = ''*btc.CIDWrapper''"

subsection \<open>Rows of the block store\<close>

fun tx_map :: "('x \<Rightarrow> ('db, 'sq, 'y) txm) \<Rightarrow> 'x list \<Rightarrow> ('db, 'sq, 'y list) txm" where
  "tx_map f [] = tx_return []"
| "tx_map f (x # xs) = tx_bind (f x) (\<lambda>y. tx_bind (tx_map f xs) (\<lambda>ys. tx_return (y # ys)))"

text \<open>\<open>fmt.Errorf("...: %s", err.Error())\<close>\<close>

definition tx_wrap :: "string \<Rightarrow> ('db, 'sq, 'a) txm \<Rightarrow> ('db, 'sq, 'a) txm" where
  "tx_wrap msg m tx = (case m tx of (Err e, tx') \<Rightarrow> (Err (Wrapf msg [] e), tx') | r \<Rightarrow> r)"

definition fetch_row :: "string \<Rightarrow> string \<Rightarrow> BlockModel pg_txm" where
  "fetch_row mhKey c = tx_bind (FetchIPLDByMhKey mhKey) (\<lambda>d. tx_return \<lparr>bm_CID = c, bm_Data = d\<rparr>)"

subsection \<open>An IPFS block service\<close>

text \<open>
  \<open>GetBlock\<close> and \<open>GetBlocks\<close> of the block service, on a world of any type; what the channel of \<open>GetBlocks\<close>
  delivers is a list.
\<close>

record 'w block_service =
  bs_GetBlock :: "Cid \<Rightarrow> ('w, ipld_node) io"
  bs_GetBlocks :: "Cid list \<Rightarrow> ('w, ipld_node list) io"

definition block_model :: "ipfs_lib \<Rightarrow> ipld_node \<Rightarrow> BlockModel" where
  "block_model ipfs b = \<lparr>bm_CID = Cid_String ipfs (node_Cid b), bm_Data = node_RawData b\<rparr>"

definition errUnexpectedNumberOfIPLDs :: go_error where
  "errUnexpectedNumberOfIPLDs = Errorf ''ipfs batch fetch returned unexpected number of IPLDs'' []"

definition fetch :: "'w block_service \<Rightarrow> Cid \<Rightarrow> ('w, ipld_node) io" where
  "fetch bs c = bs_GetBlock bs c"

definition fetchBatch :: "'w block_service \<Rightarrow> Cid list \<Rightarrow> ('w, ipld_node list) io" where
  "fetchBatch bs cids = bs_GetBlocks bs cids"

definition fetch_all :: "ipfs_lib \<Rightarrow> 'w block_service \<Rightarrow> string list \<Rightarrow> ('w, BlockModel list) io" where
  "fetch_all ipfs bs texts =
     io_bind (io_lift (outcome_map (cid_Decode ipfs) texts)) (\<lambda>cids.
     io_bind (fetchBatch bs cids) (\<lambda>blks.
     io_lift (if length blks \<noteq> length cids then Err errUnexpectedNumberOfIPLDs else Ok (map (block_model ipfs) blks))))"

definition fetch_one :: "ipfs_lib \<Rightarrow> 'w block_service \<Rightarrow> string \<Rightarrow> ('w, BlockModel) io" where
  "fetch_one ipfs bs c =
     io_bind (io_lift (cid_Decode ipfs c)) (\<lambda>dc.
     io_bind (fetch bs dc) (\<lambda>b. io_return (block_model ipfs b)))"

subsection \<open>What a fetch returns\<close>

text \<open>A block that is stored under the key of a row, with the row's cid.\<close>

definition block_for :: "pg_db \<Rightarrow> string \<Rightarrow> string \<Rightarrow> BlockModel \<Rightarrow> bool" where
  "block_for db mhKey c b \<longleftrightarrow> bm_CID b = c \<and> map_of (db_blocks db) mhKey = Some (bm_Data b)"

lemma fetch_row_begin:
  "stored db k \<Longrightarrow> \<exists>b. fetch_row k c (begin_tx [] sq db) = (Ok b, begin_tx [] sq db) \<and> block_for db k c b"
  by (auto simp: stored_def fetch_row_def FetchIPLDByMhKey_def tx_bind_def tx_lift_def tx_return_def sql_exec_def
    get_block_def begin_tx_def next_fault_def block_for_def)

lemma tx_map_begin:
  assumes "\<forall>x\<in>set xs. \<exists>y. f x t = (Ok y, t) \<and> P x y"
  shows "\<exists>ys. tx_map f xs t = (Ok ys, t) \<and> list_all2 P xs ys"
  using assms
proof (induction xs)
  case (Cons x xs)
  then obtain y ys where "f x t = (Ok y, t)" "P x y" "tx_map f xs t = (Ok ys, t)" "list_all2 P xs ys" by auto
  then show ?case by (auto simp: tx_bind_def tx_return_def)
qed (simp add: tx_return_def)

lemma tx_map_rows:
  assumes "\<forall>x\<in>set xs. stored db (key x)"
  shows "\<exists>bs. tx_map (\<lambda>x. fetch_row (key x) (c x)) xs (begin_tx [] sq db) = (Ok bs, begin_tx [] sq db)
    \<and> list_all2 (\<lambda>x. block_for db (key x) (c x)) xs bs"
  using assms by (intro tx_map_begin ballI fetch_row_begin) simp

lemma tx_map_nodes:
  assumes "\<forall>x\<in>set xs. stored db (key x)"
  shows "\<exists>ys. tx_map (\<lambda>x. tx_bind (fetch_row (key x) (c x)) (\<lambda>b. tx_return (mk x b))) xs (begin_tx [] sq db)
      = (Ok ys, begin_tx [] sq db)
    \<and> list_all2 (\<lambda>x y. \<exists>b. block_for db (key x) (c x) b \<and> y = mk x b) xs ys"
proof (intro tx_map_begin ballI)
  fix x assume "x \<in> set xs"
  with assms obtain b where "fetch_row (key x) (c x) (begin_tx [] sq db) = (Ok b, begin_tx [] sq db)"
    "block_for db (key x) (c x) b" using fetch_row_begin by blast
  then show "\<exists>y. tx_bind (fetch_row (key x) (c x)) (\<lambda>b. tx_return (mk x b)) (begin_tx [] sq db) = (Ok y, begin_tx [] sq db)
    \<and> (\<exists>b. block_for db (key x) (c x) b \<and> y = mk x b)" by (auto simp: tx_bind_def tx_return_def)
qed

lemma list_all2_member: "list_all2 P xs ys \<Longrightarrow> y \<in> set ys \<Longrightarrow> \<exists>x\<in>set xs. P x y"
  by (induction rule: list_all2_induct) auto

text \<open>A row's cid is the text of a cid, and its key the key of that cid.\<close>

definition cid_row :: "ipfs_lib \<Rightarrow> string \<Rightarrow> string \<Rightarrow> bool" where
  "cid_row ipfs c mhKey \<longleftrightarrow> (\<exists>dc. cid_Decode ipfs c = Ok dc \<and> Cid_String ipfs dc = c \<and> MultihashKeyFromCID ipfs dc = mhKey)"

text \<open>
  A block service over the same blocks: it finds every block that is stored, and a batch of different
  cids completely, in any order.
\<close>

definition block_lookup :: "ipfs_lib \<Rightarrow> pg_db \<Rightarrow> Cid \<Rightarrow> bytes option" where
  "block_lookup ipfs db c = map_of (db_blocks db) (MultihashKeyFromCID ipfs c)"

definition serves :: "ipfs_lib \<Rightarrow> pg_db \<Rightarrow> 'w block_service \<Rightarrow> bool" where
  "serves ipfs db bs \<longleftrightarrow>
     (\<forall>c d w. block_lookup ipfs db c = Some d \<longrightarrow> (\<exists>w'. bs_GetBlock bs c w = (Ok \<lparr>node_Cid = c, node_RawData = d\<rparr>, w')))
   \<and> (\<forall>cids ds w. distinct cids \<longrightarrow> map (block_lookup ipfs db) cids = map Some ds \<longrightarrow>
        (\<exists>blks w'. bs_GetBlocks bs cids w = (Ok blks, w') \<and>
           mset blks = mset (map2 (\<lambda>c d. \<lparr>node_Cid = c, node_RawData = d\<rparr>) cids ds)))"

lemma rows_decode:
  assumes "\<forall>x\<in>set xs. cid_row ipfs (c x) (key x)" "list_all2 (\<lambda>x. block_for db (key x) (c x)) xs bms"
  shows "\<exists>dcs. outcome_map (cid_Decode ipfs) (map c xs) = Ok dcs \<and> map (Cid_String ipfs) dcs = map c xs
    \<and> map (block_lookup ipfs db) dcs = map Some (map bm_Data bms)
    \<and> map2 (\<lambda>dc d. block_model ipfs \<lparr>node_Cid = dc, node_RawData = d\<rparr>) dcs (map bm_Data bms) = bms"
  using assms(2,1)
proof (induction rule: list_all2_induct)
  case (Cons x xs bm bms)
  then obtain dcs where ih: "outcome_map (cid_Decode ipfs) (map c xs) = Ok dcs" "map (Cid_String ipfs) dcs = map c xs"
    "map (block_lookup ipfs db) dcs = map Some (map bm_Data bms)"
    "map2 (\<lambda>dc d. block_model ipfs \<lparr>node_Cid = dc, node_RawData = d\<rparr>) dcs (map bm_Data bms) = bms" by auto
  from Cons.prems obtain dc where "cid_Decode ipfs (c x) = Ok dc" "Cid_String ipfs dc = c x" "MultihashKeyFromCID ipfs dc = key x"
    by (auto simp: cid_row_def)
  with ih Cons.hyps(1) show ?case
    by (intro exI [of _ "dc # dcs"]) (cases bm, auto simp: block_for_def block_lookup_def [of _ _ dc] block_model_def)
qed simp

lemma fetch_all_rows:
  assumes "serves ipfs db bs" "\<forall>x\<in>set xs. cid_row ipfs (c x) (key x)" "distinct (map c xs)"
    and "list_all2 (\<lambda>x. block_for db (key x) (c x)) xs bms"
  shows "\<exists>bms' w'. fetch_all ipfs bs (map c xs) w = (Ok bms', w') \<and> mset bms' = mset bms"
proof -
  obtain dcs where dcs: "outcome_map (cid_Decode ipfs) (map c xs) = Ok dcs" "map (Cid_String ipfs) dcs = map c xs"
    "map (block_lookup ipfs db) dcs = map Some (map bm_Data bms)"
    "map2 (\<lambda>dc d. block_model ipfs \<lparr>node_Cid = dc, node_RawData = d\<rparr>) dcs (map bm_Data bms) = bms"
    using rows_decode [OF assms(2,4)] by blast
  let ?nodes = "map2 (\<lambda>c d. \<lparr>node_Cid = c, node_RawData = d\<rparr>) dcs (map bm_Data bms)"
  have "distinct dcs" using assms(3) dcs(2) by (metis distinct_map)
  then obtain blks w' where blks: "bs_GetBlocks bs dcs w = (Ok blks, w')" "mset blks = mset ?nodes"
    using assms(1) dcs(3) unfolding serves_def by blast
  have "length blks = length dcs"
    using mset_eq_length [OF blks(2)] arg_cong [OF dcs(3), of length] by simp
  then have "fetch_all ipfs bs (map c xs) w = (Ok (map (block_model ipfs) blks), w')"
    by (simp add: fetch_all_def fetchBatch_def io_bind_def io_lift_def dcs(1) blks(1))
  moreover have "mset (map (block_model ipfs) blks) = mset (map (block_model ipfs) ?nodes)"
    unfolding mset_map [of "block_model ipfs"] blks(2) ..
  moreover have "map (block_model ipfs) ?nodes = bms" using dcs(4) by (simp add: comp_def case_prod_beta')
  ultimately show ?thesis by metis
qed

lemma fetch_one_row:
  assumes "serves ipfs db bs" "cid_row ipfs c key" "block_for db key c b"
  shows "\<exists>w'. fetch_one ipfs bs c w = (Ok b, w')"
proof -
  from assms(2) obtain dc where dc: "cid_Decode ipfs c = Ok dc" "Cid_String ipfs dc = c"
    "MultihashKeyFromCID ipfs dc = key" by (auto simp: cid_row_def)
  then have "block_lookup ipfs db dc = Some (bm_Data b)" using assms(3) by (simp add: block_lookup_def block_for_def)
  then obtain w1 where "bs_GetBlock bs dc w = (Ok \<lparr>node_Cid = dc, node_RawData = bm_Data b\<rparr>, w1)"
    using assms(1) unfolding serves_def by blast
  moreover have "block_model ipfs \<lparr>node_Cid = dc, node_RawData = bm_Data b\<rparr> = b"
    using dc assms(3) by (simp add: block_model_def block_for_def)
  ultimately show ?thesis using dc(1) by (simp add: fetch_one_def io_bind_def io_lift_def io_return_def fetch_def)
qed

lemma fetch_nodes_rows:
  assumes "serves ipfs db bs" "\<forall>x\<in>set xs. \<not> skip x \<longrightarrow> cid_row ipfs (c x) (key x)"
    and "list_all2 (\<lambda>x y. \<exists>b. block_for db (key x) (c x) b \<and> y = mk x b) (filter (\<lambda>x. \<not> skip x) xs) ys"
  shows "\<exists>w'. io_for (\<lambda>_ x acc. if skip x then io_return acc
      else io_bind (io_lift (cid_Decode ipfs (c x))) (\<lambda>dc.
           io_bind (fetch bs dc) (\<lambda>b. io_return (acc @ [mk x (block_model ipfs b)])))) k xs acc w = (Ok (acc @ ys), w')"
  using assms(2,3)
proof (induction xs arbitrary: k acc ys w)
  case (Cons x xs)
  show ?case
  proof (cases "skip x")
    case True
    with Cons show ?thesis by (simp add: io_bind_def io_return_def)
  next
    case False
    with Cons.prems(2) obtain y ys' b where ys: "ys = y # ys'" "block_for db (key x) (c x) b" "y = mk x b"
      and rest: "list_all2 (\<lambda>x y. \<exists>b. block_for db (key x) (c x) b \<and> y = mk x b) (filter (\<lambda>x. \<not> skip x) xs) ys'"
      by (auto simp: list_all2_Cons1)
    from False Cons.prems(1) obtain dc where dc: "cid_Decode ipfs (c x) = Ok dc" "Cid_String ipfs dc = c x"
      "MultihashKeyFromCID ipfs dc = key x" by (auto simp: cid_row_def)
    then have "block_lookup ipfs db dc = Some (bm_Data b)" using ys(2) by (simp add: block_lookup_def block_for_def)
    then obtain w1 where "bs_GetBlock bs dc w = (Ok \<lparr>node_Cid = dc, node_RawData = bm_Data b\<rparr>, w1)"
      using assms(1) unfolding serves_def by blast
    moreover have "block_model ipfs \<lparr>node_Cid = dc, node_RawData = bm_Data b\<rparr> = b"
      using dc ys(2) by (simp add: block_model_def block_for_def)
    moreover note Cons.IH [OF _ rest, of "k + 1" "acc @ [y]" w1]
    ultimately show ?thesis using Cons.prems(1) False dc(1) ys(1,3)
      by (simp add: io_bind_def io_return_def io_lift_def fetch_def)
  qed
qed (simp add: io_return_def)

text \<open>A block service on a database.\<close>

definition sample_service :: "ipfs_lib \<Rightarrow> pg_db \<Rightarrow> unit block_service" where
  "sample_service ipfs db =
     (let get = (\<lambda>c. case block_lookup ipfs db c of
            None \<Rightarrow> Err (Errorf ''blockservice: key not found'' []) | Some d \<Rightarrow> Ok \<lparr>node_Cid = c, node_RawData = d\<rparr>)
      in \<lparr>bs_GetBlock = (\<lambda>c w. (get c, w)), bs_GetBlocks = (\<lambda>cs w. (outcome_map get (rev cs), w))\<rparr>)"

lemma sample_service_serves: "serves ipfs db (sample_service ipfs db)"
proof -
  let ?get = "\<lambda>c. case block_lookup ipfs db c of
    None \<Rightarrow> Err (Errorf ''blockservice: key not found'' []) | Some d \<Rightarrow> Ok \<lparr>node_Cid = c, node_RawData = d\<rparr>"
  have "outcome_map ?get (rev cs) = Ok (rev (map2 (\<lambda>c d. \<lparr>node_Cid = c, node_RawData = d\<rparr>) cs ds))"
    if "map (block_lookup ipfs db) cs = map Some ds" for cs ds
    using that unfolding outcome_map_Ok_iff list_all2_rev
    by (auto simp: list_all2_conv_all_nth list_eq_iff_nth_eq)
  then show ?thesis unfolding serves_def sample_service_def Let_def by (auto simp del: mset_map)
qed

end
