(* ===== verification/Eth_Fetcher.thy ===== *)
theory Eth_Fetcher
  imports Eth_Retriever Ipld_Fetch
begin

text \<open>
  Package \<open>eth\<close>, the fetchers: \<open>ipld_pg_fetcher.go\<close> reads the blocks of a wrapper from the block store in
  one transaction, \<open>ipld_fetcher.go\<close> asks an IPFS block service for them, which is a parameter.
\<close>

definition wrong_wrapper :: "CIDsForFetching \<Rightarrow> go_error" where
  "wrong_wrapper cids = Errorf ''eth fetcher: expected cids type %T got %T'' [''*eth.CIDWrapper'', Wrapper_T cids]"

definition no_difficulty :: go_error where
  "no_difficulty = Errorf ''eth fetcher: unable to set total difficulty'' []"

subsection \<open>From the block store (ipld\_pg\_fetcher.go)\<close>

definition PG_FetchHeader :: "HeaderModel \<Rightarrow> BlockModel pg_txm" where
  "PG_FetchHeader c = fetch_row (hm_MhKey c) (hm_CID c)"

definition PG_FetchUncles :: "UncleModel list \<Rightarrow> BlockModel list pg_txm" where
  "PG_FetchUncles cids = tx_map (\<lambda>c. fetch_row (um_MhKey c) (um_CID c)) cids"

definition PG_FetchTrxs :: "TxModel list \<Rightarrow> BlockModel list pg_txm" where
  "PG_FetchTrxs cids = tx_map (\<lambda>c. fetch_row (tm_MhKey c) (tm_CID c)) cids"

definition PG_FetchRcts :: "ReceiptModel list \<Rightarrow> BlockModel list pg_txm" where
  "PG_FetchRcts cids = tx_map (\<lambda>c. fetch_row (rm_MhKey c) (rm_CID c)) cids"

definition state_of :: "geth_lib \<Rightarrow> StateNodeModel \<Rightarrow> BlockModel \<Rightarrow> StateNode" where
  "state_of geth stateNode bm = \<lparr>st_Type = ResolveToNodeType (sm_NodeType stateNode),
     st_StateLeafKey = HexToHash geth (sm_StateKey stateNode), st_Path = sm_Path stateNode, st_IPLD = bm\<rparr>"

definition PG_FetchState :: "geth_lib \<Rightarrow> StateNodeModel list \<Rightarrow> StateNode list pg_txm" where
  "PG_FetchState geth cids =
     tx_map (\<lambda>c. tx_bind (fetch_row (sm_MhKey c) (sm_CID c)) (\<lambda>bm. tx_return (state_of geth c bm)))
       (filter (\<lambda>c. sm_CID c \<noteq> '''') cids)"

definition storage_of :: "geth_lib \<Rightarrow> StorageNodeWithStateKeyModel \<Rightarrow> BlockModel \<Rightarrow> StorageNode" where
  "storage_of geth storageNode bm = \<lparr>so_Type = ResolveToNodeType (ok_NodeType storageNode),
     so_StateLeafKey = HexToHash geth (ok_StateKey storageNode),
     so_StorageLeafKey = HexToHash geth (ok_StorageKey storageNode), so_Path = ok_Path storageNode, so_IPLD = bm\<rparr>"

definition PG_FetchStorage :: "geth_lib \<Rightarrow> StorageNodeWithStateKeyModel list \<Rightarrow> StorageNode list pg_txm" where
  "PG_FetchStorage geth cids =
     tx_map (\<lambda>c. tx_bind (fetch_row (ok_MhKey c) (ok_CID c)) (\<lambda>bm. tx_return (storage_of geth c bm)))
       (filter (\<lambda>c. \<not> (ok_CID c = '''' \<or> ok_StateKey c = '''')) cids)"

definition pg_fetch_body :: "geth_lib \<Rightarrow> CIDWrapper \<Rightarrow> int \<Rightarrow> IPLDs pg_txm" where
  "pg_fetch_body geth cw td =
     tx_bind (tx_wrap ''eth pg fetcher: header fetching error: %s'' (PG_FetchHeader (cw_Header cw))) (\<lambda>header.
     tx_bind (tx_wrap ''eth pg fetcher: uncle fetching error: %s'' (PG_FetchUncles (cw_Uncles cw))) (\<lambda>uncles.
     tx_bind (tx_wrap ''eth pg fetcher: transaction fetching error: %s'' (PG_FetchTrxs (cw_Transactions cw))) (\<lambda>trxs.
     tx_bind (tx_wrap ''eth pg fetcher: receipt fetching error: %s'' (PG_FetchRcts (cw_Receipts cw))) (\<lambda>rcts.
     tx_bind (tx_wrap ''eth pg fetcher: state fetching error: %s'' (PG_FetchState geth (cw_StateNodes cw))) (\<lambda>states.
     tx_bind (tx_wrap ''eth pg fetcher: storage fetching error: %s'' (PG_FetchStorage geth (cw_StorageNodes cw))) (\<lambda>storages.
     tx_return \<lparr>ip_BlockNumber = cw_BlockNumber cw, ip_TotalDifficulty = Some td, ip_Header = header, ip_Uncles = uncles,
       ip_Transactions = trxs, ip_Receipts = rcts, ip_StateNodes = states, ip_StorageNodes = storages\<rparr>))))))"

definition IPLDPGFetcher_Fetch ::
    "geth_lib \<Rightarrow> bool list \<Rightarrow> pg_seq \<Rightarrow> pg_db \<Rightarrow> CIDsForFetching \<Rightarrow> IPLDs outcome" where
  "IPLDPGFetcher_Fetch geth faults sq db cids =
     (case cids of
        EthWrapper cw \<Rightarrow>
          (case big_SetString (hm_TotalDifficulty (cw_Header cw)) of
             None \<Rightarrow> Err no_difficulty
           | Some td \<Rightarrow> read_tx (pg_fetch_body geth cw td) faults sq db)
      | _ \<Rightarrow> Err (wrong_wrapper cids))"

subsection \<open>From an IPFS block service (ipld\_fetcher.go)\<close>

definition FetchHeader :: "ipfs_lib \<Rightarrow> 'w block_service \<Rightarrow> HeaderModel \<Rightarrow> ('w, BlockModel) io" where
  "FetchHeader ipfs bs c = fetch_one ipfs bs (hm_CID c)"

definition FetchUncles :: "ipfs_lib \<Rightarrow> 'w block_service \<Rightarrow> UncleModel list \<Rightarrow> ('w, BlockModel list) io" where
  "FetchUncles ipfs bs cids = fetch_all ipfs bs (map um_CID cids)"

definition FetchTrxs :: "ipfs_lib \<Rightarrow> 'w block_service \<Rightarrow> TxModel list \<Rightarrow> ('w, BlockModel list) io" where
  "FetchTrxs ipfs bs cids = fetch_all ipfs bs (map tm_CID cids)"

definition FetchRcts :: "ipfs_lib \<Rightarrow> 'w block_service \<Rightarrow> ReceiptModel list \<Rightarrow> ('w, BlockModel list) io" where
  "FetchRcts ipfs bs cids = fetch_all ipfs bs (map rm_CID cids)"

definition FetchState :: "geth_lib \<Rightarrow> ipfs_lib \<Rightarrow> 'w block_service \<Rightarrow> StateNodeModel list \<Rightarrow> ('w, StateNode list) io" where
  "FetchState geth ipfs bs cids =
     io_for (\<lambda>_ stateNode stateNodes.
       if sm_CID stateNode = '''' then io_return stateNodes
       else io_bind (io_lift (cid_Decode ipfs (sm_CID stateNode))) (\<lambda>dc.
            io_bind (fetch bs dc) (\<lambda>b. io_return (stateNodes @ [state_of geth stateNode (block_model ipfs b)])))) 0 cids []"

definition FetchStorage ::
    "geth_lib \<Rightarrow> ipfs_lib \<Rightarrow> 'w block_service \<Rightarrow> StorageNodeWithStateKeyModel list \<Rightarrow> ('w, StorageNode list) io" where
  "FetchStorage geth ipfs bs cids =
     io_for (\<lambda>_ storageNode storageNodes.
       if ok_CID storageNode = '''' \<or> ok_StateKey storageNode = '''' then io_return storageNodes
       else io_bind (io_lift (cid_Decode ipfs (ok_CID storageNode))) (\<lambda>dc.
            io_bind (fetch bs dc) (\<lambda>b. io_return (storageNodes @ [storage_of geth storageNode (block_model ipfs b)])))) 0 cids []"

definition IPLDFetcher_Fetch :: "geth_lib \<Rightarrow> ipfs_lib \<Rightarrow> 'w block_service \<Rightarrow> CIDsForFetching \<Rightarrow> ('w, IPLDs) io" where
  "IPLDFetcher_Fetch geth ipfs bs cids =
     (case cids of
        EthWrapper cw \<Rightarrow>
          (case big_SetString (hm_TotalDifficulty (cw_Header cw)) of
             None \<Rightarrow> io_lift (Err no_difficulty)
           | Some td \<Rightarrow>
               io_bind (FetchHeader ipfs bs (cw_Header cw)) (\<lambda>header.
               io_bind (FetchUncles ipfs bs (cw_Uncles cw)) (\<lambda>uncles.
               io_bind (FetchTrxs ipfs bs (cw_Transactions cw)) (\<lambda>trxs.
               io_bind (FetchRcts ipfs bs (cw_Receipts cw)) (\<lambda>rcts.
               io_bind (FetchState geth ipfs bs (cw_StateNodes cw)) (\<lambda>states.
               io_bind (FetchStorage geth ipfs bs (cw_StorageNodes cw)) (\<lambda>storages.
               io_return \<lparr>ip_BlockNumber = cw_BlockNumber cw, ip_TotalDifficulty = Some td, ip_Header = header,
                 ip_Uncles = uncles, ip_Transactions = trxs, ip_Receipts = rcts, ip_StateNodes = states,
                 ip_StorageNodes = storages\<rparr>)))))))
      | _ \<Rightarrow> io_lift (Err (wrong_wrapper cids)))"

subsection \<open>What a fetch from the block store returns\<close>

text \<open>The answer to a wrapper, list by list: nodes without a cid, and storage nodes without a state key, are skipped.\<close>

definition iplds_for :: "geth_lib \<Rightarrow> pg_db \<Rightarrow> CIDWrapper \<Rightarrow> IPLDs \<Rightarrow> bool" where
  "iplds_for geth db cw i \<longleftrightarrow>
     ip_BlockNumber i = cw_BlockNumber cw \<and> ip_TotalDifficulty i = big_SetString (hm_TotalDifficulty (cw_Header cw))
   \<and> block_for db (hm_MhKey (cw_Header cw)) (hm_CID (cw_Header cw)) (ip_Header i)
   \<and> list_all2 (\<lambda>r. block_for db (um_MhKey r) (um_CID r)) (cw_Uncles cw) (ip_Uncles i)
   \<and> list_all2 (\<lambda>r. block_for db (tm_MhKey r) (tm_CID r)) (cw_Transactions cw) (ip_Transactions i)
   \<and> list_all2 (\<lambda>r. block_for db (rm_MhKey r) (rm_CID r)) (cw_Receipts cw) (ip_Receipts i)
   \<and> list_all2 (\<lambda>r y. \<exists>b. block_for db (sm_MhKey r) (sm_CID r) b \<and> y = state_of geth r b)
       (filter (\<lambda>r. sm_CID r \<noteq> '''') (cw_StateNodes cw)) (ip_StateNodes i)
   \<and> list_all2 (\<lambda>r y. \<exists>b. block_for db (ok_MhKey r) (ok_CID r) b \<and> y = storage_of geth r b)
       (filter (\<lambda>r. \<not> (ok_CID r = '''' \<or> ok_StateKey r = '''')) (cw_StorageNodes cw)) (ip_StorageNodes i)"

definition rows_stored :: "pg_db \<Rightarrow> CIDWrapper \<Rightarrow> bool" where
  "rows_stored db cw \<longleftrightarrow> stored db (hm_MhKey (cw_Header cw)) \<and> (\<forall>r\<in>set (cw_Uncles cw). stored db (um_MhKey r))
   \<and> (\<forall>r\<in>set (cw_Transactions cw). stored db (tm_MhKey r)) \<and> (\<forall>r\<in>set (cw_Receipts cw). stored db (rm_MhKey r))
   \<and> (\<forall>r\<in>set (cw_StateNodes cw). stored db (sm_MhKey r)) \<and> (\<forall>r\<in>set (cw_StorageNodes cw). stored db (ok_MhKey r))"

lemma pg_Fetch_stored:
  assumes "rows_stored db cw" "big_SetString (hm_TotalDifficulty (cw_Header cw)) = Some td"
  shows "\<exists>i. IPLDPGFetcher_Fetch geth [] sq db (EthWrapper cw) = Ok i \<and> iplds_for geth db cw i"
proof -
  let ?t = "begin_tx [] sq db"
  note st = assms(1) [unfolded rows_stored_def]
  obtain h where h: "PG_FetchHeader (cw_Header cw) ?t = (Ok h, ?t)"
    "block_for db (hm_MhKey (cw_Header cw)) (hm_CID (cw_Header cw)) h"
    unfolding PG_FetchHeader_def using fetch_row_begin [OF st [THEN conjunct1]] by blast
  obtain us where us: "PG_FetchUncles (cw_Uncles cw) ?t = (Ok us, ?t)"
    "list_all2 (\<lambda>r. block_for db (um_MhKey r) (um_CID r)) (cw_Uncles cw) us"
    unfolding PG_FetchUncles_def using tx_map_rows [of "cw_Uncles cw" db um_MhKey um_CID sq] st by blast
  obtain ts where ts: "PG_FetchTrxs (cw_Transactions cw) ?t = (Ok ts, ?t)"
    "list_all2 (\<lambda>r. block_for db (tm_MhKey r) (tm_CID r)) (cw_Transactions cw) ts"
    unfolding PG_FetchTrxs_def using tx_map_rows [of "cw_Transactions cw" db tm_MhKey tm_CID sq] st by blast
  obtain rs where rs: "PG_FetchRcts (cw_Receipts cw) ?t = (Ok rs, ?t)"
    "list_all2 (\<lambda>r. block_for db (rm_MhKey r) (rm_CID r)) (cw_Receipts cw) rs"
    unfolding PG_FetchRcts_def using tx_map_rows [of "cw_Receipts cw" db rm_MhKey rm_CID sq] st by blast
  let ?ss = "filter (\<lambda>r. sm_CID r \<noteq> '''') (cw_StateNodes cw)"
  obtain ss where ss: "PG_FetchState geth (cw_StateNodes cw) ?t = (Ok ss, ?t)"
    "list_all2 (\<lambda>r y. \<exists>b. block_for db (sm_MhKey r) (sm_CID r) b \<and> y = state_of geth r b) ?ss ss"
    unfolding PG_FetchState_def using tx_map_nodes [of ?ss db sm_MhKey sm_CID "state_of geth" sq] st by auto
  let ?os = "filter (\<lambda>r. \<not> (ok_CID r = '''' \<or> ok_StateKey r = '''')) (cw_StorageNodes cw)"
  obtain os where os: "PG_FetchStorage geth (cw_StorageNodes cw) ?t = (Ok os, ?t)"
    "list_all2 (\<lambda>r y. \<exists>b. block_for db (ok_MhKey r) (ok_CID r) b \<and> y = storage_of geth r b) ?os os"
    unfolding PG_FetchStorage_def using tx_map_nodes [of ?os db ok_MhKey ok_CID "storage_of geth" sq] st by auto
  let ?i = "\<lparr>ip_BlockNumber = cw_BlockNumber cw, ip_TotalDifficulty = Some td, ip_Header = h, ip_Uncles = us,
    ip_Transactions = ts, ip_Receipts = rs, ip_StateNodes = ss, ip_StorageNodes = os\<rparr>"
  have "pg_fetch_body geth cw td ?t = (Ok ?i, ?t)"
    by (simp add: pg_fetch_body_def tx_bind_def tx_wrap_def tx_return_def h(1) us(1) ts(1) rs(1) ss(1) os(1))
  then have "IPLDPGFetcher_Fetch geth [] sq db (EthWrapper cw) = Ok ?i"
    by (simp add: IPLDPGFetcher_Fetch_def assms(2) read_begin)
  moreover have "iplds_for geth db cw ?i"
    using h(2) us(2) ts(2) rs(2) ss(2) os(2) assms(2) by (simp add: iplds_for_def)
  ultimately show ?thesis by blast
qed

lemma wrapper_stored:
  assumes "wrapper_for geth f n db h cw" "h \<in> set (eth_headers db)" "deferred_fk db" "\<not> hf_Off (ss_HeaderFilter f)"
  shows "rows_stored db cw \<and> cw_Header cw = h"
proof -
  note fk = assms(3) [unfolded deferred_fk_def blocks_fk_def list_all_iff set_map ball_simps]
  note w = assms(1) [unfolded wrapper_for_def]
  have "\<forall>r\<in>set (cw_Uncles cw). stored db (um_MhKey r)" using w fk by auto
  moreover have "\<forall>r\<in>set (cw_Transactions cw). stored db (tm_MhKey r)"
    using w fk by (auto simp: txs_for_def split: if_splits)
  moreover have "\<forall>r\<in>set (cw_Receipts cw). stored db (rm_MhKey r)"
    using w fk by (auto simp: rcts_for_def split: if_splits)
  moreover have "\<forall>r\<in>set (cw_StateNodes cw). stored db (sm_MhKey r)"
    using w fk by (auto simp: states_for_def split: if_splits)
  moreover have "\<forall>r\<in>set (cw_StorageNodes cw). stored db (ok_MhKey r)"
    using w fk by (auto simp: storages_for_def with_state_key_def split: if_splits)
  moreover have "cw_Header cw = h" using w assms(4) by simp
  ultimately show ?thesis using fk assms(2) by (auto simp: rows_stored_def)
qed

text \<open>
  C20. What is retrieved can be fetched. On a database whose foreign keys hold, every wrapper that
  \<open>Retrieve\<close> returns for a subscription to headers, fetched in a transaction without faults, gives
  the block stored under the key of every row, list by list in the wrapper's order, with the row's cid
  and the number and total difficulty of the block.
\<close>

theorem Retrieve_then_Fetch:
  assumes "eth_Retrieve geth faults sq db (EthSettings f) n = Ok (cws, nothing)" "cw \<in> set cws"
    and "deferred_fk db" "\<not> hf_Off (ss_HeaderFilter f)"
    and "\<forall>h\<in>set (eth_headers db). big_SetString (hm_TotalDifficulty h) \<noteq> None"
  shows "\<exists>i. IPLDPGFetcher_Fetch geth [] sq' db (EthWrapper cw) = Ok i \<and> iplds_for geth db cw i
    \<and> ip_BlockNumber i = Some n"
proof -
  have l2: "list_all2 (wrapper_for geth f n db) (filter (\<lambda>r. header_number r = n) (eth_headers db)) cws"
    using retrieve_rows [OF assms(1)] by blast
  then obtain h where h: "h \<in> set (eth_headers db)" "wrapper_for geth f n db h cw"
    using list_all2_member [OF l2 assms(2)] by auto
  have st: "rows_stored db cw" "cw_Header cw = h" using wrapper_stored [OF h(2,1) assms(3,4)] by blast+
  then obtain td where "big_SetString (hm_TotalDifficulty (cw_Header cw)) = Some td" using assms(5) h(1) by auto
  from pg_Fetch_stored [OF st(1) this, of geth sq'] obtain i where
    "IPLDPGFetcher_Fetch geth [] sq' db (EthWrapper cw) = Ok i" "iplds_for geth db cw i" by blast
  moreover have "cw_BlockNumber cw = Some n" using h(2) by (simp add: wrapper_for_def)
  ultimately show ?thesis by (auto simp: iplds_for_def)
qed

definition fetch_db :: pg_db where
  "fetch_db = empty_db\<lparr>db_blocks := [(''k'', [1, 2])], eth_headers := [zero_HeaderModel\<lparr>hm_ID := 1,
     hm_BlockNumber := big_String 4, hm_CID := ''c'', hm_MhKey := ''k'', hm_TotalDifficulty := big_String 9\<rparr>]\<rparr>"

definition fetch_wrapper :: CIDWrapper where
  "fetch_wrapper = \<lparr>cw_BlockNumber = Some 4, cw_Header = eth_headers fetch_db ! 0, cw_Uncles = [], cw_Transactions = [],
     cw_Receipts = [], cw_StateNodes = [], cw_StorageNodes = []\<rparr>"

lemmas retrieve_run_defs = eth_Retrieve_def read_tx_def run_tx_def next_fault_def begin_tx_def outer_err_def body_return_def
  retrieve_body_def RetrieveHeaderCIDs_def retrieveHeader_def stage_defs tx_bind_def tx_return_def tx_select_def sql_exec_def
  select_stmt_def sample_settings_def empty_db_def header_number_def zero_HeaderModel_def pg_int4_def rcts_joined_def
  rct_where_def hasTopics_def

lemma fetch_db_run:
  "eth_Retrieve sample_geth [] empty_seq fetch_db (EthSettings (sample_settings 0 0)) 4 = Ok ([fetch_wrapper], False)"
  by (simp add: retrieve_run_defs fetch_db_def fetch_wrapper_def)

theorem Retrieve_then_Fetch_witness:
  "\<exists>i. IPLDPGFetcher_Fetch sample_geth [] empty_seq fetch_db (EthWrapper fetch_wrapper) = Ok i
    \<and> ip_BlockNumber i = Some 4 \<and> ip_Header i = \<lparr>bm_CID = ''c'', bm_Data = [1, 2]\<rparr>"
proof -
  have "deferred_fk fetch_db"
    by (simp add: fetch_db_def empty_db_def deferred_fk_def blocks_fk_def rows_fk_def stored_def zero_HeaderModel_def)
  moreover have "\<not> hf_Off (ss_HeaderFilter (sample_settings 0 0))" by (simp add: sample_settings_def)
  moreover have "\<forall>h\<in>set (eth_headers fetch_db). big_SetString (hm_TotalDifficulty h) \<noteq> None"
    by (simp add: fetch_db_def zero_HeaderModel_def)
  ultimately obtain i where i: "IPLDPGFetcher_Fetch sample_geth [] empty_seq fetch_db (EthWrapper fetch_wrapper) = Ok i"
    "iplds_for sample_geth fetch_db fetch_wrapper i" "ip_BlockNumber i = Some 4"
    using Retrieve_then_Fetch [OF fetch_db_run, of fetch_wrapper empty_seq] by auto
  then have "bm_CID (ip_Header i) = ''c'' \<and> bm_Data (ip_Header i) = [1, 2]"
    by (simp add: iplds_for_def block_for_def fetch_wrapper_def fetch_db_def)
  with i show ?thesis by (intro exI [of _ i]) simp
qed

text \<open>
  A subscription without headers gets nothing from the past. The wrapper of such a subscription has
  no header row, and both fetchers refuse it, whatever the database and the block service hold, because
  its total difficulty is no number.
\<close>

theorem Fetch_needs_header:
  assumes "eth_Retrieve geth faults sq db (EthSettings f) n = Ok (cws, nothing)" "cw \<in> set cws" "hf_Off (ss_HeaderFilter f)"
  shows "IPLDPGFetcher_Fetch geth faults' sq' db' (EthWrapper cw) = Err no_difficulty
    \<and> IPLDFetcher_Fetch geth ipfs bs (EthWrapper cw) w = (Err no_difficulty, w)"
proof -
  have l2: "list_all2 (wrapper_for geth f n db) (filter (\<lambda>r. header_number r = n) (eth_headers db)) cws"
    using retrieve_rows [OF assms(1)] by blast
  from list_all2_member [OF l2 assms(2)] have "cw_Header cw = zero_HeaderModel"
    using assms(3) by (auto simp: wrapper_for_def)
  then show ?thesis
    by (simp add: IPLDPGFetcher_Fetch_def IPLDFetcher_Fetch_def zero_HeaderModel_def io_lift_def)
qed

theorem Fetch_needs_header_witness:
  "\<exists>cw nothing. eth_Retrieve sample_geth [] empty_seq fetch_db
      (EthSettings ((sample_settings 0 0)\<lparr>ss_HeaderFilter := \<lparr>hf_Off = True, hf_Uncles = False\<rparr>\<rparr>)) 4 = Ok ([cw], nothing)
    \<and> IPLDPGFetcher_Fetch sample_geth [] empty_seq fetch_db (EthWrapper cw) = Err no_difficulty"
proof -
  let ?f = "(sample_settings 0 0)\<lparr>ss_HeaderFilter := \<lparr>hf_Off = True, hf_Uncles = False\<rparr>\<rparr>"
  let ?cw = "fetch_wrapper\<lparr>cw_Header := zero_HeaderModel\<rparr>"
  have run: "eth_Retrieve sample_geth [] empty_seq fetch_db (EthSettings ?f) 4 = Ok ([?cw], True)"
    by (simp add: retrieve_run_defs fetch_db_def fetch_wrapper_def)
  moreover have "hf_Off (ss_HeaderFilter ?f)" by simp
  ultimately show ?thesis using Fetch_needs_header [OF run, where w = "()" and cw = ?cw] by (auto simp del: SubscriptionSettings.simps)
qed

subsection \<open>Both fetchers return the same blocks\<close>

definition cids_ok :: "ipfs_lib \<Rightarrow> CIDWrapper \<Rightarrow> bool" where
  "cids_ok ipfs cw \<longleftrightarrow> cid_row ipfs (hm_CID (cw_Header cw)) (hm_MhKey (cw_Header cw))
   \<and> (\<forall>r\<in>set (cw_Uncles cw). cid_row ipfs (um_CID r) (um_MhKey r)) \<and> distinct (map um_CID (cw_Uncles cw))
   \<and> (\<forall>r\<in>set (cw_Transactions cw). cid_row ipfs (tm_CID r) (tm_MhKey r)) \<and> distinct (map tm_CID (cw_Transactions cw))
   \<and> (\<forall>r\<in>set (cw_Receipts cw). cid_row ipfs (rm_CID r) (rm_MhKey r)) \<and> distinct (map rm_CID (cw_Receipts cw))
   \<and> (\<forall>r\<in>set (cw_StateNodes cw). sm_CID r \<noteq> '''' \<longrightarrow> cid_row ipfs (sm_CID r) (sm_MhKey r))
   \<and> (\<forall>r\<in>set (cw_StorageNodes cw). \<not> (ok_CID r = '''' \<or> ok_StateKey r = '''') \<longrightarrow> cid_row ipfs (ok_CID r) (ok_MhKey r))"

text \<open>Equal but for the order of uncles, transactions and receipts.\<close>

definition same_iplds :: "IPLDs \<Rightarrow> IPLDs \<Rightarrow> bool" where
  "same_iplds i j \<longleftrightarrow> j = i\<lparr>ip_Uncles := ip_Uncles j, ip_Transactions := ip_Transactions j, ip_Receipts := ip_Receipts j\<rparr>
   \<and> mset (ip_Uncles j) = mset (ip_Uncles i) \<and> mset (ip_Transactions j) = mset (ip_Transactions i)
   \<and> mset (ip_Receipts j) = mset (ip_Receipts i)"

lemma IPLDFetcher_rows:
  assumes "serves ipfs db bs" "cids_ok ipfs cw" "iplds_for geth db cw i"
    and "big_SetString (hm_TotalDifficulty (cw_Header cw)) = Some td"
  shows "\<exists>j w'. IPLDFetcher_Fetch geth ipfs bs (EthWrapper cw) w = (Ok j, w') \<and> same_iplds i j"
proof -
  note ok = assms(2) [unfolded cids_ok_def] and i = assms(3) [unfolded iplds_for_def] and sv = assms(1)
  obtain w1 where h: "FetchHeader ipfs bs (cw_Header cw) w = (Ok (ip_Header i), w1)"
    using fetch_one_row [OF sv] ok i unfolding FetchHeader_def by blast
  obtain us w2 where us: "FetchUncles ipfs bs (cw_Uncles cw) w1 = (Ok us, w2)" "mset us = mset (ip_Uncles i)"
    using fetch_all_rows [OF sv, of "cw_Uncles cw" um_CID um_MhKey] ok i unfolding FetchUncles_def by blast
  obtain ts w3 where ts: "FetchTrxs ipfs bs (cw_Transactions cw) w2 = (Ok ts, w3)" "mset ts = mset (ip_Transactions i)"
    using fetch_all_rows [OF sv, of "cw_Transactions cw" tm_CID tm_MhKey] ok i unfolding FetchTrxs_def by blast
  obtain rs w4 where rs: "FetchRcts ipfs bs (cw_Receipts cw) w3 = (Ok rs, w4)" "mset rs = mset (ip_Receipts i)"
    using fetch_all_rows [OF sv, of "cw_Receipts cw" rm_CID rm_MhKey] ok i unfolding FetchRcts_def by blast
  obtain w5 where ss: "FetchState geth ipfs bs (cw_StateNodes cw) w4 = (Ok (ip_StateNodes i), w5)"
    using fetch_nodes_rows [OF sv, of "cw_StateNodes cw" "\<lambda>r. sm_CID r = ''''" sm_CID sm_MhKey "state_of geth" "ip_StateNodes i" 0 "[]" w4]
      ok i unfolding FetchState_def by auto
  obtain w6 where os: "FetchStorage geth ipfs bs (cw_StorageNodes cw) w5 = (Ok (ip_StorageNodes i), w6)"
    using fetch_nodes_rows [OF sv, of "cw_StorageNodes cw" "\<lambda>r. ok_CID r = '''' \<or> ok_StateKey r = ''''" ok_CID ok_MhKey
        "storage_of geth" "ip_StorageNodes i" 0 "[]" w5] ok i unfolding FetchStorage_def by auto
  let ?j = "i\<lparr>ip_Uncles := us, ip_Transactions := ts, ip_Receipts := rs\<rparr>"
  have "IPLDFetcher_Fetch geth ipfs bs (EthWrapper cw) w = (Ok ?j, w6)"
    using i assms(4) by (simp add: IPLDFetcher_Fetch_def io_bind_def io_return_def h us(1) ts(1) rs(1) ss os)
  then show ?thesis using us(2) ts(2) rs(2) by (auto simp: same_iplds_def)
qed

text \<open>
  C27. The two fetchers are equivalent. For a wrapper whose rows' blocks are stored, and a block service
  over the same blocks, fetching from Postgres and fetching over IPFS both succeed, and return the
  same blocks; only the order of uncles, transactions and receipts is the block service's choice.
\<close>

theorem Fetchers_agree:
  assumes "rows_stored db cw" "cids_ok ipfs cw" "serves ipfs db bs"
    and "big_SetString (hm_TotalDifficulty (cw_Header cw)) \<noteq> None"
  shows "\<exists>i j w'. IPLDPGFetcher_Fetch geth [] sq db (EthWrapper cw) = Ok i
    \<and> IPLDFetcher_Fetch geth ipfs bs (EthWrapper cw) w = (Ok j, w') \<and> same_iplds i j"
proof -
  obtain td where td: "big_SetString (hm_TotalDifficulty (cw_Header cw)) = Some td" using assms(4) by auto
  obtain i where "IPLDPGFetcher_Fetch geth [] sq db (EthWrapper cw) = Ok i" "iplds_for geth db cw i"
    using pg_Fetch_stored [OF assms(1) td, of geth sq] by blast
  with IPLDFetcher_rows [OF assms(3,2) _ td, of geth i w] show ?thesis by blast
qed

text \<open>An IPFS library in which texts of cids can be decoded.\<close>

definition one_cid_ipfs :: ipfs_lib where
  "one_cid_ipfs = sample_ipfs\<lparr>Cid_String := (\<lambda>c. if c = Cid MEthHeader [1] then ''c'' else ''d''),
     cid_Decode := (\<lambda>s. if s = ''c'' then Ok (Cid MEthHeader [1]) else Err (Errorf ''no cid'' [])),
     MultihashToDsKey := (\<lambda>h. ''k''), BlockPrefix := ''''\<rparr>"

theorem Fetchers_agree_witness:
  "\<exists>i j. IPLDPGFetcher_Fetch sample_geth [] empty_seq fetch_db (EthWrapper fetch_wrapper) = Ok i
    \<and> IPLDFetcher_Fetch sample_geth one_cid_ipfs (sample_service one_cid_ipfs fetch_db) (EthWrapper fetch_wrapper) () = (Ok j, ())
    \<and> same_iplds i j"
proof -
  have "rows_stored fetch_db fetch_wrapper" by (simp add: rows_stored_def fetch_wrapper_def fetch_db_def stored_def)
  moreover have "cids_ok one_cid_ipfs fetch_wrapper"
    by (simp add: cids_ok_def fetch_wrapper_def fetch_db_def cid_row_def one_cid_ipfs_def MultihashKeyFromCID_def)
  moreover have "big_SetString (hm_TotalDifficulty (cw_Header fetch_wrapper)) \<noteq> None"
    by (simp add: fetch_wrapper_def fetch_db_def)
  ultimately show ?thesis
    using Fetchers_agree [OF _ _ sample_service_serves, of fetch_db fetch_wrapper one_cid_ipfs sample_geth empty_seq "()"] by auto
qed

end
