(* ===== verification/Eth_Backend.thy ===== *)
theory Eth_Backend
  imports Eth_Fetcher
begin

text \<open>
  Package \<open>eth\<close>, the backend of the JSON-RPC interface (\<open>backend.go\<close>): headers, blocks, transactions and
  logs composed from the rows and the block store, and their RPC form. Decoding, \<open>types.NewBlock\<close> and the
  fields of a transaction are go-ethereum's, a parameter record. The database is used several times by
  one call: every use has a script of faults of its own. All transactions only read.
\<close>

subsection \<open>go-ethereum\<close>

datatype Signer = FrontierSigner | EIP155Signer int

record backend_lib =
  rlp_DecodeHeader :: "bytes \<Rightarrow> EthHeader outcome"
  rlp_DecodeTx :: "bytes \<Rightarrow> Transaction outcome"
  rlp_DecodeReceipt :: "bytes \<Rightarrow> Receipt outcome"
  types_NewBlock :: "EthHeader \<Rightarrow> Transaction list \<Rightarrow> EthHeader list \<Rightarrow> Receipt list \<Rightarrow> Block"
  Header_Size :: "EthHeader \<Rightarrow> u64"
  Block_Size :: "Block \<Rightarrow> u64"
  Tx_Protected :: "Transaction \<Rightarrow> bool"
  Tx_ChainId :: "Transaction \<Rightarrow> int"
  Sender_of :: "Signer \<Rightarrow> Transaction \<Rightarrow> Address outcome"
  RawSignatureValues :: "Transaction \<Rightarrow> int \<times> int \<times> int"
  Tx_Gas :: "Transaction \<Rightarrow> u64"
  Tx_Nonce :: "Transaction \<Rightarrow> u64"
  Tx_Value :: "Transaction \<Rightarrow> int"
  Tx_Data :: "Transaction \<Rightarrow> bytes"

text \<open>\<open>rpc.BlockNumber\<close>\<close>

definition LatestBlockNumber :: int where "LatestBlockNumber = - 1"
definition PendingBlockNumber :: int where "PendingBlockNumber = - 2"

definition errPendingBlockNumber :: go_error where
  "errPendingBlockNumber = Errorf ''pending block number not supported'' []"

subsection \<open>Headers and blocks\<close>

text \<open>The height that a block number stands for; the query for the latest one runs on the connection.\<close>

definition resolve_number :: "bool list \<Rightarrow> pg_db \<Rightarrow> int \<Rightarrow> int outcome" where
  "resolve_number faults db blockNumber =
     outcome_bind (if blockNumber = LatestBlockNumber then fst (RetrieveLastBlockNumber db faults) else Ok blockNumber)
       (\<lambda>number. if blockNumber = PendingBlockNumber then Err errPendingBlockNumber else Ok number)"

definition header_body :: "backend_lib \<Rightarrow> int \<Rightarrow> EthHeader pg_txm" where
  "header_body lib number =
     tx_bind (RetrieveHeaderCIDs number) (\<lambda>headerCids.
     case headerCids of
       [] \<Rightarrow> tx_lift (Err (Errorf ''header at block %d is not available'' [big_String number]))
     | c # _ \<Rightarrow>
         tx_bind (PG_FetchHeader c) (\<lambda>headerIPLD. tx_lift (rlp_DecodeHeader lib (bm_Data headerIPLD))))"

definition HeaderByNumber ::
    "backend_lib \<Rightarrow> bool list \<Rightarrow> bool list \<Rightarrow> pg_seq \<Rightarrow> pg_db \<Rightarrow> int \<Rightarrow> EthHeader outcome" where
  "HeaderByNumber lib fq ft sq db blockNumber =
     outcome_bind (resolve_number fq db blockNumber) (\<lambda>number. read_tx (header_body lib number) ft sq db)"

definition GetTd :: "bool list \<Rightarrow> pg_db \<Rightarrow> Hash \<Rightarrow> int outcome" where
  "GetTd faults db blockHash =
     outcome_bind (fst (db_query (\<lambda>db. case find (\<lambda>r. hm_BlockHash r = Hash_Hex blockHash) (eth_headers db) of
         None \<Rightarrow> Err ErrNoRows | Some r \<Rightarrow> Ok (hm_TotalDifficulty r)) db faults))
       (\<lambda>tdStr. case big_SetString tdStr of
          None \<Rightarrow> Err (Errorf ''total difficulty retrieved from Postgres cannot be converted to an integer'' [])
        | Some td \<Rightarrow> Ok td)"

definition zero_ReceiptFilter :: ReceiptFilter where
  "zero_ReceiptFilter = \<lparr>rf_Off = False, rf_MatchTxs = False, rf_LogAddresses = [], rf_Topics = []\<rparr>"

definition decode_all :: "(bytes \<Rightarrow> 'a outcome) \<Rightarrow> BlockModel list \<Rightarrow> 'a list outcome" where
  "decode_all dec iplds = outcome_map (\<lambda>ipld. dec (bm_Data ipld)) iplds"

definition Backend_GetLogs :: "backend_lib \<Rightarrow> bool list \<Rightarrow> pg_seq \<Rightarrow> pg_db \<Rightarrow> Hash \<Rightarrow> Log list list outcome" where
  "Backend_GetLogs lib faults sq db hash =
     read_tx (tx_bind (RetrieveRctCIDs zero_ReceiptFilter 0 (Some hash) []) (\<lambda>receiptCIDs.
       if length receiptCIDs = 0 then tx_return []
       else tx_bind (PG_FetchRcts receiptCIDs) (\<lambda>receiptIPLDs.
            tx_bind (tx_lift (decode_all (rlp_DecodeReceipt lib) receiptIPLDs)) (\<lambda>rcts. tx_return (map r_Logs rcts)))))
       faults sq db"

text \<open>The second half of \<open>BlockByNumber\<close> and \<open>BlockByHash\<close>: fetch and decode the rows of the block.\<close>

definition compose_body ::
    "backend_lib \<Rightarrow> HeaderModel \<times> UncleModel list \<times> TxModel list \<times> ReceiptModel list \<Rightarrow> Block pg_txm" where
  "compose_body lib rows =
     (case rows of (headerCID, uncleCIDs, txCIDs, rctCIDs) \<Rightarrow>
     tx_bind (PG_FetchHeader headerCID) (\<lambda>headerIPLD.
     tx_bind (tx_lift (rlp_DecodeHeader lib (bm_Data headerIPLD))) (\<lambda>header.
     tx_bind (PG_FetchUncles uncleCIDs) (\<lambda>uncleIPLDs.
     tx_bind (tx_lift (decode_all (rlp_DecodeHeader lib) uncleIPLDs)) (\<lambda>uncles.
     tx_bind (PG_FetchTrxs txCIDs) (\<lambda>txIPLDs.
     tx_bind (tx_lift (decode_all (rlp_DecodeTx lib) txIPLDs)) (\<lambda>transactions.
     tx_bind (PG_FetchRcts rctCIDs) (\<lambda>rctIPLDs.
     tx_bind (tx_lift (decode_all (rlp_DecodeReceipt lib) rctIPLDs)) (\<lambda>receipts.
     tx_return (types_NewBlock lib header transactions uncles receipts))))))))))"

definition BlockByNumber ::
    "backend_lib \<Rightarrow> bool list \<Rightarrow> bool list \<Rightarrow> bool list \<Rightarrow> pg_seq \<Rightarrow> pg_db \<Rightarrow> int \<Rightarrow> Block outcome" where
  "BlockByNumber lib fq fr ft sq db blockNumber =
     outcome_bind (resolve_number fq db blockNumber) (\<lambda>number.
     outcome_bind (RetrieveBlockByNumber fr sq db number) (\<lambda>rows. read_tx (compose_body lib rows) ft sq db))"

definition BlockByHash ::
    "backend_lib \<Rightarrow> bool list \<Rightarrow> bool list \<Rightarrow> pg_seq \<Rightarrow> pg_db \<Rightarrow> Hash \<Rightarrow> Block outcome" where
  "BlockByHash lib fr ft sq db hash =
     outcome_bind (RetrieveBlockByHash fr sq db hash) (\<lambda>rows. read_tx (compose_body lib rows) ft sq db)"

subsection \<open>Transactions\<close>

text \<open>
  A transaction that is committed by the function itself, which returns the error of the commit. The deferred
  function then commits once more, which fails and is ignored. Nothing was written, so that no constraint is
  checked.
\<close>

definition tx_commit :: "('db, 'sq, unit) txm" where
  "tx_commit tx = (if tx_aborted tx \<or> next_fault (tx_faults tx) then (Err (Errorf ''pq: commit failed'' []), tx) else (Ok (), tx))"

definition read_and_commit :: "'a pg_txm \<Rightarrow> bool list \<Rightarrow> pg_seq \<Rightarrow> pg_db \<Rightarrow> 'a outcome" where
  "read_and_commit m faults sq db =
     (if next_fault faults then Err (Errorf ''pq: begin failed'' [])
      else fst (tx_bind m (\<lambda>x. tx_bind tx_commit (\<lambda>_. tx_return x)) (begin_tx faults sq db)))"

definition tx_with_header :: "pg_db \<Rightarrow> Hash \<Rightarrow> (TxModel \<times> HeaderModel) list" where
  "tx_with_header db txHash =
     [(t, h). t \<leftarrow> filter (\<lambda>t. tm_TxHash t = Hash_Hex txHash) (eth_txs db), h \<leftarrow> filter (\<lambda>h. tm_HeaderID t = hm_ID h) (eth_headers db)]"

definition GetTransaction ::
    "geth_lib \<Rightarrow> backend_lib \<Rightarrow> bool list \<Rightarrow> bool list \<Rightarrow> pg_seq \<Rightarrow> pg_db \<Rightarrow> Hash \<Rightarrow> (Transaction \<times> Hash \<times> u64 \<times> u64) outcome" where
  "GetTransaction geth lib fq ft sq db txHash =
     outcome_bind (fst (db_query (\<lambda>db. case tx_with_header db txHash of [] \<Rightarrow> Err ErrNoRows | r # _ \<Rightarrow> Ok r) db fq)) (\<lambda>(t, h).
     outcome_bind (read_and_commit (PG_FetchTrxs [zero_TxModel\<lparr>tm_MhKey := tm_MhKey t\<rparr>]) ft sq db) (\<lambda>txIPLD.
     outcome_bind (slice_get txIPLD 0) (\<lambda>ipld.
     outcome_bind (rlp_DecodeTx lib (bm_Data ipld)) (\<lambda>transaction.
       Ok (transaction, HexToHash geth (hm_BlockHash h), of_int (header_number h), of_int (tm_Index t))))))"

subsection \<open>Logs\<close>

definition sliceContainsHash :: "string list \<Rightarrow> Hash \<Rightarrow> nat" where
  "sliceContainsHash strs hash = (if list_ex (\<lambda>str. str = Hash_Hex hash) strs then 1 else 0)"

definition wantedLog :: "string list list \<Rightarrow> Hash list \<Rightarrow> bool outcome" where
  "wantedLog wantedTopics actualTopics =
     outcome_bind (for_range (\<lambda>i actualTopic matches.
         outcome_bind (slice_get wantedTopics i) (\<lambda>slot.
           Ok (if length slot > 0 then matches + sliceContainsHash slot actualTopic else matches + 1))) 0 actualTopics 0)
       (\<lambda>matches. Ok (matches = length actualTopics))"

definition logs_of_receipt :: "string list list \<Rightarrow> Receipt \<Rightarrow> Log list \<Rightarrow> Log list outcome" where
  "logs_of_receipt wantedTopics rct logs =
     for_range (\<lambda>_ log logs. outcome_bind (wantedLog wantedTopics (l_Topics log)) (\<lambda>wanted.
       Ok (if wanted then logs @ [log] else logs))) 0 (r_Logs rct) logs"

definition extractLogsOfInterest :: "backend_lib \<Rightarrow> BlockModel list \<Rightarrow> string list list \<Rightarrow> Log list outcome" where
  "extractLogsOfInterest lib rctIPLDs wantedTopics =
     for_range (\<lambda>_ rctIPLD logs. outcome_bind (rlp_DecodeReceipt lib (bm_Data rctIPLD)) (\<lambda>rct.
       logs_of_receipt wantedTopics rct logs)) 0 rctIPLDs []"

subsection \<open>The RPC form\<close>

text \<open>\<open>RPCTransaction\<close>; the three fields on the place of the transaction are set together or not at all.\<close>

record RPCTransaction =
  rt_BlockHash :: "Hash option"
  rt_BlockNumber :: "int option"
  rt_From :: Address
  rt_Gas :: u64
  rt_GasPrice :: int
  rt_Hash :: Hash
  rt_Input :: bytes
  rt_Nonce :: u64
  rt_To :: "Address option"
  rt_TransactionIndex :: "u64 option"
  rt_Value :: int
  rt_V :: int
  rt_R :: int
  rt_S :: int

datatype rpc_value = RBig int | RHash Hash | RBytes bytes | RUint64 u64 | RHashes "Hash list" | RTxs "RPCTransaction option list"

definition zero_hash :: Hash where
  "zero_hash = replicate 32 0"

text \<open>The error of \<open>types.Sender\<close> is dropped, which leaves the zero address.\<close>

definition NewRPCTransaction :: "geth_lib \<Rightarrow> backend_lib \<Rightarrow> Transaction \<Rightarrow> Hash \<Rightarrow> u64 \<Rightarrow> u64 \<Rightarrow> RPCTransaction" where
  "NewRPCTransaction geth lib tx blockHash blockNumber index =
     (let signer = (if Tx_Protected lib tx then EIP155Signer (Tx_ChainId lib tx) else FrontierSigner);
          sender = (case Sender_of lib signer tx of Ok a \<Rightarrow> a | _ \<Rightarrow> replicate 20 0);
          located = (blockHash \<noteq> zero_hash)
      in case RawSignatureValues lib tx of (v, r, s) \<Rightarrow>
        \<lparr>rt_BlockHash = (if located then Some blockHash else None),
         rt_BlockNumber = (if located then Some (uint blockNumber) else None),
         rt_From = sender, rt_Gas = Tx_Gas lib tx, rt_GasPrice = t_GasPrice tx, rt_Hash = Tx_Hash geth tx,
         rt_Input = Tx_Data lib tx, rt_Nonce = Tx_Nonce lib tx, rt_To = t_To tx,
         rt_TransactionIndex = (if located then Some index else None),
         rt_Value = Tx_Value lib tx, rt_V = v, rt_R = r, rt_S = s\<rparr>)"

definition Block_Hash :: "geth_lib \<Rightarrow> Block \<Rightarrow> Hash" where
  "Block_Hash geth b = Header_Hash geth (b_Header b)"

definition newRPCTransactionFromBlockIndex :: "geth_lib \<Rightarrow> backend_lib \<Rightarrow> Block \<Rightarrow> nat \<Rightarrow> RPCTransaction option" where
  "newRPCTransactionFromBlockIndex geth lib b index =
     (if index \<ge> length (b_Transactions b) then None
      else Some (NewRPCTransaction geth lib (b_Transactions b ! index) (Block_Hash geth b) (of_int (h_Number (b_Header b))) (of_nat index)))"

text \<open>The loop returns at the first transaction with the hash.\<close>

definition NewRPCTransactionFromBlockHash :: "geth_lib \<Rightarrow> backend_lib \<Rightarrow> Block \<Rightarrow> Hash \<Rightarrow> RPCTransaction option" where
  "NewRPCTransactionFromBlockHash geth lib b hash =
     (case find (\<lambda>(idx, tx). Tx_Hash geth tx = hash) (enumerate 0 (b_Transactions b)) of
        None \<Rightarrow> None | Some (idx, tx) \<Rightarrow> newRPCTransactionFromBlockIndex geth lib b idx)"

definition RPCMarshalHeader :: "geth_lib \<Rightarrow> backend_lib \<Rightarrow> EthHeader \<Rightarrow> (string \<rightharpoonup> rpc_value)" where
  "RPCMarshalHeader geth lib head =
     [''number'' \<mapsto> RBig (h_Number head), ''hash'' \<mapsto> RHash (Header_Hash geth head), ''parentHash'' \<mapsto> RHash (h_ParentHash head),
      ''nonce'' \<mapsto> RBytes (h_Nonce head), ''mixHash'' \<mapsto> RHash (h_MixDigest head), ''sha3Uncles'' \<mapsto> RHash (h_UncleHash head),
      ''logsBloom'' \<mapsto> RBytes (h_Bloom head), ''stateRoot'' \<mapsto> RHash (h_Root head), ''miner'' \<mapsto> RBytes (h_Coinbase head),
      ''difficulty'' \<mapsto> RBig (h_Difficulty head), ''extraData'' \<mapsto> RBytes (h_Extra head), ''size'' \<mapsto> RUint64 (Header_Size lib head),
      ''gasLimit'' \<mapsto> RUint64 (h_GasLimit head), ''gasUsed'' \<mapsto> RUint64 (h_GasUsed head), ''timestamp'' \<mapsto> RUint64 (h_Time head),
      ''transactionsRoot'' \<mapsto> RHash (h_TxHash head), ''receiptsRoot'' \<mapsto> RHash (h_ReceiptHash head)]"

definition rpcMarshalHeader :: "geth_lib \<Rightarrow> backend_lib \<Rightarrow> bool list \<Rightarrow> pg_db \<Rightarrow> EthHeader \<Rightarrow> (string \<rightharpoonup> rpc_value) outcome" where
  "rpcMarshalHeader geth lib faults db header =
     outcome_bind (GetTd faults db (Header_Hash geth header)) (\<lambda>td.
       Ok ((RPCMarshalHeader geth lib header)(''totalDifficulty'' \<mapsto> RBig td)))"

definition RPCMarshalBlock :: "geth_lib \<Rightarrow> backend_lib \<Rightarrow> Block \<Rightarrow> bool \<Rightarrow> bool \<Rightarrow> (string \<rightharpoonup> rpc_value)" where
  "RPCMarshalBlock geth lib block inclTx fullTx =
     (let fs = (RPCMarshalHeader geth lib (b_Header block))(''size'' \<mapsto> RUint64 (Block_Size lib block));
          hashes = map (Tx_Hash geth) (b_Transactions block);
          txs = (if fullTx then RTxs (map (NewRPCTransactionFromBlockHash geth lib block) hashes) else RHashes hashes);
          fs = (if inclTx then fs(''transactions'' \<mapsto> txs) else fs)
      in fs(''uncles'' \<mapsto> RHashes (map (Header_Hash geth) (b_Uncles block))))"

definition rpcMarshalBlock ::
    "geth_lib \<Rightarrow> backend_lib \<Rightarrow> bool list \<Rightarrow> pg_db \<Rightarrow> Block \<Rightarrow> bool \<Rightarrow> bool \<Rightarrow> (string \<rightharpoonup> rpc_value) outcome" where
  "rpcMarshalBlock geth lib faults db b inclTx fullTx =
     outcome_bind (GetTd faults db (Block_Hash geth b)) (\<lambda>td.
       Ok ((RPCMarshalBlock geth lib b inclTx fullTx)(''totalDifficulty'' \<mapsto> RBig td)))"

subsection \<open>What a block is composed of\<close>

text \<open>The bytes stored under a key, and what the rows of a block decode to: a specification without transactions.\<close>

definition block_data :: "pg_db \<Rightarrow> string \<Rightarrow> bytes" where
  "block_data db key = (case map_of (db_blocks db) key of None \<Rightarrow> [] | Some d \<Rightarrow> d)"

definition block_spec ::
    "backend_lib \<Rightarrow> pg_db \<Rightarrow> HeaderModel \<times> UncleModel list \<times> TxModel list \<times> ReceiptModel list \<Rightarrow> Block outcome" where
  "block_spec lib db rows =
     (case rows of (h, us, ts, rs) \<Rightarrow>
     outcome_bind (rlp_DecodeHeader lib (block_data db (hm_MhKey h))) (\<lambda>header.
     outcome_bind (outcome_map (\<lambda>u. rlp_DecodeHeader lib (block_data db (um_MhKey u))) us) (\<lambda>uncles.
     outcome_bind (outcome_map (\<lambda>t. rlp_DecodeTx lib (block_data db (tm_MhKey t))) ts) (\<lambda>transactions.
     outcome_bind (outcome_map (\<lambda>r. rlp_DecodeReceipt lib (block_data db (rm_MhKey r))) rs) (\<lambda>receipts.
     Ok (types_NewBlock lib header transactions uncles receipts))))))"

definition block_rows_of :: "pg_db \<Rightarrow> HeaderModel \<times> UncleModel list \<times> TxModel list \<times> ReceiptModel list \<Rightarrow> bool" where
  "block_rows_of db rows \<longleftrightarrow>
     (case rows of (h, us, ts, rs) \<Rightarrow>
     h \<in> set (eth_headers db) \<and> set us = {u \<in> set (eth_uncles db). um_HeaderID u = hm_ID h}
   \<and> set ts = {t \<in> set (eth_txs db). tm_HeaderID t = hm_ID h} \<and> sorted (map tm_Index ts)
   \<and> set rs = {r \<in> set (eth_rcts db). rm_TxID r \<in> tm_ID ` set ts})"

lemma block_for_data: "block_for db key c b \<Longrightarrow> bm_Data b = block_data db key"
  by (simp add: block_for_def block_data_def)

lemma decode_rows:
  assumes "list_all2 (\<lambda>x. block_for db (key x) (c x)) xs bms"
  shows "decode_all dec bms = outcome_map (\<lambda>x. dec (block_data db (key x))) xs"
  using assms unfolding decode_all_def by (induction rule: list_all2_induct) (simp_all add: block_for_data)

lemma fetch_decode:
  assumes "\<forall>x\<in>set xs. stored db (key x)"
  shows "\<exists>bms. tx_map (\<lambda>x. fetch_row (key x) (c x)) xs (begin_tx [] sq db) = (Ok bms, begin_tx [] sq db)
    \<and> decode_all dec bms = outcome_map (\<lambda>x. dec (block_data db (key x))) xs"
  using tx_map_rows [OF assms, of c sq] decode_rows by blast

text \<open>A read that ends in a decoding.\<close>

lemma read_result:
  assumes "m (begin_tx [] sq db) = (r, begin_tx [] sq db)"
  shows "read_tx m [] sq db = r"
  using assms by (cases r) (simp_all add: read_tx_def run_tx_def next_fault_def outer_err_def body_return_def)

lemma bind_lift_begin:
  assumes "m t = (Ok x, t)" "\<And>y. r = Ok y \<Longrightarrow> f y t = (g y, t)"
  shows "tx_bind m (\<lambda>_. tx_bind (tx_lift r) f) t = (outcome_bind r g, t)"
  using assms by (cases r) (simp_all add: tx_bind_def tx_lift_def)

lemma compose_spec:
  assumes "block_rows_of db (h, us, ts, rs)" "deferred_fk db"
  shows "read_tx (compose_body lib (h, us, ts, rs)) [] sq db = block_spec lib db (h, us, ts, rs)"
proof (rule read_result)
  let ?t = "begin_tx [] sq db"
  note fk = assms(2) [unfolded deferred_fk_def blocks_fk_def list_all_iff set_map ball_simps]
  note rows = assms(1) [unfolded block_rows_of_def prod.case]
  have "stored db (hm_MhKey h)" using rows fk by blast
  then obtain hb where hb: "PG_FetchHeader h ?t = (Ok hb, ?t)" "bm_Data hb = block_data db (hm_MhKey h)"
    unfolding PG_FetchHeader_def using fetch_row_begin block_for_data by meson
  have "\<forall>u\<in>set us. stored db (um_MhKey u)" using rows fk by auto
  then obtain ub where ub: "PG_FetchUncles us ?t = (Ok ub, ?t)"
    "decode_all (rlp_DecodeHeader lib) ub = outcome_map (\<lambda>u. rlp_DecodeHeader lib (block_data db (um_MhKey u))) us"
    unfolding PG_FetchUncles_def using fetch_decode [of us db um_MhKey um_CID sq "rlp_DecodeHeader lib"] by blast
  have "\<forall>t\<in>set ts. stored db (tm_MhKey t)" using rows fk by auto
  then obtain tb where tb: "PG_FetchTrxs ts ?t = (Ok tb, ?t)"
    "decode_all (rlp_DecodeTx lib) tb = outcome_map (\<lambda>t. rlp_DecodeTx lib (block_data db (tm_MhKey t))) ts"
    unfolding PG_FetchTrxs_def using fetch_decode [of ts db tm_MhKey tm_CID sq "rlp_DecodeTx lib"] by blast
  have "\<forall>r\<in>set rs. stored db (rm_MhKey r)" using rows fk by auto
  then obtain rb where rb: "PG_FetchRcts rs ?t = (Ok rb, ?t)"
    "decode_all (rlp_DecodeReceipt lib) rb = outcome_map (\<lambda>r. rlp_DecodeReceipt lib (block_data db (rm_MhKey r))) rs"
    unfolding PG_FetchRcts_def using fetch_decode [of rs db rm_MhKey rm_CID sq "rlp_DecodeReceipt lib"] by blast
  show "compose_body lib (h, us, ts, rs) ?t = (block_spec lib db (h, us, ts, rs), ?t)"
    unfolding compose_body_def block_spec_def prod.case
    by (simp add: tx_bind_def tx_lift_def tx_return_def hb ub tb rb split: outcome.splits)
qed

lemma block_rows_Ok:
  assumes "block_rows h tx = (Ok rows, tx')" "h \<in> set (eth_headers (tx_db tx))"
  shows "fst rows = h \<and> block_rows_of (tx_db tx) rows"
proof -
  obtain us t1 ts t2 rs t3 where s: "RetrieveUncleCIDsByHeaderID (hm_ID h) tx = (Ok us, t1)"
      "RetrieveTxCIDsByHeaderID (hm_ID h) t1 = (Ok ts, t2)" "RetrieveReceiptCIDsByTxIDs (map tm_ID ts) t2 = (Ok rs, t3)"
    and rows: "rows = (h, us, ts, rs)"
    using assms(1) unfolding block_rows_def by (elim tx_bind_Ok) (auto simp: tx_return_Ok)
  have us: "set us = {u \<in> set (eth_uncles (tx_db tx)). um_HeaderID u = hm_ID h}" and d1: "tx_db t1 = tx_db tx"
    using s(1) unfolding RetrieveUncleCIDsByHeaderID_def by (auto simp: pg_int4_def elim!: tx_select_Ok split: if_splits)
  have ts: "set ts = {t \<in> set (eth_txs (tx_db tx)). tm_HeaderID t = hm_ID h}" "sorted (map tm_Index ts)" and d2: "tx_db t2 = tx_db tx"
    using s(2) unfolding RetrieveTxCIDsByHeaderID_def
    by (auto simp: pg_int4_def d1 elim!: tx_select_Ok split: if_splits)
  obtain ids where ids: "int4s (map tm_ID ts) = Ok ids"
    and rs: "rs = map fst (filter (\<lambda>(r, t). rm_TxID r \<in> set ids) (rcts_joined (tx_db tx)))"
    using s(3) unfolding RetrieveReceiptCIDsByTxIDs_def by (auto simp: d2 elim!: tx_select_Ok)
  have "ids = map tm_ID ts" using ids unfolding int4s_def outcome_map_Ok_iff
    by (auto simp: pg_int4_def list_all2_conv_all_nth intro!: nth_equalityI split: if_splits)
  then have "r \<in> set rs \<longleftrightarrow> (\<exists>t. (r, t) \<in> set (rcts_joined (tx_db tx))) \<and> rm_TxID r \<in> tm_ID ` set ts" for r
    unfolding rs by (auto simp: image_iff)
  then have "set rs = {r \<in> set (eth_rcts (tx_db tx)). rm_TxID r \<in> tm_ID ` set ts}"
    unfolding rcts_joined_set using ts(1) by auto
  with us ts assms(2) show ?thesis by (simp add: rows block_rows_of_def)
qed

lemma retrieved_by_hash:
  assumes "RetrieveBlockByHash faults sq db hash = Ok rows"
  shows "hm_BlockHash (fst rows) = Hash_Hex hash \<and> block_rows_of db rows"
proof -
  obtain tx where "tx_bind (RetrieveHeaderCIDByHash hash) block_rows (begin_tx faults sq db) = (Ok rows, tx)"
    using assms unfolding RetrieveBlockByHash_def by (rule read_tx_Ok)
  then obtain h t1 where h: "RetrieveHeaderCIDByHash hash (begin_tx faults sq db) = (Ok h, t1)" and rows: "block_rows h t1 = (Ok rows, tx)"
    by (rule tx_bind_Ok)
  have b: "tx_db (begin_tx faults sq db) = db" by (simp add: begin_tx_def)
  from h have "find (\<lambda>r. hm_BlockHash r = Hash_Hex hash) (eth_headers db) = Some h" "tx_db t1 = db"
    unfolding RetrieveHeaderCIDByHash_def
    by (auto simp: tx_lift_def b elim!: tx_bind_Ok tx_select_Ok split: option.splits)
  with block_rows_Ok [OF rows] show ?thesis by (auto simp: find_Some_iff)
qed

lemma retrieved_by_number:
  assumes "RetrieveBlockByNumber faults sq db n = Ok rows"
  shows "header_number (fst rows) = n \<and> block_rows_of db rows"
proof -
  obtain tx hs t1 where hs: "RetrieveHeaderCIDs n (begin_tx faults sq db) = (Ok hs, t1)"
    and rest: "(case hs of [] \<Rightarrow> tx_lift (Err (Errorf ''header cid retrieval error, no header CIDs found at block %d'' [big_String n]))
       | header # _ \<Rightarrow> block_rows header) t1 = (Ok rows, tx)"
    using assms unfolding RetrieveBlockByNumber_def by (elim read_tx_Ok tx_bind_Ok) blast
  have b: "tx_db (begin_tx faults sq db) = db" by (simp add: begin_tx_def)
  have "hs = filter (\<lambda>r. header_number r = n) (eth_headers db)" "tx_db t1 = db"
    using hs unfolding RetrieveHeaderCIDs_def by (auto simp: b elim!: tx_select_Ok)
  moreover obtain h hs' where "hs = h # hs'" "block_rows h t1 = (Ok rows, tx)"
    using rest by (cases hs) (auto simp: tx_lift_def)
  ultimately show ?thesis using block_rows_Ok [of h t1 rows tx] by (auto simp: Cons_eq_filter_iff)
qed

text \<open>
  C18. Blocks served over RPC. On a database whose foreign keys hold, a block asked for by its hash, or by its
  height, is composed of one header row with that hash or height, all uncles and transactions below it, the
  transactions in the order of their indices, and the receipts of these transactions; the answer is
  what the blocks stored under the keys of these rows decode to, or the first error of a decoding.
\<close>

theorem Block_served:
  assumes "deferred_fk db"
  shows "(RetrieveBlockByHash fr sq db hash = Ok rows \<longrightarrow>
      BlockByHash lib fr [] sq db hash = block_spec lib db rows
      \<and> hm_BlockHash (fst rows) = Hash_Hex hash \<and> block_rows_of db rows)
    \<and> (n \<noteq> LatestBlockNumber \<and> n \<noteq> PendingBlockNumber \<and> RetrieveBlockByNumber fr sq db n = Ok rows \<longrightarrow>
      BlockByNumber lib fq fr [] sq db n = block_spec lib db rows
      \<and> header_number (fst rows) = n \<and> block_rows_of db rows)"
proof (intro conjI impI)
  obtain h us ts rs where rows: "rows = (h, us, ts, rs)" by (cases rows)
  {
    assume r: "RetrieveBlockByHash fr sq db hash = Ok rows"
    note ok = retrieved_by_hash [OF r]
    show "BlockByHash lib fr [] sq db hash = block_spec lib db rows"
      using compose_spec [OF ok [THEN conjunct2, unfolded rows] assms] by (simp add: BlockByHash_def r rows)
    show "hm_BlockHash (fst rows) = Hash_Hex hash" "block_rows_of db rows" using ok by blast+
  next
    assume r: "n \<noteq> LatestBlockNumber \<and> n \<noteq> PendingBlockNumber \<and> RetrieveBlockByNumber fr sq db n = Ok rows"
    note ok = retrieved_by_number [OF r [THEN conjunct2, THEN conjunct2]]
    show "BlockByNumber lib fq fr [] sq db n = block_spec lib db rows"
      using compose_spec [OF ok [THEN conjunct2, unfolded rows] assms] r by (simp add: BlockByNumber_def resolve_number_def rows)
    show "header_number (fst rows) = n" "block_rows_of db rows" using ok by blast+
  }
qed

definition sample_backend :: backend_lib where
  "sample_backend = \<lparr>rlp_DecodeHeader = (\<lambda>b. Ok (sample_header (int (length b)))), rlp_DecodeTx = (\<lambda>b. Ok sample_tx),
     rlp_DecodeReceipt = (\<lambda>b. Ok sample_rct),
     types_NewBlock = (\<lambda>h ts us rs. \<lparr>b_Header = h, b_Uncles = us, b_Transactions = ts\<rparr>),
     Header_Size = (\<lambda>h. 1), Block_Size = (\<lambda>b. 2), Tx_Protected = (\<lambda>t. False), Tx_ChainId = (\<lambda>t. 1),
     Sender_of = (\<lambda>s t. Ok [7]), RawSignatureValues = (\<lambda>t. (1, 2, 3)), Tx_Gas = (\<lambda>t. 4), Tx_Nonce = (\<lambda>t. 5),
     Tx_Value = (\<lambda>t. 6), Tx_Data = (\<lambda>t. [])\<rparr>"

definition served_db :: pg_db where
  "served_db = empty_db\<lparr>db_blocks := [(''k'', [1, 2])], eth_headers := [zero_HeaderModel\<lparr>hm_ID := 1, hm_BlockNumber := big_String 4,
     hm_BlockHash := Hash_Hex [], hm_CID := ''c'', hm_MhKey := ''k'', hm_TotalDifficulty := big_String 9\<rparr>]\<rparr>"

lemmas read_run_defs = read_tx_def run_tx_def next_fault_def begin_tx_def outer_err_def body_return_def tx_bind_def tx_lift_def
  tx_return_def tx_select_def sql_exec_def select_stmt_def empty_db_def

lemma served_db_run: "RetrieveBlockByHash [] empty_seq served_db [] = Ok (eth_headers served_db ! 0, [], [], [])"
  by (simp add: RetrieveBlockByHash_def RetrieveHeaderCIDByHash_def block_rows_def RetrieveUncleCIDsByHeaderID_def
    RetrieveTxCIDsByHeaderID_def RetrieveReceiptCIDsByTxIDs_def read_run_defs served_db_def zero_HeaderModel_def Hash_Hex_def
    pg_int4_def int4s_def rcts_joined_def)

lemma served_db_fk: "deferred_fk served_db"
  by (simp add: served_db_def empty_db_def deferred_fk_def blocks_fk_def rows_fk_def stored_def zero_HeaderModel_def)

theorem Block_served_witness:
  "BlockByHash sample_backend [] [] empty_seq served_db [] = Ok \<lparr>b_Header = sample_header 2, b_Uncles = [], b_Transactions = []\<rparr>"
proof -
  have "BlockByHash sample_backend [] [] empty_seq served_db []
      = block_spec sample_backend served_db (eth_headers served_db ! 0, [], [], [])"
    using Block_served [OF served_db_fk, THEN conjunct1, rule_format, OF served_db_run] by blast
  also have "\<dots> = Ok \<lparr>b_Header = sample_header 2, b_Uncles = [], b_Transactions = []\<rparr>"
    by (simp add: block_spec_def block_data_def sample_backend_def served_db_def zero_HeaderModel_def)
  finally show ?thesis .
qed

subsection \<open>Logs of interest\<close>

definition slot_passes :: "string list \<Rightarrow> Hash \<Rightarrow> bool" where
  "slot_passes slot topic \<longleftrightarrow> slot = [] \<or> Hash_Hex topic \<in> set slot"

lemma slot_step:
  "(if length slot > 0 then m + sliceContainsHash slot topic else m + 1) = (if slot_passes slot topic then m + 1 else m)"
  by (auto simp: sliceContainsHash_def slot_passes_def list_ex_iff)

lemma wantedLog_loop:
  assumes "k + length topics \<le> length ws"
  shows "for_range (\<lambda>i actualTopic matches. outcome_bind (slice_get ws i) (\<lambda>slot.
      Ok (if length slot > 0 then matches + sliceContainsHash slot actualTopic else matches + 1))) k topics m
    = Ok (m + length (filter (\<lambda>(i, t). slot_passes (ws ! i) t) (enumerate k topics)))"
  using assms
proof (induction topics arbitrary: k m)
  case (Cons t ts)
  have k: "slice_get ws k = Ok (ws ! k)" using Cons.prems by (simp add: slice_get_def)
  show ?case
    using Cons.IH [of "Suc k"] Cons.prems by (simp add: k slot_step del: length_greater_0_conv)
qed simp

lemma length_filter_all: "length (filter P xs) = length xs \<longleftrightarrow> (\<forall>x\<in>set xs. P x)"
proof (induction xs)
  case (Cons x xs)
  have "length (filter P xs) \<noteq> Suc (length xs)" using length_filter_le [of P xs] by linarith
  with Cons show ?case by auto
qed simp

text \<open>A log passes when each of its topics passes the slot at its position; slots beyond its last topic are not looked at.\<close>

definition log_passes :: "string list list \<Rightarrow> Log \<Rightarrow> bool" where
  "log_passes ws log \<longleftrightarrow> (\<forall>i<length (l_Topics log). slot_passes (ws ! i) (l_Topics log ! i))"

lemma wantedLog_passes:
  assumes "length (l_Topics log) \<le> length ws"
  shows "wantedLog ws (l_Topics log) = Ok (log_passes ws log)"
proof -
  have "(length (filter (\<lambda>(i, t). slot_passes (ws ! i) t) (enumerate 0 (l_Topics log))) = length (l_Topics log))
    = (\<forall>(i, t)\<in>set (enumerate 0 (l_Topics log)). slot_passes (ws ! i) t)"
    using length_filter_all [of _ "enumerate 0 (l_Topics log)"] by simp
  also have "\<dots> = log_passes ws log" by (auto simp: log_passes_def in_set_enumerate_eq)
  finally show ?thesis unfolding wantedLog_def using wantedLog_loop [of 0 "l_Topics log" ws 0] assms by simp
qed

lemma logs_of_receipt_filter:
  assumes "\<forall>log\<in>set ls. length (l_Topics log) \<le> length ws"
  shows "for_range (\<lambda>_ log logs. outcome_bind (wantedLog ws (l_Topics log)) (\<lambda>wanted.
      Ok (if wanted then logs @ [log] else logs))) k ls acc = Ok (acc @ filter (log_passes ws) ls)"
  using assms by (induction ls arbitrary: k acc) (simp_all add: wantedLog_passes)

lemma extractLogs_loop:
  assumes "outcome_map (\<lambda>b. rlp_DecodeReceipt lib (bm_Data b)) bs = Ok rcts"
    and "\<forall>r\<in>set rcts. \<forall>log\<in>set (r_Logs r). length (l_Topics log) \<le> length ws"
  shows "for_range (\<lambda>_ rctIPLD logs. outcome_bind (rlp_DecodeReceipt lib (bm_Data rctIPLD)) (\<lambda>rct. logs_of_receipt ws rct logs)) k bs acc
    = Ok (acc @ concat (map (\<lambda>r. filter (log_passes ws) (r_Logs r)) rcts))"
  using assms
proof (induction bs arbitrary: k acc rcts)
  case (Cons b bs)
  obtain r rs where r: "rlp_DecodeReceipt lib (bm_Data b) = Ok r" and rs: "outcome_map (\<lambda>b. rlp_DecodeReceipt lib (bm_Data b)) bs = Ok rs"
    "rcts = r # rs" using Cons.prems(1) by (auto simp: outcome_bind_Ok_iff)
  have "logs_of_receipt ws r acc = Ok (acc @ filter (log_passes ws) (r_Logs r))"
    unfolding logs_of_receipt_def using Cons.prems(2) rs(2) by (intro logs_of_receipt_filter) simp
  with r Cons.IH [OF rs(1)] Cons.prems(2) rs(2) show ?case by simp
qed simp

lemma extractLogs_spec:
  assumes "outcome_map (\<lambda>b. rlp_DecodeReceipt lib (bm_Data b)) bs = Ok rcts"
    and "\<forall>r\<in>set rcts. \<forall>log\<in>set (r_Logs r). length (l_Topics log) \<le> length ws"
  shows "extractLogsOfInterest lib bs ws = Ok (concat (map (\<lambda>r. filter (log_passes ws) (r_Logs r)) rcts))"
  unfolding extractLogsOfInterest_def using extractLogs_loop [OF assms, of 0 "[]"] by simp

subsection \<open>The RPC form of a block\<close>

lemma find_own_hash:
  assumes "distinct (map (Tx_Hash geth) txs)" "i < length txs"
  shows "find (\<lambda>(idx, tx). Tx_Hash geth tx = Tx_Hash geth (txs ! i)) (enumerate 0 txs) = Some (i, txs ! i)"
  unfolding find_Some_iff
proof (intro exI [of _ i] conjI allI impI)
  fix j assume "j < i"
  moreover have "Tx_Hash geth (txs ! j) \<noteq> Tx_Hash geth (txs ! i)"
    using assms \<open>j < i\<close> nth_eq_iff_index_eq [OF assms(1), of j i] by simp
  ultimately show "\<not> (case enumerate 0 txs ! j of (idx, tx) \<Rightarrow> Tx_Hash geth tx = Tx_Hash geth (txs ! i))"
    using assms(2) by (simp add: nth_enumerate_eq)
qed (use assms(2) in \<open>simp_all add: nth_enumerate_eq\<close>)

text \<open>
  A block with full transactions, in RPC form, lists its transactions in order, each with the hash and
  number of the block and its own position, and the hashes of the uncles; every field of the header but
  the size is the header's.
\<close>

theorem RPCMarshalBlock_transactions:
  assumes "distinct (map (Tx_Hash geth) (b_Transactions b))" "Block_Hash geth b \<noteq> zero_hash" "length (b_Transactions b) < 2 ^ 64"
  shows "\<exists>txs. RPCMarshalBlock geth lib b True True ''transactions'' = Some (RTxs (map Some txs))
    \<and> length txs = length (b_Transactions b)
    \<and> (\<forall>i<length txs. rt_Hash (txs ! i) = Tx_Hash geth (b_Transactions b ! i) \<and> rt_BlockHash (txs ! i) = Some (Block_Hash geth b)
        \<and> rt_TransactionIndex (txs ! i) = Some (of_nat i) \<and> unat (the (rt_TransactionIndex (txs ! i))) = i)
    \<and> RPCMarshalBlock geth lib b True True ''uncles'' = Some (RHashes (map (Header_Hash geth) (b_Uncles b)))
    \<and> (\<forall>k. k \<notin> {''transactions'', ''uncles'', ''size''} \<longrightarrow>
        RPCMarshalBlock geth lib b True True k = RPCMarshalHeader geth lib (b_Header b) k)"
proof -
  let ?ts = "b_Transactions b"
  let ?rpc = "\<lambda>i. NewRPCTransaction geth lib (?ts ! i) (Block_Hash geth b) (of_int (h_Number (b_Header b))) (of_nat i)"
  let ?txs = "map ?rpc [0 ..< length ?ts]"
  have "NewRPCTransactionFromBlockHash geth lib b (Tx_Hash geth (?ts ! i)) = Some (?rpc i)" if "i < length ?ts" for i
    using find_own_hash [OF assms(1) that] that
    by (simp add: NewRPCTransactionFromBlockHash_def newRPCTransactionFromBlockIndex_def)
  then have eq: "map (NewRPCTransactionFromBlockHash geth lib b) (map (Tx_Hash geth) ?ts) = map Some ?txs"
    by (intro nth_equalityI) simp_all
  have txs: "RPCMarshalBlock geth lib b True True ''transactions'' = Some (RTxs (map Some ?txs))"
    unfolding RPCMarshalBlock_def Let_def eq by simp
  have each: "rt_Hash (?txs ! i) = Tx_Hash geth (?ts ! i) \<and> rt_BlockHash (?txs ! i) = Some (Block_Hash geth b)
      \<and> rt_TransactionIndex (?txs ! i) = Some (of_nat i) \<and> unat (the (rt_TransactionIndex (?txs ! i))) = i"
    if "i < length ?txs" for i
  proof -
    have "unat (of_nat i :: u64) = i" using that assms(3) by (simp add: unat_of_nat)
    with that assms(2) show ?thesis by (simp add: NewRPCTransaction_def Let_def split: prod.splits)
  qed
  have uncles: "RPCMarshalBlock geth lib b True True ''uncles'' = Some (RHashes (map (Header_Hash geth) (b_Uncles b)))"
    and others: "\<forall>k. k \<notin> {''transactions'', ''uncles'', ''size''} \<longrightarrow>
        RPCMarshalBlock geth lib b True True k = RPCMarshalHeader geth lib (b_Header b) k"
    by (auto simp: RPCMarshalBlock_def Let_def)
  have len: "length ?txs = length ?ts" by simp
  show ?thesis
    by (rule exI [of _ ?txs], rule conjI [OF txs conjI [OF len conjI [OF _ conjI [OF uncles others]]]]) (use each in blast)
qed

theorem RPCMarshalBlock_transactions_witness:
  "\<exists>tx. RPCMarshalBlock sample_geth sample_backend (sample_block 5) True True ''transactions'' = Some (RTxs [Some tx])
    \<and> rt_Hash tx = [3] \<and> rt_TransactionIndex tx = Some 0"
proof -
  have "Block_Hash sample_geth (sample_block 5) \<noteq> zero_hash"
    by (simp add: Block_Hash_def sample_defs zero_hash_def numeral_eq_Suc)
  moreover have "distinct (map (Tx_Hash sample_geth) (b_Transactions (sample_block 5)))" "length (b_Transactions (sample_block 5)) < 2 ^ 64"
    by (simp_all add: sample_defs)
  ultimately obtain txs where "RPCMarshalBlock sample_geth sample_backend (sample_block 5) True True ''transactions'' = Some (RTxs (map Some txs))"
    "length txs = 1" "rt_Hash (txs ! 0) = [3]" "rt_TransactionIndex (txs ! 0) = Some 0"
    using RPCMarshalBlock_transactions [of sample_geth "sample_block 5" sample_backend] by (auto simp: sample_defs)
  then show ?thesis by (cases txs) auto
qed

end
