(* ===== verification/Eth_Api.thy ===== *)
theory Eth_Api
  imports Eth_Backend
begin

text \<open>
  Package \<open>eth\<close>, the public JSON-RPC interface (\<open>api.go\<close>). The loop of \<open>GetLogs\<close> counts in \<open>int64\<close> and may not
  end: it is a partial function, \<open>None\<close> is a call that does not return.
\<close>

subsection \<open>Logs\<close>

text \<open>\<open>ethereum.FilterQuery\<close>\<close>

record FilterQuery =
  fq_BlockHash :: "Hash option"
  fq_FromBlock :: "int option"
  fq_ToBlock :: "int option"
  fq_Addresses :: "Address list"
  fq_Topics :: "Hash list list"

definition topicStrSets :: "Hash list list \<Rightarrow> string list list" where
  "topicStrSets topics = map (\<lambda>i. if i < length topics then map Hash_Hex (topics ! i) else []) [0 ..< 4]"

definition query_filter :: "geth_lib \<Rightarrow> FilterQuery \<Rightarrow> ReceiptFilter" where
  "query_filter geth crit = \<lparr>rf_Off = False, rf_MatchTxs = False,
     rf_LogAddresses = map (Address_Hex geth) (fq_Addresses crit), rf_Topics = topicStrSets (fq_Topics crit)\<rparr>"

type_synonym pg_tx = "(pg_db, pg_seq) sql_tx"

partial_function (option) rct_loop ::
    "ReceiptFilter \<Rightarrow> int \<Rightarrow> int \<Rightarrow> ReceiptModel list \<Rightarrow> pg_tx \<Rightarrow> (ReceiptModel list outcome \<times> pg_tx) option" where
  "rct_loop flt i stop allRctCIDs tx =
     (if i \<le> stop
      then case RetrieveRctCIDs flt i None [] tx of (r, tx') \<Rightarrow>
        (case r of
           Ok rctCIDs \<Rightarrow> rct_loop flt (int64_of (i + 1)) stop (allRctCIDs @ rctCIDs) tx'
         | Err e \<Rightarrow> Some (Err e, tx')
         | Panic p \<Rightarrow> Some (Panic p, tx'))
      else Some (Ok allRctCIDs, tx))"

definition fetch_logs :: "backend_lib \<Rightarrow> string list list \<Rightarrow> ReceiptModel list \<Rightarrow> Log list pg_txm" where
  "fetch_logs lib topics rctCIDs =
     tx_bind (PG_FetchRcts rctCIDs) (\<lambda>rctIPLDs.
     tx_bind tx_commit (\<lambda>_. tx_lift (extractLogsOfInterest lib rctIPLDs topics)))"

text \<open>The bounds of the range; a missing one is asked for on the connection.\<close>

definition query_range :: "bool list \<Rightarrow> bool list \<Rightarrow> pg_db \<Rightarrow> FilterQuery \<Rightarrow> (int \<times> int) outcome" where
  "query_range f1 f2 db crit =
     outcome_bind (case fq_FromBlock crit of Some n \<Rightarrow> Ok n | None \<Rightarrow> fst (RetrieveFirstBlockNumber db f1)) (\<lambda>start.
     outcome_bind (case fq_ToBlock crit of Some n \<Rightarrow> Ok n | None \<Rightarrow> fst (RetrieveLastBlockNumber db f2)) (\<lambda>stop.
       Ok (int64_of start, int64_of stop)))"

definition PublicEthAPI_GetLogs ::
    "geth_lib \<Rightarrow> backend_lib \<Rightarrow> bool list \<Rightarrow> bool list \<Rightarrow> bool list \<Rightarrow> pg_seq \<Rightarrow> pg_db \<Rightarrow> FilterQuery \<Rightarrow> Log list outcome option" where
  "PublicEthAPI_GetLogs geth lib f1 f2 ft sq db crit =
     (let flt = query_filter geth crit; tx = begin_tx ft sq db in
      if next_fault ft then Some (Err (Errorf ''pq: begin failed'' []))
      else case fq_BlockHash crit of
        Some hash \<Rightarrow> Some (fst (tx_bind (RetrieveRctCIDs flt 0 (Some hash) []) (fetch_logs lib (rf_Topics flt)) tx))
      | None \<Rightarrow>
          (case query_range f1 f2 db crit of
             Err e \<Rightarrow> Some (Err e)
           | Panic p \<Rightarrow> Some (Panic p)
           | Ok (start, stop) \<Rightarrow>
               (case rct_loop flt start stop [] tx of
                  None \<Rightarrow> None
                | Some (r, tx') \<Rightarrow> Some (fst (tx_bind (tx_lift r) (fetch_logs lib (rf_Topics flt)) tx')))))"

subsection \<open>Blocks, headers and transactions\<close>

definition API_BlockNumber :: "bool list \<Rightarrow> pg_db \<Rightarrow> u64" where
  "API_BlockNumber faults db = (case fst (RetrieveLastBlockNumber db faults) of Ok n \<Rightarrow> of_int n | _ \<Rightarrow> 0)"

definition GetHeaderByNumber ::
    "geth_lib \<Rightarrow> backend_lib \<Rightarrow> bool list \<Rightarrow> bool list \<Rightarrow> bool list \<Rightarrow> pg_seq \<Rightarrow> pg_db \<Rightarrow> int \<Rightarrow> (string \<rightharpoonup> rpc_value) outcome" where
  "GetHeaderByNumber geth lib fq ft fd sq db number =
     outcome_bind (HeaderByNumber lib fq ft sq db number) (rpcMarshalHeader geth lib fd db)"

definition GetBlockByNumber ::
    "geth_lib \<Rightarrow> backend_lib \<Rightarrow> bool list \<Rightarrow> bool list \<Rightarrow> bool list \<Rightarrow> bool list \<Rightarrow> pg_seq \<Rightarrow> pg_db \<Rightarrow> int \<Rightarrow> bool \<Rightarrow> (string \<rightharpoonup> rpc_value) outcome" where
  "GetBlockByNumber geth lib fq fr ft fd sq db number fullTx =
     outcome_bind (BlockByNumber lib fq fr ft sq db number) (\<lambda>block. rpcMarshalBlock geth lib fd db block True fullTx)"

definition GetBlockByHash ::
    "geth_lib \<Rightarrow> backend_lib \<Rightarrow> bool list \<Rightarrow> bool list \<Rightarrow> bool list \<Rightarrow> pg_seq \<Rightarrow> pg_db \<Rightarrow> Hash \<Rightarrow> bool \<Rightarrow> (string \<rightharpoonup> rpc_value) outcome" where
  "GetBlockByHash geth lib fr ft fd sq db hash fullTx =
     outcome_bind (BlockByHash lib fr ft sq db hash) (\<lambda>block. rpcMarshalBlock geth lib fd db block True fullTx)"

definition GetTransactionByHash ::
    "geth_lib \<Rightarrow> backend_lib \<Rightarrow> bool list \<Rightarrow> bool list \<Rightarrow> pg_seq \<Rightarrow> pg_db \<Rightarrow> Hash \<Rightarrow> RPCTransaction outcome" where
  "GetTransactionByHash geth lib fq ft sq db hash =
     outcome_bind (GetTransaction geth lib fq ft sq db hash) (\<lambda>(tx, blockHash, blockNumber, index).
       Ok (NewRPCTransaction geth lib tx blockHash blockNumber index))"

subsection \<open>The receipts of a query\<close>

definition query_cond :: "geth_lib \<Rightarrow> FilterQuery \<Rightarrow> ReceiptModel \<Rightarrow> bool" where
  "query_cond geth crit r \<longleftrightarrow>
     (fq_Addresses crit \<noteq> [] \<longrightarrow> overlaps (rm_LogContracts r) (varchar66s (map (Address_Hex geth) (fq_Addresses crit))))
   \<and> topics_where (topicStrSets (fq_Topics crit)) r"

lemma four_clauses: "hasTopics (topicStrSets topics) \<longleftrightarrow> topic_clauses (topicStrSets topics) \<noteq> []"
proof -
  let ?ts = "topicStrSets topics"
  have len: "length ?ts = 4" by (simp add: topicStrSets_def)
  have "topic_clauses ?ts \<noteq> [] \<longleftrightarrow> (\<exists>i<4. ?ts ! i \<noteq> [])"
    by (auto simp: topic_clauses_def filter_empty_conv in_set_enumerate_eq len)
  also have "\<dots> \<longleftrightarrow> (\<exists>s\<in>set ?ts. s \<noteq> [])" by (metis in_set_conv_nth len)
  also have "\<dots> \<longleftrightarrow> hasTopics ?ts" by (auto simp: hasTopics_def list_ex_iff)
  finally show ?thesis ..
qed

lemma rct_where_query: "rct_where (query_filter geth crit) [] = Ok (query_cond geth crit)"
proof -
  have none: "topics_where (topicStrSets (fq_Topics crit)) r" if "\<not> hasTopics (topicStrSets (fq_Topics crit))" for r
    using that unfolding four_clauses by (simp add: topics_where_def)
  show ?thesis
    using four_clauses [of "fq_Topics crit"] none
    by (cases "fq_Addresses crit = []"; cases "hasTopics (topicStrSets (fq_Topics crit))")
       (auto simp: rct_where_def query_filter_def query_cond_def Let_def fun_eq_iff)
qed

text \<open>What the query returns for a height: a height of zero or below does not restrict it.\<close>

definition rows_at :: "(ReceiptModel \<Rightarrow> bool) \<Rightarrow> pg_db \<Rightarrow> int \<Rightarrow> ReceiptModel list" where
  "rows_at cond db n = map fst (filter (\<lambda>(r, t). cond r \<and> list_ex (\<lambda>h. tm_HeaderID t = hm_ID h
     \<and> (n > 0 \<longrightarrow> header_number h = n)) (eth_headers db)) (rcts_joined db))"

lemma rct_query_begin:
  "RetrieveRctCIDs (query_filter geth crit) n None [] (begin_tx [] sq db) = (Ok (rows_at (query_cond geth crit) db n), begin_tx [] sq db)"
  unfolding RetrieveRctCIDs_def by (rule select_begin) (simp add: rct_where_query rows_at_def)

lemma rct_loop_range:
  assumes "- (2 ^ 63) \<le> a" "b < 2 ^ 63 - 1"
  shows "rct_loop (query_filter geth crit) a b acc (begin_tx [] sq db)
    = Some (Ok (acc @ concat (map (rows_at (query_cond geth crit) db) [a..b])), begin_tx [] sq db)"
  using assms
proof (induction "nat (b + 1 - a)" arbitrary: a acc)
  case 0
  then show ?case by (subst rct_loop.simps) simp
next
  case (Suc k)
  then have ab: "a \<le> b" by simp
  then have "int64_of (a + 1) = a + 1" using Suc.prems by (intro int64_of_id) auto
  moreover have "k = nat (b + 1 - (a + 1))" using Suc.hyps(2) by simp
  note IH = Suc.hyps(1) [OF this, of "acc @ rows_at (query_cond geth crit) db a"]
  moreover have "[a..b] = a # [a + 1..b]" using ab by (simp add: upto_rec1)
  ultimately show ?case
    using ab Suc.prems by (subst rct_loop.simps) (simp add: rct_query_begin)
qed

text \<open>A range that ends at the largest \<open>int64\<close> is never left: the counter wraps around.\<close>

lemma rct_loop_forever:
  assumes "rct_loop flt i stop acc tx = Some y"
  shows "\<not> (stop = 2 ^ 63 - 1 \<and> - (2 ^ 63) \<le> i \<and> i < 2 ^ 63 \<and> flt = query_filter geth crit \<and> tx = begin_tx [] sq db)"
proof (rule rct_loop.raw_induct [OF _ assms, of
    "\<lambda>flt i stop acc tx y. \<not> (stop = 2 ^ 63 - 1 \<and> - (2 ^ 63) \<le> i \<and> i < 2 ^ 63 \<and> flt = query_filter geth crit \<and> tx = begin_tx [] sq db)"])
  fix loop flt i stop acc tx y
  assume IH: "\<And>flt i stop acc tx y. loop flt i stop acc tx = Some y \<Longrightarrow>
      \<not> (stop = 2 ^ 63 - 1 \<and> - (2 ^ 63) \<le> i \<and> i < 2 ^ 63 \<and> flt = query_filter geth crit \<and> tx = begin_tx [] sq db)"
    and step: "(if i \<le> stop
      then case RetrieveRctCIDs flt i None [] tx of (r, tx') \<Rightarrow>
        (case r of
           Ok rctCIDs \<Rightarrow> loop flt (int64_of (i + 1)) stop (acc @ rctCIDs) tx'
         | Err e \<Rightarrow> Some (Err e, tx')
         | Panic p \<Rightarrow> Some (Panic p, tx'))
      else Some (Ok acc, tx)) = Some y"
  show "\<not> (stop = 2 ^ 63 - 1 \<and> - (2 ^ 63) \<le> i \<and> i < 2 ^ 63 \<and> flt = query_filter geth crit \<and> tx = begin_tx [] sq db)"
  proof
    assume h: "stop = 2 ^ 63 - 1 \<and> - (2 ^ 63) \<le> i \<and> i < 2 ^ 63 \<and> flt = query_filter geth crit \<and> tx = begin_tx [] sq db"
    then have "loop flt (int64_of (i + 1)) stop (acc @ rows_at (query_cond geth crit) db i) tx = Some y"
      using step by (simp add: rct_query_begin)
    from IH [OF this] h int64_of_range [of "i + 1"] show False by blast
  qed
qed

lemma rows_at_set:
  "r \<in> set (rows_at cond db n) \<longleftrightarrow> r \<in> set (eth_rcts db) \<and> cond r
    \<and> (\<exists>t\<in>set (eth_txs db). \<exists>h\<in>set (eth_headers db). rm_TxID r = tm_ID t \<and> tm_HeaderID t = hm_ID h \<and> (n > 0 \<longrightarrow> header_number h = n))"
proof
  assume "r \<in> set (rows_at cond db n)"
  then obtain t h where "(r, t) \<in> set (rcts_joined db)" "cond r" "h \<in> set (eth_headers db)"
    "tm_HeaderID t = hm_ID h" "n > 0 \<longrightarrow> header_number h = n"
    by (auto simp: rows_at_def list_ex_iff)
  then show "r \<in> set (eth_rcts db) \<and> cond r \<and> (\<exists>t\<in>set (eth_txs db). \<exists>h\<in>set (eth_headers db).
      rm_TxID r = tm_ID t \<and> tm_HeaderID t = hm_ID h \<and> (n > 0 \<longrightarrow> header_number h = n))"
    unfolding rcts_joined_set by blast
next
  assume "r \<in> set (eth_rcts db) \<and> cond r \<and> (\<exists>t\<in>set (eth_txs db). \<exists>h\<in>set (eth_headers db).
      rm_TxID r = tm_ID t \<and> tm_HeaderID t = hm_ID h \<and> (n > 0 \<longrightarrow> header_number h = n))"
  then obtain t h where "(r, t) \<in> set (rcts_joined db)" "cond r" "h \<in> set (eth_headers db)"
    "tm_HeaderID t = hm_ID h \<and> (n > 0 \<longrightarrow> header_number h = n)"
    unfolding rcts_joined_set by blast
  then show "r \<in> set (rows_at cond db n)" unfolding rows_at_def list_ex_iff by force
qed

definition rcts_in :: "(ReceiptModel \<Rightarrow> bool) \<Rightarrow> pg_db \<Rightarrow> int \<Rightarrow> int \<Rightarrow> ReceiptModel set" where
  "rcts_in cond db a b = {r \<in> set (eth_rcts db). cond r \<and> (\<exists>t\<in>set (eth_txs db). \<exists>h\<in>set (eth_headers db).
     rm_TxID r = tm_ID t \<and> tm_HeaderID t = hm_ID h \<and> a \<le> header_number h \<and> header_number h \<le> b)}"

definition rcts_anywhere :: "(ReceiptModel \<Rightarrow> bool) \<Rightarrow> pg_db \<Rightarrow> ReceiptModel set" where
  "rcts_anywhere cond db = {r \<in> set (eth_rcts db). cond r \<and> (\<exists>t\<in>set (eth_txs db). \<exists>h\<in>set (eth_headers db).
     rm_TxID r = tm_ID t \<and> tm_HeaderID t = hm_ID h)}"

lemma rows_range_set:
  "set (concat (map (rows_at cond db) [a..b])) = (if 0 < a then rcts_in cond db a b else if a \<le> b then rcts_anywhere cond db else {})"
proof (cases "0 < a")
  case True
  then show ?thesis by (auto simp: rows_at_set rcts_in_def) fastforce+
next
  case False
  have "set (rows_at cond db n) \<subseteq> rcts_anywhere cond db" for n
    unfolding rcts_anywhere_def by (rule subsetI) (use rows_at_set [of _ cond db n] in blast)
  moreover have "rcts_anywhere cond db = set (rows_at cond db a)"
  proof (rule set_eqI)
    show "r \<in> rcts_anywhere cond db \<longleftrightarrow> r \<in> set (rows_at cond db a)" for r
      unfolding rcts_anywhere_def mem_Collect_eq rows_at_set using False by simp
  qed
  ultimately show ?thesis using False by (auto split: if_splits)
qed

lemma fetch_logs_begin:
  assumes "deferred_fk db" "set rows \<subseteq> set (eth_rcts db)"
    and "outcome_map (\<lambda>r. rlp_DecodeReceipt lib (block_data db (rm_MhKey r))) rows = Ok rcts"
    and "\<forall>r\<in>set rcts. \<forall>log\<in>set (r_Logs r). length (l_Topics log) \<le> length ws"
  shows "fetch_logs lib ws rows (begin_tx [] sq db)
    = (Ok (concat (map (\<lambda>r. filter (log_passes ws) (r_Logs r)) rcts)), begin_tx [] sq db)"
proof -
  have "\<forall>r\<in>set rows. stored db (rm_MhKey r)"
    using assms(1,2) by (auto simp: deferred_fk_def blocks_fk_def list_all_iff)
  then obtain bms where bms: "PG_FetchRcts rows (begin_tx [] sq db) = (Ok bms, begin_tx [] sq db)"
    "decode_all (rlp_DecodeReceipt lib) bms = Ok rcts"
    unfolding PG_FetchRcts_def using fetch_decode [of rows db rm_MhKey rm_CID sq "rlp_DecodeReceipt lib"] assms(3) by auto
  have c: "tx_commit (begin_tx [] sq db) = (Ok (), begin_tx [] sq db)" by (simp add: tx_commit_def begin_tx_def next_fault_def)
  show ?thesis
    unfolding fetch_logs_def using extractLogs_spec [OF bms(2) [unfolded decode_all_def] assms(4)]
    by (simp add: tx_bind_def tx_lift_def bms(1) c)
qed

text \<open>
  C19. The logs of a range of heights. When the foreign keys hold, the receipts decode and no statement
  fails, \<open>GetLogs\<close> for heights \<open>a\<close> to \<open>b\<close> returns, in the order of the rows, the logs of the selected receipts whose
  topics pass, whatever contract they come from. For \<open>a > 0\<close> the selected receipts are those of the
  range that pass the filter; for \<open>a \<le> 0\<close> they are those of every height.
\<close>

theorem GetLogs_range:
  assumes "deferred_fk db" "fq_BlockHash crit = None" "fq_FromBlock crit = Some a" "fq_ToBlock crit = Some b"
    and "- (2 ^ 63) \<le> a" "a < 2 ^ 63" "- (2 ^ 63) \<le> b" "b < 2 ^ 63 - 1"
    and "rows = concat (map (rows_at (query_cond geth crit) db) [a..b])"
    and "outcome_map (\<lambda>r. rlp_DecodeReceipt lib (block_data db (rm_MhKey r))) rows = Ok rcts"
    and "\<forall>r\<in>set rcts. \<forall>log\<in>set (r_Logs r). length (l_Topics log) \<le> 4"
  shows "PublicEthAPI_GetLogs geth lib [] [] [] sq db crit
      = Some (Ok (concat (map (\<lambda>r. filter (log_passes (topicStrSets (fq_Topics crit))) (r_Logs r)) rcts)))
    \<and> set rows = (if 0 < a then rcts_in (query_cond geth crit) db a b
        else if a \<le> b then rcts_anywhere (query_cond geth crit) db else {})"
proof
  show set: "set rows = (if 0 < a then rcts_in (query_cond geth crit) db a b
        else if a \<le> b then rcts_anywhere (query_cond geth crit) db else {})"
    unfolding assms(9) by (rule rows_range_set)
  have "int64_of a = a" "int64_of b = b" using assms(5-8) by simp_all
  then have "query_range [] [] db crit = Ok (a, b)" by (simp add: query_range_def assms(3,4))
  moreover have "rct_loop (query_filter geth crit) a b [] (begin_tx [] sq db) = Some (Ok rows, begin_tx [] sq db)"
    using rct_loop_range [OF assms(5,8), of geth crit "[]" sq db] by (simp add: assms(9))
  moreover have "fetch_logs lib (topicStrSets (fq_Topics crit)) rows (begin_tx [] sq db)
      = (Ok (concat (map (\<lambda>r. filter (log_passes (topicStrSets (fq_Topics crit))) (r_Logs r)) rcts)), begin_tx [] sq db)"
    by (rule fetch_logs_begin [OF assms(1) _ assms(10)])
       (use set assms(11) in \<open>auto simp: rcts_in_def rcts_anywhere_def topicStrSets_def split: if_splits\<close>)
  ultimately show "PublicEthAPI_GetLogs geth lib [] [] [] sq db crit
      = Some (Ok (concat (map (\<lambda>r. filter (log_passes (topicStrSets (fq_Topics crit))) (r_Logs r)) rcts)))"
    by (simp add: PublicEthAPI_GetLogs_def Let_def next_fault_def assms(2) tx_bind_def tx_lift_def query_filter_def)
qed

text \<open>
  C24. \<open>GetLogs\<close> over a range, with both bounds given, returns exactly when the upper bound, as an \<open>int64\<close>, is not the largest one:
  there \<open>i <= end\<close> never fails, because the counter wraps around.
\<close>

theorem GetLogs_returns:
  assumes "fq_BlockHash crit = None" "fq_FromBlock crit = Some a" "fq_ToBlock crit = Some b"
  shows "(\<exists>r. PublicEthAPI_GetLogs geth lib [] [] [] sq db crit = Some r) \<longleftrightarrow> int64_of b \<noteq> 2 ^ 63 - 1"
proof -
  let ?loop = "rct_loop (query_filter geth crit) (int64_of a) (int64_of b) [] (begin_tx [] sq db)"
  have "query_range [] [] db crit = Ok (int64_of a, int64_of b)" by (simp add: query_range_def assms(2,3))
  then have "(\<exists>r. PublicEthAPI_GetLogs geth lib [] [] [] sq db crit = Some r) \<longleftrightarrow> (\<exists>y. ?loop = Some y)"
    by (auto simp: PublicEthAPI_GetLogs_def Let_def next_fault_def assms(1) split: option.splits)
  also have "\<dots> \<longleftrightarrow> int64_of b \<noteq> 2 ^ 63 - 1"
  proof
    assume "\<exists>y. ?loop = Some y"
    then obtain y where y: "?loop = Some y" by blast
    show "int64_of b \<noteq> 2 ^ 63 - 1"
      using rct_loop_forever [OF y, of geth crit sq db] int64_of_range [of a] by blast
  next
    assume "int64_of b \<noteq> 2 ^ 63 - 1"
    then have "int64_of b < 2 ^ 63 - 1" using int64_of_range [of b] by linarith
    from rct_loop_range [OF _ this] int64_of_range [of a] show "\<exists>y. ?loop = Some y" by blast
  qed
  finally show ?thesis .
qed

definition sample_query :: "int \<Rightarrow> int \<Rightarrow> FilterQuery" where
  "sample_query a b = \<lparr>fq_BlockHash = None, fq_FromBlock = Some a, fq_ToBlock = Some b, fq_Addresses = [], fq_Topics = [[], [[2]]]\<rparr>"

theorem GetLogs_returns_witness:
  "\<not> (\<exists>r. PublicEthAPI_GetLogs sample_geth sample_backend [] [] [] empty_seq empty_db (sample_query 0 (2 ^ 63 - 1)) = Some r)"
  using GetLogs_returns [of "sample_query 0 (2 ^ 63 - 1)" 0 "2 ^ 63 - 1" sample_geth sample_backend empty_seq empty_db]
  by (simp add: sample_query_def)

definition logs_backend :: backend_lib where
  "logs_backend = sample_backend\<lparr>rlp_DecodeReceipt := \<lambda>b. Ok (sample_rct\<lparr>r_Logs := [\<lparr>l_Address = [5], l_Topics = [[1], [2]], l_Data = []\<rparr>,
     \<lparr>l_Address = [5], l_Topics = [[1], [1]], l_Data = []\<rparr>]\<rparr>)\<rparr>"

definition logs_db :: pg_db where
  "logs_db = served_db\<lparr>eth_txs := [zero_TxModel\<lparr>tm_ID := 1, tm_HeaderID := 1, tm_MhKey := ''k''\<rparr>],
     eth_rcts := [zero_ReceiptModel\<lparr>rm_ID := 1, rm_TxID := 1, rm_MhKey := ''k'', rm_Topic1s := [Hash_Hex [2]]\<rparr>]\<rparr>"

lemma logs_db_fk: "deferred_fk logs_db"
  by (simp add: logs_db_def served_db_def empty_db_def deferred_fk_def blocks_fk_def rows_fk_def stored_def zero_HeaderModel_def
    zero_TxModel_def zero_ReceiptModel_def)

lemma logs_db_rows:
  "concat (map (rows_at (query_cond sample_geth (sample_query 3 5)) logs_db) [3..5]) = eth_rcts logs_db"
  by (simp add: upto_rec1 rows_at_def rcts_joined_def query_cond_def sample_query_def topics_where_def topic_clauses_def topicStrSets_def
    logs_db_def served_db_def empty_db_def zero_HeaderModel_def zero_TxModel_def zero_ReceiptModel_def header_number_def upt_rec
    overlaps_def varchar66s_def topic_column_def Hash_Hex_def)

theorem GetLogs_range_witness:
  "PublicEthAPI_GetLogs sample_geth logs_backend [] [] [] empty_seq logs_db (sample_query 3 5)
    = Some (Ok [\<lparr>l_Address = [5], l_Topics = [[1], [2]], l_Data = []\<rparr>])"
proof -
  let ?rct = "sample_rct\<lparr>r_Logs := [\<lparr>l_Address = [5], l_Topics = [[1], [2]], l_Data = []\<rparr>, \<lparr>l_Address = [5], l_Topics = [[1], [1]], l_Data = []\<rparr>]\<rparr>"
  have q: "fq_BlockHash (sample_query 3 5) = None" "fq_FromBlock (sample_query 3 5) = Some 3" "fq_ToBlock (sample_query 3 5) = Some 5"
    by (simp_all add: sample_query_def)
  have d: "outcome_map (\<lambda>r. rlp_DecodeReceipt logs_backend (block_data logs_db (rm_MhKey r))) (eth_rcts logs_db) = Ok [?rct]"
    by (simp add: logs_backend_def logs_db_def)
  have run: "PublicEthAPI_GetLogs sample_geth logs_backend [] [] [] empty_seq logs_db (sample_query 3 5)
      = Some (Ok (concat (map (\<lambda>r. filter (log_passes (topicStrSets (fq_Topics (sample_query 3 5)))) (r_Logs r)) [?rct])))"
    by (rule GetLogs_range [OF logs_db_fk q _ _ _ _ logs_db_rows [symmetric] d, THEN conjunct1]) simp_all
  have "Hash_Hex [1] \<noteq> Hash_Hex [2]" by (simp add: Hash_Hex_def hex_digit_def char_of_def bit_0)
  then show ?thesis
    unfolding run by (simp add: log_passes_def sample_query_def topicStrSets_def slot_passes_def upt_rec numeral_eq_Suc All_less_Suc)
qed

end
