(* ===== verification/Btc_Indexer.thy ===== *)
theory Btc_Indexer
  imports Pg_DB
begin

text \<open>
  \<open>btc/indexer.go\<close>: the statements that write the rows of a Bitcoin block, one upsert each, and \<open>Index\<close>, which
  writes a block in one transaction. A row of \<open>btc.transaction_cids\<close> is unique by its hash alone, not by
  header and hash.
\<close>

subsection \<open>Statements\<close>

definition btc_header_row :: "int \<Rightarrow> BtcHeaderModel \<Rightarrow> BtcHeaderModel outcome" where
  "btc_header_row nodeID header =
     outcome_bind (pg_bigint (bhm_BlockNumber header)) (\<lambda>blockNumber.
     outcome_bind (outcome_map pg_varchar66 [bhm_BlockHash header, bhm_ParentHash header]) (\<lambda>_.
     outcome_bind (pg_int4 nodeID) (\<lambda>_.
       Ok (header\<lparr>bhm_BlockNumber := blockNumber, bhm_NodeID := nodeID, bhm_TimesValidated := 1\<rparr>))))"

definition btc_update_header :: "BtcHeaderModel \<Rightarrow> BtcHeaderModel \<Rightarrow> BtcHeaderModel outcome" where
  "btc_update_header new old =
     outcome_bind (pg_int4 (bhm_TimesValidated old + 1)) (\<lambda>times.
       Ok (old\<lparr>bhm_ParentHash := bhm_ParentHash new, bhm_CID := bhm_CID new, bhm_Timestamp := bhm_Timestamp new,
               bhm_Bits := bhm_Bits new, bhm_NodeID := bhm_NodeID new, bhm_MhKey := bhm_MhKey new,
               bhm_TimesValidated := times\<rparr>))"

definition btc_insert_header :: "int \<Rightarrow> BtcHeaderModel \<Rightarrow> int pg_stmt" where
  "btc_insert_header nodeID header sq db =
     outcome_bind (btc_header_row nodeID header) (\<lambda>row.
       if nodeID \<notin> set (db_nodes db) then Err (Errorf ''pq: insert violates foreign key constraint on node_id'' [])
       else outcome_bind (upsert bhm_ID (\<lambda>r. btc_header_key r = btc_header_key row) (btc_update_header row)
              (\<lambda>n. row\<lparr>bhm_ID := n\<rparr>) (sq_btc_headers sq) (btc_headers db)) (\<lambda>(i, rows, n).
            Ok (i, db\<lparr>btc_headers := rows\<rparr>, sq\<lparr>sq_btc_headers := n\<rparr>)))"

definition btc_indexHeaderCID :: "int \<Rightarrow> BtcHeaderModel \<Rightarrow> int pg_txm" where
  "btc_indexHeaderCID nodeID header = sql_exec (btc_insert_header nodeID header)"

definition btc_tx_row :: "TxModelWithInsAndOuts \<Rightarrow> int \<Rightarrow> int \<Rightarrow> BtcTxModel" where
  "btc_tx_row transaction headerID n = \<lparr>btm_ID = n, btm_HeaderID = headerID, btm_Index = btm_Index transaction,
     btm_TxHash = btm_TxHash transaction, btm_CID = btm_CID transaction, btm_MhKey = btm_MhKey transaction,
     btm_SegWit = btm_SegWit transaction, btm_WitnessHash = btm_WitnessHash transaction\<rparr>"

definition btc_insert_tx :: "TxModelWithInsAndOuts \<Rightarrow> int \<Rightarrow> int pg_stmt" where
  "btc_insert_tx transaction headerID sq db =
     outcome_bind (pg_int4 headerID) (\<lambda>_.
     outcome_bind (outcome_map pg_varchar66 [btm_TxHash transaction, btm_WitnessHash transaction]) (\<lambda>_.
     outcome_bind (pg_int4 (btm_Index transaction)) (\<lambda>_.
     outcome_bind (upsert btm_ID (\<lambda>r. btm_TxHash r = btm_TxHash transaction)
       (\<lambda>old. Ok (btc_tx_row transaction headerID (btm_ID old)))
       (\<lambda>n. btc_tx_row transaction headerID n) (sq_btc_txs sq) (btc_txs db)) (\<lambda>(i, rows, n).
       Ok (i, db\<lparr>btc_txs := rows\<rparr>, sq\<lparr>sq_btc_txs := n\<rparr>)))))"

definition btc_indexTransactionCID :: "TxModelWithInsAndOuts \<Rightarrow> int \<Rightarrow> int pg_txm" where
  "btc_indexTransactionCID transaction headerID = sql_exec (btc_insert_tx transaction headerID)"

definition insert_input :: "TxInput \<Rightarrow> int \<Rightarrow> unit pg_stmt" where
  "insert_input txInput txID sq db =
     outcome_bind (pg_int4 txID) (\<lambda>_.
     outcome_bind (pg_int4 (ti_Index txInput)) (\<lambda>_.
     outcome_bind (pg_varchar66 (ti_PreviousOutPointHash txInput)) (\<lambda>_.
     outcome_bind (upsert ti_ID (\<lambda>r. input_key r = (txID, ti_Index txInput))
       (\<lambda>old. Ok (txInput\<lparr>ti_ID := ti_ID old, ti_TxID := ti_TxID old\<rparr>))
       (\<lambda>n. txInput\<lparr>ti_ID := n, ti_TxID := txID\<rparr>) (sq_btc_inputs sq) (btc_inputs db)) (\<lambda>(_, rows, n).
       Ok ((), db\<lparr>btc_inputs := rows\<rparr>, sq\<lparr>sq_btc_inputs := n\<rparr>)))))"

definition indexTxInput :: "TxInput \<Rightarrow> int \<Rightarrow> unit pg_txm" where
  "indexTxInput txInput txID = sql_exec (insert_input txInput txID)"

definition insert_output :: "TxOutput \<Rightarrow> int \<Rightarrow> unit pg_stmt" where
  "insert_output txOutput txID sq db =
     outcome_bind (pg_int4 txID) (\<lambda>_.
     outcome_bind (pg_int4 (to_Index txOutput)) (\<lambda>_.
     outcome_bind (pg_bigint (big_String (to_Value txOutput))) (\<lambda>_.
     outcome_bind (outcome_map pg_varchar66 (to_Addresses txOutput)) (\<lambda>_.
     outcome_bind (pg_int4 (to_RequiredSigs txOutput)) (\<lambda>_.
     outcome_bind (upsert to_ID (\<lambda>r. output_key r = (txID, to_Index txOutput))
       (\<lambda>old. Ok (txOutput\<lparr>to_ID := to_ID old, to_TxID := to_TxID old\<rparr>))
       (\<lambda>n. txOutput\<lparr>to_ID := n, to_TxID := txID\<rparr>) (sq_btc_outputs sq) (btc_outputs db)) (\<lambda>(_, rows, n).
       Ok ((), db\<lparr>btc_outputs := rows\<rparr>, sq\<lparr>sq_btc_outputs := n\<rparr>)))))))"

definition indexTxOutput :: "TxOutput \<Rightarrow> int \<Rightarrow> unit pg_txm" where
  "indexTxOutput txOutput txID = sql_exec (insert_output txOutput txID)"

subsection \<open>A block\<close>

definition index_ins_outs :: "TxModelWithInsAndOuts \<Rightarrow> int \<Rightarrow> unit pg_txm" where
  "index_ins_outs transaction txID =
     tx_bind (tx_for (\<lambda>_ input. indexTxInput input txID) 0 (btm_TxInputs transaction)) (\<lambda>_.
       tx_for (\<lambda>_ output. indexTxOutput output txID) 0 (btm_TxOutputs transaction))"

definition indexTransactionCIDs :: "TxModelWithInsAndOuts list \<Rightarrow> int \<Rightarrow> unit pg_txm" where
  "indexTransactionCIDs transactions headerID =
     tx_for (\<lambda>_ transaction. tx_bind (btc_indexTransactionCID transaction headerID) (index_ins_outs transaction)) 0 transactions"

definition btc_index_body :: "int \<Rightarrow> BtcCIDPayload \<Rightarrow> unit pg_body" where
  "btc_index_body nodeID cidWrapper =
     outer_err (btc_indexHeaderCID nodeID (bcd_HeaderCID cidWrapper)) (\<lambda>headerID.
     outer_err (indexTransactionCIDs (bcd_TransactionCIDs cidWrapper) headerID) (\<lambda>_. body_return ()))"

definition btc_Index ::
    "int \<Rightarrow> bool list \<Rightarrow> CIDsForIndexing \<Rightarrow> pg_seq \<Rightarrow> pg_db \<Rightarrow> unit outcome \<times> pg_db \<times> pg_seq" where
  "btc_Index nodeID faults cids sq db =
     (case cids of
        BtcCIDs cidWrapper \<Rightarrow> run_tx deferred_fk faults (btc_index_body nodeID cidWrapper) sq db
      | _ \<Rightarrow> (Err (Errorf ''btc indexer expected cids type %T got %T'' [''*btc.CIDPayload'', CIDs_T cids]), db, sq))"

subsection \<open>The upserts meet the contract\<close>

lemma btc_update_header_keeps:
  "btc_update_header new old = Ok r \<Longrightarrow> bhm_ID r = bhm_ID old \<and> btc_header_key r = btc_header_key old"
  by (auto simp: btc_update_header_def btc_header_key_def)

interpretation btc_header_up: upsert_row bhm_ID btc_header_key "\<lambda>r. btc_header_key r = btc_header_key row" "btc_update_header row"
    "\<lambda>n. row\<lparr>bhm_ID := n\<rparr>" "btc_header_key row" for row :: BtcHeaderModel
  by unfold_locales (auto simp: btc_header_key_def dest: btc_update_header_keeps)

text \<open>The update of a transaction keeps id and hash only for the row it conflicts with.\<close>

definition btc_tx_update :: "TxModelWithInsAndOuts \<Rightarrow> int \<Rightarrow> BtcTxModel \<Rightarrow> BtcTxModel outcome" where
  "btc_tx_update transaction headerID old =
     Ok (if btm_TxHash old = btm_TxHash transaction then btc_tx_row transaction headerID (btm_ID old) else old)"

interpretation btc_tx_up: upsert_row btm_ID "btm_TxHash :: BtcTxModel \<Rightarrow> string" "\<lambda>r. btm_TxHash r = btm_TxHash transaction"
    "btc_tx_update transaction headerID" "\<lambda>n. btc_tx_row transaction headerID n" "btm_TxHash transaction"
    for transaction :: TxModelWithInsAndOuts and headerID
  by unfold_locales (auto simp: btc_tx_row_def btc_tx_update_def split: if_splits)

lemma upsert_cong_upd:
  assumes "\<And>r. same r \<Longrightarrow> upd r = upd' r"
  shows "upsert rid same upd mk n rows = upsert rid same upd' mk n rows"
proof (cases "find same rows")
  case (Some r)
  then have "same r" by (auto simp: find_Some_iff)
  with Some assms show ?thesis by (simp add: upsert_def)
qed (simp add: upsert_def)

lemma btc_tx_upsert:
  "upsert btm_ID (\<lambda>r. btm_TxHash r = btm_TxHash t) (\<lambda>old. Ok (btc_tx_row t headerID (btm_ID old))) (\<lambda>n. btc_tx_row t headerID n) n rows
   = upsert btm_ID (\<lambda>r. btm_TxHash r = btm_TxHash t) (btc_tx_update t headerID) (\<lambda>n. btc_tx_row t headerID n) n rows"
  by (rule upsert_cong_upd) (simp add: btc_tx_update_def)

definition input_update :: "TxInput \<Rightarrow> int \<Rightarrow> TxInput \<Rightarrow> TxInput outcome" where
  "input_update txInput txID old =
     Ok (if input_key old = (txID, ti_Index txInput) then txInput\<lparr>ti_ID := ti_ID old, ti_TxID := ti_TxID old\<rparr> else old)"

interpretation input_up: upsert_row ti_ID input_key "\<lambda>r. input_key r = (txID, ti_Index txInput)"
    "input_update txInput txID" "\<lambda>n. txInput\<lparr>ti_ID := n, ti_TxID := txID\<rparr>" "(txID, ti_Index txInput)"
    for txInput :: TxInput and txID
  by unfold_locales (auto simp: input_key_def input_update_def split: if_splits)

lemma input_upsert:
  "upsert ti_ID (\<lambda>r. input_key r = (txID, ti_Index i)) (\<lambda>old. Ok (i\<lparr>ti_ID := ti_ID old, ti_TxID := ti_TxID old\<rparr>)) mk n rows
   = upsert ti_ID (\<lambda>r. input_key r = (txID, ti_Index i)) (input_update i txID) mk n rows"
  by (rule upsert_cong_upd) (simp add: input_update_def)

definition output_update :: "TxOutput \<Rightarrow> int \<Rightarrow> TxOutput \<Rightarrow> TxOutput outcome" where
  "output_update txOutput txID old =
     Ok (if output_key old = (txID, to_Index txOutput) then txOutput\<lparr>to_ID := to_ID old, to_TxID := to_TxID old\<rparr> else old)"

interpretation output_up: upsert_row to_ID output_key "\<lambda>r. output_key r = (txID, to_Index txOutput)"
    "output_update txOutput txID" "\<lambda>n. txOutput\<lparr>to_ID := n, to_TxID := txID\<rparr>" "(txID, to_Index txOutput)"
    for txOutput :: TxOutput and txID
  by unfold_locales (auto simp: output_key_def output_update_def split: if_splits)

lemma output_upsert:
  "upsert to_ID (\<lambda>r. output_key r = (txID, to_Index i)) (\<lambda>old. Ok (i\<lparr>to_ID := to_ID old, to_TxID := to_TxID old\<rparr>)) mk n rows
   = upsert to_ID (\<lambda>r. output_key r = (txID, to_Index i)) (output_update i txID) mk n rows"
  by (rule upsert_cong_upd) (simp add: output_update_def)

subsection \<open>Invariants\<close>

lemma btc_insert_header_keeps [keeps_intros]: "stmt_keeps db_ok (btc_insert_header nodeID header)"
  by (auto simp: stmt_keeps_def btc_insert_header_def db_ok_defs split: if_splits dest: btc_header_up.upsert_keeps)

lemma btc_insert_tx_keeps [keeps_intros]: "stmt_keeps db_ok (btc_insert_tx transaction headerID)"
  by (auto simp: stmt_keeps_def btc_insert_tx_def btc_tx_upsert db_ok_defs dest: btc_tx_up.upsert_keeps)

lemma insert_input_keeps [keeps_intros]: "stmt_keeps db_ok (insert_input txInput txID)"
  by (auto simp: stmt_keeps_def insert_input_def input_upsert db_ok_defs dest: input_up.upsert_keeps)

lemma insert_output_keeps [keeps_intros]: "stmt_keeps db_ok (insert_output txOutput txID)"
  by (auto simp: stmt_keeps_def insert_output_def output_upsert db_ok_defs dest: output_up.upsert_keeps)

lemmas btc_op_defs = btc_indexHeaderCID_def btc_indexTransactionCID_def indexTxInput_def indexTxOutput_def
  index_ins_outs_def indexTransactionCIDs_def

lemma btc_index_body_keeps: "body_keeps db_ok (btc_index_body nodeID p)"
  unfolding btc_index_body_def btc_op_defs by (intro keeps_intros)

lemma btc_index_body_rolls_back: "error_rolls_back (btc_index_body nodeID p)"
  unfolding btc_index_body_def by (intro rolls_back_intros)

interpretation btc_index_tx: transactional "btc_index_body nodeID p" for nodeID p
  by unfold_locales (rule btc_index_body_rolls_back)

subsection \<open>What a committed block leaves in the tables\<close>

text \<open>The header row: its id, the given cid and key, and one more validation than before.\<close>

definition btc_header_upserted :: "int \<Rightarrow> BtcHeaderModel \<Rightarrow> int \<Rightarrow> BtcHeaderModel list \<Rightarrow> BtcHeaderModel list \<Rightarrow> bool" where
  "btc_header_upserted nodeID header i rows rows' \<longleftrightarrow>
     (\<exists>row new. btc_header_row nodeID header = Ok row \<and> new \<in> set rows' \<and> btc_header_key new = btc_header_key row
        \<and> bhm_ID new = i \<and> bhm_CID new = bhm_CID header \<and> bhm_MhKey new = bhm_MhKey header
        \<and> (bhm_TimesValidated new = 1 \<and> btc_header_key row \<notin> btc_header_key ` set rows
           \<or> (\<exists>old\<in>set rows. btc_header_key old = btc_header_key row \<and> bhm_TimesValidated new = bhm_TimesValidated old + 1))
        \<and> filter (\<lambda>r. btc_header_key r \<noteq> btc_header_key row) rows' = filter (\<lambda>r. btc_header_key r \<noteq> btc_header_key row) rows)"

lemma btc_insert_header_upserted:
  assumes "btc_insert_header nodeID header sq db = Ok (i, db', sq')"
  shows "btc_header_upserted nodeID header i (btc_headers db) (btc_headers db')"
proof -
  obtain row rows n where row: "btc_header_row nodeID header = Ok row"
    and up: "upsert bhm_ID (\<lambda>r. btc_header_key r = btc_header_key row) (btc_update_header row)
      (\<lambda>n. row\<lparr>bhm_ID := n\<rparr>) (sq_btc_headers sq) (btc_headers db) = Ok (i, rows, n)"
    and rows: "btc_headers db' = rows"
    using assms by (auto simp: btc_insert_header_def split: if_splits)
  have f: "bhm_CID row = bhm_CID header" "bhm_MhKey row = bhm_MhKey header" "bhm_TimesValidated row = 1"
    using row by (auto simp: btc_header_row_def)
  obtain r where r: "r \<in> set rows" "bhm_ID r = i" "btc_header_key r = btc_header_key row"
    and how: "r = row\<lparr>bhm_ID := sq_btc_headers sq\<rparr> \<and> btc_header_key row \<notin> btc_header_key ` set (btc_headers db)
      \<or> (\<exists>r0\<in>set (btc_headers db). btc_header_key r0 = btc_header_key row \<and> btc_update_header row r0 = Ok r)"
    using btc_header_up.upsert_row [OF up] by metis
  from how have "bhm_CID r = bhm_CID header \<and> bhm_MhKey r = bhm_MhKey header
    \<and> (bhm_TimesValidated r = 1 \<and> btc_header_key row \<notin> btc_header_key ` set (btc_headers db)
       \<or> (\<exists>old\<in>set (btc_headers db). btc_header_key old = btc_header_key row \<and> bhm_TimesValidated r = bhm_TimesValidated old + 1))"
    using f by (auto simp: btc_update_header_def)
  with r row rows btc_header_up.upsert_frame [OF up] show ?thesis unfolding btc_header_upserted_def by blast
qed

text \<open>A transaction row under the header.\<close>

definition tx_under :: "int \<Rightarrow> string \<Rightarrow> pg_db \<Rightarrow> bool" where
  "tx_under i h db \<longleftrightarrow> (\<exists>r\<in>set (btc_txs db). btm_TxHash r = h \<and> btm_HeaderID r = i)"

lemma btc_tx_row_sel [simp]:
  "btm_TxHash (btc_tx_row t i n) = btm_TxHash t" "btm_HeaderID (btc_tx_row t i n) = i" "btm_ID (btc_tx_row t i n) = n"
  by (simp_all add: btc_tx_row_def)

lemma btc_insert_tx_under:
  assumes "btc_insert_tx t i sq db = Ok (j, db', sq')"
  shows "tx_under i (btm_TxHash t) db' \<and> (tx_under i h db \<longrightarrow> tx_under i h db')"
proof -
  obtain rows n where up: "upsert btm_ID (\<lambda>r. btm_TxHash r = btm_TxHash t) (btc_tx_update t i) (\<lambda>n. btc_tx_row t i n)
      (sq_btc_txs sq) (btc_txs db) = Ok (j, rows, n)" and rows: "btc_txs db' = rows"
    using assms by (auto simp: btc_insert_tx_def btc_tx_upsert)
  from up show ?thesis
  proof (cases rule: btc_tx_up.upsert_cases)
    case new
    with rows show ?thesis by (auto simp: tx_under_def)
  next
    case (old r r')
    then have "btm_TxHash r' = btm_TxHash t" "btm_HeaderID r' = i" by (auto simp: btc_tx_update_def)
    with old(1,2,5) rows have "tx_under i (btm_TxHash t) db'" by (auto simp: tx_under_def)
    moreover have "tx_under i h db'" if "tx_under i h db" "h \<noteq> btm_TxHash t"
      using that old(5) rows by (auto simp: tx_under_def)
    ultimately show ?thesis by (cases "h = btm_TxHash t") auto
  qed
qed

lemma tx_under_kept [keeps_intros]:
  "stmt_keeps (\<lambda>_. tx_under i h) (btc_insert_tx t i)"
  "stmt_keeps (\<lambda>_. tx_under i h) (insert_input txInput txID)"
  "stmt_keeps (\<lambda>_. tx_under i h) (insert_output txOutput txID)"
    apply (auto simp: stmt_keeps_def dest: btc_insert_tx_under)[1]
   apply (auto simp: stmt_keeps_def insert_input_def tx_under_def)[1]
  apply (auto simp: stmt_keeps_def insert_output_def tx_under_def)[1]
  done

lemma indexTransactionCIDs_under:
  assumes "indexTransactionCIDs ts i tx = (Ok u, tx')"
  shows "\<forall>t\<in>set ts. tx_under i (btm_TxHash t) (tx_db tx')"
proof -
  have kept: "tx_keeps (\<lambda>_. tx_under i h) (index_ins_outs t j)" for h t j
    unfolding btc_op_defs by (intro keeps_intros)
  show ?thesis
  proof (rule tx_for_establishes [OF assms [unfolded indexTransactionCIDs_def]])
    fix j t tx tx' u
    assume "tx_bind (btc_indexTransactionCID t i) (index_ins_outs t) tx = (Ok u, tx')"
    then obtain k tx1 where 1: "btc_indexTransactionCID t i tx = (Ok k, tx1)" and 2: "index_ins_outs t k tx1 = (Ok u, tx')"
      by (rule tx_bind_Ok)
    from 1 have "tx_under i (btm_TxHash t) (tx_db tx1)"
      unfolding btc_indexTransactionCID_def by (elim sql_exec_Ok) (auto dest: btc_insert_tx_under)
    then show "tx_under i (btm_TxHash t) (tx_db tx')" using tx_keeps_plain [OF kept _ 2] by blast
  next
    fix t t' j
    show "tx_keeps (\<lambda>_. tx_under i (btm_TxHash t)) (tx_bind (btc_indexTransactionCID t' i) (index_ins_outs t'))"
      unfolding btc_op_defs by (intro keeps_intros)
  qed
qed

lemma btc_headers_kept [keeps_intros]:
  "stmt_keeps (view_is btc_headers hs) (btc_insert_tx t i)"
  "stmt_keeps (view_is btc_headers hs) (insert_input txInput txID)"
  "stmt_keeps (view_is btc_headers hs) (insert_output txOutput txID)"
  by (auto simp: stmt_keeps_def view_is_def btc_insert_tx_def insert_input_def insert_output_def)

lemma btc_index_body_rows:
  assumes "btc_index_body nodeID p tx = ((Ok (), False), tx')"
  shows "\<exists>i. btc_header_upserted nodeID (bcd_HeaderCID p) i (btc_headers (tx_db tx)) (btc_headers (tx_db tx'))
    \<and> (\<forall>t\<in>set (bcd_TransactionCIDs p). tx_under i (btm_TxHash t) (tx_db tx'))"
proof -
  obtain i tx1 where 1: "btc_indexHeaderCID nodeID (bcd_HeaderCID p) tx = (Ok i, tx1)"
    and 2: "indexTransactionCIDs (bcd_TransactionCIDs p) i tx1 = (Ok (), tx')"
    using assms unfolding btc_index_body_def by (elim outer_err_Ok) (auto simp: body_return_def)
  from 1 have "btc_header_upserted nodeID (bcd_HeaderCID p) i (btc_headers (tx_db tx)) (btc_headers (tx_db tx1))"
    unfolding btc_indexHeaderCID_def by (elim sql_exec_Ok) (auto dest: btc_insert_header_upserted)
  moreover have "tx_keeps (view_is btc_headers hs) (indexTransactionCIDs ts i)" for hs ts
    unfolding btc_op_defs by (intro keeps_intros)
  from tx_keeps_view [OF this 2] have "btc_headers (tx_db tx') = btc_headers (tx_db tx1)" .
  ultimately show ?thesis using indexTransactionCIDs_under [OF 2] by auto
qed

lemma tx_under_unique:
  assumes "db_ok sq db" "tx_under i h db" "r \<in> set (btc_txs db)" "btm_TxHash r = h"
  shows "btm_HeaderID r = i"
  using assms by (auto simp: tx_under_def db_ok_defs dest: table_ok_key_unique)

text \<open>
  Indexing a Bitcoin block is all or nothing, and takes its transactions. \<open>Index\<close> keeps ids and keys
  unique; if the tables changed, it returned no error, every foreign key holds, the header row is there,
  validated once more, and the one row of each of the block's transactions refers to this header: a
  transaction that had been indexed with another block at that height or elsewhere no longer belongs to
  it.
\<close>

theorem btc_Index_takes_transactions:
  assumes "db_ok sq db" "btc_Index nodeID faults cids sq db = (r, db', sq')"
  shows "db_ok sq' db' \<and> (db' \<noteq> db \<longrightarrow> (\<exists>p i. cids = BtcCIDs p \<and> r = Ok () \<and> deferred_fk db'
    \<and> btc_header_upserted nodeID (bcd_HeaderCID p) i (btc_headers db) (btc_headers db')
    \<and> (\<forall>t\<in>set (bcd_TransactionCIDs p). tx_under i (btm_TxHash t) db'
         \<and> (\<forall>row\<in>set (btc_txs db'). btm_TxHash row = btm_TxHash t \<longrightarrow> btm_HeaderID row = i))))"
proof (cases cids)
  case (BtcCIDs p)
  with assms(2) have run: "run_tx deferred_fk faults (btc_index_body nodeID p) sq db = (r, db', sq')"
    by (simp add: btc_Index_def)
  have ok: "db_ok sq' db'" by (rule run_tx_keeps [OF btc_index_body_keeps assms(1) run])
  have "r = Ok () \<and> deferred_fk db' \<and> (\<exists>i. btc_header_upserted nodeID (bcd_HeaderCID p) i (btc_headers db) (btc_headers db')
      \<and> (\<forall>t\<in>set (bcd_TransactionCIDs p). tx_under i (btm_TxHash t) db'))" if changed: "db' \<noteq> db"
  proof -
    obtain tx where tx: "r = Ok ()" "btc_index_body nodeID p (begin_tx faults sq db) = ((Ok (), False), tx)"
      "db' = tx_db tx" "deferred_fk db'"
      by (rule btc_index_tx.changed_committed [OF run changed]) simp
    with btc_index_body_rows [OF tx(2)] show ?thesis by (simp add: begin_tx_def)
  qed
  with BtcCIDs ok tx_under_unique [OF ok] show ?thesis by blast
qed (use assms in \<open>auto simp: btc_Index_def\<close>)

definition zero_BtcTx :: TxModelWithInsAndOuts where
  "zero_BtcTx = \<lparr>btm_ID = 0, btm_HeaderID = 0, btm_Index = 0, btm_TxHash = ''t'', btm_CID = ''c'', btm_MhKey = ''k'',
     btm_SegWit = False, btm_WitnessHash = '''', btm_TxInputs = [], btm_TxOutputs = []\<rparr>"

definition btc_sample_cids :: "string \<Rightarrow> BtcCIDPayload" where
  "btc_sample_cids h = \<lparr>bcd_HeaderCID = \<lparr>bhm_ID = 0, bhm_BlockNumber = big_String 7, bhm_BlockHash = h, bhm_ParentHash = '''',
       bhm_CID = ''c'', bhm_MhKey = ''k'', bhm_Timestamp = 0, bhm_Bits = 0, bhm_NodeID = 0, bhm_TimesValidated = 0\<rparr>,
     bcd_TransactionCIDs = [zero_BtcTx]\<rparr>"

text \<open>A database with one block of one transaction, and the same transaction in another block of that height.\<close>

definition btc_one_block :: "pg_db" where
  "btc_one_block = empty_db\<lparr>db_blocks := [(''k'', [1])],
     btc_headers := [(bcd_HeaderCID (btc_sample_cids ''a''))\<lparr>bhm_ID := 1, bhm_NodeID := 1, bhm_TimesValidated := 1\<rparr>],
     btc_txs := [btc_tx_row zero_BtcTx 1 1]\<rparr>"

lemmas btc_index_run_defs = btc_Index_def run_tx_def begin_tx_def btc_index_body_def outer_err_def body_return_def commits_def
  next_fault_def btc_op_defs btc_insert_header_def btc_header_row_def btc_insert_tx_def tx_bind_def tx_return_def sql_exec_def
  upsert_def pg_varchar66_def pg_int4_def pg_bigint_def btc_sample_cids_def btc_one_block_def empty_db_def empty_seq_def
  btc_header_key_def zero_BtcTx_def btc_tx_row_def deferred_fk_def blocks_fk_def rows_fk_def stored_def

theorem btc_Index_takes_transactions_witness:
  "\<exists>db' sq'. btc_Index 1 [] (BtcCIDs (btc_sample_cids ''b'')) (empty_seq\<lparr>sq_btc_headers := 2, sq_btc_txs := 2\<rparr>) btc_one_block = (Ok (), db', sq')
    \<and> map bhm_BlockHash (btc_headers db') = [''a'', ''b''] \<and> (\<forall>row\<in>set (btc_txs db'). btm_HeaderID row = 2)"
proof -
  let ?sq = "empty_seq\<lparr>sq_btc_headers := 2, sq_btc_txs := 2\<rparr>"
  let ?db' = "btc_one_block\<lparr>btc_headers := btc_headers btc_one_block
      @ [(bcd_HeaderCID (btc_sample_cids ''b''))\<lparr>bhm_ID := 2, bhm_NodeID := 1, bhm_TimesValidated := 1\<rparr>],
    btc_txs := [btc_tx_row zero_BtcTx 2 1]\<rparr>"
  have run: "btc_Index 1 [] (BtcCIDs (btc_sample_cids ''b'')) ?sq btc_one_block
    = (Ok (), ?db', ?sq\<lparr>sq_btc_headers := 3, sq_btc_txs := 3\<rparr>)"
    by (simp add: btc_index_run_defs)
  have ok: "db_ok ?sq btc_one_block"
    by (simp add: db_ok_defs btc_one_block_def empty_db_def empty_seq_def table_ok_def)
  have "?db' \<noteq> btc_one_block" by (simp add: btc_one_block_def empty_db_def)
  with btc_Index_takes_transactions [OF ok run] obtain i where i: "\<forall>row\<in>set (btc_txs ?db'). btm_TxHash row = ''t'' \<longrightarrow> btm_HeaderID row = i"
    "tx_under i ''t'' ?db'" by (auto simp: btc_sample_cids_def zero_BtcTx_def)
  then have "i = 2" by (simp add: tx_under_def)
  with i run show ?thesis by (auto simp: btc_one_block_def btc_sample_cids_def zero_BtcTx_def)
qed

end
