(* ===== verification/Ipld_Btc.thy ===== *)
theory Ipld_Btc
  imports Btc_Filterer
begin

text \<open>
  Package \<open>ipld\<close>, Bitcoin: headers, transactions and the nodes of the Merkle tree as IPLD nodes
  (\<open>btc_header.go\<close>, \<open>btc_tx.go\<close>, \<open>btc_tx_trie.go\<close>), and \<open>FromHeaderAndTxs\<close> with the construction of the tree
  (\<open>btc_parser.go\<close>). The tree is built layer by layer from the leaves; it is shown to be the tree that
  the usual recursive definition of a Merkle root describes.
\<close>

subsection \<open>Nodes\<close>

record BtcTxNode =
  bx_MsgTx :: BtcMsgTx
  bx_cid :: Cid
  bx_rawdata :: bytes

record BtcHeaderNode =
  bk_BlockHeader :: BtcBlockHeader
  bk_cid :: Cid
  bk_rawdata :: bytes

definition NewBtcTx :: "btcd_lib \<Rightarrow> ipfs_lib \<Rightarrow> BtcMsgTx \<Rightarrow> BtcTxNode outcome" where
  "NewBtcTx btcd ipfs tx =
     outcome_bind (MsgTx_Serialize btcd tx) (\<lambda>rawdata.
     outcome_bind (RawdataToCid ipfs MBitcoinTx rawdata DBL_SHA2_256) (\<lambda>c.
       Ok \<lparr>bx_MsgTx = tx, bx_cid = c, bx_rawdata = rawdata\<rparr>))"

definition NewBtcHeader :: "btcd_lib \<Rightarrow> ipfs_lib \<Rightarrow> BtcBlockHeader \<Rightarrow> BtcHeaderNode outcome" where
  "NewBtcHeader btcd ipfs header =
     outcome_bind (Header_Serialize btcd header) (\<lambda>rawdata.
     outcome_bind (RawdataToCid ipfs MBitcoinHeader rawdata DBL_SHA2_256) (\<lambda>c.
       Ok \<lparr>bk_BlockHeader = header, bk_cid = c, bk_rawdata = rawdata\<rparr>))"

text \<open>A link holds a cid; the names of links are not used.\<close>

record BtcTxTrie =
  tt_Left :: Cid
  tt_Right :: Cid

definition cidToHash :: "Cid \<Rightarrow> bytes outcome" where
  "cidToHash c = (let h = cid_Hash c in
     if length h < 32 then Panic ''runtime error: slice bounds out of range'' else Ok (drop (length h - 32) h))"

text \<open>Two halves of 32 bytes each are copied into an array of 64.\<close>

definition Trie_RawData :: "BtcTxTrie \<Rightarrow> bytes outcome" where
  "Trie_RawData t =
     outcome_bind (cidToHash (tt_Left t)) (\<lambda>lbytes.
     outcome_bind (cidToHash (tt_Right t)) (\<lambda>rbytes. Ok (lbytes @ rbytes)))"

text \<open>The error of the multihash library is dropped, which leaves an empty hash.\<close>

definition sum_or_nil :: "ipfs_lib \<Rightarrow> bytes \<Rightarrow> bytes outcome" where
  "sum_or_nil ipfs d = (case mh_Sum ipfs DBL_SHA2_256 d of Err _ \<Rightarrow> Ok [] | r \<Rightarrow> r)"

definition Trie_Cid :: "ipfs_lib \<Rightarrow> BtcTxTrie \<Rightarrow> Cid outcome" where
  "Trie_Cid ipfs t =
     outcome_bind (Trie_RawData t) (\<lambda>raw. outcome_bind (sum_or_nil ipfs raw) (\<lambda>h. Ok (Cid MBitcoinTx h)))"

definition Trie_BTCSha :: "ipfs_lib \<Rightarrow> BtcTxTrie \<Rightarrow> bytes outcome" where
  "Trie_BTCSha ipfs t = outcome_bind (Trie_Cid ipfs t) cidToHash"

subsection \<open>The Merkle tree\<close>

text \<open>An element of a layer: a transaction, or a node of the layer below.\<close>

datatype merkle_node = LeafTx BtcTxNode | InnerNode BtcTxTrie

fun merkle_Cid :: "ipfs_lib \<Rightarrow> merkle_node \<Rightarrow> Cid outcome" where
  "merkle_Cid ipfs (LeafTx tx) = Ok (bx_cid tx)"
| "merkle_Cid ipfs (InnerNode t) = Trie_Cid ipfs t"

text \<open>The inner loop: the elements of the layer two by two.\<close>

fun merkle_pairs :: "ipfs_lib \<Rightarrow> merkle_node list \<Rightarrow> BtcTxTrie list outcome" where
  "merkle_pairs ipfs (left # right # rest) =
     outcome_bind (merkle_Cid ipfs left) (\<lambda>l.
     outcome_bind (merkle_Cid ipfs right) (\<lambda>r.
     outcome_bind (merkle_pairs ipfs rest) (\<lambda>ts. Ok (\<lparr>tt_Left = l, tt_Right = r\<rparr> # ts))))"
| "merkle_pairs ipfs _ = Ok []"

lemma merkle_pairs_length: "merkle_pairs ipfs layer = Ok ts \<Longrightarrow> length ts = length layer div 2"
  by (induction ipfs layer arbitrary: ts rule: merkle_pairs.induct) auto

definition even_layer :: "'a list \<Rightarrow> 'a list" where
  "even_layer layer = (if length layer mod 2 \<noteq> 0 then layer @ [last layer] else layer)"

lemma even_layer_length: "length (even_layer layer) = 2 * ((length layer + 1) div 2)"
  by (simp add: even_layer_def) presburger

lemma outcome_bind_cong [fundef_cong]:
  "r = r' \<Longrightarrow> (\<And>x. r' = Ok x \<Longrightarrow> f x = g x) \<Longrightarrow> outcome_bind r f = outcome_bind r' g"
  by (cases r') simp_all

text \<open>The outer loop: it ends because a layer of more than one element has a shorter one above it.\<close>

function merkle_layers :: "ipfs_lib \<Rightarrow> merkle_node list \<Rightarrow> BtcTxTrie list \<Rightarrow> BtcTxTrie list outcome" where
  "merkle_layers ipfs layer out =
     (if length layer > 1
      then outcome_bind (merkle_pairs ipfs (even_layer layer)) (\<lambda>ts. merkle_layers ipfs (map InnerNode ts) (out @ ts))
      else Ok out)"
  by pat_completeness auto

termination
  by (relation "measure (\<lambda>(_, layer, _). length layer)") (auto simp: even_layer_length dest!: merkle_pairs_length)

declare merkle_layers.simps [simp del]

definition mkMerkleTree :: "ipfs_lib \<Rightarrow> BtcTxNode list \<Rightarrow> BtcTxTrie list outcome" where
  "mkMerkleTree ipfs txs = merkle_layers ipfs (map LeafTx txs) []"

definition FromHeaderAndTxs ::
    "btcd_lib \<Rightarrow> ipfs_lib \<Rightarrow> BtcBlockHeader \<Rightarrow> BtcMsgTx list \<Rightarrow> (BtcHeaderNode \<times> BtcTxNode list \<times> BtcTxTrie list) outcome" where
  "FromHeaderAndTxs btcd ipfs header txs =
     outcome_bind (outcome_map (NewBtcTx btcd ipfs) txs) (\<lambda>txNodes.
     outcome_bind (mkMerkleTree ipfs txNodes) (\<lambda>txTrie.
     outcome_bind (NewBtcHeader btcd ipfs header) (\<lambda>headerNode. Ok (headerNode, txNodes, txTrie))))"

subsection \<open>Paths\<close>

text \<open>What resolving returns: a link, a number, bytes, or a part of a transaction.\<close>

datatype btc_value = BLink Cid | BInt int | BU32 "32 word" | BBytes bytes | BIns "BtcTxIn list" | BIn BtcTxIn
  | BOuts "BtcTxOut list" | BOut BtcTxOut

type_synonym btc_resolved = "(btc_value \<times> string list) outcome"

definition no_such_link :: go_error where
  "no_such_link = Errorf ''no such link'' []"

definition BtcHeader_Resolve :: "ipfs_lib \<Rightarrow> BtcHeaderNode \<Rightarrow> string list \<Rightarrow> btc_resolved" where
  "BtcHeader_Resolve ipfs b path =
     (case path of
        [] \<Rightarrow> Err (Errorf ''zero length path'' [])
      | p # rest \<Rightarrow>
          if p = ''version'' then Ok (BInt (bh_Version (bk_BlockHeader b)), rest)
          else if p = ''timestamp'' then Ok (BInt (bh_Timestamp (bk_BlockHeader b)), rest)
          else if p = ''bits'' then Ok (BU32 (bh_Bits (bk_BlockHeader b)), rest)
          else if p = ''nonce'' then Ok (BU32 (bh_Nonce (bk_BlockHeader b)), rest)
          else if p = ''parent'' then
            outcome_bind (sha256ToCid ipfs MBitcoinHeader (bh_PrevBlock (bk_BlockHeader b))) (\<lambda>c. Ok (BLink c, rest))
          else if p = ''tx'' then
            outcome_bind (sha256ToCid ipfs MBitcoinTx (bh_MerkleRoot (bk_BlockHeader b))) (\<lambda>c. Ok (BLink c, rest))
          else Err no_such_link)"

definition btc_ResolveLink :: "string \<Rightarrow> btc_resolved \<Rightarrow> (Cid \<times> string list) outcome" where
  "btc_ResolveLink msg r =
     outcome_bind r (\<lambda>(v, rest). case v of BLink c \<Rightarrow> Ok (c, rest) | _ \<Rightarrow> Err (Errorf msg []))"

definition BtcHeader_ResolveLink :: "ipfs_lib \<Rightarrow> BtcHeaderNode \<Rightarrow> string list \<Rightarrow> (Cid \<times> string list) outcome" where
  "BtcHeader_ResolveLink ipfs b path = btc_ResolveLink ''object at path was not a link'' (BtcHeader_Resolve ipfs b path)"

definition BtcHeader_Links :: "ipfs_lib \<Rightarrow> BtcHeaderNode \<Rightarrow> Cid list outcome" where
  "BtcHeader_Links ipfs b =
     outcome_bind (sha256ToCid ipfs MBitcoinTx (bh_MerkleRoot (bk_BlockHeader b))) (\<lambda>t.
     outcome_bind (sha256ToCid ipfs MBitcoinHeader (bh_PrevBlock (bk_BlockHeader b))) (\<lambda>p. Ok [t, p]))"

definition BtcHeader_Tree :: "string \<Rightarrow> int \<Rightarrow> string list" where
  "BtcHeader_Tree p depth = [''difficulty'', ''nonce'', ''version'', ''timestamp'', ''tx'', ''parent'']"

definition Trie_Resolve :: "BtcTxTrie \<Rightarrow> string list \<Rightarrow> btc_resolved" where
  "Trie_Resolve t path =
     (case path of
        [] \<Rightarrow> Err (Errorf ''zero length path'' [])
      | p # rest \<Rightarrow> if p = ''0'' then Ok (BLink (tt_Left t), rest)
                    else if p = ''1'' then Ok (BLink (tt_Right t), rest)
                    else Err no_such_link)"

definition Trie_ResolveLink :: "BtcTxTrie \<Rightarrow> string list \<Rightarrow> (Cid \<times> string list) outcome" where
  "Trie_ResolveLink t path = btc_ResolveLink ''path did not lead to link'' (Trie_Resolve t path)"

definition Trie_Links :: "BtcTxTrie \<Rightarrow> Cid list" where
  "Trie_Links t = [tt_Left t, tt_Right t]"

definition Trie_Tree :: "string \<Rightarrow> int \<Rightarrow> string list" where
  "Trie_Tree p depth = [''0'', ''1'']"

text \<open>\<open>strconv.Atoi\<close>\<close>

definition strconv_Atoi :: "string \<Rightarrow> int outcome" where
  "strconv_Atoi s = (case big_SetString s of
     Some n \<Rightarrow> if - (2 ^ 63) \<le> n \<and> n < 2 ^ 63 then Ok n else Err (Errorf ''strconv.Atoi: parsing %s: value out of range'' [s])
   | None \<Rightarrow> Err (Errorf ''strconv.Atoi: parsing %s: invalid syntax'' [s]))"

definition at_index :: "'a list \<Rightarrow> string \<Rightarrow> 'a outcome" where
  "at_index xs s = outcome_bind (strconv_Atoi s) (\<lambda>index.
     if index \<ge> int (length xs) \<or> index < 0 then Err (Errorf ''index out of range'' []) else Ok (xs ! nat index))"

definition input_field :: "ipfs_lib \<Rightarrow> BtcTxIn \<Rightarrow> string \<Rightarrow> string list \<Rightarrow> btc_resolved" where
  "input_field ipfs inp f rest =
     (if f = ''prevTx'' then outcome_bind (sha256ToCid ipfs MBitcoinTx (in_PrevHash inp)) (\<lambda>c. Ok (BLink c, rest))
      else if f = ''seqNo'' then Ok (BU32 (in_Sequence inp), rest)
      else if f = ''script'' then Ok (BBytes (in_SignatureScript inp), rest)
      else Err no_such_link)"

definition output_field :: "BtcTxOut \<Rightarrow> string \<Rightarrow> string list \<Rightarrow> btc_resolved" where
  "output_field outp f rest =
     (if f = ''value'' then Ok (BInt (out_Value outp), rest)
      else if f = ''script'' then Ok (BBytes (out_PkScript outp), rest)
      else Err no_such_link)"

text \<open>The first element of the path is read without a check of its length.\<close>

definition BtcTx_Resolve :: "ipfs_lib \<Rightarrow> BtcTxNode \<Rightarrow> string list \<Rightarrow> btc_resolved" where
  "BtcTx_Resolve ipfs t path =
     outcome_bind (slice_get path 0) (\<lambda>p.
       let tx = bx_MsgTx t in
       if p = ''version'' then Ok (BInt (mt_Version tx), drop 1 path)
       else if p = ''lockTime'' then Ok (BU32 (mt_LockTime tx), drop 1 path)
       else if p = ''inputs'' then
         (if length path = 1 then Ok (BIns (mt_TxIn tx), [])
          else outcome_bind (at_index (mt_TxIn tx) (path ! 1)) (\<lambda>inp.
            if length path = 2 then Ok (BIn inp, []) else input_field ipfs inp (path ! 2) (drop 3 path)))
       else if p = ''outputs'' then
         (if length path = 1 then Ok (BOuts (mt_TxOut tx), [])
          else outcome_bind (at_index (mt_TxOut tx) (path ! 1)) (\<lambda>outp.
            if length path = 2 then Ok (BOut outp, drop 2 path) else output_field outp (path ! 2) (drop 3 path)))
       else Err no_such_link)"

definition BtcTx_ResolveLink :: "ipfs_lib \<Rightarrow> BtcTxNode \<Rightarrow> string list \<Rightarrow> (Cid \<times> string list) outcome" where
  "BtcTx_ResolveLink ipfs t path = btc_ResolveLink ''value was not a link'' (BtcTx_Resolve ipfs t path)"

definition BtcTx_Links :: "ipfs_lib \<Rightarrow> BtcTxNode \<Rightarrow> Cid list outcome" where
  "BtcTx_Links ipfs t = outcome_map (\<lambda>inp. sha256ToCid ipfs MBitcoinTx (in_PrevHash inp)) (mt_TxIn (bx_MsgTx t))"

definition tree_items :: "string \<Rightarrow> string list \<Rightarrow> 'a list \<Rightarrow> string list \<Rightarrow> int \<Rightarrow> string list" where
  "tree_items prefix subs xs out depth =
     (if depth < 2 then out
      else out @ concat (map (\<lambda>i. let inp = prefix @ big_String (int i)
             in inp # (if depth > 2 then map (\<lambda>f. inp @ ''/'' @ f) subs else [])) [0 ..< length xs]))"

definition treeInputs :: "BtcTxNode \<Rightarrow> string list \<Rightarrow> int \<Rightarrow> string list" where
  "treeInputs t out depth = tree_items ''inputs/'' [''prevTx'', ''seqNo'', ''script''] (mt_TxIn (bx_MsgTx t)) out depth"

definition treeOutputs :: "BtcTxNode \<Rightarrow> string list \<Rightarrow> int \<Rightarrow> string list" where
  "treeOutputs t out depth = tree_items ''outputs/'' [''script'', ''value''] (mt_TxOut (bx_MsgTx t)) out depth"

definition BtcTx_Tree :: "BtcTxNode \<Rightarrow> string \<Rightarrow> int \<Rightarrow> string list" where
  "BtcTx_Tree t p depth =
     (if depth = 0 then []
      else if p = ''inputs'' then treeInputs t [] (depth + 1)
      else if p = ''outputs'' then treeOutputs t [] (depth + 1)
      else if p = '''' then
        treeOutputs t (treeInputs t [''version'', ''timeLock'', ''inputs'', ''outputs''] depth) depth
      else [])"

subsection \<open>The Merkle root, from the root down\<close>

text \<open>
  The reference: the root of depth \<open>Suc d\<close> hashes the roots of the first \<open>2 ^ d\<close> leaves and of the rest, or
  the first one twice when there is no rest.
\<close>

fun merkle_root :: "(bytes \<Rightarrow> bytes) \<Rightarrow> nat \<Rightarrow> bytes list \<Rightarrow> bytes" where
  "merkle_root sha 0 hs = hd hs"
| "merkle_root sha (Suc d) hs =
     (let l = merkle_root sha d (take (2 ^ d) hs)
      in sha (l @ (if length hs \<le> 2 ^ d then l else merkle_root sha d (drop (2 ^ d) hs))))"

text \<open>One layer up, from the leaves.\<close>

fun hash_pairs :: "(bytes \<Rightarrow> bytes) \<Rightarrow> bytes list \<Rightarrow> bytes list" where
  "hash_pairs sha (a # b # hs) = sha (a @ b) # hash_pairs sha hs"
| "hash_pairs sha _ = []"

definition layer_up :: "(bytes \<Rightarrow> bytes) \<Rightarrow> bytes list \<Rightarrow> bytes list" where
  "layer_up sha hs = hash_pairs sha (even_layer hs)"

lemma hash_pairs_length: "length (hash_pairs sha hs) = length hs div 2"
  by (induction sha hs rule: hash_pairs.induct) auto

lemma hash_pairs_append: "even (length xs) \<Longrightarrow> hash_pairs sha (xs @ ys) = hash_pairs sha xs @ hash_pairs sha ys"
  by (induction sha xs rule: hash_pairs.induct) auto

lemma layer_up_length: "length (layer_up sha hs) = (length hs + 1) div 2"
  by (simp add: layer_up_def hash_pairs_length even_layer_length)

lemma layer_up_append:
  assumes "even (length xs)" "ys \<noteq> []"
  shows "layer_up sha (xs @ ys) = hash_pairs sha xs @ layer_up sha ys"
proof -
  have "even_layer (xs @ ys) = xs @ even_layer ys" using assms by (auto simp: even_layer_def)
  then show ?thesis using assms(1) by (simp add: layer_up_def hash_pairs_append)
qed

lemma layer_up_even: "even (length xs) \<Longrightarrow> layer_up sha xs = hash_pairs sha xs"
  by (simp add: layer_up_def even_layer_def even_iff_mod_2_eq_zero)

lemma merkle_root_layer:
  assumes "hs \<noteq> []" "length hs \<le> 2 ^ Suc d"
  shows "merkle_root sha (Suc d) hs = merkle_root sha d (layer_up sha hs)"
  using assms
proof (induction d arbitrary: hs)
  case 0
  then consider a where "hs = [a]" | a b where "hs = [a, b]"
    by (cases hs; cases "tl hs") auto
  then show ?case by cases (simp_all add: layer_up_def even_layer_def)
next
  case (Suc d)
  let ?m = "2 ^ Suc d :: nat"
  have ev: "even ?m" by simp
  show ?case
  proof (cases "length hs \<le> ?m")
    case True
    have "length (layer_up sha hs) \<le> 2 ^ d" using True by (simp add: layer_up_length)
    then show ?thesis using True Suc.IH [of hs] Suc.prems(1) by (simp add: Let_def del: merkle_root.simps(2) add: merkle_root.simps(2) [of _ "Suc d"] merkle_root.simps(2) [of _ d "layer_up sha hs"])
  next
    case False
    let ?l = "take ?m hs" and ?r = "drop ?m hs"
    have l: "length ?l = ?m" "?l \<noteq> []" and r: "?r \<noteq> []" "length ?r \<le> 2 ^ Suc d" using False Suc.prems by auto
    have "layer_up sha hs = layer_up sha ?l @ layer_up sha ?r"
      using layer_up_append [of ?l ?r sha] layer_up_even [of ?l sha] l(1) r(1) ev by simp
    moreover have len: "length (layer_up sha ?l) = 2 ^ d" using l(1) by (simp add: layer_up_length)
    moreover have "layer_up sha ?r \<noteq> []" using r(1) layer_up_length [of sha ?r] by (cases ?r) auto
    ultimately have "merkle_root sha (Suc d) (layer_up sha hs)
      = sha (merkle_root sha d (layer_up sha ?l) @ merkle_root sha d (layer_up sha ?r))"
      by (simp add: Let_def)
    also have "\<dots> = sha (merkle_root sha (Suc d) ?l @ merkle_root sha (Suc d) ?r)"
      using Suc.IH [OF l(2)] Suc.IH [OF r] l(1) by simp
    finally show ?thesis using False by (simp add: Let_def)
  qed
qed

fun merkle_depth :: "nat \<Rightarrow> nat" where
  "merkle_depth n = (if n \<le> 1 then 0 else Suc (merkle_depth ((n + 1) div 2)))"

declare merkle_depth.simps [simp del]

lemma merkle_depth_small [simp]: "n \<le> 1 \<Longrightarrow> merkle_depth n = 0"
  by (simp add: merkle_depth.simps)

lemma merkle_depth_step: "1 < n \<Longrightarrow> merkle_depth n = Suc (merkle_depth ((n + 1) div 2))"
  by (subst merkle_depth.simps) simp

lemma merkle_depth_bound: "n \<le> 2 ^ merkle_depth n"
proof (induction n rule: merkle_depth.induct)
  case (1 n)
  show ?case
  proof (cases "1 < n")
    case True
    with 1 have "(n + 1) div 2 \<le> 2 ^ merkle_depth ((n + 1) div 2)" by simp
    then show ?thesis using True by (simp add: merkle_depth_step)
  qed simp
qed

subsection \<open>The tree that is built\<close>

text \<open>
  What is relied on of the multihash library: the double hash has 32 bytes and stands at the end of the
  multihash, after a fixed prefix, whether it is computed or encoded.
\<close>

definition double_sha :: "ipfs_lib \<Rightarrow> bytes \<Rightarrow> (bytes \<Rightarrow> bytes) \<Rightarrow> bool" where
  "double_sha ipfs pre sha \<longleftrightarrow> (\<forall>d. length (sha d) = 32 \<and> mh_Sum ipfs DBL_SHA2_256 d = Ok (pre @ sha d))
     \<and> (\<forall>h. length h = 32 \<longrightarrow> mh_Encode ipfs h DBL_SHA2_256 = Ok (pre @ h))"

text \<open>A cid that consists of the codec of transactions and a multihash of that form.\<close>

definition hash_cid :: "bytes \<Rightarrow> bytes \<Rightarrow> Cid" where
  "hash_cid pre h = Cid MBitcoinTx (pre @ h)"

lemma cidToHash_hash_cid [simp]: "length h = 32 \<Longrightarrow> cidToHash (hash_cid pre h) = Ok h"
  by (simp add: cidToHash_def hash_cid_def)

lemma Trie_Cid_hash:
  assumes "double_sha ipfs pre sha" "length a = 32" "length b = 32"
  shows "Trie_Cid ipfs \<lparr>tt_Left = hash_cid pre a, tt_Right = hash_cid pre b\<rparr> = Ok (hash_cid pre (sha (a @ b)))"
  using assms by (simp add: Trie_Cid_def Trie_RawData_def sum_or_nil_def double_sha_def) (simp add: hash_cid_def)

definition layer_hashes :: "ipfs_lib \<Rightarrow> bytes \<Rightarrow> merkle_node list \<Rightarrow> bytes list \<Rightarrow> bool" where
  "layer_hashes ipfs pre = list_all2 (\<lambda>n h. merkle_Cid ipfs n = Ok (hash_cid pre h) \<and> length h = 32)"

lemma layer_hashes_even: "layer_hashes ipfs pre ns hs \<Longrightarrow> layer_hashes ipfs pre (even_layer ns) (even_layer hs)"
proof -
  assume l: "layer_hashes ipfs pre ns hs"
  then have len: "length ns = length hs" by (auto simp: layer_hashes_def dest: list_all2_lengthD)
  show ?thesis
  proof (cases "length ns mod 2 = 0")
    case False
    then have "ns \<noteq> []" "hs \<noteq> []" using len by auto
    then have "merkle_Cid ipfs (last ns) = Ok (hash_cid pre (last hs)) \<and> length (last hs) = 32"
      using l len list_all2_nthD [OF l [unfolded layer_hashes_def], of "length ns - 1"] by (simp add: last_conv_nth)
    with l len False show ?thesis by (simp add: even_layer_def layer_hashes_def list_all2_appendI)
  qed (use l len in \<open>simp add: even_layer_def\<close>)
qed

text \<open>The nodes of a layer and their hashes, in step with the layer below.\<close>

definition node_for :: "bytes \<Rightarrow> bytes list \<Rightarrow> nat \<Rightarrow> BtcTxTrie" where
  "node_for pre hs j = \<lparr>tt_Left = hash_cid pre (hs ! (2 * j)), tt_Right = hash_cid pre (hs ! (2 * j + 1))\<rparr>"

lemma merkle_pairs_nodes:
  assumes "double_sha ipfs pre sha" "layer_hashes ipfs pre ns hs"
  shows "\<exists>ts. merkle_pairs ipfs ns = Ok ts \<and> length ts = length hs div 2 \<and> (\<forall>j<length ts. ts ! j = node_for pre hs j)
    \<and> layer_hashes ipfs pre (map InnerNode ts) (hash_pairs sha hs)"
  using assms
proof (induction sha hs arbitrary: ns rule: hash_pairs.induct)
  case (1 sha a b hs)
  then obtain n m ns' where ns: "ns = n # m # ns'" "merkle_Cid ipfs n = Ok (hash_cid pre a)" "length a = 32"
    "merkle_Cid ipfs m = Ok (hash_cid pre b)" "length b = 32" "layer_hashes ipfs pre ns' hs"
    by (auto simp: layer_hashes_def list_all2_Cons2)
  let ?t = "\<lparr>tt_Left = hash_cid pre a, tt_Right = hash_cid pre b\<rparr>"
  from 1(1) [OF 1(2) ns(6)] obtain ts where ts: "merkle_pairs ipfs ns' = Ok ts" "length ts = length hs div 2"
    "\<forall>j<length ts. ts ! j = node_for pre hs j" "layer_hashes ipfs pre (map InnerNode ts) (hash_pairs sha hs)" by blast
  have "(?t # ts) ! j = node_for pre (a # b # hs) j" if "j < length (?t # ts)" for j
    using that ts(3) by (cases j) (auto simp: node_for_def)
  moreover have "layer_hashes ipfs pre (map InnerNode (?t # ts)) (hash_pairs sha (a # b # hs))"
    using ts(4) Trie_Cid_hash [OF 1(2) ns(3,5)] 1(2) by (simp add: layer_hashes_def double_sha_def)
  ultimately show ?case using ns ts by (intro exI [of _ "?t # ts"]) auto
qed (auto simp: layer_hashes_def list_all2_Cons2)

text \<open>Following links by path elements, through any of the given tree nodes with the right cid.\<close>

fun reaches :: "ipfs_lib \<Rightarrow> BtcTxTrie list \<Rightarrow> Cid \<Rightarrow> string list \<Rightarrow> Cid \<Rightarrow> bool" where
  "reaches ipfs ts c [] c' \<longleftrightarrow> c = c'"
| "reaches ipfs ts c (p # ps) c' \<longleftrightarrow>
     list_ex (\<lambda>t. Trie_Cid ipfs t = Ok c \<and> (case Trie_ResolveLink t [p] of Ok (l, _) \<Rightarrow> reaches ipfs ts l ps c' | _ \<Rightarrow> False)) ts"

lemma reaches_mono: "reaches ipfs ts c ps c' \<Longrightarrow> set ts \<subseteq> set us \<Longrightarrow> reaches ipfs us c ps c'"
proof (induction ps arbitrary: c)
  case (Cons p ps)
  then obtain t where t: "t \<in> set ts" "Trie_Cid ipfs t = Ok c"
    "case Trie_ResolveLink t [p] of Ok (l, _) \<Rightarrow> reaches ipfs ts l ps c' | _ \<Rightarrow> False" by (auto simp: list_ex_iff)
  then obtain l r where "Trie_ResolveLink t [p] = Ok (l, r)" "reaches ipfs ts l ps c'" by (auto split: outcome.splits)
  with t Cons show ?case by (auto simp: list_ex_iff intro!: bexI [of _ t])
qed simp

lemma reaches_step:
  "reaches ipfs ts c ps c' \<Longrightarrow> t \<in> set ts \<Longrightarrow> Trie_Cid ipfs t = Ok c' \<Longrightarrow> Trie_ResolveLink t [p] = Ok (c'', []) \<Longrightarrow>
   reaches ipfs ts c (ps @ [p]) c''"
proof (induction ps arbitrary: c)
  case Nil
  then show ?case by (auto simp: list_ex_iff)
next
  case (Cons q ps)
  then obtain u where u: "u \<in> set ts" "Trie_Cid ipfs u = Ok c"
    "case Trie_ResolveLink u [q] of Ok (l, _) \<Rightarrow> reaches ipfs ts l ps c' | _ \<Rightarrow> False" by (auto simp: list_ex_iff)
  then obtain l r where l: "Trie_ResolveLink u [q] = Ok (l, r)" "reaches ipfs ts l ps c'" by (auto split: outcome.splits)
  have "reaches ipfs ts l (ps @ [p]) c''" by (rule Cons.IH [OF l(2) Cons.prems(2-4)])
  with u l(1) show ?case by (auto simp: list_ex_iff intro!: bexI [of _ u])
qed

lemma even_layer_nth: "i < length xs \<Longrightarrow> even_layer xs ! i = xs ! i"
  by (simp add: even_layer_def nth_append)

lemma node_for_link:
  assumes "i < length hs"
  shows "\<exists>p. Trie_ResolveLink (node_for pre (even_layer hs) (i div 2)) [p] = Ok (hash_cid pre (hs ! i), [])"
proof (cases "even i")
  case True
  then have "2 * (i div 2) = i" by simp
  then show ?thesis using assms
    by (intro exI [of _ "''0''"]) (simp add: Trie_ResolveLink_def btc_ResolveLink_def Trie_Resolve_def node_for_def even_layer_nth)
next
  case False
  then have "2 * (i div 2) + 1 = i" by simp
  then show ?thesis using assms
    by (intro exI [of _ "''1''"]) (simp add: Trie_ResolveLink_def btc_ResolveLink_def Trie_Resolve_def node_for_def even_layer_nth)
qed

text \<open>The nodes above a layer of hashes: the last one has the root, and leads to every element of the layer.\<close>

definition tree_over :: "ipfs_lib \<Rightarrow> bytes \<Rightarrow> (bytes \<Rightarrow> bytes) \<Rightarrow> bytes list \<Rightarrow> BtcTxTrie list \<Rightarrow> bool" where
  "tree_over ipfs pre sha hs ts \<longleftrightarrow>
     (let depth = merkle_depth (length hs); root = hash_cid pre (merkle_root sha depth hs)
      in (if length hs = 1 then ts = [] else ts \<noteq> [] \<and> Trie_Cid ipfs (last ts) = Ok root)
       \<and> (\<forall>i<length hs. \<exists>path. length path = depth \<and> reaches ipfs ts root path (hash_cid pre (hs ! i))))"

lemma merkle_root_up:
  assumes "1 < length hs"
  shows "merkle_root sha (merkle_depth (length hs)) hs = merkle_root sha (merkle_depth (length (layer_up sha hs))) (layer_up sha hs)"
    and "merkle_depth (length hs) = Suc (merkle_depth (length (layer_up sha hs)))"
proof -
  show depth: "merkle_depth (length hs) = Suc (merkle_depth (length (layer_up sha hs)))"
    using merkle_depth_step [OF assms] by (simp add: layer_up_length)
  have "hs \<noteq> []" "length hs \<le> 2 ^ Suc (merkle_depth (length (layer_up sha hs)))"
    using assms merkle_depth_bound [of "length hs"] depth by auto
  from merkle_root_layer [OF this, of sha] depth
  show "merkle_root sha (merkle_depth (length hs)) hs = merkle_root sha (merkle_depth (length (layer_up sha hs))) (layer_up sha hs)"
    by simp
qed

lemma tree_over_up:
  assumes n: "1 < length hs" and len: "length ts = length (layer_up sha hs)"
    and nodes: "\<forall>j<length ts. ts ! j = node_for pre (even_layer hs) j"
    and cids: "\<forall>j<length ts. Trie_Cid ipfs (ts ! j) = Ok (hash_cid pre (layer_up sha hs ! j))"
    and above: "tree_over ipfs pre sha (layer_up sha hs) new"
  shows "tree_over ipfs pre sha hs (ts @ new)"
proof -
  note up = merkle_root_up [OF n, of sha] and ab = above [unfolded tree_over_def Let_def]
  let ?root = "hash_cid pre (merkle_root sha (merkle_depth (length hs)) hs)"
  have "Trie_Cid ipfs (last (ts @ new)) = Ok ?root"
  proof (cases "length ts = 1")
    case True
    then have "last (ts @ new) = ts ! 0" "merkle_root sha 0 (layer_up sha hs) = layer_up sha hs ! 0"
      using ab len by (cases ts; cases "layer_up sha hs"; auto)+
    then show ?thesis using cids True up(1) len by simp
  next
    case False
    then show ?thesis using ab up(1) len by simp
  qed
  moreover have "\<exists>path. length path = merkle_depth (length hs) \<and> reaches ipfs (ts @ new) ?root path (hash_cid pre (hs ! i))"
    if i: "i < length hs" for i
  proof -
    have j: "i div 2 < length ts" using i len by (simp add: layer_up_length)
    then obtain path where path: "length path = merkle_depth (length (layer_up sha hs))"
      "reaches ipfs new ?root path (hash_cid pre (layer_up sha hs ! (i div 2)))" using ab up(1) len by auto
    obtain p where "Trie_ResolveLink (ts ! (i div 2)) [p] = Ok (hash_cid pre (hs ! i), [])"
      using node_for_link [OF i, of pre] nodes j by auto
    with reaches_mono [OF path(2), of "ts @ new"] cids j have "reaches ipfs (ts @ new) ?root (path @ [p]) (hash_cid pre (hs ! i))"
      by (intro reaches_step [where t = "ts ! (i div 2)"]) auto
    with path(1) up(2) show ?thesis by (intro exI [of _ "path @ [p]"]) simp
  qed
  moreover have "ts \<noteq> []" using n len by (auto simp: layer_up_length)
  ultimately show ?thesis using n by (simp add: tree_over_def Let_def)
qed

text \<open>The loop builds such a tree on any layer.\<close>

lemma merkle_layers_tree:
  assumes sha: "double_sha ipfs pre sha" and "layer_hashes ipfs pre layer hs" "layer \<noteq> []"
  shows "\<exists>new. merkle_layers ipfs layer out = Ok (out @ new) \<and> tree_over ipfs pre sha hs new"
  using assms(2,3)
proof (induction "length layer" arbitrary: layer hs out rule: less_induct)
  case less
  have len: "length layer = length hs" using less.prems(1) by (auto simp: layer_hashes_def dest: list_all2_lengthD)
  show ?case
  proof (cases "length layer = 1")
    case True
    with len show ?thesis by (cases hs) (simp_all add: merkle_layers.simps tree_over_def)
  next
    case False
    with less.prems(2) have n: "1 < length layer" by (cases layer) auto
    obtain ts where ts: "merkle_pairs ipfs (even_layer layer) = Ok ts" "length ts = length (even_layer hs) div 2"
      "\<forall>j<length ts. ts ! j = node_for pre (even_layer hs) j" "layer_hashes ipfs pre (map InnerNode ts) (layer_up sha hs)"
      using merkle_pairs_nodes [OF sha layer_hashes_even [OF less.prems(1)]] unfolding layer_up_def by blast
    have tl: "length ts = length (layer_up sha hs)" using ts(2) by (simp add: even_layer_length layer_up_length)
    then have "length (map InnerNode ts) < length layer" "map InnerNode ts \<noteq> []" using n len by (auto simp: layer_up_length)
    from less.hyps [OF this(1) ts(4) this(2), of "out @ ts"] obtain new where
      run: "merkle_layers ipfs (map InnerNode ts) (out @ ts) = Ok ((out @ ts) @ new)"
      and top: "tree_over ipfs pre sha (layer_up sha hs) new" by blast
    have "\<forall>j<length ts. Trie_Cid ipfs (ts ! j) = Ok (hash_cid pre (layer_up sha hs ! j))"
      using list_all2_nthD [OF ts(4) [unfolded layer_hashes_def]] by simp
    then have "tree_over ipfs pre sha hs (ts @ new)" using tree_over_up [OF _ tl ts(3) _ top] n len by simp
    moreover have "merkle_layers ipfs layer out = Ok (out @ (ts @ new))"
      using run n ts(1) by (simp add: merkle_layers.simps [of ipfs layer])
    ultimately show ?thesis by blast
  qed
qed

subsection \<open>Properties\<close>

lemma NewBtcTx_hash:
  assumes "double_sha ipfs pre sha" "NewBtcTx btcd ipfs tx = Ok n"
  shows "bx_cid n = hash_cid pre (sha (bx_rawdata n))"
  using assms by (auto simp: NewBtcTx_def RawdataToCid_def double_sha_def hash_cid_def)

definition leaf_hashes :: "(bytes \<Rightarrow> bytes) \<Rightarrow> BtcTxNode list \<Rightarrow> bytes list" where
  "leaf_hashes sha ns = map (\<lambda>n. sha (bx_rawdata n)) ns"

lemma txs_tree:
  assumes "double_sha ipfs pre sha" "outcome_map (NewBtcTx btcd ipfs) txs = Ok ns" "txs \<noteq> []"
  shows "\<exists>ts. mkMerkleTree ipfs ns = Ok ts \<and> tree_over ipfs pre sha (leaf_hashes sha ns) ts"
    and "length ns = length txs" "\<forall>i<length ns. bx_cid (ns ! i) = hash_cid pre (leaf_hashes sha ns ! i)"
proof -
  have l2: "list_all2 (\<lambda>tx n. NewBtcTx btcd ipfs tx = Ok n) txs ns" using assms(2) by (simp add: outcome_map_Ok_iff)
  show len: "length ns = length txs" using assms(2) by (rule outcome_map_length)
  have "bx_cid (ns ! i) = hash_cid pre (sha (bx_rawdata (ns ! i)))" if "i < length ns" for i
    using NewBtcTx_hash [OF assms(1)] list_all2_nthD2 [OF l2 that] by blast
  then show cids: "\<forall>i<length ns. bx_cid (ns ! i) = hash_cid pre (leaf_hashes sha ns ! i)" by (simp add: leaf_hashes_def)
  then have "layer_hashes ipfs pre (map LeafTx ns) (leaf_hashes sha ns)"
    using assms(1) by (auto simp: layer_hashes_def list_all2_conv_all_nth leaf_hashes_def double_sha_def)
  moreover have "map LeafTx ns \<noteq> []" using len assms(3) by auto
  ultimately show "\<exists>ts. mkMerkleTree ipfs ns = Ok ts \<and> tree_over ipfs pre sha (leaf_hashes sha ns) ts"
    unfolding mkMerkleTree_def using merkle_layers_tree [OF assms(1), of _ _ "[]"] by auto
qed

text \<open>
  C22. The Merkle tree that is built bottom-up is the tree of the definition. For two or more transactions the
  construction ends with a result, and the hash of its last node is the Merkle root of the double
  hashes of the transactions' raw data, as the recursive definition from the root down gives it: the two
  halves at the largest power of two below the number of leaves, the left half twice when the right one is
  missing.
\<close>

theorem mkMerkleTree_root:
  assumes "double_sha ipfs pre sha" "outcome_map (NewBtcTx btcd ipfs) txs = Ok ns" "2 \<le> length txs"
  shows "\<exists>ts. mkMerkleTree ipfs ns = Ok ts \<and> ts \<noteq> []
    \<and> Trie_BTCSha ipfs (last ts) = Ok (merkle_root sha (merkle_depth (length txs)) (leaf_hashes sha ns))"
proof -
  have ne: "txs \<noteq> []" using assms(3) by auto
  obtain ts where ts: "mkMerkleTree ipfs ns = Ok ts" "tree_over ipfs pre sha (leaf_hashes sha ns) ts"
    using txs_tree(1) [OF assms(1,2) ne] by blast
  let ?root = "merkle_root sha (merkle_depth (length txs)) (leaf_hashes sha ns)"
  have len: "length (leaf_hashes sha ns) = length txs" using txs_tree(2) [OF assms(1,2) ne] by (simp add: leaf_hashes_def)
  then have last: "ts \<noteq> []" "Trie_Cid ipfs (last ts) = Ok (hash_cid pre ?root)"
    using ts(2) assms(3) by (auto simp: tree_over_def Let_def)
  have "length ?root = 32"
    using assms(1,3) by (simp add: merkle_depth_step Let_def double_sha_def)
  with ts(1) last show ?thesis by (auto simp: Trie_BTCSha_def)
qed

text \<open>
  A published Bitcoin block is connected. Where the header's Merkle root commits to the serialised
  transactions, the header's link \<open>tx\<close> resolves to the root of the published tree (to the transaction, if
  there is only one), and from there every transaction is reached by a path of links whose length is
  the depth of the tree.
\<close>

theorem FromHeaderAndTxs_linked:
  assumes "FromHeaderAndTxs btcd ipfs header txs = Ok (hn, ns, ts)" "txs \<noteq> []" "double_sha ipfs pre sha"
    and "bh_MerkleRoot header = merkle_root sha (merkle_depth (length txs)) (leaf_hashes sha ns)"
  shows "\<exists>root. BtcHeader_ResolveLink ipfs hn [''tx''] = Ok (root, [])
    \<and> (1 < length txs \<longrightarrow> ts \<noteq> [] \<and> Trie_Cid ipfs (last ts) = Ok root)
    \<and> length ns = length txs
    \<and> (\<forall>i<length ns. \<exists>path. length path = merkle_depth (length txs) \<and> reaches ipfs ts root path (bx_cid (ns ! i)))"
proof -
  from assms(1) have steps: "outcome_map (NewBtcTx btcd ipfs) txs = Ok ns" "mkMerkleTree ipfs ns = Ok ts"
    "NewBtcHeader btcd ipfs header = Ok hn"
    by (auto simp: FromHeaderAndTxs_def)
  note t = txs_tree [OF assms(3) steps(1) assms(2)]
  have tree: "tree_over ipfs pre sha (leaf_hashes sha ns) ts" using t(1) steps(2) by auto
  have len: "length (leaf_hashes sha ns) = length txs" using t(2) by (simp add: leaf_hashes_def)
  let ?root = "merkle_root sha (merkle_depth (length txs)) (leaf_hashes sha ns)"
  have "length ?root = 32"
  proof (cases "1 < length txs")
    case True
    then show ?thesis using assms(3) by (simp add: merkle_depth_step Let_def double_sha_def)
  next
    case False
    then show ?thesis using assms(2,3) len t(2) by (cases ns) (auto simp: leaf_hashes_def double_sha_def)
  qed
  then have "BtcHeader_ResolveLink ipfs hn [''tx''] = Ok (hash_cid pre ?root, [])"
    using steps(3) assms(3,4) by (auto simp: BtcHeader_ResolveLink_def btc_ResolveLink_def BtcHeader_Resolve_def
      sha256ToCid_def digestToCid_def NewBtcHeader_def double_sha_def hash_cid_def)
  then show ?thesis using tree len t(2,3) by (intro exI [of _ "hash_cid pre ?root"]) (auto simp: tree_over_def Let_def)
qed

text \<open>A stand-in for the library that keeps the first 32 bytes, and three transactions.\<close>

definition take_sha :: "bytes \<Rightarrow> bytes" where
  "take_sha d = take 32 (d @ replicate 32 0)"

definition merkle_ipfs :: ipfs_lib where
  "merkle_ipfs = sample_ipfs\<lparr>mh_Sum := (\<lambda>code d. Ok ([0x56, 0x20] @ take_sha d)), mh_Encode := (\<lambda>h code. Ok ([0x56, 0x20] @ h))\<rparr>"

lemma merkle_ipfs_sha: "double_sha merkle_ipfs [0x56, 0x20] take_sha"
  by (auto simp: double_sha_def merkle_ipfs_def take_sha_def min_def)

definition merkle_tx :: "int \<Rightarrow> BtcMsgTx" where
  "merkle_tx v = \<lparr>mt_Version = v, mt_TxIn = [], mt_TxOut = [], mt_LockTime = 0\<rparr>"

lemma merkle_txs_nodes: "\<exists>ns. outcome_map (NewBtcTx sample_btcd merkle_ipfs) (map merkle_tx vs) = Ok ns"
  by (induction vs) (auto simp: NewBtcTx_def RawdataToCid_def sample_btcd_def merkle_ipfs_def)

theorem mkMerkleTree_root_witness:
  "\<exists>ns ts. mkMerkleTree merkle_ipfs ns = Ok ts \<and> length ns = 3
    \<and> Trie_BTCSha merkle_ipfs (last ts) = Ok (merkle_root take_sha (merkle_depth 3) (leaf_hashes take_sha ns))"
proof -
  obtain ns where ns: "outcome_map (NewBtcTx sample_btcd merkle_ipfs) (map merkle_tx [1, 2, 3]) = Ok ns"
    using merkle_txs_nodes by blast
  have "length ns = 3" using outcome_map_length [OF ns] by simp
  with mkMerkleTree_root [OF merkle_ipfs_sha ns] show ?thesis by (auto simp: numeral_3_eq_3)
qed

theorem FromHeaderAndTxs_linked_witness:
  "\<exists>header hn ns ts root. FromHeaderAndTxs sample_btcd merkle_ipfs header (map merkle_tx [1, 2, 3]) = Ok (hn, ns, ts)
    \<and> BtcHeader_ResolveLink merkle_ipfs hn [''tx''] = Ok (root, []) \<and> Trie_Cid merkle_ipfs (last ts) = Ok root"
proof -
  let ?txs = "map merkle_tx [1, 2, 3]"
  obtain ns where ns: "outcome_map (NewBtcTx sample_btcd merkle_ipfs) ?txs = Ok ns" using merkle_txs_nodes by blast
  obtain ts where ts: "mkMerkleTree merkle_ipfs ns = Ok ts" using txs_tree(1) [OF merkle_ipfs_sha ns] by auto
  define header where "header = (bp_Header (sample_btc_raw 0))\<lparr>bh_MerkleRoot := merkle_root take_sha (merkle_depth (length ?txs)) (leaf_hashes take_sha ns)\<rparr>"
  obtain hn where "NewBtcHeader sample_btcd merkle_ipfs header = Ok hn"
    by (auto simp: NewBtcHeader_def RawdataToCid_def sample_btcd_def merkle_ipfs_def)
  with ns ts have run: "FromHeaderAndTxs sample_btcd merkle_ipfs header ?txs = Ok (hn, ns, ts)"
    by (simp add: FromHeaderAndTxs_def del: outcome_map.simps list.map)
  have "bh_MerkleRoot header = merkle_root take_sha (merkle_depth (length ?txs)) (leaf_hashes take_sha ns)"
    by (simp add: header_def)
  from FromHeaderAndTxs_linked [OF run _ merkle_ipfs_sha this] obtain root where
    "BtcHeader_ResolveLink merkle_ipfs hn [''tx''] = Ok (root, [])" "Trie_Cid merkle_ipfs (last ts) = Ok root" by auto
  with run show ?thesis by blast
qed

end
