(* ===== verification/Btc_Publisher.thy ===== *)
theory Btc_Publisher
  imports Btc_Indexer Ipld_Btc Dag_Put
begin

text \<open>
  Package \<open>btc\<close>, the publishers: \<open>publish_and_indexer.go\<close> stores the nodes of a block and writes its rows in one
  transaction, \<open>publisher.go\<close> hands the nodes to an IPFS node and returns the rows for the indexer.
\<close>

subsection \<open>Nodes and rows of a block\<close>

definition btc_header_node :: "BtcHeaderNode \<Rightarrow> ipld_node" where
  "btc_header_node h = \<lparr>node_Cid = bk_cid h, node_RawData = bk_rawdata h\<rparr>"

definition btc_tx_node :: "BtcTxNode \<Rightarrow> ipld_node" where
  "btc_tx_node t = \<lparr>node_Cid = bx_cid t, node_RawData = bx_rawdata t\<rparr>"

text \<open>A node of the tree computes its cid and its data when it is asked for them.\<close>

definition trie_node :: "ipfs_lib \<Rightarrow> BtcTxTrie \<Rightarrow> ipld_node outcome" where
  "trie_node ipfs t =
     outcome_bind (Trie_Cid ipfs t) (\<lambda>c. outcome_bind (Trie_RawData t) (\<lambda>raw. Ok \<lparr>node_Cid = c, node_RawData = raw\<rparr>))"

text \<open>\<open>Timestamp.UnixNano()\<close>, of a time in whole seconds.\<close>

definition UnixNano :: "int \<Rightarrow> int" where
  "UnixNano t = int64_of (t * 1000000000)"

definition btc_header_model :: "btcd_lib \<Rightarrow> BtcConvertedPayload \<Rightarrow> string \<Rightarrow> string \<Rightarrow> BtcHeaderModel" where
  "btc_header_model btcd ipldPayload c mhKey = \<lparr>bhm_ID = 0,
     bhm_BlockNumber = big_String (int64_of (bp_BlockHeight ipldPayload)),
     bhm_BlockHash = Chainhash_String btcd (Btc_BlockHash btcd (bp_Header ipldPayload)),
     bhm_ParentHash = Chainhash_String btcd (bh_PrevBlock (bp_Header ipldPayload)), bhm_CID = c, bhm_MhKey = mhKey,
     bhm_Timestamp = UnixNano (bh_Timestamp (bp_Header ipldPayload)), bhm_Bits = bh_Bits (bp_Header ipldPayload),
     bhm_NodeID = 0, bhm_TimesValidated = 0\<rparr>"

subsection \<open>Publishing and indexing in one transaction (publish\_and\_indexer.go)\<close>

definition publish_trie :: "ipfs_lib \<Rightarrow> BtcTxTrie \<Rightarrow> unit pg_txm" where
  "publish_trie ipfs t = tx_bind (tx_lift (trie_node ipfs t)) (PublishIPLD ipfs)"

definition btc_publish_tx :: "ipfs_lib \<Rightarrow> BtcConvertedPayload \<Rightarrow> int \<Rightarrow> nat \<Rightarrow> BtcTxNode \<Rightarrow> unit pg_txm" where
  "btc_publish_tx ipfs ipldPayload headerID i txNode =
     tx_bind (PublishIPLD ipfs (btc_tx_node txNode)) (\<lambda>_.
     tx_bind (tx_lift (slice_get (bp_TxMetaData ipldPayload) i)) (\<lambda>meta.
       let txModel = meta\<lparr>btm_CID := Cid_String ipfs (bx_cid txNode), btm_MhKey := MultihashKeyFromCID ipfs (bx_cid txNode)\<rparr>
       in tx_bind (btc_indexTransactionCID txModel headerID) (index_ins_outs txModel)))"

definition btc_publish_body ::
    "btcd_lib \<Rightarrow> ipfs_lib \<Rightarrow> int \<Rightarrow> BtcConvertedPayload \<Rightarrow> BtcHeaderNode \<times> BtcTxNode list \<times> BtcTxTrie list \<Rightarrow> CIDsForIndexing pg_body" where
  "btc_publish_body btcd ipfs nodeID ipldPayload nodes =
     (case nodes of (headerNode, txNodes, txTrieNodes) \<Rightarrow>
     inner_err (tx_for (\<lambda>_ node. publish_trie ipfs node) 0 txTrieNodes) (\<lambda>_.
     inner_err (PublishIPLD ipfs (btc_header_node headerNode)) (\<lambda>_.
     outer_err (btc_indexHeaderCID nodeID (btc_header_model btcd ipldPayload (Cid_String ipfs (bk_cid headerNode))
       (MultihashKeyFromCID ipfs (bk_cid headerNode)))) (\<lambda>headerID.
     inner_err (tx_for (\<lambda>i txNode. btc_publish_tx ipfs ipldPayload headerID i txNode) 0 txNodes) (\<lambda>_.
     body_return NilCIDs)))))"

definition btc_PublishAndIndex ::
    "btcd_lib \<Rightarrow> ipfs_lib \<Rightarrow> int \<Rightarrow> bool list \<Rightarrow> Converted \<Rightarrow> pg_seq \<Rightarrow> pg_db \<Rightarrow> CIDsForIndexing outcome \<times> pg_db \<times> pg_seq" where
  "btc_PublishAndIndex btcd ipfs nodeID faults payload sq db =
     (case payload of
        BtcConverted ipldPayload \<Rightarrow>
          (case FromHeaderAndTxs btcd ipfs (bp_Header ipldPayload) (bp_Txs ipldPayload) of
             Ok nodes \<Rightarrow> run_tx deferred_fk faults (btc_publish_body btcd ipfs nodeID ipldPayload nodes) sq db
           | Err e \<Rightarrow> (Err e, db, sq)
           | Panic p \<Rightarrow> (Panic p, db, sq))
      | _ \<Rightarrow> (Err (Errorf ''btc publisher expected payload type %T got %T'' [''btc.ConvertedPayload'', Converted_T payload]), db, sq))"

definition btc_PublisherAndIndexer_Index :: "CIDsForIndexing \<Rightarrow> pg_seq \<Rightarrow> pg_db \<Rightarrow> unit outcome \<times> pg_db \<times> pg_seq" where
  "btc_PublisherAndIndexer_Index cids sq db = (Ok (), db, sq)"

subsection \<open>Publishing over IPFS (publisher.go)\<close>

text \<open>\<open>mhKey, _ := MultihashKeyFromCIDString(c)\<close>\<close>

definition mhKey_of :: "ipfs_lib \<Rightarrow> string \<Rightarrow> string" where
  "mhKey_of ipfs c = (case MultihashKeyFromCIDString ipfs c of Ok k \<Rightarrow> k | _ \<Rightarrow> '''')"

definition btc_publishHeader :: "ipfs_lib \<Rightarrow> 'w adder \<Rightarrow> BtcHeaderNode \<Rightarrow> ('w, string) io" where
  "btc_publishHeader ipfs add header = BtcHeaderDagPutter ipfs add (TBtcHeader, btc_header_node header)"

definition btc_tx_cid_model :: "ipfs_lib \<Rightarrow> TxModelWithInsAndOuts \<Rightarrow> string \<Rightarrow> TxModelWithInsAndOuts" where
  "btc_tx_cid_model ipfs meta c = \<lparr>btm_ID = 0, btm_HeaderID = 0, btm_Index = btm_Index meta, btm_TxHash = btm_TxHash meta,
     btm_CID = c, btm_MhKey = mhKey_of ipfs c, btm_SegWit = btm_SegWit meta, btm_WitnessHash = btm_WitnessHash meta,
     btm_TxInputs = btm_TxInputs meta, btm_TxOutputs = btm_TxOutputs meta\<rparr>"

definition btc_publishTransactions ::
    "ipfs_lib \<Rightarrow> 'w adder \<Rightarrow> BtcTxNode list \<Rightarrow> BtcTxTrie list \<Rightarrow> TxModelWithInsAndOuts list \<Rightarrow> ('w, TxModelWithInsAndOuts list) io" where
  "btc_publishTransactions ipfs add transactions txTrie trxMeta =
     io_bind (io_for (\<lambda>i tx txCids.
       io_bind (BtcTxDagPutter ipfs add (TBtcTx, btc_tx_node tx)) (\<lambda>c.
       io_bind (io_lift (slice_get trxMeta i)) (\<lambda>meta.
         io_return (txCids @ [btc_tx_cid_model ipfs meta c])))) 0 transactions []) (\<lambda>txCids.
     io_bind (io_for (\<lambda>_ t _.
       io_bind (io_lift (trie_node ipfs t)) (\<lambda>txNode.
       io_bind (BtcTxTrieDagPutter ipfs add (TBtcTxTrie, txNode)) (\<lambda>_. io_return ()))) 0 txTrie ()) (\<lambda>_.
     io_return txCids))"

definition btc_Publish :: "btcd_lib \<Rightarrow> ipfs_lib \<Rightarrow> 'w adder \<Rightarrow> Converted \<Rightarrow> ('w, CIDsForIndexing) io" where
  "btc_Publish btcd ipfs add payload =
     (case payload of
        BtcConverted ipldPayload \<Rightarrow>
          io_bind (io_lift (FromHeaderAndTxs btcd ipfs (bp_Header ipldPayload) (bp_Txs ipldPayload))) (\<lambda>(headerNode, txNodes, txTrieNodes).
          io_bind (btc_publishHeader ipfs add headerNode) (\<lambda>headerCid.
          io_bind (btc_publishTransactions ipfs add txNodes txTrieNodes (bp_TxMetaData ipldPayload)) (\<lambda>transactionCids.
          io_return (BtcCIDs \<lparr>bcd_HeaderCID = btc_header_model btcd ipldPayload headerCid (mhKey_of ipfs headerCid),
            bcd_TransactionCIDs = transactionCids\<rparr>))))
      | _ \<Rightarrow> io_lift (Err (Errorf ''eth publisher expected payload type %T got %T'' [''*btc.ConvertedPayload'', Converted_T payload])))"

subsection \<open>Atomicity and invariants\<close>

lemma trie_node_no_Err: "trie_node ipfs t \<noteq> Err e"
  by (auto simp: trie_node_def Trie_Cid_def Trie_RawData_def cidToHash_def sum_or_nil_def Let_def outcome_bind_Err_iff
    split: outcome.splits if_splits)

lemma publish_trie_sql_only [sql_only_intros]: "sql_only (publish_trie ipfs t)"
  unfolding publish_trie_def by (intro sql_only_intros trie_node_no_Err)

lemma btc_publish_tx_sql_only [sql_only_intros]: "sql_only (btc_publish_tx ipfs p headerID i t)"
  unfolding btc_publish_tx_def btc_op_defs Let_def by (intro sql_only_intros slice_get_not_Err)

lemma btc_publish_body_rolls_back: "error_rolls_back (btc_publish_body btcd ipfs nodeID p nodes)"
  unfolding btc_publish_body_def by (cases nodes) (auto intro!: rolls_back_intros sql_only_intros)

interpretation btc_publish_tx: transactional "btc_publish_body btcd ipfs nodeID p nodes" for btcd ipfs nodeID p nodes
  by unfold_locales (rule btc_publish_body_rolls_back)

lemmas btc_publish_defs = publish_trie_def btc_publish_tx_def btc_op_defs Let_def

lemma btc_publish_body_keeps: "body_keeps db_ok (btc_publish_body btcd ipfs nodeID p nodes)"
  unfolding btc_publish_body_def btc_publish_defs by (cases nodes) (auto intro!: keeps_intros)

lemma btc_blocks_kept [keeps_intros]:
  "stmt_keeps (view_is db_blocks bs) (btc_insert_header nodeID header)"
  "stmt_keeps (view_is db_blocks bs) (btc_insert_tx t i)"
  "stmt_keeps (view_is db_blocks bs) (insert_input txInput txID)"
  "stmt_keeps (view_is db_blocks bs) (insert_output txOutput txID)"
  by (auto simp: stmt_keeps_def view_is_def btc_insert_header_def btc_insert_tx_def insert_input_def insert_output_def
    split: if_splits)

lemma btc_key_stored [keeps_intros]:
  "stmt_keeps (key_stored k) (btc_insert_header nodeID header)"
  "stmt_keeps (key_stored k) (btc_insert_tx t i)"
  "stmt_keeps (key_stored k) (insert_input txInput txID)"
  "stmt_keeps (key_stored k) (insert_output txOutput txID)"
  by (intro key_stored_view btc_blocks_kept)+

lemma btc_extends [keeps_intros]:
  "stmt_keeps (blocks_extend bs) (btc_insert_header nodeID header)"
  "stmt_keeps (blocks_extend bs) (btc_insert_tx t i)"
  "stmt_keeps (blocks_extend bs) (insert_input txInput txID)"
  "stmt_keeps (blocks_extend bs) (insert_output txOutput txID)"
  by (intro blocks_extend_view btc_blocks_kept)+

lemma btc_publish_body_extends: "body_keeps (blocks_extend bs) (btc_publish_body btcd ipfs nodeID p nodes)"
  unfolding btc_publish_body_def btc_publish_defs by (cases nodes) (auto intro!: keeps_intros)

subsection \<open>Completeness\<close>

definition trie_stored :: "ipfs_lib \<Rightarrow> BtcTxTrie \<Rightarrow> pg_db \<Rightarrow> bool" where
  "trie_stored ipfs t db \<longleftrightarrow> (\<exists>c. Trie_Cid ipfs t = Ok c \<and> stored db (MultihashKeyFromCID ipfs c))"

lemma trie_stored_kept: "(\<And>k. tx_keeps (key_stored k) m) \<Longrightarrow> tx_keeps (\<lambda>_. trie_stored ipfs t) m"
  unfolding tx_keeps_def trie_stored_def key_stored_def by blast

lemma publish_trie_stores:
  assumes "publish_trie ipfs t tx = (Ok u, tx')"
  shows "trie_stored ipfs t (tx_db tx')"
proof -
  obtain n where n: "trie_node ipfs t = Ok n" "PublishIPLD ipfs n tx = (Ok u, tx')"
    using assms unfolding publish_trie_def by (auto simp: tx_lift_def elim: tx_bind_Ok)
  then have "Trie_Cid ipfs t = Ok (node_Cid n)" by (auto simp: trie_node_def)
  with PublishIPLD_stores [OF n(2)] show ?thesis by (auto simp: trie_stored_def)
qed

text \<open>A transaction whose block is stored and whose row is under the header.\<close>

definition btc_tx_done :: "ipfs_lib \<Rightarrow> BtcConvertedPayload \<Rightarrow> int \<Rightarrow> nat \<Rightarrow> BtcTxNode \<Rightarrow> pg_db \<Rightarrow> bool" where
  "btc_tx_done ipfs p i j t db \<longleftrightarrow> j < length (bp_TxMetaData p) \<and> stored db (MultihashKeyFromCID ipfs (bx_cid t))
     \<and> tx_under i (btm_TxHash (bp_TxMetaData p ! j)) db"

lemma publish_parts_keys [keeps_intros]:
  "tx_keeps (key_stored k) (publish_trie ipfs t)" "tx_keeps (key_stored k) (btc_publish_tx ipfs p i j x)"
  "tx_keeps (key_stored k) (btc_indexHeaderCID nodeID header)" "tx_keeps (key_stored k) (index_ins_outs m n)"
  "tx_keeps (key_stored k) (btc_indexTransactionCID m i)"
  unfolding btc_publish_defs by (intro keeps_intros)+

lemma tx_under_put [keeps_intros]: "stmt_keeps (\<lambda>_. tx_under i h) (put_block key data)"
  by (auto simp: stmt_keeps_def put_block_def tx_under_def)

lemma tx_under_parts [keeps_intros]:
  "tx_keeps (\<lambda>_. tx_under i h) (btc_publish_tx ipfs p i j x)" "tx_keeps (\<lambda>_. tx_under i h) (index_ins_outs m n)"
  unfolding btc_publish_defs PublishIPLD_def by (intro keeps_intros)+

lemma tx_keeps_conj2:
  "tx_keeps (\<lambda>_. P) m \<Longrightarrow> tx_keeps (\<lambda>_. Q) m \<Longrightarrow> tx_keeps (\<lambda>_ db. c \<and> P db \<and> Q db) m"
  unfolding tx_keeps_def by metis

lemma btc_tx_done_kept: "tx_keeps (\<lambda>_. btc_tx_done ipfs p i j t) (btc_publish_tx ipfs' p' i k x)"
proof -
  have "tx_keeps (\<lambda>_ db. stored db (MultihashKeyFromCID ipfs (bx_cid t))) (btc_publish_tx ipfs' p' i k x)"
    using publish_parts_keys(2) by (simp add: key_stored_def [abs_def])
  from tx_keeps_conj2 [OF this tx_under_parts(1)] show ?thesis by (simp add: btc_tx_done_def [abs_def])
qed

lemma btc_publish_tx_done:
  assumes "btc_publish_tx ipfs p i j t tx = (Ok u, tx')"
  shows "btc_tx_done ipfs p i j t (tx_db tx')"
proof -
  obtain t1 m t2 n where 1: "PublishIPLD ipfs (btc_tx_node t) tx = (Ok (), t1)" and m: "slice_get (bp_TxMetaData p) j = Ok m"
    and 2: "btc_indexTransactionCID (m\<lparr>btm_CID := Cid_String ipfs (bx_cid t), btm_MhKey := MultihashKeyFromCID ipfs (bx_cid t)\<rparr>) i t1 = (Ok n, t2)"
    and 3: "index_ins_outs (m\<lparr>btm_CID := Cid_String ipfs (bx_cid t), btm_MhKey := MultihashKeyFromCID ipfs (bx_cid t)\<rparr>) n t2 = (Ok u, tx')"
    using assms unfolding btc_publish_tx_def Let_def by (elim tx_bind_Ok) (auto simp: tx_lift_def)
  have "stored (tx_db tx') (MultihashKeyFromCID ipfs (bx_cid t))"
    using PublishIPLD_stores [OF 1] key_stored_forward [OF publish_parts_keys(5) 2] key_stored_forward [OF publish_parts_keys(4) 3]
    by (simp add: btc_tx_node_def)
  moreover have "tx_under i (btm_TxHash m) (tx_db t2)"
    using 2 unfolding btc_indexTransactionCID_def by (elim sql_exec_Ok) (drule btc_insert_tx_under, auto)
  ultimately show ?thesis using m tx_keeps_plain [OF tx_under_parts(2) _ 3] by (auto simp: btc_tx_done_def slice_get_Ok_iff)
qed

definition btc_block_done ::
    "btcd_lib \<Rightarrow> ipfs_lib \<Rightarrow> int \<Rightarrow> BtcConvertedPayload \<Rightarrow> BtcHeaderNode \<Rightarrow> BtcTxNode list \<Rightarrow> BtcTxTrie list \<Rightarrow> pg_db \<Rightarrow> pg_db \<Rightarrow> bool" where
  "btc_block_done btcd ipfs nodeID p hn ns ts db db' \<longleftrightarrow>
     (\<exists>i. btc_header_upserted nodeID (btc_header_model btcd p (Cid_String ipfs (bk_cid hn)) (MultihashKeyFromCID ipfs (bk_cid hn))) i
            (btc_headers db) (btc_headers db')
        \<and> stored db' (MultihashKeyFromCID ipfs (bk_cid hn)) \<and> (\<forall>t\<in>set ts. trie_stored ipfs t db')
        \<and> (\<forall>j<length ns. btc_tx_done ipfs p i j (ns ! j) db'))"

lemma btc_headers_put [keeps_intros]: "stmt_keeps (view_is btc_headers hs) (put_block key data)"
  by (auto simp: stmt_keeps_def view_is_def put_block_def)

lemma btc_publish_body_done:
  assumes "btc_publish_body btcd ipfs nodeID p (hn, ns, ts) tx = ((Ok x, False), tx')"
  shows "btc_block_done btcd ipfs nodeID p hn ns ts (tx_db tx) (tx_db tx') \<and> x = NilCIDs"
proof -
  let ?header = "btc_header_model btcd p (Cid_String ipfs (bk_cid hn)) (MultihashKeyFromCID ipfs (bk_cid hn))"
  let ?txs = "\<lambda>i. tx_for (\<lambda>j txNode. btc_publish_tx ipfs p i j txNode) 0 ns"
  obtain t1 t2 i t3 where 1: "tx_for (\<lambda>_ node. publish_trie ipfs node) 0 ts tx = (Ok (), t1)"
    and 2: "PublishIPLD ipfs (btc_header_node hn) t1 = (Ok (), t2)" and 3: "btc_indexHeaderCID nodeID ?header t2 = (Ok i, t3)"
    and 4: "?txs i t3 = (Ok (), tx')" and x: "x = NilCIDs"
    using assms unfolding btc_publish_body_def prod.case by (elim inner_err_Ok outer_err_Ok) (auto simp: body_return_def)
  have k: "tx_keeps (key_stored k) (PublishIPLD ipfs (btc_header_node hn))" "tx_keeps (key_stored k) (btc_indexHeaderCID nodeID ?header)"
    "tx_keeps (key_stored k) (?txs i)" for k by (intro keeps_intros)+
  have "\<forall>t\<in>set ts. trie_stored ipfs t (tx_db t1)"
    by (rule tx_for_establishes [OF 1]) (erule publish_trie_stores, intro trie_stored_kept keeps_intros)
  then have tries: "\<forall>t\<in>set ts. trie_stored ipfs t (tx_db tx')"
    using key_stored_forward [OF k(1) 2] key_stored_forward [OF k(2) 3] key_stored_forward [OF k(3) 4]
    by (auto simp: trie_stored_def)
  have hdr: "stored (tx_db tx') (MultihashKeyFromCID ipfs (bk_cid hn))"
    using PublishIPLD_stores [OF 2] key_stored_forward [OF k(2) 3] key_stored_forward [OF k(3) 4] by (simp add: btc_header_node_def)
  have txs: "\<forall>j<length ns. btc_tx_done ipfs p i (0 + j) (ns ! j) (tx_db tx')"
    by (rule tx_for_establishes_nth [OF 4]) (erule btc_publish_tx_done, rule btc_tx_done_kept)
  have v: "tx_keeps (view_is btc_headers hs) (tx_for (\<lambda>_ node. publish_trie ipfs node) 0 ts)"
    "tx_keeps (view_is btc_headers hs) (PublishIPLD ipfs (btc_header_node hn))" "tx_keeps (view_is btc_headers hs) (?txs i)" for hs
    unfolding btc_publish_defs PublishIPLD_def by (intro keeps_intros)+
  have same: "btc_headers (tx_db t2) = btc_headers (tx_db tx)" "btc_headers (tx_db tx') = btc_headers (tx_db t3)"
    using tx_keeps_view [OF v(1) 1] tx_keeps_view [OF v(2) 2] tx_keeps_view [OF v(3) 4] by simp_all
  have "btc_header_upserted nodeID ?header i (btc_headers (tx_db t2)) (btc_headers (tx_db t3))"
    using 3 unfolding btc_indexHeaderCID_def by (elim sql_exec_Ok) (auto dest: btc_insert_header_upserted)
  with same tries hdr txs x show ?thesis by (auto simp: btc_block_done_def)
qed

text \<open>
  C15. Publishing a Bitcoin block is all or nothing. The publisher keeps ids and keys unique and overwrites no
  stored block; if anything changed, it returned no error, every foreign key holds, the header, every node of
  the Merkle tree and every transaction are stored, and the header row and a row of each transaction
  under it are there.
\<close>

theorem btc_Publish_all_or_nothing:
  assumes "db_ok sq db" "btc_PublishAndIndex btcd ipfs nodeID faults payload sq db = (r, db', sq')"
  shows "db_ok sq' db' \<and> map_of (db_blocks db) \<subseteq>\<^sub>m map_of (db_blocks db')
    \<and> (db' \<noteq> db \<longrightarrow> (\<exists>p hn ns ts. payload = BtcConverted p \<and> r = Ok NilCIDs \<and> deferred_fk db'
         \<and> FromHeaderAndTxs btcd ipfs (bp_Header p) (bp_Txs p) = Ok (hn, ns, ts)
         \<and> btc_block_done btcd ipfs nodeID p hn ns ts db db'))"
proof (cases "db' = db")
  case True
  have "db_ok sq' db"
  proof (cases "\<exists>p nodes. payload = BtcConverted p \<and> FromHeaderAndTxs btcd ipfs (bp_Header p) (bp_Txs p) = Ok nodes")
    case True
    then obtain p nodes where "run_tx deferred_fk faults (btc_publish_body btcd ipfs nodeID p nodes) sq db = (r, db', sq')"
      using assms(2) by (auto simp: btc_PublishAndIndex_def)
    from run_tx_keeps [OF btc_publish_body_keeps assms(1) this] \<open>db' = db\<close> show ?thesis by simp
  next
    case False
    with assms show ?thesis by (cases payload) (auto simp: btc_PublishAndIndex_def split: outcome.splits)
  qed
  with True show ?thesis by simp
next
  case False
  then obtain p hn ns ts where p: "payload = BtcConverted p" "FromHeaderAndTxs btcd ipfs (bp_Header p) (bp_Txs p) = Ok (hn, ns, ts)"
    and run: "run_tx deferred_fk faults (btc_publish_body btcd ipfs nodeID p (hn, ns, ts)) sq db = (r, db', sq')"
    using assms(2) by (auto simp: btc_PublishAndIndex_def split: Converted.splits outcome.splits)
  obtain x tx where tx: "r = Ok x" "btc_publish_body btcd ipfs nodeID p (hn, ns, ts) (begin_tx faults sq db) = ((Ok x, False), tx)"
    "db' = tx_db tx" "deferred_fk db'" by (rule btc_publish_tx.changed_committed [OF run False])
  have "btc_block_done btcd ipfs nodeID p hn ns ts db db' \<and> x = NilCIDs"
    using btc_publish_body_done [OF tx(2)] tx(3) by (simp add: begin_tx_def)
  moreover have "db_ok sq' db'" by (rule run_tx_keeps [OF btc_publish_body_keeps assms(1) run])
  moreover have "blocks_extend (db_blocks db) sq' db'"
    by (rule run_tx_keeps [OF btc_publish_body_extends _ run]) (simp add: blocks_extend_def)
  ultimately show ?thesis using p tx(1,4) by (auto simp: blocks_extend_def)
qed

definition btc_pub_payload :: BtcConvertedPayload where
  "btc_pub_payload = \<lparr>bp_BlockHeight = 7,
     bp_Header = \<lparr>bh_Version = 1, bh_PrevBlock = [2], bh_MerkleRoot = [], bh_Timestamp = 0, bh_Bits = 0, bh_Nonce = 0\<rparr>,
     bp_Txs = [merkle_tx 4], bp_TxMetaData = [zero_BtcTx]\<rparr>"

lemmas btc_publish_run_defs = btc_PublishAndIndex_def FromHeaderAndTxs_def NewBtcTx_def NewBtcHeader_def mkMerkleTree_def
  merkle_layers.simps btc_publish_body_def inner_err_def btc_publish_tx_def PublishIPLD_def put_block_def insert_block_def
  tx_lift_def RawdataToCid_def sample_btcd_def sample_ipfs_def merkle_tx_def btc_header_model_def UnixNano_def btc_tx_node_def
  btc_header_node_def MultihashKeyFromCID_def hex_digit_def char_of_def bit_0 Let_def btc_pub_payload_def
  DBL_SHA2_256_def MBitcoinTx_def MBitcoinHeader_def

lemma btc_pub_run: "\<exists>db' sq'. btc_PublishAndIndex sample_btcd sample_ipfs 1 [] (BtcConverted btc_pub_payload) empty_seq empty_db
    = (Ok NilCIDs, db', sq') \<and> length (db_blocks db') = 2"
  by (simp add: btc_publish_run_defs btc_index_run_defs)

lemma empty_db_ok: "db_ok empty_seq empty_db"
  by (simp add: db_ok_defs empty_db_def empty_seq_def table_ok_def)

theorem btc_Publish_all_or_nothing_witness:
  "\<exists>db' sq' p hn ns ts. btc_PublishAndIndex sample_btcd sample_ipfs 1 [] (BtcConverted btc_pub_payload) empty_seq empty_db
      = (Ok NilCIDs, db', sq') \<and> db_ok sq' db' \<and> deferred_fk db'
    \<and> btc_block_done sample_btcd sample_ipfs 1 p hn ns ts empty_db db'"
proof -
  obtain db' sq' where run: "btc_PublishAndIndex sample_btcd sample_ipfs 1 [] (BtcConverted btc_pub_payload) empty_seq empty_db
      = (Ok NilCIDs, db', sq')" and l: "length (db_blocks db') = 2" using btc_pub_run by blast
  then have "db' \<noteq> empty_db" by (auto simp: empty_db_def)
  with btc_Publish_all_or_nothing [OF empty_db_ok run] run show ?thesis by blast
qed

end
