(* ===== verification/Btc_Cleaner.thy ===== *)
theory Btc_Cleaner
  imports Pg_Clean
begin

text \<open>
  Package \<open>btc\<close>, the cleaner (\<open>cleaner.go\<close>): as for Ethereum, with two kinds of rows below which blocks are
  deleted. The rows of inputs and outputs go with their transaction by the cascades of the schema.
\<close>

subsection \<open>The statements\<close>

definition btc_header_in_range :: "int \<times> int \<Rightarrow> pg_db \<Rightarrow> int \<Rightarrow> bool" where
  "btc_header_in_range r db headerID = list_ex (\<lambda>c. headerID = bhm_ID c \<and> between r (bhm_BlockNumber c)) (btc_headers db)"

definition btc_tx_keys :: "int \<times> int \<Rightarrow> pg_db \<Rightarrow> string list" where
  "btc_tx_keys r db = map btm_MhKey (filter (\<lambda>b. btc_header_in_range r db (btm_HeaderID b)) (btc_txs db))"

definition btc_cleanTransactionIPLDs :: "range64 \<Rightarrow> unit pg_txm" where
  "btc_cleanTransactionIPLDs = exec_range (\<lambda>r db. del_blocks (\<lambda>k. k \<in> set (btc_tx_keys r db)) db)"

definition btc_cleanTransactionMetaData :: "range64 \<Rightarrow> unit pg_txm" where
  "btc_cleanTransactionMetaData = exec_range (\<lambda>r db.
     cascade (db\<lparr>btc_txs := filter (\<lambda>a. \<not> btc_header_in_range r db (btm_HeaderID a)) (btc_txs db)\<rparr>))"

definition btc_header_keys :: "int \<times> int \<Rightarrow> pg_db \<Rightarrow> string list" where
  "btc_header_keys r db = map bhm_MhKey (filter (\<lambda>b. between r (bhm_BlockNumber b)) (btc_headers db))"

definition btc_cleanHeaderIPLDs :: "range64 \<Rightarrow> unit pg_txm" where
  "btc_cleanHeaderIPLDs = exec_range (\<lambda>r db. del_blocks (\<lambda>k. k \<in> set (btc_header_keys r db)) db)"

definition btc_cleanHeaderMetaData :: "range64 \<Rightarrow> unit pg_txm" where
  "btc_cleanHeaderMetaData = exec_range (\<lambda>r db.
     cascade (db\<lparr>btc_headers := filter (\<lambda>a. \<not> between r (bhm_BlockNumber a)) (btc_headers db)\<rparr>))"

subsection \<open>Cleaning\<close>

definition btc_cleanFull :: "range64 \<Rightarrow> unit pg_txm" where
  "btc_cleanFull rng =
     tx_bind (btc_cleanTransactionIPLDs rng) (\<lambda>_.
     tx_bind (btc_cleanHeaderIPLDs rng) (\<lambda>_.
     btc_cleanHeaderMetaData rng))"

definition btc_clean :: "range64 \<Rightarrow> DataType \<Rightarrow> unit pg_txm" where
  "btc_clean rng t =
     (if t = Full \<or> t = Headers then btc_cleanFull rng
      else if t = Transactions then tx_bind (btc_cleanTransactionIPLDs rng) (\<lambda>_. btc_cleanTransactionMetaData rng)
      else tx_lift (Err (Errorf ''btc cleaner unrecognized type: %s'' [DataType_String t])))"

definition btc_vacuumHeaders :: "unit vacuum_io" where "btc_vacuumHeaders = vacuum_table ''btc.header_cids''"
definition btc_vacuumTxs :: "unit vacuum_io" where "btc_vacuumTxs = vacuum_table ''btc.transaction_cids''"
definition btc_vacuumTxInputs :: "unit vacuum_io" where "btc_vacuumTxInputs = vacuum_table ''btc.tx_inputs''"
definition btc_vacuumTxOutputs :: "unit vacuum_io" where "btc_vacuumTxOutputs = vacuum_table ''btc.tx_outputs''"
definition btc_vacuumIPLDs :: "unit vacuum_io" where "btc_vacuumIPLDs = vacuum_table ''public.blocks''"

definition btc_vacuumAnalyze :: "DataType \<Rightarrow> unit vacuum_io" where
  "btc_vacuumAnalyze t = io_bind
     (if t = Full \<or> t = Headers then
        io_bind btc_vacuumHeaders (\<lambda>_. io_bind btc_vacuumTxs (\<lambda>_. io_bind btc_vacuumTxInputs (\<lambda>_. btc_vacuumTxOutputs)))
      else if t = Transactions then
        io_bind btc_vacuumTxs (\<lambda>_. io_bind btc_vacuumTxInputs (\<lambda>_. btc_vacuumTxOutputs))
      else io_lift (Err (Errorf ''btc cleaner unrecognized type: %s'' [DataType_String t])))
     (\<lambda>_. btc_vacuumIPLDs)"

definition btc_Clean ::
    "bool list \<Rightarrow> range64 list \<Rightarrow> DataType \<Rightarrow> pg_seq \<Rightarrow> pg_db \<Rightarrow> unit outcome \<times> pg_db \<times> pg_seq \<times> string list" where
  "btc_Clean faults rngs t sq db =
     (case run_commit deferred_fk faults (tx_for (\<lambda>_ rng. btc_clean rng t) 0 rngs) sq db of
        (Ok _, db', sq', fs) \<Rightarrow> (case btc_vacuumAnalyze t (fs, []) of (r, w) \<Rightarrow> (r, db', sq', snd w))
      | (r, db', sq', fs) \<Rightarrow> (r, db', sq', []))"

definition btc_reset_range :: "int \<times> int \<Rightarrow> pg_db \<Rightarrow> pg_db" where
  "btc_reset_range r db = db\<lparr>btc_headers :=
     map (\<lambda>h. if between r (bhm_BlockNumber h) then h\<lparr>bhm_TimesValidated := 0\<rparr> else h) (btc_headers db)\<rparr>"

definition btc_ResetValidation ::
    "bool list \<Rightarrow> range64 list \<Rightarrow> pg_seq \<Rightarrow> pg_db \<Rightarrow> unit outcome \<times> pg_db \<times> pg_seq" where
  "btc_ResetValidation faults rngs sq db =
     (case run_commit deferred_fk faults (tx_for (\<lambda>_ rng. exec_range btc_reset_range rng) 0 rngs) sq db of
        (r, db', sq', fs) \<Rightarrow> (r, db', sq'))"

subsection \<open>What cleaning a range is meant to do\<close>

definition btc_range_keys :: "DataType \<Rightarrow> int \<times> int \<Rightarrow> pg_db \<Rightarrow> string set" where
  "btc_range_keys t r db = set (btc_tx_keys r db) \<union> (if t = Full \<or> t = Headers then set (btc_header_keys r db) else {})"

definition btc_clean_spec :: "DataType \<Rightarrow> int \<times> int \<Rightarrow> pg_db \<Rightarrow> pg_db" where
  "btc_clean_spec t r db = del_blocks (\<lambda>k. k \<in> btc_range_keys t r db) db"

definition btc_clean_all :: "DataType \<Rightarrow> range64 list \<Rightarrow> pg_db \<Rightarrow> pg_db" where
  "btc_clean_all t rngs = fold (btc_clean_spec t) (map range_ints rngs)"

subsection \<open>One range\<close>

lemma btc_del_tables:
  "btc_headers (del_blocks g db) = filter (\<lambda>x. \<not> g (bhm_MhKey x) \<and> stored db (bhm_MhKey x)) (btc_headers db)"
  "btc_txs (del_blocks g db) = filter (\<lambda>x. (\<not> g (btm_MhKey x) \<and> stored db (btm_MhKey x))
     \<and> btm_HeaderID x \<in> bhm_ID ` set (btc_headers (del_blocks g db))) (btc_txs db)"
  unfolding del_blocks_def by (subst cascade_tables, simp)+

lemma btc_header_in_range_less: "btc_header_in_range r (del_blocks g db) i \<Longrightarrow> btc_header_in_range r db i"
  by (auto simp: btc_header_in_range_def list_ex_iff btc_del_tables)

lemma btc_keys_less:
  "set (btc_header_keys r (del_blocks g db)) \<subseteq> set (btc_header_keys r db)"
  "set (btc_tx_keys r (del_blocks g db)) \<subseteq> set (btc_tx_keys r db)"
  by (auto simp: btc_header_keys_def btc_tx_keys_def btc_del_tables(1) btc_del_tables(2) [of g] dest: btc_header_in_range_less)

lemma btc_headers_after_del:
  assumes "blocks_fk db"
  shows "g k \<or> k \<in> set (btc_header_keys r (del_blocks g db)) \<longleftrightarrow> g k \<or> k \<in> set (btc_header_keys r db)"
  using assms by (auto simp: btc_header_keys_def btc_del_tables blocks_fk_def list_all_iff)

lemma btc_delete_rows_none:
  "set (btc_header_keys r db) \<subseteq> Collect g \<Longrightarrow> cascade ((del_blocks g db)\<lparr>btc_headers :=
     filter (\<lambda>a. \<not> between r (bhm_BlockNumber a)) (btc_headers (del_blocks g db))\<rparr>) = del_blocks g db"
  "set (btc_tx_keys r db) \<subseteq> Collect g \<Longrightarrow> cascade ((del_blocks g db)\<lparr>btc_txs :=
     filter (\<lambda>a. \<not> btc_header_in_range r (del_blocks g db) (btm_HeaderID a)) (btc_txs (del_blocks g db))\<rparr>) = del_blocks g db"
proof -
  assume "set (btc_header_keys r db) \<subseteq> Collect g"
  then have "filter (\<lambda>a. \<not> between r (bhm_BlockNumber a)) (btc_headers (del_blocks g db)) = btc_headers (del_blocks g db)"
    by (intro filter_True) (auto simp: btc_header_keys_def btc_del_tables)
  then show "cascade ((del_blocks g db)\<lparr>btc_headers :=
     filter (\<lambda>a. \<not> between r (bhm_BlockNumber a)) (btc_headers (del_blocks g db))\<rparr>) = del_blocks g db"
    by (simp add: cascade_del)
next
  assume "set (btc_tx_keys r db) \<subseteq> Collect g"
  then have "filter (\<lambda>a. \<not> btc_header_in_range r (del_blocks g db) (btm_HeaderID a)) (btc_txs (del_blocks g db)) = btc_txs (del_blocks g db)"
    by (intro filter_True) (auto simp: btc_tx_keys_def btc_del_tables(2) [of g] dest: btc_header_in_range_less)
  then show "cascade ((del_blocks g db)\<lparr>btc_txs :=
     filter (\<lambda>a. \<not> btc_header_in_range r (del_blocks g db) (btm_HeaderID a)) (btc_txs (del_blocks g db))\<rparr>) = del_blocks g db"
    by (simp add: cascade_del)
qed

lemmas btc_clean_statements = btc_cleanTransactionIPLDs_def btc_cleanTransactionMetaData_def btc_cleanHeaderIPLDs_def
  btc_cleanHeaderMetaData_def

text \<open>
  The blocks of the transactions go first, while all rows are there, and a header that loses its row in
  that step has lost its block too: nothing has to be assumed of what the rows share.
\<close>

lemma btc_clean_maps:
  assumes "blocks_fk db"
  shows "tx_maps r (\<lambda>rng. btc_clean rng t) db (btc_clean_spec t r db)"
proof -
  let ?txs = "\<lambda>k. k \<in> set (btc_tx_keys r db)"
  let ?hdr = "\<lambda>k. ?txs k \<or> k \<in> set (btc_header_keys r db)"
  have hdr: "del_blocks (\<lambda>k. k \<in> set (btc_header_keys r (del_blocks ?txs db))) (del_blocks ?txs db) = del_blocks ?hdr db"
    by (rule del_step, rule btc_headers_after_del [OF assms])
  have sets: "set (btc_header_keys r db) \<subseteq> Collect ?hdr" "set (btc_tx_keys r db) \<subseteq> Collect ?txs" by auto
  note none = btc_delete_rows_none(1) [OF sets(1)] btc_delete_rows_none(2) [OF sets(2)]
  have full: "tx_maps r btc_cleanFull db (del_blocks ?hdr db)"
    unfolding btc_cleanFull_def btc_clean_statements
    by (rule maps_then, rule maps_exec [OF refl])+ (rule maps_exec, simp only: hdr none)
  have txs: "tx_maps r (\<lambda>rng. tx_bind (btc_cleanTransactionIPLDs rng) (\<lambda>_. btc_cleanTransactionMetaData rng)) db (del_blocks ?txs db)"
    unfolding btc_clean_statements by (rule maps_then, rule maps_exec [OF refl]) (rule maps_exec, simp only: none)
  show ?thesis
  proof (cases "t \<in> {Full, Headers, Transactions}")
    case True
    with full txs show ?thesis by (auto simp: btc_clean_def [abs_def] btc_clean_spec_def btc_range_keys_def)
  next
    case False
    then show ?thesis by (simp add: tx_maps_def btc_clean_def tx_lift_def)
  qed
qed

subsection \<open>Several ranges\<close>

lemma btc_clean_args: "btc_clean rng t tx = (Ok u, tx') \<Longrightarrow> range_args rng = Ok (range_ints rng)"
  by (cases t) (auto simp: btc_clean_def btc_cleanFull_def btc_clean_statements tx_lift_def dest: exec_then_args)

lemma btc_range_keys_less: "btc_range_keys t r (del_blocks g db) \<subseteq> btc_range_keys t r db"
  using btc_keys_less [of r g db] unfolding btc_range_keys_def by auto

interpretation btc_cleaner: block_cleaner "\<lambda>rng. btc_clean rng t" "btc_clean_spec t" "\<lambda>_ _. True" "btc_range_keys t" for t
proof
  show "deferred_fk (btc_clean_spec t r db)" for r db by (simp add: btc_clean_spec_def del_fk)
qed (rule TrueI btc_clean_maps btc_clean_args btc_clean_spec_def btc_range_keys_less, assumption?)+

lemma btc_clean_succeeds [succeeds_intros]:
  "t \<in> {Full, Headers, Transactions} \<Longrightarrow> range_args rng = Ok r \<Longrightarrow> succeeds (btc_clean rng t)"
  by (auto simp: btc_clean_def btc_cleanFull_def btc_clean_statements intro!: succeeds_intros)

lemmas btc_vacuum_defs = btc_vacuumHeaders_def btc_vacuumTxs_def btc_vacuumTxInputs_def btc_vacuumTxOutputs_def
  btc_vacuumIPLDs_def io_bind_def vacuum_table_def next_fault_def

lemma btc_vacuum_succeeds:
  assumes "t \<in> {Full, Headers, Transactions}"
  obtains w where "btc_vacuumAnalyze t ([], []) = (Ok (), w)"
  using assms by (auto simp: btc_vacuumAnalyze_def btc_vacuum_defs)

lemma btc_Clean_cases:
  assumes "btc_Clean faults rngs t sq db = (r, db', sq', vac)" "deferred_fk db"
  obtains (failed) "r \<noteq> Ok ()" "db' = db" "vac = []" | (cleaned) "db' = btc_clean_all t rngs db"
proof -
  obtain r0 db0 sq0 fs where run: "run_commit deferred_fk faults (tx_for (\<lambda>_ rng. btc_clean rng t) 0 rngs) sq db = (r0, db0, sq0, fs)"
    by (metis surj_pair)
  have "\<forall>rng\<in>set rngs. True" by simp
  with run assms(2) show ?thesis
  proof (cases rule: btc_cleaner.ranges_cases)
    case failed
    then show ?thesis using assms(1) run that(1) by (auto simp: btc_Clean_def split: outcome.splits)
  next
    case cleaned
    then show ?thesis using assms(1) run that(2) by (auto simp: btc_Clean_def btc_clean_all_def split: prod.splits)
  qed
qed

lemma btc_Clean_succeeds:
  assumes "deferred_fk db" "t \<in> {Full, Headers, Transactions}"
    and "\<forall>rng\<in>set rngs. unat (fst rng) < 2 ^ 63 \<and> unat (snd rng) < 2 ^ 63"
  obtains vac where "btc_Clean [] rngs t sq db = (Ok (), btc_clean_all t rngs db, sq, vac)"
proof -
  have ok: "\<forall>rng\<in>set rngs. range_args rng = Ok (range_ints rng)"
    using assms(3) by (simp add: range_args_Ok range_ints_def)
  have run: "run_commit deferred_fk [] (tx_for (\<lambda>_ rng. btc_clean rng t) 0 rngs) sq db = (Ok (), btc_clean_all t rngs db, sq, [])"
    unfolding btc_clean_all_def
    by (rule btc_cleaner.ranges_succeed) (use assms ok in \<open>auto intro: btc_clean_succeeds\<close>)
  obtain w where "btc_vacuumAnalyze t ([], []) = (Ok (), w)" by (rule btc_vacuum_succeeds [OF assms(2)])
  with run have "btc_Clean [] rngs t sq db = (Ok (), btc_clean_all t rngs db, sq, snd w)" by (simp add: btc_Clean_def)
  then show ?thesis by (rule that)
qed

text \<open>
  C28. The Bitcoin cleaner on a database that satisfies its foreign keys either fails and changes nothing, or
  deletes for each range in turn exactly the blocks that the rows of the kind point to, with the rows that
  depend on them. It returns no error when the type is one of \<open>Full\<close>, \<open>Headers\<close> and \<open>Transactions\<close>, the bounds
  fit into an \<open>int64\<close> and no statement fails. Blocks that no row of the ranges points to, such as the inner
  nodes of the Merkle trees, stay for good.
\<close>

theorem btc_Clean_meets_spec:
  assumes "deferred_fk db"
  shows "(case btc_Clean faults rngs t sq db of (r, db', sq', vac) \<Rightarrow>
      (r \<noteq> Ok () \<and> db' = db \<and> vac = []) \<or> db' = btc_clean_all t rngs db)
    \<and> (t \<in> {Full, Headers, Transactions} \<longrightarrow> (\<forall>rng\<in>set rngs. unat (fst rng) < 2 ^ 63 \<and> unat (snd rng) < 2 ^ 63) \<longrightarrow>
      (\<exists>vac. btc_Clean [] rngs t sq db = (Ok (), btc_clean_all t rngs db, sq, vac)))
    \<and> (\<forall>b\<in>set (db_blocks db). (\<forall>rng\<in>set rngs. fst b \<notin> btc_range_keys t (range_ints rng) db) \<longrightarrow>
      b \<in> set (db_blocks (btc_clean_all t rngs db)))"
proof (intro conjI impI)
  obtain r db' sq' vac where run: "btc_Clean faults rngs t sq db = (r, db', sq', vac)" by (metis surj_pair)
  from run assms show "case btc_Clean faults rngs t sq db of (r, db', sq', vac) \<Rightarrow>
      (r \<noteq> Ok () \<and> db' = db \<and> vac = []) \<or> db' = btc_clean_all t rngs db"
    by (cases rule: btc_Clean_cases) (simp_all add: run)
  show "\<forall>b\<in>set (db_blocks db). (\<forall>rng\<in>set rngs. fst b \<notin> btc_range_keys t (range_ints rng) db) \<longrightarrow>
      b \<in> set (db_blocks (btc_clean_all t rngs db))"
    unfolding btc_clean_all_def using btc_cleaner.blocks_kept by blast
  assume "t \<in> {Full, Headers, Transactions}" "\<forall>rng\<in>set rngs. unat (fst rng) < 2 ^ 63 \<and> unat (snd rng) < 2 ^ 63"
  then show "\<exists>vac. btc_Clean [] rngs t sq db = (Ok (), btc_clean_all t rngs db, sq, vac)"
    by (rule btc_Clean_succeeds [OF assms]) blast
qed

definition btc_clean_db :: pg_db where
  "btc_clean_db = empty_db\<lparr>
     db_blocks := [(''h6'', []), (''t'', []), (''root'', [])],
     btc_headers := [\<lparr>bhm_ID = 1, bhm_BlockNumber = big_String 6, bhm_BlockHash = ''h6'', bhm_ParentHash = '''', bhm_CID = ''h6'',
       bhm_MhKey = ''h6'', bhm_Timestamp = 0, bhm_Bits = 0, bhm_NodeID = 1, bhm_TimesValidated = 1\<rparr>],
     btc_txs := [\<lparr>btm_ID = 1, btm_HeaderID = 1, btm_Index = 0, btm_TxHash = ''t'', btm_CID = ''t'', btm_MhKey = ''t'',
       btm_SegWit = False, btm_WitnessHash = ''''\<rparr>]\<rparr>"

theorem btc_Clean_meets_spec_witness:
  "\<exists>vac db'. btc_Clean [] [(6, 9)] Full empty_seq btc_clean_db = (Ok (), db', empty_seq, vac) \<and> (''root'', []) \<in> set (db_blocks db')"
proof -
  have fk: "deferred_fk btc_clean_db"
    by (simp add: btc_clean_db_def empty_db_def deferred_fk_def blocks_fk_def rows_fk_def stored_def)
  note spec = btc_Clean_meets_spec [OF fk, THEN conjunct2]
  have "\<exists>vac. btc_Clean [] [(6, 9)] Full empty_seq btc_clean_db = (Ok (), btc_clean_all Full [(6, 9)] btc_clean_db, empty_seq, vac)"
    by (rule spec [THEN conjunct1, rule_format]) auto
  moreover have "(''root'', []) \<in> set (db_blocks (btc_clean_all Full [(6, 9)] btc_clean_db))"
    by (rule spec [THEN conjunct2, rule_format])
       (simp_all add: btc_clean_db_def empty_db_def btc_range_keys_def btc_tx_keys_def btc_header_keys_def)
  ultimately show ?thesis by blast
qed

text \<open>\<open>ResetValidation\<close> sets the counter of exactly the headers of the ranges, or changes nothing.\<close>

lemma btc_ResetValidation_result:
  assumes "btc_ResetValidation faults rngs sq db = (Ok (), db', sq')"
  shows "db' = db\<lparr>btc_headers := map (\<lambda>h. if \<exists>rng\<in>set rngs. between (range_ints rng) (bhm_BlockNumber h)
    then h\<lparr>bhm_TimesValidated := 0\<rparr> else h) (btc_headers db)\<rparr>"
proof -
  obtain r fs where run: "run_commit deferred_fk faults (tx_for (\<lambda>_ rng. exec_range btc_reset_range rng) 0 rngs) sq db = (Ok (), db', sq', fs)"
    using assms by (auto simp: btc_ResetValidation_def split: prod.splits)
  then have "db' = fold btc_reset_range (map range_ints rngs) db"
    by (cases rule: run_commit_cases) (auto dest: exec_ranges_fold simp: begin_tx_def)
  also have "\<dots> = db\<lparr>btc_headers := map (\<lambda>h. if \<exists>rng\<in>set rngs. between (range_ints rng) (bhm_BlockNumber h)
    then h\<lparr>bhm_TimesValidated := 0\<rparr> else h) (btc_headers db)\<rparr>"
    by (induction rngs arbitrary: db) (auto simp: btc_reset_range_def)
  finally show ?thesis .
qed

end
