(* ===== verification/Btc_Retriever.thy ===== *)
theory Btc_Retriever
  imports Height_Gaps Chain_Data
begin

text \<open>
  Package \<open>btc\<close>, the retriever (\<open>cid_retriever.go\<close>), written as the one of Ethereum: a clause that the
  code appends to the statement is a condition on the joined rows.
\<close>

subsection \<open>First and last block\<close>

definition btc_header_number :: "BtcHeaderModel \<Rightarrow> int" where
  "btc_header_number r = number_of (bhm_BlockNumber r)"

definition btc_block_numbers :: "pg_db \<Rightarrow> int list" where
  "btc_block_numbers db = map btc_header_number (btc_headers db)"

definition btc_RetrieveFirstBlockNumber :: "pg_db \<Rightarrow> (bool list, int) io" where
  "btc_RetrieveFirstBlockNumber =
     db_query (\<lambda>db. case sort (btc_block_numbers db) of [] \<Rightarrow> Err ErrNoRows | n # _ \<Rightarrow> Ok n)"

definition btc_RetrieveLastBlockNumber :: "pg_db \<Rightarrow> (bool list, int) io" where
  "btc_RetrieveLastBlockNumber =
     db_query (\<lambda>db. case rev (sort (btc_block_numbers db)) of [] \<Rightarrow> Err ErrNoRows | n # _ \<Rightarrow> Ok n)"

subsection \<open>The rows of a header\<close>

definition btc_RetrieveHeaderCIDs :: "int \<Rightarrow> BtcHeaderModel list pg_txm" where
  "btc_RetrieveHeaderCIDs blockNumber =
     tx_select (\<lambda>db. Ok (filter (\<lambda>r. btc_header_number r = blockNumber) (btc_headers db)))"

text \<open>The conditions on a transaction and, through the join, on one of its outputs.\<close>

definition btc_tx_where :: "BtcTxFilter \<Rightarrow> int list \<Rightarrow> BtcTxModel \<Rightarrow> bool" where
  "btc_tx_where txFilter indexes t \<longleftrightarrow>
     (btf_Segwit txFilter \<longrightarrow> btm_SegWit t)
   \<and> (length (btf_WitnessHashes txFilter) > 0 \<longrightarrow> btm_WitnessHash t \<in> set (varchar66s (btf_WitnessHashes txFilter)))
   \<and> (length (btf_Indexes txFilter) > 0 \<longrightarrow> btm_Index t \<in> set indexes)"

definition btc_output_where :: "BtcTxFilter \<Rightarrow> TxOutput \<Rightarrow> bool" where
  "btc_output_where txFilter out \<longleftrightarrow>
     (btf_MultiSig txFilter \<longrightarrow> to_RequiredSigs out > 1)
   \<and> (length (btf_Addresses txFilter) > 0 \<longrightarrow> overlaps (to_Addresses out) (varchar66s (btf_Addresses txFilter)))
   \<and> (length (btf_PkScriptClasses txFilter) > 0 \<longrightarrow> to_ScriptClass out \<in> set (btf_PkScriptClasses txFilter))"

text \<open>The join of transactions with their inputs and outputs: a row for every pair of them.\<close>

definition tx_ins :: "pg_db \<Rightarrow> BtcTxModel \<Rightarrow> TxInput list" where
  "tx_ins db t = filter (\<lambda>i. ti_TxID i = btm_ID t) (btc_inputs db)"

definition tx_outs :: "pg_db \<Rightarrow> BtcTxModel \<Rightarrow> TxOutput list" where
  "tx_outs db t = filter (\<lambda>out. to_TxID out = btm_ID t) (btc_outputs db)"

definition btc_txs_joined :: "pg_db \<Rightarrow> (BtcTxModel \<times> TxOutput) list" where
  "btc_txs_joined db = [(t, out). t \<leftarrow> btc_txs db, i \<leftarrow> tx_ins db t, out \<leftarrow> tx_outs db t]"

definition btc_has_header :: "pg_db \<Rightarrow> int \<Rightarrow> bool" where
  "btc_has_header db i = list_ex (\<lambda>h. bhm_ID h = i) (btc_headers db)"

definition btc_RetrieveTxCIDs :: "BtcTxFilter \<Rightarrow> int \<Rightarrow> BtcTxModel list pg_txm" where
  "btc_RetrieveTxCIDs txFilter headerID =
     tx_select (\<lambda>db. outcome_bind (pg_int4 headerID) (\<lambda>i.
       outcome_bind (if length (btf_Indexes txFilter) > 0 then int4s (btf_Indexes txFilter) else Ok []) (\<lambda>indexes.
       Ok (map fst (filter (\<lambda>(t, out). btm_HeaderID t = i \<and> btc_has_header db i \<and> btc_tx_where txFilter indexes t
         \<and> btc_output_where txFilter out) (btc_txs_joined db))))))"

definition zero_BtcHeaderModel :: BtcHeaderModel where
  "zero_BtcHeaderModel = \<lparr>bhm_ID = 0, bhm_BlockNumber = '''', bhm_BlockHash = '''', bhm_ParentHash = '''', bhm_CID = '''',
     bhm_MhKey = '''', bhm_Timestamp = 0, bhm_Bits = 0, bhm_NodeID = 0, bhm_TimesValidated = 0\<rparr>"

text \<open>The body of the loop over the headers, with the flag \<open>empty\<close>.\<close>

definition btc_retrieveHeader ::
    "BtcSubscriptionSettings \<Rightarrow> int \<Rightarrow> BtcHeaderModel \<Rightarrow> bool \<Rightarrow> (BtcCIDWrapper \<times> bool) pg_txm" where
  "btc_retrieveHeader f blockNumber header isEmpty =
     tx_bind (if \<not> btf_Off (bss_TxFilter f) then btc_RetrieveTxCIDs (bss_TxFilter f) (bhm_ID header) else tx_return []) (\<lambda>txs.
     tx_return (\<lparr>bcw_BlockNumber = Some blockNumber,
         bcw_Header = (if \<not> bhf_Off (bss_HeaderFilter f) then header else zero_BtcHeaderModel), bcw_Transactions = txs\<rparr>,
       isEmpty \<and> bhf_Off (bss_HeaderFilter f) \<and> length txs = 0))"

definition btc_retrieve_body :: "BtcSubscriptionSettings \<Rightarrow> int \<Rightarrow> (BtcCIDWrapper list \<times> bool) pg_txm" where
  "btc_retrieve_body streamFilter blockNumber =
     tx_bind (btc_RetrieveHeaderCIDs blockNumber) (\<lambda>headers.
       tx_fold (\<lambda>_ header (cws, isEmpty).
         tx_bind (btc_retrieveHeader streamFilter blockNumber header isEmpty) (\<lambda>(cw, isEmpty). tx_return (cws @ [cw], isEmpty)))
         0 headers ([], True))"

definition btc_Retrieve ::
    "bool list \<Rightarrow> pg_seq \<Rightarrow> pg_db \<Rightarrow> Settings \<Rightarrow> int \<Rightarrow> (BtcCIDWrapper list \<times> bool) outcome" where
  "btc_Retrieve faults sq db settings blockNumber =
     (case settings of
        BtcSettings streamFilter \<Rightarrow> read_tx (btc_retrieve_body streamFilter blockNumber) faults sq db
      | _ \<Rightarrow> Err (Errorf ''btc retriever expected filter type %T got %T'' [''*btc.SubscriptionSettings'', Settings_T settings]))"

subsection \<open>Gaps\<close>

definition btc_low_heights :: "int \<Rightarrow> pg_db \<Rightarrow> int list" where
  "btc_low_heights level db = sort (map btc_header_number (filter (\<lambda>r. bhm_TimesValidated r < level) (btc_headers db)))"

definition btc_RetrieveGapsInData :: "int \<Rightarrow> pg_db \<Rightarrow> (bool list, Gap list) io" where
  "btc_RetrieveGapsInData validationLevel db faults =
     (case btc_RetrieveFirstBlockNumber db faults of
        (Err err, fs) \<Rightarrow> (Err (Wrapf ''btc CIDRetriever RetrieveFirstBlockNumber error: %v'' [] err), fs)
      | (Panic p, fs) \<Rightarrow> (Panic p, fs)
      | (Ok startingBlock, fs) \<Rightarrow>
          io_bind (db_query (\<lambda>db. outcome_map scan_gap (gap_rows (btc_block_numbers db))) db) (\<lambda>emptyGaps.
          io_bind (db_query (\<lambda>db. outcome_bind (pg_int4 validationLevel) (\<lambda>level.
              outcome_map scan_uint64 (btc_low_heights level db))) db) (\<lambda>heights.
          io_return (initialGap startingBlock @ emptyGaps @ MissingHeightsToGaps heights))) fs)"

subsection \<open>The rows of one block\<close>

definition btc_RetrieveHeaderCIDByHash :: "Hash \<Rightarrow> BtcHeaderModel pg_txm" where
  "btc_RetrieveHeaderCIDByHash blockHash =
     tx_bind (tx_select (\<lambda>db. Ok (find (\<lambda>r. bhm_BlockHash r = Hash_Hex blockHash) (btc_headers db)))) (\<lambda>r.
       tx_lift (case r of None \<Rightarrow> Err ErrNoRows | Some header \<Rightarrow> Ok header))"

definition btc_RetrieveTxCIDsByHeaderID :: "int \<Rightarrow> BtcTxModel list pg_txm" where
  "btc_RetrieveTxCIDsByHeaderID headerID =
     tx_select (\<lambda>db. outcome_bind (pg_int4 headerID) (\<lambda>i. Ok (filter (\<lambda>r. btm_HeaderID r = i) (btc_txs db))))"

definition btc_block_rows :: "BtcHeaderModel \<Rightarrow> (BtcHeaderModel \<times> BtcTxModel list) pg_txm" where
  "btc_block_rows headerCID =
     tx_bind (btc_RetrieveTxCIDsByHeaderID (bhm_ID headerCID)) (\<lambda>txCIDs. tx_return (headerCID, txCIDs))"

definition btc_RetrieveBlockByHash ::
    "bool list \<Rightarrow> pg_seq \<Rightarrow> pg_db \<Rightarrow> Hash \<Rightarrow> (BtcHeaderModel \<times> BtcTxModel list) outcome" where
  "btc_RetrieveBlockByHash faults sq db blockHash =
     read_tx (tx_bind (btc_RetrieveHeaderCIDByHash blockHash) btc_block_rows) faults sq db"

definition btc_RetrieveBlockByNumber ::
    "bool list \<Rightarrow> pg_seq \<Rightarrow> pg_db \<Rightarrow> int \<Rightarrow> (BtcHeaderModel \<times> BtcTxModel list) outcome" where
  "btc_RetrieveBlockByNumber faults sq db blockNumber =
     read_tx (tx_bind (btc_RetrieveHeaderCIDs blockNumber) (\<lambda>headerCID.
       case headerCID of
         [] \<Rightarrow> tx_lift (Err (Errorf ''header cid retrieval error, no header CIDs found at block %d'' [big_String blockNumber]))
       | header # _ \<Rightarrow> btc_block_rows header)) faults sq db"

subsection \<open>Lemmas: gaps\<close>

interpretation btc_gaps: gap_finder btc_block_numbers btc_low_heights btc_RetrieveGapsInData
proof
  fix level db fs gaps fs'
  assume run: "btc_RetrieveGapsInData level db fs = (Ok gaps, fs')"
  then obtain s fs1 where s: "btc_RetrieveFirstBlockNumber db fs = (Ok s, fs1)"
    by (auto simp: btc_RetrieveGapsInData_def split: prod.splits outcome.splits)
  then have "s \<in> set (btc_block_numbers db) \<and> (\<forall>n\<in>set (btc_block_numbers db). s \<le> n)"
    using sort_first [of "btc_block_numbers db" s]
    by (auto simp: btc_RetrieveFirstBlockNumber_def db_query_Ok split: list.splits)
  with run s show "\<exists>s emptyGaps heights. s \<in> set (btc_block_numbers db) \<and> (\<forall>n\<in>set (btc_block_numbers db). s \<le> n)
    \<and> outcome_map scan_gap (gap_rows (btc_block_numbers db)) = Ok emptyGaps
    \<and> outcome_map scan_uint64 (btc_low_heights level db) = Ok heights
    \<and> gaps = initialGap s @ emptyGaps @ MissingHeightsToGaps heights"
    by (auto simp: btc_RetrieveGapsInData_def io_return_def db_query_Ok elim!: io_bind_Ok)
qed (auto simp: btc_low_heights_def btc_block_numbers_def)

lemma btc_low_heights_iff:
  "k \<in> set (btc_low_heights level db) \<longleftrightarrow> (\<exists>r\<in>set (btc_headers db). btc_header_number r = k \<and> bhm_TimesValidated r < level)"
  by (auto simp: btc_low_heights_def)

text \<open>
  The gaps of the Bitcoin data are complete and exact in the same sense as those of Ethereum: the
  heights up to the last block without a header, and the heights validated less often than the
  level, unless there is exactly one such header.
\<close>

theorem btc_RetrieveGapsInData_complete:
  assumes "\<forall>m\<in>set (btc_block_numbers db). 0 \<le> m \<and> m < 2 ^ 63" "btc_RetrieveGapsInData level db faults = (Ok gaps, fs)"
  shows "n \<in> gaps_union gaps \<longleftrightarrow>
      (uint n \<notin> set (btc_block_numbers db) \<and> (\<exists>m\<in>set (btc_block_numbers db). uint n < m))
    \<or> (length (btc_low_heights level db) \<noteq> 1
        \<and> (\<exists>r\<in>set (btc_headers db). btc_header_number r = uint n \<and> bhm_TimesValidated r < level))"
  unfolding btc_low_heights_iff [symmetric] by (rule btc_gaps.gaps_exact [OF assms])

definition btc_gaps_db :: pg_db where
  "btc_gaps_db = empty_db\<lparr>btc_headers := [
     zero_BtcHeaderModel\<lparr>bhm_ID := 1, bhm_BlockNumber := big_String 2, bhm_TimesValidated := 1\<rparr>,
     zero_BtcHeaderModel\<lparr>bhm_ID := 2, bhm_BlockNumber := big_String 4, bhm_TimesValidated := 0\<rparr>]\<rparr>"

theorem btc_RetrieveGapsInData_complete_witness:
  "\<exists>gaps. btc_RetrieveGapsInData 1 btc_gaps_db [] = (Ok gaps, []) \<and> 3 \<in> gaps_union gaps \<and> 4 \<notin> gaps_union gaps"
proof -
  have "{x. (x = 2 \<or> x = 4) \<and> 2 < x} = {4 :: int}" by auto
  then have run: "btc_RetrieveGapsInData 1 btc_gaps_db [] = (Ok [\<lparr>gap_Start = 0, gap_Stop = 1\<rparr>, \<lparr>gap_Start = 3, gap_Stop = 3\<rparr>], [])"
    by (simp add: btc_RetrieveGapsInData_def btc_RetrieveFirstBlockNumber_def db_query_def next_fault_def btc_gaps_db_def empty_db_def
      btc_block_numbers_def btc_header_number_def zero_BtcHeaderModel_def io_bind_def io_return_def gap_rows_def scan_gap_def
      scan_uint64_def initialGap_def btc_low_heights_def pg_int4_def)
  have "\<forall>m\<in>set (btc_block_numbers btc_gaps_db). 0 \<le> m \<and> m < 2 ^ 63"
    by (simp add: btc_gaps_db_def btc_block_numbers_def btc_header_number_def zero_BtcHeaderModel_def)
  note eq = btc_RetrieveGapsInData_complete [OF this run]
  have "3 \<in> gaps_union [\<lparr>gap_Start = 0, gap_Stop = 1\<rparr>, \<lparr>gap_Start = 3, gap_Stop = 3\<rparr>]
    \<and> 4 \<notin> gaps_union [\<lparr>gap_Start = 0, gap_Stop = 1\<rparr>, \<lparr>gap_Start = 3, gap_Stop = 3\<rparr>]"
    unfolding eq
    by (simp add: btc_gaps_db_def btc_block_numbers_def btc_header_number_def zero_BtcHeaderModel_def btc_low_heights_def)
  with run show ?thesis by blast
qed

subsection \<open>Lemmas: the rows a subscription gets\<close>

lemma count_joined:
  "count_list (map fst (filter P [(t, out). t \<leftarrow> ts, i \<leftarrow> ins t, out \<leftarrow> outs t])) t
    = count_list ts t * (length (ins t) * length (filter (\<lambda>out. P (t, out)) (outs t)))"
proof -
  have one: "count_list (map fst (filter P (map (Pair t') xs))) t = (if t' = t then length (filter (\<lambda>out. P (t, out)) xs) else 0)"
    for t' xs by (induction xs) auto
  have many: "count_list (map fst (filter P (concat (map (\<lambda>i. map (Pair t') (outs t')) is)))) t
      = (if t' = t then length is * length (filter (\<lambda>out. P (t, out)) (outs t)) else 0)" for t' "is"
    by (induction "is") (auto simp: one)
  show ?thesis by (induction ts) (auto simp: many algebra_simps)
qed

text \<open>How often the query returns a transaction: once for each input and each output that passes the filter.\<close>

definition btc_tx_times :: "BtcTxFilter \<Rightarrow> pg_db \<Rightarrow> BtcHeaderModel \<Rightarrow> BtcTxModel \<Rightarrow> nat" where
  "btc_tx_times f db h t =
     (if btm_HeaderID t = bhm_ID h \<and> btc_tx_where f (btf_Indexes f) t
      then count_list (btc_txs db) t * (length (tx_ins db t) * length (filter (btc_output_where f) (tx_outs db t))) else 0)"

definition btc_wrapper_for :: "BtcSubscriptionSettings \<Rightarrow> int \<Rightarrow> pg_db \<Rightarrow> BtcHeaderModel \<Rightarrow> BtcCIDWrapper \<Rightarrow> bool" where
  "btc_wrapper_for f n db h cw \<longleftrightarrow>
     bcw_BlockNumber cw = Some n \<and> bcw_Header cw = (if bhf_Off (bss_HeaderFilter f) then zero_BtcHeaderModel else h)
   \<and> (\<forall>t. count_list (bcw_Transactions cw) t = (if btf_Off (bss_TxFilter f) then 0 else btc_tx_times (bss_TxFilter f) db h t))"

lemma int4s_same: "int4s ids = Ok ids' \<Longrightarrow> ids' = ids"
  unfolding int4s_def outcome_map_Ok_iff by (induction rule: list_all2_induct) auto

lemma btc_RetrieveTxCIDs_count:
  assumes "btc_RetrieveTxCIDs f (bhm_ID h) tx = (Ok ts, tx')" "h \<in> set (btc_headers (tx_db tx))"
  shows "count_list ts t = btc_tx_times f (tx_db tx) h t \<and> tx_db tx' = tx_db tx"
proof -
  let ?db = "tx_db tx"
  obtain ids where ids: "(if length (btf_Indexes f) > 0 then int4s (btf_Indexes f) else Ok []) = Ok ids"
    and ts: "ts = map fst (filter (\<lambda>(t, out). btm_HeaderID t = bhm_ID h \<and> btc_has_header ?db (bhm_ID h) \<and> btc_tx_where f ids t
         \<and> btc_output_where f out) (btc_txs_joined ?db))" and db: "tx_db tx' = ?db"
    using assms(1) unfolding btc_RetrieveTxCIDs_def by (elim tx_select_Ok) (auto simp: pg_int4_def split: if_splits)
  have "ids = btf_Indexes f" using ids int4s_same by (auto split: if_splits)
  moreover have "btc_has_header ?db (bhm_ID h)" using assms(2) by (auto simp: btc_has_header_def list_ex_iff)
  ultimately show ?thesis using db unfolding ts btc_txs_joined_def count_joined btc_tx_times_def by (auto simp: filter_empty_conv)
qed

lemma btc_retrieveHeader_Ok:
  assumes "btc_retrieveHeader f n h e tx = (Ok (cw, e'), tx')" "h \<in> set (btc_headers (tx_db tx))"
  shows "btc_wrapper_for f n (tx_db tx) h cw \<and> tx_db tx' = tx_db tx
    \<and> (e' \<longleftrightarrow> e \<and> bhf_Off (bss_HeaderFilter f) \<and> bcw_Transactions cw = [])"
proof -
  from assms(1) obtain ts where
    ts: "(if \<not> btf_Off (bss_TxFilter f) then btc_RetrieveTxCIDs (bss_TxFilter f) (bhm_ID h) else tx_return []) tx = (Ok ts, tx')"
    and cw: "cw = \<lparr>bcw_BlockNumber = Some n,
         bcw_Header = (if \<not> bhf_Off (bss_HeaderFilter f) then h else zero_BtcHeaderModel), bcw_Transactions = ts\<rparr>"
      "e' \<longleftrightarrow> e \<and> bhf_Off (bss_HeaderFilter f) \<and> length ts = 0"
    unfolding btc_retrieveHeader_def by (elim tx_bind_Ok) (auto simp: tx_return_Ok)
  show ?thesis
  proof (cases "btf_Off (bss_TxFilter f)")
    case True
    with ts cw show ?thesis by (simp add: tx_return_Ok btc_wrapper_for_def)
  next
    case False
    with btc_RetrieveTxCIDs_count [of "bss_TxFilter f" h tx ts tx'] ts assms(2) cw show ?thesis by (simp add: btc_wrapper_for_def)
  qed
qed

lemma btc_retrieve_rows:
  assumes "btc_Retrieve faults sq db (BtcSettings f) n = Ok (cws, nothing)"
  shows "list_all2 (btc_wrapper_for f n db) (filter (\<lambda>r. btc_header_number r = n) (btc_headers db)) cws
    \<and> (nothing \<longleftrightarrow> (\<forall>cw\<in>set cws. bhf_Off (bss_HeaderFilter f) \<and> bcw_Transactions cw = []))"
proof -
  obtain tx where run: "btc_retrieve_body f n (begin_tx faults sq db) = (Ok (cws, nothing), tx)"
    using assms by (auto simp: btc_Retrieve_def elim: read_tx_Ok)
  have b: "tx_db (begin_tx faults sq db) = db" by (simp add: begin_tx_def)
  let ?hs = "filter (\<lambda>r. btc_header_number r = n) (btc_headers db)"
  from run obtain tx1 where db: "tx_db tx1 = db"
    and fold: "tx_fold (\<lambda>_ header (cws, isEmpty). tx_bind (btc_retrieveHeader f n header isEmpty)
      (\<lambda>(cw, isEmpty). tx_return (cws @ [cw], isEmpty))) 0 ?hs ([], True) tx1 = (Ok (cws, nothing), tx)"
    unfolding btc_retrieve_body_def btc_RetrieveHeaderCIDs_def by (auto simp: b elim!: tx_bind_Ok tx_select_Ok)
  show ?thesis
  proof (rule wrappers_fold [OF fold db])
    fix h e cw e' t t'
    assume "h \<in> set ?hs" "tx_db t = db" "btc_retrieveHeader f n h e t = (Ok (cw, e'), t')"
    with btc_retrieveHeader_Ok [of f n h e t cw e' t']
    show "btc_wrapper_for f n db h cw \<and> tx_db t' = db \<and> (e' \<longleftrightarrow> e \<and> bhf_Off (bss_HeaderFilter f) \<and> bcw_Transactions cw = [])"
      by auto
  qed
qed

text \<open>
  What the Bitcoin retriever returns. When \<open>Retrieve\<close> succeeds there is one wrapper for each header at the
  height; it holds a transaction of the header that passes the filters as often as there are pairs
  of an input of it and an output of it that passes the filters on outputs, hence not at all if it has no
  input or no such output; and it reports that nothing was found exactly when no header is wanted and no
  transaction was found.
\<close>

theorem btc_Retrieve_multiplicity:
  assumes "btc_Retrieve faults sq db (BtcSettings f) n = Ok (cws, nothing)"
  shows "list_all2 (btc_wrapper_for f n db) (filter (\<lambda>r. btc_header_number r = n) (btc_headers db)) cws
    \<and> (nothing \<longleftrightarrow> (\<forall>cw\<in>set cws. bhf_Off (bss_HeaderFilter f) \<and> bcw_Transactions cw = []))"
  using assms by (rule btc_retrieve_rows)

definition btc_open_settings :: BtcSubscriptionSettings where
  "btc_open_settings = \<lparr>bss_BackFill = True, bss_BackFillOnly = False, bss_Start = Some 0, bss_End = Some 0,
     bss_HeaderFilter = \<lparr>bhf_Off = False\<rparr>, bss_TxFilter = \<lparr>btf_Off = False, btf_Segwit = False, btf_WitnessHashes = [],
       btf_Indexes = [], btf_PkScriptClasses = [], btf_MultiSig = False, btf_Addresses = []\<rparr>\<rparr>"

definition two_out_tx :: BtcTxModel where
  "two_out_tx = \<lparr>btm_ID = 1, btm_HeaderID = 1, btm_Index = 0, btm_TxHash = ''t'', btm_CID = ''t'', btm_MhKey = ''t'',
     btm_SegWit = False, btm_WitnessHash = ''''\<rparr>"

definition two_out_db :: pg_db where
  "two_out_db = empty_db\<lparr>
     btc_headers := [zero_BtcHeaderModel\<lparr>bhm_ID := 1, bhm_BlockNumber := big_String 4\<rparr>], btc_txs := [two_out_tx],
     btc_inputs := [\<lparr>ti_ID = 1, ti_TxID = 1, ti_Index = 0, ti_TxWitness = [], ti_SignatureScript = [],
       ti_PreviousOutPointIndex = 0, ti_PreviousOutPointHash = ''''\<rparr>],
     btc_outputs := [\<lparr>to_ID = 1, to_TxID = 1, to_Index = 0, to_Value = 5, to_PkScript = [], to_ScriptClass = 0, to_RequiredSigs = 1,
         to_Addresses = []\<rparr>,
       \<lparr>to_ID = 2, to_TxID = 1, to_Index = 1, to_Value = 6, to_PkScript = [], to_ScriptClass = 0, to_RequiredSigs = 1,
         to_Addresses = []\<rparr>]\<rparr>"

theorem btc_Retrieve_multiplicity_witness:
  "\<exists>cw. btc_Retrieve [] empty_seq two_out_db (BtcSettings btc_open_settings) 4 = Ok ([cw], False)
    \<and> count_list (bcw_Transactions cw) two_out_tx = 2"
proof -
  have run: "\<exists>cw. btc_Retrieve [] empty_seq two_out_db (BtcSettings btc_open_settings) 4 = Ok ([cw], False)"
    by (simp add: btc_Retrieve_def read_tx_def run_tx_def next_fault_def begin_tx_def outer_err_def body_return_def
      btc_retrieve_body_def btc_RetrieveHeaderCIDs_def btc_retrieveHeader_def btc_RetrieveTxCIDs_def tx_bind_def tx_return_def
      tx_select_def sql_exec_def select_stmt_def btc_open_settings_def two_out_db_def two_out_tx_def empty_db_def
      btc_header_number_def zero_BtcHeaderModel_def pg_int4_def)
  then obtain cw where cw: "btc_Retrieve [] empty_seq two_out_db (BtcSettings btc_open_settings) 4 = Ok ([cw], False)" by blast
  then have "count_list (bcw_Transactions cw) two_out_tx = 2"
    using btc_Retrieve_multiplicity [OF cw]
    by (auto simp: btc_wrapper_for_def btc_tx_times_def two_out_db_def two_out_tx_def empty_db_def btc_open_settings_def
      btc_header_number_def zero_BtcHeaderModel_def btc_tx_where_def btc_output_where_def tx_ins_def tx_outs_def list_all2_Cons2)
  with cw show ?thesis by blast
qed

end
