(* ===== verification/Btc_Fetcher.thy ===== *)
theory Btc_Fetcher
  imports Btc_Retriever Ipld_Fetch
begin

text \<open>
  Package \<open>btc\<close>, the fetchers \<open>ipld_pg_fetcher.go\<close> and \<open>ipld_fetcher.go\<close>. \<open>fetch\<close> and \<open>fetchBatch\<close> are the text of
  package \<open>eth\<close>.
\<close>

definition btc_wrong_wrapper :: "CIDsForFetching \<Rightarrow> go_error" where
  "btc_wrong_wrapper cids = Errorf ''btc fetcher: expected cids type %T got %T'' [''*btc.CIDWrapper'', Wrapper_T cids]"

subsection \<open>From the block store\<close>

definition btc_PG_FetchHeader :: "BtcHeaderModel \<Rightarrow> BlockModel pg_txm" where
  "btc_PG_FetchHeader c = fetch_row (bhm_MhKey c) (bhm_CID c)"

definition btc_PG_FetchTrxs :: "BtcTxModel list \<Rightarrow> BlockModel list pg_txm" where
  "btc_PG_FetchTrxs cids = tx_map (\<lambda>c. fetch_row (btm_MhKey c) (btm_CID c)) cids"

definition btc_pg_fetch_body :: "BtcCIDWrapper \<Rightarrow> BtcIPLDs pg_txm" where
  "btc_pg_fetch_body cw =
     tx_bind (tx_wrap ''btc pg fetcher: header fetching error: %s'' (btc_PG_FetchHeader (bcw_Header cw))) (\<lambda>header.
     tx_bind (tx_wrap ''btc pg fetcher: transaction fetching error: %s'' (btc_PG_FetchTrxs (bcw_Transactions cw))) (\<lambda>trxs.
     tx_return \<lparr>bip_BlockNumber = bcw_BlockNumber cw, bip_Header = header, bip_Transactions = trxs\<rparr>))"

definition btc_IPLDPGFetcher_Fetch :: "bool list \<Rightarrow> pg_seq \<Rightarrow> pg_db \<Rightarrow> CIDsForFetching \<Rightarrow> BtcIPLDs outcome" where
  "btc_IPLDPGFetcher_Fetch faults sq db cids =
     (case cids of BtcWrapper cw \<Rightarrow> read_tx (btc_pg_fetch_body cw) faults sq db | _ \<Rightarrow> Err (btc_wrong_wrapper cids))"

subsection \<open>From an IPFS block service\<close>

definition btc_FetchHeader :: "ipfs_lib \<Rightarrow> 'w block_service \<Rightarrow> BtcHeaderModel \<Rightarrow> ('w, BlockModel) io" where
  "btc_FetchHeader ipfs bs c = fetch_one ipfs bs (bhm_CID c)"

definition btc_FetchTrxs :: "ipfs_lib \<Rightarrow> 'w block_service \<Rightarrow> BtcTxModel list \<Rightarrow> ('w, BlockModel list) io" where
  "btc_FetchTrxs ipfs bs cids = fetch_all ipfs bs (map btm_CID cids)"

definition btc_IPLDFetcher_Fetch :: "ipfs_lib \<Rightarrow> 'w block_service \<Rightarrow> CIDsForFetching \<Rightarrow> ('w, BtcIPLDs) io" where
  "btc_IPLDFetcher_Fetch ipfs bs cids =
     (case cids of
        BtcWrapper cw \<Rightarrow>
          io_bind (btc_FetchHeader ipfs bs (bcw_Header cw)) (\<lambda>header.
          io_bind (btc_FetchTrxs ipfs bs (bcw_Transactions cw)) (\<lambda>trxs.
          io_return \<lparr>bip_BlockNumber = bcw_BlockNumber cw, bip_Header = header, bip_Transactions = trxs\<rparr>))
      | _ \<Rightarrow> io_lift (Err (btc_wrong_wrapper cids)))"

subsection \<open>What a fetch returns\<close>

definition btc_iplds_for :: "pg_db \<Rightarrow> BtcCIDWrapper \<Rightarrow> BtcIPLDs \<Rightarrow> bool" where
  "btc_iplds_for db cw i \<longleftrightarrow> bip_BlockNumber i = bcw_BlockNumber cw
   \<and> block_for db (bhm_MhKey (bcw_Header cw)) (bhm_CID (bcw_Header cw)) (bip_Header i)
   \<and> list_all2 (\<lambda>r. block_for db (btm_MhKey r) (btm_CID r)) (bcw_Transactions cw) (bip_Transactions i)"

lemma btc_pg_Fetch_stored:
  assumes "stored db (bhm_MhKey (bcw_Header cw))" "\<forall>r\<in>set (bcw_Transactions cw). stored db (btm_MhKey r)"
  shows "\<exists>i. btc_IPLDPGFetcher_Fetch [] sq db (BtcWrapper cw) = Ok i \<and> btc_iplds_for db cw i"
proof -
  let ?t = "begin_tx [] sq db"
  obtain h where h: "btc_PG_FetchHeader (bcw_Header cw) ?t = (Ok h, ?t)"
    "block_for db (bhm_MhKey (bcw_Header cw)) (bhm_CID (bcw_Header cw)) h"
    unfolding btc_PG_FetchHeader_def using fetch_row_begin [OF assms(1)] by blast
  obtain ts where ts: "btc_PG_FetchTrxs (bcw_Transactions cw) ?t = (Ok ts, ?t)"
    "list_all2 (\<lambda>r. block_for db (btm_MhKey r) (btm_CID r)) (bcw_Transactions cw) ts"
    unfolding btc_PG_FetchTrxs_def using tx_map_rows [OF assms(2), of btm_CID sq] by blast
  let ?i = "\<lparr>bip_BlockNumber = bcw_BlockNumber cw, bip_Header = h, bip_Transactions = ts\<rparr>"
  have "btc_pg_fetch_body cw ?t = (Ok ?i, ?t)"
    by (simp add: btc_pg_fetch_body_def tx_bind_def tx_wrap_def tx_return_def h(1) ts(1))
  then have "btc_IPLDPGFetcher_Fetch [] sq db (BtcWrapper cw) = Ok ?i"
    by (simp add: btc_IPLDPGFetcher_Fetch_def read_begin)
  with h(2) ts(2) show ?thesis by (auto simp: btc_iplds_for_def)
qed

text \<open>A header row that was not asked for has no key, and the fetch fails on it.\<close>

lemma fetch_row_missing:
  assumes "\<not> stored db k"
  shows "\<exists>e t. fetch_row k c (begin_tx faults sq db) = (Err e, t)"
  using assms by (auto simp: fetch_row_def FetchIPLDByMhKey_def tx_bind_def tx_lift_def sql_exec_def begin_tx_def get_block_def
    stored_def split: option.splits)

lemma btc_pg_Fetch_no_header:
  assumes "\<not> stored db (bhm_MhKey (bcw_Header cw))"
  shows "\<exists>e. btc_IPLDPGFetcher_Fetch faults sq db (BtcWrapper cw) = Err e"
proof -
  obtain e t where "fetch_row (bhm_MhKey (bcw_Header cw)) (bhm_CID (bcw_Header cw)) (begin_tx faults sq db) = (Err e, t)"
    using fetch_row_missing [OF assms] by blast
  then show ?thesis
    by (simp add: btc_IPLDPGFetcher_Fetch_def read_tx_def run_tx_def outer_err_def btc_pg_fetch_body_def tx_bind_def tx_wrap_def
      btc_PG_FetchHeader_def)
qed

lemma count_list_pos: "count_list xs x > 0 \<longleftrightarrow> x \<in> set xs"
  by (induction xs) auto

lemma btc_wrapper_txs:
  assumes "btc_wrapper_for f n db h cw" "t \<in> set (bcw_Transactions cw)"
  shows "t \<in> set (btc_txs db)"
proof -
  have "count_list (bcw_Transactions cw) t > 0" using assms(2) by (simp add: count_list_pos)
  then have "count_list (btc_txs db) t > 0" using assms(1)
    by (auto simp: btc_wrapper_for_def btc_tx_times_def split: if_splits)
  then show ?thesis by (simp add: count_list_pos)
qed

text \<open>
  C21. From a subscription to Bitcoin blocks. On a database whose foreign keys hold, every wrapper that
  \<open>Retrieve\<close> returns for a subscription to headers, fetched in a transaction without faults, gives the block
  stored under the key of each row, in the wrapper's order. Without headers in the subscription every fetch
  fails, provided nothing is stored under the empty key.
\<close>

theorem btc_Retrieve_then_Fetch:
  assumes "btc_Retrieve faults sq db (BtcSettings f) n = Ok (cws, nothing)" "cw \<in> set cws" "deferred_fk db" "\<not> stored db ''''"
  shows "if bhf_Off (bss_HeaderFilter f) then \<exists>e. btc_IPLDPGFetcher_Fetch faults' sq' db (BtcWrapper cw) = Err e
    else \<exists>i. btc_IPLDPGFetcher_Fetch [] sq' db (BtcWrapper cw) = Ok i \<and> btc_iplds_for db cw i \<and> bip_BlockNumber i = Some n"
proof -
  have l2: "list_all2 (btc_wrapper_for f n db) (filter (\<lambda>r. btc_header_number r = n) (btc_headers db)) cws"
    using btc_retrieve_rows [OF assms(1)] by blast
  then obtain h where h: "h \<in> set (btc_headers db)" "btc_wrapper_for f n db h cw"
    using list_all2_member [OF l2 assms(2)] by auto
  show ?thesis
  proof (cases "bhf_Off (bss_HeaderFilter f)")
    case True
    then have "bhm_MhKey (bcw_Header cw) = ''''" using h(2) by (simp add: btc_wrapper_for_def zero_BtcHeaderModel_def)
    with True btc_pg_Fetch_no_header [of db cw faults' sq'] assms(4) show ?thesis by simp
  next
    case False
    then have "bcw_Header cw = h" "bcw_BlockNumber cw = Some n" using h(2) by (simp_all add: btc_wrapper_for_def)
    moreover have "\<forall>r\<in>set (bcw_Transactions cw). stored db (btm_MhKey r)"
      using btc_wrapper_txs [OF h(2)] assms(3) by (auto simp: deferred_fk_def blocks_fk_def list_all_iff)
    moreover have "stored db (bhm_MhKey h)" using h(1) assms(3) by (auto simp: deferred_fk_def blocks_fk_def list_all_iff)
    ultimately show ?thesis using btc_pg_Fetch_stored [of db cw sq'] False by (auto simp: btc_iplds_for_def)
  qed
qed

definition btc_fetch_db :: pg_db where
  "btc_fetch_db = empty_db\<lparr>db_blocks := [(''k'', [1, 2])], btc_headers := [zero_BtcHeaderModel\<lparr>bhm_ID := 1,
     bhm_BlockNumber := big_String 4, bhm_CID := ''c'', bhm_MhKey := ''k''\<rparr>]\<rparr>"

theorem btc_Retrieve_then_Fetch_witness:
  "\<exists>cw i. btc_Retrieve [] empty_seq btc_fetch_db (BtcSettings btc_open_settings) 4 = Ok ([cw], False)
    \<and> btc_IPLDPGFetcher_Fetch [] empty_seq btc_fetch_db (BtcWrapper cw) = Ok i \<and> bip_BlockNumber i = Some 4"
proof -
  have "\<exists>cw. btc_Retrieve [] empty_seq btc_fetch_db (BtcSettings btc_open_settings) 4 = Ok ([cw], False)"
    by (simp add: btc_Retrieve_def read_tx_def run_tx_def next_fault_def begin_tx_def outer_err_def body_return_def
      btc_retrieve_body_def btc_RetrieveHeaderCIDs_def btc_retrieveHeader_def btc_RetrieveTxCIDs_def tx_bind_def tx_return_def
      tx_select_def sql_exec_def select_stmt_def btc_open_settings_def btc_fetch_db_def empty_db_def
      btc_header_number_def zero_BtcHeaderModel_def pg_int4_def)
  then obtain cw where run: "btc_Retrieve [] empty_seq btc_fetch_db (BtcSettings btc_open_settings) 4 = Ok ([cw], False)" by blast
  have "deferred_fk btc_fetch_db" "\<not> stored btc_fetch_db ''''"
    by (simp_all add: btc_fetch_db_def empty_db_def deferred_fk_def blocks_fk_def rows_fk_def stored_def zero_BtcHeaderModel_def)
  with btc_Retrieve_then_Fetch [OF run, of cw] run show ?thesis by (auto simp: btc_open_settings_def)
qed

text \<open>Both fetchers give the same blocks for rows with different cids.\<close>

lemma btc_Fetchers_agree:
  assumes "serves ipfs db bs" "cid_row ipfs (bhm_CID (bcw_Header cw)) (bhm_MhKey (bcw_Header cw))"
    and "\<forall>r\<in>set (bcw_Transactions cw). cid_row ipfs (btm_CID r) (btm_MhKey r)" "distinct (map btm_CID (bcw_Transactions cw))"
    and "btc_iplds_for db cw i"
  shows "\<exists>j w'. btc_IPLDFetcher_Fetch ipfs bs (BtcWrapper cw) w = (Ok j, w')
    \<and> j = i\<lparr>bip_Transactions := bip_Transactions j\<rparr> \<and> mset (bip_Transactions j) = mset (bip_Transactions i)"
proof -
  note i = assms(5) [unfolded btc_iplds_for_def]
  obtain w1 where h: "btc_FetchHeader ipfs bs (bcw_Header cw) w = (Ok (bip_Header i), w1)"
    unfolding btc_FetchHeader_def using fetch_one_row [OF assms(1,2)] i by blast
  obtain ts w2 where ts: "btc_FetchTrxs ipfs bs (bcw_Transactions cw) w1 = (Ok ts, w2)" "mset ts = mset (bip_Transactions i)"
    unfolding btc_FetchTrxs_def using fetch_all_rows [OF assms(1,3,4)] i by blast
  have "btc_IPLDFetcher_Fetch ipfs bs (BtcWrapper cw) w = (Ok (i\<lparr>bip_Transactions := ts\<rparr>), w2)"
    using i by (simp add: btc_IPLDFetcher_Fetch_def io_bind_def io_return_def h ts(1))
  with ts(2) show ?thesis by auto
qed

end
