(* ===== verification/Builders.thy ===== *)
theory Builders
  imports Service_Config Backfill Watch_Sync Eth_Converter Eth_Dag_Publisher Eth_Cleaner Eth_Api Btc_Publisher Btc_Cleaner Btc_Fetcher
begin

text \<open>
  Package \<open>builders\<close> and the constructors of the three services: \<open>NewWatcher\<close>, \<open>NewBackFillService\<close> and
  \<open>NewResyncService\<close>. An interface value is a constructor of a datatype that names the implementation behind it;
  calling it runs that implementation's model. Opening an IPFS repository and making an RPC client are
  parameters.
\<close>

subsection \<open>The implementations behind the interfaces\<close>

datatype filterer = EthFilterer | BtcFilterer

datatype indexer = EthCIDIndexer "DB option" | BtcCIDIndexer "DB option" | EthPublisherAndIndexer_Indexer "DB option"

datatype retriever = EthCIDRetriever "DB option" | BtcCIDRetriever "DB option"

datatype streamer = EthPayloadStreamer string | BtcHTTPPayloadStreamer ConnConfig

datatype payload_fetcher = EthPayloadFetcher string int | BtcPayloadFetcher ConnConfig

datatype converter = EthPayloadConverter | BtcPayloadConverter

datatype ipld_fetcher = EthIPLDFetcher string | EthIPLDPGFetcher "DB option" | BtcIPLDFetcher string | BtcIPLDPGFetcher "DB option"

datatype publisher = EthIPLDPublisher string | EthIPLDPublisherAndIndexer "DB option"
  | BtcIPLDPublisher string | BtcIPLDPublisherAndIndexer "DB option"

datatype cleaner = EthCleaner "DB option" | BtcCleaner "DB option"

record builder_lib =
  open_ipfs :: "string \<Rightarrow> unit outcome"
  rpcclient_New :: "ConnConfig \<Rightarrow> unit outcome"

fun client_T :: "client \<Rightarrow> string" where
  "client_T (EthClient _) = ''*rpc.Client''"
| "client_T (BtcConn _) = ''*rpcclient.ConnConfig''"
| "client_T NilClient = ''<nil>''"

definition invalid_chain :: "ChainType \<Rightarrow> string \<Rightarrow> 'a outcome" where
  "invalid_chain chain what = Err (Errorf (''invalid chain %s for '' @ what @ '' constructor'') [ChainType_String chain])"

definition unexpected_mode :: "string \<Rightarrow> IPFSMode \<Rightarrow> 'a outcome" where
  "unexpected_mode what mode = Err (Errorf (what @ '' unexpected ipfs mode %s'') [IPFSMode_String mode])"

subsection \<open>The builders (builders/builders.go)\<close>

definition NewResponseFilterer :: "ChainType \<Rightarrow> filterer outcome" where
  "NewResponseFilterer chain =
     (case chain of Ethereum \<Rightarrow> Ok EthFilterer | Bitcoin \<Rightarrow> Ok BtcFilterer | _ \<Rightarrow> invalid_chain chain ''filterer'')"

definition NewCIDIndexer :: "ChainType \<Rightarrow> DB option \<Rightarrow> IPFSMode \<Rightarrow> indexer outcome" where
  "NewCIDIndexer chain db mode =
     (case chain of
        Ethereum \<Rightarrow>
          (case mode of
             LocalInterface \<Rightarrow> Ok (EthCIDIndexer db)
           | RemoteClient \<Rightarrow> Ok (EthCIDIndexer db)
           | DirectPostgres \<Rightarrow> Ok (EthPublisherAndIndexer_Indexer db)
           | _ \<Rightarrow> unexpected_mode ''ethereum CIDIndexer'' mode)
      | Bitcoin \<Rightarrow>
          (case mode of
             LocalInterface \<Rightarrow> Ok (BtcCIDIndexer db)
           | RemoteClient \<Rightarrow> Ok (BtcCIDIndexer db)
           | DirectPostgres \<Rightarrow> Ok (EthPublisherAndIndexer_Indexer db)
           | _ \<Rightarrow> unexpected_mode ''bitcoin CIDIndexer'' mode)
      | _ \<Rightarrow> invalid_chain chain ''indexer'')"

definition NewCIDRetriever :: "ChainType \<Rightarrow> DB option \<Rightarrow> retriever outcome" where
  "NewCIDRetriever chain db =
     (case chain of Ethereum \<Rightarrow> Ok (EthCIDRetriever db) | Bitcoin \<Rightarrow> Ok (BtcCIDRetriever db) | _ \<Rightarrow> invalid_chain chain ''retriever'')"

text \<open>The streamer and the capacity of its channel.\<close>

definition NewPayloadStreamer :: "ChainType \<Rightarrow> client \<Rightarrow> (streamer \<times> nat) outcome" where
  "NewPayloadStreamer chain cl =
     (case chain of
        Ethereum \<Rightarrow>
          (case cl of
             EthClient p \<Rightarrow> Ok (EthPayloadStreamer p, 20000)
           | _ \<Rightarrow> Err (Errorf ''ethereum payload streamer constructor expected client type %T got %T'' [''*rpc.Client'', client_T cl]))
      | Bitcoin \<Rightarrow>
          (case cl of
             BtcConn c \<Rightarrow> Ok (BtcHTTPPayloadStreamer c, 20000)
           | _ \<Rightarrow> Err (Errorf ''bitcoin payload streamer constructor expected client config type %T got %T'' [''rpcclient.ConnConfig'', client_T cl]))
      | _ \<Rightarrow> invalid_chain chain ''streamer'')"

definition NewPaylaodFetcher :: "builder_lib \<Rightarrow> ChainType \<Rightarrow> client \<Rightarrow> int \<Rightarrow> payload_fetcher outcome" where
  "NewPaylaodFetcher lib chain cl timeout =
     (case chain of
        Ethereum \<Rightarrow>
          (case cl of
             EthClient p \<Rightarrow> Ok (EthPayloadFetcher p timeout)
           | _ \<Rightarrow> Err (Errorf ''ethereum payload fetcher constructor expected client type %T got %T'' [''*rpc.Client'', client_T cl]))
      | Bitcoin \<Rightarrow>
          (case cl of
             BtcConn c \<Rightarrow> outcome_bind (rpcclient_New lib c) (\<lambda>_. Ok (BtcPayloadFetcher c))
           | _ \<Rightarrow> Err (Errorf ''bitcoin payload fetcher constructor expected client type %T got %T'' [''*rpcclient.Client'', client_T cl]))
      | _ \<Rightarrow> invalid_chain chain ''payload fetcher'')"

definition NewPayloadConverter :: "ChainType \<Rightarrow> converter outcome" where
  "NewPayloadConverter chain =
     (case chain of Ethereum \<Rightarrow> Ok EthPayloadConverter | Bitcoin \<Rightarrow> Ok BtcPayloadConverter | _ \<Rightarrow> invalid_chain chain ''converter'')"

definition NewIPLDFetcher :: "builder_lib \<Rightarrow> ChainType \<Rightarrow> string \<Rightarrow> DB option \<Rightarrow> IPFSMode \<Rightarrow> ipld_fetcher outcome" where
  "NewIPLDFetcher lib chain ipfsPath db mode =
     (case chain of
        Ethereum \<Rightarrow>
          (case mode of
             LocalInterface \<Rightarrow> outcome_bind (open_ipfs lib ipfsPath) (\<lambda>_. Ok (EthIPLDFetcher ipfsPath))
           | RemoteClient \<Rightarrow> outcome_bind (open_ipfs lib ipfsPath) (\<lambda>_. Ok (EthIPLDFetcher ipfsPath))
           | DirectPostgres \<Rightarrow> Ok (EthIPLDPGFetcher db)
           | _ \<Rightarrow> unexpected_mode ''ethereum IPLDFetcher'' mode)
      | Bitcoin \<Rightarrow>
          (case mode of
             LocalInterface \<Rightarrow> outcome_bind (open_ipfs lib ipfsPath) (\<lambda>_. Ok (BtcIPLDFetcher ipfsPath))
           | RemoteClient \<Rightarrow> outcome_bind (open_ipfs lib ipfsPath) (\<lambda>_. Ok (BtcIPLDFetcher ipfsPath))
           | DirectPostgres \<Rightarrow> Ok (BtcIPLDPGFetcher db)
           | _ \<Rightarrow> unexpected_mode ''bitcoin IPLDFetcher'' mode)
      | _ \<Rightarrow> invalid_chain chain ''IPLD fetcher'')"

definition NewIPLDPublisher :: "builder_lib \<Rightarrow> ChainType \<Rightarrow> string \<Rightarrow> DB option \<Rightarrow> IPFSMode \<Rightarrow> publisher outcome" where
  "NewIPLDPublisher lib chain ipfsPath db mode =
     (case chain of
        Ethereum \<Rightarrow>
          (case mode of
             LocalInterface \<Rightarrow> outcome_bind (open_ipfs lib ipfsPath) (\<lambda>_. Ok (EthIPLDPublisher ipfsPath))
           | RemoteClient \<Rightarrow> outcome_bind (open_ipfs lib ipfsPath) (\<lambda>_. Ok (EthIPLDPublisher ipfsPath))
           | DirectPostgres \<Rightarrow> Ok (EthIPLDPublisherAndIndexer db)
           | _ \<Rightarrow> unexpected_mode ''ethereum IPLDPublisher'' mode)
      | Bitcoin \<Rightarrow>
          (case mode of
             LocalInterface \<Rightarrow> outcome_bind (open_ipfs lib ipfsPath) (\<lambda>_. Ok (BtcIPLDPublisher ipfsPath))
           | RemoteClient \<Rightarrow> outcome_bind (open_ipfs lib ipfsPath) (\<lambda>_. Ok (BtcIPLDPublisher ipfsPath))
           | DirectPostgres \<Rightarrow> Ok (BtcIPLDPublisherAndIndexer db)
           | _ \<Rightarrow> unexpected_mode ''bitcoin IPLDPublisher'' mode)
      | _ \<Rightarrow> invalid_chain chain ''publisher'')"

definition NewCleaner :: "ChainType \<Rightarrow> DB option \<Rightarrow> cleaner outcome" where
  "NewCleaner chain db =
     (case chain of Ethereum \<Rightarrow> Ok (EthCleaner db) | Bitcoin \<Rightarrow> Ok (BtcCleaner db) | _ \<Rightarrow> invalid_chain chain ''cleaner'')"

text \<open>The JSON-RPC descriptors: name space and version.\<close>

definition NewPublicAPI :: "ChainType \<Rightarrow> (string \<times> string) outcome" where
  "NewPublicAPI chain = (case chain of Ethereum \<Rightarrow> Ok (''eth'', ''0.0.1'') | _ \<Rightarrow> invalid_chain chain ''public api'')"

subsection \<open>The watcher (watch/service.go)\<close>

text \<open>The \<open>Service\<close> that \<open>NewWatcher\<close> returns; \<open>None\<close> is a nil interface.\<close>

record watcher =
  wt_Streamer :: "streamer option"
  wt_PayloadChan :: "nat option"
  wt_Converter :: "converter option"
  wt_Publisher :: "publisher option"
  wt_Indexer :: "indexer option"
  wt_Filterer :: "filterer option"
  wt_Retriever :: "retriever option"
  wt_IPLDFetcher :: "ipld_fetcher option"
  wt_WorkerPoolSize :: int
  wt_NodeInfo :: Node
  wt_ipfsPath :: string
  wt_chain :: ChainType
  wt_db :: "DB option"

definition sync_parts :: "builder_lib \<Rightarrow> watch_config \<Rightarrow> watcher \<Rightarrow> watcher outcome" where
  "sync_parts lib settings sn =
     outcome_bind (NewPayloadStreamer (wc_Chain settings) (wc_WSClient settings)) (\<lambda>(streamer, payloadChan).
     outcome_bind (NewPayloadConverter (wc_Chain settings)) (\<lambda>converter.
     outcome_bind (NewIPLDPublisher lib (wc_Chain settings) (wc_IPFSPath settings) (wc_SyncDBConn settings) (wc_IPFSMode settings)) (\<lambda>publisher.
     outcome_bind (NewCIDIndexer (wc_Chain settings) (wc_SyncDBConn settings) (wc_IPFSMode settings)) (\<lambda>indexer.
     outcome_bind (NewResponseFilterer (wc_Chain settings)) (\<lambda>filterer.
     Ok (sn\<lparr>wt_Streamer := Some streamer, wt_PayloadChan := Some payloadChan, wt_Converter := Some converter, wt_Publisher := Some publisher,
       wt_Indexer := Some indexer, wt_Filterer := Some filterer\<rparr>))))))"

definition serve_parts :: "builder_lib \<Rightarrow> watch_config \<Rightarrow> watcher \<Rightarrow> watcher outcome" where
  "serve_parts lib settings sn =
     outcome_bind (NewCIDRetriever (wc_Chain settings) (wc_ServeDBConn settings)) (\<lambda>retriever.
     outcome_bind (NewIPLDFetcher lib (wc_Chain settings) (wc_IPFSPath settings) (wc_ServeDBConn settings) (wc_IPFSMode settings)) (\<lambda>fetcher.
     Ok (sn\<lparr>wt_Retriever := Some retriever, wt_IPLDFetcher := Some fetcher, wt_db := wc_ServeDBConn settings\<rparr>)))"

definition zero_watcher :: watcher where
  "zero_watcher = \<lparr>wt_Streamer = None, wt_PayloadChan = None, wt_Converter = None, wt_Publisher = None, wt_Indexer = None, wt_Filterer = None,
     wt_Retriever = None, wt_IPLDFetcher = None, wt_WorkerPoolSize = 0, wt_NodeInfo = zero_Node, wt_ipfsPath = [], wt_chain = UnknownChain, wt_db = None\<rparr>"

definition NewWatcher :: "builder_lib \<Rightarrow> watch_config \<Rightarrow> watcher outcome" where
  "NewWatcher lib settings =
     outcome_bind (if wc_Sync settings then sync_parts lib settings zero_watcher else Ok zero_watcher) (\<lambda>sn.
     outcome_bind (if wc_Serve settings then serve_parts lib settings sn else Ok sn) (\<lambda>sn.
     Ok (sn\<lparr>wt_WorkerPoolSize := wc_Workers settings, wt_NodeInfo := wc_NodeInfo settings, wt_ipfsPath := wc_IPFSPath settings,
       wt_chain := wc_Chain settings\<rparr>)))"

text \<open>The name spaces of \<open>APIs\<close>.\<close>

definition APIs :: "watcher \<Rightarrow> string list" where
  "APIs sap = [''vdb'', ''rpc'', ''net'', ''admin''] @ (case NewPublicAPI (wt_chain sap) of Ok (ns, _) \<Rightarrow> [ns] | _ \<Rightarrow> [])"

subsection \<open>Back-fill and resync (historical/service.go, resync/service.go)\<close>

record backfill_service =
  bf_Converter :: converter
  bf_Publisher :: publisher
  bf_Indexer :: indexer
  bf_Retriever :: retriever
  bf_Fetcher :: payload_fetcher
  bf_GapCheckFrequency :: int
  bf_BatchSize :: u64
  bf_BatchNumber :: int
  bf_chain :: ChainType
  bf_validationLevel :: int

definition NewBackFillService :: "builder_lib \<Rightarrow> historical_config \<Rightarrow> backfill_service outcome" where
  "NewBackFillService lib settings =
     outcome_bind (NewIPLDPublisher lib (hc_Chain settings) (hc_IPFSPath settings) (hc_DB settings) (hc_IPFSMode settings)) (\<lambda>publisher.
     outcome_bind (NewCIDIndexer (hc_Chain settings) (hc_DB settings) (hc_IPFSMode settings)) (\<lambda>indexer.
     outcome_bind (NewPayloadConverter (hc_Chain settings)) (\<lambda>converter.
     outcome_bind (NewCIDRetriever (hc_Chain settings) (hc_DB settings)) (\<lambda>retriever.
     outcome_bind (NewPaylaodFetcher lib (hc_Chain settings) (hc_HTTPClient settings) (hc_Timeout settings)) (\<lambda>fetcher.
     Ok \<lparr>bf_Converter = converter, bf_Publisher = publisher, bf_Indexer = indexer, bf_Retriever = retriever, bf_Fetcher = fetcher,
       bf_GapCheckFrequency = hc_Frequency settings, bf_BatchSize = effectiveBatchSize (hc_BatchSize settings),
       bf_BatchNumber = effectiveBatchNumber (hc_BatchNumber settings), bf_chain = hc_Chain settings,
       bf_validationLevel = hc_ValidationLevel settings\<rparr>)))))"

record resync_service =
  ry_Converter :: converter
  ry_Publisher :: publisher
  ry_Indexer :: indexer
  ry_Retriever :: retriever
  ry_Fetcher :: payload_fetcher
  ry_Cleaner :: cleaner
  ry_config :: resync_config

definition NewResyncService :: "builder_lib \<Rightarrow> resync_settings \<Rightarrow> resync_service outcome" where
  "NewResyncService lib settings =
     outcome_bind (NewIPLDPublisher lib (rs_Chain settings) (rs_IPFSPath settings) (rs_DB settings) (rs_IPFSMode settings)) (\<lambda>publisher.
     outcome_bind (NewCIDIndexer (rs_Chain settings) (rs_DB settings) (rs_IPFSMode settings)) (\<lambda>indexer.
     outcome_bind (NewPayloadConverter (rs_Chain settings)) (\<lambda>converter.
     outcome_bind (NewCIDRetriever (rs_Chain settings) (rs_DB settings)) (\<lambda>retriever.
     outcome_bind (NewPaylaodFetcher lib (rs_Chain settings) (rs_HTTPClient settings) (rs_Timeout settings)) (\<lambda>fetcher.
     outcome_bind (NewCleaner (rs_Chain settings) (rs_DB settings)) (\<lambda>cleaner.
     Ok \<lparr>ry_Converter = converter, ry_Publisher = publisher, ry_Indexer = indexer, ry_Retriever = retriever, ry_Fetcher = fetcher,
       ry_Cleaner = cleaner, ry_config = \<lparr>rc_BatchSize = effectiveBatchSize (rs_BatchSize settings),
         rc_BatchNumber = effectiveBatchNumber (rs_BatchNumber settings), rc_chain = rs_Chain settings, rc_data = rs_ResyncType settings,
         rc_ranges = rs_Ranges settings, rc_clearOldCache = rs_ClearOldCache settings, rc_resetValidation = rs_ResetValidation settings\<rparr>\<rparr>))))))"

subsection \<open>Calls through the interfaces\<close>

text \<open>
  The parameters of the implementations, and the world they act on: the database with its
  sequences, and the IPFS node. Every call that uses the database has a script of faults. A call on a nil
  connection panics at once; the code panics when it begins the transaction, with the database untouched as well.
\<close>

record 'w chain_libs =
  cl_geth :: geth_lib
  cl_iter :: "string list \<Rightarrow> string list"
  cl_btcd :: btcd_lib
  cl_ipfs :: ipfs_lib
  cl_trie :: trie_lib
  cl_rlp :: rlp_lib
  cl_add :: "'w adder"
  cl_blocks :: "'w block_service"

type_synonym 'w chain_world = "(pg_db \<times> pg_seq) \<times> 'w"

definition on_pg :: "(pg_seq \<Rightarrow> pg_db \<Rightarrow> 'a outcome \<times> pg_db \<times> pg_seq) \<Rightarrow> ('w chain_world, 'a) io" where
  "on_pg f cw = (case cw of ((db, sq), w) \<Rightarrow> (case f sq db of (r, db', sq') \<Rightarrow> (r, (db', sq'), w)))"

definition on_ipfs :: "('w, 'a) io \<Rightarrow> ('w chain_world, 'a) io" where
  "on_ipfs m cw = (case cw of (pg, w) \<Rightarrow> (case m w of (r, w') \<Rightarrow> (r, pg, w')))"

definition node_id :: "DB option \<Rightarrow> int outcome" where
  "node_id db = (case db of None \<Rightarrow> Panic nil_deref | Some d \<Rightarrow> Ok (db_NodeID d))"

fun call_Filter :: "'w chain_libs \<Rightarrow> filterer \<Rightarrow> Settings \<Rightarrow> Converted \<Rightarrow> Response outcome" where
  "call_Filter l EthFilterer = eth_Filter (cl_geth l) (cl_ipfs l)"
| "call_Filter l BtcFilterer = btc_Filter (cl_btcd l) (cl_ipfs l)"

fun call_Convert :: "'w chain_libs \<Rightarrow> converter \<Rightarrow> RawData \<Rightarrow> Converted outcome" where
  "call_Convert l EthPayloadConverter = eth_Convert (cl_geth l) (cl_iter l)"
| "call_Convert l BtcPayloadConverter = btc_Convert (cl_btcd l)"

fun call_Publish :: "'w chain_libs \<Rightarrow> bool list \<Rightarrow> publisher \<Rightarrow> Converted \<Rightarrow> ('w chain_world, CIDsForIndexing) io" where
  "call_Publish l faults (EthIPLDPublisher _) p = on_ipfs (IPLDPublisher_Publish (cl_geth l) (cl_ipfs l) (cl_trie l) (cl_rlp l) (cl_add l) p)"
| "call_Publish l faults (EthIPLDPublisherAndIndexer db) p =
     io_bind (io_lift (node_id db)) (\<lambda>nodeID. on_pg (PublisherAndIndexer_Publish (cl_geth l) (cl_ipfs l) (cl_trie l) nodeID faults p))"
| "call_Publish l faults (BtcIPLDPublisher _) p = on_ipfs (btc_Publish (cl_btcd l) (cl_ipfs l) (cl_add l) p)"
| "call_Publish l faults (BtcIPLDPublisherAndIndexer db) p =
     io_bind (io_lift (node_id db)) (\<lambda>nodeID. on_pg (btc_PublishAndIndex (cl_btcd l) (cl_ipfs l) nodeID faults p))"

fun call_Index :: "'w chain_libs \<Rightarrow> bool list \<Rightarrow> indexer \<Rightarrow> CIDsForIndexing \<Rightarrow> ('w chain_world, unit) io" where
  "call_Index l faults (EthCIDIndexer db) cids =
     io_bind (io_lift (node_id db)) (\<lambda>nodeID. on_pg (CIDIndexer_Index (cl_geth l) nodeID faults cids))"
| "call_Index l faults (BtcCIDIndexer db) cids =
     io_bind (io_lift (node_id db)) (\<lambda>nodeID. on_pg (btc_Index nodeID faults cids))"
| "call_Index l faults (EthPublisherAndIndexer_Indexer db) cids = on_pg (PublisherAndIndexer_Index cids)"

fun call_Retrieve :: "'w chain_libs \<Rightarrow> bool list \<Rightarrow> retriever \<Rightarrow> Settings \<Rightarrow> int \<Rightarrow> ('w chain_world, CIDsForFetching list \<times> bool) io" where
  "call_Retrieve l faults (EthCIDRetriever _) s n = on_pg (\<lambda>sq db.
     (outcome_bind (eth_Retrieve (cl_geth l) faults sq db s n) (\<lambda>(cws, e). Ok (map EthWrapper cws, e)), db, sq))"
| "call_Retrieve l faults (BtcCIDRetriever _) s n = on_pg (\<lambda>sq db.
     (outcome_bind (btc_Retrieve faults sq db s n) (\<lambda>(cws, e). Ok (map BtcWrapper cws, e)), db, sq))"

fun call_Fetch :: "'w chain_libs \<Rightarrow> bool list \<Rightarrow> ipld_fetcher \<Rightarrow> CIDsForFetching \<Rightarrow> ('w chain_world, Response) io" where
  "call_Fetch l faults (EthIPLDFetcher _) cids = io_bind (on_ipfs (IPLDFetcher_Fetch (cl_geth l) (cl_ipfs l) (cl_blocks l) cids)) (\<lambda>r. io_return (EthResponse r))"
| "call_Fetch l faults (BtcIPLDFetcher _) cids = io_bind (on_ipfs (btc_IPLDFetcher_Fetch (cl_ipfs l) (cl_blocks l) cids)) (\<lambda>r. io_return (BtcResponse r))"
| "call_Fetch l faults (EthIPLDPGFetcher _) cids = io_bind (on_pg (\<lambda>sq db. (IPLDPGFetcher_Fetch (cl_geth l) faults sq db cids, db, sq))) (\<lambda>r. io_return (EthResponse r))"
| "call_Fetch l faults (BtcIPLDPGFetcher _) cids = io_bind (on_pg (\<lambda>sq db. (btc_IPLDPGFetcher_Fetch faults sq db cids, db, sq))) (\<lambda>r. io_return (BtcResponse r))"

subsection \<open>Types\<close>

fun raw_chain :: "RawData \<Rightarrow> ChainType" where
  "raw_chain (EthRaw _) = Ethereum"
| "raw_chain (BtcRaw _) = Bitcoin"

fun converted_chain :: "Converted \<Rightarrow> ChainType" where
  "converted_chain (EthConverted _) = Ethereum"
| "converted_chain (BtcConverted _) = Bitcoin"
| "converted_chain NilConverted = UnknownChain"

fun response_chain :: "Response \<Rightarrow> ChainType" where
  "response_chain (EthResponse _) = Ethereum"
| "response_chain (BtcResponse _) = Bitcoin"

fun wrapper_chain :: "CIDsForFetching \<Rightarrow> ChainType" where
  "wrapper_chain (EthWrapper _) = Ethereum"
| "wrapper_chain (BtcWrapper _) = Bitcoin"

text \<open>The cids that an indexer takes: the wrong type is an error.\<close>

fun takes_cids :: "indexer \<Rightarrow> CIDsForIndexing \<Rightarrow> bool" where
  "takes_cids (EthCIDIndexer _) (EthCIDs _) = True"
| "takes_cids (BtcCIDIndexer _) (BtcCIDs _) = True"
| "takes_cids (EthPublisherAndIndexer_Indexer _) _ = True"
| "takes_cids _ _ = False"

text \<open>What a part built for a chain takes and returns.\<close>

lemma Filter_typed:
  assumes "NewResponseFilterer chain = Ok f" "call_Filter l f s d = Ok r"
  shows "Settings_ChainType s = chain \<and> converted_chain d = chain \<and> response_chain r = chain"
  using assms
  by (cases chain; cases s; cases d) (auto simp: NewResponseFilterer_def invalid_chain_def eth_Filter_def btc_Filter_def split: if_splits)

lemma Convert_typed:
  assumes "NewPayloadConverter chain = Ok c" "call_Convert l c raw = Ok d"
  shows "raw_chain raw = chain \<and> converted_chain d = chain"
  using assms
  by (cases chain; cases raw) (auto simp: NewPayloadConverter_def invalid_chain_def eth_Convert_def btc_Convert_def Let_def case_prod_beta)

lemma on_ipfs_Ok: "on_ipfs m cw = (Ok x, cw') \<Longrightarrow> \<exists>w w'. m w = (Ok x, w')"
  by (auto simp: on_ipfs_def split: prod.splits)

lemma on_pg_Ok: "on_pg f cw = (Ok x, cw') \<Longrightarrow> \<exists>sq db db' sq'. f sq db = (Ok x, db', sq')"
  by (auto simp: on_pg_def split: prod.splits)

lemma eth_Publish_typed:
  "IPLDPublisher_Publish geth ipfs tlib rlp add p w = (Ok cids, w') \<Longrightarrow> \<exists>x c. p = EthConverted x \<and> cids = EthCIDs c"
  by (cases p) (auto simp: IPLDPublisher_Publish_def io_return_def io_lift_def case_prod_beta elim!: io_bind_Ok)

lemma btc_Publish_typed:
  "btc_Publish btcd ipfs add p w = (Ok cids, w') \<Longrightarrow> \<exists>x c. p = BtcConverted x \<and> cids = BtcCIDs c"
  by (cases p) (auto simp: btc_Publish_def io_return_def io_lift_def case_prod_beta elim!: io_bind_Ok)

lemma pg_Publish_typed:
  "PublisherAndIndexer_Publish geth ipfs tlib n fs p sq db = (Ok cids, db', sq') \<Longrightarrow> converted_chain p = Ethereum"
  "btc_PublishAndIndex btcd ipfs n fs p sq db = (Ok cids, db', sq') \<Longrightarrow> converted_chain p = Bitcoin"
  by (cases p; simp add: PublisherAndIndexer_Publish_def btc_PublishAndIndex_def)+

lemma Publish_typed:
  assumes "NewIPLDPublisher lib chain path db mode = Ok pub" "NewCIDIndexer chain db' mode = Ok ix" "call_Publish l faults pub d cw = (Ok cids, cw')"
  shows "converted_chain d = chain \<and> takes_cids ix cids"
  using assms
  by (cases chain; cases mode)
     (auto simp: NewIPLDPublisher_def NewCIDIndexer_def invalid_chain_def unexpected_mode_def io_lift_def
       elim!: io_bind_Ok dest!: on_ipfs_Ok on_pg_Ok eth_Publish_typed btc_Publish_typed pg_Publish_typed)

lemma Retrieve_typed:
  assumes "NewCIDRetriever chain db = Ok rt" "call_Retrieve l faults rt s n cw = (Ok (cids, e), cw')"
  shows "Settings_ChainType s = chain \<and> (\<forall>c\<in>set cids. wrapper_chain c = chain)"
  using assms
  by (cases chain; cases s)
     (auto simp: NewCIDRetriever_def invalid_chain_def eth_Retrieve_def btc_Retrieve_def dest!: on_pg_Ok)

lemma Fetch_typed:
  assumes "NewIPLDFetcher lib chain path db mode = Ok ft" "call_Fetch l faults ft cids cw = (Ok r, cw')"
  shows "wrapper_chain cids = chain \<and> response_chain r = chain"
  using assms
  by (cases chain; cases mode; cases cids)
     (auto simp: NewIPLDFetcher_def invalid_chain_def unexpected_mode_def io_return_def io_lift_def IPLDFetcher_Fetch_def btc_IPLDFetcher_Fetch_def
       IPLDPGFetcher_Fetch_def btc_IPLDPGFetcher_Fetch_def elim!: io_bind_Ok dest!: on_ipfs_Ok on_pg_Ok)

text \<open>When a configuration that was read gives a watcher.\<close>

lemma sync_parts_ok:
  assumes "client_chain (wc_WSClient c) (wc_Chain c)" "wc_IPFSMode c \<in> {LocalInterface, DirectPostgres}"
  shows "is_Ok (sync_parts lib c sn) \<longleftrightarrow> wc_Chain c \<in> {Ethereum, Bitcoin} \<and> (wc_IPFSMode c = LocalInterface \<longrightarrow> is_Ok (open_ipfs lib (wc_IPFSPath c)))"
proof -
  have "\<exists>s. NewPayloadStreamer (wc_Chain c) (wc_WSClient c) = Ok s" if "wc_Chain c \<in> {Ethereum, Bitcoin}"
    using assms(1) that by (auto simp: client_chain_def NewPayloadStreamer_def)
  moreover have "\<not> is_Ok (NewPayloadStreamer (wc_Chain c) (wc_WSClient c))" if "wc_Chain c \<notin> {Ethereum, Bitcoin}"
    using that by (cases "wc_Chain c") (auto simp: NewPayloadStreamer_def invalid_chain_def)
  ultimately show ?thesis
    using assms(2) by (cases "wc_Chain c \<in> {Ethereum, Bitcoin}"; cases "open_ipfs lib (wc_IPFSPath c)")
      (auto simp: is_Ok_iff sync_parts_def NewPayloadConverter_def NewIPLDPublisher_def NewCIDIndexer_def NewResponseFilterer_def case_prod_beta)
qed

lemma serve_parts_ok:
  assumes "wc_IPFSMode c \<in> {LocalInterface, DirectPostgres}"
  shows "is_Ok (serve_parts lib c sn) \<longleftrightarrow> wc_Chain c \<in> {Ethereum, Bitcoin} \<and> (wc_IPFSMode c = LocalInterface \<longrightarrow> is_Ok (open_ipfs lib (wc_IPFSPath c)))"
proof -
  have "\<not> is_Ok (NewCIDRetriever (wc_Chain c) (wc_ServeDBConn c))" if "wc_Chain c \<notin> {Ethereum, Bitcoin}"
    using that by (cases "wc_Chain c") (auto simp: NewCIDRetriever_def invalid_chain_def)
  then show ?thesis
    using assms by (cases "wc_Chain c \<in> {Ethereum, Bitcoin}"; cases "open_ipfs lib (wc_IPFSPath c)")
      (auto simp: is_Ok_iff serve_parts_def NewCIDRetriever_def NewIPLDFetcher_def)
qed

lemma NewWatcher_builds:
  assumes "wf_watch_config c"
  shows "(\<exists>w. NewWatcher lib c = Ok w) \<longleftrightarrow> (wc_Sync c \<or> wc_Serve c \<longrightarrow>
    wc_Chain c \<in> {Ethereum, Bitcoin} \<and> (wc_IPFSMode c = LocalInterface \<longrightarrow> is_Ok (open_ipfs lib (wc_IPFSPath c))))"
proof -
  have mode: "wc_IPFSMode c \<in> {LocalInterface, DirectPostgres}" using assms by (simp add: wf_watch_config_def)
  have client: "wc_Sync c \<Longrightarrow> client_chain (wc_WSClient c) (wc_Chain c)" using assms by (simp add: wf_watch_config_def sync_ok_def)
  show ?thesis
    unfolding NewWatcher_def is_Ok_iff [symmetric]
    using sync_parts_ok [OF client mode, of lib zero_watcher] serve_parts_ok [OF mode, of lib]
    by (cases "wc_Sync c"; cases "wc_Serve c") (auto simp: is_Ok_iff)
qed

lemma NewWatcher_parts:
  assumes "NewWatcher lib c = Ok w"
  shows "wt_chain w = wc_Chain c \<and> (case wt_Converter w of None \<Rightarrow> True | Some v \<Rightarrow> NewPayloadConverter (wc_Chain c) = Ok v)
    \<and> (case wt_Publisher w of None \<Rightarrow> wt_Indexer w = None
       | Some p \<Rightarrow> NewIPLDPublisher lib (wc_Chain c) (wc_IPFSPath c) (wc_SyncDBConn c) (wc_IPFSMode c) = Ok p
           \<and> (\<exists>ix. wt_Indexer w = Some ix \<and> NewCIDIndexer (wc_Chain c) (wc_SyncDBConn c) (wc_IPFSMode c) = Ok ix))
    \<and> (case wt_Filterer w of None \<Rightarrow> True | Some f \<Rightarrow> NewResponseFilterer (wc_Chain c) = Ok f)
    \<and> (case wt_Retriever w of None \<Rightarrow> True | Some r \<Rightarrow> NewCIDRetriever (wc_Chain c) (wc_ServeDBConn c) = Ok r)
    \<and> (case wt_IPLDFetcher w of None \<Rightarrow> True
       | Some f \<Rightarrow> NewIPLDFetcher lib (wc_Chain c) (wc_IPFSPath c) (wc_ServeDBConn c) (wc_IPFSMode c) = Ok f)
    \<and> (wt_Filterer w \<noteq> None \<longleftrightarrow> wc_Sync c) \<and> (wt_Retriever w \<noteq> None \<longleftrightarrow> wc_Serve c)"
  using assms
  by (cases "wc_Sync c"; cases "wc_Serve c") (auto simp: NewWatcher_def sync_parts_def serve_parts_def zero_watcher_def)

text \<open>A watcher whose parts take only data of its chain and return data of its chain.\<close>

definition typed_watcher :: "'w chain_libs \<Rightarrow> watcher \<Rightarrow> bool" where
  "typed_watcher l w \<longleftrightarrow>
     (\<forall>v raw d. wt_Converter w = Some v \<longrightarrow> call_Convert l v raw = Ok d \<longrightarrow> raw_chain raw = wt_chain w \<and> converted_chain d = wt_chain w)
   \<and> (\<forall>p d cids faults cw cw'. wt_Publisher w = Some p \<longrightarrow> call_Publish l faults p d cw = (Ok cids, cw') \<longrightarrow>
       converted_chain d = wt_chain w \<and> (\<exists>ix. wt_Indexer w = Some ix \<and> takes_cids ix cids))
   \<and> (\<forall>f s d r. wt_Filterer w = Some f \<longrightarrow> call_Filter l f s d = Ok r \<longrightarrow>
       Settings_ChainType s = wt_chain w \<and> converted_chain d = wt_chain w \<and> response_chain r = wt_chain w)
   \<and> (\<forall>rt s n cids e faults cw cw'. wt_Retriever w = Some rt \<longrightarrow> call_Retrieve l faults rt s n cw = (Ok (cids, e), cw') \<longrightarrow>
       Settings_ChainType s = wt_chain w \<and> (\<forall>x\<in>set cids. wrapper_chain x = wt_chain w))
   \<and> (\<forall>ft x r faults cw cw'. wt_IPLDFetcher w = Some ft \<longrightarrow> call_Fetch l faults ft x cw = (Ok r, cw') \<longrightarrow>
       wrapper_chain x = wt_chain w \<and> response_chain r = wt_chain w)"

lemma NewWatcher_typed:
  assumes "NewWatcher lib c = Ok w"
  shows "typed_watcher l w"
  unfolding typed_watcher_def
proof (intro conjI allI impI)
  note parts = NewWatcher_parts [OF assms]
  have ch: "wt_chain w = wc_Chain c" using parts by blast
  {
    fix v raw d assume v: "wt_Converter w = Some v" and run: "call_Convert l v raw = Ok d"
    have "NewPayloadConverter (wc_Chain c) = Ok v" using parts v by simp
    from Convert_typed [OF this run] show "raw_chain raw = wt_chain w" "converted_chain d = wt_chain w" by (simp_all add: ch)
  next
    fix p d cids faults cw cw' assume p: "wt_Publisher w = Some p" and run: "call_Publish l faults p d cw = (Ok cids, cw')"
    obtain ix where ix: "NewIPLDPublisher lib (wc_Chain c) (wc_IPFSPath c) (wc_SyncDBConn c) (wc_IPFSMode c) = Ok p"
      "NewCIDIndexer (wc_Chain c) (wc_SyncDBConn c) (wc_IPFSMode c) = Ok ix" "wt_Indexer w = Some ix" using parts p by auto
    from Publish_typed [OF ix(1,2) run] ix(3)
    show "converted_chain d = wt_chain w" "\<exists>ix. wt_Indexer w = Some ix \<and> takes_cids ix cids" by (simp_all add: ch)
  next
    fix f s d r assume f: "wt_Filterer w = Some f" and run: "call_Filter l f s d = Ok r"
    have "NewResponseFilterer (wc_Chain c) = Ok f" using parts f by simp
    from Filter_typed [OF this run]
    show "Settings_ChainType s = wt_chain w" "converted_chain d = wt_chain w" "response_chain r = wt_chain w" by (simp_all add: ch)
  next
    fix rt s n cids e faults cw cw' assume rt: "wt_Retriever w = Some rt" and run: "call_Retrieve l faults rt s n cw = (Ok (cids, e), cw')"
    have "NewCIDRetriever (wc_Chain c) (wc_ServeDBConn c) = Ok rt" using parts rt by simp
    from Retrieve_typed [OF this run]
    show "Settings_ChainType s = wt_chain w" "\<forall>x\<in>set cids. wrapper_chain x = wt_chain w" by (simp_all add: ch)
  next
    fix ft x r faults cw cw' assume ft: "wt_IPLDFetcher w = Some ft" and run: "call_Fetch l faults ft x cw = (Ok r, cw')"
    have "NewIPLDFetcher lib (wc_Chain c) (wc_IPFSPath c) (wc_ServeDBConn c) (wc_IPFSMode c) = Ok ft" using parts ft by simp
    from Fetch_typed [OF this run] show "wrapper_chain x = wt_chain w" "response_chain r = wt_chain w" by (simp_all add: ch)
  }
qed


definition sample_builder :: builder_lib where
  "sample_builder = \<lparr>open_ipfs = (\<lambda>_. Ok ()), rpcclient_New = (\<lambda>_. Ok ())\<rparr>"

lemma sample_watch_config:
  obtains c st' where "watch_NewConfig (sample_config_lib sample_file) start_state = (Ok c, st')" "wc_Chain c = Bitcoin"
  using sample_config_run by (cases "watch_NewConfig (sample_config_lib sample_file) start_state") (auto split: outcome.splits)


text \<open>
  C37. A watcher that serves but does not sync has no filterer. When a payload reaches it, as the back-fill
  sends them, and the first subscription type is not past its last block, the server panics, whatever the payload is.
\<close>

theorem serving_without_sync_panics:
  assumes "NewWatcher lib c = Ok w" "\<not> wc_Sync c" "sv_Filterer sv = map_option (call_Filter l) (wt_Filterer w)"
    and "w_Subscriptions st = (ty, subs) # rest" "map_of (w_SubscriptionTypes st) ty = Some params" "EndingBlock params = Some n"
    and "int64_of n > 0 \<longrightarrow> (\<exists>h. Converted_Height payload = Ok h \<and> h \<le> int64_of n)"
  shows "filterAndServe sv payload st = Panic nil_deref"
proof -
  have "wt_Filterer w = None" using NewWatcher_parts [OF assms(1)] assms(2) by simp
  then show ?thesis
    using assms(3-) by (auto simp: filterAndServe_def serveType_def iface_def bigptr_Int64_def)
qed

definition sample_chain_libs :: "unit chain_libs" where
  "sample_chain_libs = \<lparr>cl_geth = sample_geth, cl_iter = (\<lambda>ks. ks), cl_btcd = sample_btcd, cl_ipfs = sample_ipfs, cl_trie = sample_trie,
     cl_rlp = sample_rlp, cl_add = (\<lambda>n w. (Ok (), w)), cl_blocks = Ipld_Fetch.sample_service sample_ipfs empty_db\<rparr>"

definition serve_only :: watch_config where
  "serve_only = \<lparr>wc_Chain = Ethereum, wc_IPFSPath = [], wc_IPFSMode = DirectPostgres,
     wc_DBConfig = \<lparr>d_Hostname = [], d_Name = [], d_User = [], d_Password = [], d_Port = 5432, d_MaxIdle = 0, d_MaxOpen = 0, d_MaxLifetime = 0\<rparr>,
     wc_Serve = True, wc_ServeDBConn = None, wc_WSEndpoint = ''127.0.0.1:8080'', wc_HTTPEndpoint = ''127.0.0.1:8081'', wc_IPCEndpoint = [],
     wc_Sync = False, wc_SyncDBConn = None, wc_Workers = 0, wc_WSClient = NilClient, wc_NodeInfo = zero_Node, wc_Historical = True\<rparr>"

definition serve_only_watcher :: watcher where
  "serve_only_watcher = zero_watcher\<lparr>wt_Retriever := Some (EthCIDRetriever None), wt_IPLDFetcher := Some (EthIPLDPGFetcher None), wt_chain := Ethereum\<rparr>"

theorem serving_without_sync_panics_witness:
  "NewWatcher sample_builder serve_only = Ok serve_only_watcher
    \<and> filterAndServe (Watch_Serve.sample_service\<lparr>sv_Filterer := map_option (call_Filter sample_chain_libs) (wt_Filterer serve_only_watcher)\<rparr>)
        (EthConverted (sample_payload 5)) sample_st1 = Panic nil_deref"
proof
  show w: "NewWatcher sample_builder serve_only = Ok serve_only_watcher"
    by (simp add: NewWatcher_def serve_parts_def serve_only_def serve_only_watcher_def zero_watcher_def NewCIDRetriever_def NewIPLDFetcher_def zero_Node_def)
  show "filterAndServe (Watch_Serve.sample_service\<lparr>sv_Filterer := map_option (call_Filter sample_chain_libs) (wt_Filterer serve_only_watcher)\<rparr>)
      (EthConverted (sample_payload 5)) sample_st1 = Panic nil_deref"
    by (rule serving_without_sync_panics [OF w, where params = "EthSettings (sample_settings 3 8)" and n = 8 and ty = "[1]" and subs = "[(''a'', sample_sub)]" and rest = "[]"])
       (simp_all add: serve_only_def sample_st1_def sample_defs ConvertedPayload_Height_def)
qed

text \<open>The settings of the resync service and of the back-fill make services whose parts fit together, too.\<close>

lemma NewBackFillService_typed:
  assumes "NewBackFillService lib c = Ok s" "call_Publish l faults (bf_Publisher s) d cw = (Ok cids, cw')"
  shows "converted_chain d = bf_chain s \<and> takes_cids (bf_Indexer s) cids"
proof -
  obtain p ix where "NewIPLDPublisher lib (hc_Chain c) (hc_IPFSPath c) (hc_DB c) (hc_IPFSMode c) = Ok p"
    "NewCIDIndexer (hc_Chain c) (hc_DB c) (hc_IPFSMode c) = Ok ix" "bf_Publisher s = p" "bf_Indexer s = ix" "bf_chain s = hc_Chain c"
    using assms(1) by (auto simp: NewBackFillService_def)
  then show ?thesis using Publish_typed [of lib "hc_Chain c"] assms(2) by metis
qed

lemma NewResyncService_typed:
  assumes "NewResyncService lib c = Ok s" "call_Publish l faults (ry_Publisher s) d cw = (Ok cids, cw')"
  shows "converted_chain d = rc_chain (ry_config s) \<and> takes_cids (ry_Indexer s) cids"
proof -
  obtain p ix where "NewIPLDPublisher lib (rs_Chain c) (rs_IPFSPath c) (rs_DB c) (rs_IPFSMode c) = Ok p"
    "NewCIDIndexer (rs_Chain c) (rs_DB c) (rs_IPFSMode c) = Ok ix" "ry_Publisher s = p" "ry_Indexer s = ix" "rc_chain (ry_config s) = rs_Chain c"
    using assms(1) by (auto simp: NewResyncService_def)
  then show ?thesis using Publish_typed [of lib "rs_Chain c"] assms(2) by metis
qed

end
