(* ===== verification/Payload_Source.thy ===== *)
theory Payload_Source
  imports Chain_Data Btc_Filterer
begin

text \<open>
  Where raw payloads come from: the streamers and the payload fetchers of both chains (\<open>streamer.go\<close>, \<open>payload_fetcher.go\<close>, and
  \<open>http_streamer.go\<close> of package \<open>btc\<close>). The RPC clients are parameters. The node is asked again and again by the polling
  streamer: what it answers at one tick is a \<open>btc_view\<close>, and a run of the streamer is a list of them.
\<close>

subsection \<open>Bitcoin: clients\<close>

text \<open>\<open>wire.MsgBlock\<close>\<close>

record MsgBlock =
  mb_Header :: BtcBlockHeader
  mb_Transactions :: "BtcMsgTx list"

text \<open>What the node answers at one time.\<close>

record btc_view =
  bv_GetBlockCount :: "int outcome"
  bv_GetBlockHash :: "int \<Rightarrow> Hash outcome"
  bv_GetBlock :: "Hash \<Rightarrow> MsgBlock outcome"

text \<open>\<open>btcutil.Tx\<close> wraps a message with its index in the block, which the program never reads.\<close>

definition msgTxsToUtilTxs :: "BtcMsgTx list \<Rightarrow> BtcMsgTx list" where
  "msgTxsToUtilTxs msgs = map (\<lambda>msg. msg) msgs"

definition block_payload :: "int \<Rightarrow> MsgBlock \<Rightarrow> BlockPayload" where
  "block_payload height block = \<lparr>bp_BlockHeight = height, bp_Header = mb_Header block, bp_Txs = msgTxsToUtilTxs (mb_Transactions block)\<rparr>"

subsection \<open>Bitcoin: polling (http\_streamer.go)\<close>

text \<open>The streamer's state, the payloads it has sent and the errors it has sent, in the order of sending.\<close>

record http_stream =
  hs_lastHash :: Hash
  hs_payloads :: "(Hash \<times> BlockPayload) list"
  hs_errors :: "go_error list"

definition send_error :: "go_error \<Rightarrow> http_stream \<Rightarrow> http_stream" where
  "send_error e st = st\<lparr>hs_errors := hs_errors st @ [e]\<rparr>"

fun stream_tick :: "btc_view \<Rightarrow> http_stream \<Rightarrow> http_stream outcome" where
  "stream_tick view st =
     (case bv_GetBlockCount view of
        Panic p \<Rightarrow> Panic p
      | Err e \<Rightarrow> Ok (send_error e st)
      | Ok height \<Rightarrow>
          (case bv_GetBlockHash view height of
             Panic p \<Rightarrow> Panic p
           | Err e \<Rightarrow> Ok (send_error e st)
           | Ok blockHash \<Rightarrow>
               if blockHash = hs_lastHash st then Ok st
               else (case bv_GetBlock view blockHash of
                       Panic p \<Rightarrow> Panic p
                     | Err e \<Rightarrow> Ok (send_error e st)
                     | Ok block \<Rightarrow> Ok (st\<lparr>hs_lastHash := blockHash,
                         hs_payloads := hs_payloads st @ [(blockHash, block_payload height block)]\<rparr>))))"

fun stream_run :: "btc_view list \<Rightarrow> http_stream \<Rightarrow> http_stream outcome" where
  "stream_run [] st = Ok st"
| "stream_run (v # vs) st = outcome_bind (stream_tick v st) (stream_run vs)"

definition new_stream :: http_stream where
  "new_stream = \<lparr>hs_lastHash = [], hs_payloads = [], hs_errors = []\<rparr>"

subsection \<open>Bitcoin: notifications (streamer.go)\<close>

definition OnFilteredBlockConnected :: "int \<Rightarrow> BtcBlockHeader \<Rightarrow> BtcMsgTx list \<Rightarrow> BlockPayload" where
  "OnFilteredBlockConnected height header txs = \<lparr>bp_BlockHeight = height, bp_Header = header, bp_Txs = txs\<rparr>"

text \<open>
  \<open>Stream\<close> waits for the shutdown of the client before it returns: the outcome of connecting and registering, and
  whether the client shuts down. \<open>None\<close> is a call that does not return.
\<close>

definition btc_Stream :: "unit outcome \<Rightarrow> unit outcome \<Rightarrow> bool \<Rightarrow> unit outcome option" where
  "btc_Stream connect notify shutdown =
     (case outcome_bind connect (\<lambda>_. notify) of Ok _ \<Rightarrow> if shutdown then Some (Ok ()) else None | r \<Rightarrow> Some r)"

subsection \<open>Bitcoin: fetching (payload\_fetcher.go)\<close>

definition fetch_block :: "btc_view \<Rightarrow> u64 \<Rightarrow> RawData outcome" where
  "fetch_block view height =
     (case bv_GetBlockHash view (int64_of (uint height)) of
        Panic p \<Rightarrow> Panic p
      | Err e \<Rightarrow> Err (Wrapf ''bitcoin PayloadFetcher GetBlockHash err at blockheight %d: %s'' [big_String (uint height)] e)
      | Ok hash \<Rightarrow>
          (case bv_GetBlock view hash of
             Panic p \<Rightarrow> Panic p
           | Err e \<Rightarrow> Err (Wrapf ''bitcoin PayloadFetcher GetBlock err at blockheight %d: %s'' [big_String (uint height)] e)
           | Ok block \<Rightarrow> Ok (BtcRaw (block_payload (int64_of (uint height)) block))))"

definition btc_FetchAt :: "btc_view \<Rightarrow> u64 list \<Rightarrow> RawData list outcome" where
  "btc_FetchAt view blockHeights = outcome_map (fetch_block view) blockHeights"

subsection \<open>Ethereum\<close>

text \<open>\<open>statediff.Params\<close>\<close>

record Params =
  pa_IncludeBlock :: bool
  pa_IncludeReceipts :: bool
  pa_IncludeTD :: bool
  pa_IntermediateStateNodes :: bool
  pa_IntermediateStorageNodes :: bool

definition fetcher_params :: Params where
  "fetcher_params = \<lparr>pa_IncludeBlock = True, pa_IncludeReceipts = True, pa_IncludeTD = True, pa_IntermediateStateNodes = True,
     pa_IntermediateStorageNodes = True\<rparr>"

definition streamer_params :: Params where
  "streamer_params = \<lparr>pa_IncludeBlock = True, pa_IncludeReceipts = True, pa_IncludeTD = True, pa_IntermediateStateNodes = True,
     pa_IntermediateStorageNodes = True\<rparr>"

text \<open>\<open>rpc.BatchElem\<close>: the method and arguments that are sent, the result and the error that the client fills in.\<close>

record BatchElem =
  be_Method :: string
  be_Height :: u64
  be_Params :: Params
  be_Result :: StateDiffPayload
  be_Error :: "go_error option"

definition zero_Payload :: StateDiffPayload where
  "zero_Payload = \<lparr>sd_BlockRlp = [], sd_TotalDifficulty = None, sd_ReceiptsRlp = [], sd_StateObjectRlp = []\<rparr>"

definition batch_of :: "u64 list \<Rightarrow> BatchElem list" where
  "batch_of blockHeights = map (\<lambda>height. \<lparr>be_Method = ''statediff_stateDiffAt'', be_Height = height, be_Params = fetcher_params,
     be_Result = zero_Payload, be_Error = None\<rparr>) blockHeights"

type_synonym batch_client = "BatchElem list \<Rightarrow> (BatchElem list) outcome"

definition eth_FetchAt :: "batch_client \<Rightarrow> u64 list \<Rightarrow> RawData list outcome" where
  "eth_FetchAt BatchCallContext blockHeights =
     (case BatchCallContext (batch_of blockHeights) of
        Panic p \<Rightarrow> Panic p
      | Err e \<Rightarrow>
          outcome_bind (slice_get blockHeights 0) (\<lambda>a. outcome_bind (slice_get blockHeights (length blockHeights - 1)) (\<lambda>b.
            Err (Wrapf ''ethereum PayloadFetcher batch err for block range %d-%d: %s'' [big_String (uint a), big_String (uint b)] e)))
      | Ok batch \<Rightarrow>
          outcome_map (\<lambda>el. case be_Error el of
              Some e \<Rightarrow> Err (Wrapf ''ethereum PayloadFetcher err at blockheight %d: %s'' [big_String (uint (be_Height el))] e)
            | None \<Rightarrow> Ok (EthRaw (be_Result el))) batch)"

text \<open>The goroutine of \<open>Stream\<close>: what was received from the node, in order, as raw data.\<close>

definition eth_forward :: "StateDiffPayload list \<Rightarrow> RawData list" where
  "eth_forward received = map EthRaw received"

subsection \<open>What the polling streamer sends\<close>

text \<open>The tip of a view whose three calls succeed, with its payload.\<close>

definition view_tip :: "btc_view \<Rightarrow> (Hash \<times> BlockPayload) option" where
  "view_tip view =
     (case bv_GetBlockCount view of
        Ok height \<Rightarrow> (case bv_GetBlockHash view height of
          Ok h \<Rightarrow> (case bv_GetBlock view h of Ok block \<Rightarrow> Some (h, block_payload height block) | _ \<Rightarrow> None) | _ \<Rightarrow> None)
      | _ \<Rightarrow> None)"

definition tips :: "btc_view list \<Rightarrow> Hash list" where
  "tips vs = map fst (List.map_filter view_tip vs)"

lemma tips_Nil [simp]: "tips [] = []" by (simp add: tips_def List.map_filter_def)

lemma tips_Cons: "tips (v # vs) = (case view_tip v of None \<Rightarrow> tips vs | Some (h, p) \<Rightarrow> h # tips vs)"
  by (simp add: tips_def List.map_filter_def split: option.splits prod.splits)

text \<open>A tick sends the tip if it is new, and otherwise leaves the last hash as it is.\<close>

lemma stream_tick_cases:
  assumes "stream_tick v st = Ok st1"
  obtains (new) h p where "view_tip v = Some (h, p)" "h \<noteq> hs_lastHash st" "hs_lastHash st1 = h" "hs_payloads st1 = hs_payloads st @ [(h, p)]"
  | (old) "hs_lastHash st1 = hs_lastHash st" "hs_payloads st1 = hs_payloads st" "view_tip v = None \<or> (\<exists>p. view_tip v = Some (hs_lastHash st, p))"
  using assms
  by (cases "bv_GetBlockCount v"; cases "bv_GetBlockHash v (case bv_GetBlockCount v of Ok n \<Rightarrow> n)";
      cases "bv_GetBlock v (case bv_GetBlockHash v (case bv_GetBlockCount v of Ok n \<Rightarrow> n) of Ok h \<Rightarrow> h)")
     (auto simp: view_tip_def send_error_def split: if_splits)

lemma stream_run_sends:
  assumes "stream_run vs st = Ok st'"
  shows "\<exists>sent. hs_payloads st' = hs_payloads st @ sent \<and> remdups_adj (hs_lastHash st # tips vs) = hs_lastHash st # map fst sent
    \<and> (\<forall>x\<in>set sent. \<exists>v\<in>set vs. view_tip v = Some x)"
  using assms
proof (induction vs arbitrary: st)
  case (Cons v vs)
  obtain st1 where tick: "stream_tick v st = Ok st1" and run: "stream_run vs st1 = Ok st'" using Cons.prems by (auto simp del: stream_tick.simps)
  obtain sent where sent: "hs_payloads st' = hs_payloads st1 @ sent" "remdups_adj (hs_lastHash st1 # tips vs) = hs_lastHash st1 # map fst sent"
    "\<forall>x\<in>set sent. \<exists>v\<in>set vs. view_tip v = Some x" using Cons.IH [OF run] by blast
  from tick show ?case
  proof (cases rule: stream_tick_cases)
    case (new h p)
    then show ?thesis using sent by (intro exI [of _ "(h, p) # sent"]) (auto simp: tips_Cons)
  next
    case old
    then show ?thesis using sent by (intro exI [of _ sent]) (auto simp: tips_Cons)
  qed
qed simp

text \<open>
  What the polling streamer sends for a sequence of answers of the node: the tips it was shown, each one once as long as it
  stays the tip, in order, with the block the node gave for it; the last block it sends is the last tip it could read. Blocks that are
  neither the tip at a tick nor fetched are not sent, which is what the back-fill is for.
\<close>

theorem http_stream_sends_tips:
  assumes "stream_run vs new_stream = Ok st" "[] \<notin> set (tips vs)"
  shows "map fst (hs_payloads st) = remdups_adj (tips vs) \<and> (\<forall>x\<in>set (hs_payloads st). \<exists>v\<in>set vs. view_tip v = Some x)
    \<and> (tips vs \<noteq> [] \<longrightarrow> fst (last (hs_payloads st)) = last (tips vs))"
proof -
  obtain sent where sent: "hs_payloads st = sent" "remdups_adj ([] # tips vs) = [] # map fst sent" "\<forall>x\<in>set sent. \<exists>v\<in>set vs. view_tip v = Some x"
    using stream_run_sends [OF assms(1)] by (auto simp: new_stream_def)
  have "remdups_adj ([] # tips vs) = [] # remdups_adj (tips vs)"
    using assms(2) by (cases "tips vs") auto
  then have eq: "map fst (hs_payloads st) = remdups_adj (tips vs)" using sent by simp
  moreover have "fst (last (hs_payloads st)) = last (tips vs)" if "tips vs \<noteq> []"
  proof -
    have "map fst (hs_payloads st) \<noteq> []" unfolding eq using that by (simp add: remdups_adj_Nil_iff)
    then have "fst (last (hs_payloads st)) = last (map fst (hs_payloads st))" by (simp add: last_map)
    then show ?thesis unfolding eq by simp
  qed
  ultimately show ?thesis using sent by blast
qed

definition sample_view :: "int \<Rightarrow> Hash \<Rightarrow> btc_view" where
  "sample_view n h = \<lparr>bv_GetBlockCount = Ok n, bv_GetBlockHash = (\<lambda>_. Ok h),
     bv_GetBlock = (\<lambda>h. Ok \<lparr>mb_Header = \<lparr>bh_Version = 1, bh_PrevBlock = [], bh_MerkleRoot = h, bh_Timestamp = 0, bh_Bits = 0, bh_Nonce = 0\<rparr>,
       mb_Transactions = []\<rparr>)\<rparr>"

definition no_answer :: btc_view where
  "no_answer = (sample_view 0 [])\<lparr>bv_GetBlockCount := Err (Errorf ''timeout'' [])\<rparr>"

lemma sample_tips: "tips [sample_view 7 [1], sample_view 7 [1], no_answer, sample_view 9 [2], sample_view 9 [1]] = [[1], [1], [2], [1]]"
  by (simp add: tips_Cons view_tip_def sample_view_def no_answer_def)

theorem http_stream_sends_tips_witness:
  "\<exists>st. stream_run [sample_view 7 [1], sample_view 7 [1], no_answer, sample_view 9 [2], sample_view 9 [1]] new_stream = Ok st
    \<and> map fst (hs_payloads st) = [[1], [2], [1]]"
proof -
  let ?vs = "[sample_view 7 [1], sample_view 7 [1], no_answer, sample_view 9 [2], sample_view 9 [1]]"
  have "is_Ok (stream_run ?vs new_stream)" by code_simp
  then obtain st where run: "stream_run ?vs new_stream = Ok st" unfolding is_Ok_iff by blast
  have "map fst (hs_payloads st) = remdups_adj (tips ?vs)"
    by (rule http_stream_sends_tips [OF run, THEN conjunct1]) (simp add: sample_tips)
  with run show ?thesis by (intro exI [of _ st]) (simp add: sample_tips del: stream_run.simps)
qed

subsection \<open>Fetching in batches\<close>

text \<open>
  What a payload fetcher promises: one payload for every height, in order, and the same one whatever batch the height
  is fetched in. So the payloads of a list of batches are those of their heights.
\<close>

locale batch_source =
  fixes FetchAt :: "u64 list \<Rightarrow> RawData list outcome"
    and one :: "u64 \<Rightarrow> RawData outcome"
  assumes fetched: "FetchAt hs = Ok rs \<longleftrightarrow> list_all2 (\<lambda>h r. one h = Ok r) hs rs"
begin

lemma one_each: "FetchAt hs = Ok rs \<Longrightarrow> length rs = length hs"
  unfolding fetched by (simp add: list_all2_lengthD)

lemma batches:
  assumes "list_all2 (\<lambda>b rs. FetchAt b = Ok rs) bs rss"
  shows "FetchAt (concat bs) = Ok (concat rss)"
  using assms unfolding fetched by (induction rule: list_all2_induct) (simp_all add: list_all2_appendI)

lemma batches_agree:
  assumes "concat bs = concat bs'" "list_all2 (\<lambda>b rs. FetchAt b = Ok rs) bs rss" "list_all2 (\<lambda>b rs. FetchAt b = Ok rs) bs' rss'"
  shows "concat rss = concat rss'"
  using batches [OF assms(2)] batches [OF assms(3)] assms(1) by simp

end

interpretation btc_source: batch_source "btc_FetchAt view" "fetch_block view" for view
  by unfold_locales (simp add: btc_FetchAt_def outcome_map_Ok_iff)

text \<open>A batch client that answers every element on its own.\<close>

definition each_client :: "(u64 \<Rightarrow> StateDiffPayload \<times> go_error option) \<Rightarrow> batch_client" where
  "each_client answer batch = Ok (map (\<lambda>el. el\<lparr>be_Result := fst (answer (be_Height el)), be_Error := snd (answer (be_Height el))\<rparr>) batch)"

definition each_one :: "(u64 \<Rightarrow> StateDiffPayload \<times> go_error option) \<Rightarrow> u64 \<Rightarrow> RawData outcome" where
  "each_one answer h = (case answer h of (r, None) \<Rightarrow> Ok (EthRaw r)
     | (r, Some e) \<Rightarrow> Err (Wrapf ''ethereum PayloadFetcher err at blockheight %d: %s'' [big_String (uint h)] e))"

interpretation eth_source: batch_source "eth_FetchAt (each_client answer)" "each_one answer" for answer
proof unfold_locales
  fix hs rs
  show "eth_FetchAt (each_client answer) hs = Ok rs \<longleftrightarrow> list_all2 (\<lambda>h r. each_one answer h = Ok r) hs rs"
    by (auto simp: eth_FetchAt_def each_client_def batch_of_def outcome_map_Ok_iff list.rel_map each_one_def
      split: option.splits prod.splits elim!: list.rel_mono_strong)
qed

end
