(* ===== verification/Service_Run.thy ===== *)
theory Service_Run
  imports Builders Payload_Source
begin

text \<open>
  The services that the builders make, run: the pipeline of stages of a back-fill or resync service is made of the
  implementations behind its interfaces, on a world of database, IPFS node and scripts of
  faults, one script for each call. A locale states what the stages have to keep for
  the workers to keep it, whatever their interleaving.
\<close>

subsection \<open>The payload fetchers\<close>

text \<open>What the nodes answer: a view of the Bitcoin node, the batch client of the Ethereum node.\<close>

record node_answers =
  na_btc :: btc_view
  na_eth :: batch_client

fun call_FetchAt :: "node_answers \<Rightarrow> payload_fetcher \<Rightarrow> u64 list \<Rightarrow> RawData list outcome" where
  "call_FetchAt a (EthPayloadFetcher _ _) hs = eth_FetchAt (na_eth a) hs"
| "call_FetchAt a (BtcPayloadFetcher _) hs = btc_FetchAt (na_btc a) hs"

lemma FetchAt_typed:
  assumes "NewPaylaodFetcher lib chain cl t = Ok f" "call_FetchAt a f hs = Ok rs" "r \<in> set rs"
  shows "raw_chain r = chain"
proof -
  have eth: "\<forall>r\<in>set rs. raw_chain r = Ethereum" if run: "eth_FetchAt cl hs = Ok rs" for cl hs rs
  proof (cases "cl (batch_of hs)")
    case (Ok batch)
    then have "list_all2 (\<lambda>el r. (case be_Error el of
        Some e \<Rightarrow> Err (Wrapf ''ethereum PayloadFetcher err at blockheight %d: %s'' [big_String (uint (be_Height el))] e)
      | None \<Rightarrow> Ok (EthRaw (be_Result el))) = Ok r) batch rs"
      using run by (simp add: eth_FetchAt_def outcome_map_Ok_iff)
    then show ?thesis by (induction rule: list_all2_induct) (auto split: option.splits)
  qed (use run in \<open>simp_all add: eth_FetchAt_def\<close>)
  have btc: "\<forall>r\<in>set rs. raw_chain r = Bitcoin" if "btc_FetchAt view hs = Ok rs" for view hs rs
    using that unfolding btc_FetchAt_def outcome_map_Ok_iff
    by (induction rule: list_all2_induct) (auto simp: fetch_block_def split: outcome.splits)
  show ?thesis
    using assms eth btc by (cases chain; cases cl) (auto simp: NewPaylaodFetcher_def invalid_chain_def)
qed

subsection \<open>Pipelines\<close>

type_synonym 'w run_world = "'w chain_world \<times> bool list list"

text \<open>A call takes the next script of faults.\<close>

definition scripted :: "(bool list \<Rightarrow> ('w chain_world, 'a) io) \<Rightarrow> ('w run_world, 'a) io" where
  "scripted m rw = (case m (case snd rw of [] \<Rightarrow> [] | s # _ \<Rightarrow> s) (fst rw) of (r, cw) \<Rightarrow> (r, cw, tl (snd rw)))"

definition call_Gaps :: "retriever \<Rightarrow> int \<Rightarrow> 'w run_world \<Rightarrow> Gap list outcome" where
  "call_Gaps rt level rw =
     (let db = fst (fst (fst rw)); faults = (case snd rw of [] \<Rightarrow> [] | s # _ \<Rightarrow> s)
      in case rt of EthCIDRetriever _ \<Rightarrow> fst (RetrieveGapsInData level db faults) | BtcCIDRetriever _ \<Rightarrow> fst (btc_RetrieveGapsInData level db faults))"

fun call_Clean :: "cleaner \<Rightarrow> range64 list \<Rightarrow> DataType \<Rightarrow> bool list \<Rightarrow> ('w chain_world, unit) io" where
  "call_Clean (EthCleaner _) rngs t faults = on_pg (\<lambda>sq db. case Clean faults rngs t sq db of (r, db', sq', _) \<Rightarrow> (r, db', sq'))"
| "call_Clean (BtcCleaner _) rngs t faults = on_pg (\<lambda>sq db. case btc_Clean faults rngs t sq db of (r, db', sq', _) \<Rightarrow> (r, db', sq'))"

fun call_ResetValidation :: "cleaner \<Rightarrow> range64 list \<Rightarrow> bool list \<Rightarrow> ('w chain_world, unit) io" where
  "call_ResetValidation (EthCleaner _) rngs faults = on_pg (ResetValidation faults rngs)"
| "call_ResetValidation (BtcCleaner _) rngs faults = on_pg (btc_ResetValidation faults rngs)"

text \<open>
  The stages of a back-fill service. A fetcher that panics (it does on an empty batch) is not told apart from one that returns an error. The
  service has no cleaner.
\<close>

definition fetch_stage :: "node_answers \<Rightarrow> payload_fetcher \<Rightarrow> u64 list \<Rightarrow> RawData list \<times> go_error option" where
  "fetch_stage a f hs = (case call_FetchAt a f hs of Ok rs \<Rightarrow> (rs, None) | Err e \<Rightarrow> ([], Some e) | Panic p \<Rightarrow> ([], Some (Errorf p [])))"

definition index_stage :: "'w chain_libs \<Rightarrow> indexer \<Rightarrow> CIDsForIndexing option \<Rightarrow> ('w run_world, unit) io" where
  "index_stage l ix cids = scripted (\<lambda>faults. call_Index l faults ix (case cids of None \<Rightarrow> NilCIDs | Some c \<Rightarrow> c))"

definition backfill_pipeline ::
    "'w chain_libs \<Rightarrow> node_answers \<Rightarrow> backfill_service \<Rightarrow> (CIDsForIndexing, 'w run_world) pipeline" where
  "backfill_pipeline l a s = \<lparr>pp_Gaps = call_Gaps (bf_Retriever s), pp_FetchAt = fetch_stage a (bf_Fetcher s),
     pp_Convert = call_Convert l (bf_Converter s), pp_Publish = (\<lambda>d. scripted (\<lambda>faults. call_Publish l faults (bf_Publisher s) d)),
     pp_Index = index_stage l (bf_Indexer s),
     pp_Clean = (\<lambda>_ _ rw. (Panic nil_deref, rw)), pp_ResetValidation = (\<lambda>_ rw. (Panic nil_deref, rw))\<rparr>"

definition resync_pipeline ::
    "'w chain_libs \<Rightarrow> node_answers \<Rightarrow> resync_service \<Rightarrow> (CIDsForIndexing, 'w run_world) pipeline" where
  "resync_pipeline l a s = \<lparr>pp_Gaps = call_Gaps (ry_Retriever s), pp_FetchAt = fetch_stage a (ry_Fetcher s),
     pp_Convert = call_Convert l (ry_Converter s), pp_Publish = (\<lambda>d. scripted (\<lambda>faults. call_Publish l faults (ry_Publisher s) d)),
     pp_Index = index_stage l (ry_Indexer s),
     pp_Clean = (\<lambda>rngs t. scripted (call_Clean (ry_Cleaner s) rngs t)), pp_ResetValidation = (\<lambda>rngs. scripted (call_ResetValidation (ry_Cleaner s) rngs))\<rparr>"

subsection \<open>What the stages keep, the workers keep\<close>

locale keeping_pipeline =
  fixes pp :: "('cids, 'db) pipeline" and good :: "'db \<Rightarrow> bool"
  assumes publish_good: "good db \<Longrightarrow> pp_Publish pp d db = (r, db') \<Longrightarrow> good db'"
    and index_good: "good db \<Longrightarrow> pp_Index pp cids db = (r', db') \<Longrightarrow> good db'"
begin

lemma backFillItem_good: "good (fst s) \<Longrightarrow> backFillItem pp x s = Ok s' \<Longrightarrow> good (fst s')"
  by (auto simp: backFillItem_def Let_def split: outcome.splits prod.splits intro: publish_good index_good)

lemma resyncItem_good: "good db \<Longrightarrow> resyncItem pp x db = Ok db' \<Longrightarrow> good db'"
  by (auto simp: resyncItem_def Let_def split: outcome.splits prod.splits intro: publish_good index_good)

lemma publishAndIndex_good:
  "good db \<Longrightarrow> publishAndIndex (pp_Publish pp) (\<lambda>c. pp_Index pp (Some c)) st db = Ok (st', db') \<Longrightarrow> good db'"
  by (auto simp: publishAndIndex_def Let_def split: outcome.splits prod.splits list.splits intro: publish_good index_good)

end

lemma pool_runs_state:
  assumes "\<And>x s s'. I s \<Longrightarrow> item x s = Ok s' \<Longrightarrow> I s'" "pool_runs ft item p q" "I (pl_state p)"
  shows "I (pl_state q)"
  using assms(2,3)
proof (induction rule: rtranclp_induct)
  case (step q1 q2)
  from step.hyps(2) step.IH [OF step.prems] show ?case by cases (auto intro: assms(1))
qed

context keeping_pipeline
begin

lemma backFillTick_good:
  assumes "backFillTick pp bs bn level s s'" "good (fst s)"
  shows "good (fst s')"
proof (cases "pp_Gaps pp level (fst s)")
  case (Ok gaps)
  then obtain q where q: "pool_runs (\<lambda>hs. fst (pp_FetchAt pp hs)) (backFillItem pp) (pool_start (requestBins bs gaps) (nat bn) s) q" "s' = pl_state q"
    using assms(1) by (auto simp: backFillTick_def)
  show ?thesis
    unfolding q(2) by (rule pool_runs_state [OF _ q(1), where I = "\<lambda>s. good (fst s)"]) (use assms(2) in \<open>auto simp: pool_start_def intro: backFillItem_good\<close>)
qed (use assms in \<open>simp_all add: backFillTick_def\<close>)

lemma Resync_good:
  assumes "Resync pp rs db res db'" "good (snd (resyncPrepare pp rs db))" "good db"
  shows "good db'"
proof -
  obtain r db1 where prep: "resyncPrepare pp rs db = (r, db1)" by fastforce
  have keep: "good (pl_state q)" if "pool_runs f (resyncItem pp) (pool_start bins n db1) q" for f bins n q
    using pool_runs_state [where I = good, OF resyncItem_good that] assms(2) prep by (simp add: pool_start_def)
  show ?thesis
    using assms(1) keep assms(2) prep by (auto simp: Resync_def split: outcome.splits prod.splits option.splits)
qed

end

subsection \<open>The database stays consistent\<close>

text \<open>Unique ids and keys in every table, and every foreign key holds.\<close>

definition pg_good :: "pg_seq \<Rightarrow> pg_db \<Rightarrow> bool" where
  "pg_good sq db \<longleftrightarrow> db_ok sq db \<and> deferred_fk db"

definition world_good :: "'w run_world \<Rightarrow> bool" where
  "world_good rw \<longleftrightarrow> (case fst rw of ((db, sq), w) \<Rightarrow> pg_good sq db)"

lemma run_tx_good:
  assumes "body_keeps db_ok body" "error_rolls_back body" "pg_good sq db" "run_tx deferred_fk faults body sq db = (r, db', sq')"
  shows "pg_good sq' db'"
proof -
  have "db_ok sq' db'" using run_tx_keeps [OF assms(1) _ assms(4)] assms(3) by (simp add: pg_good_def)
  moreover have "deferred_fk db'"
  proof (cases "db' = db")
    case False
    from transactional.intro [OF assms(2)] assms(4) False show ?thesis by (rule transactional.changed_committed)
  qed (use assms(3) in \<open>simp add: pg_good_def\<close>)
  ultimately show ?thesis by (simp add: pg_good_def)
qed

lemma pg_calls_good:
  assumes "pg_good sq db"
  shows "PublisherAndIndexer_Publish geth ipfs tlib n faults p sq db = (r, db', sq') \<Longrightarrow> pg_good sq' db'"
    and "btc_PublishAndIndex btcd ipfs n faults p sq db = (r, db', sq') \<Longrightarrow> pg_good sq' db'"
    and "CIDIndexer_Index geth n faults cids sq db = (u, db', sq') \<Longrightarrow> pg_good sq' db'"
    and "btc_Index n faults cids sq db = (u, db', sq') \<Longrightarrow> pg_good sq' db'"
proof -
  show "PublisherAndIndexer_Publish geth ipfs tlib n faults p sq db = (r, db', sq') \<Longrightarrow> pg_good sq' db'"
    using assms by (auto simp: PublisherAndIndexer_Publish_def split: Converted.splits outcome.splits
      intro: run_tx_good [OF publish_body_keeps publish_body_rolls_back])
  show "btc_PublishAndIndex btcd ipfs n faults p sq db = (r, db', sq') \<Longrightarrow> pg_good sq' db'"
    using assms by (auto simp: btc_PublishAndIndex_def split: Converted.splits outcome.splits
      intro: run_tx_good [OF btc_publish_body_keeps btc_publish_body_rolls_back])
  show "CIDIndexer_Index geth n faults cids sq db = (u, db', sq') \<Longrightarrow> pg_good sq' db'"
    using assms by (auto simp: CIDIndexer_Index_def split: CIDsForIndexing.splits intro: run_tx_good [OF index_body_keeps index_tx.rolls_back])
  show "btc_Index n faults cids sq db = (u, db', sq') \<Longrightarrow> pg_good sq' db'"
    using assms by (auto simp: btc_Index_def split: CIDsForIndexing.splits intro: run_tx_good [OF btc_index_body_keeps btc_index_tx.rolls_back])
qed

definition chain_good :: "'w chain_world \<Rightarrow> bool" where
  "chain_good cw \<longleftrightarrow> (case cw of ((db, sq), w) \<Rightarrow> pg_good sq db)"

text \<open>Calls keep the database consistent: on the database by the lemma above, on the IPFS node because they do not touch it.\<close>

definition call_keeps :: "('w chain_world, 'a) io \<Rightarrow> bool" where
  "call_keeps m \<longleftrightarrow> (\<forall>cw. chain_good cw \<longrightarrow> chain_good (snd (m cw)))"

lemma on_ipfs_keeps: "call_keeps (on_ipfs m)"
  by (auto simp: call_keeps_def on_ipfs_def chain_good_def split: prod.splits)

lemma on_pg_keeps: "(\<And>sq db r db' sq'. pg_good sq db \<Longrightarrow> f sq db = (r, db', sq') \<Longrightarrow> pg_good sq' db') \<Longrightarrow> call_keeps (on_pg f)"
  by (auto simp: call_keeps_def on_pg_def chain_good_def split: prod.splits)

lemma bind_keeps: "call_keeps m \<Longrightarrow> (\<And>x. call_keeps (f x)) \<Longrightarrow> call_keeps (io_bind m f)"
  unfolding call_keeps_def io_bind_def by (auto split: prod.splits outcome.splits) (metis snd_conv)+

lemma lift_keeps: "call_keeps (io_lift r)"
  by (simp add: call_keeps_def io_lift_def)

lemma Publish_keeps: "call_keeps (call_Publish l faults p d)"
  by (cases p) (auto intro!: on_ipfs_keeps bind_keeps lift_keeps on_pg_keeps dest: pg_calls_good)

lemma Index_keeps: "call_keeps (call_Index l faults ix cids)"
  by (cases ix) (auto simp: PublisherAndIndexer_Index_def intro!: bind_keeps lift_keeps on_pg_keeps dest: pg_calls_good)

lemma scripted_good:
  assumes "\<And>faults. call_keeps (m faults)" "world_good rw" "scripted m rw = (r, rw')"
  shows "world_good rw'"
  using assms unfolding call_keeps_def world_good_def chain_good_def scripted_def
  by (auto split: prod.splits list.splits) (metis snd_conv case_prod_conv)+

lemma clean_keeps: "tx_keeps db_ok (clean rng t)"
proof -
  have del: "tx_keeps db_ok (exec_range (\<lambda>r db. del_blocks (g r db) db) rng)" for g
    by (rule exec_range_keeps) (simp add: del_ok)
  have rows: "tx_keeps db_ok (exec_range (\<lambda>r db. cascade (db\<lparr>eth_storages := filter (p r db) (eth_storages db)\<rparr>)) rng)"
    "tx_keeps db_ok (exec_range (\<lambda>r db. cascade (db\<lparr>eth_states := filter (q r db) (eth_states db)\<rparr>)) rng)"
    "tx_keeps db_ok (exec_range (\<lambda>r db. cascade (db\<lparr>eth_rcts := filter (s r db) (eth_rcts db)\<rparr>)) rng)"
    "tx_keeps db_ok (exec_range (\<lambda>r db. cascade (db\<lparr>eth_txs := filter (u r db) (eth_txs db)\<rparr>)) rng)"
    "tx_keeps db_ok (exec_range (\<lambda>r db. cascade (db\<lparr>eth_uncles := filter (v r db) (eth_uncles db)\<rparr>)) rng)"
    "tx_keeps db_ok (exec_range (\<lambda>r db. cascade (db\<lparr>eth_headers := filter (w r db) (eth_headers db)\<rparr>)) rng)" for p q s u v w
    by (rule exec_range_keeps; rule cascade_ok; auto simp: db_ok_defs table_ok_def distinct_map_filter)+
  show ?thesis
    unfolding clean_def cleanFull_def cleanStorageIPLDs_def cleanStateIPLDs_def cleanReceiptIPLDs_def cleanTransactionIPLDs_def cleanUncleIPLDs_def
      cleanHeaderIPLDs_def cleanHeaderMetaData_def cleanUncleMetaData_def cleanTransactionMetaData_def cleanReceiptMetaData_def cleanStateMetaData_def
      cleanStorageMetaData_def
    by (intro keeps_intros del rows)
qed

lemma btc_clean_keeps: "tx_keeps db_ok (btc_clean rng t)"
proof -
  have del: "tx_keeps db_ok (exec_range (\<lambda>r db. del_blocks (g r db) db) rng)" for g
    by (rule exec_range_keeps) (simp add: del_ok)
  have rows: "tx_keeps db_ok (exec_range (\<lambda>r db. cascade (db\<lparr>btc_txs := filter (p r db) (btc_txs db)\<rparr>)) rng)"
    "tx_keeps db_ok (exec_range (\<lambda>r db. cascade (db\<lparr>btc_headers := filter (q r db) (btc_headers db)\<rparr>)) rng)" for p q
    by (rule exec_range_keeps; rule cascade_ok; auto simp: db_ok_defs table_ok_def distinct_map_filter)+
  show ?thesis
    unfolding btc_clean_def btc_cleanFull_def btc_cleanTransactionIPLDs_def btc_cleanHeaderIPLDs_def btc_cleanHeaderMetaData_def
      btc_cleanTransactionMetaData_def
    by (intro keeps_intros del rows)
qed

lemma table_ok_map_iff:
  assumes "\<And>h. idf (f h) = idf h" "\<And>h. key (f h) = key h"
  shows "table_ok idf key n (map f xs) \<longleftrightarrow> table_ok idf key n xs"
proof -
  have "idf \<circ> f = idf" "key \<circ> f = key" by (simp_all add: assms fun_eq_iff)
  then show ?thesis by (simp add: table_ok_def assms)
qed

lemma reset_keeps:
  "tx_keeps db_ok (exec_range reset_range rng)" "tx_keeps db_ok (exec_range btc_reset_range rng)"
  by (rule exec_range_keeps; auto simp: reset_range_def btc_reset_range_def db_ok_defs table_ok_map_iff header_key_def btc_header_key_def)+

lemma run_commit_good:
  assumes "tx_keeps db_ok m" "pg_good sq db" "run_commit deferred_fk faults m sq db = (r, db', sq', fs)"
  shows "pg_good sq' db'"
proof -
  have "db_ok sq' db'" using run_commit_keeps [OF assms(1) _ assms(3)] assms(2) by (simp add: pg_good_def)
  moreover from assms(3) have "deferred_fk db'" using assms(2) by (cases rule: run_commit_cases) (auto simp: pg_good_def)
  ultimately show ?thesis by (simp add: pg_good_def)
qed

lemma Clean_call_keeps: "call_keeps (call_Clean c rngs t faults)"
proof (cases c)
  case (EthCleaner d)
  have all: "tx_keeps db_ok (tx_for (\<lambda>_ rng. clean rng t) 0 rngs)" by (intro keeps_intros clean_keeps)
  show ?thesis
    unfolding EthCleaner call_Clean.simps
  proof (rule on_pg_keeps)
    fix sq db r db' sq'
    assume good: "pg_good sq db" and "(case Clean faults rngs t sq db of (r, db', sq', _) \<Rightarrow> (r, db', sq')) = (r, db', sq')"
    then obtain r1 fs where "run_commit deferred_fk faults (tx_for (\<lambda>_ rng. clean rng t) 0 rngs) sq db = (r1, db', sq', fs)"
      by (auto simp: Clean_def split: prod.splits outcome.splits)
    from run_commit_good [OF all good this] show "pg_good sq' db'" .
  qed
next
  case (BtcCleaner d)
  have all: "tx_keeps db_ok (tx_for (\<lambda>_ rng. btc_clean rng t) 0 rngs)" by (intro keeps_intros btc_clean_keeps)
  show ?thesis
    unfolding BtcCleaner call_Clean.simps
  proof (rule on_pg_keeps)
    fix sq db r db' sq'
    assume good: "pg_good sq db" and "(case btc_Clean faults rngs t sq db of (r, db', sq', _) \<Rightarrow> (r, db', sq')) = (r, db', sq')"
    then obtain r1 fs where "run_commit deferred_fk faults (tx_for (\<lambda>_ rng. btc_clean rng t) 0 rngs) sq db = (r1, db', sq', fs)"
      by (auto simp: btc_Clean_def split: prod.splits outcome.splits)
    from run_commit_good [OF all good this] show "pg_good sq' db'" .
  qed
qed

lemma Reset_call_keeps: "call_keeps (call_ResetValidation c rngs faults)"
proof -
  have "tx_keeps db_ok (tx_for (\<lambda>_ rng. exec_range reset_range rng) 0 rngs)" "tx_keeps db_ok (tx_for (\<lambda>_ rng. exec_range btc_reset_range rng) 0 rngs)"
    by (intro keeps_intros reset_keeps)+
  then show ?thesis
    by (cases c) (auto simp: ResetValidation_def btc_ResetValidation_def intro!: on_pg_keeps split: prod.splits dest: run_commit_good)
qed

interpretation backfill_run: keeping_pipeline "backfill_pipeline l a s" world_good for l a s
  by unfold_locales
     (auto simp: backfill_pipeline_def index_stage_def intro: scripted_good [OF Publish_keeps] scripted_good [OF Index_keeps])

interpretation resync_run: keeping_pipeline "resync_pipeline l a s" world_good for l a s
  by unfold_locales
     (auto simp: resync_pipeline_def index_stage_def intro: scripted_good [OF Publish_keeps] scripted_good [OF Index_keeps])

lemma resyncPrepare_good:
  assumes "world_good rw"
  shows "world_good (snd (resyncPrepare (resync_pipeline l a s) cfg rw))"
proof -
  let ?pp = "resync_pipeline l a s"
  have clean: "world_good (snd (pp_Clean ?pp rngs t rw))" if "world_good rw" for rngs t rw
    using scripted_good [where m = "call_Clean (ry_Cleaner s) rngs t", OF Clean_call_keeps that] by (simp add: resync_pipeline_def) (metis surj_pair snd_conv)
  have reset: "world_good (snd (pp_ResetValidation ?pp rngs rw))" if "world_good rw" for rngs rw
    using scripted_good [where m = "call_ResetValidation (ry_Cleaner s) rngs", OF Reset_call_keeps that] by (simp add: resync_pipeline_def) (metis surj_pair snd_conv)
  define first where "first = (if rc_resetValidation cfg then pp_ResetValidation ?pp (rc_ranges cfg) rw else (Ok (), rw))"
  have f: "world_good (snd first)" using reset assms by (simp add: first_def)
  define second where "second = (if rc_clearOldCache cfg then pp_Clean ?pp (rc_ranges cfg) (rc_data cfg) (snd first) else (Ok (), snd first))"
  have s: "world_good (snd second)" using clean f by (simp add: second_def)
  show ?thesis
    using f s unfolding resyncPrepare_def first_def [symmetric]
    by (cases first; cases second; cases "fst first"; cases "fst second") (auto simp: Let_def second_def split: if_splits)
qed


definition sample_pg :: DB where
  "sample_pg = \<lparr>db_connection = [], db_MaxOpenConns = None, db_MaxIdleConns = None, db_ConnMaxLifetime = None, db_Node = zero_Node, db_NodeID = 1\<rparr>"

definition sample_ring :: sync_state where
  "sample_ring = \<lparr>sy_screen = \<lparr>ch_cap = 1, ch_buf = []\<rparr>, sy_ring = \<lparr>ch_cap = 1, ch_buf = [BtcConverted btc_pub_payload]\<rparr>\<rparr>"


end
