(* ===== verification/Commands.thy ===== *)
theory Commands
  imports Service_Run
begin

text \<open>
  The commands \<open>watch\<close> and \<open>resync\<close> (\<open>cmd/watch.go\<close>, \<open>cmd/resync.go\<close>) and the start of \<open>Sync\<close> (\<open>watch/service.go\<close>): reading the settings, building
  the services and starting their processes, in the order of the code, where the first error ends the program. Shown: what is
  running when \<open>watch\<close> waits for the interrupt fits together.
\<close>

subsection \<open>Starting processes\<close>

text \<open>The processes that are started, with the capacity of the channel they share; no channel is a nil channel.\<close>

datatype process =
    ServeLoop nat
  | IPCServer string "string list"
  | WSServer string "string list"
  | HTTPServer string "string list"
  | SyncLoop "nat option"
  | SyncWorker int
  | BackFillLoop "nat option"

record cmd_lib =
  cm_config :: config_lib
  cm_builder :: builder_lib
  cm_InitIPFSPlugins :: "unit outcome"
  cm_StartEndpoint :: "process \<Rightarrow> unit outcome"
  cm_Stream :: "streamer \<Rightarrow> unit outcome"

text \<open>\<open>logWithCommand.Fatal\<close>: an error ends the program.\<close>

definition or_fatal :: "'a cfg \<Rightarrow> 'a cfg" where
  "or_fatal m st = (case m st of (Err _, st') \<Rightarrow> (Panic fatal_exit, st') | r \<Rightarrow> r)"

definition init_plugins :: "cmd_lib \<Rightarrow> IPFSMode \<Rightarrow> unit cfg" where
  "init_plugins lib mode = (if mode = LocalInterface then or_fatal (io_lift (cm_InitIPFSPlugins lib)) else io_return ())"

definition startServers :: "cmd_lib \<Rightarrow> watcher \<Rightarrow> watch_config \<Rightarrow> process list outcome" where
  "startServers lib w settings =
     (let ipc = IPCServer (wc_IPCEndpoint settings) (APIs w); ws = WSServer (wc_WSEndpoint settings) [''vdb''];
          http = HTTPServer (wc_HTTPEndpoint settings) [ChainType_API (wc_Chain settings)]
      in outcome_bind (cm_StartEndpoint lib ipc) (\<lambda>_.
         outcome_bind (cm_StartEndpoint lib ws) (\<lambda>_.
         outcome_bind (cm_StartEndpoint lib http) (\<lambda>_. Ok [ipc, ws, http]))))"

text \<open>\<open>Sync\<close>: a nil streamer panics, an error of the streamer is returned before anything is started.\<close>

definition Sync :: "cmd_lib \<Rightarrow> watcher \<Rightarrow> nat option \<Rightarrow> process list outcome" where
  "Sync lib w screenAndServePayload =
     (case wt_Streamer w of
        None \<Rightarrow> Panic nil_deref
      | Some streamer \<Rightarrow>
          outcome_bind (cm_Stream lib streamer) (\<lambda>_.
            Ok (map (\<lambda>i. SyncWorker (int i)) [1 ..< nat (wt_WorkerPoolSize w) + 1] @ [SyncLoop screenAndServePayload])))"

text \<open>\<open>Start\<close>, which no command calls: serving starts after syncing.\<close>

definition Service_Start :: "cmd_lib \<Rightarrow> watcher \<Rightarrow> process list outcome" where
  "Service_Start lib w = outcome_bind (Sync lib w (Some PayloadChanBufferSize)) (\<lambda>ps. Ok (ps @ [ServeLoop PayloadChanBufferSize]))"

subsection \<open>The commands\<close>

record running =
  ru_watcher :: watcher
  ru_forward :: "nat option"
  ru_backFill :: "backfill_service option"
  ru_processes :: "process list"

definition start_serve :: "cmd_lib \<Rightarrow> watch_config \<Rightarrow> watcher \<Rightarrow> (nat option \<times> process list) cfg" where
  "start_serve lib c w =
     (if wc_Serve c
      then io_bind (or_fatal (io_lift (startServers lib w c))) (\<lambda>ps. io_return (Some PayloadChanBufferSize, ServeLoop PayloadChanBufferSize # ps))
      else io_return (None, []))"

definition start_sync :: "cmd_lib \<Rightarrow> watch_config \<Rightarrow> watcher \<Rightarrow> nat option \<Rightarrow> process list cfg" where
  "start_sync lib c w forward = (if wc_Sync c then or_fatal (io_lift (Sync lib w forward)) else io_return [])"

definition start_backFill :: "cmd_lib \<Rightarrow> watch_config \<Rightarrow> nat option \<Rightarrow> (backfill_service option \<times> process list) cfg" where
  "start_backFill lib c forward =
     (if wc_Historical c
      then io_bind (or_fatal (historical_NewConfig (cm_config lib))) (\<lambda>hc.
           io_bind (or_fatal (io_lift (NewBackFillService (cm_builder lib) hc))) (\<lambda>bf.
             io_return (Some bf, [BackFillLoop forward])))
      else io_return (None, []))"

definition watch :: "cmd_lib \<Rightarrow> running cfg" where
  "watch lib =
     io_bind (or_fatal (watch_NewConfig (cm_config lib))) (\<lambda>c.
     io_bind (init_plugins lib (wc_IPFSMode c)) (\<lambda>_.
     io_bind (or_fatal (io_lift (NewWatcher (cm_builder lib) c))) (\<lambda>w.
     io_bind (start_serve lib c w) (\<lambda>(forward, servers).
     io_bind (start_sync lib c w forward) (\<lambda>syncers.
     io_bind (start_backFill lib c forward) (\<lambda>(bf, backFillers).
     io_return \<lparr>ru_watcher = w, ru_forward = forward, ru_backFill = bf, ru_processes = servers @ syncers @ backFillers\<rparr>))))))"

text \<open>The \<open>resync\<close> command, up to running the service.\<close>

definition rsyncCmdCommand :: "cmd_lib \<Rightarrow> resync_service cfg" where
  "rsyncCmdCommand lib =
     io_bind (or_fatal (resync_NewConfig (cm_config lib))) (\<lambda>c.
     io_bind (init_plugins lib (rs_IPFSMode c)) (\<lambda>_.
     or_fatal (io_lift (NewResyncService (cm_builder lib) c))))"

subsection \<open>Both configurations read the same chain and mode\<close>

lemma or_fatal_Ok: "or_fatal m st = (Ok x, st') \<longleftrightarrow> m st = (Ok x, st')"
  by (auto simp: or_fatal_def split: prod.splits outcome.splits)

lemma or_fatal_not_Err: "fst (or_fatal m st) \<noteq> Err e"
  by (auto simp: or_fatal_def split: prod.splits outcome.splits)

lemma watch_NewConfig_pflags:
  assumes "watch_NewConfig lib st = (r, st')"
  shows "cs_pflags st' = cs_pflags st"
proof -
  have "same_under (cl_given lib) (cl_given lib) (cs_pflags st) lib watch_NewConfig"
    by (rule same_watch) (simp add: key_same_def)
  then show ?thesis using assms by (simp add: same_under_def) (metis snd_conv)
qed

definition chain_setting :: "config_lib \<Rightarrow> (string \<rightharpoonup> pflag) \<Rightarrow> ChainType outcome" where
  "chain_setting lib pf =
     NewChainType (vp_String lib (map_option (\<lambda>p. (p, cl_given lib p)) (pf ''superNode.chain'')) (Some ''SUPERNODE_CHAIN'') ''superNode.chain'')"

lemma cfg_bindI: "io_bind m f st = (Ok y, st') \<Longrightarrow> m st = (Ok x, st1) \<Longrightarrow> f x st1 = (Ok y, st')"
  by (simp add: io_bind_def)

lemma io_bind_eq: "m st = (Ok x, st1) \<Longrightarrow> io_bind m f st = f x st1"
  by (simp add: io_bind_def)

lemma ipfs_settings_pflags:
  assumes "cs_pflags st1 = cs_pflags st2"
  shows "fst (ipfs_settings lib st1) = fst (ipfs_settings lib st2)"
proof -
  define mode where "mode = vp_String lib (map_option (\<lambda>p. (p, cl_given lib p)) (cs_pflags st1 ''ipfs.mode'')) (Some ''IPFS_MODE'') ''ipfs.mode''"
  define path where "path = vp_String lib (map_option (\<lambda>p. (p, cl_given lib p)) (cs_pflags st1 ''ipfs.path'')) (Some ''IPFS_PATH'') ''ipfs.path''"
  define m where "m = (if mode = [] then Ok DirectPostgres else NewIPFSMode mode)"
  have m: "GetIPFSMode lib st = (m, st\<lparr>cs_env := (cs_env st)(''ipfs.mode'' \<mapsto> ''IPFS_MODE'')\<rparr>)" if "cs_pflags st = cs_pflags st1" for st
    using that by (simp add: GetIPFSMode_def io_bind_def BindEnvs_def viper_Get_def io_return_def io_lift_def mode_def m_def)
  have p: "fst (GetIPFSPath lib st) = (if path = [] then outcome_bind (os_UserHomeDir lib) (\<lambda>home. Ok (filepath_Join home ''.ipfs'')) else Ok path)"
    if "cs_pflags st = cs_pflags st1" for st
    using that by (cases "os_UserHomeDir lib") (simp_all add: GetIPFSPath_def io_bind_def BindEnvs_def viper_Get_def io_return_def io_lift_def path_def)
  have "fst (ipfs_settings lib st) = outcome_bind m (\<lambda>mode. if mode = LocalInterface \<or> mode = RemoteClient
      then outcome_bind (if path = [] then outcome_bind (os_UserHomeDir lib) (\<lambda>home. Ok (filepath_Join home ''.ipfs'')) else Ok path) (\<lambda>path. Ok (mode, path))
      else Ok (mode, []))" if "cs_pflags st = cs_pflags st1" for st
    using m [OF that] p [of "st\<lparr>cs_env := (cs_env st)(''ipfs.mode'' \<mapsto> ''IPFS_MODE'')\<rparr>"] that
    by (cases m; cases "GetIPFSPath lib (st\<lparr>cs_env := (cs_env st)(''ipfs.mode'' \<mapsto> ''IPFS_MODE'')\<rparr>)"; cases "fst (GetIPFSPath lib (st\<lparr>cs_env := (cs_env st)(''ipfs.mode'' \<mapsto> ''IPFS_MODE'')\<rparr>))")
       (auto simp: ipfs_settings_def io_bind_def io_return_def)
  then show ?thesis using assms by simp
qed

lemma watch_NewConfig_reads:
  assumes "watch_NewConfig lib st = (Ok c, st')"
  shows "chain_setting lib (cs_pflags st) = Ok (wc_Chain c)" "fst (ipfs_settings lib st) = Ok (wc_IPFSMode c, wc_IPFSPath c)"
proof -
  obtain chain name mp dbc historical sync c1 serve ks u sa sb hb st0 st1 st2 st3 st4 st5 where
    b: "BindEnvs ((''superNode.chain'', ''SUPERNODE_CHAIN'') # ks) st = (Ok u, sa)" and h: "viper_Get lib vp_Bool ''superNode.backFill'' sa = (Ok hb, sb)"
    and n: "viper_Get lib vp_String ''superNode.chain'' sb = (Ok name, st0)" and k: "map_of (rev ks) ''superNode.chain'' = None"
    and lift: "io_lift (NewChainType name) st0 = (Ok chain, st1)" and ipfs: "ipfs_settings lib st1 = (Ok mp, st2)"
    and c1: "(if sync then sync_settings lib else io_return)
        \<lparr>wc_Chain = chain, wc_IPFSPath = snd mp, wc_IPFSMode = fst mp, wc_DBConfig = dbc, wc_Serve = False, wc_ServeDBConn = None,
         wc_WSEndpoint = [], wc_HTTPEndpoint = [], wc_IPCEndpoint = [], wc_Sync = sync, wc_SyncDBConn = None, wc_Workers = 0,
         wc_WSClient = NilClient, wc_NodeInfo = zero_Node, wc_Historical = historical\<rparr> st3 = (Ok c1, st4)"
    and c: "(if serve then serve_settings lib else io_return) (c1\<lparr>wc_Serve := serve\<rparr>) st5 = (Ok c, st')"
    using assms unfolding watch_NewConfig_def case_prod_beta
    by (elim io_bind_Ok) (erule that, assumption+, simp, assumption+)
  have c1': "wc_Chain c1 = chain \<and> wc_IPFSMode c1 = fst mp \<and> wc_IPFSPath c1 = snd mp"
    using c1 by (cases sync) (auto simp: cfg_Ok dest!: sync_settings_Ok)
  have kept: "wc_Chain c = chain \<and> wc_IPFSMode c = fst mp \<and> wc_IPFSPath c = snd mp"
    using c c1' by (cases serve) (auto simp: cfg_Ok dest!: serve_settings_Ok)
  have sb: "cs_pflags sb = cs_pflags st" "cs_env sb ''superNode.chain'' = Some ''SUPERNODE_CHAIN''"
    using b h k by (auto simp: BindEnvs_def cfg_Get_Ok map_add_def)
  then show "chain_setting lib (cs_pflags st) = Ok (wc_Chain c)" using n lift kept by (simp add: chain_setting_def cfg_Get_Ok cfg_lift_Ok)
  have "cs_pflags st1 = cs_pflags st" using sb n lift by (simp add: cfg_Get_Ok cfg_lift_Ok)
  then show "fst (ipfs_settings lib st) = Ok (wc_IPFSMode c, wc_IPFSPath c)"
    using ipfs_settings_pflags [of st1 st lib] ipfs kept by simp
qed

lemma historical_NewConfig_reads:
  assumes "historical_NewConfig lib st = (Ok c, st')"
  shows "chain_setting lib (cs_pflags st) = Ok (hc_Chain c)" "fst (ipfs_settings lib st) = Ok (hc_IPFSMode c, hc_IPFSPath c)"
proof -
  obtain chain name mp dbc u sa st0 st1 st2 st3 where
    b: "BindEnvs [(''superNode.chain'', ''SUPERNODE_CHAIN'')] st = (Ok u, sa)" and n: "viper_Get lib vp_String ''superNode.chain'' sa = (Ok name, st0)"
    and lift: "io_lift (NewChainType name) st0 = (Ok chain, st1)" and ipfs: "ipfs_settings lib st1 = (Ok mp, st2)"
    and init: "historical_init lib \<lparr>hc_Chain = chain, hc_IPFSPath = snd mp, hc_IPFSMode = fst mp, hc_DBConfig = dbc, hc_DB = None,
       hc_HTTPClient = NilClient, hc_Frequency = 0, hc_BatchSize = 0, hc_BatchNumber = 0, hc_ValidationLevel = 0, hc_Timeout = 0,
       hc_NodeInfo = zero_Node\<rparr> st3 = (Ok c, st')"
    using assms unfolding historical_NewConfig_def case_prod_beta
    by (elim io_bind_Ok) (erule that, assumption+)
  have kept: "hc_Chain c = chain \<and> hc_IPFSMode c = fst mp \<and> hc_IPFSPath c = snd mp"
    using init by (auto simp: historical_init_def cfg_Ok)
  have sa: "cs_pflags sa = cs_pflags st" "cs_env sa ''superNode.chain'' = Some ''SUPERNODE_CHAIN''"
    using b by (auto simp: BindEnvs_def map_add_def)
  then show "chain_setting lib (cs_pflags st) = Ok (hc_Chain c)" using n lift kept by (simp add: chain_setting_def cfg_Get_Ok cfg_lift_Ok)
  have "cs_pflags st1 = cs_pflags st" using sa n lift by (simp add: cfg_Get_Ok cfg_lift_Ok)
  then show "fst (ipfs_settings lib st) = Ok (hc_IPFSMode c, hc_IPFSPath c)"
    using ipfs_settings_pflags [of st1 st lib] ipfs kept by simp
qed

subsection \<open>What is running\<close>

text \<open>Publishers that write to the same place.\<close>

fun same_store :: "publisher \<Rightarrow> publisher \<Rightarrow> bool" where
  "same_store (EthIPLDPublisher a) (EthIPLDPublisher b) \<longleftrightarrow> a = b"
| "same_store (BtcIPLDPublisher a) (BtcIPLDPublisher b) \<longleftrightarrow> a = b"
| "same_store (EthIPLDPublisherAndIndexer _) (EthIPLDPublisherAndIndexer _) \<longleftrightarrow> True"
| "same_store (BtcIPLDPublisherAndIndexer _) (BtcIPLDPublisherAndIndexer _) \<longleftrightarrow> True"
| "same_store _ _ \<longleftrightarrow> False"

lemma NewIPLDPublisher_same_store:
  "NewIPLDPublisher lib chain path db mode = Ok p \<Longrightarrow> NewIPLDPublisher lib chain path db' mode = Ok q \<Longrightarrow> same_store p q"
  by (cases chain; cases mode) (auto simp: NewIPLDPublisher_def invalid_chain_def unexpected_mode_def)

lemma watch_Ok:
  assumes "watch lib st = (Ok ru, st')"
  obtains c w servers syncers bf fillers st1 st2 st3 where
    "watch_NewConfig (cm_config lib) st = (Ok c, st1)" "NewWatcher (cm_builder lib) c = Ok w"
    "start_serve lib c w st1 = (Ok (ru_forward ru, servers), st2)" "start_sync lib c w (ru_forward ru) st2 = (Ok syncers, st3)"
    "start_backFill lib c (ru_forward ru) st3 = (Ok (bf, fillers), st')"
    "ru_watcher ru = w" "ru_backFill ru = bf" "ru_processes ru = servers @ syncers @ fillers"
proof -
  obtain c u w fs syncers bf st1 sp st2 st3 sw where
    1: "or_fatal (watch_NewConfig (cm_config lib)) st = (Ok c, st1)" and 2: "init_plugins lib (wc_IPFSMode c) st1 = (Ok u, sp)"
    and 3: "or_fatal (io_lift (NewWatcher (cm_builder lib) c)) sp = (Ok w, sw)" and 4: "start_serve lib c w sw = (Ok fs, st2)"
    and 5: "start_sync lib c w (fst fs) st2 = (Ok syncers, st3)" and 6: "start_backFill lib c (fst fs) st3 = (Ok bf, st')"
    and 7: "ru = \<lparr>ru_watcher = w, ru_forward = fst fs, ru_backFill = fst bf, ru_processes = snd fs @ syncers @ snd bf\<rparr>"
    using assms unfolding watch_def case_prod_beta
    by (elim io_bind_Ok) (auto simp: cfg_return_Ok elim!: that)
  have sw: "sw = st1" using 2 3 by (auto simp: init_plugins_def or_fatal_Ok cfg_lift_Ok cfg_return_Ok split: if_splits)
  show ?thesis
    by (rule that [of c st1 w "snd fs" st2 syncers st3 "fst bf" "snd bf"]) (use 1 3 4 5 6 7 sw in \<open>simp_all add: or_fatal_Ok cfg_lift_Ok\<close>)
qed

lemma start_serve_pflags:
  "start_serve lib c w st = (Ok x, st') \<Longrightarrow> st' = st"
  "start_sync lib c w f st = (Ok y, st') \<Longrightarrow> st' = st"
  by (auto simp: start_serve_def start_sync_def cfg_Ok or_fatal_Ok split: if_splits)

lemma start_backFill_Ok:
  assumes "start_backFill lib c f st = (Ok (Some bf, ps), st')"
  obtains hc st1 where "historical_NewConfig (cm_config lib) st = (Ok hc, st1)" "NewBackFillService (cm_builder lib) hc = Ok bf"
  using assms by (auto simp: start_backFill_def cfg_Ok or_fatal_Ok split: if_splits)

lemma backFill_fits:
  assumes c: "watch_NewConfig (cm_config lib) st = (Ok c, st1)" and w: "NewWatcher (cm_builder lib) c = Ok w"
    and h: "historical_NewConfig (cm_config lib) st1 = (Ok hc, st2)" and b: "NewBackFillService (cm_builder lib) hc = Ok bf"
  shows "bf_chain bf = wt_chain w \<and> (\<forall>(l :: 'w chain_libs) raw d. call_Convert l (bf_Converter bf) raw = Ok d \<longrightarrow> converted_chain d = wt_chain w)
    \<and> (\<forall>p. wt_Publisher w = Some p \<longrightarrow> same_store p (bf_Publisher bf))"
proof -
  note pf = watch_NewConfig_pflags [OF c]
  have chain: "hc_Chain hc = wc_Chain c" using watch_NewConfig_reads(1) [OF c] historical_NewConfig_reads(1) [OF h] pf by simp
  have ipfs: "hc_IPFSMode hc = wc_IPFSMode c \<and> hc_IPFSPath hc = wc_IPFSPath c"
    using watch_NewConfig_reads(2) [OF c] historical_NewConfig_reads(2) [OF h] ipfs_settings_pflags [OF pf, of "cm_config lib"] by simp
  have parts: "bf_chain bf = hc_Chain hc" "NewPayloadConverter (hc_Chain hc) = Ok (bf_Converter bf)"
    "NewIPLDPublisher (cm_builder lib) (hc_Chain hc) (hc_IPFSPath hc) (hc_DB hc) (hc_IPFSMode hc) = Ok (bf_Publisher bf)"
    using b by (auto simp: NewBackFillService_def)
  note built = NewWatcher_parts [OF w]
  have "converted_chain d = wc_Chain c" if "call_Convert l (bf_Converter bf) raw = Ok d" for l :: "'w chain_libs" and raw d
    using Convert_typed [OF parts(2) that] chain by simp
  moreover have "same_store p (bf_Publisher bf)" if "wt_Publisher w = Some p" for p
    using built that parts(3) chain ipfs NewIPLDPublisher_same_store by auto
  moreover have "bf_chain bf = wt_chain w" "wt_chain w = wc_Chain c" using built parts(1) chain by simp_all
  ultimately show ?thesis by simp
qed


definition sample_cmd :: "(string \<rightharpoonup> string) \<Rightarrow> cmd_lib" where
  "sample_cmd file = \<lparr>cm_config = sample_config_lib file, cm_builder = sample_builder, cm_InitIPFSPlugins = Ok (), cm_StartEndpoint = (\<lambda>_. Ok ()),
     cm_Stream = (\<lambda>_. Ok ())\<rparr>"

definition full_file :: "string \<rightharpoonup> string" where
  "full_file = sample_file(''superNode.backFill'' \<mapsto> ''true'')"

text \<open>With direct Postgres, and when nothing that is started fails, the command comes up.\<close>

lemma watch_comes_up:
  assumes "watch_NewConfig (cm_config lib) st = (Ok c, st1)" "NewWatcher (cm_builder lib) c = Ok w" "wc_IPFSMode c = DirectPostgres"
    and ends: "\<And>p. cm_StartEndpoint lib p = Ok ()" and streams: "\<And>s. cm_Stream lib s = Ok ()"
    and "historical_NewConfig (cm_config lib) st1 = (Ok hc, st2)" "NewBackFillService (cm_builder lib) hc = Ok bf" "wc_Historical c"
  shows "\<exists>ru st'. watch lib st = (Ok ru, st') \<and> ru_watcher ru = w \<and> ru_backFill ru = Some bf
    \<and> ru_forward ru = (if wc_Serve c then Some PayloadChanBufferSize else None) \<and> BackFillLoop (ru_forward ru) \<in> set (ru_processes ru)"
proof -
  let ?fwd = "if wc_Serve c then Some PayloadChanBufferSize else None"
  have 1: "or_fatal (watch_NewConfig (cm_config lib)) st = (Ok c, st1)" "init_plugins lib (wc_IPFSMode c) st1 = (Ok (), st1)"
    "or_fatal (io_lift (NewWatcher (cm_builder lib) c)) st1 = (Ok w, st1)"
    using assms(1,2,3) by (simp_all add: or_fatal_Ok init_plugins_def io_return_def io_lift_def)
  obtain servers where 2: "start_serve lib c w st1 = (Ok (?fwd, servers), st1)"
    by (cases "wc_Serve c") (auto simp: start_serve_def startServers_def Let_def ends io_bind_def io_lift_def io_return_def or_fatal_def)
  have "wt_Streamer w \<noteq> None" if "wc_Sync c"
    using assms(2) that by (cases "wc_Serve c") (auto simp: NewWatcher_def sync_parts_def serve_parts_def)
  then obtain syncers where 3: "start_sync lib c w ?fwd st1 = (Ok syncers, st1)"
    by (cases "wc_Sync c") (auto simp: start_sync_def Sync_def streams io_lift_def io_return_def or_fatal_def)
  have 4: "start_backFill lib c ?fwd st1 = (Ok (Some bf, [BackFillLoop ?fwd]), st2)"
    using assms(6,7,8) by (simp add: start_backFill_def io_bind_def io_lift_def io_return_def or_fatal_def)
  have "watch lib st = (Ok \<lparr>ru_watcher = w, ru_forward = ?fwd, ru_backFill = Some bf, ru_processes = servers @ syncers @ [BackFillLoop ?fwd]\<rparr>, st2)"
    unfolding watch_def by (simp only: io_bind_eq 1 2 3 4 prod.case) (simp add: io_return_def)
  then show ?thesis by simp
qed

definition fits_sample :: "watch_config \<Rightarrow> bool" where
  "fits_sample c \<longleftrightarrow> wc_Chain c = Bitcoin \<and> wc_IPFSMode c = DirectPostgres \<and> wc_Serve c \<and> wc_Historical c"

definition returns :: "'a cfg \<Rightarrow> bool" where
  "returns m \<longleftrightarrow> (\<forall>st. \<exists>x st'. m st = (Ok x, st'))"

named_theorems returns_rules \<open>compositional rules for \<open>returns\<close>\<close>

lemma returns_bind [returns_rules]: "returns m \<Longrightarrow> (\<And>x. returns (f x)) \<Longrightarrow> returns (io_bind m f)"
  unfolding returns_def by (metis io_bind_eq)

lemma returns_basic [returns_rules]: "returns (io_return x)" "returns (BindEnvs ks)" "returns (viper_Get lib f k)" "returns (io_lift (Ok y))"
  by (simp_all add: returns_def io_return_def BindEnvs_def viper_Get_def io_lift_def)

lemma returns_if [returns_rules]: "returns m \<Longrightarrow> returns n \<Longrightarrow> returns (if b then m else n)"
  by simp

lemma returns_pair [returns_rules]: "(\<And>a b. returns (f a b)) \<Longrightarrow> returns (case x of (a, b) \<Rightarrow> f a b)"
  by (cases x) simp

lemma returns_LoadPostgres [returns_rules]: "returns (LoadPostgres (sample_config_lib file) c n)"
  unfolding returns_def
proof
  fix st show "\<exists>x st'. LoadPostgres (sample_config_lib file) c n st = (Ok x, st')"
    by (cases "upsert_node n st") (simp add: LoadPostgres_def NewDB_def CreateNode_def sample_config_lib_def io_bind_def io_lift_def)
qed

lemma sample_historical:
  assumes "file ''superNode.chain'' = Some ''bitcoin''" "file ''ipfs.mode'' = None"
  shows "\<exists>hc st2. historical_NewConfig (sample_config_lib file) st = (Ok hc, st2) \<and> hc_Chain hc = Bitcoin \<and> hc_IPFSMode hc = DirectPostgres
    \<and> (\<exists>conn. hc_HTTPClient hc = BtcConn conn)"
proof -
  let ?lib = "sample_config_lib file"
  have name: "NewChainType ''bitcoin'' = Ok Bitcoin" by code_simp
  have str: "viper_Get ?lib vp_String k st = (Ok (case file k of Some t \<Rightarrow> t | None \<Rightarrow> []), st)" for k st
    by (cases "cs_pflags st k") (simp_all add: viper_Get_def sample_config_lib_def)
  have ipfs: "ipfs_settings ?lib st = (Ok (DirectPostgres, []), st\<lparr>cs_env := (cs_env st)(''ipfs.mode'' \<mapsto> ''IPFS_MODE'')\<rparr>)" for st
    by (simp add: ipfs_settings_def GetIPFSMode_def io_bind_def BindEnvs_def io_return_def str assms(2))
  have init: "returns (historical_init ?lib c)" if "hc_Chain c = Bitcoin" for c
    unfolding historical_init_def node_client_def that ChainType.case GetBtcNodeAndClient_def historical_overrideDBConnConfig_def override_conns_def prod.case
    by (intro returns_rules)
  have db: "returns (Database_Init ?lib)" unfolding Database_Init_def by (intro returns_rules)
  obtain hc st2 where run: "historical_NewConfig ?lib st = (Ok hc, st2)"
    using db init unfolding returns_def historical_NewConfig_def
    by (simp add: io_bind_def BindEnvs_def str assms(1) io_lift_def name ipfs) (metis (no_types, lifting) case_prod_conv historical_config.select_convs(1) outcome.case(1))
  have "hc_Chain hc = Bitcoin" "hc_IPFSMode hc = DirectPostgres"
    using historical_NewConfig_reads [OF run] ipfs [of st] str [of "''superNode.chain''" st] assms(1) name
    by (auto simp: chain_setting_def sample_config_lib_def split: option.splits)
  with historical_NewConfig_ok [OF run] run show ?thesis by (auto simp: client_chain_def)
qed

lemma sample_comes_up:
  assumes "case fst (watch_NewConfig (sample_config_lib file) start_state) of Ok c \<Rightarrow> fits_sample c \<and> wc_Sync c = sync | _ \<Rightarrow> False"
    and "file ''superNode.chain'' = Some ''bitcoin''" "file ''ipfs.mode'' = None"
  obtains ru st' bf where "watch (sample_cmd file) start_state = (Ok ru, st')" "ru_backFill ru = Some bf" "ru_forward ru = Some PayloadChanBufferSize"
    "wt_chain (ru_watcher ru) = Bitcoin" "wt_Filterer (ru_watcher ru) \<noteq> None \<longleftrightarrow> sync" "BackFillLoop (Some PayloadChanBufferSize) \<in> set (ru_processes ru)"
proof -
  obtain c st1 where c: "watch_NewConfig (sample_config_lib file) start_state = (Ok c, st1)" and fits: "fits_sample c" "wc_Sync c = sync"
    using assms(1) by (cases "watch_NewConfig (sample_config_lib file) start_state") (auto split: outcome.splits)
  obtain hc st2 conn where h: "historical_NewConfig (sample_config_lib file) st1 = (Ok hc, st2)" and hc: "hc_Chain hc = Bitcoin" "hc_IPFSMode hc = DirectPostgres"
    "hc_HTTPClient hc = BtcConn conn" using sample_historical [OF assms(2,3), of st1] by blast
  have "\<exists>w. NewWatcher sample_builder c = Ok w"
    using NewWatcher_builds [OF watch_NewConfig_well [OF c]] fits by (simp add: fits_sample_def sample_builder_def)
  then obtain w where w: "NewWatcher sample_builder c = Ok w" by blast
  obtain bf where bf: "NewBackFillService sample_builder hc = Ok bf"
    using hc by (auto simp: NewBackFillService_def NewIPLDPublisher_def NewCIDIndexer_def NewPayloadConverter_def NewCIDRetriever_def
      NewPaylaodFetcher_def sample_builder_def)
  have "\<exists>ru st'. watch (sample_cmd file) start_state = (Ok ru, st') \<and> ru_watcher ru = w \<and> ru_backFill ru = Some bf
      \<and> ru_forward ru = (if wc_Serve c then Some PayloadChanBufferSize else None) \<and> BackFillLoop (ru_forward ru) \<in> set (ru_processes ru)"
    by (rule watch_comes_up [of _ _ c st1 w hc st2]) (use c h w bf fits in \<open>simp_all add: sample_cmd_def fits_sample_def\<close>)
  then show ?thesis using NewWatcher_parts [OF w] fits that by (auto simp: fits_sample_def)
qed

lemma full_config: "case fst (watch_NewConfig (sample_config_lib full_file) start_state) of Ok c \<Rightarrow> fits_sample c \<and> wc_Sync c = True | _ \<Rightarrow> False"
  by code_simp


text \<open>
  Nothing keeps the command from serving without syncing: the watcher that comes up then has no filterer, and the back-fill forwards its payloads to a server
  that panics on the first of them.
\<close>

definition serve_only_file :: "string \<rightharpoonup> string" where
  "serve_only_file = full_file(''superNode.sync'' := None)"

lemma serve_only_config:
  "case fst (watch_NewConfig (sample_config_lib serve_only_file) start_state) of Ok c \<Rightarrow> fits_sample c \<and> wc_Sync c = False | _ \<Rightarrow> False"
  by code_simp

lemma serve_without_sync_comes_up:
  "\<exists>ru. fst (watch (sample_cmd serve_only_file) start_state) = Ok ru \<and> wt_Filterer (ru_watcher ru) = None
     \<and> BackFillLoop (ru_forward ru) \<in> set (ru_processes ru)"
proof -
  obtain ru st' bf where "watch (sample_cmd serve_only_file) start_state = (Ok ru, st')" "ru_forward ru = Some PayloadChanBufferSize"
    "wt_Filterer (ru_watcher ru) \<noteq> None \<longleftrightarrow> False" "BackFillLoop (Some PayloadChanBufferSize) \<in> set (ru_processes ru)"
    by (rule sample_comes_up [OF serve_only_config]) (simp_all add: serve_only_file_def full_file_def sample_file_def)
  then show ?thesis by (intro exI [of _ ru]) simp
qed

end
