(* ===== verification/Watch_Api.thy ===== *)
theory Watch_Api
  imports Watch_Serve Watch_Sync "HOL-Library.Sublist"
begin

text \<open>
  \<open>watch/api.go\<close>: the RPC method \<open>Stream\<close>, which decodes a client's settings, creates a subscription and starts
  a relay, the goroutine that subscribes to the service and passes the packets on to the client. The relays run beside
  the service and each other, one loop turn per step; subscribing is a goroutine of its own, which may run late.
  Shown: the composed system refines the transition system of the service, and who is
  registered with the service, when.
\<close>

subsection \<open>Starting a stream\<close>

text \<open>\<open>rlp.DecodeBytes\<close> for the settings of either chain, and \<open>rpc.NotifierFromContext\<close>, are parameters.\<close>

record api_lib =
  ap_DecodeEth :: "bytes \<Rightarrow> SubscriptionSettings outcome"
  ap_DecodeBtc :: "bytes \<Rightarrow> BtcSubscriptionSettings outcome"
  ap_supported :: bool

definition decode_params :: "api_lib \<Rightarrow> ChainType \<Rightarrow> bytes \<Rightarrow> Settings outcome" where
  "decode_params lib chain rlpParams =
     (case chain of
        Ethereum \<Rightarrow> outcome_bind (ap_DecodeEth lib rlpParams) (\<lambda>s. Ok (EthSettings s))
      | Bitcoin \<Rightarrow> outcome_bind (ap_DecodeBtc lib rlpParams) (\<lambda>s. Ok (BtcSettings s))
      | _ \<Rightarrow> Panic ''SuperNode is not configured for a specific chain type'')"

text \<open>
  A relay: its subscription id, the number of its two channels in the store of the service, the decoded settings, whether \<open>Subscribe\<close>
  has run, how far it is, and the packets that were passed to the client. A relay that ended by unsubscribing
  remembers whether it was subscribed by then.
\<close>

datatype relay_status = Relaying | Unsubscribed bool | QuitReceived

record relay =
  rl_ID :: rpcID
  rl_chan :: nat
  rl_params :: Settings
  rl_subscribed :: bool
  rl_status :: relay_status
  rl_sent :: "SubscriptionPayload list"

definition Stream :: "api_lib \<Rightarrow> ChainType \<Rightarrow> rpcID \<Rightarrow> nat \<Rightarrow> bytes \<Rightarrow> relay outcome" where
  "Stream lib chain uid c rlpParams =
     outcome_bind (decode_params lib chain rlpParams) (\<lambda>params.
       if \<not> ap_supported lib then Err (Errorf ''notifications not supported'' [])
       else Ok \<lparr>rl_ID = uid, rl_chan = c, rl_params = params, rl_subscribed = False, rl_status = Relaying, rl_sent = []\<rparr>)"

subsection \<open>The relay loop\<close>

text \<open>What a turn of the loop receives: a packet, which the notifier takes or refuses; the error of the RPC subscription; the quit token.\<close>

datatype relay_event = Packet bool | ClientError | QuitToken

definition take_packet :: "nat \<Rightarrow> watch_state \<Rightarrow> watch_state" where
  "take_packet c st = st\<lparr>w_payloads := (w_payloads st)(c := (w_payloads st c)\<lparr>ch_buf := tl (ch_buf (w_payloads st c))\<rparr>)\<rparr>"

definition take_quit :: "nat \<Rightarrow> watch_state \<Rightarrow> watch_state" where
  "take_quit c st = st\<lparr>w_quits := (w_quits st)(c := (w_quits st c)\<lparr>ch_buf := tl (ch_buf (w_quits st c))\<rparr>)\<rparr>"

definition leave :: "relay \<Rightarrow> watch_state \<Rightarrow> relay \<times> watch_state" where
  "leave r st = (r\<lparr>rl_status := Unsubscribed (rl_subscribed r)\<rparr>, Unsubscribe (rl_ID r) st)"

definition relay_turn :: "relay_event \<Rightarrow> relay \<Rightarrow> watch_state \<Rightarrow> (relay \<times> watch_state) option" where
  "relay_turn ev r st =
     (if rl_status r \<noteq> Relaying then None
      else case ev of
        Packet ok \<Rightarrow>
          (case ch_buf (w_payloads st (rl_chan r)) of
             [] \<Rightarrow> None
           | p # _ \<Rightarrow>
               if ok then Some (r\<lparr>rl_sent := rl_sent r @ [p]\<rparr>, take_packet (rl_chan r) st)
               else Some (leave r (take_packet (rl_chan r) st)))
      | ClientError \<Rightarrow> Some (leave r st)
      | QuitToken \<Rightarrow>
          (case ch_buf (w_quits st (rl_chan r)) of
             [] \<Rightarrow> None
           | _ # _ \<Rightarrow> Some (r\<lparr>rl_status := QuitReceived\<rparr>, take_quit (rl_chan r) st)))"

subsection \<open>Service and relays together\<close>

record api_state =
  as_watch :: watch_state
  as_relays :: "relay list"

text \<open>
  Ids are unique (\<open>CreateSubscription\<close> draws them at random), and the channels of a relay are new ones: empty, with room for
  2000 packets and for one quit token.
\<close>

inductive api_step :: "'cids services \<Rightarrow> api_lib \<Rightarrow> api_state \<Rightarrow> api_state \<Rightarrow> bool" for sv lib where
  stream: "Stream lib (sv_chain sv) uid (length (as_relays s)) rlpParams = Ok r \<Longrightarrow> uid \<notin> rl_ID ` set (as_relays s) \<Longrightarrow>
    api_step sv lib s (s\<lparr>as_relays := as_relays s @ [r]\<rparr>)"
| subscribe: "i < length (as_relays s) \<Longrightarrow> r = as_relays s ! i \<Longrightarrow> \<not> rl_subscribed r \<Longrightarrow>
    Subscribe sv (rl_ID r) (rl_chan r) (rl_chan r) (rl_params r) (as_watch s) = Ok w \<Longrightarrow>
    api_step sv lib s (s\<lparr>as_watch := w, as_relays := (as_relays s)[i := r\<lparr>rl_subscribed := True\<rparr>]\<rparr>)"
| turn: "i < length (as_relays s) \<Longrightarrow> relay_turn ev (as_relays s ! i) (as_watch s) = Some (r, w) \<Longrightarrow>
    api_step sv lib s (s\<lparr>as_watch := w, as_relays := (as_relays s)[i := r]\<rparr>)"
| serve: "filterAndServe sv payload (as_watch s) = Ok w \<Longrightarrow> api_step sv lib s (s\<lparr>as_watch := w\<rparr>)"
| stop: "Stop (as_watch s) = Ok w \<Longrightarrow> api_step sv lib s (s\<lparr>as_watch := w\<rparr>)"
| feed: "w_feeds (as_watch s) = as @ fd # bs \<Longrightarrow> feedTurn sv fd (as_watch s) = Ok (r, w) \<Longrightarrow>
    api_step sv lib s (s\<lparr>as_watch := w\<lparr>w_feeds := as @ (case r of None \<Rightarrow> [] | Some f \<Rightarrow> [f]) @ bs\<rparr>\<rparr>)"

inductive_cases api_stepE: "api_step sv lib s s'"

definition api_init :: "api_state \<Rightarrow> bool" where
  "api_init s \<longleftrightarrow> fresh_service (as_watch s) \<and> as_relays s = []
     \<and> (\<forall>c. ch_cap (w_payloads (as_watch s) c) = PayloadChanBufferSize \<and> ch_cap (w_quits (as_watch s) c) = 1)"

inductive api_reachable :: "'cids services \<Rightarrow> api_lib \<Rightarrow> api_state \<Rightarrow> bool" for sv lib where
  init: "api_init s \<Longrightarrow> api_reachable sv lib s"
| step: "api_reachable sv lib s \<Longrightarrow> api_step sv lib s s' \<Longrightarrow> api_reachable sv lib s'"

subsection \<open>The system refines the service\<close>

text \<open>A turn of a relay is at most a receive on one of its channels followed by unsubscribing.\<close>

lemma relay_turn_steps:
  assumes "relay_turn ev r st = Some (r', w)"
  shows "(watch_step sv)\<^sup>*\<^sup>* st w"
proof -
  have pack: "watch_step sv st (take_packet c st)" if "ch_buf (w_payloads st c) = p # rest" for c p rest
    using watch_step.relay [OF that, of sv] that by (simp add: take_packet_def)
  have quit: "watch_step sv st (take_quit c st)" if "ch_buf (w_quits st c) = b # rest" for c b rest
    using watch_step.quit [OF that, of sv] that by (simp add: take_quit_def)
  have unsub: "watch_step sv a (snd (leave r a))" for a
    by (simp add: leave_def watch_step.unsubscribe)
  have leave: "(watch_step sv)\<^sup>*\<^sup>* st (snd (leave r a))" if "(watch_step sv)\<^sup>*\<^sup>* st a" for a
    using that unsub by (rule rtranclp.rtrancl_into_rtrancl)
  have w: "w = snd (r', w)" by simp
  show ?thesis
  proof (cases ev)
    case (Packet ok)
    with assms obtain p rest where "ch_buf (w_payloads st (rl_chan r)) = p # rest"
      and "(r', w) = (if ok then (r\<lparr>rl_sent := rl_sent r @ [p]\<rparr>, take_packet (rl_chan r) st) else leave r (take_packet (rl_chan r) st))"
      by (auto simp: relay_turn_def split: if_splits list.splits)
    then show ?thesis using pack leave w by (metis (no_types, lifting) r_into_rtranclp snd_conv)
  next
    case ClientError
    with assms have "(r', w) = leave r st" by (auto simp: relay_turn_def split: if_splits)
    then show ?thesis using leave w by (metis rtranclp.rtrancl_refl)
  next
    case QuitToken
    with assms obtain b rest where "ch_buf (w_quits st (rl_chan r)) = b # rest" "w = take_quit (rl_chan r) st"
      by (auto simp: relay_turn_def split: if_splits list.splits)
    then show ?thesis using quit by blast
  qed
qed

lemma api_step_watch:
  assumes "api_step sv lib s s'"
  shows "(watch_step sv)\<^sup>*\<^sup>* (as_watch s) (as_watch s')"
  using assms
proof (cases rule: api_step.cases)
  case (turn i ev r w)
  then show ?thesis using relay_turn_steps by simp
qed (auto intro: watch_step.intros)

lemma watch_steps_reachable: "(watch_step sv)\<^sup>*\<^sup>* st st' \<Longrightarrow> watch_reachable sv st \<Longrightarrow> watch_reachable sv st'"
  by (induction rule: rtranclp_induct) (auto intro: watch_reachable.step)

lemma api_refines: "api_reachable sv lib s \<Longrightarrow> watch_reachable sv (as_watch s)"
proof (induction rule: api_reachable.induct)
  case (init s)
  then show ?case by (simp add: api_init_def watch_reachable.init)
next
  case (step s s')
  from watch_steps_reachable [OF api_step_watch [OF step.hyps(2)] step.IH] show ?case .
qed

subsection \<open>Who is registered\<close>

definition registered :: "watch_state \<Rightarrow> rpcID \<Rightarrow> Subscription \<Rightarrow> bool" where
  "registered st uid sub \<longleftrightarrow> (\<exists>ty subs. map_of (w_Subscriptions st) ty = Some subs \<and> map_of subs uid = Some sub)"

definition forgets :: "watch_state \<Rightarrow> watch_state \<Rightarrow> bool" where
  "forgets st st' \<longleftrightarrow> (\<forall>uid sub. registered st' uid sub \<longrightarrow> registered st uid sub)"

lemma registered_cong: "w_Subscriptions a = w_Subscriptions b \<Longrightarrow> registered a uid sub \<longleftrightarrow> registered b uid sub"
  by (simp add: registered_def)

lemma forgets_same: "w_Subscriptions st' = w_Subscriptions st \<Longrightarrow> forgets st st'"
  by (simp add: forgets_def registered_def)

lemma forgets_trans: "forgets a b \<Longrightarrow> forgets b c \<Longrightarrow> forgets a c"
  by (simp add: forgets_def)

lemma forgets_delete: "forgets st (delete_type ty st)"
  by (auto simp: forgets_def registered_def delete_type_maps split: if_splits)

lemma forgets_closeType: "forgets st (closeType ty st)"
  unfolding closeType_def by (rule forgets_trans [OF forgets_same forgets_delete]) simp

lemma forgets_serve:
  assumes "filterAndServe sv payload st = Ok st'"
  shows "forgets st st'"
proof -
  have turn: "forgets a b" if "serveType sv payload i x a = Ok b" for i x a b
  proof (cases "map_of (w_SubscriptionTypes a) (fst x)")
    case None
    with that have "b = closeType (fst x) a" by (auto simp: serveType_def split: prod.splits)
    then show ?thesis by (simp add: forgets_closeType)
  next
    case (Some params)
    from that have "serveType sv payload i (fst x, snd x) a = Ok b" by simp
    from serveType_cases [OF this Some] show ?thesis
      by (auto intro: forgets_closeType forgets_same dest: deliver_loop_maps)
  qed
  show ?thesis
    using assms unfolding filterAndServe_def
    by (rule for_range_inv [where P = "forgets st"]) (auto intro: forgets_same forgets_trans turn)
qed

lemma forgets_Stop: "Stop st = Ok st' \<Longrightarrow> forgets st st'"
proof -
  have "forgets a (fold (\<lambda>(subType, subs) st. delete_type subType (fold (\<lambda>(uid, sub). sendNonBlockingQuit sub) subs st)) xs a)" for xs a
  proof (induction xs arbitrary: a)
    case (Cons x xs)
    have "forgets a (delete_type (fst x) (fold (\<lambda>(uid, sub). sendNonBlockingQuit sub) (snd x) a))"
      by (rule forgets_trans [OF forgets_same forgets_delete]) simp
    from forgets_trans [OF this Cons.IH] show ?case by (cases x) simp
  qed (simp add: forgets_same)
  then show "Stop st = Ok st' \<Longrightarrow> forgets st st'"
    unfolding Stop_def close_all_def
    by (auto split: if_splits intro!: forgets_trans [OF forgets_same [of "st\<lparr>w_QuitClosed := True\<rparr>" st]])
qed

lemma Subscribe_registers:
  assumes "Subscribe sv uid p q params st = Ok st'" "registered st' u sub"
  shows "registered st u sub \<or> u = uid \<and> sub = \<lparr>sub_ID = uid, sub_PayloadChan = p, sub_QuitChan = q\<rparr>"
proof -
  let ?sub = "\<lparr>sub_ID = uid, sub_PayloadChan = p, sub_QuitChan = q\<rparr>"
  have "w_Subscriptions st' = w_Subscriptions st
      \<or> (\<exists>by. w_Subscriptions st' = w_Subscriptions (register (sv_Keccak256Hash sv by) uid ?sub params st))"
    using assms(1) by (auto simp: Subscribe_def Let_def sendHistoricalData_def split: if_splits outcome.splits)
  moreover have "registered st u sub \<or> u = uid \<and> sub = ?sub" if "registered (register ty uid ?sub params st) u sub" for ty
    using that unfolding registered_def register_maps
    by (auto simp: update_conv' lookup_subs_def split: if_splits option.splits)
  ultimately show ?thesis using assms(2) registered_cong by metis
qed

lemma Unsubscribe_registered:
  assumes "subs_inv sv st" "registered (Unsubscribe uid st) u sub"
  shows "registered st u sub \<and> u \<noteq> uid"
proof -
  obtain ty subs where new: "map_of (w_Subscriptions (Unsubscribe uid st)) ty = Some subs" "map_of subs u = Some sub"
    using assms(2) by (auto simp: registered_def)
  note fold = unsubscribe_fold [OF subs_inv_dom(1) [OF assms(1)], of uid st ty]
  show ?thesis
  proof (cases "map_of (w_Subscriptions st) ty")
    case None
    then have "ty \<notin> fst ` set (w_Subscriptions st)" by (simp add: map_of_eq_None_iff)
    with None fold new show ?thesis by (simp add: Unsubscribe_def)
  next
    case (Some old)
    then have "ty \<in> fst ` set (w_Subscriptions st)" by (force dest: map_of_SomeD)
    with Some fold new have "subs = AList.delete uid old"
      by (auto simp: Unsubscribe_def lookup_subs_def Let_def split: if_splits)
    with new Some show ?thesis by (auto simp: registered_def delete_conv' split: if_splits)
  qed
qed

text \<open>
  What holds of the relays: ids and channels are their own; whoever is registered is a subscribed relay with its own channel, and
  not one that unsubscribed when it left.
\<close>

definition relays_ok :: "relay list \<Rightarrow> bool" where
  "relays_ok rs \<longleftrightarrow> distinct (map rl_ID rs) \<and> (\<forall>i < length rs. rl_chan (rs ! i) = i)"

definition serves :: "relay \<Rightarrow> rpcID \<Rightarrow> Subscription \<Rightarrow> bool" where
  "serves r uid sub \<longleftrightarrow> rl_ID r = uid \<and> sub = \<lparr>sub_ID = uid, sub_PayloadChan = rl_chan r, sub_QuitChan = rl_chan r\<rparr>
     \<and> rl_subscribed r \<and> rl_status r \<noteq> Unsubscribed True"

definition served_by :: "relay list \<Rightarrow> watch_state \<Rightarrow> bool" where
  "served_by rs st \<longleftrightarrow> (\<forall>uid sub. registered st uid sub \<longrightarrow> (\<exists>r \<in> set rs. serves r uid sub))"

lemma ex_set_update:
  assumes "\<exists>x \<in> set xs. P x" "P (xs ! i) \<Longrightarrow> P y" "i < length xs"
  shows "\<exists>x \<in> set (xs[i := y]). P x"
proof -
  obtain j where j: "j < length xs" "P (xs ! j)" using assms(1) by (metis in_set_conv_nth)
  show ?thesis
  proof (cases "j = i")
    case True
    then show ?thesis using assms(2,3) j by (auto intro: set_update_memI)
  next
    case False
    then have "(xs[i := y]) ! j = xs ! j" by simp
    then show ?thesis using j by (metis length_list_update nth_mem)
  qed
qed

lemma all_set_update: "\<forall>x \<in> set xs. P x \<Longrightarrow> P y \<Longrightarrow> \<forall>x \<in> set (xs[i := y]). P x"
  using set_update_subset_insert [of xs i y] by auto

lemma served_by_forgets: "served_by rs st \<Longrightarrow> forgets st st' \<Longrightarrow> served_by rs st'"
  by (simp add: served_by_def forgets_def)

lemma relay_turn_cases:
  assumes "relay_turn ev r st = Some (r', w)"
  obtains (stays) "rl_status r = Relaying" "rl_status r' \<noteq> Unsubscribed True" "w_Subscriptions w = w_Subscriptions st"
  | (leaves) st1 where "rl_status r = Relaying" "w_Subscriptions st1 = w_Subscriptions st" "w_SubscriptionTypes st1 = w_SubscriptionTypes st"
      "w = Unsubscribe (rl_ID r) st1"
  using assms that(1) that(2) [of st] that(2) [of "take_packet (rl_chan r) st"]
  by (cases ev) (auto simp: relay_turn_def leave_def take_packet_def take_quit_def split: if_splits list.splits)

lemma relay_turn_keeps:
  assumes "relay_turn ev r st = Some (r', w)"
  shows "rl_ID r' = rl_ID r" "rl_chan r' = rl_chan r" "rl_subscribed r' = rl_subscribed r" "rl_params r' = rl_params r"
  using assms by (auto simp: relay_turn_def leave_def split: if_splits list.splits relay_event.splits)

lemma relays_ok_update:
  "relays_ok rs \<Longrightarrow> i < length rs \<Longrightarrow> rl_ID r = rl_ID (rs ! i) \<Longrightarrow> rl_chan r = rl_chan (rs ! i) \<Longrightarrow> relays_ok (rs[i := r])"
  by (auto simp: relays_ok_def nth_list_update map_update)
     (metis length_map list_update_id nth_map)

lemma served_by_subscribe:
  assumes "served_by rs st" "i < length rs" "r = rs ! i" "rl_status r \<noteq> Unsubscribed True"
    and "Subscribe sv (rl_ID r) (rl_chan r) (rl_chan r) params st = Ok w"
  shows "served_by (rs[i := r\<lparr>rl_subscribed := True\<rparr>]) w"
  unfolding served_by_def
proof (intro allI impI)
  fix u sub assume "registered w u sub"
  from Subscribe_registers [OF assms(5) this]
  consider (old) "registered st u sub" | (new) "u = rl_ID r" "sub = \<lparr>sub_ID = rl_ID r, sub_PayloadChan = rl_chan r, sub_QuitChan = rl_chan r\<rparr>"
    by blast
  then show "\<exists>r' \<in> set (rs[i := r\<lparr>rl_subscribed := True\<rparr>]). serves r' u sub"
  proof cases
    case old
    then have "\<exists>r \<in> set rs. serves r u sub" using assms(1) by (simp add: served_by_def)
    then show ?thesis by (rule ex_set_update) (use assms(2,3) in \<open>simp_all add: serves_def\<close>)
  next
    case new
    then have "serves (r\<lparr>rl_subscribed := True\<rparr>) u sub" using assms(4) by (simp add: serves_def)
    with assms(2) show ?thesis by (intro bexI [of _ "r\<lparr>rl_subscribed := True\<rparr>"] set_update_memI)
  qed
qed

lemma served_by_turn:
  assumes "served_by rs st" "subs_inv sv st" "i < length rs" "relay_turn ev (rs ! i) st = Some (r, w)"
  shows "served_by (rs[i := r]) w"
  unfolding served_by_def
proof (intro allI impI)
  fix u sub assume reg: "registered w u sub"
  note kept = relay_turn_keeps [OF assms(4)]
  have old: "registered st u sub \<and> (u = rl_ID r \<longrightarrow> rl_status r \<noteq> Unsubscribed True)"
    using assms(4)
  proof (cases rule: relay_turn_cases)
    case stays
    then show ?thesis using reg registered_cong by blast
  next
    case (leaves st1)
    have "subs_inv sv st1" using assms(2) leaves by (intro subs_inv_cong [of st1 st]) (simp_all add: same_maps_def)
    from Unsubscribe_registered [OF this] reg leaves have "registered st1 u sub" "u \<noteq> rl_ID (rs ! i)" by simp_all
    then show ?thesis using registered_cong [OF leaves(2)] kept(1) by blast
  qed
  then have "\<exists>r \<in> set rs. serves r u sub" using assms(1) by (simp add: served_by_def)
  then show "\<exists>r' \<in> set (rs[i := r]). serves r' u sub"
    by (rule ex_set_update) (use assms(3) old kept in \<open>auto simp: serves_def\<close>)
qed

definition left_subscribed :: "relay \<Rightarrow> bool" where
  "left_subscribed r \<longleftrightarrow> (rl_status r = Unsubscribed True \<longrightarrow> rl_subscribed r)"

lemma left_subscribed_step:
  assumes "api_step sv lib s s'" "\<forall>r \<in> set (as_relays s). left_subscribed r"
  shows "\<forall>r \<in> set (as_relays s'). left_subscribed r"
  using assms(1)
proof (cases rule: api_step.cases)
  case (stream uid rlpParams r)
  then have "left_subscribed r" by (auto simp: Stream_def left_subscribed_def split: if_splits)
  with stream assms(2) show ?thesis by auto
next
  case (subscribe i r w)
  have "left_subscribed (r\<lparr>rl_subscribed := True\<rparr>)" by (simp add: left_subscribed_def)
  with subscribe show ?thesis using all_set_update [OF assms(2)] by simp
next
  case (turn i ev r w)
  then have "left_subscribed r"
    by (auto simp: relay_turn_def leave_def left_subscribed_def split: if_splits list.splits relay_event.splits)
  with turn show ?thesis using all_set_update [OF assms(2)] by simp
qed (use assms(2) in simp_all)

lemma api_left_subscribed: "api_reachable sv lib s \<Longrightarrow> \<forall>r \<in> set (as_relays s). left_subscribed r"
proof (induction rule: api_reachable.induct)
  case (step s s')
  from left_subscribed_step [OF step.hyps(2) step.IH] show ?case .
qed (simp add: api_init_def)

lemma api_served: "api_reachable sv lib s \<Longrightarrow> relays_ok (as_relays s) \<and> served_by (as_relays s) (as_watch s)"
proof (induction rule: api_reachable.induct)
  case (init s)
  then show ?case by (simp add: api_init_def relays_ok_def served_by_def registered_def fresh_service_def)
next
  case (step s s')
  then have ok: "relays_ok (as_relays s)" and served: "served_by (as_relays s) (as_watch s)" by blast+
  have inv: "subs_inv sv (as_watch s)" by (rule subs_inv_reachable [OF api_refines [OF step.hyps(1)]])
  from step.hyps(2) show ?case
  proof (cases rule: api_step.cases)
    case (stream uid rlpParams r)
    then have "rl_ID r = uid" "rl_chan r = length (as_relays s)" by (auto simp: Stream_def split: if_splits)
    with stream ok served show ?thesis by (auto simp: relays_ok_def served_by_def nth_append less_Suc_eq)
  next
    case (subscribe i r w)
    have "rl_status r \<noteq> Unsubscribed True" using api_left_subscribed [OF step.hyps(1)] subscribe by (auto simp: left_subscribed_def)
    with subscribe ok served show ?thesis by (auto intro!: served_by_subscribe relays_ok_update)
  next
    case (turn i ev r w)
    with relay_turn_keeps [OF turn(3)] ok served inv show ?thesis by (auto intro!: served_by_turn relays_ok_update)
  next
    case (serve payload w)
    with ok served show ?thesis by (auto intro: served_by_forgets forgets_serve)
  next
    case (stop w)
    with ok served show ?thesis by (auto intro: served_by_forgets forgets_Stop)
  next
    case (feed as fd bs r w)
    with feedTurn_same_maps [OF feed(3)] have "forgets (as_watch s) (as_watch s')" by (simp add: forgets_same same_maps_def)
    with feed ok served show ?thesis by (auto intro: served_by_forgets)
  qed
qed

subsection \<open>Packets stay in order\<close>

text \<open>The service only ever appends to the channels of subscribers.\<close>

definition grows :: "watch_state \<Rightarrow> watch_state \<Rightarrow> bool" where
  "grows st st' \<longleftrightarrow> (\<forall>c. prefix (ch_buf (w_payloads st c)) (ch_buf (w_payloads st' c)))"

lemma grows_same: "w_payloads st' = w_payloads st \<Longrightarrow> grows st st'"
  by (simp add: grows_def)

lemma grows_trans: "grows a b \<Longrightarrow> grows b c \<Longrightarrow> grows a c"
  unfolding grows_def using prefix_order.trans by blast

lemma grows_send: "grows st (send_payload sub p st)"
  using chan_offer_prefix by (auto simp: grows_def send_payload_def Let_def prefix_def)

lemma grows_sendErr: "grows st (sendNonBlockingErr sv sub e st)"
  by (simp add: sendNonBlockingErr_def grows_send)

lemma grows_sendErr_of: "w_payloads st' = w_payloads st \<Longrightarrow> grows st (sendNonBlockingErr sv sub e st')"
  by (rule grows_trans [OF grows_same grows_sendErr])

lemma delete_type_payloads [simp]: "w_payloads (delete_type ty st) = w_payloads st"
  by (simp add: delete_type_def)

lemma grows_for_range:
  assumes "for_range f i xs st = Ok st'" "\<And>j x a b. f j x a = Ok b \<Longrightarrow> grows a b"
  shows "grows st st'"
  using assms(1) by (rule for_range_inv [where P = "grows st"]) (auto intro: grows_same grows_trans assms(2))

lemma grows_serve: "filterAndServe sv payload st = Ok st' \<Longrightarrow> grows st st'"
proof -
  have deliver: "grows a b" if "deliver rlp resp j x a = Ok b" for rlp resp j x a b
    using that by (auto simp: deliver_def grows_send)
  have turn: "grows a b" if "serveType sv payload i x a = Ok b" for i x a b
  proof (cases "map_of (w_SubscriptionTypes a) (fst x)")
    case None
    with that have "b = closeType (fst x) a" by (auto simp: serveType_def split: prod.splits)
    then show ?thesis by (simp add: grows_same closeType_maps)
  next
    case (Some params)
    from that have "serveType sv payload i (fst x, snd x) a = Ok b" by simp
    from serveType_cases [OF this Some] show ?thesis
      by (auto intro: grows_same grows_for_range deliver simp: closeType_maps)
  qed
  show "filterAndServe sv payload st = Ok st' \<Longrightarrow> grows st st'"
    unfolding filterAndServe_def by (rule grows_for_range) (auto intro: turn)
qed

lemma grows_Stop: "Stop st = Ok st' \<Longrightarrow> grows st st'"
proof -
  have "w_payloads (fold (\<lambda>(subType, subs) st. delete_type subType (fold (\<lambda>(uid, sub). sendNonBlockingQuit sub) subs st)) xs a) = w_payloads a" for xs a
    by (rule fold_keeps) (simp split: prod.split)
  from this [of "w_Subscriptions st" "st\<lparr>w_QuitClosed := True\<rparr>"] show "Stop st = Ok st' \<Longrightarrow> grows st st'"
    unfolding Stop_def close_all_def by (auto split: if_splits intro!: grows_same)
qed

lemma Unsubscribe_payloads [simp]: "w_payloads (Unsubscribe uid st) = w_payloads st"
  unfolding Unsubscribe_def by (rule fold_keeps) (simp add: unsubscribe_type_def Let_def)

lemma grows_feed: "feedTurn sv fd st = Ok (r, st') \<Longrightarrow> grows st st'"
proof -
  have packet: "grows a b" if "historicalPacket sv i sub j c a = Ok b" for i sub j c a b
    using that by (cases "sv_Fetch sv")
      (auto simp: historicalPacket_def iface_def grows_send grows_sendErr grows_same split: outcome.split_asm)
  have packets: "grows a b" if "for_range (historicalPacket sv i sub) 0 xs a = Ok b" for i sub xs a b
    using that by (rule grows_for_range) (rule packet)
  have block: "grows a b" if "historicalBlock sv sub params i a = Ok b" for sub params i a b
    using that by (cases "sv_Retrieve sv")
      (auto simp: historicalBlock_def iface_def grows_sendErr grows_same dest: packets split: outcome.split_asm if_split_asm)
  show "feedTurn sv fd st = Ok (r, st') \<Longrightarrow> grows st st'"
    by (auto simp: feedTurn_def grows_send grows_same intro: block split: if_splits)
qed

lemma grows_sendQuit: "grows st (sendNonBlockingQuit sub st') \<longleftrightarrow> grows st st'"
  by (simp add: grows_def)

lemma grows_Subscribe: "Subscribe sv uid p q params st = Ok st' \<Longrightarrow> grows st st'"
  by (auto simp: Subscribe_def Let_def sendHistoricalData_def register_def grows_sendQuit grows_sendErr_of grows_same
      split: if_splits outcome.splits)

text \<open>What a client has been sent, followed by what waits for it.\<close>

definition stream_of :: "api_state \<Rightarrow> nat \<Rightarrow> SubscriptionPayload list" where
  "stream_of s i = rl_sent (as_relays s ! i) @ ch_buf (w_payloads (as_watch s) (rl_chan (as_relays s ! i)))"

definition keeps_stream :: "nat \<Rightarrow> api_state \<Rightarrow> api_state \<Rightarrow> bool" where
  "keeps_stream i s s' \<longleftrightarrow> i < length (as_relays s') \<and> rl_chan (as_relays s' ! i) = rl_chan (as_relays s ! i)
     \<and> prefix (rl_sent (as_relays s ! i)) (rl_sent (as_relays s' ! i))
     \<and> (rl_status (as_relays s' ! i) = Relaying \<longrightarrow> rl_status (as_relays s ! i) = Relaying \<and> prefix (stream_of s i) (stream_of s' i))"

lemma keeps_stream_grows:
  assumes "i < length (as_relays s)" "as_relays s' = as_relays s" "grows (as_watch s) (as_watch s')"
  shows "keeps_stream i s s'"
  using assms by (simp add: keeps_stream_def stream_of_def grows_def)

lemma keeps_stream_turn:
  assumes "relays_ok (as_relays s)" "j < length (as_relays s)" "relay_turn ev (as_relays s ! j) (as_watch s) = Some (r, w)" "i < length (as_relays s)"
  shows "keeps_stream i s (s\<lparr>as_watch := w, as_relays := (as_relays s)[j := r]\<rparr>)"
proof (cases "i = j")
  case True
  with assms(2,3) show ?thesis
    by (auto simp: keeps_stream_def stream_of_def relay_turn_def leave_def take_packet_def take_quit_def split: if_splits list.splits relay_event.splits)
next
  case False
  then have "rl_chan (as_relays s ! i) \<noteq> rl_chan (as_relays s ! j)" using assms(1,2,4) by (simp add: relays_ok_def)
  then have "w_payloads w (rl_chan (as_relays s ! i)) = w_payloads (as_watch s) (rl_chan (as_relays s ! i))"
    using assms(3) by (auto simp: relay_turn_def leave_def take_packet_def take_quit_def split: if_splits list.splits relay_event.splits)
  with False assms(4) show ?thesis by (simp add: keeps_stream_def stream_of_def)
qed

lemma api_step_stream:
  assumes "api_reachable sv lib s" "api_step sv lib s s'" "i < length (as_relays s)"
  shows "keeps_stream i s s'"
  using assms(2)
proof (cases rule: api_step.cases)
  case (stream uid rlpParams r)
  with assms(3) show ?thesis by (simp add: keeps_stream_def stream_of_def nth_append)
next
  case (subscribe j r w)
  from grows_Subscribe [OF subscribe(5)] have "grows (as_watch s) w" .
  with subscribe assms(3) show ?thesis by (cases "i = j") (auto simp: keeps_stream_def stream_of_def grows_def)
next
  case (turn j ev r w)
  with keeps_stream_turn [OF _ turn(2,3) assms(3)] api_served [OF assms(1)] show ?thesis by simp
next
  case (serve payload w)
  with assms(3) grows_serve show ?thesis by (intro keeps_stream_grows) simp_all
next
  case (stop w)
  with assms(3) grows_Stop show ?thesis by (intro keeps_stream_grows) simp_all
next
  case (feed as fd bs r w)
  with assms(3) grows_feed [OF feed(3)] show ?thesis by (intro keeps_stream_grows) (simp_all add: grows_def)
qed

lemma api_runs_stream:
  assumes "(api_step sv lib)\<^sup>*\<^sup>* s s'" "api_reachable sv lib s" "i < length (as_relays s)"
  shows "api_reachable sv lib s' \<and> keeps_stream i s s'"
  using assms(1)
proof (induction rule: rtranclp_induct)
  case base
  show ?case using assms(2,3) by (simp add: keeps_stream_def)
next
  case (step a b)
  then have "keeps_stream i a b" by (intro api_step_stream) (auto simp: keeps_stream_def)
  with step show ?case unfolding keeps_stream_def by (auto intro: api_reachable.step prefix_order.trans)
qed

subsection \<open>Properties\<close>


text \<open>
  C10. However the service, the feeds and the relays interleave: while a relay runs, what its client has been sent followed by what waits for it
  only ever grows at the end, so that no packet that entered its channel is lost, sent twice or overtaken; and what has been
  sent stays sent.
\<close>

theorem relay_keeps_order:
  assumes "api_reachable sv lib s" "(api_step sv lib)\<^sup>*\<^sup>* s s'" "i < length (as_relays s)"
  shows "prefix (rl_sent (as_relays s ! i)) (rl_sent (as_relays s' ! i))
    \<and> (rl_status (as_relays s' ! i) = Relaying \<longrightarrow> prefix (stream_of s i) (stream_of s' i))"
  using api_runs_stream [OF assms(2,1,3)] by (simp add: keeps_stream_def)

definition sample_api_lib :: api_lib where
  "sample_api_lib = \<lparr>ap_DecodeEth = (\<lambda>b. Ok (sample_settings 3 8)), ap_DecodeBtc = (\<lambda>b. Err (Errorf ''no btc'' [])), ap_supported = True\<rparr>"

definition sample_relay :: relay where
  "sample_relay = \<lparr>rl_ID = ''a'', rl_chan = 0, rl_params = EthSettings (sample_settings 3 8), rl_subscribed = False, rl_status = Relaying, rl_sent = []\<rparr>"

lemma sample_stream:
  assumes "sv_chain sv = Ethereum"
  shows "api_reachable sv sample_api_lib \<lparr>as_watch = sample_st0, as_relays = [sample_relay]\<rparr>"
proof -
  have "api_reachable sv sample_api_lib \<lparr>as_watch = sample_st0, as_relays = []\<rparr>"
    by (rule api_reachable.init) (simp add: api_init_def fresh_service_def sample_st0_def PayloadChanBufferSize_def)
  moreover have "api_step sv sample_api_lib \<lparr>as_watch = sample_st0, as_relays = []\<rparr> \<lparr>as_watch = sample_st0, as_relays = [sample_relay]\<rparr>"
    using api_step.stream [of sample_api_lib sv "''a''" "\<lparr>as_watch = sample_st0, as_relays = []\<rparr>" "[]" sample_relay] assms
    by (simp add: Stream_def decode_params_def sample_api_lib_def sample_relay_def)
  ultimately show ?thesis by (rule api_reachable.step)
qed


text \<open>A service that cannot encode settings sends the subscriber an error, which its relay passes on.\<close>

definition sample_refusing :: "unit services" where
  "sample_refusing = sample_service\<lparr>sv_EncodeSettings := (\<lambda>s. Err (Errorf ''rlp'' []))\<rparr>"

definition sample_error_packet :: SubscriptionPayload where
  "sample_error_packet = \<lparr>sp_Data = [], sp_Height = 0, sp_Err = ''error'', sp_Flag = EmptyFlag\<rparr>"

lemma sample_refused:
  "\<exists>w. Subscribe sample_refusing ''a'' 0 0 (EthSettings (sample_settings 3 8)) sample_st0 = Ok w \<and> ch_buf (w_payloads w 0) = [sample_error_packet]"
  by (simp add: Subscribe_def sample_refusing_def sample_service_def sendNonBlockingErr_def send_payload_def chan_offer_def sample_st0_def sample_error_packet_def)

theorem relay_keeps_order_witness:
  "\<exists>s s'. rl_sent (as_relays s ! 0) = [] \<and> stream_of s 0 = [sample_error_packet]
     \<and> rl_sent (as_relays s' ! 0) = [sample_error_packet] \<and> rl_status (as_relays s' ! 0) = Relaying \<and> prefix (stream_of s 0) (stream_of s' 0)"
proof -
  obtain w where w: "Subscribe sample_refusing ''a'' 0 0 (EthSettings (sample_settings 3 8)) sample_st0 = Ok w" "ch_buf (w_payloads w 0) = [sample_error_packet]"
    using sample_refused by blast
  let ?r = "sample_relay\<lparr>rl_subscribed := True\<rparr>" and ?r' = "sample_relay\<lparr>rl_subscribed := True, rl_sent := [sample_error_packet]\<rparr>"
  let ?s = "\<lparr>as_watch = w, as_relays = [?r]\<rparr>" and ?s' = "\<lparr>as_watch = take_packet 0 w, as_relays = [?r']\<rparr>"
  have "api_step sample_refusing sample_api_lib \<lparr>as_watch = sample_st0, as_relays = [sample_relay]\<rparr> ?s"
    using api_step.subscribe [of 0 "\<lparr>as_watch = sample_st0, as_relays = [sample_relay]\<rparr>" sample_relay sample_refusing w sample_api_lib] w(1)
    by (simp add: sample_relay_def)
  from api_reachable.step [OF sample_stream this] have r: "api_reachable sample_refusing sample_api_lib ?s"
    by (simp add: sample_refusing_def sample_service_def)
  have "relay_turn (Packet True) ?r w = Some (?r', take_packet 0 w)" by (simp add: relay_turn_def sample_relay_def w(2))
  then have "(api_step sample_refusing sample_api_lib)\<^sup>*\<^sup>* ?s ?s'"
    using api_step.turn [of 0 ?s "Packet True" ?r' "take_packet 0 w" sample_refusing sample_api_lib] by (intro r_into_rtranclp) simp
  from relay_keeps_order [OF r this, of 0]
  show ?thesis by (intro exI [of _ ?s] exI [of _ ?s']) (simp add: stream_of_def sample_relay_def w(2) take_packet_def)
qed

text \<open>
  Subscribing runs in a goroutine of its own. A relay whose client goes away first unsubscribes before it is subscribed,
  and leaves the late subscription registered for good, with nobody to receive its packets.
\<close>

lemma late_subscription_leaks:
  "\<exists>s. api_reachable sample_service sample_api_lib s \<and> rl_status (as_relays s ! 0) = Unsubscribed False \<and> registered (as_watch s) ''a'' sample_sub"
proof -
  let ?s0 = "\<lparr>as_watch = sample_st0, as_relays = [sample_relay]\<rparr>"
  let ?s1 = "\<lparr>as_watch = sample_st0, as_relays = [sample_relay\<lparr>rl_status := Unsubscribed False\<rparr>]\<rparr>"
  let ?s2 = "\<lparr>as_watch = sample_st1, as_relays = [sample_relay\<lparr>rl_status := Unsubscribed False, rl_subscribed := True\<rparr>]\<rparr>"
  have "relay_turn ClientError sample_relay sample_st0 = Some (sample_relay\<lparr>rl_status := Unsubscribed False\<rparr>, sample_st0)"
    by (simp add: relay_turn_def leave_def sample_relay_def Unsubscribe_def sample_st0_def)
  then have "api_step sample_service sample_api_lib ?s0 ?s1"
    using api_step.turn [of 0 ?s0 ClientError "sample_relay\<lparr>rl_status := Unsubscribed False\<rparr>" sample_st0 sample_service sample_api_lib] by simp
  from api_reachable.step [OF sample_stream this] have r1: "api_reachable sample_service sample_api_lib ?s1" by (simp add: sample_service_def)
  have "api_step sample_service sample_api_lib ?s1 ?s2"
    using api_step.subscribe [of 0 ?s1 "sample_relay\<lparr>rl_status := Unsubscribed False\<rparr>" sample_service sample_st1 sample_api_lib] sample_subscribe
    by (simp add: sample_relay_def)
  from api_reachable.step [OF r1 this] show ?thesis by (intro exI [of _ ?s2]) (auto simp: registered_def sample_st1_def)
qed

end
