(* ===== verification/Backfill_Stop.thy ===== *)
theory Backfill_Stop
  imports Backfill
begin

text \<open>
  Stopping the back-fill (\<open>historical/service.go\<close>, \<open>Stop\<close>) in the middle of a pass. \<open>Stop\<close> closes the quit channel, from which the
  dispatcher and the workers receive and on which the dispatcher sends. The dispatcher is modelled step by step: the
  \<open>select\<close> before a bin is sent, the blocking send, the quit signals. Shown: without a stop this is the pool of
  \<open>Worker_Pool\<close>; with one, every bin that was taken is still finished, and the pass ends in one of three ways.
\<close>

subsection \<open>The dispatcher\<close>

datatype dispatcher =
    Choosing
  | Offering
  | Quitting nat
  | PassOver
  | Returned
  | Crashed

record 's stop_pool =
  sp_pool :: "'s pool"
  sp_dispatcher :: dispatcher
  sp_closed :: bool

definition set_worker :: "nat \<Rightarrow> worker \<Rightarrow> 's stop_pool \<Rightarrow> 's stop_pool" where
  "set_worker w x p = p\<lparr>sp_pool := (sp_pool p)\<lparr>pl_workers := (pl_workers (sp_pool p))[w := x]\<rparr>\<rparr>"

definition worker_is :: "nat \<Rightarrow> worker \<Rightarrow> 's stop_pool \<Rightarrow> bool" where
  "worker_is w x p \<longleftrightarrow> w < length (pl_workers (sp_pool p)) \<and> pl_workers (sp_pool p) ! w = x"

text \<open>
  A closed channel can always be received from, and a send on it panics, which ends the program. The outer loop is left
  at its \<open>select\<close> when the channel is closed; it may as well take the next tick, so that a pass may begin with the channel closed.
\<close>

inductive stop_step ::
    "(u64 list \<Rightarrow> RawData list) \<Rightarrow> (RawData \<Rightarrow> 's \<Rightarrow> 's outcome) \<Rightarrow> 's stop_pool \<Rightarrow> 's stop_pool \<Rightarrow> bool" for fetch item where
  close: "sp_dispatcher p \<noteq> Crashed \<Longrightarrow> \<not> sp_closed p \<Longrightarrow> stop_step fetch item p (p\<lparr>sp_closed := True\<rparr>)"
| choose: "sp_dispatcher p = Choosing \<Longrightarrow> pl_pending (sp_pool p) \<noteq> [] \<Longrightarrow> \<not> sp_closed p \<Longrightarrow>
    stop_step fetch item p (p\<lparr>sp_dispatcher := Offering\<rparr>)"
| give_up: "sp_dispatcher p = Choosing \<Longrightarrow> pl_pending (sp_pool p) \<noteq> [] \<Longrightarrow> sp_closed p \<Longrightarrow>
    stop_step fetch item p (p\<lparr>sp_dispatcher := Returned\<rparr>)"
| offer: "sp_dispatcher p = Offering \<Longrightarrow> pl_pending (sp_pool p) = hs # rest \<Longrightarrow> hs \<noteq> [] \<Longrightarrow> worker_is w Idle p \<Longrightarrow>
    stop_step fetch item p (p\<lparr>sp_pool := (sp_pool p)\<lparr>pl_pending := rest,
      pl_workers := (pl_workers (sp_pool p))[w := Busy hs (fetch hs)]\<rparr>, sp_dispatcher := Choosing\<rparr>)"
| all_sent: "sp_dispatcher p = Choosing \<Longrightarrow> pl_pending (sp_pool p) = [] \<Longrightarrow>
    stop_step fetch item p (p\<lparr>sp_dispatcher := Quitting (length (pl_workers (sp_pool p)))\<rparr>)"
| send_quit: "sp_dispatcher p = Quitting (Suc k) \<Longrightarrow> \<not> sp_closed p \<Longrightarrow> worker_is w Idle p \<Longrightarrow>
    stop_step fetch item p ((set_worker w Gone p)\<lparr>sp_dispatcher := Quitting k\<rparr>)"
| crash: "sp_dispatcher p = Quitting (Suc k) \<Longrightarrow> sp_closed p \<Longrightarrow> stop_step fetch item p (p\<lparr>sp_dispatcher := Crashed\<rparr>)"
| pass_over: "sp_dispatcher p = Quitting 0 \<Longrightarrow> stop_step fetch item p (p\<lparr>sp_dispatcher := PassOver\<rparr>)"
| leave_loop: "sp_dispatcher p = PassOver \<Longrightarrow> sp_closed p \<Longrightarrow> stop_step fetch item p (p\<lparr>sp_dispatcher := Returned\<rparr>)"
| handle: "sp_dispatcher p \<noteq> Crashed \<Longrightarrow> worker_is w (Busy hs (x # xs)) p \<Longrightarrow> item x (pl_state (sp_pool p)) = Ok s \<Longrightarrow>
    stop_step fetch item p (p\<lparr>sp_pool := (sp_pool p)\<lparr>pl_workers := (pl_workers (sp_pool p))[w := Busy hs xs], pl_state := s\<rparr>\<rparr>)"
| finish: "sp_dispatcher p \<noteq> Crashed \<Longrightarrow> worker_is w (Busy hs []) p \<Longrightarrow>
    stop_step fetch item p (p\<lparr>sp_pool := (sp_pool p)\<lparr>pl_workers := (pl_workers (sp_pool p))[w := Idle], pl_done := pl_done (sp_pool p) @ [hs]\<rparr>\<rparr>)"
| worker_quit: "sp_dispatcher p \<noteq> Crashed \<Longrightarrow> sp_closed p \<Longrightarrow> worker_is w Idle p \<Longrightarrow> stop_step fetch item p (set_worker w Gone p)"

definition stop_start :: "u64 list list \<Rightarrow> nat \<Rightarrow> bool \<Rightarrow> 's \<Rightarrow> 's stop_pool" where
  "stop_start bins n closed s = \<lparr>sp_pool = pool_start bins n s, sp_dispatcher = Choosing, sp_closed = closed\<rparr>"

abbreviation stop_runs where
  "stop_runs fetch item \<equiv> (stop_step fetch item)\<^sup>*\<^sup>*"

subsection \<open>What every step does to the pool\<close>

fun dispatcher_ok :: "dispatcher \<Rightarrow> u64 list list \<Rightarrow> bool" where
  "dispatcher_ok Choosing pending \<longleftrightarrow> True"
| "dispatcher_ok Offering pending \<longleftrightarrow> pending \<noteq> []"
| "dispatcher_ok Returned pending \<longleftrightarrow> True"
| "dispatcher_ok _ pending \<longleftrightarrow> pending = []"

definition stop_inv :: "'s stop_pool \<Rightarrow> bool" where
  "stop_inv p \<longleftrightarrow> dispatcher_ok (sp_dispatcher p) (pl_pending (sp_pool p)) \<and> list_all (\<lambda>hs. hs \<noteq> []) (pl_pending (sp_pool p))
     \<and> (sp_dispatcher p = Crashed \<longrightarrow> sp_closed p)"

lemma stop_inv_step: "stop_step fetch item p q \<Longrightarrow> stop_inv p \<Longrightarrow> stop_inv q"
  by (induction rule: stop_step.induct) (auto simp: stop_inv_def set_worker_def)

lemma stop_inv_runs: "stop_runs fetch item p q \<Longrightarrow> stop_inv p \<Longrightarrow> stop_inv q"
  by (induction rule: rtranclp_induct) (auto intro: stop_inv_step)

lemma stop_inv_start: "list_all (\<lambda>hs. hs \<noteq> []) bins \<Longrightarrow> stop_inv (stop_start bins n closed s)"
  by (simp add: stop_inv_def stop_start_def pool_start_def)

text \<open>A step leaves the pool alone, is a step of the pool, or is a worker that leaves since the channel is closed.\<close>

definition idle_leaves :: "'s pool \<Rightarrow> 's pool \<Rightarrow> bool" where
  "idle_leaves p q \<longleftrightarrow> (\<exists>w < length (pl_workers p). pl_workers p ! w = Idle \<and> q = p\<lparr>pl_workers := (pl_workers p)[w := Gone]\<rparr>)"

lemma stop_step_pool:
  assumes "stop_step fetch item p q" "stop_inv p"
  shows "sp_pool q = sp_pool p \<or> pool_step fetch item (sp_pool p) (sp_pool q) \<or> sp_closed p \<and> idle_leaves (sp_pool p) (sp_pool q)"
  using assms
proof (induction rule: stop_step.induct)
  case (offer p hs rest w)
  then show ?case using pool_step.dispatch [of "sp_pool p" hs rest w fetch item] by (simp add: worker_is_def)
next
  case (send_quit p k w)
  then show ?case using pool_step.quit [of "sp_pool p" w fetch item] by (simp add: worker_is_def set_worker_def stop_inv_def)
next
  case (handle p w hs x xs s)
  then show ?case using pool_step.handle [of w "sp_pool p" hs x xs item s fetch] by (simp add: worker_is_def)
next
  case (finish p w hs)
  then show ?case using pool_step.finish [of w "sp_pool p" hs fetch item] by (simp add: worker_is_def)
next
  case (worker_quit p w)
  then show ?case by (auto simp: worker_is_def set_worker_def idle_leaves_def)
qed simp_all

lemma idle_leaves_bins: "idle_leaves p q \<Longrightarrow> pool_bins q = pool_bins p"
  using busy_bins_update [where x = Gone] by (fastforce simp: idle_leaves_def pool_bins_def)

lemma idle_leaves_weight: "idle_leaves p q \<Longrightarrow> pool_weight fetch q < pool_weight fetch p"
  using weight_update [where x = Gone] by (fastforce simp: idle_leaves_def pool_weight_def)

lemma stop_step_bins: "stop_step fetch item p q \<Longrightarrow> stop_inv p \<Longrightarrow> pool_bins (sp_pool q) = pool_bins (sp_pool p)"
  using stop_step_pool [of fetch item p q] pool_bins_step idle_leaves_bins by metis

lemma stop_runs_bins: "stop_runs fetch item p q \<Longrightarrow> stop_inv p \<Longrightarrow> pool_bins (sp_pool q) = pool_bins (sp_pool p)"
  by (induction rule: rtranclp_induct) (auto simp: stop_step_bins stop_inv_runs)

subsection \<open>Every pass ends\<close>

fun dispatcher_weight :: "dispatcher \<Rightarrow> nat" where
  "dispatcher_weight Choosing = 3"
| "dispatcher_weight Offering = 2"
| "dispatcher_weight (Quitting k) = 2"
| "dispatcher_weight PassOver = 1"
| "dispatcher_weight _ = 0"

definition stop_weight :: "(u64 list \<Rightarrow> RawData list) \<Rightarrow> 's stop_pool \<Rightarrow> nat" where
  "stop_weight fetch p = 3 * pool_weight fetch (sp_pool p) + dispatcher_weight (sp_dispatcher p) + (if sp_closed p then 0 else 1)"

lemma stop_weight_step:
  assumes "stop_step fetch item p q" "stop_inv p"
  shows "stop_weight fetch q < stop_weight fetch p"
proof -
  consider (same) "sp_pool q = sp_pool p" | (less) "pool_weight fetch (sp_pool q) < pool_weight fetch (sp_pool p)"
    using stop_step_pool [OF assms] pool_weight_step idle_leaves_weight by blast
  then show ?thesis
  proof cases
    case same
    with assms(1) show ?thesis
      by (cases rule: stop_step.cases) (auto simp: stop_weight_def set_worker_def worker_is_def list_update_same_conv dest!: arg_cong [where f = pl_workers])
  next
    case less
    moreover have "dispatcher_weight (sp_dispatcher q) \<le> dispatcher_weight (sp_dispatcher p) + 1 \<and> (sp_closed p \<longrightarrow> sp_closed q)"
      using assms(1) by (cases rule: stop_step.cases) (simp_all add: set_worker_def)
    ultimately show ?thesis by (auto simp: stop_weight_def)
  qed
qed

lemma stop_no_infinite_run:
  assumes "stop_inv (run 0)" "\<And>i. stop_step fetch item (run i) (run (Suc i))"
  shows False
proof -
  have inv: "stop_inv (run i)" for i by (induction i) (use assms stop_inv_step in blast)+
  have "stop_weight fetch (run i) + i \<le> stop_weight fetch (run 0)" for i
  proof (induction i)
    case (Suc i)
    with stop_weight_step [OF assms(2) [of i] inv] show ?case by simp
  qed simp
  from this [of "Suc (stop_weight fetch (run 0))"] show False by simp
qed

lemma busy_bins_idle [simp]: "busy_bins (replicate n Idle) = {#}"
  by (induction n) (simp_all add: busy_bins_def)

subsection \<open>How a pass ends\<close>

lemma stuck_pass:
  assumes "stop_inv p" "\<And>x s. is_Ok (item x s)" "\<And>q. \<not> stop_step fetch item p q" "sp_dispatcher p \<noteq> Crashed"
  shows "sp_closed p \<and> list_all (\<lambda>w. w = Gone) (pl_workers (sp_pool p)) \<and> (sp_dispatcher p = Returned \<or> sp_dispatcher p = Offering)"
proof -
  have closed: "sp_closed p" using stop_step.close [OF assms(4)] assms(3) by blast
  have "pl_workers (sp_pool p) ! w = Gone" if "w < length (pl_workers (sp_pool p))" for w
  proof (cases "pl_workers (sp_pool p) ! w")
    case Idle
    with that have "worker_is w Idle p" by (simp add: worker_is_def)
    with stop_step.worker_quit [OF assms(4) closed] assms(3) show ?thesis by blast
  next
    case (Busy hs xs)
    show ?thesis
    proof (cases xs)
      case Nil
      with that Busy have "worker_is w (Busy hs []) p" by (simp add: worker_is_def)
      with stop_step.finish [OF assms(4)] assms(3) show ?thesis by blast
    next
      case (Cons x ys)
      with that Busy have "worker_is w (Busy hs (x # ys)) p" by (simp add: worker_is_def)
      moreover obtain s where "item x (pl_state (sp_pool p)) = Ok s" using assms(2) [of x "pl_state (sp_pool p)"] by (auto simp: is_Ok_iff)
      ultimately show ?thesis using stop_step.handle [OF assms(4)] assms(3) by blast
    qed
  qed
  moreover have "sp_dispatcher p = Returned \<or> sp_dispatcher p = Offering"
  proof (cases "sp_dispatcher p")
    case Choosing
    then show ?thesis using assms(3) closed stop_step.give_up stop_step.all_sent by blast
  next
    case (Quitting k)
    then show ?thesis using assms(3) closed stop_step.crash stop_step.pass_over by (cases k) blast+
  next
    case PassOver
    then show ?thesis using assms(3) closed stop_step.leave_loop by blast
  qed (use assms(4) in auto)
  ultimately show ?thesis using closed by (simp add: list_all_length)
qed

subsection \<open>A pass that is not stopped is a run of the pool\<close>

definition staying :: "worker list \<Rightarrow> nat" where
  "staying ws = length (filter (\<lambda>w. w \<noteq> Gone) ws)"

lemma staying_update:
  "w < length ws \<Longrightarrow> staying (ws[w := x]) + (if ws ! w = Gone then 0 else 1) = staying ws + (if x = Gone then 0 else 1)"
proof (induction ws arbitrary: w)
  case (Cons a ws)
  show ?case
  proof (cases w)
    case (Suc v)
    with Cons.IH [of v] Cons.prems show ?thesis by (simp add: staying_def split: if_splits)
  qed (simp add: staying_def)
qed simp

lemma staying_0: "staying ws = 0 \<longleftrightarrow> list_all (\<lambda>w. w = Gone) ws"
  by (simp add: staying_def filter_empty_conv list_all_iff)

fun to_quit :: "dispatcher \<Rightarrow> nat \<Rightarrow> nat" where
  "to_quit (Quitting k) n = k"
| "to_quit PassOver n = 0"
| "to_quit _ n = n"

definition quit_inv :: "'s stop_pool \<Rightarrow> bool" where
  "quit_inv p \<longleftrightarrow> sp_closed p \<or> staying (pl_workers (sp_pool p)) = to_quit (sp_dispatcher p) (length (pl_workers (sp_pool p)))"

lemma quit_inv_step: "stop_step fetch item p q \<Longrightarrow> quit_inv p \<Longrightarrow> quit_inv q"
proof (induction rule: stop_step.induct)
  case (offer p hs rest w)
  then show ?case using staying_update [of w "pl_workers (sp_pool p)" "Busy hs (fetch hs)"] by (auto simp: quit_inv_def worker_is_def)
next
  case (send_quit p k w)
  then show ?case using staying_update [of w "pl_workers (sp_pool p)" Gone] by (auto simp: quit_inv_def worker_is_def set_worker_def)
next
  case (handle p w hs x xs s)
  then show ?case using staying_update [of w "pl_workers (sp_pool p)" "Busy hs xs"] by (auto simp: quit_inv_def worker_is_def)
next
  case (finish p w hs)
  then show ?case using staying_update [of w "pl_workers (sp_pool p)" Idle] by (auto simp: quit_inv_def worker_is_def)
qed (auto simp: quit_inv_def set_worker_def)

lemma quit_inv_runs: "stop_runs fetch item p q \<Longrightarrow> quit_inv p \<Longrightarrow> quit_inv q"
  by (induction rule: rtranclp_induct) (auto intro: quit_inv_step)

lemma closed_stays: "stop_step fetch item p q \<Longrightarrow> sp_closed p \<Longrightarrow> sp_closed q"
  by (induction rule: stop_step.induct) (simp_all add: set_worker_def)

lemma unstopped_runs: "stop_runs fetch item p q \<Longrightarrow> stop_inv p \<Longrightarrow> \<not> sp_closed q \<Longrightarrow> pool_runs fetch item (sp_pool p) (sp_pool q)"
proof (induction rule: rtranclp_induct)
  case (step q r)
  then have "pool_runs fetch item (sp_pool p) (sp_pool q)" "\<not> sp_closed q" using closed_stays by blast+
  with stop_step_pool [OF step(2) stop_inv_runs [OF step(1,4)]] show ?case by (auto intro: rtranclp.rtrancl_into_rtrancl)
qed simp

lemma unstopped_pass:
  assumes "stop_runs fetch item (stop_start bins n False s) p" "list_all (\<lambda>hs. hs \<noteq> []) bins" "\<not> sp_closed p" "sp_dispatcher p = PassOver"
  shows "pool_runs fetch item (pool_start bins n s) (sp_pool p) \<and> pool_over (sp_pool p)"
proof -
  have "quit_inv (stop_start bins n False s)" by (simp add: quit_inv_def stop_start_def pool_start_def staying_def)
  then have "quit_inv p" by (rule quit_inv_runs [OF assms(1)])
  moreover have "stop_inv p" by (rule stop_inv_runs [OF assms(1) stop_inv_start [OF assms(2)]])
  moreover have "pool_runs fetch item (sp_pool (stop_start bins n False s)) (sp_pool p)"
    by (rule unstopped_runs [OF assms(1) stop_inv_start [OF assms(2)] assms(3)])
  ultimately show ?thesis using assms(3,4) by (simp add: stop_start_def pool_over_def quit_inv_def stop_inv_def staying_0)
qed

subsection \<open>Properties\<close>

text \<open>
  C6. A pass of the back-fill that may be stopped at any moment always ends, and once it is stopped it ends in one of three ways: the
  dispatcher returns; it waits for ever to send a bin, all workers having left; or it sends a quit signal on the closed channel and the
  program crashes, with every bin handed out. Without a crash all workers have left, and each bin was either
  finished once or never begun: a worker finishes its bin before it leaves.
\<close>

theorem stopped_pass_outcomes:
  assumes "0 < batchSize" "gaps_fit batchSize gaps" "\<And>x s. is_Ok (backFillItem pp x s)"
  shows "\<not> (\<exists>run. run 0 = stop_start (requestBins batchSize gaps) n closed s
        \<and> (\<forall>i. stop_step (\<lambda>hs. fst (pp_FetchAt pp hs)) (backFillItem pp) (run i) (run (Suc i))))
    \<and> (\<forall>p. stop_runs (\<lambda>hs. fst (pp_FetchAt pp hs)) (backFillItem pp) (stop_start (requestBins batchSize gaps) n closed s) p
        \<longrightarrow> (\<forall>q. \<not> stop_step (\<lambda>hs. fst (pp_FetchAt pp hs)) (backFillItem pp) p q)
        \<longrightarrow> sp_closed p \<and> (if sp_dispatcher p = Crashed then pl_pending (sp_pool p) = []
            else list_all (\<lambda>w. w = Gone) (pl_workers (sp_pool p))
              \<and> mset (pl_done (sp_pool p)) + mset (pl_pending (sp_pool p)) = mset (requestBins batchSize gaps)
              \<and> (sp_dispatcher p = Returned \<or> sp_dispatcher p = Offering \<and> pl_pending (sp_pool p) \<noteq> [])))"
proof -
  let ?bins = "requestBins batchSize gaps" and ?fetch = "\<lambda>hs. fst (pp_FetchAt pp hs)" and ?start = "stop_start (requestBins batchSize gaps) n closed s"
  have start: "stop_inv ?start" by (rule stop_inv_start [OF requestBins_heights(2) [OF assms(1,2)]])
  have bins: "pool_bins (sp_pool ?start) = mset ?bins" using busy_bins_idle by (simp add: stop_start_def pool_start_def pool_bins_def)
  have "sp_closed p \<and> (if sp_dispatcher p = Crashed then pl_pending (sp_pool p) = []
      else list_all (\<lambda>w. w = Gone) (pl_workers (sp_pool p)) \<and> mset (pl_done (sp_pool p)) + mset (pl_pending (sp_pool p)) = mset ?bins
        \<and> (sp_dispatcher p = Returned \<or> sp_dispatcher p = Offering \<and> pl_pending (sp_pool p) \<noteq> []))"
    if "stop_runs ?fetch (backFillItem pp) ?start p" "\<forall>q. \<not> stop_step ?fetch (backFillItem pp) p q" for p
  proof (cases "sp_dispatcher p = Crashed")
    case True
    with stop_inv_runs [OF that(1) start] show ?thesis by (simp add: stop_inv_def)
  next
    case False
    have inv: "stop_inv p" by (rule stop_inv_runs [OF that(1) start])
    have stuck: "sp_closed p \<and> list_all (\<lambda>w. w = Gone) (pl_workers (sp_pool p)) \<and> (sp_dispatcher p = Returned \<or> sp_dispatcher p = Offering)"
      by (rule stuck_pass [where item = "backFillItem pp", OF inv assms(3) _ False]) (use that(2) in blast)
    moreover have "mset (pl_done (sp_pool p)) + mset (pl_pending (sp_pool p)) = mset ?bins"
      using stop_runs_bins [OF that(1) start] stuck bins by (simp add: pool_bins_def busy_bins_Gone add.commute)
    moreover have "sp_dispatcher p = Offering \<longrightarrow> pl_pending (sp_pool p) \<noteq> []" using inv by (auto simp: stop_inv_def)
    ultimately show ?thesis using False by auto
  qed
  moreover have "\<not> (\<exists>run. run 0 = ?start \<and> (\<forall>i. stop_step ?fetch (backFillItem pp) (run i) (run (Suc i))))"
    using start stop_no_infinite_run by metis
  ultimately show ?thesis by blast
qed

text \<open>Stopped between the \<open>select\<close> and the send, the dispatcher is left without a worker that could take the bin.\<close>

definition hung_pass :: "u64 list list \<Rightarrow> 's \<Rightarrow> 's stop_pool" where
  "hung_pass bins s = \<lparr>sp_pool = \<lparr>pl_pending = bins, pl_workers = [Gone], pl_done = [], pl_state = s\<rparr>, sp_dispatcher = Offering, sp_closed = True\<rparr>"

lemma stop_can_hang:
  assumes "bins \<noteq> []"
  shows "stop_runs fetch item (stop_start bins 1 False s) (hung_pass bins s) \<and> \<not> stop_step fetch item (hung_pass bins s) q"
proof
  let ?p = "stop_start bins 1 False s"
  have "stop_step fetch item ?p (?p\<lparr>sp_dispatcher := Offering\<rparr>)"
    using assms by (intro stop_step.choose) (simp_all add: stop_start_def pool_start_def)
  moreover have "stop_step fetch item (?p\<lparr>sp_dispatcher := Offering\<rparr>) (?p\<lparr>sp_dispatcher := Offering, sp_closed := True\<rparr>)"
    using stop_step.close [of "?p\<lparr>sp_dispatcher := Offering\<rparr>" fetch item] by (simp add: stop_start_def)
  moreover have "stop_step fetch item (?p\<lparr>sp_dispatcher := Offering, sp_closed := True\<rparr>) (hung_pass bins s)"
    using stop_step.worker_quit [of "?p\<lparr>sp_dispatcher := Offering, sp_closed := True\<rparr>" 0 fetch item]
    by (simp add: stop_start_def pool_start_def hung_pass_def set_worker_def worker_is_def)
  ultimately show "stop_runs fetch item ?p (hung_pass bins s)" by (meson converse_rtranclp_into_rtranclp rtranclp.rtrancl_refl)
  show "\<not> stop_step fetch item (hung_pass bins s) q"
    by (auto simp: hung_pass_def worker_is_def elim: stop_step.cases)
qed

text \<open>Stopped while it waits for the workers to take their quit signals, the dispatcher brings the program down.\<close>

lemma stop_can_crash: "\<exists>p. stop_runs fetch item (stop_start [] (Suc n) False s) p \<and> sp_dispatcher p = Crashed"
proof -
  let ?p = "stop_start [] (Suc n) False s" and ?d = "Quitting (Suc n)"
  have "stop_step fetch item ?p (?p\<lparr>sp_dispatcher := ?d\<rparr>)"
    using stop_step.all_sent [of ?p fetch item] by (simp add: stop_start_def pool_start_def)
  moreover have "stop_step fetch item (?p\<lparr>sp_dispatcher := ?d\<rparr>) (?p\<lparr>sp_dispatcher := ?d, sp_closed := True\<rparr>)"
    using stop_step.close [of "?p\<lparr>sp_dispatcher := ?d\<rparr>" fetch item] by (simp add: stop_start_def)
  moreover have "stop_step fetch item (?p\<lparr>sp_dispatcher := ?d, sp_closed := True\<rparr>) (?p\<lparr>sp_dispatcher := Crashed, sp_closed := True\<rparr>)"
    using stop_step.crash [of "?p\<lparr>sp_dispatcher := ?d, sp_closed := True\<rparr>" n fetch item] by (simp add: stop_start_def)
  ultimately have "stop_runs fetch item ?p (?p\<lparr>sp_dispatcher := Crashed, sp_closed := True\<rparr>)"
    by (meson converse_rtranclp_into_rtranclp rtranclp.rtrancl_refl)
  moreover have "sp_dispatcher (?p\<lparr>sp_dispatcher := Crashed, sp_closed := True\<rparr>) = Crashed" by simp
  ultimately show ?thesis by blast
qed

theorem stopped_pass_outcomes_witness:
  "mset (pl_done (sp_pool (hung_pass (requestBins 2 sample_gaps) (0 :: nat, \<lparr>ch_cap = 1, ch_buf = []\<rparr>))))
     + mset (pl_pending (sp_pool (hung_pass (requestBins 2 sample_gaps) (0 :: nat, \<lparr>ch_cap = 1, ch_buf = []\<rparr>)))) = mset (requestBins 2 sample_gaps)
   \<and> stop_runs (\<lambda>hs. fst (pp_FetchAt sample_pipeline hs)) (backFillItem sample_pipeline)
       (stop_start (requestBins 2 sample_gaps) 1 False (0, \<lparr>ch_cap = 1, ch_buf = []\<rparr>)) (hung_pass (requestBins 2 sample_gaps) (0, \<lparr>ch_cap = 1, ch_buf = []\<rparr>))"
proof -
  let ?s = "(0 :: nat, \<lparr>ch_cap = 1, ch_buf = []\<rparr>)" and ?bins = "requestBins 2 sample_gaps"
  have "set (concat ?bins) \<noteq> {}" using requestBins_heights(1) [OF _ sample_gaps_fit] by (simp add: sample_gaps_def gap_heights_def)
  then have "?bins \<noteq> []" by auto
  note hang = stop_can_hang [OF this, of "\<lambda>hs. fst (pp_FetchAt sample_pipeline hs)" "backFillItem sample_pipeline" ?s]
  have "sp_dispatcher (hung_pass ?bins ?s) \<noteq> Crashed" by (simp add: hung_pass_def)
  with mp [OF mp [OF spec [OF conjunct2 [OF stopped_pass_outcomes [OF _ sample_gaps_fit sample_pipeline_ok(1), where n = 1 and closed = False and s = ?s]]]
      conjunct1 [OF hang]] allI [OF conjunct2 [OF hang]]] hang
  show ?thesis by (simp add: hung_pass_def)
qed

end
