(* ===== verification/Ipld_Nodes.thy ===== *)
theory Ipld_Nodes
  imports Eth_Backend Ipld_Trie Ipld_Btc
begin

text \<open>
  Package \<open>ipld\<close>, the node interface of transactions and receipts (\<open>eth_tx.go\<close>, \<open>eth_receipt.go\<close>), the JSON
  maps of the Ethereum nodes, decoding a stored header, transaction or receipt, and the hashes that Bitcoin
  nodes show (\<open>btc_header.go\<close>, \<open>btc_tx.go\<close>). Shown: the JSON map of a node and the resolution of paths
  through it agree, name by name, with one exception.
\<close>

subsection \<open>What JSON shows\<close>

text \<open>
  A value of the map that a \<open>MarshalJSON\<close> hands to \<open>json.Marshal\<close>: a cid, or any other value. Resolving a path
  returns a link to a cid in the place of the cid.
\<close>

datatype 'n json_field = JCid Cid | JVal "'n ipld_value"

type_synonym 'n json_map = "(string \<times> 'n json_field) list"

fun shown :: "'n json_field \<Rightarrow> 'n ipld_value \<Rightarrow> bool" where
  "shown (JCid c) w \<longleftrightarrow> w = VLink c"
| "shown (JVal v) w \<longleftrightarrow> v = w"

definition json_agrees :: "string set \<Rightarrow> 'n json_map \<Rightarrow> (string list \<Rightarrow> 'n resolved) \<Rightarrow> string list \<Rightarrow> bool" where
  "json_agrees except out Resolve names \<longleftrightarrow> set (map fst out) = set names
     \<and> (\<forall>f \<in> set names - except. \<exists>v w. map_of out f = Some v \<and> Resolve [f] = Ok (w, []) \<and> shown v w)"

text \<open>
  The accessors of go-ethereum that the nodes use beside those of the backend: \<open>hexutil.EncodeBig\<close>, the consensus
  fields of a receipt that the program does not look at, and the text of \<open>common.StorageSize\<close>.
\<close>

record node_lib =
  nl_EncodeBig :: "int \<Rightarrow> string"
  nl_PostState :: "Receipt \<Rightarrow> bytes"
  nl_CumulativeGasUsed :: "Receipt \<Rightarrow> u64"
  nl_Bloom :: "Receipt \<Rightarrow> bytes"
  nl_TxSize :: "Transaction \<Rightarrow> string"
  nl_RctSize :: "Receipt \<Rightarrow> string"

text \<open>A node without links: every path ends at a field.\<close>

definition field_Resolve :: "'n \<Rightarrow> (string \<times> 'n ipld_value) list \<Rightarrow> string list \<Rightarrow> 'n resolved" where
  "field_Resolve self fs p =
     (case p of
        [] \<Rightarrow> Ok (VNode self, [])
      | [f] \<Rightarrow> (case map_of fs f of Some v \<Rightarrow> Ok (v, []) | None \<Rightarrow> Err (Errorf ''no such link'' []))
      | f # _ \<Rightarrow> Err (Errorf ''unexpected path elements past %s'' [f]))"

subsection \<open>Transactions (eth\_tx.go)\<close>

datatype tx_obj = TxNode EthTxNode | AddressPtr "Address option"

definition tx_fields :: "node_lib \<Rightarrow> backend_lib \<Rightarrow> Transaction \<Rightarrow> (string \<times> tx_obj ipld_value) list" where
  "tx_fields nl bl t =
     (case RawSignatureValues bl t of (v, r, s) \<Rightarrow>
       [(''gas'', VU64 (Tx_Gas bl t)), (''gasPrice'', VInt (t_GasPrice t)), (''input'', VStr (hex_EncodeToString (Tx_Data bl t))),
        (''nonce'', VU64 (Tx_Nonce bl t)), (''r'', VStr (nl_EncodeBig nl r)), (''s'', VStr (nl_EncodeBig nl s)),
        (''toAddress'', VNode (AddressPtr (t_To t))), (''v'', VStr (nl_EncodeBig nl v)), (''value'', VStr (nl_EncodeBig nl (Tx_Value bl t)))])"

definition Tx_Resolve :: "node_lib \<Rightarrow> backend_lib \<Rightarrow> EthTxNode \<Rightarrow> string list \<Rightarrow> tx_obj resolved" where
  "Tx_Resolve nl bl t = field_Resolve (TxNode t) (tx_fields nl bl (xn_Transaction t))"

definition Tx_Tree :: "string \<Rightarrow> int \<Rightarrow> string list" where
  "Tx_Tree p depth = (if p \<noteq> '''' \<or> depth = 0 then []
     else [''gas'', ''gasPrice'', ''input'', ''nonce'', ''r'', ''s'', ''toAddress'', ''v'', ''value''])"

definition Tx_ResolveLink :: "node_lib \<Rightarrow> backend_lib \<Rightarrow> EthTxNode \<Rightarrow> string list \<Rightarrow> (Cid \<times> string list) outcome" where
  "Tx_ResolveLink nl bl t p = ResolveLink ''resolved item was not a link'' (Tx_Resolve nl bl t p)"

definition Tx_MarshalJSON :: "node_lib \<Rightarrow> backend_lib \<Rightarrow> EthTxNode \<Rightarrow> tx_obj json_map" where
  "Tx_MarshalJSON nl bl n =
     (let t = xn_Transaction n in case RawSignatureValues bl t of (v, r, s) \<Rightarrow>
       [(''gas'', JVal (VU64 (Tx_Gas bl t))), (''gasPrice'', JVal (VStr (nl_EncodeBig nl (t_GasPrice t)))),
        (''input'', JVal (VStr (hex_EncodeToString (Tx_Data bl t)))), (''nonce'', JVal (VU64 (Tx_Nonce bl t))),
        (''r'', JVal (VStr (nl_EncodeBig nl r))), (''s'', JVal (VStr (nl_EncodeBig nl s))), (''toAddress'', JVal (VNode (AddressPtr (t_To t)))),
        (''v'', JVal (VStr (nl_EncodeBig nl v))), (''value'', JVal (VStr (nl_EncodeBig nl (Tx_Value bl t))))])"

text \<open>\<open>strconv.ParseUint(s, 10, 64)\<close>\<close>

definition ParseUint :: "string \<Rightarrow> u64 outcome" where
  "ParseUint s = (case dec_digits s of
     Some n \<Rightarrow> if n < 2 ^ 64 then Ok (of_nat n) else Err (Errorf ''strconv.ParseUint: parsing %s: value out of range'' [s])
   | None \<Rightarrow> Err (Errorf ''strconv.ParseUint: parsing %s: invalid syntax'' [s]))"

definition Tx_Size :: "node_lib \<Rightarrow> EthTxNode \<Rightarrow> u64 outcome" where
  "Tx_Size nl t = ParseUint (nl_TxSize nl (xn_Transaction t))"

subsection \<open>Receipts (eth\_receipt.go)\<close>

datatype rct_obj = RctNode EthReceiptNode | LogList "Log list"

definition rct_fields :: "node_lib \<Rightarrow> Receipt \<Rightarrow> (string \<times> rct_obj ipld_value) list" where
  "rct_fields nl r =
     [(''root'', VBytes (nl_PostState nl r)), (''status'', VU64 (r_Status r)), (''cumulativeGasUsed'', VU64 (nl_CumulativeGasUsed nl r)),
      (''logsBloom'', VBytes (nl_Bloom nl r)), (''logs'', VNode (LogList (r_Logs r))), (''transactionHash'', VBytes (r_TxHash r)),
      (''contractAddress'', VBytes (r_ContractAddress r)), (''gasUsed'', VU64 (r_GasUsed r))]"

definition Receipt_Resolve :: "node_lib \<Rightarrow> EthReceiptNode \<Rightarrow> string list \<Rightarrow> rct_obj resolved" where
  "Receipt_Resolve nl r = field_Resolve (RctNode r) (rct_fields nl (rn_Receipt r))"

definition Receipt_Tree :: "string \<Rightarrow> int \<Rightarrow> string list" where
  "Receipt_Tree p depth = (if p \<noteq> '''' \<or> depth = 0 then []
     else [''root'', ''status'', ''cumulativeGasUsed'', ''logsBloom'', ''logs'', ''transactionHash'', ''contractAddress'', ''gasUsed''])"

definition Receipt_ResolveLink :: "node_lib \<Rightarrow> EthReceiptNode \<Rightarrow> string list \<Rightarrow> (Cid \<times> string list) outcome" where
  "Receipt_ResolveLink nl r p = ResolveLink ''resolved item was not a link'' (Receipt_Resolve nl r p)"

definition Receipt_MarshalJSON :: "node_lib \<Rightarrow> EthReceiptNode \<Rightarrow> rct_obj json_map" where
  "Receipt_MarshalJSON nl n =
     (let r = rn_Receipt n in
       [(''root'', JVal (VBytes (nl_PostState nl r))), (''status'', JVal (VU64 (r_Status r))),
        (''cumulativeGasUsed'', JVal (VU64 (nl_CumulativeGasUsed nl r))), (''logsBloom'', JVal (VBytes (nl_Bloom nl r))),
        (''logs'', JVal (VNode (LogList (r_Logs r)))), (''transactionHash'', JVal (VBytes (r_TxHash r))),
        (''contractAddress'', JVal (VBytes (r_ContractAddress r))), (''gasUsed'', JVal (VU64 (r_GasUsed r)))])"

definition Receipt_Size :: "node_lib \<Rightarrow> EthReceiptNode \<Rightarrow> u64 outcome" where
  "Receipt_Size nl r = ParseUint (nl_RctSize nl (rn_Receipt r))"

subsection \<open>Headers and accounts as JSON (eth\_header.go, eth\_account.go)\<close>

definition Header_MarshalJSON :: "ipfs_lib \<Rightarrow> EthHeaderNode \<Rightarrow> EthHeaderNode json_map outcome" where
  "Header_MarshalJSON ipfs b =
     (let h = hn_Header b in
      outcome_bind (commonHashToCid ipfs MEthHeader (h_ParentHash h)) (\<lambda>parent.
      outcome_bind (commonHashToCid ipfs MEthTxReceiptTrie (h_ReceiptHash h)) (\<lambda>receipts.
      outcome_bind (commonHashToCid ipfs MEthStateTrie (h_Root h)) (\<lambda>root.
      outcome_bind (commonHashToCid ipfs MEthTxTrie (h_TxHash h)) (\<lambda>tx.
      outcome_bind (commonHashToCid ipfs MEthHeaderList (h_UncleHash h)) (\<lambda>uncles.
      Ok [(''time'', JVal (VU64 (h_Time h))), (''bloom'', JVal (VBytes (h_Bloom h))), (''coinbase'', JVal (VBytes (h_Coinbase h))),
          (''difficulty'', JVal (VInt (h_Difficulty h))), (''extra'', JVal (VStr (''0x'' @ hex_EncodeToString (h_Extra h)))),
          (''gaslimit'', JVal (VU64 (h_GasLimit h))), (''gasused'', JVal (VU64 (h_GasUsed h))), (''mixdigest'', JVal (VBytes (h_MixDigest h))),
          (''nonce'', JVal (VBytes (h_Nonce h))), (''number'', JVal (VInt (h_Number h))), (''parent'', JCid parent), (''receipts'', JCid receipts),
          (''root'', JCid root), (''tx'', JCid tx), (''uncles'', JCid uncles)]))))))"

definition Account_MarshalJSON :: "ipfs_lib \<Rightarrow> EthAccountSnapshot \<Rightarrow> EthAccountSnapshot json_map outcome" where
  "Account_MarshalJSON ipfs as =
     (let a = as_Account as in
      outcome_bind (keccak256ToCid ipfs RawBinary (ac_CodeHash a)) (\<lambda>codeHash.
      outcome_bind (keccak256ToCid ipfs MEthStorageTrie (ac_Root a)) (\<lambda>root.
      Ok [(''balance'', JVal (VInt (ac_Balance a))), (''codeHash'', JCid codeHash), (''nonce'', JVal (VU64 (ac_Nonce a))), (''root'', JCid root)])))"

subsection \<open>Decoding stored nodes\<close>

text \<open>
  \<open>DecodeEthHeader\<close>, \<open>DecodeEthTx\<close> and \<open>DecodeEthReceipt\<close> hand \<open>rlp.DecodeBytes\<close> a nil pointer, by value. The decoder, a parameter,
  can only report whether it takes the bytes; the pointer of the node that is returned is nil.
\<close>

record decoded_node =
  dn_object_set :: bool
  dn_cid :: Cid
  dn_rawdata :: bytes

definition DecodeEthHeader :: "(bytes \<Rightarrow> unit outcome) \<Rightarrow> Cid \<Rightarrow> bytes \<Rightarrow> decoded_node outcome" where
  "DecodeEthHeader decode_nil c b = outcome_bind (decode_nil b) (\<lambda>_. Ok \<lparr>dn_object_set = False, dn_cid = c, dn_rawdata = b\<rparr>)"

definition DecodeEthTx :: "(bytes \<Rightarrow> unit outcome) \<Rightarrow> Cid \<Rightarrow> bytes \<Rightarrow> decoded_node outcome" where
  "DecodeEthTx decode_nil c b = outcome_bind (decode_nil b) (\<lambda>_. Ok \<lparr>dn_object_set = False, dn_cid = c, dn_rawdata = b\<rparr>)"

definition DecodeEthReceipt :: "(bytes \<Rightarrow> unit outcome) \<Rightarrow> Cid \<Rightarrow> bytes \<Rightarrow> decoded_node outcome" where
  "DecodeEthReceipt decode_nil c b = outcome_bind (decode_nil b) (\<lambda>_. Ok \<lparr>dn_object_set = False, dn_cid = c, dn_rawdata = b\<rparr>)"

subsection \<open>The hashes of Bitcoin nodes (btc\_header.go, btc\_tx.go)\<close>

definition revString :: "bytes \<Rightarrow> bytes" where
  "revString s = fold (\<lambda>(i, v) b. b[length b - (i + 1) := v]) (enumerate 0 s) (replicate (length s) 0)"

definition hashToCid :: "ipfs_lib \<Rightarrow> bytes \<Rightarrow> u64 \<Rightarrow> Cid outcome" where
  "hashToCid ipfs hv t = (case mh_Encode ipfs hv DBL_SHA2_256 of Ok h \<Rightarrow> Ok (Cid t h) | Err _ \<Rightarrow> Ok (Cid t []) | Panic p \<Rightarrow> Panic p)"

definition BtcHeader_BTCSha :: "ipfs_lib \<Rightarrow> BtcHeaderNode \<Rightarrow> bytes outcome" where
  "BtcHeader_BTCSha ipfs b = outcome_bind (sum_or_nil ipfs (bk_rawdata b)) (slice_from 2)"

definition BtcHeader_HexHash :: "ipfs_lib \<Rightarrow> BtcHeaderNode \<Rightarrow> string outcome" where
  "BtcHeader_HexHash ipfs b = outcome_bind (BtcHeader_BTCSha ipfs b) (\<lambda>h. Ok (hex_EncodeToString (revString h)))"

definition BtcTx_BTCSha :: "ipfs_lib \<Rightarrow> BtcTxNode \<Rightarrow> bytes outcome" where
  "BtcTx_BTCSha ipfs t = outcome_bind (sum_or_nil ipfs (bx_rawdata t)) (slice_from 2)"

definition BtcTx_HexHash :: "ipfs_lib \<Rightarrow> BtcTxNode \<Rightarrow> string outcome" where
  "BtcTx_HexHash ipfs t = outcome_bind (BtcTx_BTCSha ipfs t) (\<lambda>h. Ok (hex_EncodeToString (revString h)))"

definition BtcHeader_Size :: "BtcHeaderNode \<Rightarrow> u64" where
  "BtcHeader_Size b = of_nat (length (bk_rawdata b))"

definition BtcTx_Size :: "BtcTxNode \<Rightarrow> u64" where
  "BtcTx_Size t = of_nat (length (bx_rawdata t))"

definition Trie_Size :: "BtcTxTrie \<Rightarrow> u64 outcome" where
  "Trie_Size t = outcome_bind (Trie_RawData t) (\<lambda>raw. Ok (of_nat (length raw)))"

subsection \<open>JSON and paths agree\<close>

text \<open>A node whose JSON map shows what its paths resolve to, except for some names.\<close>

locale ipld_json = ipld_paths Resolve Tree
  for Resolve :: "string list \<Rightarrow> 'n resolved" and Tree :: "string \<Rightarrow> int \<Rightarrow> string list" +
  fixes MarshalJSON :: "'n json_map outcome" and except :: "string set"
  assumes json_agrees: "MarshalJSON = Ok out \<Longrightarrow> json_agrees except out Resolve (Tree '''' (-1))"
begin

lemma json_has_iff:
  assumes "MarshalJSON = Ok out"
  shows "map_of out f \<noteq> None \<longleftrightarrow> (\<forall>e. Resolve [f] \<noteq> Err e)"
  using json_agrees [OF assms] listed_iff [of f] by (auto simp: json_agrees_def map_of_eq_None_iff)

lemma json_of_resolved:
  assumes "MarshalJSON = Ok out" "Resolve [f] = Ok (w, rest)" "f \<notin> except"
  shows "rest = [] \<and> (\<exists>v. map_of out f = Some v \<and> shown v w)"
proof -
  have "f \<in> set (Tree '''' (-1))" using listed_iff [of f] assms(2) by simp
  with json_agrees [OF assms(1)] assms(3) obtain v w' where "map_of out f = Some v" "Resolve [f] = Ok (w', [])" "shown v w'"
    unfolding json_agrees_def by blast
  with assms(2) show ?thesis by simp
qed

end

lemma json_agreesI:
  assumes "set (map fst out) = set names" "\<forall>f \<in> set names. f \<in> except \<or> (\<exists>v w. map_of out f = Some v \<and> Resolve [f] = Ok (w, []) \<and> shown v w)"
  shows "json_agrees except out Resolve names"
  using assms unfolding json_agrees_def by blast

lemmas eth_node_defs = Header_Resolve_def Header_Tree_def header_links_def header_fields_def Header_MarshalJSON_def
  Account_Resolve_def Account_Tree_def Account_MarshalJSON_def Tx_Resolve_def Tx_Tree_def tx_fields_def Tx_MarshalJSON_def
  Receipt_Resolve_def Receipt_Tree_def rct_fields_def Receipt_MarshalJSON_def field_Resolve_def

interpretation header_json: ipld_json "Header_Resolve ipfs b" Header_Tree "Header_MarshalJSON ipfs b" "{}" for ipfs b
  by unfold_locales (rule json_agreesI; auto simp: eth_node_defs Let_def)

interpretation account_json: ipld_json "Account_Resolve ipfs as" Account_Tree "Account_MarshalJSON ipfs as" "{}" for ipfs as
  by unfold_locales (rule json_agreesI; auto simp: eth_node_defs Let_def)

interpretation tx_json: ipld_json "Tx_Resolve nl bl t" Tx_Tree "Ok (Tx_MarshalJSON nl bl t)" "{''gasPrice''}" for nl bl t
  by unfold_locales (auto simp: eth_node_defs Let_def split: prod.splits intro!: json_agreesI)

interpretation receipt_json: ipld_json "Receipt_Resolve nl r" Receipt_Tree "Ok (Receipt_MarshalJSON nl r)" "{}" for nl r
  by unfold_locales (auto simp: eth_node_defs Let_def intro!: json_agreesI)

subsection \<open>Properties\<close>

text \<open>
  The JSON map of a header, account, transaction or receipt has exactly the names its \<open>Tree\<close> lists, and shows for each what resolving the
  name returns, a cid for a link. The one exception is the gas price of a transaction, which JSON
  shows in hexadecimal and resolving returns as a number.
\<close>

theorem JSON_agrees_with_paths:
  "(\<forall>out. Header_MarshalJSON ipfs b = Ok out \<longrightarrow> json_agrees {} out (Header_Resolve ipfs b) (Header_Tree '''' (-1)))
   \<and> (\<forall>out. Account_MarshalJSON ipfs as = Ok out \<longrightarrow> json_agrees {} out (Account_Resolve ipfs as) (Account_Tree '''' (-1)))
   \<and> json_agrees {''gasPrice''} (Tx_MarshalJSON nl bl t) (Tx_Resolve nl bl t) (Tx_Tree '''' (-1))
   \<and> json_agrees {} (Receipt_MarshalJSON nl r) (Receipt_Resolve nl r) (Receipt_Tree '''' (-1))
   \<and> map_of (Tx_MarshalJSON nl bl t) ''gasPrice'' = Some (JVal (VStr (nl_EncodeBig nl (t_GasPrice (xn_Transaction t)))))
   \<and> Tx_Resolve nl bl t [''gasPrice''] = Ok (VInt (t_GasPrice (xn_Transaction t)), [])"
  using header_json.json_agrees account_json.json_agrees tx_json.json_agrees receipt_json.json_agrees
  by (simp add: eth_node_defs Let_def split: prod.splits)

definition sample_header_node :: EthHeaderNode where
  "sample_header_node = \<lparr>hn_Header = sample_header 5, hn_cid = Cid MEthHeader [], hn_rawdata = []\<rparr>"

theorem JSON_agrees_with_paths_witness:
  "\<exists>out. Header_MarshalJSON sample_ipfs sample_header_node = Ok out
     \<and> json_agrees {} out (Header_Resolve sample_ipfs sample_header_node) (Header_Tree '''' (-1))"
proof -
  have "\<exists>out. Header_MarshalJSON sample_ipfs sample_header_node = Ok out"
    by (simp add: Header_MarshalJSON_def commonHashToCid_def digestToCid_def sample_ipfs_def Let_def)
  then show ?thesis using JSON_agrees_with_paths [of sample_ipfs sample_header_node] by blast
qed

text \<open>Names that are not listed are errors, in transactions and receipts too, and neither has a link to follow.\<close>

lemma leaf_nodes_have_no_links:
  "(\<nexists>l. Tx_ResolveLink nl bl t [f] = Ok l) \<and> (\<nexists>l. Receipt_ResolveLink nl r [f] = Ok l)"
  by (auto simp: Tx_ResolveLink_def Receipt_ResolveLink_def ResolveLink_def eth_node_defs split: prod.splits option.splits)

text \<open>Whatever the RLP decoder accepts, the node that is decoded holds no object.\<close>

lemma decoded_objects_nil:
  "DecodeEthHeader dec c b = Ok n \<Longrightarrow> \<not> dn_object_set n"
  "DecodeEthTx dec c b = Ok n \<Longrightarrow> \<not> dn_object_set n"
  "DecodeEthReceipt dec c b = Ok n \<Longrightarrow> \<not> dn_object_set n"
  by (auto simp: DecodeEthHeader_def DecodeEthTx_def DecodeEthReceipt_def)

text \<open>A size whose text has a unit is refused: the text of \<open>common.StorageSize\<close> always has one.\<close>

lemma dec_parse_digits: "dec_parse acc s = Some n \<Longrightarrow> c \<in> set s \<Longrightarrow> digit_val c \<noteq> None"
  by (induction s arbitrary: acc) (auto split: option.splits)

lemma Size_with_unit_fails:
  assumes "CHR '' '' \<in> set (nl_TxSize nl (xn_Transaction t))"
  shows "\<exists>e. Tx_Size nl t = Err e"
proof -
  have "digit_val (CHR '' '') = None" by (simp add: digit_val_def)
  then have "dec_digits (nl_TxSize nl (xn_Transaction t)) = None"
    using assms dec_parse_digits [of 0 "nl_TxSize nl (xn_Transaction t)" _ "CHR '' ''"] by (cases "dec_parse 0 (nl_TxSize nl (xn_Transaction t))") (auto simp: dec_digits_def)
  then show ?thesis by (simp add: Tx_Size_def ParseUint_def)
qed

text \<open>\<open>revString\<close> reverses, so that \<open>HexHash\<close> is the double hash of the serialised node, byte by byte from the end.\<close>

lemma revString_loop:
  "length b = n + length s \<Longrightarrow> fold (\<lambda>(i, v) b. b[length b - (i + 1) := v]) (enumerate n s) b = rev s @ drop (length s) b"
proof (induction s arbitrary: n b)
  case (Cons v s)
  let ?b = "b[length b - (n + 1) := v]"
  have k: "length b - (n + 1) = length s" using Cons.prems by simp
  have "fold (\<lambda>(i, v) b. b[length b - (i + 1) := v]) (enumerate (Suc n) s) ?b = rev s @ drop (length s) ?b"
    using Cons.IH [of ?b "Suc n"] Cons.prems by simp
  moreover have "drop (length s) ?b = v # drop (Suc (length s)) b"
    using Cons.prems by (simp add: k drop_update_swap flip: Cons_nth_drop_Suc)
  ultimately show ?case by simp
qed simp

lemma revString_rev: "revString s = rev s"
  using revString_loop [of "replicate (length s) 0" 0 s] by (simp add: revString_def)

lemma HexHash_reversed:
  assumes "double_sha ipfs [x, y] sha"
  shows "BtcTx_HexHash ipfs t = Ok (hex_EncodeToString (rev (sha (bx_rawdata t))))"
    "BtcHeader_HexHash ipfs b = Ok (hex_EncodeToString (rev (sha (bk_rawdata b))))"
  using assms by (simp_all add: BtcTx_HexHash_def BtcTx_BTCSha_def BtcHeader_HexHash_def BtcHeader_BTCSha_def sum_or_nil_def slice_from_def
    double_sha_def revString_rev)

end
