(* ===== verification/Eth_Roundtrip.thy ===== *)
theory Eth_Roundtrip
  imports Eth_Indexer Eth_Retriever
begin

text \<open>
  Indexer and retriever together: a block that is indexed for the first time is read back by its hash,
  row for row. The rows of the database differ from those of the payload only in the columns the
  database fills in (ids, references) or normalises (numbers).
\<close>

subsection \<open>Rows appended by the statements\<close>

lemma insert_uncle_fresh:
  assumes "insert_uncle u i sq db = Ok (v, db', sq')" "(i, um_BlockHash u) \<notin> uncle_key ` set (eth_uncles db)"
  shows "\<exists>u'. eth_uncles db' = eth_uncles db @ [u'] \<and> um_HeaderID u' = i
    \<and> u' = u\<lparr>um_ID := um_ID u', um_HeaderID := i, um_Reward := um_Reward u'\<rparr> \<and> pg_numeric (um_Reward u) = Ok (um_Reward u')
    \<and> eth_headers db' = eth_headers db \<and> eth_txs db' = eth_txs db \<and> eth_rcts db' = eth_rcts db
    \<and> sq_eth_txs sq' = sq_eth_txs sq"
proof -
  obtain reward j rows n where r: "pg_numeric (um_Reward u) = Ok reward"
    and up: "upsert um_ID (\<lambda>r. uncle_key r = (i, um_BlockHash u))
       (\<lambda>old. Ok (old\<lparr>um_ParentHash := um_ParentHash u, um_CID := um_CID u, um_Reward := reward, um_MhKey := um_MhKey u\<rparr>))
       (\<lambda>n. u\<lparr>um_ID := n, um_HeaderID := i, um_Reward := reward\<rparr>) (sq_eth_uncles sq) (eth_uncles db) = Ok (j, rows, n)"
    and db': "db' = db\<lparr>eth_uncles := rows\<rparr>" "sq' = sq\<lparr>sq_eth_uncles := n\<rparr>"
    using assms(1) by (auto simp: insert_uncle_def)
  have "rows = eth_uncles db @ [u\<lparr>um_ID := sq_eth_uncles sq, um_HeaderID := i, um_Reward := reward\<rparr>]"
    using uncle_up.upsert_appends [OF up assms(2)] by blast
  with r db' show ?thesis by simp
qed

lemma insert_tx_fresh:
  assumes "insert_tx t i sq db = Ok (j, db', sq')" "(i, tm_TxHash t) \<notin> tx_key ` set (eth_txs db)"
  shows "j = sq_eth_txs sq \<and> j \<le> 2147483647 \<and> eth_txs db' = eth_txs db @ [t\<lparr>tm_ID := j, tm_HeaderID := i\<rparr>]
    \<and> eth_headers db' = eth_headers db \<and> eth_uncles db' = eth_uncles db \<and> eth_rcts db' = eth_rcts db
    \<and> sq_eth_txs sq' = j + 1"
proof -
  obtain rows n where up: "upsert tm_ID (\<lambda>r. tx_key r = (i, tm_TxHash t))
       (\<lambda>old. Ok (old\<lparr>tm_CID := tm_CID t, tm_Dst := tm_Dst t, tm_Src := tm_Src t, tm_Index := tm_Index t, tm_MhKey := tm_MhKey t\<rparr>))
       (\<lambda>n. t\<lparr>tm_ID := n, tm_HeaderID := i\<rparr>) (sq_eth_txs sq) (eth_txs db) = Ok (j, rows, n)"
    and db': "db' = db\<lparr>eth_txs := rows\<rparr>" "sq' = sq\<lparr>sq_eth_txs := n\<rparr>"
    using assms(1) by (auto simp: insert_tx_def)
  have "j = sq_eth_txs sq \<and> rows = eth_txs db @ [t\<lparr>tm_ID := sq_eth_txs sq, tm_HeaderID := i\<rparr>] \<and> n = sq_eth_txs sq + 1"
    "sq_eth_txs sq \<le> 2147483647"
    using tx_up.upsert_appends [OF up assms(2)] by blast+
  then show ?thesis using db' by simp
qed

lemma insert_rct_fresh:
  assumes "insert_rct r j sq db = Ok (v, db', sq')" "j \<notin> rm_TxID ` set (eth_rcts db)"
  shows "\<exists>k. eth_rcts db' = eth_rcts db @ [r\<lparr>rm_ID := k, rm_TxID := j\<rparr>]
    \<and> eth_headers db' = eth_headers db \<and> eth_uncles db' = eth_uncles db \<and> eth_txs db' = eth_txs db
    \<and> sq_eth_txs sq' = sq_eth_txs sq"
proof -
  obtain k rows n where up: "upsert rm_ID (\<lambda>r. rm_TxID r = j) (\<lambda>old. Ok (r\<lparr>rm_ID := rm_ID old, rm_TxID := rm_TxID old\<rparr>))
       (\<lambda>n. r\<lparr>rm_ID := n, rm_TxID := j\<rparr>) (sq_eth_rcts sq) (eth_rcts db) = Ok (k, rows, n)"
    and db': "db' = db\<lparr>eth_rcts := rows\<rparr>" "sq' = sq\<lparr>sq_eth_rcts := n\<rparr>"
    using assms(1) by (auto simp: insert_rct_def)
  have "rows = eth_rcts db @ [r\<lparr>rm_ID := sq_eth_rcts sq, rm_TxID := j\<rparr>]"
    using rct_up.upsert_appends [OF up assms(2)] by blast
  with db' show ?thesis by auto
qed

lemma insert_header_fresh:
  assumes "insert_header nodeID h sq db = Ok (i, db', sq')" "header_row nodeID h = Ok row"
    and "header_key row \<notin> header_key ` set (eth_headers db)"
  shows "i = sq_eth_headers sq \<and> i \<le> 2147483647 \<and> eth_headers db' = eth_headers db @ [row\<lparr>hm_ID := i\<rparr>]
    \<and> eth_uncles db' = eth_uncles db \<and> eth_txs db' = eth_txs db \<and> eth_rcts db' = eth_rcts db
    \<and> sq_eth_txs sq' = sq_eth_txs sq"
proof -
  obtain rows n where up: "upsert hm_ID (\<lambda>r. header_key r = header_key row) (update_header row)
      (\<lambda>n. row\<lparr>hm_ID := n\<rparr>) (sq_eth_headers sq) (eth_headers db) = Ok (i, rows, n)"
    and db': "db' = db\<lparr>eth_headers := rows\<rparr>" "sq' = sq\<lparr>sq_eth_headers := n\<rparr>"
    using assms(1,2) by (auto simp: insert_header_def split: if_splits)
  have "i = sq_eth_headers sq \<and> rows = eth_headers db @ [row\<lparr>hm_ID := sq_eth_headers sq\<rparr>]"
    "sq_eth_headers sq \<le> 2147483647"
    using header_up.upsert_appends [OF up assms(3)] by blast+
  then show ?thesis using db' by simp
qed

subsection \<open>The loops\<close>

definition uncle_indexed :: "int \<Rightarrow> UncleModel \<Rightarrow> UncleModel \<Rightarrow> bool" where
  "uncle_indexed i u u' \<longleftrightarrow> u' = u\<lparr>um_ID := um_ID u', um_HeaderID := i, um_Reward := um_Reward u'\<rparr>
     \<and> pg_numeric (um_Reward u) = Ok (um_Reward u')"

lemma uncle_indexed_header: "uncle_indexed i u u' \<Longrightarrow> um_HeaderID u' = i \<and> um_BlockHash u' = um_BlockHash u"
  unfolding uncle_indexed_def by (metis UncleModel.select_convs(2,3) UncleModel.surjective UncleModel.update_convs(1,2,7))

lemma uncles_loop:
  assumes "tx_for (\<lambda>_ u. indexUncleCID u i) k us tx = (Ok v, tx')" "distinct (map um_BlockHash us)"
    and "\<forall>u\<in>set us. (i, um_BlockHash u) \<notin> uncle_key ` set (eth_uncles (tx_db tx))"
  shows "\<exists>us'. eth_uncles (tx_db tx') = eth_uncles (tx_db tx) @ us' \<and> list_all2 (uncle_indexed i) us us'
    \<and> eth_headers (tx_db tx') = eth_headers (tx_db tx) \<and> eth_txs (tx_db tx') = eth_txs (tx_db tx)
    \<and> eth_rcts (tx_db tx') = eth_rcts (tx_db tx) \<and> sq_eth_txs (tx_seq tx') = sq_eth_txs (tx_seq tx)"
  using assms
proof (induction us arbitrary: k tx)
  case (Cons u us)
  obtain w tx1 where step: "indexUncleCID u i tx = (Ok w, tx1)" and rest: "tx_for (\<lambda>_ u. indexUncleCID u i) (k + 1) us tx1 = (Ok v, tx')"
    using Cons.prems(1) by (auto elim: tx_bind_Ok)
  obtain db1 sq1 where "insert_uncle u i (tx_seq tx) (tx_db tx) = Ok (w, db1, sq1)" "tx_db tx1 = db1" "tx_seq tx1 = sq1"
    using step unfolding indexUncleCID_def by (rule sql_exec_Ok)
  with insert_uncle_fresh [of u i "tx_seq tx" "tx_db tx" w db1 sq1] Cons.prems(3)
  obtain u' where u': "eth_uncles (tx_db tx1) = eth_uncles (tx_db tx) @ [u']" "uncle_indexed i u u'"
    and same: "eth_headers (tx_db tx1) = eth_headers (tx_db tx)" "eth_txs (tx_db tx1) = eth_txs (tx_db tx)"
      "eth_rcts (tx_db tx1) = eth_rcts (tx_db tx)" "sq_eth_txs (tx_seq tx1) = sq_eth_txs (tx_seq tx)"
    unfolding uncle_indexed_def by auto
  have "\<forall>x\<in>set us. (i, um_BlockHash x) \<notin> uncle_key ` set (eth_uncles (tx_db tx1))"
    using Cons.prems(2,3) uncle_indexed_header [OF u'(2)] unfolding u'(1) by (auto simp: uncle_key_def image_iff)
  with Cons.IH [OF rest] Cons.prems(2) obtain us' where us': "eth_uncles (tx_db tx') = eth_uncles (tx_db tx1) @ us'"
    "list_all2 (uncle_indexed i) us us'"
    "eth_headers (tx_db tx') = eth_headers (tx_db tx1)" "eth_txs (tx_db tx') = eth_txs (tx_db tx1)"
    "eth_rcts (tx_db tx') = eth_rcts (tx_db tx1)" "sq_eth_txs (tx_seq tx') = sq_eth_txs (tx_seq tx1)"
    by auto
  with u' same show ?case by (intro exI [of _ "u' # us'"]) simp
qed (simp add: tx_return_def)

definition tx_indexed :: "int \<Rightarrow> TxModel \<Rightarrow> TxModel \<Rightarrow> bool" where
  "tx_indexed i t t' \<longleftrightarrow> t' = t\<lparr>tm_ID := tm_ID t', tm_HeaderID := i\<rparr>"

lemma tx_indexed_fields:
  "tx_indexed i t t' \<Longrightarrow> tm_HeaderID t' = i \<and> tm_TxHash t' = tm_TxHash t \<and> tm_Index t' = tm_Index t"
  unfolding tx_indexed_def by (metis TxModel.select_convs(2,3,4) TxModel.surjective TxModel.update_convs(1,2))

text \<open>The receipt rows of a transaction row, up to their own ids.\<close>

definition rcts_of :: "geth_lib \<Rightarrow> (Hash \<times> ReceiptModel) list \<Rightarrow> TxModel \<Rightarrow> ReceiptModel list" where
  "rcts_of geth rcts t = (case map_of rcts (HexToHash geth (tm_TxHash t)) of None \<Rightarrow> [] | Some r \<Rightarrow> [r])"

definition rct_rows :: "geth_lib \<Rightarrow> (Hash \<times> ReceiptModel) list \<Rightarrow> TxModel \<Rightarrow> ReceiptModel list \<Rightarrow> bool" where
  "rct_rows geth rcts t' rs \<longleftrightarrow> (\<exists>ks. length ks = length (rcts_of geth rcts t') \<and>
     rs = map2 (\<lambda>r k. r\<lparr>rm_ID := k, rm_TxID := tm_ID t'\<rparr>) (rcts_of geth rcts t') ks)"

definition tx_step :: "geth_lib \<Rightarrow> (Hash \<times> ReceiptModel) list \<Rightarrow> int \<Rightarrow> TxModel \<Rightarrow> unit pg_txm" where
  "tx_step geth rcts i t = tx_bind (sql_exec (insert_tx t i)) (\<lambda>txID.
     case map_of rcts (HexToHash geth (tm_TxHash t)) of
       Some r \<Rightarrow> indexReceiptCID r txID | None \<Rightarrow> tx_return ())"

definition rcts_below :: "(pg_db, pg_seq) sql_tx \<Rightarrow> bool" where
  "rcts_below tx \<longleftrightarrow> (\<forall>r\<in>set (eth_rcts (tx_db tx)). rm_TxID r < sq_eth_txs (tx_seq tx))"

lemma tx_step_fresh:
  assumes "tx_step geth rcts i t tx = (Ok v, tx')" "(i, tm_TxHash t) \<notin> tx_key ` set (eth_txs (tx_db tx))" "rcts_below tx"
  shows "\<exists>t' rs. eth_txs (tx_db tx') = eth_txs (tx_db tx) @ [t'] \<and> eth_rcts (tx_db tx') = eth_rcts (tx_db tx) @ rs
    \<and> tx_indexed i t t' \<and> tm_ID t' = sq_eth_txs (tx_seq tx) \<and> tm_ID t' \<le> 2147483647 \<and> rct_rows geth rcts t' rs
    \<and> eth_headers (tx_db tx') = eth_headers (tx_db tx) \<and> eth_uncles (tx_db tx') = eth_uncles (tx_db tx)
    \<and> sq_eth_txs (tx_seq tx') = sq_eth_txs (tx_seq tx) + 1 \<and> rcts_below tx'"
proof -
  obtain j tx1 where ins: "sql_exec (insert_tx t i) tx = (Ok j, tx1)"
    and rct: "(case map_of rcts (HexToHash geth (tm_TxHash t)) of
      Some r \<Rightarrow> indexReceiptCID r j | None \<Rightarrow> tx_return ()) tx1 = (Ok v, tx')"
    using assms(1) unfolding tx_step_def by (rule tx_bind_Ok)
  obtain db1 sq1 where ins1: "insert_tx t i (tx_seq tx) (tx_db tx) = Ok (j, db1, sq1)" "tx_db tx1 = db1" "tx_seq tx1 = sq1"
    using ins by (rule sql_exec_Ok)
  note f = insert_tx_fresh [OF ins1(1) assms(2)]
  let ?t = "t\<lparr>tm_ID := j, tm_HeaderID := i\<rparr>"
  show ?thesis
  proof (cases "map_of rcts (HexToHash geth (tm_TxHash t))")
    case None
    with rct have "tx' = tx1" by (simp add: tx_return_def)
    with f ins1 None assms(3) show ?thesis
      by (intro exI [of _ ?t] exI [of _ "[]"]) (auto simp: tx_indexed_def rct_rows_def rcts_of_def rcts_below_def)
  next
    case (Some r)
    with rct have "sql_exec (insert_rct r j) tx1 = (Ok v, tx')" by (simp add: indexReceiptCID_def)
    then obtain db2 sq2 where ins2: "insert_rct r j (tx_seq tx1) (tx_db tx1) = Ok (v, db2, sq2)" "tx_db tx' = db2" "tx_seq tx' = sq2"
      by (rule sql_exec_Ok)
    have "j \<notin> rm_TxID ` set (eth_rcts (tx_db tx1))" using f ins1 assms(3) by (auto simp: rcts_below_def)
    from insert_rct_fresh [OF ins2(1) this] obtain k where k: "eth_rcts db2 = eth_rcts (tx_db tx1) @ [r\<lparr>rm_ID := k, rm_TxID := j\<rparr>]"
      "eth_headers db2 = eth_headers (tx_db tx1)" "eth_uncles db2 = eth_uncles (tx_db tx1)" "eth_txs db2 = eth_txs (tx_db tx1)"
      "sq_eth_txs sq2 = sq_eth_txs (tx_seq tx1)" by blast
    have "rct_rows geth rcts ?t [r\<lparr>rm_ID := k, rm_TxID := j\<rparr>]"
      unfolding rct_rows_def rcts_of_def using Some by (intro exI [of _ "[k]"]) simp
    with f ins1 ins2 k assms(3) show ?thesis
      by (intro exI [of _ ?t] exI [of _ "[r\<lparr>rm_ID := k, rm_TxID := j\<rparr>]"]) (auto simp: tx_indexed_def rcts_below_def)
  qed
qed

lemma txs_loop:
  assumes "tx_for (\<lambda>_. tx_step geth rcts i) k ts tx = (Ok v, tx')" "distinct (map tm_TxHash ts)" "rcts_below tx"
    and "\<forall>t\<in>set ts. (i, tm_TxHash t) \<notin> tx_key ` set (eth_txs (tx_db tx))"
  shows "\<exists>ts' rss. eth_txs (tx_db tx') = eth_txs (tx_db tx) @ ts' \<and> eth_rcts (tx_db tx') = eth_rcts (tx_db tx) @ concat rss
    \<and> list_all2 (tx_indexed i) ts ts' \<and> list_all2 (rct_rows geth rcts) ts' rss
    \<and> (\<forall>t\<in>set ts'. sq_eth_txs (tx_seq tx) \<le> tm_ID t \<and> tm_ID t \<le> 2147483647) \<and> distinct (map tm_ID ts')
    \<and> eth_headers (tx_db tx') = eth_headers (tx_db tx) \<and> eth_uncles (tx_db tx') = eth_uncles (tx_db tx)"
  using assms
proof (induction ts arbitrary: k tx)
  case (Cons t ts)
  obtain w tx1 where step: "tx_step geth rcts i t tx = (Ok w, tx1)"
    and rest: "tx_for (\<lambda>_. tx_step geth rcts i) (k + 1) ts tx1 = (Ok v, tx')"
    using Cons.prems(1) by (auto elim: tx_bind_Ok)
  from tx_step_fresh [OF step _ Cons.prems(3)] Cons.prems(4) obtain t' rs where
    t': "eth_txs (tx_db tx1) = eth_txs (tx_db tx) @ [t']" "eth_rcts (tx_db tx1) = eth_rcts (tx_db tx) @ rs"
    "tx_indexed i t t'" "tm_ID t' = sq_eth_txs (tx_seq tx)" "tm_ID t' \<le> 2147483647" "rct_rows geth rcts t' rs"
    "eth_headers (tx_db tx1) = eth_headers (tx_db tx)" "eth_uncles (tx_db tx1) = eth_uncles (tx_db tx)"
    "sq_eth_txs (tx_seq tx1) = sq_eth_txs (tx_seq tx) + 1" "rcts_below tx1" by auto
  have "\<forall>x\<in>set ts. (i, tm_TxHash x) \<notin> tx_key ` set (eth_txs (tx_db tx1))"
    using Cons.prems(2,4) tx_indexed_fields [OF t'(3)] unfolding t'(1) by (auto simp: tx_key_def image_iff)
  with Cons.IH [OF rest _ t'(10)] Cons.prems(2) obtain ts' rss where
    ih: "eth_txs (tx_db tx') = eth_txs (tx_db tx1) @ ts'" "eth_rcts (tx_db tx') = eth_rcts (tx_db tx1) @ concat rss"
    "list_all2 (tx_indexed i) ts ts'" "list_all2 (rct_rows geth rcts) ts' rss"
    "\<forall>t\<in>set ts'. sq_eth_txs (tx_seq tx1) \<le> tm_ID t \<and> tm_ID t \<le> 2147483647" "distinct (map tm_ID ts')"
    "eth_headers (tx_db tx') = eth_headers (tx_db tx1)" "eth_uncles (tx_db tx') = eth_uncles (tx_db tx1)" by auto
  have "tm_ID t' \<notin> set (map tm_ID ts')" using ih(5) t'(4,9) by auto
  with t' ih show ?case by (intro exI [of _ "t' # ts'"] exI [of _ "rs # rss"]) auto
qed (simp add: tx_return_def)

subsection \<open>The tables after indexing a new block\<close>

definition block_view :: "pg_db \<Rightarrow> HeaderModel list \<times> UncleModel list \<times> TxModel list \<times> ReceiptModel list" where
  "block_view db = (eth_headers db, eth_uncles db, eth_txs db, eth_rcts db)"

lemma block_view_stmts [keeps_intros]:
  "stmt_keeps (view_is block_view v) (insert_state st stateKey headerID)"
  "stmt_keeps (view_is block_view v) (insert_account acc stateID)"
  "stmt_keeps (view_is block_view v) (insert_storage so storageKey stateID)"
  by (auto simp: stmt_keeps_def view_is_def block_view_def insert_state_def insert_account_def insert_storage_def
    split: if_splits)

lemma block_view_states: "tx_keeps (view_is block_view v) (indexStateAndStorageCIDs payload headerID)"
  unfolding indexStateAndStorageCIDs_def indexStateAccount_def indexStorageCID_def Let_def
  by (intro keeps_intros)

text \<open>The header is new, its transactions and uncles are distinct.\<close>

definition new_block :: "int \<Rightarrow> CIDPayload \<Rightarrow> pg_db \<Rightarrow> bool" where
  "new_block nodeID p db \<longleftrightarrow>
     hm_BlockHash (cd_HeaderCID p) \<notin> hm_BlockHash ` set (eth_headers db)
   \<and> distinct (map um_BlockHash (cd_UncleCIDs p)) \<and> distinct (map tm_TxHash (cd_TransactionCIDs p))"

definition block_indexed ::
    "geth_lib \<Rightarrow> int \<Rightarrow> CIDPayload \<Rightarrow> pg_seq \<Rightarrow> pg_db \<Rightarrow> pg_db \<Rightarrow> HeaderModel \<Rightarrow> UncleModel list \<Rightarrow> TxModel list
     \<Rightarrow> ReceiptModel list list \<Rightarrow> bool" where
  "block_indexed geth nodeID p sq db db' h us ts rss \<longleftrightarrow>
     (\<exists>row. header_row nodeID (cd_HeaderCID p) = Ok row \<and> h = row\<lparr>hm_ID := sq_eth_headers sq\<rparr>)
   \<and> hm_ID h \<le> 2147483647
   \<and> eth_headers db' = eth_headers db @ [h] \<and> eth_uncles db' = eth_uncles db @ us
   \<and> eth_txs db' = eth_txs db @ ts \<and> eth_rcts db' = eth_rcts db @ concat rss
   \<and> list_all2 (uncle_indexed (hm_ID h)) (cd_UncleCIDs p) us \<and> list_all2 (tx_indexed (hm_ID h)) (cd_TransactionCIDs p) ts
   \<and> list_all2 (rct_rows geth (cd_ReceiptCIDs p)) ts rss
   \<and> (\<forall>t\<in>set ts. sq_eth_txs sq \<le> tm_ID t \<and> tm_ID t \<le> 2147483647) \<and> distinct (map tm_ID ts)"

lemma children_below:
  assumes "db_ok sq db" "deferred_fk db"
  shows "u \<in> set (eth_uncles db) \<Longrightarrow> um_HeaderID u < sq_eth_headers sq"
    and "t \<in> set (eth_txs db) \<Longrightarrow> tm_HeaderID t < sq_eth_headers sq"
    and "r \<in> set (eth_rcts db) \<Longrightarrow> rm_TxID r < sq_eth_txs sq"
    and "t \<in> set (eth_txs db) \<Longrightarrow> tm_ID t < sq_eth_txs sq"
  using assms by (auto simp: db_ok_defs table_ok_def deferred_fk_def rows_fk_def list_all_iff)

lemma header_row_hash: "header_row nodeID h = Ok row \<Longrightarrow> hm_BlockHash row = hm_BlockHash h"
  by (auto simp: header_row_def)

lemma index_body_new:
  assumes "index_body geth nodeID p tx = ((Ok (), False), tx')"
    and "db_ok (tx_seq tx) (tx_db tx)" "deferred_fk (tx_db tx)" "new_block nodeID p (tx_db tx)"
  shows "\<exists>h us ts rss. block_indexed geth nodeID p (tx_seq tx) (tx_db tx) (tx_db tx') h us ts rss"
proof -
  let ?db = "tx_db tx" and ?sq = "tx_seq tx"
  note below = children_below [OF assms(2,3)]
  from assms(1) obtain i tx1 tx2 tx3 tx4 where
    hdr: "indexHeaderCID nodeID (cd_HeaderCID p) tx = (Ok i, tx1)"
    and unc: "tx_for (\<lambda>_ uncle. indexUncleCID uncle i) 0 (cd_UncleCIDs p) tx1 = (Ok (), tx2)"
    and txs: "tx_for (\<lambda>_. tx_step geth (cd_ReceiptCIDs p) i) 0 (cd_TransactionCIDs p) tx2 = (Ok (), tx3)"
    and sta: "indexStateAndStorageCIDs p i tx3 = (Ok (), tx4)" and fin: "tx' = tx4"
    unfolding index_body_def indexTransactionAndReceiptCIDs_def tx_step_def [symmetric]
    by (elim outer_err_Ok inner_err_Ok) (auto simp: body_return_def)
  obtain db1 sq1 where ins: "insert_header nodeID (cd_HeaderCID p) ?sq ?db = Ok (i, db1, sq1)" "tx_db tx1 = db1" "tx_seq tx1 = sq1"
    using hdr unfolding indexHeaderCID_def by (elim tx_bind_Ok sql_exec_Ok) (auto simp: tx_lift_def)
  then obtain row where row: "header_row nodeID (cd_HeaderCID p) = Ok row"
    by (cases "header_row nodeID (cd_HeaderCID p)") (auto simp: insert_header_def)
  have "header_key row \<notin> header_key ` set (eth_headers ?db)"
    using assms(4) header_row_hash [OF row] by (auto simp: new_block_def header_key_def)
  note h = insert_header_fresh [OF ins(1) row this]
  let ?h = "row\<lparr>hm_ID := i\<rparr>"
  have "\<forall>u\<in>set (cd_UncleCIDs p). (i, um_BlockHash u) \<notin> uncle_key ` set (eth_uncles (tx_db tx1))"
    using h ins by (auto simp: uncle_key_def dest: below(1))
  from uncles_loop [OF unc _ this] assms(4) obtain us where us: "eth_uncles (tx_db tx2) = eth_uncles ?db @ us"
    "list_all2 (uncle_indexed i) (cd_UncleCIDs p) us" "eth_headers (tx_db tx2) = eth_headers ?db @ [?h]"
    "eth_txs (tx_db tx2) = eth_txs ?db" "eth_rcts (tx_db tx2) = eth_rcts ?db" "sq_eth_txs (tx_seq tx2) = sq_eth_txs ?sq"
    using h ins by (auto simp: new_block_def)
  have "\<forall>t\<in>set (cd_TransactionCIDs p). (i, tm_TxHash t) \<notin> tx_key ` set (eth_txs (tx_db tx2))" "rcts_below tx2"
    using h us by (auto simp: tx_key_def rcts_below_def dest: below(2,3))
  from txs_loop [OF txs _ this(2,1)] assms(4) obtain ts rss where
    ts: "eth_txs (tx_db tx3) = eth_txs ?db @ ts" "eth_rcts (tx_db tx3) = eth_rcts ?db @ concat rss"
      "list_all2 (tx_indexed i) (cd_TransactionCIDs p) ts" "list_all2 (rct_rows geth (cd_ReceiptCIDs p)) ts rss"
      "\<forall>t\<in>set ts. sq_eth_txs ?sq \<le> tm_ID t \<and> tm_ID t \<le> 2147483647" "distinct (map tm_ID ts)"
      "eth_headers (tx_db tx3) = eth_headers ?db @ [?h]" "eth_uncles (tx_db tx3) = eth_uncles ?db @ us"
    using us by (auto simp: new_block_def)
  have "block_view (tx_db tx4) = block_view (tx_db tx3)"
    by (rule tx_keeps_view [OF block_view_states sta])
  then have "block_indexed geth nodeID p ?sq ?db (tx_db tx') ?h us ts rss"
    using ts us h row fin by (auto simp: block_indexed_def block_view_def)
  then show ?thesis by blast
qed

subsection \<open>Reading the block back\<close>

definition rct_pairs :: "TxModel list \<Rightarrow> ReceiptModel list list \<Rightarrow> (ReceiptModel \<times> TxModel) list" where
  "rct_pairs ts rss = concat (map2 (\<lambda>t rs. map (\<lambda>r. (r, t)) rs) ts rss)"

lemma rct_rows_tx: "rct_rows geth rcts t rs \<Longrightarrow> r \<in> set rs \<Longrightarrow> rm_TxID r = tm_ID t"
  by (auto simp: rct_rows_def dest: set_zip_rightD)

lemma filter_id_single:
  "distinct (map f xs) \<Longrightarrow> x \<in> set xs \<Longrightarrow> filter (\<lambda>y. f x = f y) xs = [x]"
  by (induction xs) (auto simp: filter_empty_conv image_iff)

lemma joined_pairs:
  assumes "list_all2 (rct_rows geth rcts) ts rss" "set ts \<subseteq> set all" "distinct (map tm_ID all)"
  shows "concat (map (\<lambda>r. map (Pair r) (filter (\<lambda>t. rm_TxID r = tm_ID t) all)) (concat rss)) = rct_pairs ts rss"
  using assms(1,2)
proof (induction rule: list_all2_induct)
  case (Cons t ts rs rss)
  have "map (\<lambda>r. map (Pair r) (filter (\<lambda>t. rm_TxID r = tm_ID t) all)) rs = map (\<lambda>r. [(r, t)]) rs"
    using rct_rows_tx [OF Cons.hyps(1)] filter_id_single [OF assms(3), of t] Cons.prems by (intro map_cong) auto
  then have "concat (map (\<lambda>r. map (Pair r) (filter (\<lambda>t. rm_TxID r = tm_ID t) all)) rs) = map (\<lambda>r. (r, t)) rs"
    by (simp only: concat_map_singleton)
  then show ?case using Cons.IH Cons.prems by (simp add: rct_pairs_def)
qed (simp add: rct_pairs_def)

lemma rct_pairs_fst: "length ts = length rss \<Longrightarrow> map fst (rct_pairs ts rss) = concat rss"
  by (induction ts rss rule: list_induct2) (auto simp: rct_pairs_def comp_def)

lemma rct_pairs_sorted:
  "length ts = length rss \<Longrightarrow> sorted (map tm_Index ts) \<Longrightarrow> sorted (map (\<lambda>(r, t). tm_Index t) (rct_pairs ts rss))"
proof (induction ts rss rule: list_induct2)
  case (Cons t ts rs rss)
  have "\<forall>p\<in>set (rct_pairs ts rss). tm_Index t \<le> tm_Index (snd p)"
    using Cons.prems by (auto simp: rct_pairs_def dest!: set_zip_leftD)
  moreover have "sorted (map (\<lambda>p. tm_Index (snd p)) (map (\<lambda>r. (r, t)) rs))"
    by (induction rs) auto
  ultimately show ?case using Cons by (auto simp: rct_pairs_def sorted_append case_prod_beta simp del: map_map)
qed (simp add: rct_pairs_def)

lemma joined_new:
  assumes new: "list_all2 (rct_rows geth rcts) ts rss" "distinct (map tm_ID (old @ ts))" "sorted (map tm_Index ts)"
    and old: "\<forall>r\<in>set orcts. rm_TxID r \<notin> set (map tm_ID ts)"
    and db: "eth_txs db = old @ ts" "eth_rcts db = orcts @ concat rss"
  shows "map fst (filter (\<lambda>(r, t). rm_TxID r \<in> set (map tm_ID ts)) (rcts_joined db)) = concat rss"
proof -
  let ?P = "\<lambda>(r, t :: TxModel). rm_TxID r \<in> set (map tm_ID ts)"
  let ?J = "\<lambda>rs. concat (map (\<lambda>r. map (Pair r) (filter (\<lambda>t. rm_TxID r = tm_ID t) (old @ ts))) rs)"
  have joined: "rcts_joined db = sort_key (\<lambda>(r, t). tm_Index t) (?J orcts @ ?J (concat rss))"
    by (simp add: rcts_joined_def db comp_def)
  have pairs: "?J (concat rss) = rct_pairs ts rss" by (rule joined_pairs [OF new(1) _ new(2)]) auto
  have none: "filter ?P (?J orcts) = []" using old by (auto simp: filter_empty_conv)
  have len: "length ts = length rss" using new(1) by (rule list_all2_lengthD)
  have "rm_TxID r \<in> set (map tm_ID ts)" if r: "r \<in> set (concat rss)" for r
  proof -
    from r obtain rs where "rs \<in> set rss" "r \<in> set rs" by auto
    then obtain j where j: "j < length rss" "r \<in> set (rss ! j)" by (metis in_set_conv_nth)
    with list_all2_nthD2 [OF new(1) j(1)] have "rm_TxID r = tm_ID (ts ! j)" by (intro rct_rows_tx)
    with j(1) len show ?thesis by simp
  qed
  moreover have "fst p \<in> set (concat rss)" if "p \<in> set (rct_pairs ts rss)" for p
    using that unfolding rct_pairs_fst [OF len, symmetric] by simp
  ultimately have all: "filter ?P (rct_pairs ts rss) = rct_pairs ts rss"
    by (simp add: filter_id_conv case_prod_beta)
  have "filter ?P (rcts_joined db) = sort_key (\<lambda>(r, t). tm_Index t) (rct_pairs ts rss)"
    unfolding joined filter_sort filter_append [of ?P] pairs none all append_Nil ..
  also have "\<dots> = rct_pairs ts rss" by (rule sort_key_id_if_sorted [OF rct_pairs_sorted [OF len new(3)]])
  finally show ?thesis using rct_pairs_fst [OF len] by simp
qed

text \<open>Rows compared without the columns the database fills in.\<close>

definition bare_tx :: "TxModel \<Rightarrow> TxModel" where
  "bare_tx t = t\<lparr>tm_ID := 0, tm_HeaderID := 0\<rparr>"

definition bare_rct :: "ReceiptModel \<Rightarrow> ReceiptModel" where
  "bare_rct r = r\<lparr>rm_ID := 0, rm_TxID := 0\<rparr>"

lemma tx_indexed_bare: "tx_indexed i t t' \<Longrightarrow> bare_tx t' = bare_tx t"
proof -
  assume "tx_indexed i t t'"
  then have "t' = t\<lparr>tm_ID := tm_ID t', tm_HeaderID := i\<rparr>" by (simp add: tx_indexed_def)
  then show "bare_tx t' = bare_tx t" unfolding bare_tx_def by (cases t; cases t') simp
qed

lemma rct_rows_bare:
  assumes "rct_rows geth rcts t' rs" "tm_TxHash t' = tm_TxHash t"
  shows "map bare_rct rs = map bare_rct (rcts_of geth rcts t)"
proof -
  obtain ks where ks: "length ks = length (rcts_of geth rcts t)"
    "rs = map2 (\<lambda>r k. r\<lparr>rm_ID := k, rm_TxID := tm_ID t'\<rparr>) (rcts_of geth rcts t) ks"
    using assms unfolding rct_rows_def rcts_of_def by auto
  have "map bare_rct (map2 (\<lambda>r k. r\<lparr>rm_ID := k, rm_TxID := j\<rparr>) xs ks) = map bare_rct xs"
    if "length ks = length xs" for xs ks j
    using that by (induction ks xs rule: list_induct2) (simp_all add: bare_rct_def)
  with ks show ?thesis by simp
qed

lemma rows_bare:
  assumes "list_all2 (tx_indexed i) ps ts" "list_all2 (rct_rows geth rcts) ts rss"
  shows "map bare_tx ts = map bare_tx ps" "map tm_Index ts = map tm_Index ps"
    and "map bare_rct (concat rss) = map bare_rct (concat (map (rcts_of geth rcts) ps))"
proof -
  show "map bare_tx ts = map bare_tx ps" "map tm_Index ts = map tm_Index ps"
    using assms(1) by (induction rule: list_all2_induct) (auto dest: tx_indexed_bare tx_indexed_fields)
  have "map (map bare_rct) rss = map (\<lambda>t. map bare_rct (rcts_of geth rcts t)) ts"
    using assms(2) by (induction rule: list_all2_induct) (auto dest: rct_rows_bare)
  also have "\<dots> = map (\<lambda>t. map bare_rct (rcts_of geth rcts t)) ps"
    using assms(1) by (induction rule: list_all2_induct) (auto simp: rcts_of_def dest: tx_indexed_fields)
  finally show "map bare_rct (concat rss) = map bare_rct (concat (map (rcts_of geth rcts) ps))"
    by (simp add: map_concat comp_def)
qed

lemma find_new: "P x \<Longrightarrow> \<forall>y\<in>set xs. \<not> P y \<Longrightarrow> find P (xs @ [x]) = Some x"
  by (induction xs) auto

lemma int4s_Ok: "\<forall>i\<in>set ids. - 2147483648 \<le> i \<and> i \<le> 2147483647 \<Longrightarrow> int4s ids = Ok ids"
  unfolding int4s_def by (induction ids) (auto simp: pg_int4_def)

lemma block_read_back:
  assumes ix: "block_indexed geth nodeID p sq db db' h us ts rss"
    and ok: "db_ok sq db" "deferred_fk db" and new: "new_block nodeID p db"
    and seqs: "0 < sq_eth_headers sq" "0 < sq_eth_txs sq" and so: "sorted (map tm_Index (cd_TransactionCIDs p))"
    and bh: "hm_BlockHash (cd_HeaderCID p) = Hash_Hex bh"
  shows "RetrieveBlockByHash [] sq' db' bh = Ok (h, us, ts, concat rss)"
proof -
  note below = children_below [OF ok]
  from ix obtain row where row: "header_row nodeID (cd_HeaderCID p) = Ok row" "h = row\<lparr>hm_ID := sq_eth_headers sq\<rparr>"
    and le: "hm_ID h \<le> 2147483647"
    and tabs: "eth_headers db' = eth_headers db @ [h]" "eth_uncles db' = eth_uncles db @ us"
      "eth_txs db' = eth_txs db @ ts" "eth_rcts db' = eth_rcts db @ concat rss"
    and rel: "list_all2 (uncle_indexed (hm_ID h)) (cd_UncleCIDs p) us"
      "list_all2 (tx_indexed (hm_ID h)) (cd_TransactionCIDs p) ts" "list_all2 (rct_rows geth (cd_ReceiptCIDs p)) ts rss"
    and ids: "\<forall>t\<in>set ts. sq_eth_txs sq \<le> tm_ID t \<and> tm_ID t \<le> 2147483647" "distinct (map tm_ID ts)"
    unfolding block_indexed_def by blast
  have i: "hm_ID h = sq_eth_headers sq" using row by simp
  have int4: "pg_int4 (hm_ID h) = Ok (hm_ID h)" using le i seqs by simp
  have hash: "hm_BlockHash h = Hash_Hex bh" using row header_row_hash [OF row(1)] bh by simp
  have hd: "find (\<lambda>r. hm_BlockHash r = Hash_Hex bh) (eth_headers db') = Some h"
    unfolding tabs by (rule find_new) (use hash new bh in \<open>auto simp: new_block_def image_iff\<close>)
  have usH: "\<forall>u\<in>set us. um_HeaderID u = hm_ID h"
    using rel(1) by (induction rule: list_all2_induct) (auto dest: uncle_indexed_header)
  have tsH: "\<forall>t\<in>set ts. tm_HeaderID t = hm_ID h"
    using rel(2) by (induction rule: list_all2_induct) (auto dest: tx_indexed_fields)
  have un: "filter (\<lambda>r. um_HeaderID r = hm_ID h) (eth_uncles db') = us"
    using usH i unfolding tabs by (auto simp: filter_empty_conv filter_id_conv dest: below(1))
  have tx: "filter (\<lambda>r. tm_HeaderID r = hm_ID h) (eth_txs db') = ts"
    using tsH i unfolding tabs by (auto simp: filter_empty_conv filter_id_conv dest: below(2))
  have sts: "sorted (map tm_Index ts)" using so rows_bare(2) [OF rel(2,3)] by simp
  have "distinct (map tm_ID (eth_txs db @ ts))"
    using ok(1) ids below(4) by (fastforce simp: db_ok_defs table_ok_def)
  moreover have "\<forall>r\<in>set (eth_rcts db). rm_TxID r \<notin> set (map tm_ID ts)" using ids(1) below(3) by fastforce
  ultimately have rc: "map fst (filter (\<lambda>(r, t). rm_TxID r \<in> set (map tm_ID ts)) (rcts_joined db')) = concat rss"
    by (intro joined_new [OF rel(3) _ sts _ tabs(3,4)])
  have i4: "int4s (map tm_ID ts) = Ok (map tm_ID ts)" using ids(1) seqs(2) by (intro int4s_Ok) auto
  have ops: "RetrieveHeaderCIDByHash bh (begin_tx [] sq' db') = (Ok h, begin_tx [] sq' db')"
    "RetrieveUncleCIDsByHeaderID (hm_ID h) (begin_tx [] sq' db') = (Ok us, begin_tx [] sq' db')"
    "RetrieveTxCIDsByHeaderID (hm_ID h) (begin_tx [] sq' db') = (Ok ts, begin_tx [] sq' db')"
    "RetrieveReceiptCIDsByTxIDs (map tm_ID ts) (begin_tx [] sq' db') = (Ok (concat rss), begin_tx [] sq' db')"
    unfolding RetrieveHeaderCIDByHash_def RetrieveUncleCIDsByHeaderID_def RetrieveTxCIDsByHeaderID_def RetrieveReceiptCIDsByTxIDs_def
    by (simp_all add: select_begin tx_bind_def tx_lift_def hd int4 un tx i4 rc [simplified] sort_key_id_if_sorted [OF sts])
  show ?thesis unfolding RetrieveBlockByHash_def block_rows_def
    by (rule read_begin) (simp add: tx_bind_def tx_return_def ops)
qed

text \<open>
  C16. Indexing and retrieval are inverse. A block that is indexed and committed, whose hash was not
  in the database before, is read back by its hash: the header row with the payload's values, the
  uncles in their order, the transactions in the order of their indices, and for each of them, in the
  same order, its receipt if the payload has one. The rows differ from the payload only in ids and
  references and in the text of numbers.
\<close>

theorem Index_then_RetrieveBlockByHash:
  assumes "CIDIndexer_Index geth nodeID faults (EthCIDs p) sq db = (Ok (), db', sq')" "db' \<noteq> db"
    and "db_ok sq db" "deferred_fk db" "0 < sq_eth_headers sq" "0 < sq_eth_txs sq"
    and "new_block nodeID p db" "sorted (map tm_Index (cd_TransactionCIDs p))"
    and "hm_BlockHash (cd_HeaderCID p) = Hash_Hex bh"
  shows "\<exists>h us ts rs row. RetrieveBlockByHash [] sq' db' bh = Ok (h, us, ts, rs)
    \<and> header_row nodeID (cd_HeaderCID p) = Ok row \<and> h = row\<lparr>hm_ID := hm_ID h\<rparr>
    \<and> list_all2 (uncle_indexed (hm_ID h)) (cd_UncleCIDs p) us
    \<and> map bare_tx ts = map bare_tx (cd_TransactionCIDs p)
    \<and> map bare_rct rs = map bare_rct (concat (map (rcts_of geth (cd_ReceiptCIDs p)) (cd_TransactionCIDs p)))"
proof -
  have run: "run_tx deferred_fk faults (index_body geth nodeID p) sq db = (Ok (), db', sq')"
    using assms(1) by (simp add: CIDIndexer_Index_def)
  obtain x tx where body: "index_body geth nodeID p (begin_tx faults sq db) = ((Ok x, False), tx)" and db': "db' = tx_db tx"
    by (rule index_tx.changed_committed [OF run assms(2)])
  have b: "tx_db (begin_tx faults sq db) = db" "tx_seq (begin_tx faults sq db) = sq" by (simp_all add: begin_tx_def)
  obtain h us ts rss where ix: "block_indexed geth nodeID p sq db db' h us ts rss"
    using index_body_new [of geth nodeID p "begin_tx faults sq db" tx] body assms(3,4,7) unfolding b db' by auto
  have rd: "RetrieveBlockByHash [] sq' db' bh = Ok (h, us, ts, concat rss)"
    by (rule block_read_back [OF ix assms(3,4,7,5,6,8,9)])
  from ix obtain row where "header_row nodeID (cd_HeaderCID p) = Ok row" "h = row\<lparr>hm_ID := hm_ID h\<rparr>"
    and "list_all2 (uncle_indexed (hm_ID h)) (cd_UncleCIDs p) us"
    and rel: "list_all2 (tx_indexed (hm_ID h)) (cd_TransactionCIDs p) ts" "list_all2 (rct_rows geth (cd_ReceiptCIDs p)) ts rss"
    unfolding block_indexed_def by auto
  with rd rows_bare [OF rel] show ?thesis by blast
qed

definition rt_cids :: CIDPayload where
  "rt_cids = \<lparr>cd_HeaderCID = zero_HeaderModel\<lparr>hm_BlockNumber := big_String 7, hm_BlockHash := ''0xaa'', hm_CID := ''c'',
       hm_MhKey := ''k'', hm_TotalDifficulty := big_String 1, hm_Reward := big_String 2\<rparr>,
     cd_UncleCIDs = [], cd_TransactionCIDs = [zero_TxModel\<lparr>tm_TxHash := ''t'', tm_MhKey := ''k''\<rparr>],
     cd_ReceiptCIDs = [([116], zero_ReceiptModel\<lparr>rm_CID := ''r'', rm_MhKey := ''k''\<rparr>)],
     cd_StateNodeCIDs = [], cd_StateAccounts = [], cd_StorageNodeCIDs = []\<rparr>"

lemma rt_index:
  "CIDIndexer_Index sample_geth 1 [] (EthCIDs rt_cids) empty_seq sample_db
    = (Ok (), sample_db\<lparr>eth_headers := [(cd_HeaderCID rt_cids)\<lparr>hm_ID := 1, hm_NodeID := 1, hm_TimesValidated := 1\<rparr>],
        eth_txs := [zero_TxModel\<lparr>tm_ID := 1, tm_HeaderID := 1, tm_TxHash := ''t'', tm_MhKey := ''k''\<rparr>],
        eth_rcts := [zero_ReceiptModel\<lparr>rm_ID := 1, rm_TxID := 1, rm_CID := ''r'', rm_MhKey := ''k''\<rparr>]\<rparr>,
       empty_seq\<lparr>sq_eth_headers := 2, sq_eth_txs := 2, sq_eth_rcts := 2\<rparr>)"
  by (simp add: index_run_defs rt_cids_def insert_tx_def insert_rct_def indexReceiptCID_def zero_TxModel_def
    zero_ReceiptModel_def tx_key_def sample_geth_def deferred_fk_def blocks_fk_def rows_fk_def stored_def)

theorem Index_then_RetrieveBlockByHash_witness:
  "\<exists>db' sq' h us ts rs. CIDIndexer_Index sample_geth 1 [] (EthCIDs rt_cids) empty_seq sample_db = (Ok (), db', sq')
    \<and> RetrieveBlockByHash [] sq' db' [170] = Ok (h, us, ts, rs) \<and> map tm_TxHash ts = [''t''] \<and> map rm_CID rs = [''r'']"
proof -
  let ?db' = "sample_db\<lparr>eth_headers := [(cd_HeaderCID rt_cids)\<lparr>hm_ID := 1, hm_NodeID := 1, hm_TimesValidated := 1\<rparr>],
        eth_txs := [zero_TxModel\<lparr>tm_ID := 1, tm_HeaderID := 1, tm_TxHash := ''t'', tm_MhKey := ''k''\<rparr>],
        eth_rcts := [zero_ReceiptModel\<lparr>rm_ID := 1, rm_TxID := 1, rm_CID := ''r'', rm_MhKey := ''k''\<rparr>]\<rparr>"
  have ne: "?db' \<noteq> sample_db" by (simp add: sample_db_def empty_db_def)
  have fk: "deferred_fk sample_db"
    by (simp add: sample_db_def empty_db_def deferred_fk_def blocks_fk_def rows_fk_def)
  have nb: "new_block 1 rt_cids sample_db" by (simp add: new_block_def rt_cids_def sample_db_def empty_db_def)
  have hex: "hm_BlockHash (cd_HeaderCID rt_cids) = Hash_Hex [170]"
    by (simp add: rt_cids_def Hash_Hex_def hex_digit_def char_of_def bit_0)
  obtain h us ts rs where rd: "RetrieveBlockByHash [] (empty_seq\<lparr>sq_eth_headers := 2, sq_eth_txs := 2, sq_eth_rcts := 2\<rparr>) ?db' [170]
      = Ok (h, us, ts, rs)"
    and ts: "map bare_tx ts = map bare_tx (cd_TransactionCIDs rt_cids)"
    and rs: "map bare_rct rs = map bare_rct (concat (map (rcts_of sample_geth (cd_ReceiptCIDs rt_cids)) (cd_TransactionCIDs rt_cids)))"
    using Index_then_RetrieveBlockByHash [OF rt_index ne sample_db_ok(1) fk _ _ nb _ hex]
    by (auto simp: empty_seq_def rt_cids_def)
  have "map (tm_TxHash \<circ> bare_tx) ts = [''t'']" unfolding map_map [symmetric] ts by (simp add: rt_cids_def bare_tx_def)
  moreover have "map (rm_CID \<circ> bare_rct) rs = [''r'']"
    unfolding map_map [symmetric] rs by (simp add: rt_cids_def bare_rct_def rcts_of_def sample_geth_def zero_TxModel_def)
  ultimately show ?thesis using rt_index rd by (auto simp: bare_tx_def [abs_def] bare_rct_def [abs_def] comp_def)
qed

end
