(* ===== verification/Spec2Isabelle.thy ===== *)
theory Spec2Isabelle
  imports Commands Watch_Api Backfill_Stop Ipld_Nodes Eth_Roundtrip
begin

text \<open>
  \<^bold>\<open>A verification of ipfs-blockchain-watcher.\<close>
  The program follows an Ethereum or a Bitcoin node, turns every block into IPLD nodes, stores them in IPFS
  or in the block table of a Postgres database, indexes their cids with metadata, serves the data to
  subscribers, live and from the database, and answers a part of the Ethereum JSON-RPC interface. This
  development models the Go code of all these parts as executable functions and transition systems, and
  proves what makes them correct. File names below are under \<open>src/pkg\<close>, except \<open>cmd\<close> and \<open>utils\<close>, which are under \<open>src\<close>.

  \<^bold>\<open>Conventions.\<close>
  A Go call ends with a value, an error or a panic: the type \<open>outcome\<close> of \<open>Go_Prelude\<close>, where an error keeps
  its format and arguments (\<open>Errorf\<close>, \<open>Wrapf\<close>). Every early return and every panic the code can reach
  (nil interfaces, slices out of range, closing a closed channel, division by zero) is a branch.
  \<open>uint64\<close> is \<open>64 word\<close>; \<open>int64\<close> is \<open>int\<close> read through \<open>int64_of\<close>; \<open>big.Int\<close> is \<open>int\<close>. Strings of numbers
  are converted as \<open>math/big\<close> and \<open>strconv\<close> do (\<open>Go_Strings\<close>). Structs are records with the fields the
  code reads or writes. State is threaded explicitly: \<open>Go_Io\<close> for sequences of effects, \<open>Sql_Tx\<close> for
  transactions. Maps of Go whose iteration order shows are association lists, and the order is arbitrary.

  \<^bold>\<open>What is a parameter.\<close>
  Libraries are records of functions, with what the code relies on as hypotheses where a property needs it:
  go-ethereum (\<open>geth_lib\<close>, \<open>trie_lib\<close>, \<open>rlp_lib\<close>, \<open>backend_lib\<close>, \<open>node_lib\<close>), btcd (\<open>btcd_lib\<close>), the cid and multihash libraries
  (\<open>ipfs_lib\<close>), the IPFS block service, viper and the environment (\<open>config_lib\<close>), connecting and starting servers
  (\<open>builder_lib\<close>, \<open>cmd_lib\<close>), the RPC server (\<open>api_lib\<close>), and what the chain's node answers (\<open>node_answers\<close>). Postgres is
  modelled, not assumed: tables are lists of rows (\<open>Sql_Table\<close>, \<open>Pg_DB\<close>) with serial ids, unique and foreign keys and column limits,
  and every statement of the code is a function on them. A script of faults, a list of booleans, decides which
  statement, commit or call of a node fails, so that a property that holds for all scripts holds whatever fails.
  \<open>Sample_Libs\<close> has concrete instances, on which the witnesses of the properties are evaluated.

  \<^bold>\<open>The theories, from the bottom up.\<close>
  \<^item> Shared vocabulary: \<open>Go_Prelude\<close>, \<open>Go_Strings\<close>, \<open>Go_Io\<close>; \<open>Shared_Types\<close> (\<open>shared/\<close>: chains, modes and data types with their
    printers and parsers, a locale of names); \<open>Utils_Bins\<close> (\<open>utils/utils.go\<close>: splitting a range of heights into bins, and
    missing heights into gaps; a partition, in order, with the exact place of the overflow).
  \<^item> Data: \<open>Ipld_Cid\<close>, \<open>Eth_Types\<close>, \<open>Btc_Types\<close>, \<open>Chain_Data\<close> (models, payloads, subscription settings and the values
    behind the interfaces; the contract \<open>response_filterer\<close>).
  \<^item> Converting and filtering: \<open>Eth_Converter\<close>, \<open>Eth_Filterer\<close>, \<open>Btc_Filterer\<close> (\<open>eth/\<close> and \<open>btc/\<close>, \<open>converter.go\<close> and \<open>filterer.go\<close>),
    shown to give exactly the packet the settings describe. \<open>Payload_Source\<close>: streamers and payload fetchers.
  \<^item> IPLD: \<open>Ipld_Eth\<close> (building the nodes of a block and their tries), \<open>Ipld_Trie\<close> (trie nodes, headers, accounts: decoding
    and path resolution), \<open>Ipld_Btc\<close> (Bitcoin nodes; the Merkle tree has the root that its recursive definition has),
    \<open>Ipld_Nodes\<close> (transactions and receipts as nodes, JSON forms: their names are those of the tree and their values those
    of the paths, but for one), \<open>Dag_Put\<close> (\<open>ipfs/dag_putters\<close>).
  \<^item> Database: \<open>Sql_Tx\<close> (transactions with their deferred commit or rollback, and the locale \<open>transactional\<close> of bodies that are
    all or nothing), \<open>Sql_Table\<close> (upserts, the locale \<open>upsert_row\<close>), \<open>Sql_Query\<close>, \<open>Pg_DB\<close> (the schema and its invariant: ids and
    keys unique, foreign keys satisfied), \<open>Pg_Clean\<close> (deletion with cascades).
  \<^item> Writing: \<open>Eth_Indexer\<close>, \<open>Eth_Reward\<close>, \<open>Eth_Publisher\<close>, \<open>Eth_Dag_Publisher\<close>, \<open>Btc_Indexer\<close>, \<open>Btc_Publisher\<close>. A publication or
    indexing is written as a whole or leaves the database as it was, keeps the invariant, and the
    publishers of both modes lead to the same rows.
  \<^item> Reading: \<open>Height_Gaps\<close>, \<open>Eth_Retriever\<close>, \<open>Btc_Retriever\<close>, \<open>Ipld_Fetch\<close>, \<open>Eth_Fetcher\<close>, \<open>Btc_Fetcher\<close>, and \<open>Eth_Roundtrip\<close>: what is
    indexed is read back. The gaps that are found are exactly the heights that are missing or not validated, up to one case.
    The two fetchers agree. \<open>Eth_Backend\<close>, \<open>Eth_Api\<close>: the JSON-RPC interface serves the block that was stored.
  \<^item> Cleaning: \<open>Eth_Cleaner\<close>, \<open>Btc_Cleaner\<close> meet one specification of what a clean deletes and what it leaves alone.
  \<^item> Services: \<open>Watch_Types\<close>, \<open>Watch_Service\<close> (\<open>watch/service.go\<close>: subscribing, serving, feeding history, stopping), \<open>Watch_Serve\<close> (its
    reachable states and what subscribers receive), \<open>Watch_Sync\<close> (the sync loop and its ring buffer), \<open>Watch_Api\<close>
    (\<open>watch/api.go\<close>: the RPC streams beside the service), \<open>Worker_Pool\<close> and \<open>Backfill\<close> (\<open>historical/service.go\<close>, \<open>resync/service.go\<close>:
    a pass covers exactly the heights of the gaps, each once), \<open>Backfill_Stop\<close> (a pass that is stopped, with the dispatcher step by step).
  \<^item> Putting it together: \<open>Config\<close>, \<open>Service_Config\<close> (settings, environment, flags), \<open>Builders\<close> (\<open>builders/\<close>, the constructors of
    the services and the implementation behind each interface), \<open>Service_Run\<close> (the services that were built, run on the
    database), \<open>Commands\<close> (\<open>cmd/watch.go\<close>, \<open>cmd/resync.go\<close>). This theory compares the filters of live data with those of the database.

  \<^bold>\<open>Concurrency.\<close>
  The goroutines of a component are a step relation, and its properties hold in every interleaving. One turn of a loop is one step: the
  maps of the service are guarded by one mutex for that long. Channels are buffers with their capacity;
  a send in a \<open>select\<close> with a default is dropped when the buffer is full. A worker's transaction is one step, since
  the transactions of different workers are isolated. The pool of back-fill workers is proved to end and never to block.

  \<^bold>\<open>Loops and bounds.\<close>
  Loops are structural recursion over slices or functions with a termination proof; no definition takes fuel. The one loop
  that may not end, the counter of \<open>GetLogs\<close> over an \<open>int64\<close> range (\<open>rct_loop\<close>), is a partial function into \<open>option\<close>; that it returns
  for every range below the limit of the type is a property. The capacities of channels are those of the code.

  \<^bold>\<open>Defects.\<close>
  Where the code does something other than what it means to, the model does what the code does, and a lemma or a property
  says so: a payload below a subscriber's start ends the server (\<open>Watch_Serve\<close>), a watcher that serves without syncing panics on a back-filled
  payload (\<open>Builders\<close>), flags without effect (\<open>Service_Config\<close>), a single missing height is not reported as a gap (\<open>Utils_Bins\<close>), a client that leaves
  early stays subscribed (\<open>Watch_Api\<close>), stopping a back-fill may hang or crash (\<open>Backfill_Stop\<close>), and others named in their theories.

  \<^bold>\<open>Not modelled.\<close>
  The text of log messages; the encoding of JSON; the entry point, the config file and the version text (\<open>main.go\<close>, \<open>cmd/root.go\<close>,
  \<open>cmd/version.go\<close>), which only call libraries; the demonstration client (\<open>cmd/streamEthSubscribe.go\<close>, \<open>client/\<close>), which prints; starting an IPFS node
  (\<open>ipfs/builders.go\<close>); mocks and fixtures of the tests; time, except as the order of steps; the plans and locks of Postgres, and the interleaving of two
  transactions below the level of their effects.
\<close>

section \<open>Live data and history agree\<close>

text \<open>
  A subscriber gets new blocks through the response filterer and old ones through the retriever. The
  two decide the same question, on the metadata of a payload and on the rows of the database; where
  they differ is stated exactly.
\<close>

definition fits66 :: "string list \<Rightarrow> bool" where
  "fits66 ss \<longleftrightarrow> list_all (\<lambda>s. length s \<le> 66) ss"

lemma varchar66s_fits [simp]: "fits66 ss \<Longrightarrow> varchar66s ss = ss"
  by (induction ss) (simp_all add: fits66_def varchar66s_def)

text \<open>
  C31. The filter on transactions. With addresses of ordinary length, the database query keeps a
  transaction exactly if the live filter keeps it and, where both senders and receivers are given, the
  transaction matches both lists: then the live filter accepts either.
\<close>

theorem tx_filters_agree:
  assumes "fits66 (tf_Src f)" "fits66 (tf_Dst f)"
  shows "tx_where f t \<longleftrightarrow> checkTransactionAddrs (tf_Src f) (tf_Dst f) (tm_Src t) (tm_Dst t)
    \<and> (tf_Src f \<noteq> [] \<and> tf_Dst f \<noteq> [] \<longrightarrow> tm_Src t \<in> set (tf_Src f) \<and> tm_Dst t \<in> set (tf_Dst f))"
  using assms by (auto simp: tx_where_def checkTransactionAddrs_def list_ex_iff)

theorem tx_filters_agree_witness:
  "checkTransactionAddrs [''0xa''] [''0xb''] ''0xa'' ''0xc''
    \<and> \<not> tx_where \<lparr>tf_Off = False, tf_Src = [''0xa''], tf_Dst = [''0xb'']\<rparr> (zero_TxModel\<lparr>tm_Src := ''0xa'', tm_Dst := ''0xc''\<rparr>)"
  using tx_filters_agree [of "\<lparr>tf_Off = False, tf_Src = [''0xa''], tf_Dst = [''0xb'']\<rparr>"
    "zero_TxModel\<lparr>tm_Src := ''0xa'', tm_Dst := ''0xc''\<rparr>"]
  by (simp add: fits66_def checkTransactionAddrs_def)

subsection \<open>Receipts\<close>

lemma topics_where_iff:
  "topics_where topics r \<longleftrightarrow>
   (\<forall>j<length topics. j < 4 \<longrightarrow> topics ! j \<noteq> [] \<longrightarrow> overlaps (topic_column r j) (varchar66s (topics ! j)))"
  by (auto simp: topics_where_def topic_clauses_def list_all_iff in_set_enumerate_eq)

lemma topic_slot_overlaps:
  assumes "\<forall>ts\<in>set topics. fits66 ts"
  shows "topic_slot_ok topics j col \<longleftrightarrow> (j < length topics \<longrightarrow> topics ! j \<noteq> [] \<longrightarrow> overlaps col (varchar66s (topics ! j)))"
  using assms by (auto simp: topic_slot_ok_def overlaps_def list_ex_iff)

lemma all_less_4: "(\<forall>j<n. j < 4 \<longrightarrow> P j) \<longleftrightarrow> (0 < n \<longrightarrow> P 0) \<and> (1 < n \<longrightarrow> P 1) \<and> (2 < n \<longrightarrow> P 2) \<and> (3 < n \<longrightarrow> P (3 :: nat))"
proof -
  have "j < 4 \<longleftrightarrow> j = 0 \<or> j = 1 \<or> j = 2 \<or> j = 3" for j :: nat by auto
  then show ?thesis by auto
qed

lemma filterMatch_topics:
  assumes "\<forall>ts\<in>set topics. fits66 ts"
  shows "filterMatch topics (metaTopics r) \<longleftrightarrow> topics_where topics r"
  unfolding metaTopics_def filterMatch_four topic_slot_overlaps [OF assms] topics_where_iff all_less_4
  by (simp add: topic_column_def)

lemma topics_where_none: "\<not> hasTopics topics \<Longrightarrow> topics_where topics r"
  by (auto simp: hasTopics_def topics_where_iff list_ex_iff)

lemma int4s_id: "int4s ids = Ok ids' \<Longrightarrow> ids' = ids"
  unfolding int4s_def outcome_map_Ok_iff by (induction rule: list_all2_induct) auto

lemma rct_where_iff:
  assumes "rct_where f ids = Ok cond"
  shows "cond r \<longleftrightarrow> (rf_MatchTxs f \<and> rm_TxID r \<in> set ids)
    \<or> (if rf_LogAddresses f \<noteq> [] then overlaps (rm_LogContracts r) (varchar66s (rf_LogAddresses f)) \<and> topics_where (rf_Topics f) r
       else if hasTopics (rf_Topics f) then topics_where (rf_Topics f) r else \<not> rf_MatchTxs f \<or> ids = [])"
  using assms topics_where_none [of "rf_Topics f" r]
  by (cases "rf_LogAddresses f = []"; cases "hasTopics (rf_Topics f)")
     (auto simp: rct_where_def Let_def dest!: int4s_id split: if_splits)

text \<open>
  C32. The filter on receipts. Where the transactions that were selected correspond (the ids in the
  database, the hashes in the payload, none unless \<open>MatchTxs\<close> is set), the database query keeps a
  receipt exactly if the live filter keeps it, with one exception: with neither addresses nor topics,
  \<open>MatchTxs\<close> restricts the query to the receipts of the selected transactions, and the live filter to
  nothing.
\<close>

theorem rct_filters_agree:
  assumes "rct_where f ids = Ok cond" "fits66 (rf_LogAddresses f)" "\<forall>ts\<in>set (rf_Topics f). fits66 ts"
    and "hashes = [] \<longleftrightarrow> \<not> rf_MatchTxs f \<or> ids = []"
    and "r_TxHash rct \<in> set hashes \<longleftrightarrow> rf_MatchTxs f \<and> rm_TxID r \<in> set ids"
  shows "cond r \<longleftrightarrow> checkReceipts rct (rf_Topics f) (metaTopics r) (rf_LogAddresses f) (rm_LogContracts r) hashes
    \<and> (rf_LogAddresses f = [] \<and> \<not> hasTopics (rf_Topics f) \<and> rf_MatchTxs f \<and> ids \<noteq> [] \<longrightarrow> rm_TxID r \<in> set ids)"
proof -
  have ov: "overlaps xs ys \<longleftrightarrow> set ys \<inter> set xs \<noteq> {}" for xs ys :: "string list" by (auto simp: overlaps_def list_ex_iff)
  show ?thesis
    unfolding rct_where_iff [OF assms(1)] checkReceipts_iff filterMatch_topics [OF assms(3)] varchar66s_fits [OF assms(2)] ov assms(4,5)
    using topics_where_none [of "rf_Topics f" r] by (auto simp: hasTopics_def)
qed

theorem rct_filters_agree_witness:
  "checkReceipts sample_rct [] (metaTopics zero_ReceiptModel) [] [] [[4]]
    \<and> (\<exists>cond. rct_where \<lparr>rf_Off = False, rf_MatchTxs = True, rf_LogAddresses = [], rf_Topics = []\<rparr> [1] = Ok cond
        \<and> \<not> cond zero_ReceiptModel)"
proof -
  let ?f = "\<lparr>rf_Off = False, rf_MatchTxs = True, rf_LogAddresses = [], rf_Topics = []\<rparr>"
  have run: "rct_where ?f [1] = Ok (\<lambda>r. rm_TxID r \<in> {1})"
    by (simp add: rct_where_def int4s_def hasTopics_def pg_int4_def)
  have "fits66 (rf_LogAddresses ?f)" "\<forall>ts\<in>set (rf_Topics ?f). fits66 ts" by (simp_all add: fits66_def)
  moreover have "r_TxHash sample_rct \<in> set [[4]] \<longleftrightarrow> rf_MatchTxs ?f \<and> rm_TxID zero_ReceiptModel \<in> set [1]"
    by (simp add: sample_rct_def zero_ReceiptModel_def)
  ultimately have "\<not> rm_TxID zero_ReceiptModel \<in> {1}"
    using rct_filters_agree [OF run, of "[[4]]" sample_rct zero_ReceiptModel] by (auto simp: hasTopics_def zero_ReceiptModel_def)
  then show ?thesis using run by (auto simp: checkReceipts_def filterMatch_def metaTopics_def zero_ReceiptModel_def)
qed

subsection \<open>State and storage nodes\<close>

text \<open>How the indexer writes a leaf key: the null hash of a node without one as the empty text.\<close>

definition key_column :: "Hash \<Rightarrow> string" where
  "key_column k = (if k = nullHash then '''' else Hash_Hex k)"

lemma Hash_Hex_inj [simp]: "Hash_Hex a = Hash_Hex b \<longleftrightarrow> a = b"
  by (simp add: Hash_Hex_def hex_EncodeToString_inj)

lemma Hash_Hex_length: "length (Hash_Hex h) = 2 + 2 * length h"
proof -
  have "length (hex_EncodeToString h) = 2 * length h" by (induction h) simp_all
  then show ?thesis by (simp add: Hash_Hex_def)
qed

lemma Hash_Hex_not_empty [simp]: "Hash_Hex h \<noteq> ''''" "'''' \<noteq> Hash_Hex h"
  by (simp_all add: Hash_Hex_def)

lemma key_column_member:
  assumes "\<forall>h\<in>set hs. length h = 32" "nullHash \<notin> set hs"
  shows "key_column k \<in> set (varchar66s (map Hash_Hex hs)) \<longleftrightarrow> k \<in> set hs"
proof -
  have "fits66 (map Hash_Hex hs)" using assms(1) by (auto simp: fits66_def list_all_iff Hash_Hex_length)
  then show ?thesis using assms(2) by (auto simp: key_column_def)
qed

lemma leaf_keys_hex: "leaf_keys geth addrs = map Hash_Hex (addressKeys geth addrs)"
  by (simp add: leaf_keys_def addressKeys_def comp_def)

lemma leaf_type: "ResolveFromNodeType ty = 2 \<longleftrightarrow> ty = NodeLeaf"
  by (cases ty) simp_all

text \<open>
  C33. The filters on state and storage nodes. On the row of a node, with hashes of 32 bytes, no address
  that hashes to zero and storage keys given in the canonical form, the query for state nodes keeps
  exactly what the live filter keeps; the query for storage nodes keeps what the live filter keeps
  and is a leaf, unless intermediate nodes are wanted: the live filter never looks at the type of a
  storage node.
\<close>

theorem node_filters_agree:
  assumes "\<forall>h\<in>set (addressKeys geth (sf_Addresses f) @ addressKeys geth (of_Addresses g) @ map (HexToHash geth) (of_StorageKeys g)).
      length h = 32 \<and> h \<noteq> nullHash"
    and "map (\<lambda>k. Hash_Hex (HexToHash geth k)) (of_StorageKeys g) = of_StorageKeys g"
    and "sm_StateKey s = key_column key" "sm_NodeType s = ResolveFromNodeType ty"
    and "om_StorageKey r = key_column skey" "om_NodeType r = ResolveFromNodeType sty"
  shows "(state_where geth f s \<longleftrightarrow>
      checkNodeKeys (addressKeys geth (sf_Addresses f)) key \<and> (ty = NodeLeaf \<or> sf_IntermediateNodes f))
    \<and> (storage_where geth g r s \<longleftrightarrow>
      checkNodeKeys (addressKeys geth (of_Addresses g)) key \<and> checkNodeKeys (map (HexToHash geth) (of_StorageKeys g)) skey
      \<and> (sty = NodeLeaf \<or> of_IntermediateNodes g))"
proof -
  have texts: "varchar66s (of_StorageKeys g) = varchar66s (map Hash_Hex (map (HexToHash geth) (of_StorageKeys g)))"
    using assms(2) by (simp add: comp_def)
  have "key_column key \<in> set (varchar66s (leaf_keys geth (sf_Addresses f))) \<longleftrightarrow> key \<in> set (addressKeys geth (sf_Addresses f))"
    "key_column key \<in> set (varchar66s (leaf_keys geth (of_Addresses g))) \<longleftrightarrow> key \<in> set (addressKeys geth (of_Addresses g))"
    "key_column skey \<in> set (varchar66s (of_StorageKeys g)) \<longleftrightarrow> skey \<in> set (map (HexToHash geth) (of_StorageKeys g))"
    unfolding leaf_keys_hex texts using assms(1) by (intro key_column_member; auto)+
  then show ?thesis unfolding state_where_def storage_where_def checkNodeKeys_iff assms(3-6) leaf_type
    by (auto simp: addressKeys_def)
qed

theorem node_filters_agree_witness:
  "storage_where sample_geth \<lparr>of_Off = False, of_Addresses = [], of_StorageKeys = [], of_IntermediateNodes = False\<rparr>
      \<lparr>om_ID = 1, om_StateID = 1, om_Path = [], om_StorageKey = '''', om_NodeType = 0, om_CID = ''c'', om_MhKey = ''k'', om_Diff = False\<rparr>
      \<lparr>sm_ID = 1, sm_HeaderID = 1, sm_Path = [], sm_StateKey = Hash_Hex [1], sm_NodeType = 2, sm_CID = ''c'', sm_MhKey = ''k'', sm_Diff = False\<rparr>
    \<longleftrightarrow> False"
  using node_filters_agree [of sample_geth "\<lparr>sf_Off = False, sf_Addresses = [], sf_IntermediateNodes = False\<rparr>"
      "\<lparr>of_Off = False, of_Addresses = [], of_StorageKeys = [], of_IntermediateNodes = False\<rparr>"
      "\<lparr>sm_ID = 1, sm_HeaderID = 1, sm_Path = [], sm_StateKey = Hash_Hex [1], sm_NodeType = 2, sm_CID = ''c'', sm_MhKey = ''k'', sm_Diff = False\<rparr>"
      "[1]" NodeLeaf
      "\<lparr>om_ID = 1, om_StateID = 1, om_Path = [], om_StorageKey = '''', om_NodeType = 0, om_CID = ''c'', om_MhKey = ''k'', om_Diff = False\<rparr>"
      nullHash NodeBranch]
  by (simp add: key_column_def nullHash_def addressKeys_def numeral_eq_Suc)

end
